(* ===== verification/Prelude.thy ===== *)
theory Prelude
  imports Main "HOL-Library.Word"
begin

text \<open>
  Shared material of the development: the machine integer types of the code, the faults a
  C++ function can end in, the little-endian memory image of unsigned integers (the layout
  that \<open>reinterpret_cast\<close> exposes on the supported targets), decimal printing, and the
  generic list, bit and map lemmas that the component theories use.
\<close>

unbundle bit_operations_syntax

section \<open>Types of the code\<close>

type_synonym u8 = "8 word"
type_synonym u16 = "16 word"
type_synonym u32 = "32 word"
type_synonym u64 = "64 word"

text \<open>
  A \<open>float\<close> is only stored, copied and byte-swapped by the modelled code, so it is carried
  as its 32-bit IEEE pattern, which is what the unions in \<open>network_utils.h\<close> expose.
\<close>

type_synonym f32 = "32 word"

type_synonym bytes = "u8 list"

text \<open>
  What ends a call other than a normal return: the exceptions that the code throws, and
  reads or writes outside an object, which C++ leaves undefined.
\<close>

datatype fault =
    RuntimeError string
  | InvalidArgument string
  | OutOfRange string
  | UndefinedBehaviour string

type_synonym 'a result = "fault + 'a"

text \<open>A statement and the rest of the function; an exception skips the rest.\<close>

fun and_then :: "'a result \<Rightarrow> ('a \<Rightarrow> 'b result) \<Rightarrow> 'b result" where
  "and_then (Inl e) f = Inl e"
| "and_then (Inr x) f = f x"

lemma and_then_Inr: "and_then r f = Inr y \<longleftrightarrow> (\<exists>x. r = Inr x \<and> f x = Inr y)"
  by (cases r) auto

section \<open>Collections of rules\<close>

named_theorems layout \<open>sizes and offsets of memory images\<close>
named_theorems wire \<open>byte order conversions\<close>
named_theorems steps \<open>unfolding of state-changing operations\<close>

section \<open>Bits by byte\<close>

text \<open>
  A bit index is split into a byte \<open>k\<close> and a position \<open>r\<close> in it; equations between words
  are then proved byte by byte.
\<close>

lemma byte_index_2: "(k::nat) < 2 \<Longrightarrow> k = 0 \<or> k = 1"
  by arith

lemma byte_index_4: "(k::nat) < 4 \<Longrightarrow> k = 0 \<or> k = 1 \<or> k = 2 \<or> k = 3"
  by arith

lemma byte_index_8:
  "(k::nat) < 8 \<Longrightarrow> k = 0 \<or> k = 1 \<or> k = 2 \<or> k = 3 \<or> k = 4 \<or> k = 5 \<or> k = 6 \<or> k = 7"
  by arith

lemma word_eq_bytewise:
  fixes x y :: "'a::len word"
  assumes len: "LENGTH('a) = 8 * m"
    and eq: "\<And>k r. k < m \<Longrightarrow> r < 8 \<Longrightarrow> bit x (8 * k + r) = bit y (8 * k + r)"
  shows "x = y"
proof (rule bit_word_eqI)
  fix n assume "n < LENGTH('a)"
  with len have "n div 8 < m" and "n mod 8 < 8" by auto
  from eq [OF this] show "bit x n = bit y n" by simp
qed

section \<open>Memory images of integers\<close>

definition store16 :: "u16 \<Rightarrow> bytes" where
  "store16 x = [ucast x, ucast (drop_bit 8 x)]"

definition store32 :: "u32 \<Rightarrow> bytes" where
  "store32 x = [ucast x, ucast (drop_bit 8 x), ucast (drop_bit 16 x), ucast (drop_bit 24 x)]"

definition store64 :: "u64 \<Rightarrow> bytes" where
  "store64 x = [ucast x, ucast (drop_bit 8 x), ucast (drop_bit 16 x), ucast (drop_bit 24 x),
     ucast (drop_bit 32 x), ucast (drop_bit 40 x), ucast (drop_bit 48 x), ucast (drop_bit 56 x)]"

text \<open>
  A load reads the bytes at the front of the list. A list that is too short stands for a
  read past the object: the models check the length first wherever the code can get there,
  so the value 0 given here is never used as data.
\<close>

fun load8 :: "bytes \<Rightarrow> u8" where
  "load8 (a # r) = a"
| "load8 [] = 0"

fun load16 :: "bytes \<Rightarrow> u16" where
  "load16 (a # b # r) = ucast a OR push_bit 8 (ucast b)"
| "load16 _ = 0"

fun load32 :: "bytes \<Rightarrow> u32" where
  "load32 (a # b # c # d # r) =
     ucast a OR push_bit 8 (ucast b) OR push_bit 16 (ucast c) OR push_bit 24 (ucast d)"
| "load32 _ = 0"

fun load64 :: "bytes \<Rightarrow> u64" where
  "load64 (a # b # c # d # e # f # g # h # r) =
     ucast a OR push_bit 8 (ucast b) OR push_bit 16 (ucast c) OR push_bit 24 (ucast d)
     OR push_bit 32 (ucast e) OR push_bit 40 (ucast f) OR push_bit 48 (ucast g)
     OR push_bit 56 (ucast h)"
| "load64 _ = 0"

lemma length_store [simp, layout]:
  "length (store16 x) = 2" "length (store32 y) = 4" "length (store64 z) = 8"
  by (simp_all add: store16_def store32_def store64_def)

lemma load16_store16 [simp]: "load16 (store16 x @ rs) = x"
proof (rule word_eq_bytewise [where m = 2])
  fix k r :: nat assume "k < 2" "r < 8"
  then show "bit (load16 (store16 x @ rs)) (8 * k + r) = bit x (8 * k + r)"
    unfolding store16_def by - (drule byte_index_2, elim disjE, auto simp: bit_simps add.commute)
qed simp

lemma load32_store32 [simp]: "load32 (store32 x @ rs) = x"
proof (rule word_eq_bytewise [where m = 4])
  fix k r :: nat assume "k < 4" "r < 8"
  then show "bit (load32 (store32 x @ rs)) (8 * k + r) = bit x (8 * k + r)"
    unfolding store32_def by - (drule byte_index_4, elim disjE, auto simp: bit_simps add.commute)
qed simp

lemma load64_store64 [simp]: "load64 (store64 x @ rs) = x"
proof (rule word_eq_bytewise [where m = 8])
  fix k r :: nat assume "k < 8" "r < 8"
  then show "bit (load64 (store64 x @ rs)) (8 * k + r) = bit x (8 * k + r)"
    unfolding store64_def by - (drule byte_index_8, elim disjE, auto simp: bit_simps add.commute)
qed simp

lemma load_store_end [simp]:
  "load16 (store16 x) = x" "load32 (store32 y) = y" "load64 (store64 z) = z"
  using load16_store16 [of x "[]"] load32_store32 [of y "[]"] load64_store64 [of z "[]"]
  by simp_all

lemma byte_high_bit [simp]: "8 \<le> m \<Longrightarrow> \<not> bit (a :: u8) m"
  using bit_imp_le_length [of a m] by auto

lemma store16_load16: "2 \<le> length bs \<Longrightarrow> store16 (load16 bs) = take 2 bs"
  by (cases bs rule: load16.cases) (auto simp: store16_def intro!: bit_word_eqI simp: bit_simps)

lemma store32_load32: "4 \<le> length bs \<Longrightarrow> store32 (load32 bs) = take 4 bs"
  by (cases bs rule: load32.cases) (auto simp: store32_def intro!: bit_word_eqI simp: bit_simps)

lemma store64_load64: "8 \<le> length bs \<Longrightarrow> store64 (load64 bs) = take 8 bs"
  by (cases bs rule: load64.cases) (auto simp: store64_def intro!: bit_word_eqI simp: bit_simps)

lemmas store_load [simp] = store16_load16 store32_load32 store64_load64

lemma load8_take1: "1 \<le> length bs \<Longrightarrow> [load8 bs] = take 1 bs"
  by (cases bs) auto

lemma Cons_load8: "1 \<le> length bs \<Longrightarrow> load8 bs # rs = take 1 bs @ rs"
  by (cases bs) auto

lemma take_append_take: "take i bs @ take j (drop i bs) = take (i + j) bs"
  "take i bs @ take j (drop i bs) @ rs = take (i + j) bs @ rs"
  by (simp_all add: take_add)

lemma drop_1_Cons: "drop 1 (x # xs) = xs"
  by simp

text \<open>Reading a field at an offset of a structure.\<close>

lemma drop_store [simp, layout]:
  "2 \<le> n \<Longrightarrow> drop n (store16 x) = []"
  "4 \<le> n \<Longrightarrow> drop n (store32 y) = []"
  "8 \<le> n \<Longrightarrow> drop n (store64 z) = []"
  by simp_all

section \<open>Decimal printing and reading\<close>

text \<open>\<open>std::to_string\<close> on an unsigned value.\<close>

fun string_of_nat :: "nat \<Rightarrow> string" where
  "string_of_nat n =
     (if n < 10 then [char_of (48 + n)] else string_of_nat (n div 10) @ [char_of (48 + n mod 10)])"

declare string_of_nat.simps [simp del]

definition is_digit :: "char \<Rightarrow> bool" where
  "is_digit c \<longleftrightarrow> 48 \<le> (of_char c :: nat) \<and> (of_char c :: nat) \<le> 57"

fun nat_of_digits :: "nat \<Rightarrow> string \<Rightarrow> nat" where
  "nat_of_digits acc [] = acc"
| "nat_of_digits acc (c # cs) = nat_of_digits (acc * 10 + (of_char c - 48)) cs"

lemma nat_of_digits_append:
  "nat_of_digits acc (xs @ ys) = nat_of_digits (nat_of_digits acc xs) ys"
  by (induction xs arbitrary: acc) auto

lemma of_char_digit [simp]:
  "d < 10 \<Longrightarrow> (of_char (char_of (48 + d :: nat)) :: nat) = 48 + d"
  by (simp add: of_char_of)

lemma string_of_nat_ne [simp]: "string_of_nat n \<noteq> []"
  by (subst string_of_nat.simps) simp

lemma string_of_nat_digits: "list_all is_digit (string_of_nat n)"
proof (induction n rule: string_of_nat.induct)
  case (1 n)
  show ?case
    by (cases "n < 10") (use 1 in \<open>auto simp: string_of_nat.simps [of n] is_digit_def\<close>)
qed

lemma nat_of_digits_string_of_nat: "nat_of_digits 0 (string_of_nat n) = n"
proof (induction n rule: string_of_nat.induct)
  case (1 n)
  show ?case
    by (cases "n < 10") (use 1 in \<open>auto simp: string_of_nat.simps [of n] nat_of_digits_append\<close>)
qed

section \<open>Wrap-around\<close>

lemma mod_wrap_neg: "- m \<le> x \<Longrightarrow> x < 0 \<Longrightarrow> x mod m = x + m" for x m :: int
  using mod_pos_pos_trivial [of "x + m" m] by simp

lemma uint_bounds16: "0 \<le> uint (x :: u16)" "uint (x :: u16) < 65536"
  using uint_range_size [of x] by (auto simp: word_size)

lemma uint_bounds32: "0 \<le> uint (x :: u32)" "uint (x :: u32) < 4294967296"
  using uint_range_size [of x] by (auto simp: word_size)

lemma unat_bound32: "unat (x :: u32) < 4294967296"
  using unsigned_less [where 'b = 32 and 'a = nat and w = x] by simp

lemma unat_of_nat32: "n < 2 ^ 32 \<Longrightarrow> unat (of_nat n :: u32) = n"
  unfolding unat_of_nat by simp

lemma uint_neg32: "x \<noteq> 0 \<Longrightarrow> uint (- x) = 4294967296 - uint x" for x :: u32
proof -
  assume "x \<noteq> 0"
  then have pos: "0 < uint x"
    using uint_bounds32 (1) [of x] by (metis order_le_less uint_0_iff)
  have "uint (- x) = (- uint x) mod 4294967296"
    by (simp add: uint_word_ariths)
  also have "\<dots> = - uint x + 4294967296"
    by (rule mod_wrap_neg) (use pos uint_bounds32 (2) [of x] in linarith)+
  finally show ?thesis by simp
qed

lemma unat_neg32: "x \<noteq> 0 \<Longrightarrow> unat (- x) = 4294967296 - unat x" for x :: u32
  unfolding unat_eq_nat_uint uint_neg32 using uint_bounds32 [of x] by arith

lemma uint_ucast_32_64: "uint (ucast (w :: u32) :: u64) = uint w"
  using uint_bounds32 [of w] by (simp add: unsigned_ucast_eq take_bit_int_eq_self)

lemma unat_ucast_32_64: "unat (ucast (w :: u32) :: u64) = unat w"
  unfolding unat_eq_nat_uint uint_ucast_32_64 ..

lemma signed_take_bit_63:
  "- 9223372036854775808 \<le> k \<Longrightarrow> k < 9223372036854775808 \<Longrightarrow> signed_take_bit 63 k = k" for k :: int
  by (rule signed_take_bit_int_eq_self) simp_all

lemma sint_ucast_32_64: "sint (ucast (w :: u32) :: u64) = uint w"
proof -
  have "signed_take_bit 63 (uint w) = uint w"
    by (rule signed_take_bit_63) (use uint_bounds32 [of w] in linarith)+
  then show ?thesis by (simp add: sint_uint uint_ucast_32_64)
qed

lemma sint_neg_ucast_32_64: "sint (- (ucast (w :: u32)) :: u64) = - uint w"
proof -
  have "- (ucast w :: u64) = word_of_int (- uint w)"
    by (metis of_int_minus of_int_uint uint_ucast_32_64)
  then have "sint (- (ucast w :: u64)) = signed_take_bit 63 (- uint w)"
    by (simp only: signed_of_int) simp
  also have "\<dots> = - uint w"
    by (rule signed_take_bit_63) (use uint_bounds32 [of w] in linarith)+
  finally show ?thesis .
qed

section \<open>Lists\<close>

lemma take_append_exact [simp]: "length xs = n \<Longrightarrow> take n (xs @ ys) = xs"
  by simp

lemma drop_append_exact [simp]: "length xs = n \<Longrightarrow> drop n (xs @ ys) = ys"
  by simp

lemma length_concat_map_const:
  "(\<And>x. length (f x) = n) \<Longrightarrow> length (concat (map f xs)) = n * length xs"
  by (induction xs) auto

lemma nth_update_self: "i < length xs \<Longrightarrow> xs[i := v] ! i = v"
  by simp

text \<open>Overwriting part of a buffer; nothing is appended beyond its end by the callers.\<close>

definition write_at :: "nat \<Rightarrow> bytes \<Rightarrow> bytes \<Rightarrow> bytes" where
  "write_at off bs mem = take off mem @ bs @ drop (off + length bs) mem"

lemma length_write_at: "off + length bs \<le> length mem \<Longrightarrow> length (write_at off bs mem) = length mem"
  by (simp add: write_at_def)

lemma write_at_append [simp]: "length pre = off \<Longrightarrow> write_at off bs (pre @ mem) = pre @ bs @ drop (length bs) mem"
  by (simp add: write_at_def)

lemma write_at_0 [simp]: "write_at 0 bs mem = bs @ drop (length bs) mem"
  by (simp add: write_at_def)

section \<open>Characters\<close>

text \<open>A \<open>std::string\<close> holds bytes.\<close>

definition chars_of :: "bytes \<Rightarrow> string" where
  "chars_of bs = map (\<lambda>b. char_of (unat b)) bs"

definition bytes_of_string :: "string \<Rightarrow> bytes" where
  "bytes_of_string s = map (\<lambda>c. of_nat (of_char c)) s"

lemma unat_of_char: "unat (of_nat (of_char c) :: u8) = of_char c"
  by (simp add: unsigned_of_nat take_bit_nat_eq_self)

lemma chars_of_bytes [simp]: "chars_of (bytes_of_string s) = s"
  by (simp add: chars_of_def bytes_of_string_def comp_def unat_of_char)

lemma length_chars [simp]: "length (chars_of bs) = length bs" "length (bytes_of_string s) = length s"
  by (simp_all add: chars_of_def bytes_of_string_def)

lemma bytes_of_string_eq_Nil [simp]: "bytes_of_string s = [] \<longleftrightarrow> s = []"
  by (simp add: bytes_of_string_def)

lemma take_bytes_of_string: "take n (bytes_of_string s) = bytes_of_string (take n s)"
  by (simp add: bytes_of_string_def take_map)

end
