(* ===== verification/NetworkUtils.thy ===== *)
theory NetworkUtils
  imports Prelude
begin

text \<open>
  \<open>common/include/wvb_common/network_utils.h\<close> (byte order conversions on a little-endian
  host) and \<open>common/include/wvb_common/socket_addr.h\<close> (IPv4 addresses). The locale
  \<open>net_order\<close> states what every conversion pair promises to the packet code.
\<close>

section \<open>Byte order conversions\<close>

definition htonl :: "u32 \<Rightarrow> u32" where
  "htonl host_long =
     drop_bit 24 (host_long AND 0xFF000000) OR drop_bit 8 (host_long AND 0x00FF0000)
     OR push_bit 8 (host_long AND 0x0000FF00) OR push_bit 24 (host_long AND 0x000000FF)"

definition htons :: "u16 \<Rightarrow> u16" where
  "htons host_short = drop_bit 8 (host_short AND 0xFF00) OR push_bit 8 (host_short AND 0x00FF)"

definition htonll :: "u64 \<Rightarrow> u64" where
  "htonll host_longlong =
     drop_bit 56 (host_longlong AND 0xFF00000000000000)
     OR drop_bit 40 (host_longlong AND 0x00FF000000000000)
     OR drop_bit 24 (host_longlong AND 0x0000FF0000000000)
     OR drop_bit 8 (host_longlong AND 0x000000FF00000000)
     OR push_bit 8 (host_longlong AND 0x00000000FF000000)
     OR push_bit 24 (host_longlong AND 0x0000000000FF0000)
     OR push_bit 40 (host_longlong AND 0x000000000000FF00)
     OR push_bit 56 (host_longlong AND 0x00000000000000FF)"

definition ntohl :: "u32 \<Rightarrow> u32" where
  "ntohl net_long = htonl net_long"

definition ntohs :: "u16 \<Rightarrow> u16" where
  "ntohs net_short = htons net_short"

definition ntohll :: "u64 \<Rightarrow> u64" where
  "ntohll net_longlong = htonll net_longlong"

text \<open>A float is its bit pattern, so the unions of the code disappear.\<close>

definition htonf :: "f32 \<Rightarrow> u32" where
  "htonf host_float = htonl host_float"

definition ntohf :: "u32 \<Rightarrow> f32" where
  "ntohf net_float = ntohl net_float"

section \<open>The promise of a conversion pair\<close>

locale net_order =
  fixes hton ntoh :: "'a \<Rightarrow> 'a"
    and store :: "'a \<Rightarrow> bytes"
    and load :: "bytes \<Rightarrow> 'a"
    and n :: nat
  assumes ntoh_hton: "ntoh (hton x) = x"
    and hton_ntoh: "hton (ntoh x) = x"
    and store_hton: "store (hton x) = rev (store x)"
    and load_store: "load (store x @ rs) = x"
    and store_size: "length (store x) = n"
begin

lemma hton_inject: "hton x = hton y \<longleftrightarrow> x = y"
  by (metis ntoh_hton)

lemma unwire_wire: "ntoh (load (store (hton x) @ rs)) = x"
  by (simp add: load_store ntoh_hton)

text \<open>The byte at the lowest address is the most significant one.\<close>

lemma wire_big_endian: "i < n \<Longrightarrow> store (hton x) ! i = store x ! (n - Suc i)"
  by (simp add: store_hton rev_nth store_size)

lemma wire_determines: "store (hton x) = store (hton y) \<longleftrightarrow> x = y"
  by (metis append_Nil2 unwire_wire)

end

section \<open>The conversions keep it\<close>

lemma byte_masks_32:
  "(0xFF000000 :: u32) = push_bit 24 (mask 8)" "(0x00FF0000 :: u32) = push_bit 16 (mask 8)"
  "(0x0000FF00 :: u32) = push_bit 8 (mask 8)" "(0xFF :: u32) = mask 8"
  by (simp_all add: mask_eq_exp_minus_1)

lemma byte_masks_16: "(0xFF00 :: u16) = push_bit 8 (mask 8)" "(0xFF :: u16) = mask 8"
  by (simp_all add: mask_eq_exp_minus_1)

lemma byte_masks_64:
  "(0xFF00000000000000 :: u64) = push_bit 56 (mask 8)"
  "(0x00FF000000000000 :: u64) = push_bit 48 (mask 8)"
  "(0x0000FF0000000000 :: u64) = push_bit 40 (mask 8)"
  "(0x000000FF00000000 :: u64) = push_bit 32 (mask 8)"
  "(0x00000000FF000000 :: u64) = push_bit 24 (mask 8)"
  "(0x0000000000FF0000 :: u64) = push_bit 16 (mask 8)"
  "(0x000000000000FF00 :: u64) = push_bit 8 (mask 8)"
  "(0xFF :: u64) = mask 8"
  by (simp_all add: mask_eq_exp_minus_1)

lemma bit_htonl: "r < 8 \<Longrightarrow> k < 4 \<Longrightarrow> bit (htonl x) (8 * k + r) = bit x (8 * (3 - k) + r)"
  unfolding htonl_def byte_masks_32 by (drule byte_index_4, elim disjE) (auto simp: bit_simps)

lemma bit_htons: "r < 8 \<Longrightarrow> k < 2 \<Longrightarrow> bit (htons x) (8 * k + r) = bit x (8 * (1 - k) + r)"
  unfolding htons_def byte_masks_16 by (drule byte_index_2, elim disjE) (auto simp: bit_simps)

lemma bit_htonll: "r < 8 \<Longrightarrow> k < 8 \<Longrightarrow> bit (htonll x) (8 * k + r) = bit x (8 * (7 - k) + r)"
  unfolding htonll_def byte_masks_64 by (drule byte_index_8, elim disjE) (simp_all add: bit_simps)

lemma htonl_htonl [simp, wire]: "htonl (htonl x) = x"
  by (rule word_eq_bytewise [where m = 4]) (simp_all add: bit_htonl)

lemma htons_htons [simp, wire]: "htons (htons x) = x"
  by (rule word_eq_bytewise [where m = 2]) (simp_all add: bit_htons)

lemma htonll_htonll [simp, wire]: "htonll (htonll x) = x"
  by (rule word_eq_bytewise [where m = 8]) (simp_all add: bit_htonll)

lemma ntoh_hton [simp, wire]:
  "ntohl (htonl a) = a" "ntohs (htons b) = b" "ntohll (htonll c) = c" "ntohf (htonf d) = d"
  "htonl (ntohl a) = a" "htons (ntohs b) = b" "htonll (ntohll c) = c" "htonf (ntohf d) = d"
  by (simp_all add: ntohl_def ntohs_def ntohll_def ntohf_def htonf_def)

lemma store_htonl: "store32 (htonl x) = rev (store32 x)"
proof -
  have "ucast (drop_bit (8 * k) (htonl x)) = (ucast (drop_bit (8 * (3 - k)) x) :: u8)"
    if "k < 4" for k
    by (rule bit_word_eqI) (simp add: bit_simps that bit_htonl)
  from this [of 0] this [of 1] this [of 2] this [of 3] show ?thesis
    by (simp add: store32_def)
qed

lemma store_htons: "store16 (htons x) = rev (store16 x)"
proof -
  have "ucast (drop_bit (8 * k) (htons x)) = (ucast (drop_bit (8 * (1 - k)) x) :: u8)"
    if "k < 2" for k
    by (rule bit_word_eqI) (simp add: bit_simps that bit_htons)
  from this [of 0] this [of 1] show ?thesis
    by (simp add: store16_def)
qed

lemma store_htonll: "store64 (htonll x) = rev (store64 x)"
proof -
  have "ucast (drop_bit (8 * k) (htonll x)) = (ucast (drop_bit (8 * (7 - k)) x) :: u8)"
    if "k < 8" for k
    by (rule bit_word_eqI) (simp add: bit_simps that bit_htonll)
  from this [of 0] this [of 1] this [of 2] this [of 3] this [of 4] this [of 5] this [of 6]
    this [of 7] show ?thesis
    by (simp add: store64_def)
qed

interpretation net16: net_order htons ntohs store16 load16 2
  by unfold_locales (simp_all add: store_htons)

interpretation net32: net_order htonl ntohl store32 load32 4
  by unfold_locales (simp_all add: store_htonl)

interpretation net64: net_order htonll ntohll store64 load64 8
  by unfold_locales (simp_all add: store_htonll)

interpretation netf: net_order htonf ntohf store32 load32 4
  by unfold_locales (simp_all add: htonf_def ntohf_def store_htonl)

section \<open>Addresses\<close>

type_synonym InetAddr = u32

definition INET_ADDR :: "u8 \<Rightarrow> u8 \<Rightarrow> u8 \<Rightarrow> u8 \<Rightarrow> InetAddr" where
  "INET_ADDR a b c d =
     push_bit 24 (ucast a) OR push_bit 16 (ucast b) OR push_bit 8 (ucast c) OR ucast d"

definition INET_ADDR_ANY :: InetAddr where
  "INET_ADDR_ANY = 0"

definition INET_ADDR_LOOPBACK :: InetAddr where
  "INET_ADDR_LOOPBACK = 0x7F000001"

definition INET_ADDR_B1 :: "InetAddr \<Rightarrow> u32" where
  "INET_ADDR_B1 addr = drop_bit 24 addr AND 0xFF"

definition INET_ADDR_B2 :: "InetAddr \<Rightarrow> u32" where
  "INET_ADDR_B2 addr = drop_bit 16 addr AND 0xFF"

definition INET_ADDR_B3 :: "InetAddr \<Rightarrow> u32" where
  "INET_ADDR_B3 addr = drop_bit 8 addr AND 0xFF"

definition INET_ADDR_B4 :: "InetAddr \<Rightarrow> u32" where
  "INET_ADDR_B4 addr = addr AND 0xFF"

definition PORT_AUTO :: u16 where
  "PORT_AUTO = 0"

record SocketAddr =
  addr :: InetAddr
  port :: u16

definition any_addr :: SocketAddr where
  "any_addr = \<lparr>addr = INET_ADDR_ANY, port = PORT_AUTO\<rparr>"

definition is_any :: "SocketAddr \<Rightarrow> bool" where
  "is_any a \<longleftrightarrow> addr a = INET_ADDR_ANY"

definition is_port_auto :: "SocketAddr \<Rightarrow> bool" where
  "is_port_auto a \<longleftrightarrow> port a = PORT_AUTO"

definition string_of_u32 :: "u32 \<Rightarrow> string" where
  "string_of_u32 x = string_of_nat (unat x)"

definition addr_to_string :: "SocketAddr \<Rightarrow> string" where
  "addr_to_string a =
     string_of_u32 (drop_bit 24 (addr a) AND 0xFF) @ ''.''
     @ string_of_u32 (drop_bit 16 (addr a) AND 0xFF) @ ''.''
     @ string_of_u32 (drop_bit 8 (addr a) AND 0xFF) @ ''.''
     @ string_of_u32 (addr a AND 0xFF) @ '':'' @ string_of_nat (unat (port a))"

record VRCPServerCandidate =
  cand_addr :: SocketAddr
  cand_timestamp :: u32
  cand_interval :: u8

lemma bit_u8_high [simp]: "8 \<le> n \<Longrightarrow> \<not> bit (x :: u8) n"
  using bit_imp_le_length [of x n] by auto

lemma INET_ADDR_bytes:
  "INET_ADDR_B1 (INET_ADDR a b c d) = ucast a" "INET_ADDR_B2 (INET_ADDR a b c d) = ucast b"
  "INET_ADDR_B3 (INET_ADDR a b c d) = ucast c" "INET_ADDR_B4 (INET_ADDR a b c d) = ucast d"
  unfolding INET_ADDR_def INET_ADDR_B1_def INET_ADDR_B2_def INET_ADDR_B3_def INET_ADDR_B4_def
    byte_masks_32
  by (rule word_eq_bytewise [where m = 4], simp, drule byte_index_4, elim disjE,
      simp_all add: bit_simps)+

definition inet_addr_to_string :: "InetAddr \<Rightarrow> string" where
  "inet_addr_to_string a =
     string_of_u32 (INET_ADDR_B1 a) @ ''.'' @ string_of_u32 (INET_ADDR_B2 a) @ ''.''
     @ string_of_u32 (INET_ADDR_B3 a) @ ''.'' @ string_of_u32 (INET_ADDR_B4 a)"

definition socket_addr_to_string :: "SocketAddr \<Rightarrow> string" where
  "socket_addr_to_string a =
     inet_addr_to_string (addr a) @ '':'' @ string_of_nat (unat (port a))"

text \<open>The member function and the two free functions print the same text.\<close>

lemma socket_addr_to_string_eq: "socket_addr_to_string a = addr_to_string a"
  by (simp add: socket_addr_to_string_def inet_addr_to_string_def addr_to_string_def
      INET_ADDR_B1_def INET_ADDR_B2_def INET_ADDR_B3_def INET_ADDR_B4_def)

end
