(* ===== verification/RtpTypes.thy ===== *)
theory RtpTypes
  imports NetworkUtils
begin

text \<open>
  \<open>common/include/wvb_common/rtp.h\<close>: the RTP header with its VR extension, the payload
  types, and the comparisons and distances of timestamps and sequence numbers that wrap
  around. Integer promotions are written out: \<open>uint16_t\<close> operands are subtracted as
  \<open>int\<close> and the result is then compared as \<open>unsigned\<close>.
\<close>

section \<open>Header\<close>

definition RTP_FIRST_BYTE_BASE :: u8 where
  "RTP_FIRST_BYTE_BASE = 0b10000000"

definition RTP_MARKER_BIT :: u8 where
  "RTP_MARKER_BIT = 0b10000000"

definition RTP_PAYLOAD_TYPE_MASK :: u8 where
  "RTP_PAYLOAD_TYPE_MASK = 0b01111111"

datatype RTPPayloadType = PT_INVALID | PT_H264 | PT_OPUS

fun payload_value :: "RTPPayloadType \<Rightarrow> u8" where
  "payload_value PT_INVALID = 0"
| "payload_value PT_H264 = 97"
| "payload_value PT_OPUS = 143"

record RTPHeader =
  first_byte :: u8
  profile_byte :: u8
  sequence_number :: u16
  timestamp :: u32
  ssrc :: u32
  pose_timestamp_ext :: u32
  frame_id_ext :: u32

definition default_RTPHeader :: RTPHeader where
  "default_RTPHeader =
     \<lparr>first_byte = RTP_FIRST_BYTE_BASE, profile_byte = 0, sequence_number = 0, timestamp = 0,
      ssrc = 0, pose_timestamp_ext = 0, frame_id_ext = 0\<rparr>"

definition sizeof_RTPHeader :: nat where
  "sizeof_RTPHeader = 20"

text \<open>The packed memory image of the header and its reading through \<open>reinterpret_cast\<close>.\<close>

definition RTPHeader_bytes :: "RTPHeader \<Rightarrow> bytes" where
  "RTPHeader_bytes h =
     [first_byte h, profile_byte h] @ store16 (sequence_number h) @ store32 (timestamp h)
     @ store32 (ssrc h) @ store32 (pose_timestamp_ext h) @ store32 (frame_id_ext h)"

definition RTPHeader_of :: "bytes \<Rightarrow> RTPHeader" where
  "RTPHeader_of bs =
     \<lparr>first_byte = load8 bs, profile_byte = load8 (drop 1 bs),
      sequence_number = load16 (drop 2 bs), timestamp = load32 (drop 4 bs),
      ssrc = load32 (drop 8 bs), pose_timestamp_ext = load32 (drop 12 bs),
      frame_id_ext = load32 (drop 16 bs)\<rparr>"

definition set_payload :: "RTPHeader \<Rightarrow> RTPPayloadType \<Rightarrow> bool \<Rightarrow> RTPHeader" where
  "set_payload h pt last_frame =
     (if last_frame then h\<lparr>profile_byte := payload_value pt OR RTP_MARKER_BIT\<rparr>
      else h\<lparr>profile_byte := payload_value pt\<rparr>)"

definition set_marker :: "RTPHeader \<Rightarrow> bool \<Rightarrow> RTPHeader" where
  "set_marker h last_frame =
     (if last_frame then h\<lparr>profile_byte := profile_byte h OR RTP_MARKER_BIT\<rparr>
      else h\<lparr>profile_byte := profile_byte h AND NOT RTP_MARKER_BIT\<rparr>)"

definition payload_type :: "RTPHeader \<Rightarrow> RTPPayloadType" where
  "payload_type h =
     (let v = profile_byte h AND RTP_PAYLOAD_TYPE_MASK in
      if v = 97 then PT_H264 else if v = 143 then PT_OPUS else PT_INVALID)"

definition is_marker :: "RTPHeader \<Rightarrow> bool" where
  "is_marker h \<longleftrightarrow> profile_byte h AND RTP_MARKER_BIT \<noteq> 0"

lemma length_RTPHeader_bytes [simp, layout]: "length (RTPHeader_bytes h) = sizeof_RTPHeader"
  by (simp add: RTPHeader_bytes_def sizeof_RTPHeader_def)

lemma RTPHeader_of_bytes [simp]: "RTPHeader_of (RTPHeader_bytes h @ rs) = h"
  by (simp add: RTPHeader_of_def RTPHeader_bytes_def)

section \<open>Comparisons and distances\<close>

definition compare_rtp_timestamps :: "u32 \<Rightarrow> u32 \<Rightarrow> bool" where
  "compare_rtp_timestamps a b \<longleftrightarrow> a - b > 0xFFFFFFFF div 2"

definition compare_rtp_seq :: "u16 \<Rightarrow> u16 \<Rightarrow> bool" where
  "compare_rtp_seq a b \<longleftrightarrow> (word_of_int (uint a - uint b) :: u32) > 0xFFFF div 2"

definition rtp_timestamps_distance_absolute :: "u32 \<Rightarrow> u32 \<Rightarrow> u32" where
  "rtp_timestamps_distance_absolute a b =
     (if a \<le> 0x40000000 \<and> b \<ge> 0xC0000000 then (0xFFFFFFFF - b) + a + 1
      else if b \<le> 0x40000000 \<and> a \<ge> 0xC0000000 then (0xFFFFFFFF - a) + b + 1
      else if a > b then a - b
      else b - a)"

definition rtp_timestamps_distance :: "u32 \<Rightarrow> u32 \<Rightarrow> int" where
  "rtp_timestamps_distance small high =
     (if small \<le> 0x40000000 \<and> high \<ge> 0xC0000000
      then sint (- (ucast ((0xFFFFFFFF - high) + small + 1) :: u64))
      else if high \<le> 0x40000000 \<and> small \<ge> 0xC0000000
      then sint (ucast ((0xFFFFFFFF - small) + high + 1) :: u64)
      else uint high - uint small)"

definition rtp_seq_distance :: "u16 \<Rightarrow> u16 \<Rightarrow> u16" where
  "rtp_seq_distance small high =
     (if small \<le> high then word_of_int (uint high - uint small)
      else word_of_int ((0xFFFF - uint small) + uint high + 1))"

section \<open>What they compute\<close>

lemma seq_distance_sub: "rtp_seq_distance small high = high - small"
proof -
  have "word_of_int ((0xFFFF - uint small) + uint high + 1) = high - small"
  proof -
    have "(word_of_int ((0xFFFF - uint small) + uint high + 1) :: u16)
        = (word_of_int 0xFFFF - small) + high + 1"
      by simp
    also have "\<dots> = high - small"
      by simp
    finally show ?thesis .
  qed
  then show ?thesis by (simp add: rtp_seq_distance_def)
qed

lemma compare_timestamps_iff:
  "compare_rtp_timestamps a b \<longleftrightarrow> 0 < unat (b - a) \<and> unat (b - a) \<le> 2 ^ 31"
proof -
  have "- d > 0x7FFFFFFF \<longleftrightarrow> 0 < unat d \<and> unat d \<le> 2 ^ 31" for d :: u32
  proof (cases "d = 0")
    case False
    then have "unat (- d) = 2 ^ 32 - unat d"
      by (simp add: unat_neg32)
    with False show ?thesis
      by (simp add: word_less_nat_alt unat_gt_0) arith
  qed simp
  from this [of "b - a"] show ?thesis by (simp add: compare_rtp_timestamps_def)
qed

lemma compare_seq_iff:
  "compare_rtp_seq a b \<longleftrightarrow> unat a < unat b \<or> unat b + 32768 \<le> unat a"
proof -
  define d where "d = uint a - uint b"
  have bounds: "- 65536 < d" "d < 65536"
    unfolding d_def using uint_bounds16 [of a] uint_bounds16 [of b] by linarith+
  have "(word_of_int d :: u32) > 0x7FFF \<longleftrightarrow> d < 0 \<or> d > 0x7FFF"
  proof (cases "d < 0")
    case True
    have "d mod 4294967296 = d + 4294967296"
      by (rule mod_wrap_neg) (use True bounds in auto)
    then have "uint (word_of_int d :: u32) = d + 4294967296"
      by (simp add: uint_word_of_int)
    with True bounds show ?thesis by (simp add: word_less_def)
  next
    case False
    then have "uint (word_of_int d :: u32) = d"
      using bounds by (simp add: uint_word_of_int)
    with False show ?thesis by (simp add: word_less_def)
  qed
  then have "compare_rtp_seq a b \<longleftrightarrow> d < 0 \<or> d > 0x7FFF"
    by (simp add: compare_rtp_seq_def d_def)
  also have "\<dots> \<longleftrightarrow> unat a < unat b \<or> unat b + 32768 \<le> unat a"
    unfolding d_def unat_eq_nat_uint using uint_bounds16 [of a] uint_bounds16 [of b] by arith
  finally show ?thesis .
qed

lemma wrapped_gap:
  fixes x y :: u32
  assumes "y \<le> 0x40000000" "x \<ge> 0xC0000000"
  shows "uint ((0xFFFFFFFF - x) + y + 1) = 2 ^ 32 - uint x + uint y"
proof -
  have "uint y \<le> 0x40000000" "0xC0000000 \<le> uint x"
    using assms by (simp_all add: word_le_def)
  then have "(uint y - uint x) mod 4294967296 = uint y - uint x + 4294967296"
    by (intro mod_wrap_neg) (use uint_bounds32 [of x] uint_bounds32 [of y] in linarith)+
  then show ?thesis by (simp add: uint_word_ariths)
qed

lemma distance_cases:
  "rtp_timestamps_distance small high =
     (if small \<le> 0x40000000 \<and> high \<ge> 0xC0000000 then uint high - uint small - 2 ^ 32
      else if high \<le> 0x40000000 \<and> small \<ge> 0xC0000000 then uint high - uint small + 2 ^ 32
      else uint high - uint small)"
  unfolding rtp_timestamps_distance_def sint_ucast_32_64 sint_neg_ucast_32_64
  by (intro if_cong refl; (elim conjE, simp only: wrapped_gap)?; simp?)

lemma absolute_cases:
  "uint (rtp_timestamps_distance_absolute a b) =
     (if a \<le> 0x40000000 \<and> b \<ge> 0xC0000000 then 2 ^ 32 - uint b + uint a
      else if b \<le> 0x40000000 \<and> a \<ge> 0xC0000000 then 2 ^ 32 - uint a + uint b
      else if a > b then uint a - uint b
      else uint b - uint a)"
proof -
  have sub: "uint (x - y) = uint x - uint y" if "y \<le> x" for x y :: u32
    using that by (simp add: word_le_def uint_sub_lem)
  show ?thesis
    unfolding rtp_timestamps_distance_absolute_def if_distrib [of uint]
    by (intro if_cong refl; (elim conjE, simp only: wrapped_gap)?; simp add: sub)
qed

lemma quarter_iff:
  fixes x y :: u32
  shows "x \<le> 0x40000000 \<longleftrightarrow> uint x \<le> 0x40000000" "x \<ge> 0xC0000000 \<longleftrightarrow> uint x \<ge> 0xC0000000"
    "x > y \<longleftrightarrow> uint x > uint y"
  by (simp_all add: word_le_def word_less_def)

lemma full_range: "(2::int) ^ 32 = 4294967296"
  by simp

lemma distance_bound: "\<bar>rtp_timestamps_distance a b\<bar> < 2 ^ 32"
  using uint_bounds32 [of a] uint_bounds32 [of b]
  unfolding distance_cases quarter_iff full_range by arith

section \<open>Properties\<close>

text \<open>\<open>compare_rtp_timestamps\<close> is the serial-number order of 32-bit timestamps: \<open>t\<close> is before
  \<open>t + d\<close> exactly for forward distances up to half the range, wrap-around included, and away
  from the antipode any two distinct timestamps are ordered one way and not the other.\<close>

theorem rtp_timestamp_serial_order:
  "(compare_rtp_timestamps t (t + d) \<longleftrightarrow> d \<noteq> 0 \<and> unat d \<le> 2 ^ 31)
   \<and> (unat (b - a) \<noteq> 2 ^ 31 \<longrightarrow>
        (compare_rtp_timestamps a b \<longleftrightarrow> a \<noteq> b \<and> \<not> compare_rtp_timestamps b a))"
proof (intro conjI impI)
  show "compare_rtp_timestamps t (t + d) \<longleftrightarrow> d \<noteq> 0 \<and> unat d \<le> 2 ^ 31"
    by (simp add: compare_timestamps_iff unat_gt_0)
  assume ne: "unat (b - a) \<noteq> 2 ^ 31"
  show "compare_rtp_timestamps a b \<longleftrightarrow> a \<noteq> b \<and> \<not> compare_rtp_timestamps b a"
  proof (cases "a = b")
    case False
    then have "unat (a - b) = 4294967296 - unat (b - a)"
      using unat_neg32 [of "b - a"] by simp
    moreover have "0 < unat (b - a)"
      using False by (simp add: unat_gt_0)
    moreover have half: "(2::nat) ^ 31 = 2147483648"
      by simp
    ultimately show ?thesis
      using False ne unat_bound32 [of "b - a"] unfolding compare_timestamps_iff half by arith
  qed (simp add: compare_timestamps_iff)
qed

theorem rtp_timestamp_serial_order_witness:
  "unat (5 - 0xFFFFFFFF :: u32) \<noteq> 2 ^ 31 \<and> compare_rtp_timestamps 0xFFFFFFFF 5
   \<and> \<not> compare_rtp_timestamps 5 0xFFFFFFFF"
  using rtp_timestamp_serial_order [where t = 1 and d = 6 and a = "0xFFFFFFFF" and b = 5]
  by (simp add: compare_rtp_timestamps_def)

text \<open>\<open>compare_rtp_seq\<close> subtracts promoted integers, so it is plain \<open><\<close> on the numbers plus the
  pairs whose first component is at least 32768 ahead. It is therefore not antisymmetric: for
  numbers on both sides of a wrap-around, each one counts as smaller than the other.\<close>

theorem rtp_seq_order_at_wrap:
  "(compare_rtp_seq a b \<longleftrightarrow> unat a < unat b \<or> unat b + 32768 \<le> unat a)
   \<and> (compare_rtp_seq a b \<and> compare_rtp_seq b a
        \<longleftrightarrow> unat a + 32768 \<le> unat b \<or> unat b + 32768 \<le> unat a)"
  by (auto simp: compare_seq_iff)

text \<open>The signed distance of two timestamps is a representative of their difference modulo
  \<open>2 ^ 32\<close>, changes sign when the arguments are swapped, and has the absolute distance as its
  magnitude, in the wrapped cases too.\<close>

theorem rtp_timestamps_distance_exact:
  "word_of_int (rtp_timestamps_distance s h) = h - s
   \<and> rtp_timestamps_distance h s = - rtp_timestamps_distance s h
   \<and> \<bar>rtp_timestamps_distance s h\<bar> = uint (rtp_timestamps_distance_absolute s h)"
proof (intro conjI)
  have "(word_of_int (2 ^ 32) :: u32) = 0" by simp
  then show "word_of_int (rtp_timestamps_distance s h) = h - s"
    by (simp add: distance_cases)
  have far: "\<not> (x \<le> 0x40000000 \<and> x \<ge> (0xC0000000 :: u32))" for x
    by (auto simp: word_le_def)
  show "rtp_timestamps_distance h s = - rtp_timestamps_distance s h"
    unfolding distance_cases using far [of h] far [of s] by auto
  show "\<bar>rtp_timestamps_distance s h\<bar> = uint (rtp_timestamps_distance_absolute s h)"
    using uint_bounds32 [of s] uint_bounds32 [of h]
    unfolding distance_cases absolute_cases quarter_iff full_range by arith
qed

text \<open>The distance of two sequence numbers is their difference modulo \<open>2 ^ 16\<close>: adding it to
  the smaller one always reaches the other, across the wrap-around as well.\<close>

theorem rtp_seq_distance_advances:
  "rtp_seq_distance small high = high - small \<and> small + rtp_seq_distance small high = high"
  by (simp add: seq_distance_sub)

text \<open>The RTP header reads back from its packed 20-byte image; the marker and the H.264 payload
  type share a byte without disturbing each other; the OPUS value does not fit the 7-bit field, so
  it is never read back and always sets the marker.\<close>

theorem rtp_header_fields:
  "RTPHeader_of (RTPHeader_bytes h @ rest) = h
   \<and> payload_type (set_marker (set_payload h PT_H264 l) m) = PT_H264
   \<and> is_marker (set_marker (set_payload h PT_H264 l) m) = m
   \<and> payload_type (set_payload h PT_OPUS l) = PT_INVALID
   \<and> is_marker (set_payload h PT_OPUS l)"
  by (simp add: payload_type_def set_marker_def set_payload_def is_marker_def
      RTP_PAYLOAD_TYPE_MASK_def RTP_MARKER_BIT_def)

end
