(* ===== verification/RtpClock.thy ===== *)
theory RtpClock
  imports RtpTypes "HOL-Library.Signed_Division"
begin

text \<open>
  \<open>common/include/wvb_common/rtp_clock.h\<close> and \<open>common/src/rtp.cpp\<close>: the steady 90 kHz clock of
  the RTP timestamps. Clock readings of the system (\<open>system_clock::now\<close>, \<open>steady_clock::now\<close>,
  \<open>clock_gettime\<close>) are arguments, in nanoseconds; \<open>chrono\<close> durations are unbounded integers with
  the truncating division of C++, and the one conversion whose input comes from the network
  (\<open>set_epoch\<close>) is checked against the 64-bit range.
\<close>

section \<open>Durations and clock readings\<close>

definition NS_PER_SEC :: int where
  "NS_PER_SEC = 1000000000"

definition UNIX_EPOCH_NTP :: int where
  "UNIX_EPOCH_NTP = 2208988800"

definition RTP_EPOCH_OFFSET_ns :: int where
  "RTP_EPOCH_OFFSET_ns = 30 * 60 * NS_PER_SEC"

text \<open>\<open>duration_cast\<close> between nanoseconds, 90 kHz ticks and microseconds.\<close>

definition ticks_of_ns :: "int \<Rightarrow> int" where
  "ticks_of_ns n = (n * 9) sdiv 100000"

definition ns_of_ticks :: "int \<Rightarrow> int" where
  "ns_of_ticks t = (t * 100000) sdiv 9"

definition us_of_ticks :: "int \<Rightarrow> int" where
  "us_of_ticks t = (t * 100) sdiv 9"

record timespec =
  tv_sec :: int
  tv_nsec :: int

definition timespec_ns :: "timespec \<Rightarrow> int" where
  "timespec_ns ts = tv_sec ts * NS_PER_SEC + tv_nsec ts"

definition timespec_normal :: "timespec \<Rightarrow> bool" where
  "timespec_normal ts \<longleftrightarrow> 0 \<le> tv_nsec ts \<and> tv_nsec ts < NS_PER_SEC"

text \<open>The readings that a clock operation takes from the system.\<close>

record clock_env =
  system_now :: int
  steady_now :: int
  timespec_now :: timespec

record RTPClock =
  clock_offset :: int
  m_system_epoch :: int
  m_steady_epoch :: int
  m_timespec_epoch :: timespec

section \<open>Setting the epoch\<close>

definition reset_epoch :: "clock_env \<Rightarrow> RTPClock \<Rightarrow> RTPClock" where
  "reset_epoch e c =
     (let system_epoch = (system_now e sdiv NS_PER_SEC) * NS_PER_SEC - RTP_EPOCH_OFFSET_ns;
          delay = system_now e - system_epoch;
          sec = tv_sec (timespec_now e) - delay sdiv NS_PER_SEC;
          nsec = tv_nsec (timespec_now e) - delay smod NS_PER_SEC
      in c\<lparr>m_system_epoch := system_epoch,
           m_steady_epoch := steady_now e - delay,
           m_timespec_epoch :=
             (if nsec < 0 then \<lparr>tv_sec = sec - 1, tv_nsec = nsec + NS_PER_SEC\<rparr>
              else \<lparr>tv_sec = sec, tv_nsec = nsec\<rparr>)\<rparr>)"

text \<open>
  An exception leaves the members assigned before it, so the clock is returned either way. The
  conversion of the epoch to nanoseconds overflows its 64 bits for epochs past the year 2262.
\<close>

definition set_epoch :: "clock_env \<Rightarrow> u64 \<Rightarrow> RTPClock \<Rightarrow> unit result \<times> RTPClock" where
  "set_epoch e ntp c =
     (if uint ntp < UNIX_EPOCH_NTP
      then (Inl (RuntimeError ''RTPClock: NTP epoch is too far in the past''), c)
      else if (uint ntp - UNIX_EPOCH_NTP) * NS_PER_SEC > 2 ^ 63 - 1
      then (Inl (UndefinedBehaviour ''signed overflow in seconds to nanoseconds''), c)
      else
        let system_epoch = (uint ntp - UNIX_EPOCH_NTP) * NS_PER_SEC;
            system_delay = system_now e - system_epoch;
            c1 = c\<lparr>m_system_epoch := system_epoch, m_steady_epoch := steady_now e - system_delay\<rparr>;
            delay_s = system_delay sdiv NS_PER_SEC;
            remainder_ns = system_delay smod NS_PER_SEC
        in if delay_s > tv_sec (timespec_now e)
              \<or> (delay_s = tv_sec (timespec_now e) \<and> remainder_ns > tv_nsec (timespec_now e))
           then (Inl (RuntimeError ''RTPClock: NTP epoch is too far in the past''), c1)
           else
             let sec = tv_sec (timespec_now e) - delay_s;
                 nsec = tv_nsec (timespec_now e) - remainder_ns
             in (Inr (),
                 c1\<lparr>m_timespec_epoch :=
                      (if nsec < 0 then \<lparr>tv_sec = sec - 1, tv_nsec = nsec + NS_PER_SEC\<rparr>
                       else \<lparr>tv_sec = sec, tv_nsec = nsec\<rparr>)\<rparr>))"

definition default_RTPClock :: RTPClock where
  "default_RTPClock = \<lparr>clock_offset = 0, m_system_epoch = 0, m_steady_epoch = 0,
     m_timespec_epoch = \<lparr>tv_sec = 0, tv_nsec = 0\<rparr>\<rparr>"

definition new_RTPClock :: "clock_env \<Rightarrow> RTPClock" where
  "new_RTPClock e = reset_epoch e default_RTPClock"

definition new_RTPClock_ntp :: "clock_env \<Rightarrow> u64 \<Rightarrow> RTPClock result" where
  "new_RTPClock_ntp e ntp =
     (case set_epoch e ntp default_RTPClock of (Inl f, _) \<Rightarrow> Inl f | (Inr _, c) \<Rightarrow> Inr c)"

definition move_epoch :: "int \<Rightarrow> RTPClock \<Rightarrow> RTPClock" where
  "move_epoch us c =
     (let delay_s = us sdiv NS_PER_SEC;
          remainder_ns = (us * 1000) smod NS_PER_SEC;
          sec = tv_sec (m_timespec_epoch c) + delay_s;
          nsec = tv_nsec (m_timespec_epoch c) + remainder_ns
      in c\<lparr>m_system_epoch := m_system_epoch c + us * 1000,
           m_steady_epoch := m_steady_epoch c + us * 1000,
           m_timespec_epoch :=
             (if nsec < 0 then \<lparr>tv_sec = sec - 1, tv_nsec = nsec + NS_PER_SEC\<rparr>
              else if nsec \<ge> NS_PER_SEC then \<lparr>tv_sec = sec + 1, tv_nsec = nsec - NS_PER_SEC\<rparr>
              else \<lparr>tv_sec = sec, tv_nsec = nsec\<rparr>)\<rparr>)"

definition ntp_epoch :: "RTPClock \<Rightarrow> u64" where
  "ntp_epoch c = word_of_int (m_system_epoch c sdiv NS_PER_SEC) + word_of_int UNIX_EPOCH_NTP"

section \<open>Time points\<close>

text \<open>A \<open>time_point\<close> is its count of 90 kHz ticks since the epoch.\<close>

definition now :: "clock_env \<Rightarrow> RTPClock \<Rightarrow> int" where
  "now e c = ticks_of_ns (steady_now e - m_steady_epoch c)"

definition now_rtp_timestamp :: "clock_env \<Rightarrow> RTPClock \<Rightarrow> u32" where
  "now_rtp_timestamp e c =
     word_of_int (uint (word_of_int (ticks_of_ns (steady_now e - m_steady_epoch c)) :: u32)
                  + clock_offset c)"

definition from_rtp_timestamp :: "RTPClock \<Rightarrow> u32 \<Rightarrow> int" where
  "from_rtp_timestamp c t = uint t - clock_offset c"

definition to_rtp_timestamp :: "RTPClock \<Rightarrow> int \<Rightarrow> u32" where
  "to_rtp_timestamp c tp = word_of_int (uint (word_of_int tp :: u32) + clock_offset c)"

definition from_steady_timepoint :: "RTPClock \<Rightarrow> int \<Rightarrow> int" where
  "from_steady_timepoint c tp = ticks_of_ns (tp - m_steady_epoch c)"

definition to_timespec :: "RTPClock \<Rightarrow> int \<Rightarrow> timespec" where
  "to_timespec c tp =
     (let ns = ns_of_ticks tp;
          sec = tv_sec (m_timespec_epoch c) + ns sdiv NS_PER_SEC;
          nsec = tv_nsec (m_timespec_epoch c) + ns smod NS_PER_SEC
      in if nsec \<ge> NS_PER_SEC then \<lparr>tv_sec = sec + 1, tv_nsec = nsec - NS_PER_SEC\<rparr>
         else \<lparr>tv_sec = sec, tv_nsec = nsec\<rparr>)"

definition rtp_to_timespec :: "RTPClock \<Rightarrow> u32 \<Rightarrow> timespec" where
  "rtp_to_timespec c t = to_timespec c (from_rtp_timestamp c t)"

definition from_timespec :: "RTPClock \<Rightarrow> timespec \<Rightarrow> int" where
  "from_timespec c ts =
     ticks_of_ns ((tv_sec ts - tv_sec (m_timespec_epoch c)) * NS_PER_SEC
                  + (tv_nsec ts - tv_nsec (m_timespec_epoch c)))"

definition rtp_timestamp_from_timespec :: "RTPClock \<Rightarrow> timespec \<Rightarrow> u32" where
  "rtp_timestamp_from_timespec c ts =
     word_of_int (uint (word_of_int (from_timespec c ts) :: u32) + clock_offset c)"

text \<open>\<open>rtp.cpp\<close>: the distance goes back through the 32-bit parameter of \<open>from_rtp_timestamp\<close>.\<close>

definition rtp_timestamps_distance_us :: "u32 \<Rightarrow> u32 \<Rightarrow> RTPClock \<Rightarrow> int" where
  "rtp_timestamps_distance_us a b c =
     (let d = rtp_timestamps_distance a b in
      if d < 0 then - us_of_ticks (from_rtp_timestamp c (word_of_int (- d)))
      else us_of_ticks (from_rtp_timestamp c (word_of_int d)))"


section \<open>Truncating division\<close>

lemma sdiv_nonneg: "0 \<le> a \<Longrightarrow> 0 < b \<Longrightarrow> a sdiv b = a div (b::int)"
  by (cases "a = 0") (auto simp: divide_int_eq_signed_divide_int)

lemma smod_nonneg: "0 \<le> a \<Longrightarrow> 0 < b \<Longrightarrow> a smod b = a mod (b::int)"
  by (rule smod_mod_positive) simp_all

lemma smod_as_sdiv: "a smod b = a - a sdiv b * (b::int)"
  by (metis minus_sdiv_mult_eq_smod)

lemma smod_bounds: "0 < b \<Longrightarrow> - b < a smod b" "0 < b \<Longrightarrow> a smod b < (b::int)"
  using smod_int_range [of b a] by (auto simp: smod_int_range)

section \<open>The clock readings a state stands for\<close>

text \<open>A borrow or a carry of the nanoseconds leaves the time denoted unchanged.\<close>

lemma timespec_ns_borrow [simp]:
  "timespec_ns \<lparr>tv_sec = s - 1, tv_nsec = n + NS_PER_SEC\<rparr> = timespec_ns \<lparr>tv_sec = s, tv_nsec = n\<rparr>"
  "timespec_ns \<lparr>tv_sec = s + 1, tv_nsec = n - NS_PER_SEC\<rparr> = timespec_ns \<lparr>tv_sec = s, tv_nsec = n\<rparr>"
  by (simp_all add: timespec_ns_def algebra_simps)

text \<open>Both ways of setting the epoch take whole seconds and a remainder off a reading.\<close>

definition timespec_minus :: "timespec \<Rightarrow> int \<Rightarrow> int \<Rightarrow> timespec" where
  "timespec_minus ts s r =
     (let nsec = tv_nsec ts - r in
      if nsec < 0 then \<lparr>tv_sec = tv_sec ts - s - 1, tv_nsec = nsec + NS_PER_SEC\<rparr>
      else \<lparr>tv_sec = tv_sec ts - s, tv_nsec = nsec\<rparr>)"

lemma timespec_minus:
  assumes "timespec_normal ts" "0 \<le> r" "r < NS_PER_SEC"
  shows "timespec_normal (timespec_minus ts s r)"
    and "timespec_ns (timespec_minus ts s r) = timespec_ns ts - (s * NS_PER_SEC + r)"
  using assms by (auto simp: timespec_minus_def timespec_normal_def timespec_ns_def Let_def algebra_simps)

lemma timespec_ns_to_timespec:
  "timespec_ns (to_timespec c tp) = timespec_ns (m_timespec_epoch c) + ns_of_ticks tp"
proof -
  have "ns_of_ticks tp = ns_of_ticks tp sdiv NS_PER_SEC * NS_PER_SEC + ns_of_ticks tp smod NS_PER_SEC"
    by (simp add: smod_as_sdiv)
  then show ?thesis
    by (simp add: to_timespec_def Let_def timespec_ns_def algebra_simps)
qed

lemma from_timespec_ns:
  "from_timespec c ts = ticks_of_ns (timespec_ns ts - timespec_ns (m_timespec_epoch c))"
  by (simp add: from_timespec_def timespec_ns_def algebra_simps)

lemma to_rtp_timestamp_word: "to_rtp_timestamp c tp = word_of_int (tp + clock_offset c)"
  by (simp add: to_rtp_timestamp_def)

lemma ticks_of_ns_of_ticks:
  "ticks_of_ns (ns_of_ticks t) = (if 9 dvd t then t else t - sgn t)"
proof -
  have pos: "ticks_of_ns (ns_of_ticks t) = (if 9 dvd t then t else t - 1)" if "0 < t" for t
  proof -
    define r where "r = (t * 100000) mod 9"
    have r: "0 \<le> r" "r < 9" "r = 0 \<longleftrightarrow> 9 dvd t"
    proof -
      have "t * 100000 = t + 9 * (11111 * t)" by simp
      then have "r = t mod 9" unfolding r_def by (metis mod_mult_self2)
      then show "0 \<le> r" "r < 9" "r = 0 \<longleftrightarrow> 9 dvd t" by auto
    qed
    have q: "t * 100000 div 9 * 9 = t * 100000 - r"
      unfolding r_def by (simp add: minus_mod_eq_div_mult)
    have "(t * 100000 - r) div 100000 = (if r = 0 then t else t - 1)"
    proof (cases "r = 0")
      case False
      then show ?thesis
        using r(1,2) int_div_pos_eq [of "t * 100000 - r" 100000 "t - 1" "100000 - r"] by simp
    qed simp
    moreover have "0 \<le> t * 100000 - r"
      using that r by linarith
    ultimately show ?thesis
      unfolding ticks_of_ns_def ns_of_ticks_def using that r(3) by (simp add: sdiv_nonneg q)
  qed
  show ?thesis
  proof (cases t "0 :: int" rule: linorder_cases)
    case less
    then show ?thesis using pos [of "- t"]
      by (auto simp: ticks_of_ns_def ns_of_ticks_def split: if_splits)
  qed (simp_all add: pos, simp add: ticks_of_ns_def ns_of_ticks_def)
qed


lemma timespec_ns_move_epoch:
  "timespec_ns (m_timespec_epoch (move_epoch us c)) =
     timespec_ns (m_timespec_epoch c) + us sdiv NS_PER_SEC * NS_PER_SEC + (us * 1000) smod NS_PER_SEC"
  by (simp add: move_epoch_def Let_def) (simp add: timespec_ns_def algebra_simps)

lemma reset_epoch_steady:
  assumes "0 \<le> system_now e"
  shows "now e (reset_epoch e c) = ticks_of_ns (RTP_EPOCH_OFFSET_ns + system_now e mod NS_PER_SEC)"
proof -
  have "system_now e sdiv NS_PER_SEC * NS_PER_SEC = system_now e - system_now e mod NS_PER_SEC"
    using assms by (simp add: sdiv_nonneg NS_PER_SEC_def minus_mod_eq_div_mult)
  moreover have "m_steady_epoch (reset_epoch e c) = steady_now e - (system_now e
      - (system_now e sdiv NS_PER_SEC * NS_PER_SEC - RTP_EPOCH_OFFSET_ns))"
    by (simp add: reset_epoch_def Let_def)
  ultimately have "steady_now e - m_steady_epoch (reset_epoch e c)
      = RTP_EPOCH_OFFSET_ns + system_now e mod NS_PER_SEC"
    by linarith
  then show ?thesis by (simp only: now_def)
qed

lemma ticks_of_ns_mono: "0 \<le> a \<Longrightarrow> a \<le> b \<Longrightarrow> ticks_of_ns a \<le> ticks_of_ns b"
  by (simp add: ticks_of_ns_def sdiv_nonneg zdiv_mono1)

section \<open>Properties\<close>

text \<open>Converting an RTP timestamp to a time point and back is the identity whatever the clock's
  offset; the other way round it is the identity exactly for the time points whose offset tick
  count fits 32 bits, and otherwise loses a multiple of \<open>2 ^ 32\<close> ticks.\<close>

theorem rtp_timestamp_round_trip:
  "to_rtp_timestamp c (from_rtp_timestamp c t) = t
   \<and> from_rtp_timestamp c (to_rtp_timestamp c tp) = (tp + clock_offset c) mod 2 ^ 32 - clock_offset c
   \<and> (from_rtp_timestamp c (to_rtp_timestamp c tp) = tp
        \<longleftrightarrow> 0 \<le> tp + clock_offset c \<and> tp + clock_offset c < 2 ^ 32)"
proof -
  have eq: "from_rtp_timestamp c (to_rtp_timestamp c tp) = (tp + clock_offset c) mod 2 ^ 32 - clock_offset c"
    unfolding to_rtp_timestamp_word from_rtp_timestamp_def uint_word_of_int by simp
  have "x mod 2 ^ 32 = x \<longleftrightarrow> 0 \<le> x \<and> x < 2 ^ 32" for x :: int
    by (metis mod_pos_pos_trivial pos_mod_bound pos_mod_sign zero_less_numeral zero_less_power)
  from this [of "tp + clock_offset c"] show ?thesis
    unfolding eq by (auto simp: to_rtp_timestamp_word from_rtp_timestamp_def)
qed

text \<open>After \<open>reset_epoch\<close> the RTP time is between 30 minutes and 30 minutes and one second, the
  epoch is a whole number of seconds, the timespec epoch is normalised, and it lies behind the
  monotonic clock by the same delay as the steady epoch.\<close>

theorem reset_epoch_establishes:
  assumes "0 \<le> system_now e" and "timespec_normal (timespec_now e)"
  shows "30 * 60 * 90000 \<le> now e (reset_epoch e c)
    \<and> now e (reset_epoch e c) < (30 * 60 + 1) * 90000
    \<and> NS_PER_SEC dvd m_system_epoch (reset_epoch e c)
    \<and> timespec_normal (m_timespec_epoch (reset_epoch e c))
    \<and> timespec_ns (timespec_now e) - timespec_ns (m_timespec_epoch (reset_epoch e c))
         = steady_now e - m_steady_epoch (reset_epoch e c)"
proof (intro conjI)
  have m: "0 \<le> system_now e mod NS_PER_SEC" "system_now e mod NS_PER_SEC < NS_PER_SEC"
    by (simp_all add: NS_PER_SEC_def)
  show "30 * 60 * 90000 \<le> now e (reset_epoch e c)"
    using ticks_of_ns_mono [of RTP_EPOCH_OFFSET_ns "RTP_EPOCH_OFFSET_ns + system_now e mod NS_PER_SEC"]
      m assms(1)
    by (simp add: reset_epoch_steady) (simp add: RTP_EPOCH_OFFSET_ns_def NS_PER_SEC_def ticks_of_ns_def)
  show "now e (reset_epoch e c) < (30 * 60 + 1) * 90000"
    using m assms(1)
    by (simp add: reset_epoch_steady ticks_of_ns_def sdiv_nonneg RTP_EPOCH_OFFSET_ns_def NS_PER_SEC_def)
  show "NS_PER_SEC dvd m_system_epoch (reset_epoch e c)"
    by (simp add: reset_epoch_def Let_def RTP_EPOCH_OFFSET_ns_def)
  define delay where "delay = system_now e - ((system_now e sdiv NS_PER_SEC) * NS_PER_SEC - RTP_EPOCH_OFFSET_ns)"
  have ts: "m_timespec_epoch (reset_epoch e c)
      = timespec_minus (timespec_now e) (delay sdiv NS_PER_SEC) (delay smod NS_PER_SEC)"
    by (simp add: reset_epoch_def Let_def delay_def timespec_minus_def)
  have "0 \<le> delay"
    using assms(1) m
    by (simp add: delay_def sdiv_nonneg NS_PER_SEC_def RTP_EPOCH_OFFSET_ns_def)
  then have r: "0 \<le> delay smod NS_PER_SEC" "delay smod NS_PER_SEC < NS_PER_SEC"
    by (simp_all add: smod_nonneg NS_PER_SEC_def)
  show "timespec_normal (m_timespec_epoch (reset_epoch e c))"
    unfolding ts using timespec_minus [OF assms(2) r] by simp
  have "m_steady_epoch (reset_epoch e c) = steady_now e - delay"
    by (simp add: reset_epoch_def Let_def delay_def)
  then show "timespec_ns (timespec_now e) - timespec_ns (m_timespec_epoch (reset_epoch e c))
         = steady_now e - m_steady_epoch (reset_epoch e c)"
    unfolding ts timespec_minus(2) [OF assms(2) r] by (simp add: smod_as_sdiv)
qed

theorem reset_epoch_establishes_witness:
  "now \<lparr>system_now = 5000000001, steady_now = 7, timespec_now = \<lparr>tv_sec = 10, tv_nsec = 0\<rparr>\<rparr>
     (reset_epoch \<lparr>system_now = 5000000001, steady_now = 7,
        timespec_now = \<lparr>tv_sec = 10, tv_nsec = 0\<rparr>\<rparr> default_RTPClock) < 162090000"
  using reset_epoch_establishes [of "\<lparr>system_now = 5000000001, steady_now = 7,
      timespec_now = \<lparr>tv_sec = 10, tv_nsec = 0\<rparr>\<rparr>" default_RTPClock]
  by (simp add: timespec_normal_def NS_PER_SEC_def)

text \<open>\<open>set_epoch\<close> on another device. For an epoch in the past that fits the system clock, it
  adopts the epoch and the time since then, \<open>ntp_epoch\<close> reads the same number back, and it
  succeeds exactly when the monotonic clock of the device already ran at the epoch: a device that
  booted after it (less than half an hour ago, as \<open>reset_epoch\<close> dates the epoch back) gets the
  exception.\<close>

theorem set_epoch_synchronises:
  assumes "UNIX_EPOCH_NTP \<le> uint ntp"
    and "(uint ntp - UNIX_EPOCH_NTP) * NS_PER_SEC \<le> system_now e" "system_now e < 2 ^ 63"
    and "timespec_normal (timespec_now e)"
  shows "ntp_epoch (snd (set_epoch e ntp c)) = ntp
    \<and> now e (snd (set_epoch e ntp c))
        = ticks_of_ns (system_now e - (uint ntp - UNIX_EPOCH_NTP) * NS_PER_SEC)
    \<and> (fst (set_epoch e ntp c) = Inr ()
        \<longleftrightarrow> system_now e - (uint ntp - UNIX_EPOCH_NTP) * NS_PER_SEC \<le> timespec_ns (timespec_now e))
    \<and> (fst (set_epoch e ntp c) = Inr () \<longrightarrow>
        timespec_normal (m_timespec_epoch (snd (set_epoch e ntp c)))
        \<and> timespec_ns (m_timespec_epoch (snd (set_epoch e ntp c)))
            = timespec_ns (timespec_now e) - (system_now e - m_system_epoch (snd (set_epoch e ntp c))))"
proof -
  define ep where "ep = (uint ntp - UNIX_EPOCH_NTP) * NS_PER_SEC"
  define delay where "delay = system_now e - ep"
  define s where "s = delay sdiv NS_PER_SEC"
  define r where "r = delay smod NS_PER_SEC"
  have delay: "delay = s * NS_PER_SEC + r"
    by (simp add: s_def r_def smod_as_sdiv)
  have "0 \<le> delay" using assms(2) by (simp add: delay_def ep_def)
  then have r: "0 \<le> r" "r < NS_PER_SEC"
    by (simp_all add: r_def smod_nonneg NS_PER_SEC_def)
  have start: "\<not> uint ntp < UNIX_EPOCH_NTP" "\<not> ep > 9223372036854775807"
    using assms by (simp_all add: ep_def)
  note run = set_epoch_def Let_def ep_def [symmetric] delay_def [symmetric] s_def [symmetric]
    r_def [symmetric] start
  have ep: "ep sdiv NS_PER_SEC = uint ntp - UNIX_EPOCH_NTP"
    using assms(1) by (simp add: ep_def sdiv_nonneg NS_PER_SEC_def)
  have "m_system_epoch (snd (set_epoch e ntp c)) = ep"
    by (simp add: run)
  moreover have "ntp_epoch (snd (set_epoch e ntp c)) = ntp"
    by (simp add: run ntp_epoch_def ep)
  moreover have "now e (snd (set_epoch e ntp c)) = ticks_of_ns delay"
    by (simp add: run now_def)
  moreover have lex: "\<not> (s > tv_sec (timespec_now e) \<or> s = tv_sec (timespec_now e) \<and> r > tv_nsec (timespec_now e))
      \<longleftrightarrow> delay \<le> timespec_ns (timespec_now e)"
    using r assms(4) unfolding delay timespec_ns_def timespec_normal_def NS_PER_SEC_def
    by (cases s "tv_sec (timespec_now e)" rule: linorder_cases) auto
  moreover have "fst (set_epoch e ntp c) = Inr () \<longleftrightarrow> delay \<le> timespec_ns (timespec_now e)"
    using lex by (simp add: run) blast
  moreover have "timespec_normal (m_timespec_epoch (snd (set_epoch e ntp c)))
        \<and> timespec_ns (m_timespec_epoch (snd (set_epoch e ntp c))) = timespec_ns (timespec_now e) - delay"
    if "fst (set_epoch e ntp c) = Inr ()"
  proof -
    have "m_timespec_epoch (snd (set_epoch e ntp c)) = timespec_minus (timespec_now e) s r"
      using that by (simp add: run timespec_minus_def split: if_splits)
    then show ?thesis
      using timespec_minus [OF assms(4) r, of s] delay by simp
  qed
  ultimately show ?thesis
    by (simp add: delay_def ep_def)
qed

theorem set_epoch_synchronises_witness:
  "fst (set_epoch \<lparr>system_now = 2000000000, steady_now = 9000000000,
          timespec_now = \<lparr>tv_sec = 9, tv_nsec = 0\<rparr>\<rparr> 2208988801 default_RTPClock) = Inr ()"
  using set_epoch_synchronises [of 2208988801 "\<lparr>system_now = 2000000000, steady_now = 9000000000,
      timespec_now = \<lparr>tv_sec = 9, tv_nsec = 0\<rparr>\<rparr>" default_RTPClock]
  by (simp add: timespec_normal_def NS_PER_SEC_def UNIX_EPOCH_NTP_def timespec_ns_def)

text \<open>Converting a time point to a timespec and back loses at most one tick, towards zero, and
  nothing when the tick count is a multiple of 9 (a whole number of nanoseconds).\<close>

theorem timespec_round_trip:
  "from_timespec c (to_timespec c tp) = (if 9 dvd tp then tp else tp - sgn tp)"
  by (simp add: from_timespec_ns timespec_ns_to_timespec ticks_of_ns_of_ticks)

text \<open>\<open>move_epoch\<close> moves the system and steady epochs by the amount, but the timespec epoch by
  it only when the amount is below one second in magnitude: whole seconds are computed from the
  microsecond count with the nanosecond divisor and get lost.\<close>

theorem move_epoch_effect:
  "m_system_epoch (move_epoch us c) = m_system_epoch c + us * 1000
   \<and> m_steady_epoch (move_epoch us c) = m_steady_epoch c + us * 1000
   \<and> (timespec_normal (m_timespec_epoch c) \<longrightarrow> timespec_normal (m_timespec_epoch (move_epoch us c)))
   \<and> timespec_ns (m_timespec_epoch (move_epoch us c))
       = timespec_ns (m_timespec_epoch c) + us * 1000
         - (us sdiv 1000000 - us sdiv 1000000000) * NS_PER_SEC"
proof (intro conjI impI)
  show "m_system_epoch (move_epoch us c) = m_system_epoch c + us * 1000"
    "m_steady_epoch (move_epoch us c) = m_steady_epoch c + us * 1000"
    by (simp_all add: move_epoch_def Let_def)
  show "timespec_normal (m_timespec_epoch (move_epoch us c))" if "timespec_normal (m_timespec_epoch c)"
    using that smod_bounds [of NS_PER_SEC "us * 1000"]
    by (auto simp: move_epoch_def Let_def timespec_normal_def NS_PER_SEC_def)
  have "(us * 1000) sdiv 1000000000 = us sdiv 1000000"
    using div_mult_mult2 [of 1000 "\<bar>us\<bar>" 1000000]
    by (simp add: signed_divide_int_def sgn_mult abs_mult)
  then show "timespec_ns (m_timespec_epoch (move_epoch us c))
       = timespec_ns (m_timespec_epoch c) + us * 1000
         - (us sdiv 1000000 - us sdiv 1000000000) * NS_PER_SEC"
    unfolding timespec_ns_move_epoch smod_as_sdiv by (simp add: NS_PER_SEC_def algebra_simps)
qed

theorem move_epoch_effect_witness:
  "timespec_normal (m_timespec_epoch (move_epoch 3000000 default_RTPClock))
   \<and> timespec_ns (m_timespec_epoch (move_epoch 3000000 default_RTPClock)) = 0
   \<and> m_steady_epoch (move_epoch 3000000 default_RTPClock) = 3 * NS_PER_SEC"
  using move_epoch_effect [of 3000000 default_RTPClock]
  by (simp add: default_RTPClock_def timespec_ns_def timespec_normal_def NS_PER_SEC_def)

text \<open>With no clock offset \<open>rtp_timestamps_distance_us\<close> is the signed distance in microseconds,
  truncated; an offset shifts every result by it, so that even equal timestamps are then at a
  distance.\<close>

theorem rtp_distance_us:
  "rtp_timestamps_distance_us a b c =
     (if rtp_timestamps_distance a b < 0
      then us_of_ticks (rtp_timestamps_distance a b + clock_offset c)
      else us_of_ticks (rtp_timestamps_distance a b - clock_offset c))"
proof -
  have w: "uint (word_of_int k :: u32) = k" if "0 \<le> k" "k < 2 ^ 32" for k
    using that by (simp add: uint_word_of_int)
  show ?thesis
    using distance_bound [of a b] w [of "rtp_timestamps_distance a b"] w [of "- rtp_timestamps_distance a b"]
    by (auto simp: rtp_timestamps_distance_us_def Let_def from_rtp_timestamp_def us_of_ticks_def
        add.commute simp flip: minus_sdiv_eq)
qed

end
