(* ===== verification/Benchmark.thy ===== *)
theory Benchmark
  imports RtpClock
begin

text \<open>
  \<open>common/include/wvb_common/benchmark.h\<close> and \<open>common/src/benchmark.cpp\<close>: the measurement window,
  the buckets that only accept measurements inside it, the statistics and the CSV export. The class
  hierarchy of the buckets is a chain of extensible records. A bucket shares its clock with the rest
  of the program, so it holds a reference, and the operations that read the clock take the current
  time of every clock as an argument. An output stream is its content, or \<open>None\<close> when not open.
\<close>

section \<open>Median\<close>

text \<open>The sum of the two middle elements wraps around in the element type.\<close>

definition compute_median :: "u32 list \<Rightarrow> u32" where
  "compute_median array =
     (if array = [] then 0
      else if length array = 1 then array ! 0
      else let s = sort array in
        if length s mod 2 = 0
        then (s ! (length s div 2 - 1) + s ! (length s div 2)) div 2
        else s ! (length s div 2))"

section \<open>Measurement window\<close>

text \<open>Time points are 90 kHz ticks of the RTP clock.\<close>

record MeasurementWindow =
  start_timing_phase :: int
  start_image_quality_phase :: int
  end_measurements :: int
  end_window :: int

definition default_window :: MeasurementWindow where
  "default_window = \<lparr>start_timing_phase = 0, start_image_quality_phase = 0,
     end_measurements = 0, end_window = 0\<rparr>"

definition window_is_valid :: "MeasurementWindow \<Rightarrow> bool" where
  "window_is_valid w \<longleftrightarrow> start_timing_phase w < start_image_quality_phase w
     \<and> start_image_quality_phase w < end_measurements w \<and> end_measurements w \<le> end_window w"

definition window_is_in_timing_phase :: "MeasurementWindow \<Rightarrow> int \<Rightarrow> bool" where
  "window_is_in_timing_phase w t \<longleftrightarrow> t \<ge> start_timing_phase w \<and> t \<le> start_image_quality_phase w"

definition window_is_in_image_quality_phase :: "MeasurementWindow \<Rightarrow> int \<Rightarrow> bool" where
  "window_is_in_image_quality_phase w t \<longleftrightarrow> t \<ge> start_image_quality_phase w \<and> t \<le> end_measurements w"

definition window_is_in_window :: "MeasurementWindow \<Rightarrow> int \<Rightarrow> bool" where
  "window_is_in_window w t \<longleftrightarrow> t \<ge> start_timing_phase w \<and> t \<le> end_window w"

definition window_is_after_window :: "MeasurementWindow \<Rightarrow> int \<Rightarrow> bool" where
  "window_is_after_window w t \<longleftrightarrow> t > end_window w"

section \<open>Measurements\<close>

datatype SocketId = UNKNOWN_SOCKET | VIDEO_SOCKET | VRCP_TCP_SOCKET | VRCP_UDP_SOCKET
  | VRCP_BCAST_SOCKET | SOCKET_ID_OTHER u8

datatype SocketType = SOCKET_TYPE_INVALID | SOCKET_TYPE_TCP | SOCKET_TYPE_UDP | SOCKET_TYPE_OTHER u8

text \<open>The casts between the enums and their underlying byte; a value off the list stays as it is.\<close>

fun socket_id_u8 :: "SocketId \<Rightarrow> u8" where
  "socket_id_u8 UNKNOWN_SOCKET = 0"
| "socket_id_u8 VIDEO_SOCKET = 1"
| "socket_id_u8 VRCP_TCP_SOCKET = 2"
| "socket_id_u8 VRCP_UDP_SOCKET = 3"
| "socket_id_u8 VRCP_BCAST_SOCKET = 4"
| "socket_id_u8 (SOCKET_ID_OTHER b) = b"

definition socket_id_of :: "u8 \<Rightarrow> SocketId" where
  "socket_id_of b =
     (if b = 0 then UNKNOWN_SOCKET else if b = 1 then VIDEO_SOCKET else if b = 2 then VRCP_TCP_SOCKET
      else if b = 3 then VRCP_UDP_SOCKET else if b = 4 then VRCP_BCAST_SOCKET else SOCKET_ID_OTHER b)"

fun socket_type_u8 :: "SocketType \<Rightarrow> u8" where
  "socket_type_u8 SOCKET_TYPE_INVALID = 0"
| "socket_type_u8 SOCKET_TYPE_TCP = 1"
| "socket_type_u8 SOCKET_TYPE_UDP = 2"
| "socket_type_u8 (SOCKET_TYPE_OTHER b) = b"

definition socket_type_of :: "u8 \<Rightarrow> SocketType" where
  "socket_type_of b =
     (if b = 0 then SOCKET_TYPE_INVALID else if b = 1 then SOCKET_TYPE_TCP
      else if b = 2 then SOCKET_TYPE_UDP else SOCKET_TYPE_OTHER b)"

fun socket_id_to_string :: "SocketId \<Rightarrow> string" where
  "socket_id_to_string VIDEO_SOCKET = ''VIDEO''"
| "socket_id_to_string VRCP_BCAST_SOCKET = ''VRCP_BCAST''"
| "socket_id_to_string VRCP_TCP_SOCKET = ''VRCP_TCP''"
| "socket_id_to_string VRCP_UDP_SOCKET = ''VRCP_UDP''"
| "socket_id_to_string _ = ''UNKNOWN''"

fun socket_type_to_string :: "SocketType \<Rightarrow> string" where
  "socket_type_to_string SOCKET_TYPE_UDP = ''UDP''"
| "socket_type_to_string SOCKET_TYPE_TCP = ''TCP''"
| "socket_type_to_string _ = ''INVALID''"

record SocketMeasurements =
  sm_socket_id :: SocketId
  sm_socket_type :: SocketType
  sm_bytes_sent :: u32
  sm_bytes_received :: u32
  sm_packets_sent :: u32
  sm_packets_received :: u32

definition socket_measurements_is_valid :: "SocketMeasurements \<Rightarrow> bool" where
  "socket_measurements_is_valid m \<longleftrightarrow> sm_socket_type m \<noteq> SOCKET_TYPE_INVALID"

record ServerFrameTimeMeasurements =
  sf_dropped :: bool
  sf_frame_id :: u32
  sf_frame_event_received_timestamp :: u32
  sf_present_info_received_timestamp :: u32
  sf_shared_texture_opened_timestamp :: u32
  sf_shared_texture_acquired_timestamp :: u32
  sf_staging_texture_mapped_timestamp :: u32
  sf_frame_pushed_timestamp :: u32
  sf_frame_pulled_timestamp :: u32
  sf_before_last_get_next_packet_timestamp :: u32
  sf_after_last_get_next_packet_timestamp :: u32
  sf_before_last_send_packet_timestamp :: u32
  sf_after_last_send_packet_timestamp :: u32
  sf_finished_signal_sent_timestamp :: u32

record ClientFrameTimeMeasurements =
  cf_frame_index :: u32
  cf_frame_id :: u32
  cf_tracking_timestamp :: u32
  cf_last_packet_received_timestamp :: u32
  cf_pushed_to_decoder_timestamp :: u32
  cf_begin_wait_frame_timestamp :: u32
  cf_begin_frame_timestamp :: u32
  cf_after_wait_swapchain_timestamp :: u32
  cf_after_render_timestamp :: u32
  cf_end_frame_timestamp :: u32
  cf_predicted_present_timestamp :: u32
  cf_pose_timestamp :: u32
  cf_frame_delay :: u32

record DriverFrameTimeMeasurements =
  df_frame_id :: u32
  df_present_called_timestamp :: u32
  df_vsync_timestamp :: u32
  df_frame_sent_timestamp :: u32
  df_wait_for_present_called_timestamp :: u32
  df_server_finished_timestamp :: u32
  df_pose_updated_event_timestamp :: u32

record TrackingTimeMeasurements =
  tt_pose_timestamp :: u32
  tt_tracking_received_timestamp :: u32
  tt_tracking_processed_timestamp :: u32

record PoseAccessTimeMeasurements =
  pa_pose_timestamp :: u32
  pa_pose_accessed_timestamp :: u32

record ImageQualityMeasurements =
  iq_frame_id :: u32
  iq_codestream_size :: u32
  iq_raw_size :: u32
  iq_psnr :: f32

record NetworkMeasurements =
  nm_rtt_us :: u32
  nm_clock_error_us :: "32 word"

end
