(* ===== verification/Buckets.thy ===== *)
theory Buckets
  imports Benchmark "HOL-Library.Multiset"
begin

text \<open>
  The measurement buckets of \<open>benchmark.h\<close> and the statistics over them: one record per class,
  extended along the inheritance, and one definition per method. The locale \<open>phase_recorder\<close> states
  what every "add" method promises, and is interpreted on each of them.
\<close>

section \<open>Base bucket\<close>

datatype BucketMode = WINDOW | ACCEPT_ALL | FINISHED

type_synonym clock_ref = nat

record MeasurementBucket =
  m_rtp_clock :: "clock_ref option"
  m_window :: MeasurementWindow
  m_mode :: BucketMode

text \<open>What \<open>m_rtp_clock->now()\<close> gives for every clock object.\<close>

type_synonym clock_now = "clock_ref \<Rightarrow> int"

definition mb_reset :: "'a MeasurementBucket_scheme \<Rightarrow> 'a MeasurementBucket_scheme" where
  "mb_reset b = b\<lparr>m_mode := WINDOW, m_window := default_window\<rparr>"

definition measurements_complete :: "clock_now \<Rightarrow> 'a MeasurementBucket_scheme \<Rightarrow> bool" where
  "measurements_complete clk b =
     (case m_rtp_clock b of None \<Rightarrow> False
      | Some c \<Rightarrow> (m_mode b = WINDOW \<and> window_is_valid (m_window b)
                    \<and> window_is_after_window (m_window b) (clk c))
                  \<or> m_mode b = FINISHED)"

definition is_in_timing_phase :: "clock_now \<Rightarrow> 'a MeasurementBucket_scheme \<Rightarrow> bool" where
  "is_in_timing_phase clk b =
     (case m_rtp_clock b of None \<Rightarrow> False
      | Some c \<Rightarrow> (m_mode b = WINDOW \<and> window_is_valid (m_window b)
                    \<and> window_is_in_timing_phase (m_window b) (clk c))
                  \<or> m_mode b = ACCEPT_ALL)"

definition is_in_image_quality_phase :: "clock_now \<Rightarrow> 'a MeasurementBucket_scheme \<Rightarrow> bool" where
  "is_in_image_quality_phase clk b =
     (case m_rtp_clock b of None \<Rightarrow> False
      | Some c \<Rightarrow> (m_mode b = WINDOW \<and> window_is_valid (m_window b)
                    \<and> window_is_in_image_quality_phase (m_window b) (clk c))
                  \<or> m_mode b = ACCEPT_ALL)"

definition has_window :: "'a MeasurementBucket_scheme \<Rightarrow> bool" where
  "has_window b = window_is_valid (m_window b)"

definition reset_window :: "'a MeasurementBucket_scheme \<Rightarrow> 'a MeasurementBucket_scheme" where
  "reset_window b = b\<lparr>m_window := default_window\<rparr>"

definition set_as_accept_all :: "'a MeasurementBucket_scheme \<Rightarrow> 'a MeasurementBucket_scheme" where
  "set_as_accept_all b = b\<lparr>m_mode := ACCEPT_ALL\<rparr>"

definition set_as_finished :: "'a MeasurementBucket_scheme \<Rightarrow> 'a MeasurementBucket_scheme" where
  "set_as_finished b = b\<lparr>m_mode := FINISHED\<rparr>"

definition set_clock :: "clock_ref option \<Rightarrow> 'a MeasurementBucket_scheme \<Rightarrow> 'a MeasurementBucket_scheme" where
  "set_clock c b = b\<lparr>m_rtp_clock := c\<rparr>"

definition set_window :: "MeasurementWindow \<Rightarrow> 'a MeasurementBucket_scheme \<Rightarrow> 'a MeasurementBucket_scheme" where
  "set_window w b = b\<lparr>m_window := w\<rparr>"

section \<open>Socket measurements\<close>

record SocketMeasurementBucket = MeasurementBucket +
  m_socket_measurements :: "SocketMeasurements list"

definition smb_reset :: "'a SocketMeasurementBucket_scheme \<Rightarrow> 'a SocketMeasurementBucket_scheme" where
  "smb_reset b =
     (mb_reset b)\<lparr>m_socket_measurements :=
        map (\<lambda>s. s\<lparr>sm_bytes_received := 0, sm_bytes_sent := 0, sm_packets_received := 0,
                    sm_packets_sent := 0\<rparr>) (m_socket_measurements b)\<rparr>"

definition register_socket ::
    "SocketId \<Rightarrow> SocketType \<Rightarrow> 'a SocketMeasurementBucket_scheme
     \<Rightarrow> u32 \<times> 'a SocketMeasurementBucket_scheme" where
  "register_socket i t b =
     (let ms = m_socket_measurements b @
          [\<lparr>sm_socket_id = i, sm_socket_type = t, sm_bytes_sent = 0, sm_bytes_received = 0,
            sm_packets_sent = 0, sm_packets_received = 0\<rparr>]
      in (of_nat (length ms - 1), b\<lparr>m_socket_measurements := ms\<rparr>))"

text \<open>The counters are indexed without a check: an unregistered id is outside the vector.\<close>

definition update_socket ::
    "clock_now \<Rightarrow> u32 \<Rightarrow> (SocketMeasurements \<Rightarrow> SocketMeasurements)
     \<Rightarrow> 'a SocketMeasurementBucket_scheme \<Rightarrow> 'a SocketMeasurementBucket_scheme result" where
  "update_socket clk storage_id f b =
     (if is_in_timing_phase clk b
      then if unat storage_id < length (m_socket_measurements b)
           then Inr (b\<lparr>m_socket_measurements := (m_socket_measurements b)[unat storage_id :=
                        f (m_socket_measurements b ! unat storage_id)]\<rparr>)
           else Inl (UndefinedBehaviour ''socket storage id out of range'')
      else Inr b)"

definition add_bytes_sent ::
    "clock_now \<Rightarrow> u32 \<Rightarrow> u32 \<Rightarrow> 'a SocketMeasurementBucket_scheme
     \<Rightarrow> 'a SocketMeasurementBucket_scheme result" where
  "add_bytes_sent clk i n = update_socket clk i (\<lambda>s. s\<lparr>sm_bytes_sent := sm_bytes_sent s + n\<rparr>)"

definition add_bytes_received ::
    "clock_now \<Rightarrow> u32 \<Rightarrow> u32 \<Rightarrow> 'a SocketMeasurementBucket_scheme
     \<Rightarrow> 'a SocketMeasurementBucket_scheme result" where
  "add_bytes_received clk i n =
     update_socket clk i (\<lambda>s. s\<lparr>sm_bytes_received := sm_bytes_received s + n\<rparr>)"

definition add_packets_sent ::
    "clock_now \<Rightarrow> u32 \<Rightarrow> u32 \<Rightarrow> 'a SocketMeasurementBucket_scheme
     \<Rightarrow> 'a SocketMeasurementBucket_scheme result" where
  "add_packets_sent clk i n = update_socket clk i (\<lambda>s. s\<lparr>sm_packets_sent := sm_packets_sent s + n\<rparr>)"

definition add_packets_received ::
    "clock_now \<Rightarrow> u32 \<Rightarrow> u32 \<Rightarrow> 'a SocketMeasurementBucket_scheme
     \<Rightarrow> 'a SocketMeasurementBucket_scheme result" where
  "add_packets_received clk i n =
     update_socket clk i (\<lambda>s. s\<lparr>sm_packets_received := sm_packets_received s + n\<rparr>)"

definition add_socket_measurements ::
    "clock_now \<Rightarrow> SocketMeasurements \<Rightarrow> 'a SocketMeasurementBucket_scheme
     \<Rightarrow> 'a SocketMeasurementBucket_scheme" where
  "add_socket_measurements clk m b =
     (if is_in_timing_phase clk b
      then b\<lparr>m_socket_measurements := m_socket_measurements b @ [m]\<rparr> else b)"

section \<open>Server, client and driver buckets\<close>

record ServerMeasurementBucket = SocketMeasurementBucket +
  sb_pass_id :: u32
  sb_run_id :: u32
  sb_frame_measurements :: "ServerFrameTimeMeasurements list"
  sb_tracking_measurements :: "TrackingTimeMeasurements list"
  sb_image_quality_measurements :: "ImageQualityMeasurements list"
  sb_dropped_frames :: u32
  sb_nb_saved_frames :: u32

definition server_reset :: "ServerMeasurementBucket \<Rightarrow> ServerMeasurementBucket" where
  "server_reset b =
     (smb_reset b)\<lparr>sb_frame_measurements := [], sb_tracking_measurements := [],
        sb_image_quality_measurements := [], sb_dropped_frames := 0, sb_nb_saved_frames := 0\<rparr>"

definition server_add_frame_time_measurement ::
    "clock_now \<Rightarrow> ServerFrameTimeMeasurements \<Rightarrow> ServerMeasurementBucket \<Rightarrow> ServerMeasurementBucket" where
  "server_add_frame_time_measurement clk m b =
     (if is_in_timing_phase clk b
      then b\<lparr>sb_frame_measurements := sb_frame_measurements b @ [m]\<rparr> else b)"

definition server_add_tracking_time_measurement ::
    "clock_now \<Rightarrow> TrackingTimeMeasurements \<Rightarrow> ServerMeasurementBucket \<Rightarrow> ServerMeasurementBucket" where
  "server_add_tracking_time_measurement clk m b =
     (if is_in_timing_phase clk b
      then b\<lparr>sb_tracking_measurements := sb_tracking_measurements b @ [m]\<rparr> else b)"

definition server_add_image_quality_measurement ::
    "clock_now \<Rightarrow> ImageQualityMeasurements \<Rightarrow> ServerMeasurementBucket \<Rightarrow> ServerMeasurementBucket" where
  "server_add_image_quality_measurement clk m b =
     (if is_in_image_quality_phase clk b
      then b\<lparr>sb_image_quality_measurements := sb_image_quality_measurements b @ [m]\<rparr> else b)"

definition server_add_dropped_frame :: "clock_now \<Rightarrow> ServerMeasurementBucket \<Rightarrow> ServerMeasurementBucket" where
  "server_add_dropped_frame clk b =
     (if is_in_timing_phase clk b then b\<lparr>sb_dropped_frames := sb_dropped_frames b + 1\<rparr> else b)"

definition server_add_saved_frame :: "ServerMeasurementBucket \<Rightarrow> ServerMeasurementBucket" where
  "server_add_saved_frame b = b\<lparr>sb_nb_saved_frames := sb_nb_saved_frames b + 1\<rparr>"

definition server_has_saved_frames :: "ServerMeasurementBucket \<Rightarrow> bool" where
  "server_has_saved_frames b \<longleftrightarrow> sb_nb_saved_frames b = 10"

record ClientMeasurementBucket = SocketMeasurementBucket +
  cb_frame_measurements :: "ClientFrameTimeMeasurements list"
  cb_tracking_measurements :: "TrackingTimeMeasurements list"
  cb_image_quality_measurements :: "ImageQualityMeasurements list"
  cb_network_measurements :: "NetworkMeasurements list"
  cb_decoder_nb_pushed_frames :: u32
  cb_decoder_nb_pulled_frames :: u32
  cb_nb_saved_frames :: u32
  cb_nb_dropped_frames :: u32
  cb_nb_catched_up_frames :: u32

definition client_reset :: "ClientMeasurementBucket \<Rightarrow> ClientMeasurementBucket" where
  "client_reset b =
     (smb_reset b)\<lparr>cb_frame_measurements := [], cb_tracking_measurements := [],
        cb_image_quality_measurements := [], cb_network_measurements := [],
        cb_decoder_nb_pushed_frames := 0, cb_decoder_nb_pulled_frames := 0,
        cb_nb_saved_frames := 0, cb_nb_dropped_frames := 0\<rparr>"

definition client_add_frame_time_measurement ::
    "clock_now \<Rightarrow> ClientFrameTimeMeasurements \<Rightarrow> ClientMeasurementBucket \<Rightarrow> ClientMeasurementBucket" where
  "client_add_frame_time_measurement clk m b =
     (if is_in_timing_phase clk b
      then b\<lparr>cb_frame_measurements := cb_frame_measurements b @ [m]\<rparr> else b)"

definition client_add_tracking_time_measurement ::
    "clock_now \<Rightarrow> TrackingTimeMeasurements \<Rightarrow> ClientMeasurementBucket \<Rightarrow> ClientMeasurementBucket" where
  "client_add_tracking_time_measurement clk m b =
     (if is_in_timing_phase clk b
      then b\<lparr>cb_tracking_measurements := cb_tracking_measurements b @ [m]\<rparr> else b)"

definition client_add_image_quality_measurement ::
    "clock_now \<Rightarrow> ImageQualityMeasurements \<Rightarrow> ClientMeasurementBucket \<Rightarrow> ClientMeasurementBucket" where
  "client_add_image_quality_measurement clk m b =
     (if is_in_image_quality_phase clk b
      then b\<lparr>cb_image_quality_measurements := cb_image_quality_measurements b @ [m]\<rparr> else b)"

definition client_add_network_measurement ::
    "NetworkMeasurements \<Rightarrow> ClientMeasurementBucket \<Rightarrow> ClientMeasurementBucket" where
  "client_add_network_measurement m b =
     b\<lparr>cb_network_measurements := cb_network_measurements b @ [m]\<rparr>"

definition add_decoder_pushed_frame :: "ClientMeasurementBucket \<Rightarrow> ClientMeasurementBucket" where
  "add_decoder_pushed_frame b = b\<lparr>cb_decoder_nb_pushed_frames := cb_decoder_nb_pushed_frames b + 1\<rparr>"

definition add_decoder_pulled_frame :: "ClientMeasurementBucket \<Rightarrow> ClientMeasurementBucket" where
  "add_decoder_pulled_frame b = b\<lparr>cb_decoder_nb_pulled_frames := cb_decoder_nb_pulled_frames b + 1\<rparr>"

definition set_decoder_frame_delay :: "u32 \<Rightarrow> ClientMeasurementBucket \<Rightarrow> ClientMeasurementBucket" where
  "set_decoder_frame_delay delay b = b\<lparr>cb_decoder_nb_pushed_frames := delay\<rparr>"

definition client_add_saved_frame :: "ClientMeasurementBucket \<Rightarrow> ClientMeasurementBucket" where
  "client_add_saved_frame b = b\<lparr>cb_nb_saved_frames := cb_nb_saved_frames b + 1\<rparr>"

definition add_dropped_frames :: "clock_now \<Rightarrow> u32 \<Rightarrow> ClientMeasurementBucket \<Rightarrow> ClientMeasurementBucket" where
  "add_dropped_frames clk n b =
     (if is_in_timing_phase clk b then b\<lparr>cb_nb_dropped_frames := cb_nb_dropped_frames b + n\<rparr> else b)"

definition add_catched_up_frame :: "clock_now \<Rightarrow> ClientMeasurementBucket \<Rightarrow> ClientMeasurementBucket" where
  "add_catched_up_frame clk b =
     (if is_in_timing_phase clk b
      then b\<lparr>cb_nb_catched_up_frames := cb_nb_catched_up_frames b + 1\<rparr> else b)"

definition client_has_saved_frames :: "ClientMeasurementBucket \<Rightarrow> bool" where
  "client_has_saved_frames b \<longleftrightarrow> cb_nb_saved_frames b = 10"

definition set_nb_dropped_frames :: "u32 \<Rightarrow> ClientMeasurementBucket \<Rightarrow> ClientMeasurementBucket" where
  "set_nb_dropped_frames n b = b\<lparr>cb_nb_dropped_frames := n\<rparr>"

definition set_nb_catched_up_frames :: "u32 \<Rightarrow> ClientMeasurementBucket \<Rightarrow> ClientMeasurementBucket" where
  "set_nb_catched_up_frames n b = b\<lparr>cb_nb_catched_up_frames := n\<rparr>"

definition get_decoder_frame_delay :: "ClientMeasurementBucket \<Rightarrow> u32" where
  "get_decoder_frame_delay b = cb_decoder_nb_pushed_frames b - cb_decoder_nb_pulled_frames b"

record DriverMeasurementBucket = MeasurementBucket +
  db_frame_measurements :: "DriverFrameTimeMeasurements list"
  db_tracking_measurements :: "TrackingTimeMeasurements list"
  db_pose_accesses_measurements :: "PoseAccessTimeMeasurements list"

definition driver_reset :: "DriverMeasurementBucket \<Rightarrow> DriverMeasurementBucket" where
  "driver_reset b =
     (mb_reset b)\<lparr>db_frame_measurements := [], db_tracking_measurements := [],
        db_pose_accesses_measurements := []\<rparr>"

text \<open>Assignment keeps the clock and the window of the target; copy construction takes them over.\<close>

definition driver_copy :: "DriverMeasurementBucket \<Rightarrow> DriverMeasurementBucket" where
  "driver_copy other =
     \<lparr>m_rtp_clock = m_rtp_clock other, m_window = m_window other, m_mode = m_mode other,
      db_frame_measurements = db_frame_measurements other,
      db_tracking_measurements = db_tracking_measurements other,
      db_pose_accesses_measurements = db_pose_accesses_measurements other\<rparr>"

definition driver_assign :: "DriverMeasurementBucket \<Rightarrow> DriverMeasurementBucket \<Rightarrow> DriverMeasurementBucket" where
  "driver_assign self other =
     self\<lparr>db_frame_measurements := db_frame_measurements other,
          db_tracking_measurements := db_tracking_measurements other,
          db_pose_accesses_measurements := db_pose_accesses_measurements other,
          m_mode := m_mode other\<rparr>"

definition driver_add_frame_time_measurement ::
    "clock_now \<Rightarrow> DriverFrameTimeMeasurements \<Rightarrow> DriverMeasurementBucket \<Rightarrow> DriverMeasurementBucket" where
  "driver_add_frame_time_measurement clk m b =
     (if is_in_timing_phase clk b
      then b\<lparr>db_frame_measurements := db_frame_measurements b @ [m]\<rparr> else b)"

definition driver_add_tracking_time_measurement ::
    "clock_now \<Rightarrow> TrackingTimeMeasurements \<Rightarrow> DriverMeasurementBucket \<Rightarrow> DriverMeasurementBucket" where
  "driver_add_tracking_time_measurement clk m b =
     (if is_in_timing_phase clk b
      then b\<lparr>db_tracking_measurements := db_tracking_measurements b @ [m]\<rparr> else b)"

definition driver_add_pose_access_measurement ::
    "clock_now \<Rightarrow> PoseAccessTimeMeasurements \<Rightarrow> DriverMeasurementBucket \<Rightarrow> DriverMeasurementBucket" where
  "driver_add_pose_access_measurement clk m b =
     (if is_in_timing_phase clk b
      then b\<lparr>db_pose_accesses_measurements := db_pose_accesses_measurements b @ [m]\<rparr> else b)"

section \<open>Statistics\<close>

text \<open>The loop over the measurements, from minimum, maximum and sum so far.\<close>

fun rtt_loop :: "u32 \<times> u32 \<times> u32 \<Rightarrow> u32 list \<Rightarrow> u32 \<times> u32 \<times> u32" where
  "rtt_loop acc [] = acc"
| "rtt_loop (mn, mx, tot) (r # rs) = rtt_loop (min mn r, max mx r, tot + r) rs"

definition get_rtt_stats :: "ClientMeasurementBucket \<Rightarrow> u32 \<times> u32 \<times> u32 \<times> u32" where
  "get_rtt_stats b =
     (let rtts = map nm_rtt_us (cb_network_measurements b) in
      if rtts = [] then (0, 0, 0, 0)
      else let (mn, mx, tot) = rtt_loop (rtts ! 0, rtts ! 0, 0) rtts in
        (mn, mx, of_nat (unat tot div length rtts), compute_median rtts))"

text \<open>\<open>std::abs\<close> on \<open>int\<close> is undefined for the most negative value.\<close>

definition abs_int :: "32 word \<Rightarrow> u32 result" where
  "abs_int e =
     (if sint e = - 2147483648 then Inl (UndefinedBehaviour ''abs of INT_MIN'')
      else Inr (word_of_int \<bar>sint e\<bar>))"

fun abs_errors :: "NetworkMeasurements list \<Rightarrow> u32 list result" where
  "abs_errors [] = Inr []"
| "abs_errors (m # ms) =
     (case abs_int (nm_clock_error_us m) of Inl f \<Rightarrow> Inl f
      | Inr a \<Rightarrow> (case abs_errors ms of Inl f \<Rightarrow> Inl f | Inr as \<Rightarrow> Inr (a # as)))"

fun error_loop :: "u32 \<times> u32 \<Rightarrow> u32 list \<Rightarrow> u32 \<times> u32" where
  "error_loop acc [] = acc"
| "error_loop (mn, mx) (a # as) = error_loop (min mn a, max mx a) as"

definition get_clock_error_stats :: "ClientMeasurementBucket \<Rightarrow> (u32 \<times> u32 \<times> u32) result" where
  "get_clock_error_stats b =
     (case abs_errors (cb_network_measurements b) of
        Inl f \<Rightarrow> Inl f
      | Inr as \<Rightarrow>
          if as = [] then Inr (0, 0, 0)
          else let (mn, mx) = error_loop (as ! 0, as ! 0) as in Inr (mn, mx, compute_median as))"

section \<open>The promise of a recorder\<close>

locale phase_recorder =
  fixes phase :: "clock_now \<Rightarrow> 'b \<Rightarrow> bool"
    and add :: "clock_now \<Rightarrow> 'm \<Rightarrow> 'b \<Rightarrow> 'b"
    and entries :: "'b \<Rightarrow> 'm list"
  assumes entries_add: "entries (add clk m b) = (if phase clk b then entries b @ [m] else entries b)"
    and phase_add: "phase clk' (add clk m b) = phase clk' b"
begin

lemma phase_run: "phase clk (fold (\<lambda>(c, m). add c m) es b) = phase clk b"
  by (induction es arbitrary: b) (simp_all add: phase_add split: prod.split)

lemma entries_run:
  "entries (fold (\<lambda>(c, m). add c m) es b) = entries b @ map snd (filter (\<lambda>e. phase (fst e) b) es)"
  by (induction es arbitrary: b) (simp_all add: entries_add phase_add split: prod.split)

lemma entries_outside:
  "(\<And>c m. (c, m) \<in> set es \<Longrightarrow> \<not> phase c b) \<Longrightarrow> entries (fold (\<lambda>(c, m). add c m) es b) = entries b"
  by (subst entries_run) (auto simp: filter_empty_conv)

end

text \<open>The phase of a bucket depends on its clock, window and mode only.\<close>

lemma timing_phase_cong:
  "m_rtp_clock a = m_rtp_clock b \<Longrightarrow> m_window a = m_window b \<Longrightarrow> m_mode a = m_mode b
   \<Longrightarrow> is_in_timing_phase clk a = is_in_timing_phase clk b"
  by (simp add: is_in_timing_phase_def split: option.split)

lemma image_phase_cong:
  "m_rtp_clock a = m_rtp_clock b \<Longrightarrow> m_window a = m_window b \<Longrightarrow> m_mode a = m_mode b
   \<Longrightarrow> is_in_image_quality_phase clk a = is_in_image_quality_phase clk b"
  by (simp add: is_in_image_quality_phase_def split: option.split)

interpretation server_frames: phase_recorder is_in_timing_phase server_add_frame_time_measurement
    sb_frame_measurements
  by unfold_locales (rule timing_phase_cong | simp add: server_add_frame_time_measurement_def)+

interpretation server_tracking: phase_recorder is_in_timing_phase server_add_tracking_time_measurement
    sb_tracking_measurements
  by unfold_locales (rule timing_phase_cong | simp add: server_add_tracking_time_measurement_def)+

interpretation server_images: phase_recorder is_in_image_quality_phase
    server_add_image_quality_measurement sb_image_quality_measurements
  by unfold_locales (rule image_phase_cong | simp add: server_add_image_quality_measurement_def)+

interpretation client_frames: phase_recorder is_in_timing_phase client_add_frame_time_measurement
    cb_frame_measurements
  by unfold_locales (rule timing_phase_cong | simp add: client_add_frame_time_measurement_def)+

interpretation client_tracking: phase_recorder is_in_timing_phase client_add_tracking_time_measurement
    cb_tracking_measurements
  by unfold_locales (rule timing_phase_cong | simp add: client_add_tracking_time_measurement_def)+

interpretation client_images: phase_recorder is_in_image_quality_phase
    client_add_image_quality_measurement cb_image_quality_measurements
  by unfold_locales (rule image_phase_cong | simp add: client_add_image_quality_measurement_def)+

interpretation driver_frames: phase_recorder is_in_timing_phase driver_add_frame_time_measurement
    db_frame_measurements
  by unfold_locales (rule timing_phase_cong | simp add: driver_add_frame_time_measurement_def)+

interpretation driver_tracking: phase_recorder is_in_timing_phase driver_add_tracking_time_measurement
    db_tracking_measurements
  by unfold_locales (rule timing_phase_cong | simp add: driver_add_tracking_time_measurement_def)+

interpretation driver_poses: phase_recorder is_in_timing_phase driver_add_pose_access_measurement
    db_pose_accesses_measurements
  by unfold_locales (rule timing_phase_cong | simp add: driver_add_pose_access_measurement_def)+

interpretation socket_samples: phase_recorder is_in_timing_phase add_socket_measurements
    m_socket_measurements
  by unfold_locales (rule timing_phase_cong | simp add: add_socket_measurements_def)+

section \<open>Median and statistics\<close>

lemma prefix_count:
  "k \<le> length s \<Longrightarrow> (\<And>i. i < k \<Longrightarrow> P (s ! i)) \<Longrightarrow> k \<le> length (filter P s)"
proof -
  assume k: "k \<le> length s" and P: "\<And>i. i < k \<Longrightarrow> P (s ! i)"
  have "filter P (take k s) = take k s"
    using k P by (auto simp: filter_id_conv in_set_conv_nth)
  moreover have "filter P s = filter P (take k s) @ filter P (drop k s)"
    by (metis append_take_drop_id filter_append)
  ultimately show ?thesis using k by simp
qed

lemma suffix_count:
  "k \<le> length s \<Longrightarrow> (\<And>i. k \<le> i \<Longrightarrow> i < length s \<Longrightarrow> P (s ! i)) \<Longrightarrow> length s - k \<le> length (filter P s)"
proof -
  assume k: "k \<le> length s" and P: "\<And>i. k \<le> i \<Longrightarrow> i < length s \<Longrightarrow> P (s ! i)"
  have "P (drop k s ! i)" if "i < length s - k" for i
    using that P [of "k + i"] by simp
  then have "filter P (drop k s) = drop k s"
    by (auto simp: filter_id_conv in_set_conv_nth)
  moreover have "filter P s = filter P (take k s) @ filter P (drop k s)"
    by (metis append_take_drop_id filter_append)
  ultimately show ?thesis by simp
qed

lemma middle_index: "xs \<noteq> [] \<Longrightarrow> (length xs - 1) div 2 < length xs"
  by (cases xs) auto

lemma length_filter_sort: "length (filter P (sort xs)) = length (filter P xs)"
proof -
  have "mset (filter P (sort xs)) = mset (filter P xs)" by simp
  then show ?thesis by (rule mset_eq_length)
qed

lemma unat_half_sum:
  "unat x + unat y < 2 ^ 32 \<Longrightarrow> unat ((x + y) div 2 :: u32) = (unat x + unat y) div 2"
  by (simp add: unat_div unat_word_ariths)

text \<open>The element or pair of elements that the median is taken from.\<close>

lemma median_between:
  assumes "array \<noteq> []" and "\<And>x y. x \<in> set array \<Longrightarrow> y \<in> set array \<Longrightarrow> length array mod 2 = 0
    \<Longrightarrow> unat x + unat y < 2 ^ 32"
  shows "sort array ! ((length array - 1) div 2) \<le> compute_median array"
    and "compute_median array \<le> sort array ! (length array div 2)"
proof -
  define s where "s = sort array"
  define n where "n = length array"
  have s: "sorted s" "length s = n" "set s = set array" by (simp_all add: s_def n_def)
  have "n > 0" using assms(1) by (simp add: n_def)
  have one: "compute_median array = s ! 0" if "n = 1"
    using that by (auto simp: compute_median_def s_def n_def length_Suc_conv)
  have odd: "compute_median array = s ! (n div 2)" if "n mod 2 = 1" "n \<noteq> 1"
    using that s(2) by (auto simp: compute_median_def s_def n_def Let_def)
  have even: "compute_median array = (s ! (n div 2 - 1) + s ! (n div 2)) div 2" if "n mod 2 = 0"
    using that s(2) \<open>n > 0\<close> by (auto simp: compute_median_def s_def n_def Let_def)
  have "s ! ((n - 1) div 2) \<le> compute_median array \<and> compute_median array \<le> s ! (n div 2)"
  proof (cases "n mod 2 = 0")
    case True
    then have idx: "(n - 1) div 2 = n div 2 - 1" "n div 2 - 1 \<le> n div 2" "n div 2 < n"
      using \<open>n > 0\<close> by presburger+
    then have le: "s ! (n div 2 - 1) \<le> s ! (n div 2)"
      using s by (intro sorted_nth_mono) auto
    have "unat (s ! (n div 2 - 1)) + unat (s ! (n div 2)) < 2 ^ 32"
      using assms(2) True idx s by (metis less_imp_diff_less n_def nth_mem)
    with le True show ?thesis
      unfolding even [OF True] idx(1) word_le_nat_alt by (subst (1 2) unat_half_sum) auto
  next
    case False
    then have "(n - 1) div 2 = n div 2" by presburger
    with False one odd show ?thesis by (cases "n = 1") auto
  qed
  then show "sort array ! ((length array - 1) div 2) \<le> compute_median array"
    and "compute_median array \<le> sort array ! (length array div 2)"
    by (simp_all add: s_def n_def)
qed

lemma rtt_loop_spec:
  "rtt_loop (mn, mx, tot) rs = (fold min rs mn, fold max rs mx, tot + sum_list rs)"
  by (induction rs arbitrary: mn mx tot) (simp_all add: min.commute max.commute add.assoc)

lemma fold_min_max:
  "xs \<noteq> [] \<Longrightarrow> fold min xs (xs ! 0) = Min (set xs)" "xs \<noteq> [] \<Longrightarrow> fold max xs (xs ! 0) = Max (set xs)"
  for xs :: "u32 list"
  by (cases xs; simp only: Min.set_eq_fold Max.set_eq_fold; simp)+

lemma unat_sum_list: "unat (sum_list rs :: u32) = sum_list (map unat rs) mod 2 ^ 32"
  by (induction rs) (simp_all add: unat_word_ariths mod_simps)

lemma sum_list_bounds:
  fixes xs :: "nat list"
  assumes "\<And>x. x \<in> set xs \<Longrightarrow> lo \<le> x" "\<And>x. x \<in> set xs \<Longrightarrow> x \<le> hi"
  shows "lo * length xs \<le> sum_list xs" "sum_list xs \<le> hi * length xs"
  using assms by (induction xs) (auto simp: add_mono)

section \<open>Properties\<close>

text \<open>With a valid window set, the frame time measurements that a server bucket ends up with are,
  in order, those added while the shared clock was between the start of the timing phase and the
  start of the image quality phase, and the image quality measurements those added from there to the
  end of the measurements; nothing else is stored.\<close>

theorem server_bucket_records_window:
  assumes "m_rtp_clock b = Some c" "m_mode b = WINDOW" "window_is_valid (m_window b)"
  shows "sb_frame_measurements (fold (\<lambda>(clk, m). server_add_frame_time_measurement clk m) fs b)
      = sb_frame_measurements b @ map snd (filter (\<lambda>e. start_timing_phase (m_window b) \<le> fst e c
          \<and> fst e c \<le> start_image_quality_phase (m_window b)) fs)
    \<and> sb_image_quality_measurements (fold (\<lambda>(clk, m). server_add_image_quality_measurement clk m) is b)
      = sb_image_quality_measurements b @ map snd (filter (\<lambda>e. start_image_quality_phase (m_window b) \<le> fst e c
          \<and> fst e c \<le> end_measurements (m_window b)) is)"
  using assms
  by (simp add: server_frames.entries_run server_images.entries_run is_in_timing_phase_def
      is_in_image_quality_phase_def window_is_in_timing_phase_def window_is_in_image_quality_phase_def)

definition example_server_bucket :: ServerMeasurementBucket where
  "example_server_bucket =
     \<lparr>m_rtp_clock = Some 0,
      m_window = \<lparr>start_timing_phase = 10, start_image_quality_phase = 20, end_measurements = 30,
                  end_window = 40\<rparr>,
      m_mode = WINDOW, m_socket_measurements = [], sb_pass_id = 0, sb_run_id = 0,
      sb_frame_measurements = [], sb_tracking_measurements = [], sb_image_quality_measurements = [],
      sb_dropped_frames = 0, sb_nb_saved_frames = 0\<rparr>"

theorem server_bucket_records_window_witness:
  "sb_image_quality_measurements
     (fold (\<lambda>(clk, m). server_add_image_quality_measurement clk m)
        [(\<lambda>_. 19, \<lparr>iq_frame_id = 1, iq_codestream_size = 2, iq_raw_size = 3, iq_psnr = 4\<rparr>),
         (\<lambda>_. 25, \<lparr>iq_frame_id = 5, iq_codestream_size = 6, iq_raw_size = 7, iq_psnr = 8\<rparr>)]
        example_server_bucket)
   = [\<lparr>iq_frame_id = 5, iq_codestream_size = 6, iq_raw_size = 7, iq_psnr = 8\<rparr>]"
  using server_bucket_records_window [of example_server_bucket 0 "[]"
      "[(\<lambda>_. 19, \<lparr>iq_frame_id = 1, iq_codestream_size = 2, iq_raw_size = 3, iq_psnr = 4\<rparr>),
        (\<lambda>_. 25, \<lparr>iq_frame_id = 5, iq_codestream_size = 6, iq_raw_size = 7, iq_psnr = 8\<rparr>)]"]
  by (simp add: example_server_bucket_def window_is_valid_def)

text \<open>The median of a non-empty array splits it: at least half of the elements are at most the
  median and at least half are at least it, as long as no sum of two elements wraps around.\<close>

theorem compute_median_splits:
  assumes "array \<noteq> []" "\<And>x. x \<in> set array \<Longrightarrow> x < 2 ^ 31"
  shows "length array \<le> 2 * length (filter (\<lambda>x. x \<le> compute_median array) array)
    \<and> length array \<le> 2 * length (filter (\<lambda>x. compute_median array \<le> x) array)"
proof -
  define s where "s = sort array"
  have s: "sorted s" "length s = length array" by (simp_all add: s_def)
  have small: "unat x + unat y < 2 ^ 32" if "x \<in> set array" "y \<in> set array" for x y
    using assms(2) [OF that(1)] assms(2) [OF that(2)] by (simp add: word_less_nat_alt)
  then have med: "s ! ((length array - 1) div 2) \<le> compute_median array"
      "compute_median array \<le> s ! (length array div 2)"
    using median_between [OF assms(1)] unfolding s_def by blast+
  have pos: "0 < length array" "(length array - 1) div 2 < length array"
    using assms(1) by (simp, rule middle_index)
  have "(length array - 1) div 2 + 1 \<le> length (filter (\<lambda>x. x \<le> compute_median array) s)"
  proof (rule prefix_count)
    show "(length array - 1) div 2 + 1 \<le> length s" using s(2) pos by linarith
    fix i assume "i < (length array - 1) div 2 + 1"
    then have "s ! i \<le> s ! ((length array - 1) div 2)"
      using s pos by (intro sorted_nth_mono) simp_all
    with med show "s ! i \<le> compute_median array" by simp
  qed
  moreover have "length s - length array div 2 \<le> length (filter (\<lambda>x. compute_median array \<le> x) s)"
  proof (rule suffix_count)
    show "length array div 2 \<le> length s" using s(2) by simp
    fix i assume "length array div 2 \<le> i" "i < length s"
    then have "s ! (length array div 2) \<le> s ! i"
      using s by (intro sorted_nth_mono) auto
    with med show "compute_median array \<le> s ! i" by simp
  qed
  ultimately show ?thesis
    unfolding s_def length_filter_sort length_sort using pos(1) by presburger
qed

theorem compute_median_splits_witness:
  "compute_median [7, 5, 4, 2] = 4
   \<and> 4 \<le> 2 * length (filter (\<lambda>x. x \<le> compute_median [7, 5, 4, 2]) [7, 5, 4, 2])"
  using compute_median_splits [of "[7, 5, 4, 2]"]
  by (auto simp: compute_median_def)

text \<open>On a bucket with network measurements whose sum fits 32 bits, \<open>get_rtt_stats\<close> gives the true
  minimum, maximum and (rounded down) mean, and mean and median lie between minimum and maximum.\<close>

theorem rtt_stats_exact:
  assumes "rtts = map nm_rtt_us (cb_network_measurements b)" "rtts \<noteq> []"
    and "sum_list (map unat rtts) < 2 ^ 32" "\<And>x. x \<in> set rtts \<Longrightarrow> x < 2 ^ 31"
    and "get_rtt_stats b = (mn, mx, av, med)"
  shows "mn = Min (set rtts) \<and> mx = Max (set rtts)
    \<and> unat av = sum_list (map unat rtts) div length rtts
    \<and> mn \<le> av \<and> av \<le> mx \<and> mn \<le> med \<and> med \<le> mx"
proof -
  have eqs: "mn = Min (set rtts)" "mx = Max (set rtts)" "med = compute_median rtts"
      "av = of_nat (unat (sum_list rtts) div length rtts)"
    using assms(2,5) unfolding get_rtt_stats_def Let_def assms(1) [symmetric]
    by (auto simp: rtt_loop_spec fold_min_max)
  have "sum_list (map unat rtts) div length rtts < 2 ^ 32"
    using assms(3) by (rule order.strict_trans1 [OF div_le_dividend])
  then have av: "unat av = sum_list (map unat rtts) div length rtts"
    using assms(3) unfolding eqs(4) unat_sum_list by (simp add: unat_of_nat)
  have bounds: "mn \<le> x" "x \<le> mx" if "x \<in> set rtts" for x
    using that eqs by simp_all
  have "unat mn * length rtts \<le> sum_list (map unat rtts)" "sum_list (map unat rtts) \<le> unat mx * length rtts"
    using sum_list_bounds [of "map unat rtts" "unat mn" "unat mx"] bounds by (auto simp: word_le_nat_alt)
  then have "unat mn \<le> unat av" "unat av \<le> unat mx"
    unfolding av using assms(2) div_le_mono [of "sum_list (map unat rtts)" "unat mx * length rtts" "length rtts"]
    by (simp_all add: less_eq_div_iff_mult_less_eq)
  moreover have "mn \<le> med" "med \<le> mx"
  proof -
    have small: "unat x + unat y < 2 ^ 32" if "x \<in> set rtts" "y \<in> set rtts" for x y
      using assms(4) [OF that(1)] assms(4) [OF that(2)] by (simp add: word_less_nat_alt)
    have "sort rtts ! ((length rtts - 1) div 2) \<in> set rtts" "sort rtts ! (length rtts div 2) \<in> set rtts"
      using assms(2) middle_index [of rtts] nth_mem [of _ "sort rtts"] by simp_all
    with median_between [OF assms(2) small] bounds show "mn \<le> med" "med \<le> mx"
      unfolding eqs(3) by (meson order_trans)+
  qed
  ultimately show ?thesis
    using eqs av by (simp add: word_le_nat_alt)
qed

definition example_rtt_bucket :: ClientMeasurementBucket where
  "example_rtt_bucket =
     \<lparr>m_rtp_clock = None, m_window = default_window, m_mode = WINDOW, m_socket_measurements = [],
      cb_frame_measurements = [], cb_tracking_measurements = [], cb_image_quality_measurements = [],
      cb_network_measurements = [\<lparr>nm_rtt_us = 900, nm_clock_error_us = 3\<rparr>,
        \<lparr>nm_rtt_us = 400, nm_clock_error_us = - 5\<rparr>],
      cb_decoder_nb_pushed_frames = 0, cb_decoder_nb_pulled_frames = 0,
      cb_nb_saved_frames = 0, cb_nb_dropped_frames = 0, cb_nb_catched_up_frames = 0\<rparr>"

theorem rtt_stats_exact_witness:
  "get_rtt_stats example_rtt_bucket = (400, 900, 650, 650) \<and> unat (650 :: u32) = (900 + 400) div 2"
proof -
  have run: "get_rtt_stats example_rtt_bucket = (400, 900, 650, 650)"
    by (simp add: get_rtt_stats_def example_rtt_bucket_def compute_median_def flip: numeral_2_eq_2)
  have "\<And>x. x \<in> set [900, 400 :: u32] \<Longrightarrow> x < 2 ^ 31" by auto
  from rtt_stats_exact [where b = example_rtt_bucket and rtts = "[900, 400]", OF _ _ _ this run] run
  show ?thesis by (simp add: example_rtt_bucket_def)
qed

text \<open>Between two runs the client resets its bucket and sets the next window. From then on the
  dropped frames count from zero, but the catched-up frames keep those of all previous runs, since
  \<open>reset\<close> does not clear that counter.\<close>

theorem client_reset_counters:
  assumes "m_rtp_clock b = Some c" "window_is_valid w" "window_is_in_timing_phase w (clk c)"
  shows "cb_nb_dropped_frames ((add_dropped_frames clk 1 ^^ n) (set_window w (client_reset b))) = of_nat n
    \<and> cb_nb_catched_up_frames ((add_catched_up_frame clk ^^ n) (set_window w (client_reset b)))
        = cb_nb_catched_up_frames b + of_nat n"
proof -
  define b0 where "b0 = set_window w (client_reset b)"
  have phase: "is_in_timing_phase clk b0"
    using assms by (simp add: b0_def set_window_def client_reset_def smb_reset_def mb_reset_def
        is_in_timing_phase_def)
  have drop: "is_in_timing_phase clk ((add_dropped_frames clk 1 ^^ k) b0)
      \<and> cb_nb_dropped_frames ((add_dropped_frames clk 1 ^^ k) b0) = cb_nb_dropped_frames b0 + of_nat k" for k
    by (induction k) (simp_all add: phase add_dropped_frames_def add.commute
        timing_phase_cong [of "cb_nb_dropped_frames_update _ _"])
  have catched: "is_in_timing_phase clk ((add_catched_up_frame clk ^^ k) b0)
      \<and> cb_nb_catched_up_frames ((add_catched_up_frame clk ^^ k) b0) = cb_nb_catched_up_frames b0 + of_nat k" for k
    by (induction k) (simp_all add: phase add_catched_up_frame_def add.commute
        timing_phase_cong [of "cb_nb_catched_up_frames_update _ _"])
  have "cb_nb_dropped_frames b0 = 0" "cb_nb_catched_up_frames b0 = cb_nb_catched_up_frames b"
    by (simp_all add: b0_def set_window_def client_reset_def smb_reset_def mb_reset_def)
  with drop [of n] catched [of n] show ?thesis by (simp add: b0_def)
qed

definition example_client_bucket :: ClientMeasurementBucket where
  "example_client_bucket =
     \<lparr>m_rtp_clock = Some 0, m_window = default_window, m_mode = WINDOW, m_socket_measurements = [],
      cb_frame_measurements = [], cb_tracking_measurements = [], cb_image_quality_measurements = [],
      cb_network_measurements = [], cb_decoder_nb_pushed_frames = 0, cb_decoder_nb_pulled_frames = 0,
      cb_nb_saved_frames = 0, cb_nb_dropped_frames = 4, cb_nb_catched_up_frames = 3\<rparr>"

theorem client_reset_counters_witness:
  "cb_nb_catched_up_frames ((add_catched_up_frame (\<lambda>_. 15) ^^ 2)
     (set_window \<lparr>start_timing_phase = 10, start_image_quality_phase = 20, end_measurements = 30,
                  end_window = 40\<rparr> (client_reset example_client_bucket))) = 5"
  using client_reset_counters [of example_client_bucket 0
      "\<lparr>start_timing_phase = 10, start_image_quality_phase = 20, end_measurements = 30, end_window = 40\<rparr>"
      "\<lambda>_. 15" 2]
  by (simp add: example_client_bucket_def window_is_valid_def window_is_in_timing_phase_def)

end
