(* ===== verification/CsvExport.thy ===== *)
theory CsvExport
  imports Buckets
begin

text \<open>
  \<open>common/src/benchmark.cpp\<close>: the CSV export of the measurements. An \<open>ofstream\<close> is the text written
  so far, or \<open>None\<close> when it is not open, in which case nothing is written. The printing of a \<open>float\<close>
  by the stream is the argument \<open>show_float\<close>.
\<close>

type_synonym ofstream = "string option"

definition string_of_int :: "int \<Rightarrow> string" where
  "string_of_int k = (if k < 0 then CHR ''-'' # string_of_nat (nat (- k)) else string_of_nat (nat k))"

abbreviation show_u32 :: "u32 \<Rightarrow> string" where
  "show_u32 x \<equiv> string_of_nat (unat x)"

text \<open>The fields of a line with a comma between them, and the line end.\<close>

fun csv_row :: "string list \<Rightarrow> string" where
  "csv_row [] = ''\<newline>''"
| "csv_row [f] = f @ ''\<newline>''"
| "csv_row (f # fs) = f @ '','' @ csv_row fs"

definition write_rows :: "ofstream \<Rightarrow> string list list \<Rightarrow> ofstream" where
  "write_rows file rows =
     (case file of None \<Rightarrow> None | Some s \<Rightarrow> Some (s @ concat (map csv_row rows)))"

definition to_us :: "RTPClock \<Rightarrow> u32 \<Rightarrow> int" where
  "to_us clock t = us_of_ticks (from_rtp_timestamp clock t)"

abbreviation show_us :: "RTPClock \<Rightarrow> u32 \<Rightarrow> string" where
  "show_us clock t \<equiv> string_of_int (to_us clock t)"

definition socket_csv_header :: "string list" where
  "socket_csv_header = [''component'', ''socket_id'', ''socket_type'', ''bytes_sent'',
     ''bytes_received'', ''packets_sent'', ''packets_received'']"

definition export_csv_header :: "ofstream \<Rightarrow> ofstream" where
  "export_csv_header file = write_rows file [socket_csv_header]"

definition export_csv_body :: "ofstream \<Rightarrow> SocketMeasurements list \<Rightarrow> string \<Rightarrow> ofstream" where
  "export_csv_body file ms component =
     write_rows file (map (\<lambda>m. [component, socket_id_to_string (sm_socket_id m),
       socket_type_to_string (sm_socket_type m), show_u32 (sm_bytes_sent m),
       show_u32 (sm_bytes_received m), show_u32 (sm_packets_sent m),
       show_u32 (sm_packets_received m)]) ms)"

definition driver_frame_export_csv ::
    "ofstream \<Rightarrow> RTPClock \<Rightarrow> DriverFrameTimeMeasurements list \<Rightarrow> ofstream" where
  "driver_frame_export_csv file clock ms =
     write_rows file ([''frame_id'', ''present_called'', ''vsync'', ''frame_sent'',
        ''wait_for_present_called'', ''server_finished'', ''pose_updated_event'']
      # map (\<lambda>m. [show_u32 (df_frame_id m), show_us clock (df_present_called_timestamp m),
          show_us clock (df_vsync_timestamp m), show_us clock (df_frame_sent_timestamp m),
          show_us clock (df_wait_for_present_called_timestamp m),
          show_us clock (df_server_finished_timestamp m),
          show_us clock (df_pose_updated_event_timestamp m)]) ms)"

definition tracking_export_csv ::
    "ofstream \<Rightarrow> RTPClock \<Rightarrow> TrackingTimeMeasurements list \<Rightarrow> ofstream" where
  "tracking_export_csv file clock ms =
     write_rows file ([''pose_timestamp'', ''tracking_received'', ''tracking_processed'']
      # map (\<lambda>m. [show_us clock (tt_pose_timestamp m), show_us clock (tt_tracking_received_timestamp m),
          show_us clock (tt_tracking_processed_timestamp m)]) ms)"

definition pose_access_export_csv ::
    "ofstream \<Rightarrow> RTPClock \<Rightarrow> PoseAccessTimeMeasurements list \<Rightarrow> ofstream" where
  "pose_access_export_csv file clock ms =
     write_rows file ([''pose_timestamp'', ''pose_accessed'']
      # map (\<lambda>m. [show_us clock (pa_pose_timestamp m), show_us clock (pa_pose_accessed_timestamp m)]) ms)"

definition server_frame_export_csv ::
    "ofstream \<Rightarrow> RTPClock \<Rightarrow> ServerFrameTimeMeasurements list \<Rightarrow> ofstream" where
  "server_frame_export_csv file clock ms =
     write_rows file ([''frame_id'', ''dropped'', ''frame_event_received'', ''present_info_received'',
        ''shared_texture_opened'', ''shared_texture_acquired'', ''staging_texture_mapped'',
        ''encoder_frame_pushed'', ''encoder_frame_pulled'', ''before_last_get_next_packet'',
        ''after_last_get_next_packet'', ''before_last_send_packet'', ''after_last_send_packet'',
        ''finished_signal_sent'']
      # map (\<lambda>m. [show_u32 (sf_frame_id m), (if sf_dropped m then ''1'' else ''0''),
          show_us clock (sf_frame_event_received_timestamp m),
          show_us clock (sf_present_info_received_timestamp m),
          show_us clock (sf_shared_texture_opened_timestamp m),
          show_us clock (sf_shared_texture_acquired_timestamp m),
          show_us clock (sf_staging_texture_mapped_timestamp m),
          show_us clock (sf_frame_pushed_timestamp m),
          show_us clock (sf_frame_pulled_timestamp m),
          show_us clock (sf_before_last_get_next_packet_timestamp m),
          show_us clock (sf_after_last_get_next_packet_timestamp m),
          show_us clock (sf_before_last_send_packet_timestamp m),
          show_us clock (sf_after_last_send_packet_timestamp m),
          show_us clock (sf_finished_signal_sent_timestamp m)]) ms)"

definition image_quality_export_csv ::
    "(f32 \<Rightarrow> string) \<Rightarrow> ofstream \<Rightarrow> ImageQualityMeasurements list \<Rightarrow> ofstream" where
  "image_quality_export_csv show_float file ms =
     write_rows file ([''frame_id'', ''codestream_size'', ''raw_size'', ''psnr'']
      # map (\<lambda>m. [show_u32 (iq_frame_id m), show_u32 (iq_codestream_size m),
          show_u32 (iq_raw_size m), show_float (iq_psnr m)]) ms)"

definition client_frame_export_csv ::
    "ofstream \<Rightarrow> RTPClock \<Rightarrow> ClientFrameTimeMeasurements list \<Rightarrow> ofstream" where
  "client_frame_export_csv file clock ms =
     write_rows file ([''frame_index'', ''frame_id'', ''frame_delay'', ''tracking_sampled'',
        ''last_packet_received'', ''pushed_to_decoder'', ''begin_wait_frame'', ''begin_frame'',
        ''after_wait_swapchain'', ''after_render'', ''end_frame'', ''predicted_present_time'',
        ''pose_timestamp'']
      # map (\<lambda>m. [show_u32 (cf_frame_index m), show_u32 (cf_frame_id m), show_u32 (cf_frame_delay m),
          show_us clock (cf_tracking_timestamp m), show_us clock (cf_last_packet_received_timestamp m),
          show_us clock (cf_pushed_to_decoder_timestamp m),
          show_us clock (cf_begin_wait_frame_timestamp m), show_us clock (cf_begin_frame_timestamp m),
          show_us clock (cf_after_wait_swapchain_timestamp m),
          show_us clock (cf_after_render_timestamp m), show_us clock (cf_end_frame_timestamp m),
          show_us clock (cf_predicted_present_timestamp m), show_us clock (cf_pose_timestamp m)]) ms)"

definition network_export_csv :: "ofstream \<Rightarrow> NetworkMeasurements list \<Rightarrow> ofstream" where
  "network_export_csv file ms =
     write_rows file ([''rtt'', ''clock_error'']
      # map (\<lambda>m. [show_u32 (nm_rtt_us m), string_of_int (sint (nm_clock_error_us m))]) ms)"

definition export_misc_measurements_csv ::
    "ofstream \<Rightarrow> u32 \<Rightarrow> u32 \<Rightarrow> u32 \<Rightarrow> u32 \<Rightarrow> u32 \<Rightarrow> ofstream" where
  "export_misc_measurements_csv file dropped_server dropped_client catched_up enc_delay dec_delay =
     write_rows file [[''nb_dropped_frames_server'', ''nb_dropped_frames_client'',
        ''nb_catched_up_frames_client'', ''encoder_delay'', ''decoder_delay''],
       [show_u32 dropped_server, show_u32 dropped_client, show_u32 catched_up, show_u32 enc_delay,
        show_u32 dec_delay]]"

section \<open>Reading the text back\<close>

fun csv_parse :: "string \<Rightarrow> string list \<Rightarrow> string \<Rightarrow> string list list" where
  "csv_parse f fs [] = []"
| "csv_parse f fs (c # cs) =
     (if c = CHR ''\<newline>'' then (fs @ [f]) # csv_parse [] [] cs
      else if c = CHR '','' then csv_parse [] (fs @ [f]) cs
      else csv_parse (f @ [c]) fs cs)"

definition plain_field :: "string \<Rightarrow> bool" where
  "plain_field f \<longleftrightarrow> list_all (\<lambda>c. c \<noteq> CHR ''\<newline>'' \<and> c \<noteq> CHR '','') f"

lemma plain_field_literal [simp]:
  "plain_field []"
  "plain_field (c # cs) \<longleftrightarrow> c \<noteq> CHR ''\<newline>'' \<and> c \<noteq> CHR '','' \<and> plain_field cs"
  by (simp_all add: plain_field_def)

lemma csv_parse_field: "plain_field g \<Longrightarrow> csv_parse f fs (g @ rest) = csv_parse (f @ g) fs rest"
  by (induction g arbitrary: f) (auto simp: plain_field_def)

lemma csv_parse_row:
  "r \<noteq> [] \<Longrightarrow> list_all plain_field r \<Longrightarrow>
     csv_parse [] fs (csv_row r @ rest) = (fs @ r) # csv_parse [] [] rest"
  by (induction r arbitrary: fs rule: csv_row.induct) (auto simp: csv_parse_field)

lemma csv_parse_rows:
  "list_all (\<lambda>r. r \<noteq> [] \<and> list_all plain_field r) rows \<Longrightarrow>
     csv_parse [] [] (concat (map csv_row rows)) = rows"
  by (induction rows) (auto simp: csv_parse_row)

lemma plain_string_of_nat [simp]: "plain_field (string_of_nat n)"
  using string_of_nat_digits [of n] by (auto simp: plain_field_def is_digit_def list_all_iff)

lemma plain_string_of_int [simp]: "plain_field (string_of_int k)"
  using plain_string_of_nat [of "nat (- k)"] plain_string_of_nat [of "nat k"]
  by (auto simp: string_of_int_def plain_field_def)

lemma table_shape:
  assumes "hs \<noteq> []" "list_all plain_field hs" "length hs = n"
    and "\<And>m. list_all plain_field (f m)" "\<And>m. length (f m) = length hs"
  shows "\<exists>h rows. csv_parse [] [] (the (write_rows (Some []) (hs # map f ms))) = h # rows
    \<and> length h = n \<and> length rows = length ms \<and> list_all (\<lambda>r. length r = length h) rows"
proof -
  have "f m \<noteq> []" for m using assms(1) assms(5) [of m] by auto
  then have "csv_parse [] [] (concat (map csv_row (hs # map f ms))) = hs # map f ms"
    using assms(1,2,4) by (intro csv_parse_rows) (auto simp: list_all_iff)
  then show ?thesis
    using assms(3,5) by (auto simp: write_rows_def list_all_iff)
qed

section \<open>Properties\<close>

text \<open>Reading back the exported frame time files gives the header and one row per measurement,
  with as many fields in every row as the header names; a file that is not open stays as it is.\<close>

theorem frame_csv_reads_back:
  "(\<exists>hs rows. csv_parse [] [] (the (client_frame_export_csv (Some []) clock cs)) = hs # rows
      \<and> length hs = 13 \<and> length rows = length cs \<and> list_all (\<lambda>r. length r = length hs) rows)
   \<and> (\<exists>hs rows. csv_parse [] [] (the (server_frame_export_csv (Some []) clock ss)) = hs # rows
      \<and> length hs = 14 \<and> length rows = length ss \<and> list_all (\<lambda>r. length r = length hs) rows)
   \<and> (\<exists>hs rows. csv_parse [] [] (the (driver_frame_export_csv (Some []) clock ds)) = hs # rows
      \<and> length hs = 7 \<and> length rows = length ds \<and> list_all (\<lambda>r. length r = length hs) rows)
   \<and> client_frame_export_csv None clock cs = None"
  unfolding client_frame_export_csv_def server_frame_export_csv_def driver_frame_export_csv_def
  by (intro conjI; (rule table_shape)?; simp add: write_rows_def)

end
