(* ===== verification/VrStructs.thy ===== *)
theory VrStructs
  imports Prelude
begin

text \<open>
  \<open>common/include/wvb_common/vr_structs.h\<close>: extents, refresh rate, system specifications, poses and
  the tracking state. Floats are carried as their bit patterns.
\<close>

record Extent2D =
  ext_width :: u32
  ext_height :: u32

record Extent2Df =
  extf_width :: f32
  extf_height :: f32

record RefreshRate =
  rr_numerator :: u32
  rr_denominator :: u32

text \<open>The product wraps around in 32 bits; a zero numerator is a division by zero.\<close>

definition inter_frame_delay_us :: "RefreshRate \<Rightarrow> u32 result" where
  "inter_frame_delay_us r =
     (if rr_numerator r = 0 then Inl (UndefinedBehaviour ''division by zero'')
      else Inr ((rr_denominator r * 1000000) div rr_numerator r))"

record VRSystemSpecs =
  system_name :: string
  manufacturer_name :: string
  eye_resolution :: Extent2D
  refresh_rate :: RefreshRate
  ipd :: f32
  eye_to_head_distance :: f32
  world_bounds :: Extent2Df

record Quaternion =
  q_x :: f32
  q_y :: f32
  q_z :: f32
  q_w :: f32

record Vector3 =
  v_x :: f32
  v_y :: f32
  v_z :: f32

record Pose =
  orientation :: Quaternion
  position :: Vector3

record Fov =
  fov_l :: f32
  fov_r :: f32
  fov_u :: f32
  fov_d :: f32

record TrackingState =
  ts_sample_timestamp :: u32
  ts_pose_timestamp :: u32
  ts_pose :: Pose
  ts_fov_left :: Fov
  ts_fov_right :: Fov

lemma inter_frame_delay_exact:
  "rr_numerator r \<noteq> 0 \<Longrightarrow> unat (rr_denominator r) * 1000000 < 2 ^ 32 \<Longrightarrow>
     map_sum id unat (inter_frame_delay_us r)
       = Inr (unat (rr_denominator r) * 1000000 div unat (rr_numerator r))"
  by (simp add: inter_frame_delay_us_def unat_div unat_word_ariths)

end
