(* ===== verification/Vrcp.thy ===== *)
theory Vrcp
  imports Buckets
begin

text \<open>
  \<open>common/include/wvb_common/vrcp.h\<close>: the packets of the VR control protocol. Every packed structure
  is a record, with its default member values, its memory image (the bytes sent) and the reading of
  that image (a \<open>reinterpret_cast\<close> of received bytes). Multi-byte fields hold what the code stores
  in them, which is in network order once a packet is filled in. The locale \<open>pod_layout\<close> states what
  such a pair promises; it is interpreted on every structure.
\<close>

section \<open>Constants and enums\<close>

definition VRCP_VERSION :: u8 where
  "VRCP_VERSION = 1"

definition VRCP_MAGIC :: u8 where
  "VRCP_MAGIC = 0x4D"

definition VRCP_DEFAULT_ADVERTISEMENT_PORT :: u16 where
  "VRCP_DEFAULT_ADVERTISEMENT_PORT = 7672"

definition VRCP_ROW_SIZE :: nat where
  "VRCP_ROW_SIZE = 4"

text \<open>
  A byte that is none of the listed types is carried as such by the C++ enum, here by the last
  constructor.
\<close>

datatype VRCPFieldType =
    INVALID
  | CONN_REQ
  | CONN_ACCEPT
  | CONN_REJECT
  | INPUT_DATA
  | TRACKING_DATA
  | MANUFACTURER_NAME_TLV
  | SYSTEM_NAME_TLV
  | SUPPORTED_VIDEO_CODECS_TLV
  | CHOSEN_VIDEO_CODEC_TLV
  | PING
  | PING_REPLY
  | SYNC_FINISHED
  | BENCHMARK_INFO
  | MEASUREMENT_TRANSFER_FINISHED
  | FRAME_TIME_MEASUREMENT
  | IMAGE_QUALITY_MEASUREMENT
  | TRACKING_TIME_MEASUREMENT
  | NETWORK_MEASUREMENT
  | SOCKET_MEASUREMENT
  | NEXT_PASS
  | FRAME_CAPTURE_FRAGMENT
  | SERVER_ADVERTISEMENT
  | USER_DATA
  | FT_OTHER u8

fun to_u8 :: "VRCPFieldType \<Rightarrow> u8" where
  "to_u8 INVALID = 0"
| "to_u8 CONN_REQ = 1"
| "to_u8 CONN_ACCEPT = 2"
| "to_u8 CONN_REJECT = 3"
| "to_u8 INPUT_DATA = 4"
| "to_u8 TRACKING_DATA = 0x05"
| "to_u8 MANUFACTURER_NAME_TLV = 0x09"
| "to_u8 SYSTEM_NAME_TLV = 0x0A"
| "to_u8 SUPPORTED_VIDEO_CODECS_TLV = 0x0B"
| "to_u8 CHOSEN_VIDEO_CODEC_TLV = 0x0C"
| "to_u8 PING = 0x10"
| "to_u8 PING_REPLY = 0x11"
| "to_u8 SYNC_FINISHED = 0x12"
| "to_u8 BENCHMARK_INFO = 0x20"
| "to_u8 MEASUREMENT_TRANSFER_FINISHED = 0x21"
| "to_u8 FRAME_TIME_MEASUREMENT = 0x22"
| "to_u8 IMAGE_QUALITY_MEASUREMENT = 0x23"
| "to_u8 TRACKING_TIME_MEASUREMENT = 0x24"
| "to_u8 NETWORK_MEASUREMENT = 0x25"
| "to_u8 SOCKET_MEASUREMENT = 0x26"
| "to_u8 NEXT_PASS = 0x27"
| "to_u8 FRAME_CAPTURE_FRAGMENT = 0x28"
| "to_u8 SERVER_ADVERTISEMENT = 0x70"
| "to_u8 USER_DATA = 0x80"
| "to_u8 (FT_OTHER b) = b"

definition to_ft :: "u8 \<Rightarrow> VRCPFieldType" where
  "to_ft b =
     (if b = 0 then INVALID
      else if b = 1 then CONN_REQ
      else if b = 2 then CONN_ACCEPT
      else if b = 3 then CONN_REJECT
      else if b = 4 then INPUT_DATA
      else if b = 0x05 then TRACKING_DATA
      else if b = 0x09 then MANUFACTURER_NAME_TLV
      else if b = 0x0A then SYSTEM_NAME_TLV
      else if b = 0x0B then SUPPORTED_VIDEO_CODECS_TLV
      else if b = 0x0C then CHOSEN_VIDEO_CODEC_TLV
      else if b = 0x10 then PING
      else if b = 0x11 then PING_REPLY
      else if b = 0x12 then SYNC_FINISHED
      else if b = 0x20 then BENCHMARK_INFO
      else if b = 0x21 then MEASUREMENT_TRANSFER_FINISHED
      else if b = 0x22 then FRAME_TIME_MEASUREMENT
      else if b = 0x23 then IMAGE_QUALITY_MEASUREMENT
      else if b = 0x24 then TRACKING_TIME_MEASUREMENT
      else if b = 0x25 then NETWORK_MEASUREMENT
      else if b = 0x26 then SOCKET_MEASUREMENT
      else if b = 0x27 then NEXT_PASS
      else if b = 0x28 then FRAME_CAPTURE_FRAGMENT
      else if b = 0x70 then SERVER_ADVERTISEMENT
      else if b = 0x80 then USER_DATA
      else FT_OTHER b)"

definition is_user_field :: "VRCPFieldType \<Rightarrow> bool" where
  "is_user_field t \<longleftrightarrow> to_u8 t AND 0x80 \<noteq> 0"

datatype VRCPVideoMode = VM_UDP | VM_TCP

fun video_mode_u8 :: "VRCPVideoMode \<Rightarrow> u8" where
  "video_mode_u8 VM_UDP = 0"
| "video_mode_u8 VM_TCP = 1"

datatype VRCPRejectReason =
    NONE
  | GENERIC_ERROR
  | VERSION_MISMATCH
  | INVALID_VRCP_PORT
  | INVALID_VIDEO_PORT
  | INVALID_EYE_SIZE
  | INVALID_REFRESH_RATE
  | INVALID_MANUFACTURER_NAME
  | INVALID_SYSTEM_NAME
  | INVALID_VIDEO_CODECS
  | NO_SUPPORTED_VIDEO_CODEC
  | VIDEO_MODE_MISMATCH
  | INVALID_NTP_TIMESTAMP
  | RR_OTHER u8

fun reason_u8 :: "VRCPRejectReason \<Rightarrow> u8" where
  "reason_u8 NONE = 0"
| "reason_u8 GENERIC_ERROR = 1"
| "reason_u8 VERSION_MISMATCH = 2"
| "reason_u8 INVALID_VRCP_PORT = 3"
| "reason_u8 INVALID_VIDEO_PORT = 4"
| "reason_u8 INVALID_EYE_SIZE = 5"
| "reason_u8 INVALID_REFRESH_RATE = 6"
| "reason_u8 INVALID_MANUFACTURER_NAME = 7"
| "reason_u8 INVALID_SYSTEM_NAME = 8"
| "reason_u8 INVALID_VIDEO_CODECS = 9"
| "reason_u8 NO_SUPPORTED_VIDEO_CODEC = 10"
| "reason_u8 VIDEO_MODE_MISMATCH = 11"
| "reason_u8 INVALID_NTP_TIMESTAMP = 12"
| "reason_u8 (RR_OTHER b) = b"

definition reason_of :: "u8 \<Rightarrow> VRCPRejectReason" where
  "reason_of b =
     (if b = 0 then NONE
      else if b = 1 then GENERIC_ERROR
      else if b = 2 then VERSION_MISMATCH
      else if b = 3 then INVALID_VRCP_PORT
      else if b = 4 then INVALID_VIDEO_PORT
      else if b = 5 then INVALID_EYE_SIZE
      else if b = 6 then INVALID_REFRESH_RATE
      else if b = 7 then INVALID_MANUFACTURER_NAME
      else if b = 8 then INVALID_SYSTEM_NAME
      else if b = 9 then INVALID_VIDEO_CODECS
      else if b = 10 then NO_SUPPORTED_VIDEO_CODEC
      else if b = 11 then VIDEO_MODE_MISMATCH
      else if b = 12 then INVALID_NTP_TIMESTAMP
      else RR_OTHER b)"

lemma to_u8_to_ft [simp]: "to_u8 (to_ft b) = b"
  by (simp add: to_ft_def)

lemma reason_u8_reason_of [simp]: "reason_u8 (reason_of b) = b"
  by (simp add: reason_of_def)

text \<open>Two reserved bytes.\<close>

definition store_pair :: "u8 \<times> u8 \<Rightarrow> bytes" where
  "store_pair p = [fst p, snd p]"

definition load_pair :: "bytes \<Rightarrow> u8 \<times> u8" where
  "load_pair bs = (load8 bs, load8 (drop 1 bs))"

lemma pair_layout [simp, layout]:
  "length (store_pair p) = 2" "load_pair (store_pair p @ rs) = p" "load_pair (store_pair p) = p"
  "2 \<le> n \<Longrightarrow> drop n (store_pair p) = []"
  by (simp_all add: store_pair_def load_pair_def)

lemma store_pair_load_pair [simp]: "2 \<le> length bs \<Longrightarrow> store_pair (load_pair bs) = take 2 bs"
  by (cases bs; cases "tl bs") (auto simp: store_pair_def load_pair_def)

section \<open>Structures\<close>

record VRCPBaseHeader =
  bh_ftype :: VRCPFieldType
  bh_n_rows :: u8
  bh_reserved :: "u8 \<times> u8"

definition default_VRCPBaseHeader :: VRCPBaseHeader where
  "default_VRCPBaseHeader =
     \<lparr>bh_ftype = INVALID, bh_n_rows = 1, bh_reserved = (0, 0)\<rparr>"

definition VRCPBaseHeader_bytes :: "VRCPBaseHeader \<Rightarrow> bytes" where
  "VRCPBaseHeader_bytes x =
     [to_u8 (bh_ftype x)] @ [bh_n_rows x] @ store_pair (bh_reserved x)"

definition VRCPBaseHeader_of :: "bytes \<Rightarrow> VRCPBaseHeader" where
  "VRCPBaseHeader_of bs =
     \<lparr>bh_ftype = to_ft (load8 bs), bh_n_rows = load8 (drop 1 bs),
     bh_reserved = load_pair (drop 2 bs)\<rparr>"

record VRCPConnectionRequest =
  cr_ftype :: VRCPFieldType
  cr_n_rows :: u8
  cr_version :: u8
  cr_video_mode :: u8
  cr_udp_vrcp_port :: u16
  cr_video_port :: u16
  cr_eye_width :: u16
  cr_eye_height :: u16
  cr_refresh_rate_numerator :: u16
  cr_refresh_rate_denominator :: u16
  cr_ipd :: u32
  cr_eye_to_head_distance :: u32
  cr_world_bounds_width :: u32
  cr_world_bounds_height :: u32
  cr_ntp_timestamp :: u64

definition default_VRCPConnectionRequest :: VRCPConnectionRequest where
  "default_VRCPConnectionRequest =
     \<lparr>cr_ftype = CONN_REQ, cr_n_rows = 10, cr_version = VRCP_VERSION,
     cr_video_mode = video_mode_u8 VM_UDP, cr_udp_vrcp_port = 0, cr_video_port = 0,
     cr_eye_width = 0, cr_eye_height = 0, cr_refresh_rate_numerator = 0,
     cr_refresh_rate_denominator = 0, cr_ipd = 0, cr_eye_to_head_distance = 0,
     cr_world_bounds_width = 0, cr_world_bounds_height = 0, cr_ntp_timestamp = 0\<rparr>"

definition VRCPConnectionRequest_bytes :: "VRCPConnectionRequest \<Rightarrow> bytes" where
  "VRCPConnectionRequest_bytes x =
     [to_u8 (cr_ftype x)] @ [cr_n_rows x] @ [cr_version x] @ [cr_video_mode x] @
     store16 (cr_udp_vrcp_port x) @ store16 (cr_video_port x) @ store16 (cr_eye_width x) @
     store16 (cr_eye_height x) @ store16 (cr_refresh_rate_numerator x) @
     store16 (cr_refresh_rate_denominator x) @ store32 (cr_ipd x) @
     store32 (cr_eye_to_head_distance x) @ store32 (cr_world_bounds_width x) @
     store32 (cr_world_bounds_height x) @ store64 (cr_ntp_timestamp x)"

definition VRCPConnectionRequest_of :: "bytes \<Rightarrow> VRCPConnectionRequest" where
  "VRCPConnectionRequest_of bs =
     \<lparr>cr_ftype = to_ft (load8 bs), cr_n_rows = load8 (drop 1 bs),
     cr_version = load8 (drop 2 bs), cr_video_mode = load8 (drop 3 bs),
     cr_udp_vrcp_port = load16 (drop 4 bs), cr_video_port = load16 (drop 6 bs),
     cr_eye_width = load16 (drop 8 bs), cr_eye_height = load16 (drop 10 bs),
     cr_refresh_rate_numerator = load16 (drop 12 bs),
     cr_refresh_rate_denominator = load16 (drop 14 bs), cr_ipd = load32 (drop 16 bs),
     cr_eye_to_head_distance = load32 (drop 20 bs),
     cr_world_bounds_width = load32 (drop 24 bs),
     cr_world_bounds_height = load32 (drop 28 bs), cr_ntp_timestamp = load64 (drop 32 bs)\<rparr>"

record VRCPConnectionAccept =
  ca_ftype :: VRCPFieldType
  ca_n_rows :: u8
  ca_reserved :: "u8 \<times> u8"
  ca_udp_vrcp_port :: u16
  ca_video_port :: u16

definition default_VRCPConnectionAccept :: VRCPConnectionAccept where
  "default_VRCPConnectionAccept =
     \<lparr>ca_ftype = CONN_ACCEPT, ca_n_rows = 2, ca_reserved = (0, 0),
     ca_udp_vrcp_port = 0, ca_video_port = 0\<rparr>"

definition VRCPConnectionAccept_bytes :: "VRCPConnectionAccept \<Rightarrow> bytes" where
  "VRCPConnectionAccept_bytes x =
     [to_u8 (ca_ftype x)] @ [ca_n_rows x] @ store_pair (ca_reserved x) @
     store16 (ca_udp_vrcp_port x) @ store16 (ca_video_port x)"

definition VRCPConnectionAccept_of :: "bytes \<Rightarrow> VRCPConnectionAccept" where
  "VRCPConnectionAccept_of bs =
     \<lparr>ca_ftype = to_ft (load8 bs), ca_n_rows = load8 (drop 1 bs),
     ca_reserved = load_pair (drop 2 bs), ca_udp_vrcp_port = load16 (drop 4 bs),
     ca_video_port = load16 (drop 6 bs)\<rparr>"

record VRCPConnectionReject =
  cj_ftype :: VRCPFieldType
  cj_n_rows :: u8
  cj_reason :: VRCPRejectReason
  cj_data :: u8

definition default_VRCPConnectionReject :: VRCPConnectionReject where
  "default_VRCPConnectionReject =
     \<lparr>cj_ftype = CONN_REJECT, cj_n_rows = 1, cj_reason = NONE, cj_data = 0\<rparr>"

definition VRCPConnectionReject_bytes :: "VRCPConnectionReject \<Rightarrow> bytes" where
  "VRCPConnectionReject_bytes x =
     [to_u8 (cj_ftype x)] @ [cj_n_rows x] @ [reason_u8 (cj_reason x)] @ [cj_data x]"

definition VRCPConnectionReject_of :: "bytes \<Rightarrow> VRCPConnectionReject" where
  "VRCPConnectionReject_of bs =
     \<lparr>cj_ftype = to_ft (load8 bs), cj_n_rows = load8 (drop 1 bs),
     cj_reason = reason_of (load8 (drop 2 bs)), cj_data = load8 (drop 3 bs)\<rparr>"

record VRCPInputData =
  id_ftype :: VRCPFieldType
  id_n_rows :: u8
  id_id :: u8
  id_reserved :: u8
  id_timestamp :: u32

definition default_VRCPInputData :: VRCPInputData where
  "default_VRCPInputData =
     \<lparr>id_ftype = INPUT_DATA, id_n_rows = 2, id_id = 0, id_reserved = 0,
     id_timestamp = 0\<rparr>"

definition VRCPInputData_bytes :: "VRCPInputData \<Rightarrow> bytes" where
  "VRCPInputData_bytes x =
     [to_u8 (id_ftype x)] @ [id_n_rows x] @ [id_id x] @ [id_reserved x] @
     store32 (id_timestamp x)"

definition VRCPInputData_of :: "bytes \<Rightarrow> VRCPInputData" where
  "VRCPInputData_of bs =
     \<lparr>id_ftype = to_ft (load8 bs), id_n_rows = load8 (drop 1 bs),
     id_id = load8 (drop 2 bs), id_reserved = load8 (drop 3 bs),
     id_timestamp = load32 (drop 4 bs)\<rparr>"

record VRCPServerAdvertisement =
  ad_ftype :: VRCPFieldType
  ad_n_rows :: u8
  ad_magic :: u8
  ad_version :: u8
  ad_tcp_port :: u16
  ad_interval :: u8
  ad_reserved :: u8
  ad_timestamp :: u32

definition default_VRCPServerAdvertisement :: VRCPServerAdvertisement where
  "default_VRCPServerAdvertisement =
     \<lparr>ad_ftype = SERVER_ADVERTISEMENT, ad_n_rows = 3, ad_magic = VRCP_MAGIC,
     ad_version = VRCP_VERSION, ad_tcp_port = 0, ad_interval = 0, ad_reserved = 0,
     ad_timestamp = 0\<rparr>"

definition VRCPServerAdvertisement_bytes :: "VRCPServerAdvertisement \<Rightarrow> bytes" where
  "VRCPServerAdvertisement_bytes x =
     [to_u8 (ad_ftype x)] @ [ad_n_rows x] @ [ad_magic x] @ [ad_version x] @
     store16 (ad_tcp_port x) @ [ad_interval x] @ [ad_reserved x] @ store32 (ad_timestamp x)"

definition VRCPServerAdvertisement_of :: "bytes \<Rightarrow> VRCPServerAdvertisement" where
  "VRCPServerAdvertisement_of bs =
     \<lparr>ad_ftype = to_ft (load8 bs), ad_n_rows = load8 (drop 1 bs),
     ad_magic = load8 (drop 2 bs), ad_version = load8 (drop 3 bs),
     ad_tcp_port = load16 (drop 4 bs), ad_interval = load8 (drop 6 bs),
     ad_reserved = load8 (drop 7 bs), ad_timestamp = load32 (drop 8 bs)\<rparr>"

record VRCPUserDataHeader =
  ud_ftype :: VRCPFieldType
  ud_n_rows :: u8
  ud_size :: u16

definition default_VRCPUserDataHeader :: VRCPUserDataHeader where
  "default_VRCPUserDataHeader =
     \<lparr>ud_ftype = USER_DATA, ud_n_rows = 1, ud_size = 0\<rparr>"

definition VRCPUserDataHeader_bytes :: "VRCPUserDataHeader \<Rightarrow> bytes" where
  "VRCPUserDataHeader_bytes x =
     [to_u8 (ud_ftype x)] @ [ud_n_rows x] @ store16 (ud_size x)"

definition VRCPUserDataHeader_of :: "bytes \<Rightarrow> VRCPUserDataHeader" where
  "VRCPUserDataHeader_of bs =
     \<lparr>ud_ftype = to_ft (load8 bs), ud_n_rows = load8 (drop 1 bs),
     ud_size = load16 (drop 2 bs)\<rparr>"

record VRCPTrackingData =
  td_ftype :: VRCPFieldType
  td_n_rows :: u8
  td_reserved :: "u8 \<times> u8"
  td_sample_timestamp :: u32
  td_pose_timestamp :: u32
  td_left_eye_orientation_x :: u32
  td_left_eye_orientation_y :: u32
  td_left_eye_orientation_z :: u32
  td_left_eye_orientation_w :: u32
  td_left_eye_position_x :: u32
  td_left_eye_position_y :: u32
  td_left_eye_position_z :: u32
  td_left_eye_fov_left :: u32
  td_left_eye_fov_right :: u32
  td_left_eye_fov_up :: u32
  td_left_eye_fov_down :: u32
  td_right_eye_fov_left :: u32
  td_right_eye_fov_right :: u32
  td_right_eye_fov_up :: u32
  td_right_eye_fov_down :: u32

definition default_VRCPTrackingData :: VRCPTrackingData where
  "default_VRCPTrackingData =
     \<lparr>td_ftype = TRACKING_DATA, td_n_rows = 18, td_reserved = (0, 0),
     td_sample_timestamp = 0, td_pose_timestamp = 0, td_left_eye_orientation_x = 0,
     td_left_eye_orientation_y = 0, td_left_eye_orientation_z = 0,
     td_left_eye_orientation_w = 0, td_left_eye_position_x = 0, td_left_eye_position_y = 0,
     td_left_eye_position_z = 0, td_left_eye_fov_left = 0, td_left_eye_fov_right = 0,
     td_left_eye_fov_up = 0, td_left_eye_fov_down = 0, td_right_eye_fov_left = 0,
     td_right_eye_fov_right = 0, td_right_eye_fov_up = 0, td_right_eye_fov_down = 0\<rparr>"

definition VRCPTrackingData_bytes :: "VRCPTrackingData \<Rightarrow> bytes" where
  "VRCPTrackingData_bytes x =
     [to_u8 (td_ftype x)] @ [td_n_rows x] @ store_pair (td_reserved x) @
     store32 (td_sample_timestamp x) @ store32 (td_pose_timestamp x) @
     store32 (td_left_eye_orientation_x x) @ store32 (td_left_eye_orientation_y x) @
     store32 (td_left_eye_orientation_z x) @ store32 (td_left_eye_orientation_w x) @
     store32 (td_left_eye_position_x x) @ store32 (td_left_eye_position_y x) @
     store32 (td_left_eye_position_z x) @ store32 (td_left_eye_fov_left x) @
     store32 (td_left_eye_fov_right x) @ store32 (td_left_eye_fov_up x) @
     store32 (td_left_eye_fov_down x) @ store32 (td_right_eye_fov_left x) @
     store32 (td_right_eye_fov_right x) @ store32 (td_right_eye_fov_up x) @
     store32 (td_right_eye_fov_down x)"

definition VRCPTrackingData_of :: "bytes \<Rightarrow> VRCPTrackingData" where
  "VRCPTrackingData_of bs =
     \<lparr>td_ftype = to_ft (load8 bs), td_n_rows = load8 (drop 1 bs),
     td_reserved = load_pair (drop 2 bs), td_sample_timestamp = load32 (drop 4 bs),
     td_pose_timestamp = load32 (drop 8 bs), td_left_eye_orientation_x = load32 (drop 12 bs),
     td_left_eye_orientation_y = load32 (drop 16 bs),
     td_left_eye_orientation_z = load32 (drop 20 bs),
     td_left_eye_orientation_w = load32 (drop 24 bs),
     td_left_eye_position_x = load32 (drop 28 bs),
     td_left_eye_position_y = load32 (drop 32 bs),
     td_left_eye_position_z = load32 (drop 36 bs),
     td_left_eye_fov_left = load32 (drop 40 bs), td_left_eye_fov_right = load32 (drop 44 bs),
     td_left_eye_fov_up = load32 (drop 48 bs), td_left_eye_fov_down = load32 (drop 52 bs),
     td_right_eye_fov_left = load32 (drop 56 bs),
     td_right_eye_fov_right = load32 (drop 60 bs), td_right_eye_fov_up = load32 (drop 64 bs),
     td_right_eye_fov_down = load32 (drop 68 bs)\<rparr>"

record VRCPFrameTimeMeasurement =
  fm_ftype :: VRCPFieldType
  fm_n_rows :: u8
  fm_reserved :: "u8 \<times> u8"
  fm_frame_index :: u32
  fm_frame_id :: u32
  fm_frame_delay :: u32
  fm_tracking_timestamp :: u32
  fm_last_packet_received_timestamp :: u32
  fm_pushed_to_decoder_timestamp :: u32
  fm_begin_wait_frame_timestamp :: u32
  fm_begin_frame_timestamp :: u32
  fm_after_wait_swapchain_timestamp :: u32
  fm_after_render_timestamp :: u32
  fm_end_frame_timestamp :: u32
  fm_predicted_present_timestamp :: u32
  fm_pose_timestamp :: u32

definition default_VRCPFrameTimeMeasurement :: VRCPFrameTimeMeasurement where
  "default_VRCPFrameTimeMeasurement =
     \<lparr>fm_ftype = FRAME_TIME_MEASUREMENT, fm_n_rows = 14, fm_reserved = (0, 0),
     fm_frame_index = 0, fm_frame_id = 0, fm_frame_delay = 0, fm_tracking_timestamp = 0,
     fm_last_packet_received_timestamp = 0, fm_pushed_to_decoder_timestamp = 0,
     fm_begin_wait_frame_timestamp = 0, fm_begin_frame_timestamp = 0,
     fm_after_wait_swapchain_timestamp = 0, fm_after_render_timestamp = 0,
     fm_end_frame_timestamp = 0, fm_predicted_present_timestamp = 0, fm_pose_timestamp = 0\<rparr>"

definition VRCPFrameTimeMeasurement_bytes :: "VRCPFrameTimeMeasurement \<Rightarrow> bytes" where
  "VRCPFrameTimeMeasurement_bytes x =
     [to_u8 (fm_ftype x)] @ [fm_n_rows x] @ store_pair (fm_reserved x) @
     store32 (fm_frame_index x) @ store32 (fm_frame_id x) @ store32 (fm_frame_delay x) @
     store32 (fm_tracking_timestamp x) @ store32 (fm_last_packet_received_timestamp x) @
     store32 (fm_pushed_to_decoder_timestamp x) @ store32 (fm_begin_wait_frame_timestamp x) @
     store32 (fm_begin_frame_timestamp x) @ store32 (fm_after_wait_swapchain_timestamp x) @
     store32 (fm_after_render_timestamp x) @ store32 (fm_end_frame_timestamp x) @
     store32 (fm_predicted_present_timestamp x) @ store32 (fm_pose_timestamp x)"

definition VRCPFrameTimeMeasurement_of :: "bytes \<Rightarrow> VRCPFrameTimeMeasurement" where
  "VRCPFrameTimeMeasurement_of bs =
     \<lparr>fm_ftype = to_ft (load8 bs), fm_n_rows = load8 (drop 1 bs),
     fm_reserved = load_pair (drop 2 bs), fm_frame_index = load32 (drop 4 bs),
     fm_frame_id = load32 (drop 8 bs), fm_frame_delay = load32 (drop 12 bs),
     fm_tracking_timestamp = load32 (drop 16 bs),
     fm_last_packet_received_timestamp = load32 (drop 20 bs),
     fm_pushed_to_decoder_timestamp = load32 (drop 24 bs),
     fm_begin_wait_frame_timestamp = load32 (drop 28 bs),
     fm_begin_frame_timestamp = load32 (drop 32 bs),
     fm_after_wait_swapchain_timestamp = load32 (drop 36 bs),
     fm_after_render_timestamp = load32 (drop 40 bs),
     fm_end_frame_timestamp = load32 (drop 44 bs),
     fm_predicted_present_timestamp = load32 (drop 48 bs),
     fm_pose_timestamp = load32 (drop 52 bs)\<rparr>"

record VRCPImageQualityMeasurement =
  im_ftype :: VRCPFieldType
  im_n_rows :: u8
  im_reserved :: "u8 \<times> u8"
  im_frame_id :: u32
  im_codestream_size :: u32
  im_raw_size :: u32
  im_psnr :: u32

definition default_VRCPImageQualityMeasurement :: VRCPImageQualityMeasurement where
  "default_VRCPImageQualityMeasurement =
     \<lparr>im_ftype = IMAGE_QUALITY_MEASUREMENT, im_n_rows = 5, im_reserved = (0, 0),
     im_frame_id = 0, im_codestream_size = 0, im_raw_size = 0, im_psnr = 0\<rparr>"

definition VRCPImageQualityMeasurement_bytes :: "VRCPImageQualityMeasurement \<Rightarrow> bytes" where
  "VRCPImageQualityMeasurement_bytes x =
     [to_u8 (im_ftype x)] @ [im_n_rows x] @ store_pair (im_reserved x) @
     store32 (im_frame_id x) @ store32 (im_codestream_size x) @ store32 (im_raw_size x) @
     store32 (im_psnr x)"

definition VRCPImageQualityMeasurement_of :: "bytes \<Rightarrow> VRCPImageQualityMeasurement" where
  "VRCPImageQualityMeasurement_of bs =
     \<lparr>im_ftype = to_ft (load8 bs), im_n_rows = load8 (drop 1 bs),
     im_reserved = load_pair (drop 2 bs), im_frame_id = load32 (drop 4 bs),
     im_codestream_size = load32 (drop 8 bs), im_raw_size = load32 (drop 12 bs),
     im_psnr = load32 (drop 16 bs)\<rparr>"

record VRCPTrackingTimeMeasurement =
  tm_ftype :: VRCPFieldType
  tm_n_rows :: u8
  tm_reserved :: "u8 \<times> u8"
  tm_pose_timestamp :: u32
  tm_tracking_received_timestamp :: u32
  tm_tracking_processed_timestamp :: u32

definition default_VRCPTrackingTimeMeasurement :: VRCPTrackingTimeMeasurement where
  "default_VRCPTrackingTimeMeasurement =
     \<lparr>tm_ftype = TRACKING_TIME_MEASUREMENT, tm_n_rows = 4, tm_reserved = (0, 0),
     tm_pose_timestamp = 0, tm_tracking_received_timestamp = 0,
     tm_tracking_processed_timestamp = 0\<rparr>"

definition VRCPTrackingTimeMeasurement_bytes :: "VRCPTrackingTimeMeasurement \<Rightarrow> bytes" where
  "VRCPTrackingTimeMeasurement_bytes x =
     [to_u8 (tm_ftype x)] @ [tm_n_rows x] @ store_pair (tm_reserved x) @
     store32 (tm_pose_timestamp x) @ store32 (tm_tracking_received_timestamp x) @
     store32 (tm_tracking_processed_timestamp x)"

definition VRCPTrackingTimeMeasurement_of :: "bytes \<Rightarrow> VRCPTrackingTimeMeasurement" where
  "VRCPTrackingTimeMeasurement_of bs =
     \<lparr>tm_ftype = to_ft (load8 bs), tm_n_rows = load8 (drop 1 bs),
     tm_reserved = load_pair (drop 2 bs), tm_pose_timestamp = load32 (drop 4 bs),
     tm_tracking_received_timestamp = load32 (drop 8 bs),
     tm_tracking_processed_timestamp = load32 (drop 12 bs)\<rparr>"

record VRCPNetworkMeasurement =
  ne_ftype :: VRCPFieldType
  ne_n_rows :: u8
  ne_reserved :: "u8 \<times> u8"
  ne_rtt :: u32
  ne_clock_error :: u32

definition default_VRCPNetworkMeasurement :: VRCPNetworkMeasurement where
  "default_VRCPNetworkMeasurement =
     \<lparr>ne_ftype = NETWORK_MEASUREMENT, ne_n_rows = 3, ne_reserved = (0, 0), ne_rtt = 0,
     ne_clock_error = 0\<rparr>"

definition VRCPNetworkMeasurement_bytes :: "VRCPNetworkMeasurement \<Rightarrow> bytes" where
  "VRCPNetworkMeasurement_bytes x =
     [to_u8 (ne_ftype x)] @ [ne_n_rows x] @ store_pair (ne_reserved x) @ store32 (ne_rtt x) @
     store32 (ne_clock_error x)"

definition VRCPNetworkMeasurement_of :: "bytes \<Rightarrow> VRCPNetworkMeasurement" where
  "VRCPNetworkMeasurement_of bs =
     \<lparr>ne_ftype = to_ft (load8 bs), ne_n_rows = load8 (drop 1 bs),
     ne_reserved = load_pair (drop 2 bs), ne_rtt = load32 (drop 4 bs),
     ne_clock_error = load32 (drop 8 bs)\<rparr>"

record VRCPSocketMeasurement =
  so_ftype :: VRCPFieldType
  so_n_rows :: u8
  so_socket_id :: u8
  so_socket_type :: u8
  so_bytes_sent :: u32
  so_bytes_received :: u32
  so_packets_sent :: u32
  so_packets_received :: u32

definition default_VRCPSocketMeasurement :: VRCPSocketMeasurement where
  "default_VRCPSocketMeasurement =
     \<lparr>so_ftype = SOCKET_MEASUREMENT, so_n_rows = 5, so_socket_id = 0,
     so_socket_type = 0, so_bytes_sent = 0, so_bytes_received = 0, so_packets_sent = 0,
     so_packets_received = 0\<rparr>"

definition VRCPSocketMeasurement_bytes :: "VRCPSocketMeasurement \<Rightarrow> bytes" where
  "VRCPSocketMeasurement_bytes x =
     [to_u8 (so_ftype x)] @ [so_n_rows x] @ [so_socket_id x] @ [so_socket_type x] @
     store32 (so_bytes_sent x) @ store32 (so_bytes_received x) @
     store32 (so_packets_sent x) @ store32 (so_packets_received x)"

definition VRCPSocketMeasurement_of :: "bytes \<Rightarrow> VRCPSocketMeasurement" where
  "VRCPSocketMeasurement_of bs =
     \<lparr>so_ftype = to_ft (load8 bs), so_n_rows = load8 (drop 1 bs),
     so_socket_id = load8 (drop 2 bs), so_socket_type = load8 (drop 3 bs),
     so_bytes_sent = load32 (drop 4 bs), so_bytes_received = load32 (drop 8 bs),
     so_packets_sent = load32 (drop 12 bs), so_packets_received = load32 (drop 16 bs)\<rparr>"

record VRCPPing =
  pi_ftype :: VRCPFieldType
  pi_n_rows :: u8
  pi_ping_id :: u16

definition default_VRCPPing :: VRCPPing where
  "default_VRCPPing =
     \<lparr>pi_ftype = PING, pi_n_rows = 1, pi_ping_id = 0\<rparr>"

definition VRCPPing_bytes :: "VRCPPing \<Rightarrow> bytes" where
  "VRCPPing_bytes x =
     [to_u8 (pi_ftype x)] @ [pi_n_rows x] @ store16 (pi_ping_id x)"

definition VRCPPing_of :: "bytes \<Rightarrow> VRCPPing" where
  "VRCPPing_of bs =
     \<lparr>pi_ftype = to_ft (load8 bs), pi_n_rows = load8 (drop 1 bs),
     pi_ping_id = load16 (drop 2 bs)\<rparr>"

record VRCPPingReply =
  pr_ftype :: VRCPFieldType
  pr_n_rows :: u8
  pr_ping_id :: u16
  pr_reply_timestamp :: u32

definition default_VRCPPingReply :: VRCPPingReply where
  "default_VRCPPingReply =
     \<lparr>pr_ftype = PING_REPLY, pr_n_rows = 2, pr_ping_id = 0, pr_reply_timestamp = 0\<rparr>"

definition VRCPPingReply_bytes :: "VRCPPingReply \<Rightarrow> bytes" where
  "VRCPPingReply_bytes x =
     [to_u8 (pr_ftype x)] @ [pr_n_rows x] @ store16 (pr_ping_id x) @
     store32 (pr_reply_timestamp x)"

definition VRCPPingReply_of :: "bytes \<Rightarrow> VRCPPingReply" where
  "VRCPPingReply_of bs =
     \<lparr>pr_ftype = to_ft (load8 bs), pr_n_rows = load8 (drop 1 bs),
     pr_ping_id = load16 (drop 2 bs), pr_reply_timestamp = load32 (drop 4 bs)\<rparr>"

record VRCPSyncFinished =
  sy_ftype :: VRCPFieldType
  sy_n_rows :: u8
  sy_reserved :: "u8 \<times> u8"

definition default_VRCPSyncFinished :: VRCPSyncFinished where
  "default_VRCPSyncFinished =
     \<lparr>sy_ftype = SYNC_FINISHED, sy_n_rows = 1, sy_reserved = (0, 0)\<rparr>"

definition VRCPSyncFinished_bytes :: "VRCPSyncFinished \<Rightarrow> bytes" where
  "VRCPSyncFinished_bytes x =
     [to_u8 (sy_ftype x)] @ [sy_n_rows x] @ store_pair (sy_reserved x)"

definition VRCPSyncFinished_of :: "bytes \<Rightarrow> VRCPSyncFinished" where
  "VRCPSyncFinished_of bs =
     \<lparr>sy_ftype = to_ft (load8 bs), sy_n_rows = load8 (drop 1 bs),
     sy_reserved = load_pair (drop 2 bs)\<rparr>"

record VRCPBenchmarkInfo =
  bi_ftype :: VRCPFieldType
  bi_n_rows :: u8
  bi_reserved :: "u8 \<times> u8"
  bi_start_timing_phase_timestamp :: u32
  bi_start_image_quality_phase_timestamp :: u32
  bi_end_measurements_timestamp :: u32
  bi_end_timestamp :: u32

definition default_VRCPBenchmarkInfo :: VRCPBenchmarkInfo where
  "default_VRCPBenchmarkInfo =
     \<lparr>bi_ftype = BENCHMARK_INFO, bi_n_rows = 5, bi_reserved = (0, 0),
     bi_start_timing_phase_timestamp = 0, bi_start_image_quality_phase_timestamp = 0,
     bi_end_measurements_timestamp = 0, bi_end_timestamp = 0\<rparr>"

definition VRCPBenchmarkInfo_bytes :: "VRCPBenchmarkInfo \<Rightarrow> bytes" where
  "VRCPBenchmarkInfo_bytes x =
     [to_u8 (bi_ftype x)] @ [bi_n_rows x] @ store_pair (bi_reserved x) @
     store32 (bi_start_timing_phase_timestamp x) @
     store32 (bi_start_image_quality_phase_timestamp x) @
     store32 (bi_end_measurements_timestamp x) @ store32 (bi_end_timestamp x)"

definition VRCPBenchmarkInfo_of :: "bytes \<Rightarrow> VRCPBenchmarkInfo" where
  "VRCPBenchmarkInfo_of bs =
     \<lparr>bi_ftype = to_ft (load8 bs), bi_n_rows = load8 (drop 1 bs),
     bi_reserved = load_pair (drop 2 bs),
     bi_start_timing_phase_timestamp = load32 (drop 4 bs),
     bi_start_image_quality_phase_timestamp = load32 (drop 8 bs),
     bi_end_measurements_timestamp = load32 (drop 12 bs),
     bi_end_timestamp = load32 (drop 16 bs)\<rparr>"

record VRCPMeasurementTransferFinished =
  tf_ftype :: VRCPFieldType
  tf_n_rows :: u8
  tf_decoder_frame_delay :: u8
  tf_reserved :: u8
  tf_nb_dropped_frames :: u32
  tf_nb_catched_up_frames :: u32

definition default_VRCPMeasurementTransferFinished :: VRCPMeasurementTransferFinished where
  "default_VRCPMeasurementTransferFinished =
     \<lparr>tf_ftype = MEASUREMENT_TRANSFER_FINISHED, tf_n_rows = 3,
     tf_decoder_frame_delay = 0, tf_reserved = 0, tf_nb_dropped_frames = 0,
     tf_nb_catched_up_frames = 0\<rparr>"

definition VRCPMeasurementTransferFinished_bytes :: "VRCPMeasurementTransferFinished \<Rightarrow> bytes" where
  "VRCPMeasurementTransferFinished_bytes x =
     [to_u8 (tf_ftype x)] @ [tf_n_rows x] @ [tf_decoder_frame_delay x] @ [tf_reserved x] @
     store32 (tf_nb_dropped_frames x) @ store32 (tf_nb_catched_up_frames x)"

definition VRCPMeasurementTransferFinished_of :: "bytes \<Rightarrow> VRCPMeasurementTransferFinished" where
  "VRCPMeasurementTransferFinished_of bs =
     \<lparr>tf_ftype = to_ft (load8 bs), tf_n_rows = load8 (drop 1 bs),
     tf_decoder_frame_delay = load8 (drop 2 bs), tf_reserved = load8 (drop 3 bs),
     tf_nb_dropped_frames = load32 (drop 4 bs), tf_nb_catched_up_frames = load32 (drop 8 bs)\<rparr>"

record VRCPNextPass =
  np_ftype :: VRCPFieldType
  np_n_rows :: u8
  np_pass :: u8
  np_run :: u8

definition default_VRCPNextPass :: VRCPNextPass where
  "default_VRCPNextPass =
     \<lparr>np_ftype = NEXT_PASS, np_n_rows = 1, np_pass = 0, np_run = 0\<rparr>"

definition VRCPNextPass_bytes :: "VRCPNextPass \<Rightarrow> bytes" where
  "VRCPNextPass_bytes x =
     [to_u8 (np_ftype x)] @ [np_n_rows x] @ [np_pass x] @ [np_run x]"

definition VRCPNextPass_of :: "bytes \<Rightarrow> VRCPNextPass" where
  "VRCPNextPass_of bs =
     \<lparr>np_ftype = to_ft (load8 bs), np_n_rows = load8 (drop 1 bs),
     np_pass = load8 (drop 2 bs), np_run = load8 (drop 3 bs)\<rparr>"

record VRCPFrameCaptureFragment =
  fc_ftype :: VRCPFieldType
  fc_n_rows :: u8
  fc_last :: u8
  fc_reserved :: u8
  fc_full_size :: u32
  fc_offset :: u32
  fc_size :: u32

definition default_VRCPFrameCaptureFragment :: VRCPFrameCaptureFragment where
  "default_VRCPFrameCaptureFragment =
     \<lparr>fc_ftype = FRAME_CAPTURE_FRAGMENT, fc_n_rows = 4, fc_last = 0, fc_reserved = 0,
     fc_full_size = 0, fc_offset = 0, fc_size = 0\<rparr>"

definition VRCPFrameCaptureFragment_bytes :: "VRCPFrameCaptureFragment \<Rightarrow> bytes" where
  "VRCPFrameCaptureFragment_bytes x =
     [to_u8 (fc_ftype x)] @ [fc_n_rows x] @ [fc_last x] @ [fc_reserved x] @
     store32 (fc_full_size x) @ store32 (fc_offset x) @ store32 (fc_size x)"

definition VRCPFrameCaptureFragment_of :: "bytes \<Rightarrow> VRCPFrameCaptureFragment" where
  "VRCPFrameCaptureFragment_of bs =
     \<lparr>fc_ftype = to_ft (load8 bs), fc_n_rows = load8 (drop 1 bs),
     fc_last = load8 (drop 2 bs), fc_reserved = load8 (drop 3 bs),
     fc_full_size = load32 (drop 4 bs), fc_offset = load32 (drop 8 bs),
     fc_size = load32 (drop 12 bs)\<rparr>"

section \<open>The promise of a layout\<close>

locale pod_layout =
  fixes enc :: "'a \<Rightarrow> bytes"
    and dec :: "bytes \<Rightarrow> 'a"
    and n :: nat
    and wf :: "'a \<Rightarrow> bool"
  assumes enc_size: "length (enc x) = n"
    and dec_enc_append: "wf x \<Longrightarrow> dec (enc x @ rs) = x"
    and enc_dec: "n \<le> length bs \<Longrightarrow> enc (dec bs) = take n bs"
    and wf_dec: "wf (dec bs)"
begin

lemma dec_enc: "wf x \<Longrightarrow> dec (enc x) = x"
  using dec_enc_append [of x "[]"] by simp

lemma enc_inject: "wf x \<Longrightarrow> wf y \<Longrightarrow> enc x = enc y \<longleftrightarrow> x = y"
  by (metis dec_enc)

text \<open>In a stream of packets of one type, every packet is found at its offset.\<close>

lemma dec_stream:
  "i < length xs \<Longrightarrow> list_all wf xs \<Longrightarrow> dec (drop (i * n) (concat (map enc xs) @ rs)) = xs ! i"
proof (induction xs arbitrary: i)
  case (Cons x xs)
  then show ?case
    by (cases i) (simp_all add: dec_enc_append enc_size)
qed simp

lemma stream_size: "length (concat (map enc xs)) = length xs * n"
  by (induction xs) (simp_all add: enc_size)

end

interpretation bh_layout: pod_layout VRCPBaseHeader_bytes VRCPBaseHeader_of 4
    "\<lambda>x. to_ft (to_u8 (bh_ftype x)) = bh_ftype x"
  by unfold_locales
    (simp_all add: VRCPBaseHeader_bytes_def VRCPBaseHeader_of_def
      Cons_load8 take_append_take drop_1_Cons del: One_nat_def)

interpretation cr_layout: pod_layout VRCPConnectionRequest_bytes VRCPConnectionRequest_of 40
    "\<lambda>x. to_ft (to_u8 (cr_ftype x)) = cr_ftype x"
  by unfold_locales
    (simp_all add: VRCPConnectionRequest_bytes_def VRCPConnectionRequest_of_def
      Cons_load8 take_append_take drop_1_Cons del: One_nat_def)

interpretation ca_layout: pod_layout VRCPConnectionAccept_bytes VRCPConnectionAccept_of 8
    "\<lambda>x. to_ft (to_u8 (ca_ftype x)) = ca_ftype x"
  by unfold_locales
    (simp_all add: VRCPConnectionAccept_bytes_def VRCPConnectionAccept_of_def
      Cons_load8 take_append_take drop_1_Cons del: One_nat_def)

interpretation cj_layout: pod_layout VRCPConnectionReject_bytes VRCPConnectionReject_of 4
    "\<lambda>x. to_ft (to_u8 (cj_ftype x)) = cj_ftype x \<and> reason_of (reason_u8 (cj_reason x)) = cj_reason x"
  by unfold_locales
    (simp_all add: VRCPConnectionReject_bytes_def VRCPConnectionReject_of_def
      Cons_load8 take_append_take drop_1_Cons del: One_nat_def)

interpretation id_layout: pod_layout VRCPInputData_bytes VRCPInputData_of 8
    "\<lambda>x. to_ft (to_u8 (id_ftype x)) = id_ftype x"
  by unfold_locales
    (simp_all add: VRCPInputData_bytes_def VRCPInputData_of_def
      Cons_load8 take_append_take drop_1_Cons del: One_nat_def)

interpretation ad_layout: pod_layout VRCPServerAdvertisement_bytes VRCPServerAdvertisement_of 12
    "\<lambda>x. to_ft (to_u8 (ad_ftype x)) = ad_ftype x"
  by unfold_locales
    (simp_all add: VRCPServerAdvertisement_bytes_def VRCPServerAdvertisement_of_def
      Cons_load8 take_append_take drop_1_Cons del: One_nat_def)

interpretation ud_layout: pod_layout VRCPUserDataHeader_bytes VRCPUserDataHeader_of 4
    "\<lambda>x. to_ft (to_u8 (ud_ftype x)) = ud_ftype x"
  by unfold_locales
    (simp_all add: VRCPUserDataHeader_bytes_def VRCPUserDataHeader_of_def
      Cons_load8 take_append_take drop_1_Cons del: One_nat_def)

interpretation td_layout: pod_layout VRCPTrackingData_bytes VRCPTrackingData_of 72
    "\<lambda>x. to_ft (to_u8 (td_ftype x)) = td_ftype x"
  by unfold_locales
    (simp_all add: VRCPTrackingData_bytes_def VRCPTrackingData_of_def
      Cons_load8 take_append_take drop_1_Cons del: One_nat_def)

interpretation fm_layout: pod_layout VRCPFrameTimeMeasurement_bytes VRCPFrameTimeMeasurement_of 56
    "\<lambda>x. to_ft (to_u8 (fm_ftype x)) = fm_ftype x"
  by unfold_locales
    (simp_all add: VRCPFrameTimeMeasurement_bytes_def VRCPFrameTimeMeasurement_of_def
      Cons_load8 take_append_take drop_1_Cons del: One_nat_def)

interpretation im_layout: pod_layout VRCPImageQualityMeasurement_bytes VRCPImageQualityMeasurement_of 20
    "\<lambda>x. to_ft (to_u8 (im_ftype x)) = im_ftype x"
  by unfold_locales
    (simp_all add: VRCPImageQualityMeasurement_bytes_def VRCPImageQualityMeasurement_of_def
      Cons_load8 take_append_take drop_1_Cons del: One_nat_def)

interpretation tm_layout: pod_layout VRCPTrackingTimeMeasurement_bytes VRCPTrackingTimeMeasurement_of 16
    "\<lambda>x. to_ft (to_u8 (tm_ftype x)) = tm_ftype x"
  by unfold_locales
    (simp_all add: VRCPTrackingTimeMeasurement_bytes_def VRCPTrackingTimeMeasurement_of_def
      Cons_load8 take_append_take drop_1_Cons del: One_nat_def)

interpretation ne_layout: pod_layout VRCPNetworkMeasurement_bytes VRCPNetworkMeasurement_of 12
    "\<lambda>x. to_ft (to_u8 (ne_ftype x)) = ne_ftype x"
  by unfold_locales
    (simp_all add: VRCPNetworkMeasurement_bytes_def VRCPNetworkMeasurement_of_def
      Cons_load8 take_append_take drop_1_Cons del: One_nat_def)

interpretation so_layout: pod_layout VRCPSocketMeasurement_bytes VRCPSocketMeasurement_of 20
    "\<lambda>x. to_ft (to_u8 (so_ftype x)) = so_ftype x"
  by unfold_locales
    (simp_all add: VRCPSocketMeasurement_bytes_def VRCPSocketMeasurement_of_def
      Cons_load8 take_append_take drop_1_Cons del: One_nat_def)

interpretation pi_layout: pod_layout VRCPPing_bytes VRCPPing_of 4
    "\<lambda>x. to_ft (to_u8 (pi_ftype x)) = pi_ftype x"
  by unfold_locales
    (simp_all add: VRCPPing_bytes_def VRCPPing_of_def
      Cons_load8 take_append_take drop_1_Cons del: One_nat_def)

interpretation pr_layout: pod_layout VRCPPingReply_bytes VRCPPingReply_of 8
    "\<lambda>x. to_ft (to_u8 (pr_ftype x)) = pr_ftype x"
  by unfold_locales
    (simp_all add: VRCPPingReply_bytes_def VRCPPingReply_of_def
      Cons_load8 take_append_take drop_1_Cons del: One_nat_def)

interpretation sy_layout: pod_layout VRCPSyncFinished_bytes VRCPSyncFinished_of 4
    "\<lambda>x. to_ft (to_u8 (sy_ftype x)) = sy_ftype x"
  by unfold_locales
    (simp_all add: VRCPSyncFinished_bytes_def VRCPSyncFinished_of_def
      Cons_load8 take_append_take drop_1_Cons del: One_nat_def)

interpretation bi_layout: pod_layout VRCPBenchmarkInfo_bytes VRCPBenchmarkInfo_of 20
    "\<lambda>x. to_ft (to_u8 (bi_ftype x)) = bi_ftype x"
  by unfold_locales
    (simp_all add: VRCPBenchmarkInfo_bytes_def VRCPBenchmarkInfo_of_def
      Cons_load8 take_append_take drop_1_Cons del: One_nat_def)

interpretation tf_layout: pod_layout VRCPMeasurementTransferFinished_bytes VRCPMeasurementTransferFinished_of 12
    "\<lambda>x. to_ft (to_u8 (tf_ftype x)) = tf_ftype x"
  by unfold_locales
    (simp_all add: VRCPMeasurementTransferFinished_bytes_def VRCPMeasurementTransferFinished_of_def
      Cons_load8 take_append_take drop_1_Cons del: One_nat_def)

interpretation np_layout: pod_layout VRCPNextPass_bytes VRCPNextPass_of 4
    "\<lambda>x. to_ft (to_u8 (np_ftype x)) = np_ftype x"
  by unfold_locales
    (simp_all add: VRCPNextPass_bytes_def VRCPNextPass_of_def
      Cons_load8 take_append_take drop_1_Cons del: One_nat_def)

interpretation fc_layout: pod_layout VRCPFrameCaptureFragment_bytes VRCPFrameCaptureFragment_of 16
    "\<lambda>x. to_ft (to_u8 (fc_ftype x)) = fc_ftype x"
  by unfold_locales
    (simp_all add: VRCPFrameCaptureFragment_bytes_def VRCPFrameCaptureFragment_of_def
      Cons_load8 take_append_take drop_1_Cons del: One_nat_def)

end
