(* ===== verification/VrcpConv.thy ===== *)
theory VrcpConv
  imports Vrcp VrStructs
begin

text \<open>
  \<open>common/src/vrcp.cpp\<close>: the conversions between the measurements and tracking state of the program
  and the packets that carry them. The locale \<open>measurement_packet\<close> extends a layout with such a
  conversion and states that it survives the wire.
\<close>

section \<open>Tracking\<close>

definition mk_VRCPTrackingData :: "TrackingState \<Rightarrow> VRCPTrackingData" where
  "mk_VRCPTrackingData state = default_VRCPTrackingData
     \<lparr>td_sample_timestamp := htonl (ts_sample_timestamp state),
      td_pose_timestamp := htonl (ts_pose_timestamp state),
      td_left_eye_orientation_x := htonf (q_x (orientation (ts_pose state))),
      td_left_eye_orientation_y := htonf (q_y (orientation (ts_pose state))),
      td_left_eye_orientation_z := htonf (q_z (orientation (ts_pose state))),
      td_left_eye_orientation_w := htonf (q_w (orientation (ts_pose state))),
      td_left_eye_position_x := htonf (v_x (position (ts_pose state))),
      td_left_eye_position_y := htonf (v_y (position (ts_pose state))),
      td_left_eye_position_z := htonf (v_z (position (ts_pose state))),
      td_left_eye_fov_left := htonf (fov_l (ts_fov_left state)),
      td_left_eye_fov_right := htonf (fov_r (ts_fov_left state)),
      td_left_eye_fov_up := htonf (fov_u (ts_fov_left state)),
      td_left_eye_fov_down := htonf (fov_d (ts_fov_left state)),
      td_right_eye_fov_left := htonf (fov_l (ts_fov_right state)),
      td_right_eye_fov_right := htonf (fov_r (ts_fov_right state)),
      td_right_eye_fov_up := htonf (fov_u (ts_fov_right state)),
      td_right_eye_fov_down := htonf (fov_d (ts_fov_right state))\<rparr>"

definition to_tracking_state :: "VRCPTrackingData \<Rightarrow> TrackingState \<Rightarrow> TrackingState" where
  "to_tracking_state x state = state
     \<lparr>ts_sample_timestamp := ntohl (td_sample_timestamp x),
      ts_pose_timestamp := ntohl (td_pose_timestamp x),
      ts_pose :=
        \<lparr>orientation = \<lparr>q_x = ntohf (td_left_eye_orientation_x x), q_y = ntohf (td_left_eye_orientation_y x),
           q_z = ntohf (td_left_eye_orientation_z x), q_w = ntohf (td_left_eye_orientation_w x)\<rparr>,
         position = \<lparr>v_x = ntohf (td_left_eye_position_x x), v_y = ntohf (td_left_eye_position_y x),
           v_z = ntohf (td_left_eye_position_z x)\<rparr>\<rparr>,
      ts_fov_left := \<lparr>fov_l = ntohf (td_left_eye_fov_left x), fov_r = ntohf (td_left_eye_fov_right x),
         fov_u = ntohf (td_left_eye_fov_up x), fov_d = ntohf (td_left_eye_fov_down x)\<rparr>,
      ts_fov_right := \<lparr>fov_l = ntohf (td_right_eye_fov_left x), fov_r = ntohf (td_right_eye_fov_right x),
         fov_u = ntohf (td_right_eye_fov_up x), fov_d = ntohf (td_right_eye_fov_down x)\<rparr>\<rparr>"

section \<open>Measurements\<close>

definition mk_VRCPFrameTimeMeasurement ::
    "ClientFrameTimeMeasurements \<Rightarrow> VRCPFrameTimeMeasurement" where
  "mk_VRCPFrameTimeMeasurement m = default_VRCPFrameTimeMeasurement
     \<lparr>fm_frame_index := htonl (cf_frame_index m),
     fm_frame_id := htonl (cf_frame_id m), fm_frame_delay := htonl (cf_frame_delay m),
     fm_tracking_timestamp := htonl (cf_tracking_timestamp m),
     fm_last_packet_received_timestamp := htonl (cf_last_packet_received_timestamp m),
     fm_pushed_to_decoder_timestamp := htonl (cf_pushed_to_decoder_timestamp m),
     fm_begin_wait_frame_timestamp := htonl (cf_begin_wait_frame_timestamp m),
     fm_begin_frame_timestamp := htonl (cf_begin_frame_timestamp m),
     fm_after_wait_swapchain_timestamp := htonl (cf_after_wait_swapchain_timestamp m),
     fm_after_render_timestamp := htonl (cf_after_render_timestamp m),
     fm_end_frame_timestamp := htonl (cf_end_frame_timestamp m),
     fm_predicted_present_timestamp := htonl (cf_predicted_present_timestamp m),
     fm_pose_timestamp := htonl (cf_pose_timestamp m)\<rparr>"

definition to_frame_time_measurements ::
    "VRCPFrameTimeMeasurement \<Rightarrow> ClientFrameTimeMeasurements \<Rightarrow> ClientFrameTimeMeasurements" where
  "to_frame_time_measurements x m = m
     \<lparr>cf_frame_index := ntohl (fm_frame_index x),
     cf_frame_id := ntohl (fm_frame_id x), cf_frame_delay := ntohl (fm_frame_delay x),
     cf_tracking_timestamp := ntohl (fm_tracking_timestamp x),
     cf_last_packet_received_timestamp := ntohl (fm_last_packet_received_timestamp x),
     cf_pushed_to_decoder_timestamp := ntohl (fm_pushed_to_decoder_timestamp x),
     cf_begin_wait_frame_timestamp := ntohl (fm_begin_wait_frame_timestamp x),
     cf_begin_frame_timestamp := ntohl (fm_begin_frame_timestamp x),
     cf_after_wait_swapchain_timestamp := ntohl (fm_after_wait_swapchain_timestamp x),
     cf_after_render_timestamp := ntohl (fm_after_render_timestamp x),
     cf_end_frame_timestamp := ntohl (fm_end_frame_timestamp x),
     cf_predicted_present_timestamp := ntohl (fm_predicted_present_timestamp x),
     cf_pose_timestamp := ntohl (fm_pose_timestamp x)\<rparr>"

definition mk_VRCPImageQualityMeasurement ::
    "ImageQualityMeasurements \<Rightarrow> VRCPImageQualityMeasurement" where
  "mk_VRCPImageQualityMeasurement m = default_VRCPImageQualityMeasurement
     \<lparr>im_frame_id := htonl (iq_frame_id m),
     im_codestream_size := htonl (iq_codestream_size m),
     im_raw_size := htonl (iq_raw_size m), im_psnr := htonf (iq_psnr m)\<rparr>"

definition to_image_quality_measurements ::
    "VRCPImageQualityMeasurement \<Rightarrow> ImageQualityMeasurements \<Rightarrow> ImageQualityMeasurements" where
  "to_image_quality_measurements x m = m
     \<lparr>iq_frame_id := ntohl (im_frame_id x),
     iq_codestream_size := ntohl (im_codestream_size x),
     iq_raw_size := ntohl (im_raw_size x), iq_psnr := ntohf (im_psnr x)\<rparr>"

definition mk_VRCPTrackingTimeMeasurement ::
    "TrackingTimeMeasurements \<Rightarrow> VRCPTrackingTimeMeasurement" where
  "mk_VRCPTrackingTimeMeasurement m = default_VRCPTrackingTimeMeasurement
     \<lparr>tm_pose_timestamp := htonl (tt_pose_timestamp m),
     tm_tracking_received_timestamp := htonl (tt_tracking_received_timestamp m),
     tm_tracking_processed_timestamp := htonl (tt_tracking_processed_timestamp m)\<rparr>"

definition to_tracking_time_measurements ::
    "VRCPTrackingTimeMeasurement \<Rightarrow> TrackingTimeMeasurements \<Rightarrow> TrackingTimeMeasurements" where
  "to_tracking_time_measurements x m = m
     \<lparr>tt_pose_timestamp := ntohl (tm_pose_timestamp x),
     tt_tracking_received_timestamp := ntohl (tm_tracking_received_timestamp x),
     tt_tracking_processed_timestamp := ntohl (tm_tracking_processed_timestamp x)\<rparr>"

text \<open>The clock error is sent as the bit pattern of its \<open>int32_t\<close>.\<close>

definition mk_VRCPNetworkMeasurement :: "NetworkMeasurements \<Rightarrow> VRCPNetworkMeasurement" where
  "mk_VRCPNetworkMeasurement m = default_VRCPNetworkMeasurement
     \<lparr>ne_rtt := htonl (nm_rtt_us m), ne_clock_error := htonl (nm_clock_error_us m)\<rparr>"

definition to_network_measurements ::
    "VRCPNetworkMeasurement \<Rightarrow> NetworkMeasurements \<Rightarrow> NetworkMeasurements" where
  "to_network_measurements x m = m
     \<lparr>nm_rtt_us := ntohl (ne_rtt x), nm_clock_error_us := ntohl (ne_clock_error x)\<rparr>"

definition mk_VRCPSocketMeasurement :: "SocketMeasurements \<Rightarrow> VRCPSocketMeasurement" where
  "mk_VRCPSocketMeasurement m = default_VRCPSocketMeasurement
     \<lparr>so_socket_id := socket_id_u8 (sm_socket_id m), so_socket_type := socket_type_u8 (sm_socket_type m),
      so_bytes_sent := htonl (sm_bytes_sent m), so_bytes_received := htonl (sm_bytes_received m),
      so_packets_sent := htonl (sm_packets_sent m), so_packets_received := htonl (sm_packets_received m)\<rparr>"

definition to_socket_measurements ::
    "VRCPSocketMeasurement \<Rightarrow> SocketMeasurements \<Rightarrow> SocketMeasurements" where
  "to_socket_measurements x m = m
     \<lparr>sm_socket_id := socket_id_of (so_socket_id x), sm_socket_type := socket_type_of (so_socket_type x),
      sm_bytes_sent := ntohl (so_bytes_sent x), sm_bytes_received := ntohl (so_bytes_received x),
      sm_packets_sent := ntohl (so_packets_sent x), sm_packets_received := ntohl (so_packets_received x)\<rparr>"

section \<open>Measurement window\<close>

definition mk_VRCPBenchmarkInfo :: "MeasurementWindow \<Rightarrow> RTPClock \<Rightarrow> VRCPBenchmarkInfo" where
  "mk_VRCPBenchmarkInfo window clock = default_VRCPBenchmarkInfo
     \<lparr>bi_start_timing_phase_timestamp := htonl (to_rtp_timestamp clock (start_timing_phase window)),
      bi_start_image_quality_phase_timestamp :=
        htonl (to_rtp_timestamp clock (start_image_quality_phase window)),
      bi_end_measurements_timestamp := htonl (to_rtp_timestamp clock (end_measurements window)),
      bi_end_timestamp := htonl (to_rtp_timestamp clock (end_window window))\<rparr>"

definition to_measurement_window :: "VRCPBenchmarkInfo \<Rightarrow> RTPClock \<Rightarrow> MeasurementWindow" where
  "to_measurement_window x clock =
     \<lparr>start_timing_phase = from_rtp_timestamp clock (ntohl (bi_start_timing_phase_timestamp x)),
      start_image_quality_phase =
        from_rtp_timestamp clock (ntohl (bi_start_image_quality_phase_timestamp x)),
      end_measurements = from_rtp_timestamp clock (ntohl (bi_end_measurements_timestamp x)),
      end_window = from_rtp_timestamp clock (ntohl (bi_end_timestamp x))\<rparr>"

section \<open>A measurement survives the wire\<close>

locale measurement_packet = pod_layout enc dec n wf
  for enc :: "'p \<Rightarrow> bytes" and dec :: "bytes \<Rightarrow> 'p" and n :: nat and wf :: "'p \<Rightarrow> bool" +
  fixes mk :: "'m \<Rightarrow> 'p"
    and to_meas :: "'p \<Rightarrow> 'm \<Rightarrow> 'm"
    and ok :: "'m \<Rightarrow> bool"
  assumes wf_mk: "wf (mk m)"
    and to_mk: "ok m \<Longrightarrow> to_meas (mk m) m0 = m"
begin

lemma over_wire: "ok m \<Longrightarrow> to_meas (dec (enc (mk m) @ rs)) m0 = m"
  by (simp add: dec_enc_append wf_mk to_mk)

lemma over_stream:
  "list_all ok ms \<Longrightarrow> i < length ms \<Longrightarrow>
     to_meas (dec (drop (i * n) (concat (map (\<lambda>m. enc (mk m)) ms) @ rs))) m0 = ms ! i"
  using dec_stream [of i "map mk ms" rs]
  by (simp add: comp_def wf_mk to_mk list_all_iff)

end

lemma socket_enum_casts [simp]:
  "socket_id_u8 (socket_id_of b) = b" "socket_type_u8 (socket_type_of b) = b"
  by (simp_all add: socket_id_of_def socket_type_of_def)

interpretation td_packet: measurement_packet VRCPTrackingData_bytes VRCPTrackingData_of 72
    "\<lambda>x. to_ft (to_u8 (td_ftype x)) = td_ftype x" mk_VRCPTrackingData to_tracking_state "\<lambda>_. True"
  by unfold_locales
    (simp_all add: mk_VRCPTrackingData_def to_tracking_state_def default_VRCPTrackingData_def to_ft_def)

interpretation fm_packet: measurement_packet VRCPFrameTimeMeasurement_bytes VRCPFrameTimeMeasurement_of 56
    "\<lambda>x. to_ft (to_u8 (fm_ftype x)) = fm_ftype x" mk_VRCPFrameTimeMeasurement
    to_frame_time_measurements "\<lambda>_. True"
  by unfold_locales
    (simp_all add: mk_VRCPFrameTimeMeasurement_def to_frame_time_measurements_def
      default_VRCPFrameTimeMeasurement_def to_ft_def)

interpretation im_packet: measurement_packet VRCPImageQualityMeasurement_bytes
    VRCPImageQualityMeasurement_of 20 "\<lambda>x. to_ft (to_u8 (im_ftype x)) = im_ftype x"
    mk_VRCPImageQualityMeasurement to_image_quality_measurements "\<lambda>_. True"
  by unfold_locales
    (simp_all add: mk_VRCPImageQualityMeasurement_def to_image_quality_measurements_def
      default_VRCPImageQualityMeasurement_def to_ft_def)

interpretation tm_packet: measurement_packet VRCPTrackingTimeMeasurement_bytes
    VRCPTrackingTimeMeasurement_of 16 "\<lambda>x. to_ft (to_u8 (tm_ftype x)) = tm_ftype x"
    mk_VRCPTrackingTimeMeasurement to_tracking_time_measurements "\<lambda>_. True"
  by unfold_locales
    (simp_all add: mk_VRCPTrackingTimeMeasurement_def to_tracking_time_measurements_def
      default_VRCPTrackingTimeMeasurement_def to_ft_def)

interpretation ne_packet: measurement_packet VRCPNetworkMeasurement_bytes VRCPNetworkMeasurement_of 12
    "\<lambda>x. to_ft (to_u8 (ne_ftype x)) = ne_ftype x" mk_VRCPNetworkMeasurement
    to_network_measurements "\<lambda>_. True"
  by unfold_locales
    (simp_all add: mk_VRCPNetworkMeasurement_def to_network_measurements_def
      default_VRCPNetworkMeasurement_def to_ft_def)

interpretation so_packet: measurement_packet VRCPSocketMeasurement_bytes VRCPSocketMeasurement_of 20
    "\<lambda>x. to_ft (to_u8 (so_ftype x)) = so_ftype x" mk_VRCPSocketMeasurement to_socket_measurements
    "\<lambda>m. socket_id_of (socket_id_u8 (sm_socket_id m)) = sm_socket_id m
       \<and> socket_type_of (socket_type_u8 (sm_socket_type m)) = sm_socket_type m"
  by unfold_locales
    (simp_all add: mk_VRCPSocketMeasurement_def to_socket_measurements_def
      default_VRCPSocketMeasurement_def to_ft_def)

section \<open>Properties\<close>

text \<open>Every packet structure occupies four bytes per row, and the row count that its default
  members announce is the true one: the static assertions of the header, for all twenty packets.\<close>

theorem packet_sizes:
  "length (VRCPBaseHeader_bytes bh) = 4 * unat (bh_n_rows default_VRCPBaseHeader)
   \<and> length (VRCPConnectionRequest_bytes cr) = 4 * unat (cr_n_rows default_VRCPConnectionRequest)
   \<and> length (VRCPConnectionAccept_bytes ca) = 4 * unat (ca_n_rows default_VRCPConnectionAccept)
   \<and> length (VRCPConnectionReject_bytes cj) = 4 * unat (cj_n_rows default_VRCPConnectionReject)
   \<and> length (VRCPInputData_bytes i) = 4 * unat (id_n_rows default_VRCPInputData)
   \<and> length (VRCPServerAdvertisement_bytes ad) = 4 * unat (ad_n_rows default_VRCPServerAdvertisement)
   \<and> length (VRCPUserDataHeader_bytes ud) = 4 * unat (ud_n_rows default_VRCPUserDataHeader)
   \<and> length (VRCPTrackingData_bytes td) = 4 * unat (td_n_rows default_VRCPTrackingData)
   \<and> length (VRCPFrameTimeMeasurement_bytes fm) = 4 * unat (fm_n_rows default_VRCPFrameTimeMeasurement)
   \<and> length (VRCPImageQualityMeasurement_bytes im) = 4 * unat (im_n_rows default_VRCPImageQualityMeasurement)
   \<and> length (VRCPTrackingTimeMeasurement_bytes tm) = 4 * unat (tm_n_rows default_VRCPTrackingTimeMeasurement)
   \<and> length (VRCPNetworkMeasurement_bytes ne) = 4 * unat (ne_n_rows default_VRCPNetworkMeasurement)
   \<and> length (VRCPSocketMeasurement_bytes so) = 4 * unat (so_n_rows default_VRCPSocketMeasurement)
   \<and> length (VRCPPing_bytes pi) = 4 * unat (pi_n_rows default_VRCPPing)
   \<and> length (VRCPPingReply_bytes pr) = 4 * unat (pr_n_rows default_VRCPPingReply)
   \<and> length (VRCPSyncFinished_bytes sy) = 4 * unat (sy_n_rows default_VRCPSyncFinished)
   \<and> length (VRCPBenchmarkInfo_bytes bi) = 4 * unat (bi_n_rows default_VRCPBenchmarkInfo)
   \<and> length (VRCPMeasurementTransferFinished_bytes tf) = 4 * unat (tf_n_rows default_VRCPMeasurementTransferFinished)
   \<and> length (VRCPNextPass_bytes np) = 4 * unat (np_n_rows default_VRCPNextPass)
   \<and> length (VRCPFrameCaptureFragment_bytes fc) = 4 * unat (fc_n_rows default_VRCPFrameCaptureFragment)"
  by (simp add: VRCPBaseHeader_bytes_def default_VRCPBaseHeader_def VRCPConnectionRequest_bytes_def
      default_VRCPConnectionRequest_def VRCPConnectionAccept_bytes_def
      default_VRCPConnectionAccept_def VRCPConnectionReject_bytes_def
      default_VRCPConnectionReject_def VRCPInputData_bytes_def default_VRCPInputData_def
      VRCPServerAdvertisement_bytes_def default_VRCPServerAdvertisement_def
      VRCPUserDataHeader_bytes_def default_VRCPUserDataHeader_def VRCPTrackingData_bytes_def
      default_VRCPTrackingData_def VRCPFrameTimeMeasurement_bytes_def
      default_VRCPFrameTimeMeasurement_def VRCPImageQualityMeasurement_bytes_def
      default_VRCPImageQualityMeasurement_def VRCPTrackingTimeMeasurement_bytes_def
      default_VRCPTrackingTimeMeasurement_def VRCPNetworkMeasurement_bytes_def
      default_VRCPNetworkMeasurement_def VRCPSocketMeasurement_bytes_def
      default_VRCPSocketMeasurement_def VRCPPing_bytes_def default_VRCPPing_def
      VRCPPingReply_bytes_def default_VRCPPingReply_def VRCPSyncFinished_bytes_def
      default_VRCPSyncFinished_def VRCPBenchmarkInfo_bytes_def default_VRCPBenchmarkInfo_def
      VRCPMeasurementTransferFinished_bytes_def default_VRCPMeasurementTransferFinished_def
      VRCPNextPass_bytes_def default_VRCPNextPass_def VRCPFrameCaptureFragment_bytes_def
      default_VRCPFrameCaptureFragment_def)

text \<open>C26: measurements sent back to back arrive unchanged: the packet at index \<open>i\<close> of the byte stream,
  read at its offset, converts to the \<open>i\<close>-th measurement, for frame times, image qualities, tracking
  times, network measurements and (with a listed id and type) socket counters, and so does a tracking
  state.\<close>

theorem measurements_survive_the_wire:
  "(i < length fs \<longrightarrow> to_frame_time_measurements (VRCPFrameTimeMeasurement_of
      (drop (i * 56) (concat (map (\<lambda>m. VRCPFrameTimeMeasurement_bytes (mk_VRCPFrameTimeMeasurement m)) fs)
        @ rest))) f0 = fs ! i)
   \<and> (i < length qs \<longrightarrow> to_image_quality_measurements (VRCPImageQualityMeasurement_of
      (drop (i * 20) (concat (map (\<lambda>m. VRCPImageQualityMeasurement_bytes (mk_VRCPImageQualityMeasurement m)) qs)
        @ rest))) q0 = qs ! i)
   \<and> (i < length ts \<longrightarrow> to_tracking_time_measurements (VRCPTrackingTimeMeasurement_of
      (drop (i * 16) (concat (map (\<lambda>m. VRCPTrackingTimeMeasurement_bytes (mk_VRCPTrackingTimeMeasurement m)) ts)
        @ rest))) t0 = ts ! i)
   \<and> (i < length ns \<longrightarrow> to_network_measurements (VRCPNetworkMeasurement_of
      (drop (i * 12) (concat (map (\<lambda>m. VRCPNetworkMeasurement_bytes (mk_VRCPNetworkMeasurement m)) ns)
        @ rest))) n0 = ns ! i)
   \<and> (i < length ss \<and> list_all (\<lambda>m. socket_id_of (socket_id_u8 (sm_socket_id m)) = sm_socket_id m
        \<and> socket_type_of (socket_type_u8 (sm_socket_type m)) = sm_socket_type m) ss
      \<longrightarrow> to_socket_measurements (VRCPSocketMeasurement_of
      (drop (i * 20) (concat (map (\<lambda>m. VRCPSocketMeasurement_bytes (mk_VRCPSocketMeasurement m)) ss)
        @ rest))) s0 = ss ! i)
   \<and> to_tracking_state (VRCPTrackingData_of (VRCPTrackingData_bytes (mk_VRCPTrackingData state) @ rest)) p0
      = state"
  using fm_packet.over_stream [of fs i rest f0] im_packet.over_stream [of qs i rest q0]
    tm_packet.over_stream [of ts i rest t0] ne_packet.over_stream [of ns i rest n0]
    so_packet.over_stream [of ss i rest s0] td_packet.over_wire [of state rest p0]
  by (simp add: list_all_iff)

theorem measurements_survive_the_wire_witness:
  "to_network_measurements (VRCPNetworkMeasurement_of
      (drop 12 (concat (map (\<lambda>m. VRCPNetworkMeasurement_bytes (mk_VRCPNetworkMeasurement m))
         [\<lparr>nm_rtt_us = 9, nm_clock_error_us = - 4\<rparr>, \<lparr>nm_rtt_us = 1000, nm_clock_error_us = - 5\<rparr>])
        @ [7]))) \<lparr>nm_rtt_us = 0, nm_clock_error_us = 0\<rparr> = \<lparr>nm_rtt_us = 1000, nm_clock_error_us = - 5\<rparr>"
  using measurements_survive_the_wire [where i = 1 and rest = "[7]"
      and ns = "[\<lparr>nm_rtt_us = 9, nm_clock_error_us = - 4\<rparr>, \<lparr>nm_rtt_us = 1000, nm_clock_error_us = - 5\<rparr>]"
      and ?n0.0 = "\<lparr>nm_rtt_us = 0, nm_clock_error_us = 0\<rparr>" and fs = "[]" and qs = "[]" and ts = "[]"
      and ss = "[]"]
  by simp

text \<open>The measurement window sent by the server is recovered exactly, through the bytes of the
  packet, by a client whose clock has the same offset, when its points lie within the first
  \<open>2 ^ 32\<close> ticks of the epoch.\<close>

theorem measurement_window_shared:
  assumes "clock_offset server = clock_offset client"
    and "list_all (\<lambda>t. 0 \<le> t + clock_offset client \<and> t + clock_offset client < 2 ^ 32)
      [start_timing_phase w, start_image_quality_phase w, end_measurements w, end_window w]"
  shows "to_measurement_window (VRCPBenchmarkInfo_of
      (VRCPBenchmarkInfo_bytes (mk_VRCPBenchmarkInfo w server) @ rest)) client = w"
proof -
  have point: "from_rtp_timestamp client (to_rtp_timestamp server t) = t"
    if "0 \<le> t + clock_offset client" "t + clock_offset client < 2 ^ 32" for t
  proof -
    have "uint (word_of_int (t + clock_offset client) :: u32) = t + clock_offset client"
      unfolding uint_word_of_int using that by simp
    then show ?thesis
      by (simp only: from_rtp_timestamp_def to_rtp_timestamp_word assms(1))
  qed
  have "to_ft (to_u8 (bi_ftype (mk_VRCPBenchmarkInfo w server))) = bi_ftype (mk_VRCPBenchmarkInfo w server)"
    by (simp add: mk_VRCPBenchmarkInfo_def default_VRCPBenchmarkInfo_def to_ft_def)
  then have "VRCPBenchmarkInfo_of (VRCPBenchmarkInfo_bytes (mk_VRCPBenchmarkInfo w server) @ rest)
      = mk_VRCPBenchmarkInfo w server"
    by (rule bi_layout.dec_enc_append)
  then show ?thesis
    using assms(2) by (simp add: to_measurement_window_def mk_VRCPBenchmarkInfo_def point)
qed

theorem measurement_window_shared_witness:
  "to_measurement_window (VRCPBenchmarkInfo_of (VRCPBenchmarkInfo_bytes (mk_VRCPBenchmarkInfo
      \<lparr>start_timing_phase = 10, start_image_quality_phase = 20, end_measurements = 30, end_window = 40\<rparr>
      default_RTPClock) @ [])) default_RTPClock
   = \<lparr>start_timing_phase = 10, start_image_quality_phase = 20, end_measurements = 30, end_window = 40\<rparr>"
  by (rule measurement_window_shared) (simp_all add: default_RTPClock_def)

end
