(* ===== verification/SimplePacketizer.thy ===== *)
theory SimplePacketizer
  imports NetworkUtils
begin

text \<open>
  \<open>common/src/formats/simple_packetizer.cpp\<close>, the packetization used over TCP (the default build).
  The packetizer sends a 20-byte header, then the frame. The depacketizer reassembles the stream in a
  ring of ten buffers, filled at the tail by the network thread and read at the head by the rendering
  thread. Every operation is one step; a step that would wait for the mutex of a buffer that the
  reader holds is not enabled (\<open>None\<close>).
\<close>

section \<open>Header\<close>

definition FRAMEBUFFER_COUNT :: nat where
  "FRAMEBUFFER_COUNT = 10"

definition ENABLE_FRAME_DROP_CATCHUP :: nat where
  "ENABLE_FRAME_DROP_CATCHUP = 0"

definition CATCHUP_THRESHOLD :: nat where
  "CATCHUP_THRESHOLD = 2"

text \<open>The flags are combined in one byte.\<close>

definition FLAGS_NONE :: u8 where
  "FLAGS_NONE = 0b000"

definition END_OF_FRAME :: u8 where
  "END_OF_FRAME = 0b001"

definition SAVE_FRAME :: u8 where
  "SAVE_FRAME = 0b010"

definition END_OF_STREAM :: u8 where
  "END_OF_STREAM = 0b100"

text \<open>The structure is not packed: three bytes of padding follow the flags.\<close>

record SimpleHeader =
  sh_size :: u32
  sh_rtp_sample_timestamp :: u32
  sh_rtp_pose_timestamp :: u32
  sh_frame_id :: u32
  sh_flags :: u8
  sh_padding :: "u8 \<times> u8 \<times> u8"

definition sizeof_SimpleHeader :: nat where
  "sizeof_SimpleHeader = 20"

definition SimpleHeader_bytes :: "SimpleHeader \<Rightarrow> bytes" where
  "SimpleHeader_bytes h =
     store32 (sh_size h) @ store32 (sh_rtp_sample_timestamp h) @ store32 (sh_rtp_pose_timestamp h)
     @ store32 (sh_frame_id h)
     @ [sh_flags h, fst (sh_padding h), fst (snd (sh_padding h)), snd (snd (sh_padding h))]"

definition SimpleHeader_of :: "bytes \<Rightarrow> SimpleHeader" where
  "SimpleHeader_of bs =
     \<lparr>sh_size = load32 bs, sh_rtp_sample_timestamp = load32 (drop 4 bs),
      sh_rtp_pose_timestamp = load32 (drop 8 bs), sh_frame_id = load32 (drop 12 bs),
      sh_flags = load8 (drop 16 bs),
      sh_padding = (load8 (drop 17 bs), load8 (drop 18 bs), load8 (drop 19 bs))\<rparr>"

lemma length_SimpleHeader_bytes [simp, layout]: "length (SimpleHeader_bytes h) = 20"
  by (simp add: SimpleHeader_bytes_def)

lemma SimpleHeader_of_bytes [simp]: "SimpleHeader_of (SimpleHeader_bytes h @ rs) = h"
  by (simp add: SimpleHeader_of_def SimpleHeader_bytes_def)

section \<open>Packetizer\<close>

text \<open>The frame data is referenced, not copied; the caller keeps it unchanged until it is sent.\<close>

record SimplePacketizer =
  sp_data :: "bytes option"
  sp_header :: SimpleHeader
  sp_header_sent :: bool

definition create_simple_packetizer :: "u8 \<times> u8 \<times> u8 \<Rightarrow> SimplePacketizer" where
  "create_simple_packetizer pad =
     \<lparr>sp_data = None,
      sp_header = \<lparr>sh_size = 0, sh_rtp_sample_timestamp = 0, sh_rtp_pose_timestamp = 0,
        sh_frame_id = 0, sh_flags = FLAGS_NONE, sh_padding = pad\<rparr>,
      sp_header_sent = True\<rparr>"

definition add_frame_data ::
    "bytes \<Rightarrow> u32 \<Rightarrow> bool \<Rightarrow> u32 \<Rightarrow> u32 \<Rightarrow> bool \<Rightarrow> bool \<Rightarrow> SimplePacketizer \<Rightarrow> SimplePacketizer" where
  "add_frame_data data frame_id end_of_stream sampling_ts pose_ts save_frame last_of_frame p =
     (let h = sp_header p;
          f1 = sh_flags h;
          f2 = (if last_of_frame then f1 OR END_OF_FRAME else f1);
          f3 = (if save_frame then f2 OR SAVE_FRAME else f2);
          f4 = (if end_of_stream then f3 OR END_OF_STREAM else f3)
      in \<lparr>sp_data = Some data,
          sp_header = \<lparr>sh_size = htonl (of_nat (sizeof_SimpleHeader + length data)),
             sh_rtp_sample_timestamp = htonl sampling_ts, sh_rtp_pose_timestamp = htonl pose_ts,
             sh_frame_id = htonl frame_id, sh_flags = f4, sh_padding = sh_padding h\<rparr>,
          sp_header_sent = False\<rparr>)"

text \<open>The result: whether there is more to send, and the packet, if one was given out.\<close>

definition create_next_packet :: "SimplePacketizer \<Rightarrow> (bool \<times> bytes option) \<times> SimplePacketizer" where
  "create_next_packet p =
     (let h = sp_header p in
      if \<not> sp_header_sent p
      then ((unat (ntohl (sh_size h)) > sizeof_SimpleHeader, Some (SimpleHeader_bytes h)),
            p\<lparr>sp_header_sent := True\<rparr>)
      else case sp_data p of
          Some data \<Rightarrow>
            ((sh_flags h AND END_OF_FRAME \<noteq> END_OF_FRAME,
              Some (take (unat (ntohl (sh_size h)) - sizeof_SimpleHeader) data)),
             p\<lparr>sp_data := None\<rparr>)
        | None \<Rightarrow> ((False, None), p))"

section \<open>Depacketizer\<close>

record Framebuffer =
  fb_buffer :: bytes
  fb_size :: u32
  fb_last_packet_received_time :: int
  fb_ready :: bool
  fb_locked :: bool

definition empty_framebuffer :: Framebuffer where
  "empty_framebuffer = \<lparr>fb_buffer = [], fb_size = 0, fb_last_packet_received_time = 0,
     fb_ready = False, fb_locked = False\<rparr>"

record SimpleDepacketizer =
  sd_buffers :: "Framebuffer list"
  sd_tail :: nat
  sd_head :: nat

definition create_simple_depacketizer :: SimpleDepacketizer where
  "create_simple_depacketizer =
     \<lparr>sd_buffers = replicate FRAMEBUFFER_COUNT empty_framebuffer, sd_tail = 0, sd_head = 0\<rparr>"

abbreviation next_slot :: "nat \<Rightarrow> nat" where
  "next_slot i \<equiv> (i + 1) mod FRAMEBUFFER_COUNT"

definition reset_framebuffer :: "Framebuffer \<Rightarrow> Framebuffer" where
  "reset_framebuffer b = b\<lparr>fb_ready := False, fb_size := 0, fb_buffer := []\<rparr>"

definition header_size :: "bytes \<Rightarrow> u32" where
  "header_size bs = ntohl (sh_size (SimpleHeader_of bs))"

text \<open>
  \<open>add_packet\<close>, in three parts: the frame in the tail buffer is complete (the tail moves on, over the
  oldest frame when the ring is full), and the bytes after it go to the next buffer.
\<close>

definition advance_tail :: "SimpleDepacketizer \<Rightarrow> SimpleDepacketizer option" where
  "advance_tail s =
     (let t = next_slot (sd_tail s); s1 = s\<lparr>sd_tail := t\<rparr> in
      if t = sd_head s
      then if fb_locked (sd_buffers s ! sd_head s) then None
           else Some (s1\<lparr>sd_head := next_slot (sd_head s),
                         sd_buffers := (sd_buffers s)[sd_head s := reset_framebuffer (sd_buffers s ! sd_head s)]\<rparr>)
      else Some s1)"

definition push_remainder :: "bytes \<Rightarrow> SimpleDepacketizer \<Rightarrow> SimpleDepacketizer" where
  "push_remainder rest s =
     (if rest = [] then s
      else s\<lparr>sd_buffers := (sd_buffers s)[sd_tail s :=
             (sd_buffers s ! sd_tail s)\<lparr>fb_buffer := fb_buffer (sd_buffers s ! sd_tail s) @ rest\<rparr>]\<rparr>)"

definition add_packet :: "int \<Rightarrow> bytes \<Rightarrow> SimpleDepacketizer \<Rightarrow> SimpleDepacketizer option" where
  "add_packet steady_now packet s =
     (let buf = sd_buffers s ! sd_tail s in
      if fb_locked buf then None
      else
        let data = fb_buffer buf @ packet;
            size = (if fb_size buf = 0
                    then if length data < sizeof_SimpleHeader then 0 else header_size data
                    else fb_size buf)
        in if (fb_size buf = 0 \<and> length data < sizeof_SimpleHeader) \<or> unat size > length data
           then Some (s\<lparr>sd_buffers := (sd_buffers s)[sd_tail s := buf\<lparr>fb_buffer := data, fb_size := size\<rparr>]\<rparr>)
           else map_option (push_remainder (drop (unat size) data))
                  (advance_tail (s\<lparr>sd_buffers := (sd_buffers s)[sd_tail s :=
                      buf\<lparr>fb_buffer := data, fb_size := size, fb_ready := True,
                          fb_last_packet_received_time := steady_now\<rparr>]\<rparr>)))"

definition ring_buffer_distance :: "nat \<Rightarrow> nat \<Rightarrow> nat \<Rightarrow> nat" where
  "ring_buffer_distance head tail capacity =
     (if head \<le> tail then tail - head else (capacity - head) + tail)"

record frame_data =
  out_frame_data :: bytes
  out_frame_size :: u64
  out_frame_id :: u32
  out_end_of_stream :: bool
  out_rtp_timestamp :: u32
  out_rtp_pose_timestamp :: u32
  out_last_packet_received_time :: int
  out_save_frame :: bool

text \<open>The data is what the returned pointer points to; its size is computed in 64 bits.\<close>

definition read_frame :: "Framebuffer \<Rightarrow> frame_data" where
  "read_frame buf =
     (let h = SimpleHeader_of (fb_buffer buf) in
      \<lparr>out_frame_data = drop sizeof_SimpleHeader (fb_buffer buf),
       out_frame_size = ucast (ntohl (sh_size h)) - of_nat sizeof_SimpleHeader,
       out_frame_id = ntohl (sh_frame_id h),
       out_end_of_stream = (sh_flags h AND END_OF_STREAM = END_OF_STREAM),
       out_rtp_timestamp = ntohl (sh_rtp_sample_timestamp h),
       out_rtp_pose_timestamp = ntohl (sh_rtp_pose_timestamp h),
       out_last_packet_received_time = fb_last_packet_received_time buf,
       out_save_frame = (sh_flags h AND SAVE_FRAME = SAVE_FRAME)\<rparr>)"

definition skip_head :: "nat \<Rightarrow> SimpleDepacketizer \<Rightarrow> SimpleDepacketizer" where
  "skip_head head s = s\<lparr>sd_head := next_slot head\<rparr>"

definition reset_slot :: "nat \<Rightarrow> SimpleDepacketizer \<Rightarrow> SimpleDepacketizer" where
  "reset_slot i s = s\<lparr>sd_buffers := (sd_buffers s)[i := reset_framebuffer (sd_buffers s ! i)]\<rparr>"

text \<open>
  The loop reads \<open>tail\<close> once and moves \<open>head\<close> towards it; it runs at most once per buffer, which is
  the bound given to it. Locking a mutex that the thread holds already is not defined.
\<close>

fun receive_loop ::
    "nat \<Rightarrow> nat \<Rightarrow> nat \<Rightarrow> SimpleDepacketizer \<Rightarrow> (frame_data option \<times> SimpleDepacketizer) result" where
  "receive_loop 0 head tail s = Inr (None, s)"
| "receive_loop (Suc n) head tail s =
     (if head = tail then Inr (None, s)
      else
        let buf = sd_buffers s ! head in
        if fb_locked buf then Inl (UndefinedBehaviour ''mutex locked twice'')
        else if \<not> fb_ready buf
        then receive_loop n (next_slot head) tail (skip_head head s)
        else if length (fb_buffer buf) < sizeof_SimpleHeader
        then receive_loop n (next_slot head) tail (reset_slot head (skip_head head s))
        else if ENABLE_FRAME_DROP_CATCHUP \<noteq> 0
                \<and> ring_buffer_distance head tail FRAMEBUFFER_COUNT > CATCHUP_THRESHOLD
        then receive_loop n (next_slot head) tail (reset_slot head (skip_head head s))
        else if length (fb_buffer buf) < unat (header_size (fb_buffer buf))
        then receive_loop n (next_slot head) tail (reset_slot head (skip_head head s))
        else Inr (Some (read_frame buf),
                  s\<lparr>sd_buffers := (sd_buffers s)[head := buf\<lparr>fb_locked := True\<rparr>]\<rparr>))"

definition receive_frame_data ::
    "SimpleDepacketizer \<Rightarrow> (frame_data option \<times> SimpleDepacketizer) result" where
  "receive_frame_data s = receive_loop FRAMEBUFFER_COUNT (sd_head s) (sd_tail s) s"

definition release_frame_data :: "SimpleDepacketizer \<Rightarrow> SimpleDepacketizer result" where
  "release_frame_data s =
     (let head = sd_head s; buf = sd_buffers s ! head in
      if \<not> fb_locked buf then Inl (UndefinedBehaviour ''mutex unlocked without being held'')
      else Inr (s\<lparr>sd_buffers := (sd_buffers s)[head := (reset_framebuffer buf)\<lparr>fb_locked := False\<rparr>],
                  sd_head := next_slot head\<rparr>))"

end
