(* ===== verification/SimpleStream.thy ===== *)
theory SimpleStream
  imports SimplePacketizer "HOL-Library.Sublist"
begin

text \<open>
  What the TCP packetization promises: the ring of buffers of the depacketizer refines a queue of at
  most nine complete frames plus the bytes received after them. The network thread adds packets, the
  reader receives the oldest frame, holds its buffer while it works on it, and then releases it. The
  relation \<open>ring_holds\<close> lays the ring out from its head: complete frames, then the buffer being filled,
  then clean buffers. What comes out of the queue is then computed from the stream of frames alone.
\<close>

section \<open>The queue that the ring refines\<close>

text \<open>
  A complete frame is the time it was completed and its bytes, header included. The state of the queue
  is the complete frames, whether the reader holds the first of them, and the bytes after them.
\<close>

type_synonym timed_frame = "int \<times> bytes"

type_synonym queue = "timed_frame list \<times> bool \<times> bytes"

definition QUEUE_CAPACITY :: nat where
  "QUEUE_CAPACITY = 9"

definition completes :: "bytes \<Rightarrow> bool" where
  "completes data \<longleftrightarrow> sizeof_SimpleHeader \<le> length data \<and> unat (header_size data) \<le> length data"

text \<open>
  A packet completes at most one frame. In the queue that is documented, a frame that finds nine others
  has to wait for one of them to be released (\<open>None\<close>). The ring waits only when the reader holds its
  first frame; otherwise the first frame is lost.
\<close>

definition queue_add :: "int \<Rightarrow> bytes \<Rightarrow> queue \<Rightarrow> queue option" where
  "queue_add now packet st =
     (case st of (q, held, pend) \<Rightarrow>
       let data = pend @ packet; n = unat (header_size data) in
       if \<not> completes data then Some (q, held, data)
       else if length q < QUEUE_CAPACITY then Some (q @ [(now, take n data)], held, drop n data)
       else None)"

definition ring_add :: "int \<Rightarrow> bytes \<Rightarrow> queue \<Rightarrow> queue option" where
  "ring_add now packet st =
     (case st of (q, held, pend) \<Rightarrow>
       let data = pend @ packet; n = unat (header_size data) in
       if \<not> completes data then Some (q, held, data)
       else if length q < QUEUE_CAPACITY then Some (q @ [(now, take n data)], held, drop n data)
       else if held then None
       else Some (tl q @ [(now, take n data)], held, drop n data))"

text \<open>The reader's next call: release the frame that it holds, or else receive one.\<close>

datatype thread_op = Add int bytes | Reader

definition queue_op ::
    "(int \<Rightarrow> bytes \<Rightarrow> queue \<Rightarrow> queue option) \<Rightarrow> thread_op \<Rightarrow> queue \<times> timed_frame list
     \<Rightarrow> (queue \<times> timed_frame list) option" where
  "queue_op add a st =
     (case st of ((q, held, pend), out) \<Rightarrow>
       (case a of
          Add t p \<Rightarrow> map_option (\<lambda>st'. (st', out)) (add t p (q, held, pend))
        | Reader \<Rightarrow>
            if held then Some ((tl q, False, pend), out)
            else (case q of [] \<Rightarrow> Some ((q, False, pend), out)
                  | f # _ \<Rightarrow> Some ((q, True, pend), out @ [f]))))"

fun queue_run ::
    "(int \<Rightarrow> bytes \<Rightarrow> queue \<Rightarrow> queue option) \<Rightarrow> thread_op list \<Rightarrow> queue \<times> timed_frame list
     \<Rightarrow> (queue \<times> timed_frame list) option" where
  "queue_run add [] st = Some st"
| "queue_run add (a # as) st = (case queue_op add a st of None \<Rightarrow> None | Some st' \<Rightarrow> queue_run add as st')"

definition empty_queue :: "queue \<times> timed_frame list" where
  "empty_queue = (([], False, []), [])"

section \<open>Ring arithmetic\<close>

definition ring :: "SimpleDepacketizer \<Rightarrow> Framebuffer list" where
  "ring s = rotate (sd_head s) (sd_buffers s)"

lemma mod_offset_inject:
  assumes "i < 10" "j < 10"
  shows "(h + i) mod 10 = (h + j) mod (10::nat) \<longleftrightarrow> i = j"
proof -
  have le: "i = j" if "i \<le> j" "j < 10" "(h + i) mod 10 = (h + j) mod (10::nat)" for i j
  proof -
    have "10 dvd (h + j) - (h + i)"
      using that by (metis mod_eq_dvd_iff_nat nat_add_left_cancel_le)
    then show ?thesis using that by (auto dest: dvd_imp_le)
  qed
  show ?thesis
    using le [of i j] le [of j i] assms by (metis nat_le_linear)
qed

lemma rotate_nth_update:
  assumes "length xs = 10" "i < 10"
  shows "rotate h (xs[(h + i) mod 10 := v]) = (rotate h xs)[i := v]"
proof (rule nth_equalityI)
  fix j assume "j < length (rotate h (xs[(h + i) mod 10 := v]))"
  then have "j < 10" using assms by simp
  then show "rotate h (xs[(h + i) mod 10 := v]) ! j = (rotate h xs)[i := v] ! j"
    using assms mod_offset_inject [of i j h]
    by (auto simp: nth_rotate nth_list_update)
qed simp

lemma rotate_next: "length xs = 10 \<Longrightarrow> rotate ((h + 1) mod 10) xs = rotate1 (rotate h xs)"
  by (metis Suc_eq_plus1 rotate_Suc rotate_conv_mod)

lemma rotate_same_pos:
  assumes "length xs = 10" "i < 10"
  shows "xs ! ((h + i) mod 10) = rotate h xs ! i"
  using assms by (simp add: nth_rotate)

section \<open>Invariant\<close>

definition frame_complete :: "Framebuffer \<Rightarrow> bool" where
  "frame_complete b \<longleftrightarrow> fb_ready b \<and> sizeof_SimpleHeader \<le> length (fb_buffer b)
     \<and> unat (header_size (fb_buffer b)) \<le> length (fb_buffer b)"

definition filling :: "Framebuffer \<Rightarrow> bool" where
  "filling b \<longleftrightarrow> \<not> fb_locked b \<and> (fb_size b \<noteq> 0 \<longrightarrow> sizeof_SimpleHeader \<le> length (fb_buffer b)
     \<and> fb_size b = header_size (fb_buffer b))"

definition clean :: "Framebuffer \<Rightarrow> bool" where
  "clean b \<longleftrightarrow> \<not> fb_locked b \<and> fb_size b = 0 \<and> fb_buffer b = []"

definition frame_of :: "Framebuffer \<Rightarrow> timed_frame" where
  "frame_of b = (fb_last_packet_received_time b, take (unat (header_size (fb_buffer b))) (fb_buffer b))"

definition ring_holds ::
    "SimpleDepacketizer \<Rightarrow> Framebuffer list \<Rightarrow> Framebuffer \<Rightarrow> Framebuffer list \<Rightarrow> bool" where
  "ring_holds s Q T C \<longleftrightarrow> length (sd_buffers s) = 10 \<and> sd_head s < 10
     \<and> ring s = Q @ T # C \<and> sd_tail s = (sd_head s + length Q) mod 10
     \<and> list_all frame_complete Q \<and> list_all (\<lambda>b. \<not> fb_locked b) (tl Q) \<and> filling T \<and> list_all clean C"

lemma ring_holds_length: "ring_holds s Q T C \<Longrightarrow> length Q + length C = 9"
  by (auto simp: ring_holds_def ring_def dest: arg_cong [of _ _ length])

lemma ring_holds_tail: "ring_holds s Q T C \<Longrightarrow> sd_buffers s ! sd_tail s = T"
  using ring_holds_length [of s Q T C]
  by (auto simp: ring_holds_def ring_def rotate_same_pos)

lemma ring_holds_head:
  assumes "ring_holds s (q # Q) T C"
  shows "sd_buffers s ! sd_head s = q"
proof -
  have "sd_buffers s ! ((sd_head s + 0) mod 10) = rotate (sd_head s) (sd_buffers s) ! 0"
    using assms by (intro rotate_same_pos) (simp_all add: ring_holds_def)
  with assms show ?thesis by (simp add: ring_holds_def ring_def)
qed

text \<open>Replacing the buffer at the tail, and at the head.\<close>

lemma ring_holds_set_tail:
  assumes "ring_holds s Q T C" "filling T'"
  shows "ring_holds (s\<lparr>sd_buffers := (sd_buffers s)[sd_tail s := T']\<rparr>) Q T' C"
  using assms ring_holds_length [OF assms(1)]
  by (auto simp: ring_holds_def ring_def rotate_nth_update)

lemma ring_holds_init:
  "ring_holds create_simple_depacketizer [] empty_framebuffer (replicate 9 empty_framebuffer)"
proof -
  have "replicate 10 empty_framebuffer = empty_framebuffer # replicate 9 empty_framebuffer"
    using replicate_Suc [of 9 empty_framebuffer] by simp
  moreover have "filling empty_framebuffer" "clean empty_framebuffer"
    by (simp_all add: filling_def clean_def empty_framebuffer_def)
  ultimately show ?thesis
    by (simp add: ring_holds_def ring_def create_simple_depacketizer_def FRAMEBUFFER_COUNT_def
        list_all_iff)
qed

text \<open>Moving the tail: to the first clean buffer, or over the oldest frame.\<close>

lemma advance_tail_free:
  assumes "ring_holds s Q T (c # C)" "frame_complete T"
  shows "\<exists>s'. advance_tail s = Some s' \<and> ring_holds s' (Q @ [T]) c C"
proof -
  have len: "length Q + length C = 8"
    using ring_holds_length [OF assms(1)] by simp
  have tail: "sd_tail s = (sd_head s + length Q) mod 10" and h: "sd_head s < 10"
    using assms(1) by (simp_all add: ring_holds_def)
  have "next_slot (sd_tail s) = (sd_head s + length (Q @ [T])) mod 10"
    unfolding tail by (simp add: FRAMEBUFFER_COUNT_def mod_Suc_eq)
  moreover have "(sd_head s + length (Q @ [T])) mod 10 \<noteq> sd_head s"
    using mod_offset_inject [of "length (Q @ [T])" 0 "sd_head s"] len h by simp
  ultimately have "advance_tail s = Some (s\<lparr>sd_tail := (sd_head s + length (Q @ [T])) mod 10\<rparr>)"
    by (simp add: advance_tail_def Let_def)
  moreover have "ring_holds (s\<lparr>sd_tail := (sd_head s + length (Q @ [T])) mod 10\<rparr>) (Q @ [T]) c C"
    using assms by (cases Q) (auto simp: ring_holds_def ring_def filling_def clean_def)
  ultimately show ?thesis by blast
qed

lemma advance_tail_full:
  assumes "ring_holds s (q # Q) T []" "frame_complete T" "\<not> fb_locked q"
  shows "\<exists>s'. advance_tail s = Some s' \<and> ring_holds s' (Q @ [T]) (reset_framebuffer q) []"
proof -
  have len: "length Q = 8"
    using ring_holds_length [OF assms(1)] by simp
  have st: "length (sd_buffers s) = 10" "sd_head s < 10" "rotate (sd_head s) (sd_buffers s) = (q # Q) @ [T]"
      "sd_tail s = (sd_head s + 9) mod 10"
    using assms(1) len by (simp_all add: ring_holds_def ring_def)
  have q: "sd_buffers s ! sd_head s = q"
    using ring_holds_head [OF assms(1)] .
  have "next_slot (sd_tail s) = sd_head s"
    using st(2,4) by (simp add: FRAMEBUFFER_COUNT_def mod_Suc_eq)
  then have adv: "advance_tail s = Some (s\<lparr>sd_tail := sd_head s, sd_head := next_slot (sd_head s),
      sd_buffers := (sd_buffers s)[sd_head s := reset_framebuffer q]\<rparr>)"
    using assms(3) q by (simp add: advance_tail_def Let_def)
  have upd: "rotate (sd_head s) ((sd_buffers s)[sd_head s := reset_framebuffer q])
      = (reset_framebuffer q # Q) @ [T]"
    using rotate_nth_update [of "sd_buffers s" 0 "sd_head s"] st by simp
  have "rotate ((sd_head s + 1) mod 10) ((sd_buffers s)[sd_head s := reset_framebuffer q])
      = (Q @ [T]) @ [reset_framebuffer q]"
    using rotate_next [of "(sd_buffers s)[sd_head s := reset_framebuffer q]" "sd_head s"] st(1) upd by simp
  moreover have "sd_head s = ((sd_head s + 1) mod 10 + length (Q @ [T])) mod 10"
    using st(2) len by (simp add: mod_add_left_eq)
  moreover have "filling (reset_framebuffer q)"
    using assms(3) by (simp add: filling_def reset_framebuffer_def)
  ultimately have "ring_holds (s\<lparr>sd_tail := sd_head s, sd_head := next_slot (sd_head s),
      sd_buffers := (sd_buffers s)[sd_head s := reset_framebuffer q]\<rparr>) (Q @ [T]) (reset_framebuffer q) []"
    using assms st(1) by (cases Q) (auto simp: ring_holds_def ring_def FRAMEBUFFER_COUNT_def filling_def)
  with adv show ?thesis by blast
qed

lemma push_remainder_holds:
  assumes "ring_holds s Q T C" "fb_size T = 0"
  shows "ring_holds (push_remainder rest s) Q (T\<lparr>fb_buffer := fb_buffer T @ rest\<rparr>) C"
proof (cases "rest = []")
  case False
  have "filling (T\<lparr>fb_buffer := fb_buffer T @ rest\<rparr>)"
    using assms by (simp add: ring_holds_def filling_def)
  from ring_holds_set_tail [OF assms(1) this] show ?thesis
    using False ring_holds_tail [OF assms(1)] by (simp add: push_remainder_def)
qed (use assms(1) in \<open>simp add: push_remainder_def\<close>)

section \<open>Refinement of the operations\<close>

lemma header_of_append:
  assumes "sizeof_SimpleHeader \<le> length bs"
  shows "SimpleHeader_of (bs @ p) = SimpleHeader_of bs"
proof -
  have l32: "4 \<le> length xs \<Longrightarrow> load32 (xs @ ys) = load32 xs" for xs ys
    by (cases xs rule: load32.cases) simp_all
  have l8: "xs \<noteq> [] \<Longrightarrow> load8 (xs @ ys) = load8 xs" for xs ys
    by (cases xs rule: load8.cases) simp_all
  show ?thesis
    using assms by (simp add: SimpleHeader_of_def sizeof_SimpleHeader_def l32 l8)
qed

lemma header_size_append: "sizeof_SimpleHeader \<le> length bs \<Longrightarrow> header_size (bs @ p) = header_size bs"
  by (simp add: header_size_def header_of_append)

text \<open>The first buffer is locked exactly while the reader holds it, the others never.\<close>

definition lock_held :: "bool \<Rightarrow> Framebuffer list \<Rightarrow> bool" where
  "lock_held held Q \<longleftrightarrow> (case Q of [] \<Rightarrow> \<not> held | q # _ \<Rightarrow> fb_locked q = held)"

lemma lock_held_snoc: "lock_held held Q \<Longrightarrow> \<not> fb_locked T \<Longrightarrow> lock_held held (Q @ [T])"
  by (cases Q) (simp_all add: lock_held_def)

lemma advance_tail_held:
  assumes "ring_holds s (q # Q) T []" "fb_locked q"
  shows "advance_tail s = None"
proof -
  have "sd_buffers s ! sd_head s = q"
    using ring_holds_head [OF assms(1)] .
  moreover have "next_slot (sd_tail s) = sd_head s"
    using ring_holds_length [OF assms(1)] assms(1)
    by (simp add: ring_holds_def FRAMEBUFFER_COUNT_def mod_Suc_eq)
  ultimately show ?thesis
    using assms(2) by (simp add: advance_tail_def Let_def)
qed

lemma add_packet_refines:
  assumes holds: "ring_holds s Q T C" and lock: "lock_held held Q"
  shows "case ring_add now packet (map frame_of Q, held, fb_buffer T) of
      None \<Rightarrow> add_packet now packet s = None
    | Some st \<Rightarrow> \<exists>s' Q' T' C'. add_packet now packet s = Some s' \<and> ring_holds s' Q' T' C'
        \<and> lock_held held Q' \<and> st = (map frame_of Q', held, fb_buffer T')"
proof -
  define data where "data = fb_buffer T @ packet"
  have fill: "\<not> fb_locked T" "fb_size T \<noteq> 0 \<Longrightarrow> sizeof_SimpleHeader \<le> length (fb_buffer T)"
      "fb_size T \<noteq> 0 \<Longrightarrow> fb_size T = header_size data"
    using holds by (auto simp: ring_holds_def filling_def data_def header_size_append)
  have long: "sizeof_SimpleHeader \<le> length data" if "fb_size T \<noteq> 0"
    using fill(2) [OF that] by (simp add: data_def)
  define size where "size = (if length data < sizeof_SimpleHeader then 0 else header_size data)"
  have size: "(if fb_size T = 0 then if length data < sizeof_SimpleHeader then 0 else header_size data
      else fb_size T) = size"
    using fill(3) long by (auto simp: size_def)
  have run: "add_packet now packet s =
     (if \<not> completes data
      then Some (s\<lparr>sd_buffers := (sd_buffers s)[sd_tail s := T\<lparr>fb_buffer := data, fb_size := size\<rparr>]\<rparr>)
      else map_option (push_remainder (drop (unat size) data))
             (advance_tail (s\<lparr>sd_buffers := (sd_buffers s)[sd_tail s :=
                 T\<lparr>fb_buffer := data, fb_size := size, fb_ready := True,
                   fb_last_packet_received_time := now\<rparr>]\<rparr>)))"
    unfolding add_packet_def ring_holds_tail [OF holds] Let_def data_def [symmetric] size completes_def
    using fill(1) long by (auto simp: size_def)
  show ?thesis
  proof (cases "completes data")
    case False
    have "filling (T\<lparr>fb_buffer := data, fb_size := size\<rparr>)"
      using fill(1) by (simp add: filling_def size_def)
    from ring_holds_set_tail [OF holds this] show ?thesis
      using False lock by (force simp: run ring_add_def Let_def simp flip: data_def)
  next
    case True
    define T1 where "T1 = T\<lparr>fb_buffer := data, fb_size := size, fb_ready := True,
        fb_last_packet_received_time := now\<rparr>"
    define s1 where "s1 = s\<lparr>sd_buffers := (sd_buffers s)[sd_tail s := T1]\<rparr>"
    define rest where "rest = drop (unat (header_size data)) data"
    have T1: "frame_complete T1" "filling T1" "\<not> fb_locked T1"
        "frame_of T1 = (now, take (unat (header_size data)) data)"
      using True fill(1) by (auto simp: completes_def T1_def size_def frame_complete_def filling_def frame_of_def)
    have s1: "ring_holds s1 Q T1 C"
      unfolding s1_def by (rule ring_holds_set_tail [OF holds T1(2)])
    have spec: "ring_add now packet (map frame_of Q, held, fb_buffer T) =
        (if length Q < QUEUE_CAPACITY then Some (map frame_of (Q @ [T1]), held, rest)
         else if held then None else Some (map frame_of (tl Q @ [T1]), held, rest))"
      using True by (simp add: ring_add_def Let_def T1(4) rest_def map_tl flip: data_def)
    have add: "add_packet now packet s = map_option (push_remainder rest) (advance_tail s1)"
      using True by (simp add: run s1_def T1_def size_def rest_def completes_def)
    show ?thesis
    proof (cases C)
      case (Cons c C')
      then have c: "fb_buffer c = []" "fb_size c = 0"
        using s1 by (simp_all add: ring_holds_def clean_def)
      obtain s2 where s2: "advance_tail s1 = Some s2" "ring_holds s2 (Q @ [T1]) c C'"
        using advance_tail_free s1 T1(1) Cons by blast
      have "length Q < QUEUE_CAPACITY"
        using ring_holds_length [OF s1] Cons by (simp add: QUEUE_CAPACITY_def)
      with push_remainder_holds [OF s2(2) c(2), of rest] lock_held_snoc [OF lock T1(3)] show ?thesis
        using s2(1) c(1) by (force simp: add spec)
    next
      case Nil
      then obtain q Q' where Q: "Q = q # Q'" "length Q = QUEUE_CAPACITY"
        using ring_holds_length [OF s1] by (cases Q) (auto simp: QUEUE_CAPACITY_def)
      show ?thesis
      proof (cases held)
        case True
        then show ?thesis
          using advance_tail_held [of s1 q Q' T1] s1 lock Nil Q unfolding spec add by (simp add: lock_held_def)
      next
        case False
        then obtain s2 where s2: "advance_tail s1 = Some s2" "ring_holds s2 (Q' @ [T1]) (reset_framebuffer q) []"
          using advance_tail_full [of s1 q Q' T1] s1 T1(1) Nil Q(1) lock by (auto simp: lock_held_def)
        have r: "fb_size (reset_framebuffer q) = 0" "fb_buffer (reset_framebuffer q) = []"
          by (simp_all add: reset_framebuffer_def)
        have "\<not> fb_locked (hd (Q' @ [T1]))"
          using s1 T1(3) Q(1) by (cases Q') (simp_all add: ring_holds_def)
        then have "lock_held held (Q' @ [T1])"
          using False by (cases Q') (simp_all add: lock_held_def)
        then show ?thesis
          using push_remainder_holds [OF s2(2) r(1), of rest] s2(1) r(2) False Q
          unfolding spec add by force
      qed
    qed
  qed
qed

text \<open>Receiving gives the oldest frame and locks its buffer; releasing removes the frame.\<close>

lemma receive_refines:
  assumes "ring_holds s Q T C" "lock_held False Q"
  shows "case Q of [] \<Rightarrow> receive_frame_data s = Inr (None, s)
      | q # Q' \<Rightarrow> \<exists>s'. receive_frame_data s = Inr (Some (read_frame q), s')
          \<and> ring_holds s' (q\<lparr>fb_locked := True\<rparr> # Q') T C"
proof (cases Q)
  case Nil
  then have "sd_head s = sd_tail s"
    using assms(1) by (simp add: ring_holds_def)
  with Nil show ?thesis
    by (simp add: receive_frame_data_def FRAMEBUFFER_COUNT_def eval_nat_numeral)
next
  case (Cons q Q')
  have len: "length Q \<le> 9" "Q \<noteq> []"
    using ring_holds_length [OF assms(1)] Cons by simp_all
  have "sd_tail s \<noteq> sd_head s"
    using mod_offset_inject [of "length Q" 0 "sd_head s"] len assms(1) by (auto simp: ring_holds_def)
  moreover have "sd_buffers s ! sd_head s = q"
    using ring_holds_head assms(1) Cons by blast
  moreover have "frame_complete q" "\<not> fb_locked q"
    using assms Cons by (simp_all add: ring_holds_def lock_held_def)
  ultimately have "receive_loop (Suc n) (sd_head s) (sd_tail s) s =
      Inr (Some (read_frame q), s\<lparr>sd_buffers := (sd_buffers s)[sd_head s := q\<lparr>fb_locked := True\<rparr>]\<rparr>)" for n
    by (simp add: frame_complete_def ENABLE_FRAME_DROP_CATCHUP_def)
  from this [of 9] have "receive_frame_data s =
      Inr (Some (read_frame q), s\<lparr>sd_buffers := (sd_buffers s)[sd_head s := q\<lparr>fb_locked := True\<rparr>]\<rparr>)"
    by (simp add: receive_frame_data_def FRAMEBUFFER_COUNT_def)
  moreover have "ring_holds (s\<lparr>sd_buffers := (sd_buffers s)[sd_head s := q\<lparr>fb_locked := True\<rparr>]\<rparr>)
      (q\<lparr>fb_locked := True\<rparr> # Q') T C"
    using assms(1) rotate_nth_update [of "sd_buffers s" 0 "sd_head s"]
    unfolding Cons by (simp add: ring_holds_def ring_def frame_complete_def)
  ultimately show ?thesis
    using Cons by simp
qed

lemma release_refines:
  assumes "ring_holds s (q # Q) T C" "fb_locked q"
  shows "\<exists>s' C'. release_frame_data s = Inr s' \<and> ring_holds s' Q T C' \<and> lock_held False Q"
proof -
  define q' where "q' = (reset_framebuffer q)\<lparr>fb_locked := False\<rparr>"
  have st: "length (sd_buffers s) = 10" "sd_head s < 10" "rotate (sd_head s) (sd_buffers s) = (q # Q) @ T # C"
      "sd_tail s = (sd_head s + Suc (length Q)) mod 10"
    using assms(1) by (simp_all add: ring_holds_def ring_def)
  have rel: "release_frame_data s = Inr (s\<lparr>sd_buffers := (sd_buffers s)[sd_head s := q'], sd_head := next_slot (sd_head s)\<rparr>)"
    using ring_holds_head [OF assms(1)] assms(2)
    by (simp add: release_frame_data_def Let_def q'_def reset_framebuffer_def)
  have "rotate (sd_head s) ((sd_buffers s)[sd_head s := q']) = q' # Q @ T # C"
    using rotate_nth_update [of "sd_buffers s" 0 "sd_head s"] st by simp
  then have "rotate ((sd_head s + 1) mod 10) ((sd_buffers s)[sd_head s := q']) = Q @ T # (C @ [q'])"
    using rotate_next [of "(sd_buffers s)[sd_head s := q']" "sd_head s"] st(1) by simp
  moreover have "clean q'"
    by (simp add: q'_def clean_def reset_framebuffer_def)
  moreover have "sd_tail s = ((sd_head s + 1) mod 10 + length Q) mod 10"
    by (simp add: st(4) mod_add_left_eq)
  ultimately have "ring_holds (s\<lparr>sd_buffers := (sd_buffers s)[sd_head s := q'], sd_head := next_slot (sd_head s)\<rparr>)
      Q T (C @ [q'])"
    using assms(1) by (cases Q) (auto simp: ring_holds_def ring_def FRAMEBUFFER_COUNT_def)
  moreover have "lock_held False Q"
    using assms(1) by (cases Q) (auto simp: ring_holds_def lock_held_def)
  ultimately show ?thesis using rel by blast
qed

section \<open>Runs of the network and rendering threads\<close>

text \<open>
  The reader gets each frame where \<open>receive_frame_data\<close> returns and holds it until its next call, which
  is \<open>release_frame_data\<close>; packets may arrive in between. A packet that has to wait for the reader
  (\<open>Inr None\<close>) is added once the frame is released.
\<close>

type_synonym thread_state = "SimpleDepacketizer \<times> bool \<times> frame_data list"

definition run_op :: "thread_op \<Rightarrow> thread_state \<Rightarrow> thread_state option result" where
  "run_op a st =
     (case st of (s, held, out) \<Rightarrow>
       (case a of
          Add t p \<Rightarrow> Inr (map_option (\<lambda>s'. (s', held, out)) (add_packet t p s))
        | Reader \<Rightarrow>
            if held then map_sum id (\<lambda>s'. Some (s', False, out)) (release_frame_data s)
            else map_sum id (\<lambda>(f, s'). case f of None \<Rightarrow> Some (s', False, out)
                                      | Some x \<Rightarrow> Some (s', True, out @ [x])) (receive_frame_data s)))"

fun run_ops :: "thread_op list \<Rightarrow> thread_state \<Rightarrow> thread_state option result" where
  "run_ops [] st = Inr (Some st)"
| "run_ops (a # as) st =
     (case run_op a st of Inl f \<Rightarrow> Inl f | Inr None \<Rightarrow> Inr None | Inr (Some st') \<Rightarrow> run_ops as st')"

lemma run_ops_append:
  "run_ops (as @ bs) st =
     (case run_ops as st of Inl f \<Rightarrow> Inl f | Inr None \<Rightarrow> Inr None | Inr (Some st') \<Rightarrow> run_ops bs st')"
  by (induction as arbitrary: st) (simp_all split: sum.split option.split)

definition start :: thread_state where
  "start = (create_simple_depacketizer, False, [])"

fun packets :: "thread_op list \<Rightarrow> bytes list" where
  "packets [] = []"
| "packets (Add t p # as) = p # packets as"
| "packets (Reader # as) = packets as"

text \<open>What the reader gets of a frame; a size below the header's wraps around in 64 bits.\<close>

definition reads :: "frame_data \<Rightarrow> timed_frame \<Rightarrow> bool" where
  "reads f tf \<longleftrightarrow> out_last_packet_received_time f = fst tf
     \<and> out_frame_size f = of_nat (length (snd tf)) - 20
     \<and> (sizeof_SimpleHeader \<le> length (snd tf) \<longrightarrow>
          (let h = SimpleHeader_of (snd tf) in
           take (unat (out_frame_size f)) (out_frame_data f) = drop sizeof_SimpleHeader (snd tf)
           \<and> out_frame_id f = ntohl (sh_frame_id h)
           \<and> out_rtp_timestamp f = ntohl (sh_rtp_sample_timestamp h)
           \<and> out_rtp_pose_timestamp f = ntohl (sh_rtp_pose_timestamp h)
           \<and> out_end_of_stream f = (sh_flags h AND END_OF_STREAM = END_OF_STREAM)
           \<and> out_save_frame f = (sh_flags h AND SAVE_FRAME = SAVE_FRAME)))"

lemma reads_read_frame:
  assumes c: "frame_complete q"
  shows "reads (read_frame q) (frame_of q)"
proof -
  define n where "n = unat (header_size (fb_buffer q))"
  have n: "n \<le> length (fb_buffer q)" "n < 2 ^ 32"
    using c unat_bound32 [of "header_size (fb_buffer q)"] by (simp_all add: frame_complete_def n_def)
  have size: "ucast (header_size (fb_buffer q)) = (of_nat n :: u64)"
    unfolding n_def by simp
  have "unat (of_nat n - 20 :: u64) = n - 20" if "20 \<le> n"
    using that n(2) by (subst unat_sub) (simp_all add: word_le_nat_alt unat_of_nat)
  moreover have "SimpleHeader_of (take n (fb_buffer q)) = SimpleHeader_of (fb_buffer q)" if "20 \<le> n"
    using header_of_append [of "take n (fb_buffer q)" "drop n (fb_buffer q)"] that n(1)
    by (simp add: sizeof_SimpleHeader_def)
  ultimately show ?thesis
    using n(1) by (simp add: reads_def read_frame_def Let_def frame_of_def size sizeof_SimpleHeader_def
        drop_take flip: header_size_def n_def)
qed

text \<open>A state of the threads and the state of the queue that it represents.\<close>

definition represents :: "thread_state \<Rightarrow> queue \<times> timed_frame list \<Rightarrow> bool" where
  "represents st spec \<longleftrightarrow> (case st of (s, held, out) \<Rightarrow> case spec of ((q, h, pend), tout) \<Rightarrow>
     \<exists>Q T C. ring_holds s Q T C \<and> lock_held held Q \<and> h = held \<and> q = map frame_of Q
       \<and> pend = fb_buffer T \<and> list_all2 reads out tout)"

lemma represents_start: "represents start empty_queue"
proof -
  have "lock_held False []" "fb_buffer empty_framebuffer = []"
    by (simp_all add: lock_held_def empty_framebuffer_def)
  then show ?thesis
    unfolding represents_def start_def empty_queue_def using ring_holds_init by force
qed

lemma run_op_refines:
  assumes "represents st spec"
  shows "case queue_op ring_add a spec of None \<Rightarrow> run_op a st = Inr None
    | Some spec' \<Rightarrow> \<exists>st'. run_op a st = Inr (Some st') \<and> represents st' spec'"
proof -
  obtain s held out where st: "st = (s, held, out)" by (cases st)
  obtain q h pend tout where spec: "spec = ((q, h, pend), tout)" by (cases spec) auto
  obtain Q T C where R: "ring_holds s Q T C" "lock_held held Q" "h = held" "q = map frame_of Q"
      "pend = fb_buffer T" "list_all2 reads out tout"
    using assms unfolding st spec represents_def by auto
  show ?thesis
  proof (cases a)
    case (Add t p)
    show ?thesis
      using add_packet_refines [OF R(1,2), of t p] R(6) unfolding Add st spec
      by (force simp: R(3-5) queue_op_def run_op_def represents_def split: option.splits)
  next
    case Reader
    show ?thesis
    proof (cases held)
      case True
      then obtain f Q' where Q: "Q = f # Q'" "fb_locked f"
        using R(2) by (cases Q) (auto simp: lock_held_def)
      with R(1) release_refines [of s f Q' T C] obtain s' C' where
        "release_frame_data s = Inr s'" "ring_holds s' Q' T C'" "lock_held False Q'" by blast
      then show ?thesis
        using True Q(1) R(6) unfolding Reader st spec
        by (force simp: R(3-5) queue_op_def run_op_def represents_def)
    next
      case False
      show ?thesis
      proof (cases Q)
        case Nil
        then show ?thesis
          using receive_refines [OF R(1)] R False assms unfolding Reader st spec
          by (force simp: queue_op_def run_op_def represents_def)
      next
        case (Cons f Q')
        obtain s' where s': "receive_frame_data s = Inr (Some (read_frame f), s')"
            "ring_holds s' (f\<lparr>fb_locked := True\<rparr> # Q') T C"
          using receive_refines [OF R(1)] R(2) False Cons by auto
        have "frame_complete f"
          using R(1) Cons by (simp add: ring_holds_def)
        from reads_read_frame [OF this]
        have "list_all2 reads (out @ [read_frame f]) (tout @ [frame_of f])"
          using R(6) by (simp add: list_all2_appendI)
        moreover have "lock_held True (f\<lparr>fb_locked := True\<rparr> # Q')" "frame_of (f\<lparr>fb_locked := True\<rparr>) = frame_of f"
          by (simp_all add: lock_held_def frame_of_def)
        ultimately show ?thesis
          using s' False Cons unfolding Reader st spec
          by (force simp: R(3-5) queue_op_def run_op_def represents_def)
      qed
    qed
  qed
qed

lemma run_ops_refines:
  assumes "represents st spec"
  shows "case queue_run ring_add ops spec of None \<Rightarrow> run_ops ops st = Inr None
    | Some spec' \<Rightarrow> \<exists>st'. run_ops ops st = Inr (Some st') \<and> represents st' spec'"
  using assms
proof (induction ops arbitrary: st spec)
  case (Cons a ops)
  show ?case
  proof (cases "queue_op ring_add a spec")
    case None
    then show ?thesis
      using run_op_refines [OF Cons.prems, of a] by simp
  next
    case (Some spec')
    then obtain st' where "run_op a st = Inr (Some st')" "represents st' spec'"
      using run_op_refines [OF Cons.prems, of a] by auto
    then show ?thesis
      using Cons.IH [of st' spec'] Some by (simp only: run_ops.simps queue_run.simps sum.case option.case)
  qed
qed simp

text \<open>
  The ring and the documented queue differ only when a frame finds nine others of which the reader
  holds none.
\<close>

fun overrun :: "thread_op list \<Rightarrow> queue \<times> timed_frame list \<Rightarrow> bool" where
  "overrun [] st = False"
| "overrun (a # as) st =
     ((case a of Reader \<Rightarrow> False
       | Add t p \<Rightarrow> (case fst st of (q, held, pend) \<Rightarrow>
           completes (pend @ p) \<and> length q = QUEUE_CAPACITY \<and> \<not> held))
      \<or> (case queue_op queue_add a st of None \<Rightarrow> False | Some st' \<Rightarrow> overrun as st'))"

lemma queue_op_capacity:
  "queue_op queue_add a ((q, held, pend), out) = Some ((q', held', pend'), out') \<Longrightarrow>
     length q \<le> QUEUE_CAPACITY \<Longrightarrow> length q' \<le> QUEUE_CAPACITY"
  by (auto simp: queue_op_def queue_add_def Let_def split: thread_op.splits if_splits list.splits)

lemma same_without_overrun:
  assumes "\<not> overrun ops st" "length (fst (fst st)) \<le> QUEUE_CAPACITY"
  shows "queue_run ring_add ops st = queue_run queue_add ops st"
  using assms
proof (induction ops arbitrary: st)
  case (Cons a ops)
  obtain q held pend out where st: "st = ((q, held, pend), out)" by (cases st) auto
  have "queue_op ring_add a st = queue_op queue_add a st"
    using Cons.prems by (auto simp: st queue_op_def ring_add_def queue_add_def Let_def split: thread_op.splits)
  then show ?case
    using Cons queue_op_capacity [of a q held pend out] by (fastforce simp: st split: option.splits)
qed simp

lemma queue_op_full:
  "queue_op queue_add (Add t p) ((q, held, pend), out) = Some st \<Longrightarrow>
     \<not> (completes (pend @ p) \<and> length q = QUEUE_CAPACITY)"
  by (simp add: queue_op_def queue_add_def Let_def split: if_splits)

lemma no_wait_no_overrun: "queue_run queue_add ops st \<noteq> None \<Longrightarrow> \<not> overrun ops st"
proof (induction ops arbitrary: st)
  case (Cons a ops)
  obtain q held pend out where st: "st = ((q, held, pend), out)" by (cases st) auto
  obtain st' where st': "queue_op queue_add a st = Some st'" "queue_run queue_add ops st' \<noteq> None"
    using Cons.prems by (cases "queue_op queue_add a st") simp_all
  have "\<not> (completes (pend @ p) \<and> length q = QUEUE_CAPACITY)" if "a = Add t p" for t p
    using st'(1) unfolding st that by (rule queue_op_full)
  then show ?case
    using Cons.IH [OF st'(2)] st'(1) unfolding st by (cases a) auto
qed simp
section \<open>Streams of frames\<close>

text \<open>A frame on the wire, and what the reader is to see of it.\<close>

type_synonym sent_frame = "SimpleHeader \<times> bytes"

definition wire_frame :: "sent_frame \<Rightarrow> bytes" where
  "wire_frame f = SimpleHeader_bytes (fst f) @ snd f"

definition wf_frame :: "sent_frame \<Rightarrow> bool" where
  "wf_frame f \<longleftrightarrow> unat (ntohl (sh_size (fst f))) = sizeof_SimpleHeader + length (snd f)"

type_synonym payload = "u32 \<times> u32 \<times> u32 \<times> bool \<times> bool \<times> bytes"

definition sent_payload :: "sent_frame \<Rightarrow> payload" where
  "sent_payload f =
     (let h = fst f in
      (ntohl (sh_frame_id h), ntohl (sh_rtp_sample_timestamp h), ntohl (sh_rtp_pose_timestamp h),
       sh_flags h AND END_OF_STREAM = END_OF_STREAM, sh_flags h AND SAVE_FRAME = SAVE_FRAME, snd f))"

definition received_payload :: "frame_data \<Rightarrow> payload" where
  "received_payload f =
     (out_frame_id f, out_rtp_timestamp f, out_rtp_pose_timestamp f, out_end_of_stream f,
      out_save_frame f, take (unat (out_frame_size f)) (out_frame_data f))"

lemma header_size_wire: "header_size (wire_frame f @ rest) = ntohl (sh_size (fst f))"
  by (simp add: header_size_def wire_frame_def)

lemma length_wire_frame: "wf_frame f \<Longrightarrow> length (wire_frame f) = unat (ntohl (sh_size (fst f)))"
  by (simp add: wf_frame_def wire_frame_def sizeof_SimpleHeader_def)

lemma received_payload_reads:
  assumes "reads f tf" "snd tf = wire_frame g" "wf_frame g"
  shows "received_payload f = sent_payload g"
proof -
  have hdr: "SimpleHeader_of (snd tf) = fst g" "sizeof_SimpleHeader \<le> length (snd tf)"
      "drop sizeof_SimpleHeader (snd tf) = snd g"
    by (simp_all add: assms(2) wire_frame_def sizeof_SimpleHeader_def)
  have r: "take (unat (out_frame_size f)) (out_frame_data f) = snd g"
      "out_frame_id f = ntohl (sh_frame_id (fst g))" "out_rtp_timestamp f = ntohl (sh_rtp_sample_timestamp (fst g))"
      "out_rtp_pose_timestamp f = ntohl (sh_rtp_pose_timestamp (fst g))"
      "out_end_of_stream f = (sh_flags (fst g) AND END_OF_STREAM = END_OF_STREAM)"
      "out_save_frame f = (sh_flags (fst g) AND SAVE_FRAME = SAVE_FRAME)"
    using assms(1) hdr(2) unfolding reads_def Let_def hdr(1,3) by blast+
  show ?thesis
    by (simp add: received_payload_def sent_payload_def Let_def r)
qed

lemma payloads_of_reads:
  assumes "list_all2 reads xs tfs" "map snd tfs = map wire_frame gs" "list_all wf_frame gs"
  shows "map received_payload xs = map sent_payload gs"
proof -
  have "list_all2 (=) (map snd tfs) (map wire_frame gs)"
    by (simp only: assms(2) list.rel_eq)
  then have "list_all2 (\<lambda>tf g. snd tf = wire_frame g) tfs gs"
    by (simp only: list.rel_map)
  with assms(1) have "list_all2 (\<lambda>f g. \<exists>tf. reads f tf \<and> snd tf = wire_frame g) xs gs"
    by (rule list_all2_trans [rotated]) blast
  then have "list_all2 (\<lambda>f g. received_payload f = sent_payload g) xs gs"
    using assms(3) by (auto simp: list_all2_conv_all_nth list_all_length dest!: received_payload_reads)
  then have "list_all2 (=) (map received_payload xs) (map sent_payload gs)"
    by (simp only: list.rel_map)
  then show ?thesis
    by (simp only: list.rel_eq)
qed

abbreviation frame_length :: "sent_frame \<Rightarrow> nat" where
  "frame_length f \<equiv> length (wire_frame f)"

abbreviation stream :: "sent_frame list \<Rightarrow> bytes" where
  "stream fs \<equiv> concat (map wire_frame fs)"

text \<open>
  How many frames packets of the lengths \<open>ps\<close> complete when \<open>n\<close> bytes of the first one are there: a
  packet that reaches the end of the frame completes it, and no other one.
\<close>

fun completed :: "nat list \<Rightarrow> nat \<Rightarrow> nat list \<Rightarrow> nat" where
  "completed ls n [] = 0"
| "completed [] n (p # ps) = 0"
| "completed (l # ls) n (p # ps) =
     (if n + p < l then completed (l # ls) (n + p) ps else Suc (completed ls (n + p - l) ps))"

text \<open>Packets that are no longer than any frame complete all frames whose bytes they carry.\<close>

lemma completed_all:
  assumes "\<forall>l \<in> set ls. \<forall>p \<in> set ps. p \<le> l" "n + sum_list ps = sum_list ls" "\<forall>l \<in> set ls. 0 < l"
    and "ls \<noteq> [] \<longrightarrow> n < hd ls"
  shows "completed ls n ps = length ls"
  using assms
proof (induction ls n ps rule: completed.induct)
  case (1 ls n)
  then show ?case by (cases ls) auto
next
  case (3 l ls n p ps)
  have "n + p - l < hd ls" if "ls \<noteq> []" "\<not> n + p < l"
    using 3(3,6) that by (cases ls) force+
  then show ?case using 3 by auto
qed simp

lemma data_of_stream:
  assumes "list_all wf_frame fs" "prefix data (stream fs)"
  shows "(\<not> completes data \<and> (case fs of [] \<Rightarrow> True | f # _ \<Rightarrow> length data < frame_length f))
    \<or> (\<exists>f fs' rest. fs = f # fs' \<and> data = wire_frame f @ rest \<and> prefix rest (stream fs')
        \<and> completes data \<and> unat (header_size data) = frame_length f)"
proof (cases fs)
  case Nil
  then show ?thesis
    using assms(2) by (simp add: completes_def sizeof_SimpleHeader_def)
next
  case (Cons f fs')
  obtain zs where zs: "wire_frame f @ stream fs' = data @ zs"
    using assms(2) Cons by (auto simp: prefix_def)
  have len: "frame_length f = unat (ntohl (sh_size (fst f)))" "sizeof_SimpleHeader \<le> frame_length f"
    using assms(1) Cons by (simp_all add: length_wire_frame wf_frame_def)
  have size: "unat (header_size data) = frame_length f" if "sizeof_SimpleHeader \<le> length data"
    using header_size_append [OF that, of zs] header_size_wire [of f "stream fs'"] zs len(1) by simp
  show ?thesis
  proof (cases "frame_length f \<le> length data")
    case True
    then have "completes data" "unat (header_size data) = frame_length f"
      using size len(2) by (simp_all add: completes_def)
    moreover obtain rest where "data = wire_frame f @ rest" "stream fs' = rest @ zs"
      using zs True by (auto simp: append_eq_append_conv2)
    ultimately show ?thesis using Cons by auto
  next
    case False
    then have "\<not> completes data"
      using size by (auto simp: completes_def)
    with False Cons show ?thesis by simp
  qed
qed

lemma all_completed:
  assumes "list_all wf_frame fs" "concat ps = stream fs" "\<forall>f \<in> set fs. \<forall>p \<in> set ps. length p \<le> frame_length f"
  shows "completed (map frame_length fs) 0 (map length ps) = length fs"
proof -
  have pos: "0 < frame_length f" for f
    by (simp add: wire_frame_def)
  have "sum_list (map length ps) = sum_list (map frame_length fs)"
    using arg_cong [OF assms(2), of length] by (simp add: length_concat comp_def)
  then show ?thesis
    using completed_all [of "map frame_length fs" "map length ps" 0] assms(3) pos by (cases fs) auto
qed

lemma wire_frame_completes:
  "wf_frame f \<Longrightarrow> completes (wire_frame f) \<and> unat (header_size (wire_frame f)) = frame_length f"
  using data_of_stream [of "[f]" "wire_frame f"] by simp

text \<open>The frames that were completed are those read and those still in the queue, in order.\<close>

definition waiting :: "timed_frame list \<Rightarrow> bool \<Rightarrow> timed_frame list" where
  "waiting q held = (if held then tl q else q)"

lemma stream_run:
  assumes "queue_run queue_add ops ((q, held, pend), out) = Some ((q', held', pend'), out')"
    and "list_all wf_frame todo" "prefix (pend @ concat (packets ops)) (stream todo)"
    and "held \<longrightarrow> q \<noteq> []" "map snd (out @ waiting q held) = map wire_frame past"
  shows "map snd (out' @ waiting q' held')
      = map wire_frame (past @ take (completed (map frame_length todo) (length pend) (map length (packets ops))) todo)
    \<and> (held' \<longrightarrow> q' \<noteq> [])"
  using assms
proof (induction ops arbitrary: q held pend out todo past)
  case (Cons a ops)
  show ?case
  proof (cases a)
    case Reader
    have "\<exists>q1 held1 out1. queue_op queue_add a ((q, held, pend), out) = Some ((q1, held1, pend), out1)
        \<and> (held1 \<longrightarrow> q1 \<noteq> []) \<and> out1 @ waiting q1 held1 = out @ waiting q held"
      using Cons.prems(4) unfolding Reader by (cases held; cases q) (auto simp: queue_op_def waiting_def)
    then obtain q1 held1 out1 where one: "queue_op queue_add a ((q, held, pend), out) = Some ((q1, held1, pend), out1)"
        "held1 \<longrightarrow> q1 \<noteq> []" "out1 @ waiting q1 held1 = out @ waiting q held"
      by blast
    then show ?thesis
      using Cons.IH [of q1 held1 pend out1 todo past] Cons.prems Reader by simp
  next
    case (Add t p)
    have "prefix (pend @ p) (stream todo)"
      using Cons.prems(3) unfolding Add by (metis append.assoc append_prefixD concat.simps(2) packets.simps(2))
    then consider
        (wait) "\<not> completes (pend @ p)" "case todo of [] \<Rightarrow> True | f # _ \<Rightarrow> length (pend @ p) < frame_length f"
      | (frame) f todo' rest where "todo = f # todo'" "pend @ p = wire_frame f @ rest" "completes (pend @ p)"
          "unat (header_size (pend @ p)) = frame_length f"
      using data_of_stream [OF Cons.prems(2), of "pend @ p"] by blast
    then show ?thesis
    proof cases
      case wait
      then have "queue_op queue_add a ((q, held, pend), out) = Some ((q, held, pend @ p), out)"
        unfolding Add by (simp add: queue_op_def queue_add_def Let_def)
      then have "queue_run queue_add ops ((q, held, pend @ p), out) = Some ((q', held', pend'), out')"
        using Cons.prems(1) by simp
      from Cons.IH [OF this Cons.prems(2) _ Cons.prems(4,5)] Cons.prems(3) wait(2) show ?thesis
        unfolding Add by (cases todo; cases "packets ops") simp_all
    next
      case frame
      have one: "queue_op queue_add a ((q, held, pend), out)
          = (if length q < QUEUE_CAPACITY then Some ((q @ [(t, wire_frame f)], held, rest), out) else None)"
        using frame(2-4) unfolding Add by (simp add: queue_op_def queue_add_def Let_def)
      then have run: "queue_run queue_add ops ((q @ [(t, wire_frame f)], held, rest), out) = Some ((q', held', pend'), out')"
        using Cons.prems(1) by (simp split: if_splits)
      have "map snd (out @ waiting (q @ [(t, wire_frame f)]) held) = map wire_frame (past @ [f])"
        using Cons.prems(4,5) by (cases q) (auto simp: waiting_def)
      moreover have "prefix (rest @ concat (packets ops)) (stream todo')"
      proof -
        have "prefix ((pend @ p) @ concat (packets ops)) (stream todo)"
          using Cons.prems(3) Add by simp
        then show ?thesis unfolding frame(1,2) by simp
      qed
      moreover have "length pend + length p - frame_length f = length rest" "\<not> length pend + length p < frame_length f"
        using arg_cong [OF frame(2), of length] by simp_all
      ultimately show ?thesis
        using Cons.IH [OF run, of todo' "past @ [f]"] Cons.prems(2) frame(1) unfolding Add by simp
    qed
  qed
qed simp

text \<open>A reader that goes on reading empties the queue.\<close>

lemma drain:
  assumes "2 * length q \<le> (if held then Suc n else n)" "held \<longrightarrow> q \<noteq> []"
  shows "queue_run add (replicate n Reader) ((q, held, pend), out) = Some (([], False, pend), out @ waiting q held)"
  using assms
proof (induction n arbitrary: q held out)
  case (Suc n)
  show ?case
  proof (cases held)
    case True
    then show ?thesis
      using Suc.IH [of "tl q" False out] Suc.prems by (simp add: queue_op_def waiting_def)
  next
    case False
    then show ?thesis
      using Suc.IH [of q True "out @ [hd q]"] Suc.IH [of "[]" False out] Suc.prems
      by (cases q) (simp_all add: queue_op_def waiting_def)
  qed
next
  case 0
  then show ?case by (cases q) (auto simp: waiting_def split: if_splits)
qed

lemma queue_run_append:
  "queue_run add (as @ bs) st = (case queue_run add as st of None \<Rightarrow> None | Some st' \<Rightarrow> queue_run add bs st')"
  by (induction as arbitrary: st) (simp_all split: option.split)

lemma queue_run_capacity:
  "queue_run queue_add ops ((q, held, pend), out) = Some ((q', held', pend'), out') \<Longrightarrow>
     length q \<le> QUEUE_CAPACITY \<Longrightarrow> length q' \<le> QUEUE_CAPACITY"
proof (induction ops arbitrary: q held pend out)
  case (Cons a ops)
  then obtain q1 held1 pend1 out1 where
    "queue_op queue_add a ((q, held, pend), out) = Some ((q1, held1, pend1), out1)"
    "queue_run queue_add ops ((q1, held1, pend1), out1) = Some ((q', held', pend'), out')"
    by (auto split: option.splits)
  with Cons.IH queue_op_capacity Cons.prems(2) show ?case by blast
qed simp

text \<open>Whatever the reader does, the ring gives only frames of the stream, in order and none twice.\<close>

lemma subseq_map: "subseq xs ys \<Longrightarrow> subseq (map f xs) (map f ys)"
  by (induction rule: list_emb.induct) auto

lemma ring_run_subseq:
  assumes "queue_run ring_add ops ((q, held, pend), out) = Some ((q', held', pend'), out')"
    and "list_all wf_frame todo" "prefix (pend @ concat (packets ops)) (stream todo)"
    and "held \<longrightarrow> q \<noteq> []" "subseq (map snd (out @ waiting q held)) past"
  shows "subseq (map snd out') (past @ map wire_frame todo)"
  using assms
proof (induction ops arbitrary: q held pend out todo past)
  case Nil
  have "subseq (map snd out) (map snd (out @ waiting q held))"
    by (simp add: prefix_imp_subseq)
  then have "subseq (map snd out) past"
    using Nil.prems(5) by (rule subseq_order.order_trans)
  with Nil.prems(1) show ?case by auto
next
  case (Cons a ops)
  show ?case
  proof (cases a)
    case Reader
    have "\<exists>q1 held1 out1. queue_op ring_add a ((q, held, pend), out) = Some ((q1, held1, pend), out1)
        \<and> (held1 \<longrightarrow> q1 \<noteq> []) \<and> out1 @ waiting q1 held1 = out @ waiting q held"
      using Cons.prems(4) unfolding Reader by (cases held; cases q) (auto simp: queue_op_def waiting_def)
    then obtain q1 held1 out1 where one: "queue_op ring_add a ((q, held, pend), out) = Some ((q1, held1, pend), out1)"
        "held1 \<longrightarrow> q1 \<noteq> []" "out1 @ waiting q1 held1 = out @ waiting q held"
      by blast
    then show ?thesis
      using Cons.IH [of q1 held1 pend out1 todo past] Cons.prems Reader by simp
  next
    case (Add t p)
    have "prefix (pend @ p) (stream todo)"
      using Cons.prems(3) unfolding Add by (metis append.assoc append_prefixD concat.simps(2) packets.simps(2))
    then consider
        (wait) "\<not> completes (pend @ p)"
      | (frame) f todo' rest where "todo = f # todo'" "pend @ p = wire_frame f @ rest" "completes (pend @ p)"
          "unat (header_size (pend @ p)) = frame_length f"
      using data_of_stream [OF Cons.prems(2), of "pend @ p"] by blast
    then show ?thesis
    proof cases
      case wait
      then have "queue_op ring_add a ((q, held, pend), out) = Some ((q, held, pend @ p), out)"
        unfolding Add by (simp add: queue_op_def ring_add_def Let_def)
      then have "queue_run ring_add ops ((q, held, pend @ p), out) = Some ((q', held', pend'), out')"
        using Cons.prems(1) by simp
      from Cons.IH [OF this Cons.prems(2) _ Cons.prems(4,5)] Cons.prems(3) show ?thesis
        unfolding Add by simp
    next
      case frame
      define q1 where "q1 = (if length q < QUEUE_CAPACITY then q else tl q) @ [(t, wire_frame f)]"
      have "queue_op ring_add a ((q, held, pend), out)
          = (if length q < QUEUE_CAPACITY \<or> \<not> held then Some ((q1, held, rest), out) else None)"
        using frame(2-4) unfolding Add q1_def by (simp add: queue_op_def ring_add_def Let_def)
      then have run: "queue_run ring_add ops ((q1, held, rest), out) = Some ((q', held', pend'), out')"
          "length q < QUEUE_CAPACITY \<or> \<not> held"
        using Cons.prems(1) by (simp_all split: if_splits)
      have "subseq (map snd (waiting q1 held)) (map snd (waiting q held) @ [wire_frame f])"
        using run(2) Cons.prems(4) by (cases q) (auto simp: q1_def waiting_def)
      from list_emb_append_mono [OF subseq_order.order_refl this, of "map snd out"]
      have "subseq (map snd (out @ waiting q1 held)) (map snd (out @ waiting q held) @ [wire_frame f])"
        by simp
      then have "subseq (map snd (out @ waiting q1 held)) (past @ [wire_frame f])"
        by (rule subseq_order.order_trans) (rule list_emb_append_mono [OF Cons.prems(5) subseq_order.order_refl])
      moreover have "prefix (rest @ concat (packets ops)) (stream todo')"
      proof -
        have "prefix ((pend @ p) @ concat (packets ops)) (stream todo)"
          using Cons.prems(3) Add by simp
        then show ?thesis unfolding frame(1,2) by simp
      qed
      ultimately show ?thesis
        using Cons.IH [OF run(1), of todo' "past @ [wire_frame f]"] Cons.prems(2) frame(1)
        by (simp add: q1_def)
    qed
  qed
qed

lemma subseq_of_map: "subseq xs (map f ys) \<Longrightarrow> \<exists>zs. subseq zs ys \<and> xs = map f zs"
proof (induction ys arbitrary: xs)
  case (Cons y ys)
  show ?case
  proof (cases "subseq xs (map f ys)")
    case True
    then show ?thesis using Cons.IH by (meson list_emb_Cons)
  next
    case False
    then obtain xs' where "xs = f y # xs'" "subseq xs' (map f ys)"
      using Cons.prems by (cases xs) (auto split: if_splits)
    then show ?thesis using Cons.IH by (metis list.simps(9) subseq_Cons2)
  qed
next
  case Nil
  then show ?case by (cases xs) auto
qed

lemma frames_read_were_sent:
  assumes "list_all wf_frame fs" "prefix (concat (packets ops)) (stream fs)"
    and "run_ops ops start = Inr (Some (s, held, out))"
  shows "subseq (map received_payload out) (map sent_payload fs)"
proof -
  obtain st' where "queue_run ring_add ops empty_queue = Some st'" "represents (s, held, out) st'"
    using run_ops_refines [OF represents_start, of ops] assms(3)
    by (cases "queue_run ring_add ops empty_queue") auto
  then obtain q pend tout where run: "queue_run ring_add ops empty_queue = Some ((q, held, pend), tout)"
      "list_all2 reads out tout"
    by (cases st') (auto simp: represents_def)
  have "subseq (map snd tout) (map wire_frame fs)"
    using ring_run_subseq [OF run(1) [unfolded empty_queue_def] assms(1), of "[]"] assms(2)
    by (simp add: waiting_def)
  then obtain gs where gs: "subseq gs fs" "map snd tout = map wire_frame gs"
    using subseq_of_map by blast
  have "list_all wf_frame gs"
    using gs(1) assms(1) by (auto simp: list_all_iff dest: list_emb_set)
  from payloads_of_reads [OF run(2) gs(2) this] show ?thesis
    using gs(1) by (simp add: subseq_map)
qed

text \<open>The reader keeps up: no packet has to wait for it.\<close>

definition keeps_up :: "thread_op list \<Rightarrow> bool" where
  "keeps_up ops \<longleftrightarrow> queue_run queue_add ops empty_queue \<noteq> None"

lemma keeps_up_few:
  assumes "length (packets ops) \<le> QUEUE_CAPACITY"
  shows "keeps_up ops"
proof -
  have "queue_run queue_add ops ((q, held, pend), out) \<noteq> None"
    if "length q + length (packets ops) \<le> QUEUE_CAPACITY" for q held pend out
    using that
  proof (induction ops arbitrary: q held pend out)
    case (Cons a ops)
    then show ?case
      by (cases a) (auto simp: queue_op_def queue_add_def Let_def split: list.splits)
  qed simp
  with assms show ?thesis
    by (simp add: keeps_up_def empty_queue_def)
qed

text \<open>Enough calls of the reader to take nine frames and release them.\<close>

definition drain_ops :: "thread_op list" where
  "drain_ops = replicate (2 * QUEUE_CAPACITY) Reader"

lemma frames_come_out:
  assumes "list_all wf_frame fs" "prefix (concat (packets ops)) (stream fs)" "keeps_up ops"
  shows "\<exists>s held out. run_ops (ops @ drain_ops) start = Inr (Some (s, held, out))
     \<and> map received_payload out
         = map sent_payload (take (completed (map frame_length fs) 0 (map length (packets ops))) fs)"
proof -
  obtain q held pend out where run: "queue_run queue_add ops empty_queue = Some ((q, held, pend), out)"
    using assms(3) by (auto simp: keeps_up_def)
  define got where "got = take (completed (map frame_length fs) 0 (map length (packets ops))) fs"
  have frames: "map snd (out @ waiting q held) = map wire_frame got" "held \<longrightarrow> q \<noteq> []"
    using stream_run [OF run [unfolded empty_queue_def] assms(1), of "[]"] assms(2)
    by (simp_all add: waiting_def got_def)
  have "length q \<le> QUEUE_CAPACITY"
    using queue_run_capacity [OF run [unfolded empty_queue_def]] by simp
  then have "queue_run queue_add (ops @ drain_ops) empty_queue = Some (([], False, pend), out @ waiting q held)"
    using drain [of q held "2 * QUEUE_CAPACITY"] frames(2)
    by (simp add: queue_run_append run drain_ops_def)
  moreover from this have "queue_run ring_add (ops @ drain_ops) empty_queue = queue_run queue_add (ops @ drain_ops) empty_queue"
    by (intro same_without_overrun no_wait_no_overrun) (simp_all add: empty_queue_def)
  ultimately obtain st where st: "run_ops (ops @ drain_ops) start = Inr (Some st)"
      "represents st (([], False, pend), out @ waiting q held)"
    using run_ops_refines [OF represents_start, of "ops @ drain_ops"] by auto
  obtain s h xs where xs: "st = (s, h, xs)" "list_all2 reads xs (out @ waiting q held)"
    using st(2) by (cases st) (auto simp: represents_def)
  have "list_all wf_frame got"
    using assms(1) by (auto simp: got_def list_all_iff dest: in_set_takeD)
  then have "map received_payload xs = map sent_payload got"
    by (rule payloads_of_reads [OF xs(2) frames(1)])
  with st(1) xs(1) show ?thesis
    unfolding got_def by blast
qed

section \<open>Properties\<close>

text \<open>C2: whatever bytes arrive, in whatever pieces and interleaved in whatever way with a reader that
  receives a frame, holds it and releases it, the depacketizer is the documented queue of nine frames:
  the frames are read in the order in which they were completed, and a frame that finds nine others
  while the first is being read waits until it is released. Left out are the runs in which a frame
  finds nine others and none of them is being read.\<close>

theorem depacketizer_refines_queue:
  assumes "\<not> overrun ops empty_queue"
  shows "case queue_run queue_add ops empty_queue of
      None \<Rightarrow> run_ops ops start = Inr None
    | Some ((q, held, pend), tout) \<Rightarrow>
        \<exists>s out. run_ops ops start = Inr (Some (s, held, out)) \<and> list_all2 reads out tout"
proof -
  have "queue_run ring_add ops empty_queue = queue_run queue_add ops empty_queue"
    using assms by (intro same_without_overrun) (simp_all add: empty_queue_def)
  then show ?thesis
    using run_ops_refines [OF represents_start, of ops]
    by (fastforce simp: represents_def split: option.splits)
qed

definition example_frame :: sent_frame where
  "example_frame = (\<lparr>sh_size = htonl 22, sh_rtp_sample_timestamp = htonl 9, sh_rtp_pose_timestamp = htonl 8,
     sh_frame_id = htonl 7, sh_flags = END_OF_FRAME, sh_padding = (0, 0, 0)\<rparr>, [1, 2])"

definition example_ops :: "thread_op list" where
  "example_ops = [Add 5 (take 21 (wire_frame example_frame)), Reader, Add 6 [2], Reader, Add 7 [], Reader]"

lemma example_run:
  "keeps_up example_ops" "wf_frame example_frame" "frame_length example_frame = 22"
  "prefix (concat (packets example_ops)) (stream [example_frame])"
  by (rule keeps_up_few)
    (simp_all add: example_ops_def QUEUE_CAPACITY_def wf_frame_def example_frame_def sizeof_SimpleHeader_def
      wire_frame_def)

theorem depacketizer_refines_queue_witness:
  "\<exists>s held out. run_ops example_ops start = Inr (Some (s, held, out))"
  using depacketizer_refines_queue [OF no_wait_no_overrun [OF example_run(1) [unfolded keeps_up_def]]]
    example_run(1) by (fastforce simp: keeps_up_def split: option.splits)

text \<open>C24: frames over TCP come out. When the bytes received are a prefix of well-formed frames, cut into
  packets anywhere, and the reader keeps up, then after its next calls it has got exactly the frames
  that the packets completed: each of them once, in order, with its data, identifier, timestamps and
  flags. A packet completes the frame whose end it reaches; when all bytes have arrived and no packet
  is longer than a frame, these are all the frames.\<close>

theorem tcp_frames_delivered:
  assumes "list_all wf_frame fs" "prefix (concat (packets ops)) (stream fs)" "keeps_up ops"
  shows "\<exists>s held out. run_ops (ops @ drain_ops) start = Inr (Some (s, held, out))
     \<and> map received_payload out
         = map sent_payload (take (completed (map frame_length fs) 0 (map length (packets ops))) fs)
     \<and> (concat (packets ops) = stream fs \<and> (\<forall>f \<in> set fs. \<forall>p \<in> set (packets ops). length p \<le> frame_length f)
          \<longrightarrow> map received_payload out = map sent_payload fs)"
  using frames_come_out [OF assms] all_completed [OF assms(1), of "packets ops"] by force

theorem tcp_frames_delivered_witness:
  "\<exists>s held out. run_ops (example_ops @ drain_ops) start = Inr (Some (s, held, out))
     \<and> map received_payload out = [(7, 9, 8, False, False, [1, 2])]"
proof -
  have "completed (map frame_length [example_frame]) 0 (map length (packets example_ops)) = 1"
    by (simp add: example_run(3)) (simp add: example_ops_def example_run(3))
  moreover have "sent_payload example_frame = (7, 9, 8, False, False, [1, 2])"
    by (simp add: sent_payload_def example_frame_def Let_def END_OF_FRAME_def END_OF_STREAM_def SAVE_FRAME_def)
  ultimately show ?thesis
    using tcp_frames_delivered [of "[example_frame]" example_ops] example_run by fastforce
qed

text \<open>One packet completes at most one frame. Two frames arriving in one packet leave the second one
  waiting in the buffer, complete but not readable, until another packet comes in, even an empty one.\<close>

theorem second_frame_waits:
  assumes "wf_frame f1" "wf_frame f2"
  shows "\<exists>s held out. run_ops ([Add t1 (wire_frame f1 @ wire_frame f2)] @ drain_ops) start = Inr (Some (s, held, out))
        \<and> map received_payload out = [sent_payload f1]"
    and "\<exists>s held out. run_ops ([Add t1 (wire_frame f1 @ wire_frame f2), Add t2 []] @ drain_ops) start
          = Inr (Some (s, held, out))
        \<and> map received_payload out = [sent_payload f1, sent_payload f2]"
proof -
  have "0 < frame_length f2"
    by (simp add: wire_frame_def)
  then have n: "completed (map frame_length [f1, f2]) 0 (map length (packets [Add t1 (wire_frame f1 @ wire_frame f2)])) = 1"
      "completed (map frame_length [f1, f2]) 0 (map length (packets [Add t1 (wire_frame f1 @ wire_frame f2), Add t2 []])) = 2"
    by simp_all
  have few: "keeps_up [Add t1 (wire_frame f1 @ wire_frame f2)]"
      "keeps_up [Add t1 (wire_frame f1 @ wire_frame f2), Add t2 []]"
    by (rule keeps_up_few, simp add: QUEUE_CAPACITY_def)+
  show "\<exists>s held out. run_ops ([Add t1 (wire_frame f1 @ wire_frame f2)] @ drain_ops) start = Inr (Some (s, held, out))
        \<and> map received_payload out = [sent_payload f1]"
    using frames_come_out [OF _ _ few(1), of "[f1, f2]"] assms unfolding n by simp
  show "\<exists>s held out. run_ops ([Add t1 (wire_frame f1 @ wire_frame f2), Add t2 []] @ drain_ops) start
          = Inr (Some (s, held, out))
        \<and> map received_payload out = [sent_payload f1, sent_payload f2]"
    using frames_come_out [OF _ _ few(2), of "[f1, f2]"] assms unfolding n by simp
qed

text \<open>A full ring of which no frame is being read loses its oldest frame: of ten frames that arrive
  before the first is received, the first never comes out.\<close>

lemma ring_run_adds:
  "length q + length fs \<le> QUEUE_CAPACITY \<Longrightarrow> list_all wf_frame fs \<Longrightarrow>
     queue_run ring_add (map (\<lambda>f. Add t (wire_frame f)) fs) ((q, False, []), [])
       = Some ((q @ map (\<lambda>f. (t, wire_frame f)) fs, False, []), [])"
proof (induction fs arbitrary: q)
  case (Cons f fs)
  then have "queue_op ring_add (Add t (wire_frame f)) ((q, False, []), []) = Some ((q @ [(t, wire_frame f)], False, []), [])"
    using wire_frame_completes [of f] by (simp add: queue_op_def ring_add_def Let_def)
  with Cons show ?case by simp
qed simp

theorem full_ring_drops_oldest:
  assumes "list_all wf_frame (f # fs)" "length fs = QUEUE_CAPACITY"
  shows "\<exists>s held out. run_ops (map (\<lambda>f. Add t (wire_frame f)) (f # fs) @ drain_ops) start = Inr (Some (s, held, out))
     \<and> map received_payload out = map sent_payload fs"
proof -
  obtain fs' g where g: "fs = fs' @ [g]" "length fs' = 8"
    using assms(2) by (cases fs rule: rev_cases) (auto simp: QUEUE_CAPACITY_def)
  have nine: "queue_run ring_add (map (\<lambda>f. Add t (wire_frame f)) (f # fs')) empty_queue
      = Some ((map (\<lambda>f. (t, wire_frame f)) (f # fs'), False, []), [])"
    using ring_run_adds [of "[]" "f # fs'"] assms(1) g by (simp add: empty_queue_def QUEUE_CAPACITY_def)
  have "queue_op ring_add (Add t (wire_frame g)) ((map (\<lambda>f. (t, wire_frame f)) (f # fs'), False, []), [])
      = Some ((map (\<lambda>f. (t, wire_frame f)) fs, False, []), [])"
    using wire_frame_completes [of g] assms(1) g
    by (simp add: queue_op_def ring_add_def Let_def QUEUE_CAPACITY_def)
  moreover have ops: "map (\<lambda>f. Add t (wire_frame f)) (f # fs)
      = map (\<lambda>f. Add t (wire_frame f)) (f # fs') @ [Add t (wire_frame g)]"
    by (simp add: g(1))
  ultimately have run: "queue_run ring_add (map (\<lambda>f. Add t (wire_frame f)) (f # fs)) empty_queue
      = Some ((map (\<lambda>f. (t, wire_frame f)) fs, False, []), [])"
    using nine unfolding ops by (simp only: queue_run_append option.case queue_run.simps)
  have "queue_run ring_add drain_ops ((map (\<lambda>f. (t, wire_frame f)) fs, False, []), [])
      = Some (([], False, []), map (\<lambda>f. (t, wire_frame f)) fs)"
    using drain [of "map (\<lambda>f. (t, wire_frame f)) fs" False "2 * QUEUE_CAPACITY"] assms(2)
    by (simp add: waiting_def drain_ops_def)
  then have "queue_run ring_add (map (\<lambda>f. Add t (wire_frame f)) (f # fs) @ drain_ops) empty_queue
      = Some (([], False, []), map (\<lambda>f. (t, wire_frame f)) fs)"
    by (simp only: queue_run_append run option.case)
  then obtain st where st: "run_ops (map (\<lambda>f. Add t (wire_frame f)) (f # fs) @ drain_ops) start = Inr (Some st)"
      "represents st (([], False, []), map (\<lambda>f. (t, wire_frame f)) fs)"
    using run_ops_refines [OF represents_start, of "map (\<lambda>f. Add t (wire_frame f)) (f # fs) @ drain_ops"] by auto
  obtain s h xs where xs: "st = (s, h, xs)" "list_all2 reads xs (map (\<lambda>f. (t, wire_frame f)) fs)"
    using st(2) by (cases st) (auto simp: represents_def)
  have "map received_payload xs = map sent_payload fs"
    using payloads_of_reads [OF xs(2), of fs] assms(1) by (simp add: comp_def)
  with st(1) xs(1) show ?thesis by blast
qed

theorem full_ring_drops_oldest_witness:
  "\<exists>s held out. run_ops (replicate 10 (Add 0 (wire_frame example_frame)) @ drain_ops) start = Inr (Some (s, held, out))
     \<and> length out = 9"
proof -
  have "map (\<lambda>f. Add 0 (wire_frame f)) (example_frame # replicate 9 example_frame)
      = replicate 10 (Add 0 (wire_frame example_frame))"
    using replicate_Suc [of 9 "Add 0 (wire_frame example_frame)"] by simp
  moreover have "list_all wf_frame (example_frame # replicate 9 example_frame)"
    using example_run(2) by (simp only: list_all_iff) auto
  ultimately obtain s held out where
    "run_ops (replicate 10 (Add 0 (wire_frame example_frame)) @ drain_ops) start = Inr (Some (s, held, out))"
    "map received_payload out = map sent_payload (replicate 9 example_frame)"
    using full_ring_drops_oldest [of example_frame "replicate 9 example_frame" 0]
    by (metis QUEUE_CAPACITY_def length_replicate)
  then show ?thesis
    by (metis length_map length_replicate)
qed

end
