(* ===== verification/Sockets.thy ===== *)
theory Sockets
  imports Buckets NetworkUtils
begin

text \<open>
  \<open>common/src/socket_posix.cpp\<close>: the non-blocking TCP and UDP sockets. The results of the system
  calls are arguments, in the order of the calls; an error carries its \<open>errno\<close>. The measurement bucket
  is shared by the sockets of a connection, so its current state (\<open>None\<close> for a null pointer) is passed
  in and out.
\<close>

section \<open>System call results\<close>

type_synonym errno = nat

datatype 'a sys = Done 'a | Error errno

fun is_error :: "'a sys \<Rightarrow> bool" where
  "is_error (Error _) = True"
| "is_error (Done _) = False"

text \<open>The Linux numbers; \<open>EAGAIN\<close> and \<open>EWOULDBLOCK\<close> are the same one.\<close>

definition EAGAIN :: errno where "EAGAIN = 11"
definition EWOULDBLOCK :: errno where "EWOULDBLOCK = 11"
definition EADDRINUSE :: errno where "EADDRINUSE = 98"
definition ECONNRESET :: errno where "ECONNRESET = 104"
definition EISCONN :: errno where "EISCONN = 106"
definition ETIMEDOUT :: errno where "ETIMEDOUT = 110"
definition EALREADY :: errno where "EALREADY = 114"
definition EINPROGRESS :: errno where "EINPROGRESS = 115"

lemmas errno_defs = EAGAIN_def EWOULDBLOCK_def EADDRINUSE_def ECONNRESET_def EISCONN_def
  ETIMEDOUT_def EALREADY_def EINPROGRESS_def

section \<open>TCP sockets\<close>

datatype TCPSocketState = NOT_STARTED | LISTENING | CONNECTING | CONNECTED | CLOSED

text \<open>\<open>INVALID_SOCKET\<close> is \<open>None\<close>; an unregistered storage id is \<open>-1\<close>.\<close>

record TCPSocket =
  tcp_socket :: "nat option"
  tcp_state :: TCPSocketState
  tcp_local_addr :: SocketAddr
  tcp_peer_addr :: SocketAddr
  tcp_measurement_storage_id :: int

type_synonym bucket = "SocketMeasurementBucket option"

text \<open>The calls of the constructor; the address is the one that \<open>getsockname\<close> reports.\<close>

record socket_calls =
  call_socket :: "nat sys"
  call_setsockopt_reuse :: "unit sys"
  call_setsockopt_broadcast :: "unit sys"
  call_fcntl_get :: "unit sys"
  call_fcntl_set :: "unit sys"
  call_bind :: "unit sys"
  call_getsockname :: "SocketAddr sys"

definition register_if :: "bucket \<Rightarrow> SocketId \<Rightarrow> SocketType \<Rightarrow> int \<times> bucket" where
  "register_if b i t =
     (case b of None \<Rightarrow> (-1, None)
      | Some x \<Rightarrow> (case register_socket i t x of (sid, x') \<Rightarrow> (sint sid, Some x')))"

definition new_TCPSocket ::
    "socket_calls \<Rightarrow> bool \<Rightarrow> SocketId \<Rightarrow> bucket \<Rightarrow> (TCPSocket \<times> bucket) result" where
  "new_TCPSocket sys force_port socket_id b =
     (case call_socket sys of Error _ \<Rightarrow> Inl (RuntimeError ''Failed to create socket'')
      | Done fd \<Rightarrow>
        if force_port \<and> is_error (call_setsockopt_reuse sys)
        then Inl (RuntimeError ''Failed to set socket option'')
        else case call_fcntl_get sys of Error _ \<Rightarrow> Inl (RuntimeError ''Failed to get socket flags'')
      | Done _ \<Rightarrow>
        (case call_fcntl_set sys of Error _ \<Rightarrow> Inl (RuntimeError ''Failed to set socket flags'')
      | Done _ \<Rightarrow>
        (case call_bind sys of
           Error e \<Rightarrow> if e = EADDRINUSE then Inl (RuntimeError ''Port already in use'')
                      else Inl (RuntimeError ''Failed to bind socket'')
      | Done _ \<Rightarrow>
        (case call_getsockname sys of Error _ \<Rightarrow> Inl (RuntimeError ''Failed to get local address'')
      | Done local \<Rightarrow>
        (case register_if b socket_id SOCKET_TYPE_TCP of (sid, b') \<Rightarrow>
           Inr (\<lparr>tcp_socket = Some fd, tcp_state = NOT_STARTED, tcp_local_addr = local,
                 tcp_peer_addr = any_addr, tcp_measurement_storage_id = sid\<rparr>, b'))))))"

definition enable_server :: "unit sys \<Rightarrow> TCPSocket \<Rightarrow> TCPSocket result" where
  "enable_server listen_call s =
     (if tcp_state s = NOT_STARTED
      then case listen_call of Error _ \<Rightarrow> Inl (RuntimeError ''Failed to start listening'')
           | Done _ \<Rightarrow> Inr (s\<lparr>tcp_state := LISTENING\<rparr>)
      else Inr s)"

text \<open>The calls of one attempt to accept a client.\<close>

record accept_calls =
  call_listen :: "unit sys"
  call_accept :: "(nat \<times> SocketAddr) sys"
  call_accept_fcntl_get :: "unit sys"
  call_accept_fcntl_set :: "unit sys"
  call_accept_getsockname :: "SocketAddr sys"

text \<open>
  The accepted socket replaces the listening one before the calls that can still fail, so the state
  is returned together with the exception.
\<close>

definition tcp_listen :: "accept_calls \<Rightarrow> TCPSocket \<Rightarrow> bool result \<times> TCPSocket" where
  "tcp_listen sys s =
     (case enable_server (call_listen sys) s of Inl f \<Rightarrow> (Inl f, s)
      | Inr s1 \<Rightarrow>
        if tcp_state s1 \<noteq> LISTENING then (Inl (RuntimeError ''Socket is not listening''), s1)
        else case call_accept sys of
          Error e \<Rightarrow>
            if e \<noteq> EAGAIN \<and> e \<noteq> EWOULDBLOCK \<and> e \<noteq> ETIMEDOUT \<and> e \<noteq> EINPROGRESS
            then (Inl (RuntimeError ''Failed to accept connection''), s1) else (Inr False, s1)
        | Done (client, peer) \<Rightarrow>
            let s2 = s1\<lparr>tcp_socket := Some client\<rparr> in
            case call_accept_fcntl_get sys of
              Error _ \<Rightarrow> (Inl (RuntimeError ''Failed to get socket flags''), s2)
            | Done _ \<Rightarrow>
              (case call_accept_fcntl_set sys of
                 Error _ \<Rightarrow> (Inl (RuntimeError ''Failed to set socket flags''), s2)
               | Done _ \<Rightarrow>
                 let s3 = s2\<lparr>tcp_peer_addr := peer\<rparr> in
                 (case call_accept_getsockname sys of
                    Error _ \<Rightarrow> (Inl (RuntimeError ''Failed to get local address''), s3)
                  | Done local \<Rightarrow> (Inr True, s3\<lparr>tcp_local_addr := local, tcp_state := CONNECTED\<rparr>))))"

definition tcp_connect :: "unit sys \<Rightarrow> SocketAddr \<Rightarrow> TCPSocket \<Rightarrow> bool result \<times> TCPSocket" where
  "tcp_connect connect_call a s =
     (let s1 = (if tcp_state s = NOT_STARTED then s\<lparr>tcp_state := CONNECTING\<rparr> else s) in
      if tcp_state s1 \<noteq> CONNECTING then (Inl (RuntimeError ''Socket is not connecting''), s1)
      else
        let connected = (Inr True, s1\<lparr>tcp_state := CONNECTED, tcp_peer_addr := a\<rparr>) in
        case connect_call of
          Done _ \<Rightarrow> connected
        | Error e \<Rightarrow>
            if e = EISCONN then connected
            else if e \<noteq> EWOULDBLOCK \<and> e \<noteq> EALREADY \<and> e \<noteq> ETIMEDOUT \<and> e \<noteq> EINPROGRESS
            then (Inl (RuntimeError (''Failed to connect ('' @ string_of_nat e @ '')'')), s1)
            else (Inr False, s1))"

definition tcp_close :: "TCPSocket \<Rightarrow> TCPSocket" where
  "tcp_close s = (case tcp_socket s of None \<Rightarrow> s | Some _ \<Rightarrow> s\<lparr>tcp_socket := None, tcp_state := CLOSED\<rparr>)"

text \<open>\<open>recv\<close> with \<open>MSG_PEEK\<close>: the number of bytes seen.\<close>

definition refresh_state :: "nat sys \<Rightarrow> TCPSocket \<Rightarrow> TCPSocketState \<times> TCPSocket" where
  "refresh_state peek s =
     (let s1 = (if tcp_state s = CONNECTED
                then case peek of
                    Done n \<Rightarrow> if n = 0 then tcp_close s else s
                  | Error e \<Rightarrow> if e \<noteq> EWOULDBLOCK \<and> e \<noteq> EALREADY \<and> e \<noteq> ETIMEDOUT then tcp_close s else s
                else s)
      in (tcp_state s1, s1))"

definition tcp_is_connected :: "TCPSocket \<Rightarrow> bool" where
  "tcp_is_connected s \<longleftrightarrow> tcp_state s = CONNECTED"

section \<open>Sending\<close>

text \<open>
  Each attempt gives the time elapsed at the check of the loop (in microseconds) and the result of
  \<open>send\<close>: a call with the pointer \<open>data + sent\<close> that returns \<open>n\<close> has taken the \<open>n\<close> bytes there. The loop
  ends when everything is sent, on an error, or when the timeout has elapsed (never, for timeout 0). It
  has not ended when the attempts run out. The result is what the calls have taken, one after the other,
  and the outcome with the number of bytes sent.
\<close>

datatype send_outcome = Sent nat | TimedOut nat | SendFailed fault nat | Sending nat

fun send_loop :: "u32 \<Rightarrow> bytes \<Rightarrow> nat \<Rightarrow> (nat \<times> nat sys) list \<Rightarrow> bytes \<times> send_outcome" where
  "send_loop timeout data sent [] = ([], Sending sent)"
| "send_loop timeout data sent ((elapsed, res) # tries) =
     (if timeout \<noteq> 0 \<and> unat timeout \<le> elapsed then ([], TimedOut sent)
      else case res of
          Error e \<Rightarrow>
            if e \<noteq> EWOULDBLOCK \<and> e \<noteq> EAGAIN
            then ([], SendFailed (RuntimeError ''Failed to send message'') sent)
            else send_loop timeout data sent tries
        | Done n \<Rightarrow>
            if sent + n = length data then (take n (drop sent data), Sent (sent + n))
            else map_prod (append (take n (drop sent data))) id (send_loop timeout data (sent + n) tries))"

fun bytes_out :: "send_outcome \<Rightarrow> nat" where
  "bytes_out (Sent n) = n"
| "bytes_out (TimedOut n) = n"
| "bytes_out (SendFailed f n) = n"
| "bytes_out (Sending n) = n"

text \<open>Adding to a bucket that may not be there; the storage id is converted to unsigned.\<close>

definition bucket_update ::
    "(u32 \<Rightarrow> u32 \<Rightarrow> SocketMeasurementBucket \<Rightarrow> SocketMeasurementBucket result)
     \<Rightarrow> int \<Rightarrow> nat \<Rightarrow> bucket result \<Rightarrow> bucket result" where
  "bucket_update add sid n rb =
     (case rb of Inl f \<Rightarrow> Inl f | Inr None \<Rightarrow> Inr None
      | Inr (Some b) \<Rightarrow> map_sum id Some (add (word_of_int sid) (of_nat n) b))"

definition count_sent :: "clock_now \<Rightarrow> int \<Rightarrow> nat \<Rightarrow> bucket \<Rightarrow> bucket result" where
  "count_sent clk sid n b =
     bucket_update (add_packets_sent clk) sid 1 (bucket_update (add_bytes_sent clk) sid n (Inr b))"

definition count_received :: "clock_now \<Rightarrow> int \<Rightarrow> nat \<Rightarrow> bucket \<Rightarrow> bucket result" where
  "count_received clk sid n b =
     bucket_update (add_packets_received clk) sid 1 (bucket_update (add_bytes_received clk) sid n (Inr b))"

text \<open>
  The result of a call to \<open>send\<close>: what is on the wire, and the fault or the bucket after it;
  \<open>None\<close> when the loop has not ended.
\<close>

definition tcp_send ::
    "clock_now \<Rightarrow> bytes \<Rightarrow> u32 \<Rightarrow> (nat \<times> nat sys) list \<Rightarrow> TCPSocket \<Rightarrow> bucket \<Rightarrow> (bytes \<times> bucket result) option" where
  "tcp_send clk data timeout tries s b =
     (if tcp_state s \<noteq> CONNECTED then Some ([], Inl (RuntimeError ''Socket is not connected''))
      else case send_loop timeout data 0 tries of
          (w, Sending _) \<Rightarrow> None
        | (w, Sent n) \<Rightarrow> Some (w, count_sent clk (tcp_measurement_storage_id s) n b)
        | (w, TimedOut n) \<Rightarrow> Some (w, Inr b)
        | (w, SendFailed f n) \<Rightarrow> Some (w, Inl f))"

section \<open>Receiving\<close>

text \<open>
  \<open>recv\<close> gives the bytes received, none when the peer has shut the connection down. \<open>None\<close> as a
  result stands for the return value \<open>false\<close>.
\<close>

definition tcp_receive ::
    "clock_now \<Rightarrow> bytes sys \<Rightarrow> TCPSocket \<Rightarrow> bucket \<Rightarrow> (bytes option \<times> bucket) result \<times> TCPSocket" where
  "tcp_receive clk recv s b =
     (if tcp_state s \<noteq> CONNECTED then (Inl (RuntimeError ''Socket is not connected''), s)
      else case recv of
          Error e \<Rightarrow>
            if e = ECONNRESET then (Inr (None, b), tcp_close s)
            else if e \<noteq> EWOULDBLOCK \<and> e \<noteq> EALREADY \<and> e \<noteq> ETIMEDOUT \<and> e \<noteq> EINPROGRESS
            then (Inl (RuntimeError ''Failed to receive_from message''), s)
            else (Inr (None, b), s)
        | Done bs \<Rightarrow>
            (case count_received clk (tcp_measurement_storage_id s) (length bs) b of
               Inl f \<Rightarrow> (Inl f, s) | Inr b' \<Rightarrow> (Inr (Some bs, b'), s)))"

section \<open>UDP sockets\<close>

record UDPSocket =
  udp_socket :: "nat option"
  udp_local_addr :: SocketAddr
  udp_measurement_storage_id :: int

definition new_UDPSocket ::
    "socket_calls \<Rightarrow> bool \<Rightarrow> bool \<Rightarrow> SocketId \<Rightarrow> bucket \<Rightarrow> (UDPSocket \<times> bucket) result" where
  "new_UDPSocket sys force_port allow_broadcast socket_id b =
     (case call_socket sys of Error _ \<Rightarrow> Inl (RuntimeError ''Failed to create socket'')
      | Done fd \<Rightarrow>
        if force_port \<and> is_error (call_setsockopt_reuse sys)
        then Inl (RuntimeError ''Failed to set socket option'')
        else if allow_broadcast \<and> is_error (call_setsockopt_broadcast sys)
        then Inl (RuntimeError ''Failed to set socket option'')
        else case call_fcntl_get sys of Error _ \<Rightarrow> Inl (RuntimeError ''Failed to get socket flags'')
      | Done _ \<Rightarrow>
        (case call_fcntl_set sys of Error _ \<Rightarrow> Inl (RuntimeError ''Failed to set socket flags'')
      | Done _ \<Rightarrow>
        (case call_bind sys of
           Error e \<Rightarrow> if e = EADDRINUSE then Inl (RuntimeError ''Port already in use'')
                      else Inl (RuntimeError ''Failed to bind socket'')
      | Done _ \<Rightarrow>
        (case call_getsockname sys of Error _ \<Rightarrow> Inl (RuntimeError ''Failed to get local address'')
      | Done local \<Rightarrow>
        (case register_if b socket_id SOCKET_TYPE_UDP of (sid, b') \<Rightarrow>
           Inr (\<lparr>udp_socket = Some fd, udp_local_addr = local, udp_measurement_storage_id = sid\<rparr>, b'))))))"

definition udp_close :: "UDPSocket \<Rightarrow> UDPSocket" where
  "udp_close s = (case udp_socket s of None \<Rightarrow> s | Some _ \<Rightarrow> s\<lparr>udp_socket := None\<rparr>)"

definition udp_send_to ::
    "clock_now \<Rightarrow> nat sys \<Rightarrow> UDPSocket \<Rightarrow> bucket \<Rightarrow> (bool \<times> bucket) result" where
  "udp_send_to clk sendto s b =
     (case udp_socket s of None \<Rightarrow> Inr (False, b)
      | Some _ \<Rightarrow>
        (case sendto of Error _ \<Rightarrow> Inr (False, b)
         | Done n \<Rightarrow>
           if n = 0 then Inr (True, b)
           else map_sum id (\<lambda>b'. (True, b')) (count_sent clk (udp_measurement_storage_id s) n b)))"

definition udp_receive_from ::
    "clock_now \<Rightarrow> (bytes \<times> SocketAddr) sys \<Rightarrow> UDPSocket \<Rightarrow> bucket
     \<Rightarrow> ((bytes \<times> SocketAddr) option \<times> bucket) result" where
  "udp_receive_from clk recvfrom s b =
     (case udp_socket s of None \<Rightarrow> Inr (None, b)
      | Some _ \<Rightarrow>
        (case recvfrom of
           Error e \<Rightarrow>
             if e \<noteq> EWOULDBLOCK \<and> e \<noteq> EALREADY \<and> e \<noteq> ETIMEDOUT
             then Inl (RuntimeError ''Failed to receive_from message'') else Inr (None, b)
         | Done (bs, sender) \<Rightarrow>
             map_sum id (\<lambda>b'. (Some (bs, sender), b'))
               (count_received clk (udp_measurement_storage_id s) (length bs) b)))"

definition udp_is_open :: "UDPSocket \<Rightarrow> bool" where
  "udp_is_open s \<longleftrightarrow> udp_socket s \<noteq> None"

section \<open>Facts\<close>

text \<open>A storage id given out by the bucket, so that counting cannot fail.\<close>

definition registered :: "int \<Rightarrow> bucket \<Rightarrow> bool" where
  "registered sid b \<longleftrightarrow> (case b of None \<Rightarrow> True
     | Some x \<Rightarrow> 0 \<le> sid \<and> nat sid < length (m_socket_measurements x))"

lemma registered_index:
  "0 \<le> sid \<Longrightarrow> nat sid < k \<Longrightarrow> unat (word_of_int sid :: u32) < k"
proof -
  assume "0 \<le> sid" "nat sid < k"
  have "uint (word_of_int sid :: u32) \<le> sid"
    using \<open>0 \<le> sid\<close> by (simp add: uint_word_of_int zmod_le_nonneg_dividend)
  then have "unat (word_of_int sid :: u32) \<le> nat sid"
    unfolding unat_eq_nat_uint by (rule nat_mono)
  then show ?thesis using \<open>nat sid < k\<close> by simp
qed

lemma bucket_update_registered:
  assumes "registered sid b" "\<And>i n x. unat i < length (m_socket_measurements x) \<Longrightarrow>
      \<exists>x'. add i n x = Inr x' \<and> length (m_socket_measurements x') = length (m_socket_measurements x)"
  shows "\<exists>b'. bucket_update add sid n (Inr b) = Inr b' \<and> registered sid b'"
proof (cases b)
  case (Some x)
  then have "unat (word_of_int sid :: u32) < length (m_socket_measurements x)"
    using assms(1) by (simp add: registered_def registered_index)
  from assms(2) [OF this, of "of_nat n"] Some assms(1) show ?thesis
    by (auto simp: bucket_update_def registered_def)
qed (use assms(1) in \<open>simp add: bucket_update_def\<close>)

lemma update_socket_registered:
  "unat i < length (m_socket_measurements x) \<Longrightarrow>
     \<exists>x'. update_socket clk i f x = Inr x' \<and> length (m_socket_measurements x') = length (m_socket_measurements x)"
  by (simp add: update_socket_def)

lemma count_registered:
  assumes "registered sid b"
  shows "\<exists>b'. count_sent clk sid n b = Inr b' \<and> registered sid b'"
    and "\<exists>b'. count_received clk sid n b = Inr b' \<and> registered sid b'"
proof -
  have upd: "\<exists>x'. add_bytes_sent clk i k x = Inr x' \<and> length (m_socket_measurements x') = length (m_socket_measurements x)"
      "\<exists>x'. add_packets_sent clk i k x = Inr x' \<and> length (m_socket_measurements x') = length (m_socket_measurements x)"
      "\<exists>x'. add_bytes_received clk i k x = Inr x' \<and> length (m_socket_measurements x') = length (m_socket_measurements x)"
      "\<exists>x'. add_packets_received clk i k x = Inr x' \<and> length (m_socket_measurements x') = length (m_socket_measurements x)"
    if "unat i < length (m_socket_measurements x)" for i k and x :: SocketMeasurementBucket
    using that by (simp_all add: add_bytes_sent_def add_packets_sent_def add_bytes_received_def
        add_packets_received_def update_socket_registered)
  obtain b1 where b1: "bucket_update (add_bytes_sent clk) sid n (Inr b) = Inr b1" "registered sid b1"
    using bucket_update_registered [OF assms, of "add_bytes_sent clk" n] upd(1) by blast
  obtain b2 where b2: "bucket_update (add_packets_sent clk) sid 1 (Inr b1) = Inr b2" "registered sid b2"
    using bucket_update_registered [OF b1(2), of "add_packets_sent clk" 1] upd(2) by blast
  from b1 b2 show "\<exists>b'. count_sent clk sid n b = Inr b' \<and> registered sid b'"
    by (simp add: count_sent_def)
  obtain b3 where b3: "bucket_update (add_bytes_received clk) sid n (Inr b) = Inr b3" "registered sid b3"
    using bucket_update_registered [OF assms, of "add_bytes_received clk" n] upd(3) by blast
  obtain b4 where b4: "bucket_update (add_packets_received clk) sid 1 (Inr b3) = Inr b4" "registered sid b4"
    using bucket_update_registered [OF b3(2), of "add_packets_received clk" 1] upd(4) by blast
  from b3 b4 show "\<exists>b'. count_received clk sid n b = Inr b' \<and> registered sid b'"
    by (simp add: count_received_def)
qed

fun accepted :: "nat sys \<Rightarrow> nat" where
  "accepted (Done n) = n"
| "accepted (Error _) = 0"

text \<open>\<open>send\<close> never takes more than it is given.\<close>

fun honest_send :: "nat \<Rightarrow> (nat \<times> nat sys) list \<Rightarrow> bool" where
  "honest_send left [] = True"
| "honest_send left ((_, r) # tries) = (accepted r \<le> left \<and> honest_send (left - accepted r) tries)"

lemma send_loop_wire:
  assumes "sent \<le> length data" "honest_send (length data - sent) tries"
  shows "\<exists>n. bytes_out (snd (send_loop timeout data sent tries)) = sent + n
    \<and> fst (send_loop timeout data sent tries) = take n (drop sent data) \<and> sent + n \<le> length data"
  using assms
proof (induction timeout data sent tries rule: send_loop.induct)
  case (2 timeout data sent elapsed res tries)
  show ?case
  proof (cases "timeout \<noteq> 0 \<and> unat timeout \<le> elapsed")
    case True
    then show ?thesis using 2(3) by auto
  next
    case False
    show ?thesis
    proof (cases res)
      case (Done k)
      then have k: "sent + k \<le> length data" "honest_send (length data - (sent + k)) tries"
        using 2(3,4) by auto
      show ?thesis
      proof (cases "sent + k = length data")
        case True
        then show ?thesis using False Done by (intro exI [of _ k]) auto
      next
        case rest: False
        obtain n where n: "bytes_out (snd (send_loop timeout data (sent + k) tries)) = sent + k + n"
            "fst (send_loop timeout data (sent + k) tries) = take n (drop (sent + k) data)"
            "sent + k + n \<le> length data"
          using 2(1) [OF False Done rest k] by blast
        have "take k (drop sent data) @ take n (drop (sent + k) data) = take (k + n) (drop sent data)"
          by (simp add: take_add add.commute)
        then show ?thesis
          using False Done rest n by (intro exI [of _ "k + n"]) auto
      qed
    next
      case (Error e)
      then show ?thesis using 2 False by auto
    qed
  qed
qed auto

lemma send_loop_Sent:
  "snd (send_loop timeout data sent tries) = Sent n \<Longrightarrow>
     n = length data \<and> fst (send_loop timeout data sent tries) = drop sent data"
proof (induction timeout data sent tries rule: send_loop.induct)
  case (2 timeout data sent elapsed res tries)
  have "take k (drop sent data) @ drop (sent + k) data = drop sent data" for k
    by (metis add.commute append_take_drop_id drop_drop)
  with 2 show ?case
    by (cases res) (auto split: if_splits)
qed simp

lemma send_loop_no_timeout: "snd (send_loop 0 data sent tries) \<noteq> TimedOut n"
  by (induction "0 :: u32" data sent tries rule: send_loop.induct) (auto split: if_splits sys.splits)

lemma send_loop_failure:
  "snd (send_loop timeout data sent tries) = SendFailed f n \<Longrightarrow> f = RuntimeError ''Failed to send message''"
  by (induction timeout data sent tries rule: send_loop.induct) (auto split: if_splits sys.splits)

section \<open>Properties\<close>

text \<open>C27: the parts that \<open>send\<close> hands out one after the other make up a prefix of the message, with no
  byte repeated and none left out: all of it when it returns normally having counted it, possibly a
  proper part when it throws or when the timeout elapses, which it reports to nobody; with timeout 0 it
  never gives up.\<close>

theorem tcp_send_prefix:
  assumes "tcp_state s = CONNECTED" "honest_send (length data) tries"
    and "tcp_send clk data timeout tries s b = Some (wire, res)"
  shows "wire = take (length wire) data
    \<and> (snd (send_loop timeout data 0 tries) = Sent (length data) \<longrightarrow> wire = data
        \<and> res = count_sent clk (tcp_measurement_storage_id s) (length data) b)
    \<and> (wire \<noteq> data \<longrightarrow> res = Inr b \<or> res = Inl (RuntimeError ''Failed to send message''))
    \<and> (wire \<noteq> data \<and> timeout = 0 \<longrightarrow> res = Inl (RuntimeError ''Failed to send message''))"
proof -
  obtain w outcome where loop: "send_loop timeout data 0 tries = (w, outcome)" by fastforce
  have wire: "wire = w" "w = take (length w) data"
    using assms loop send_loop_wire [of 0 data tries timeout]
    by (auto simp: tcp_send_def split: send_outcome.splits)
  show ?thesis
  proof (cases outcome)
    case (Sent n)
    then show ?thesis
      using assms(1,3) send_loop_Sent [of timeout data 0 tries n] wire loop by (auto simp: tcp_send_def)
  next
    case (TimedOut n)
    then have "timeout \<noteq> 0"
      using send_loop_no_timeout [of data 0 tries n] loop by auto
    with TimedOut show ?thesis
      using assms(1,3) loop wire by (simp add: tcp_send_def)
  next
    case (SendFailed f n)
    then have "f = RuntimeError ''Failed to send message''"
      using send_loop_failure [of timeout data 0 tries f n] loop by simp
    with SendFailed show ?thesis
      using assms(1,3) loop wire by (simp add: tcp_send_def)
  next
    case (Sending n)
    then show ?thesis using assms(1,3) loop by (simp add: tcp_send_def)
  qed
qed

definition example_socket :: TCPSocket where
  "example_socket = \<lparr>tcp_socket = Some 3, tcp_state = CONNECTED, tcp_local_addr = any_addr,
     tcp_peer_addr = any_addr, tcp_measurement_storage_id = -1\<rparr>"

theorem tcp_send_prefix_witness:
  "tcp_send (\<lambda>_. 0) [1, 2, 3] 100 [(0, Done 2), (50, Error EAGAIN), (100, Done 1)] example_socket None
     = Some ([1, 2], Inr None)
   \<and> [1, 2] = take 2 [1, 2, 3 :: u8]"
  using tcp_send_prefix [of example_socket "[1, 2, 3]" "[(0, Done 2), (50, Error EAGAIN), (100, Done 1)]"
      "\<lambda>_. 0" 100 None "[1, 2]" "Inr None"]
  by (simp add: example_socket_def tcp_send_def errno_defs)

text \<open>The connection state machine. A socket becomes connected only through a successful accept while
  listening or a successful connect (or \<open>EISCONN\<close>) while connecting; listening or connecting in any
  later state throws and leaves the state alone; a closed socket stays closed under every operation.\<close>

theorem tcp_state_machine:
  "(fst (tcp_listen sys s) = Inr True \<longrightarrow> tcp_state s \<in> {NOT_STARTED, LISTENING}
      \<and> tcp_state (snd (tcp_listen sys s)) = CONNECTED)
   \<and> (fst (tcp_connect c a s) = Inr True \<longrightarrow> tcp_state s \<in> {NOT_STARTED, CONNECTING}
      \<and> tcp_state (snd (tcp_connect c a s)) = CONNECTED \<and> tcp_peer_addr (snd (tcp_connect c a s)) = a)
   \<and> (tcp_state s \<in> {CONNECTED, CLOSED} \<longrightarrow>
        tcp_listen sys s = (Inl (RuntimeError ''Socket is not listening''), s)
        \<and> tcp_connect c a s = (Inl (RuntimeError ''Socket is not connecting''), s))
   \<and> (tcp_state s = CLOSED \<longrightarrow> tcp_state (snd (refresh_state peek s)) = CLOSED
        \<and> tcp_state (snd (tcp_receive clk recv s b)) = CLOSED \<and> tcp_state (tcp_close s) = CLOSED
        \<and> tcp_send clk data t tries s b = Some ([], Inl (RuntimeError ''Socket is not connected'')))"
proof (intro conjI impI)
  assume "fst (tcp_listen sys s) = Inr True"
  then have "tcp_state s \<in> {NOT_STARTED, LISTENING} \<and> tcp_state (snd (tcp_listen sys s)) = CONNECTED"
    by (cases "tcp_state s")
      (auto simp: tcp_listen_def enable_server_def Let_def split: if_splits sys.splits prod.splits)
  then show "tcp_state s \<in> {NOT_STARTED, LISTENING}" "tcp_state (snd (tcp_listen sys s)) = CONNECTED"
    by auto
next
  assume "fst (tcp_connect c a s) = Inr True"
  then have "tcp_state s \<in> {NOT_STARTED, CONNECTING} \<and> tcp_state (snd (tcp_connect c a s)) = CONNECTED
      \<and> tcp_peer_addr (snd (tcp_connect c a s)) = a"
    by (cases "tcp_state s") (auto simp: tcp_connect_def Let_def split: if_splits sys.splits)
  then show "tcp_state s \<in> {NOT_STARTED, CONNECTING}" "tcp_state (snd (tcp_connect c a s)) = CONNECTED"
      "tcp_peer_addr (snd (tcp_connect c a s)) = a"
    by auto
next
  assume "tcp_state s \<in> {CONNECTED, CLOSED}"
  then show "tcp_listen sys s = (Inl (RuntimeError ''Socket is not listening''), s)"
      "tcp_connect c a s = (Inl (RuntimeError ''Socket is not connecting''), s)"
    by (auto simp: tcp_listen_def enable_server_def tcp_connect_def Let_def)
next
  assume closed: "tcp_state s = CLOSED"
  then show "tcp_state (snd (refresh_state peek s)) = CLOSED"
      "tcp_state (snd (tcp_receive clk recv s b)) = CLOSED"
      "tcp_send clk data t tries s b = Some ([], Inl (RuntimeError ''Socket is not connected''))"
    by (simp_all add: refresh_state_def tcp_receive_def tcp_send_def Let_def)
  show "tcp_state (tcp_close s) = CLOSED"
    using closed by (simp add: tcp_close_def split: option.split)
qed

theorem tcp_state_machine_witness:
  "tcp_connect (Done ()) any_addr example_socket
     = (Inl (RuntimeError ''Socket is not connecting''), example_socket)"
  using tcp_state_machine [where s = example_socket and c = "Done ()" and a = any_addr]
  by (simp add: example_socket_def)

end
