(* ===== verification/VideoSocket.thy ===== *)
theory VideoSocket
  imports Sockets SimpleStream
begin

text \<open>
  \<open>common/src/video_socket.cpp\<close> in its default build (TCP with the simple packetization): the server
  side that drains the packetizer into the socket, and the client side that feeds the depacketizer.
  How the network answers is an argument: for the server \<open>link\<close>, the attempts at sending each packet,
  for the client the list of the results of \<open>recv\<close>. Loops that have not ended when these run out give
  \<open>None\<close>.
\<close>

section \<open>Server side\<close>

record ServerVideoSocket =
  sv_socket :: TCPSocket
  sv_peer_addr :: SocketAddr
  sv_packetizer :: "SimplePacketizer option"

definition new_ServerVideoSocket ::
    "socket_calls \<Rightarrow> unit sys \<Rightarrow> bucket \<Rightarrow> (ServerVideoSocket \<times> bucket) result" where
  "new_ServerVideoSocket sys listen_call b =
     (case new_TCPSocket sys True VIDEO_SOCKET b of Inl f \<Rightarrow> Inl f
      | Inr (s, b') \<Rightarrow>
        (case enable_server listen_call s of Inl f \<Rightarrow> Inl f
         | Inr s' \<Rightarrow> Inr (\<lparr>sv_socket = s', sv_peer_addr = any_addr, sv_packetizer = None\<rparr>, b')))"

definition set_packetizer :: "SimplePacketizer option \<Rightarrow> u8 \<times> u8 \<times> u8 \<Rightarrow> ServerVideoSocket \<Rightarrow> ServerVideoSocket" where
  "set_packetizer p pad v =
     (case p of None \<Rightarrow> v\<lparr>sv_packetizer := Some (create_simple_packetizer pad)\<rparr>
      | Some q \<Rightarrow> v\<lparr>sv_packetizer := Some q\<rparr>)"

text \<open>
  The packet and its size are variables of the loop: when the packetizer gives nothing out, they keep
  the previous packet.
\<close>

fun send_all_generated_packets ::
    "nat \<Rightarrow> clock_now \<Rightarrow> u32 \<Rightarrow> (nat \<Rightarrow> bytes \<Rightarrow> (nat \<times> nat sys) list) \<Rightarrow> bytes \<Rightarrow> ServerVideoSocket \<Rightarrow> bucket
     \<Rightarrow> (bytes \<times> bucket result \<times> ServerVideoSocket) option" where
  "send_all_generated_packets 0 clk timeout link packet v b = None"
| "send_all_generated_packets (Suc n) clk timeout link packet v b =
     (if \<not> tcp_is_connected (sv_socket v) then Some ([], Inr b, v)
      else case sv_packetizer v of
        None \<Rightarrow> Some ([], Inl (UndefinedBehaviour ''null packetizer''), v)
      | Some p \<Rightarrow>
        (case create_next_packet p of ((has_next, out), p') \<Rightarrow>
          let packet' = (case out of None \<Rightarrow> packet | Some x \<Rightarrow> x);
              v' = v\<lparr>sv_packetizer := Some p'\<rparr>
          in if packet' = []
             then if has_next then send_all_generated_packets n clk timeout link packet' v' b
                  else Some ([], Inr b, v')
             else case tcp_send clk packet' timeout (link n packet') (sv_socket v) b of
                 None \<Rightarrow> None
               | Some (w, Inl f) \<Rightarrow> Some (w, Inl f, v')
               | Some (w, Inr b') \<Rightarrow>
                   if has_next
                   then map_option (\<lambda>(w2, r, v2). (w @ w2, r, v2))
                          (send_all_generated_packets n clk timeout link packet' v' b')
                   else Some (w, Inr b', v')))"

definition send_packet ::
    "nat \<Rightarrow> clock_now \<Rightarrow> (nat \<Rightarrow> bytes \<Rightarrow> (nat \<times> nat sys) list) \<Rightarrow> bytes \<Rightarrow> u32 \<Rightarrow> bool \<Rightarrow> u32 \<Rightarrow> u32 \<Rightarrow> bool \<Rightarrow> bool
     \<Rightarrow> u32 \<Rightarrow> ServerVideoSocket \<Rightarrow> bucket \<Rightarrow> (bytes \<times> bucket result \<times> ServerVideoSocket) option" where
  "send_packet n clk link data frame_id eos ts pose_ts save last_part timeout v b =
     (case sv_packetizer v of
        None \<Rightarrow> Some ([], Inl (UndefinedBehaviour ''null packetizer''), v)
      | Some p \<Rightarrow>
          send_all_generated_packets n clk timeout link []
            (v\<lparr>sv_packetizer := Some (add_frame_data data frame_id eos ts pose_ts save last_part p)\<rparr>) b)"

text \<open>
  Only the expected peer is kept. For any other one a new socket takes the place of the connected one;
  it is made without a measurement bucket.
\<close>

definition video_listen ::
    "accept_calls \<Rightarrow> socket_calls \<Rightarrow> unit sys \<Rightarrow> SocketAddr \<Rightarrow> ServerVideoSocket \<Rightarrow> bool result \<times> ServerVideoSocket" where
  "video_listen acc sys listen_call peer v =
     (case tcp_listen acc (sv_socket v) of
        (Inl f, s) \<Rightarrow> (Inl f, v\<lparr>sv_socket := s\<rparr>)
      | (Inr False, s) \<Rightarrow> (Inr False, v\<lparr>sv_socket := s\<rparr>)
      | (Inr True, s) \<Rightarrow>
          if peer \<noteq> tcp_peer_addr s
          then case new_TCPSocket sys True UNKNOWN_SOCKET None of
              Inl f \<Rightarrow> (Inl f, v\<lparr>sv_socket := s\<rparr>)
            | Inr (s2, _) \<Rightarrow>
                (case enable_server listen_call s2 of
                   Inl f \<Rightarrow> (Inl f, v\<lparr>sv_socket := s2\<rparr>)
                 | Inr s3 \<Rightarrow> (Inr False, v\<lparr>sv_socket := s3\<rparr>))
          else (Inr True, v\<lparr>sv_socket := s, sv_peer_addr := peer\<rparr>))"

section \<open>Client side\<close>

record ClientVideoSocket =
  cv_socket :: TCPSocket
  cv_peer_addr :: SocketAddr
  cv_depacketizer :: "SimpleDepacketizer option"

definition new_ClientVideoSocket :: "socket_calls \<Rightarrow> bucket \<Rightarrow> (ClientVideoSocket \<times> bucket) result" where
  "new_ClientVideoSocket sys b =
     (case new_TCPSocket sys True VIDEO_SOCKET b of Inl f \<Rightarrow> Inl f
      | Inr (s, b') \<Rightarrow> Inr (\<lparr>cv_socket = s, cv_peer_addr = any_addr, cv_depacketizer = None\<rparr>, b'))"

definition video_connect :: "unit sys \<Rightarrow> SocketAddr \<Rightarrow> ClientVideoSocket \<Rightarrow> bool result \<times> ClientVideoSocket" where
  "video_connect connect_call peer v =
     (case tcp_connect connect_call peer (cv_socket v) of
        (r, s) \<Rightarrow> (r, v\<lparr>cv_peer_addr := peer, cv_socket := s\<rparr>))"

definition set_depacketizer :: "SimpleDepacketizer option \<Rightarrow> ClientVideoSocket \<Rightarrow> ClientVideoSocket" where
  "set_depacketizer d v =
     (case d of None \<Rightarrow> v\<lparr>cv_depacketizer := Some create_simple_depacketizer\<rparr>
      | Some x \<Rightarrow> v\<lparr>cv_depacketizer := Some x\<rparr>)"

text \<open>Each result of \<open>recv\<close> comes with the time at which it is processed.\<close>

fun client_update ::
    "clock_now \<Rightarrow> (int \<times> bytes sys) list \<Rightarrow> ClientVideoSocket \<Rightarrow> bucket \<Rightarrow> (bucket result \<times> ClientVideoSocket) option" where
  "client_update clk [] v b = (if tcp_is_connected (cv_socket v) then None else Some (Inr b, v))"
| "client_update clk ((t, r) # rs) v b =
     (if \<not> tcp_is_connected (cv_socket v) then Some (Inr b, v)
      else case tcp_receive clk r (cv_socket v) b of
          (Inl f, s) \<Rightarrow> Some (Inl f, v\<lparr>cv_socket := s\<rparr>)
        | (Inr (None, b'), s) \<Rightarrow> Some (Inr b', v\<lparr>cv_socket := s\<rparr>)
        | (Inr (Some bs, b'), s) \<Rightarrow>
            (case cv_depacketizer v of
               None \<Rightarrow> Some (Inl (UndefinedBehaviour ''null depacketizer''), v\<lparr>cv_socket := s\<rparr>)
             | Some d \<Rightarrow>
                 (case add_packet t bs d of
                    None \<Rightarrow> None
                  | Some d' \<Rightarrow> client_update clk rs (v\<lparr>cv_socket := s, cv_depacketizer := Some d'\<rparr>) b')))"

definition receive_packet ::
    "ClientVideoSocket \<Rightarrow> (frame_data option \<times> ClientVideoSocket) result" where
  "receive_packet v =
     (case cv_depacketizer v of None \<Rightarrow> Inr (None, v)
      | Some d \<Rightarrow> map_sum id (\<lambda>(f, d'). (f, v\<lparr>cv_depacketizer := Some d'\<rparr>)) (receive_frame_data d))"

definition video_release_frame_data :: "ClientVideoSocket \<Rightarrow> ClientVideoSocket result" where
  "video_release_frame_data v =
     (case cv_depacketizer v of None \<Rightarrow> Inl (UndefinedBehaviour ''null depacketizer'')
      | Some d \<Rightarrow> map_sum id (\<lambda>d'. v\<lparr>cv_depacketizer := Some d'\<rparr>) (release_frame_data d))"

fun video_flush ::
    "clock_now \<Rightarrow> bytes sys list \<Rightarrow> ClientVideoSocket \<Rightarrow> bucket \<Rightarrow> (bucket result \<times> ClientVideoSocket) option" where
  "video_flush clk [] v b = (if tcp_is_connected (cv_socket v) then None else Some (Inr b, v))"
| "video_flush clk (r # rs) v b =
     (if \<not> tcp_is_connected (cv_socket v) then Some (Inr b, v)
      else case tcp_receive clk r (cv_socket v) b of
          (Inl f, s) \<Rightarrow> Some (Inl f, v\<lparr>cv_socket := s\<rparr>)
        | (Inr (None, b'), s) \<Rightarrow> Some (Inr b', v\<lparr>cv_socket := s\<rparr>)
        | (Inr (Some bs, b'), s) \<Rightarrow> video_flush clk rs (v\<lparr>cv_socket := s\<rparr>) b')"

section \<open>What the server puts on the wire\<close>

text \<open>A frame as the pipeline hands it over, and its wire form given the flags collected before.\<close>

record frame_args =
  fa_data :: bytes
  fa_id :: u32
  fa_eos :: bool
  fa_ts :: u32
  fa_pose :: u32
  fa_save :: bool

definition collected_flags :: "u8 \<Rightarrow> frame_args \<Rightarrow> u8" where
  "collected_flags f a =
     (let f2 = f OR END_OF_FRAME; f3 = (if fa_save a then f2 OR SAVE_FRAME else f2)
      in if fa_eos a then f3 OR END_OF_STREAM else f3)"

definition framed :: "u8 \<times> u8 \<times> u8 \<Rightarrow> u8 \<Rightarrow> frame_args \<Rightarrow> sent_frame" where
  "framed pad f a =
     (\<lparr>sh_size = htonl (of_nat (sizeof_SimpleHeader + length (fa_data a))),
       sh_rtp_sample_timestamp = htonl (fa_ts a), sh_rtp_pose_timestamp = htonl (fa_pose a),
       sh_frame_id = htonl (fa_id a), sh_flags = collected_flags f a, sh_padding = pad\<rparr>, fa_data a)"

fun framed_all :: "u8 \<times> u8 \<times> u8 \<Rightarrow> u8 \<Rightarrow> frame_args list \<Rightarrow> sent_frame list" where
  "framed_all pad f [] = []"
| "framed_all pad f (a # as) = framed pad f a # framed_all pad (collected_flags f a) as"

text \<open>Sending a list of frames, each marked last of frame as the video pipeline does.\<close>

fun send_frames ::
    "nat \<Rightarrow> clock_now \<Rightarrow> (nat \<Rightarrow> bytes \<Rightarrow> (nat \<times> nat sys) list) \<Rightarrow> u32 \<Rightarrow> frame_args list \<Rightarrow> ServerVideoSocket \<Rightarrow> bucket
     \<Rightarrow> (bytes \<times> bucket result \<times> ServerVideoSocket) option" where
  "send_frames n clk link timeout [] v b = Some ([], Inr b, v)"
| "send_frames n clk link timeout (a # as) v b =
     (case send_packet n clk link (fa_data a) (fa_id a) (fa_eos a) (fa_ts a) (fa_pose a) (fa_save a) True
             timeout v b of
        None \<Rightarrow> None
      | Some (w, Inl f, v') \<Rightarrow> Some (w, Inl f, v')
      | Some (w, Inr b', v') \<Rightarrow>
          map_option (\<lambda>(w2, r, v2). (w @ w2, r, v2)) (send_frames n clk link timeout as v' b'))"

text \<open>A link that takes every packet in the end.\<close>

definition delivering :: "u32 \<Rightarrow> (nat \<Rightarrow> bytes \<Rightarrow> (nat \<times> nat sys) list) \<Rightarrow> bool" where
  "delivering timeout link \<longleftrightarrow> (\<forall>k p. snd (send_loop timeout p 0 (link k p)) = Sent (length p))"

lemma wf_framed: "sizeof_SimpleHeader + length (fa_data a) < 2 ^ 32 \<Longrightarrow> wf_frame (framed pad f a)"
  by (simp only: wf_frame_def framed_def fst_conv snd_conv SimpleHeader.simps ntoh_hton)
    (rule unat_of_nat32)

lemma wf_framed_all:
  "list_all (\<lambda>a. sizeof_SimpleHeader + length (fa_data a) < 2 ^ 32) as \<Longrightarrow>
     list_all wf_frame (framed_all pad f as)"
  by (induction as arbitrary: f) (simp_all add: wf_framed)

lemma collected_end_of_frame: "collected_flags f a AND END_OF_FRAME = END_OF_FRAME"
  by (rule bit_word_eqI)
    (auto simp: collected_flags_def Let_def END_OF_FRAME_def SAVE_FRAME_def END_OF_STREAM_def bit_simps)

lemma tcp_send_delivering:
  assumes "delivering timeout link" "tcp_state s = CONNECTED"
  shows "tcp_send clk p timeout (link k p) s b = Some (p, count_sent clk (tcp_measurement_storage_id s) (length p) b)"
proof -
  have "snd (send_loop timeout p 0 (link k p)) = Sent (length p)"
    using assms(1) by (simp add: delivering_def)
  with send_loop_Sent [OF this] have "send_loop timeout p 0 (link k p) = (p, Sent (length p))"
    by (simp add: prod_eq_iff)
  with assms(2) show ?thesis by (simp add: tcp_send_def)
qed

lemma send_packet_framed:
  assumes link: "delivering timeout link" and conn: "tcp_state (sv_socket v) = CONNECTED"
    and reg: "registered (tcp_measurement_storage_id (sv_socket v)) b"
    and p: "sv_packetizer v = Some p" "sh_flags (sp_header p) = f" "sh_padding (sp_header p) = pad"
    and size: "sizeof_SimpleHeader + length (fa_data a) < 2 ^ 32"
  shows "\<exists>b' p'. send_packet (Suc (Suc n)) clk link (fa_data a) (fa_id a) (fa_eos a) (fa_ts a) (fa_pose a)
        (fa_save a) True timeout v b
      = Some (wire_frame (framed pad f a), Inr b', v\<lparr>sv_packetizer := Some p'\<rparr>)
    \<and> registered (tcp_measurement_storage_id (sv_socket v)) b'
    \<and> sh_flags (sp_header p') = collected_flags f a \<and> sh_padding (sp_header p') = pad"
proof -
  define h where "h = fst (framed pad f a)"
  have h: "unat (ntohl (sh_size h)) = sizeof_SimpleHeader + length (fa_data a)"
      "sh_flags h = collected_flags f a" "sh_padding h = pad"
    using wf_framed [OF size, of pad f] by (simp_all add: h_def wf_frame_def framed_def)
  have added: "add_frame_data (fa_data a) (fa_id a) (fa_eos a) (fa_ts a) (fa_pose a) (fa_save a) True p
      = \<lparr>sp_data = Some (fa_data a), sp_header = h, sp_header_sent = False\<rparr>"
    using p by (simp add: add_frame_data_def h_def framed_def collected_flags_def Let_def)
  obtain b1 where b1: "count_sent clk (tcp_measurement_storage_id (sv_socket v)) 20 b = Inr b1"
      "registered (tcp_measurement_storage_id (sv_socket v)) b1"
    using count_registered(1) [OF reg] by blast
  obtain b2 where b2: "count_sent clk (tcp_measurement_storage_id (sv_socket v)) (length (fa_data a)) b1 = Inr b2"
      "registered (tcp_measurement_storage_id (sv_socket v)) b2"
    using count_registered(1) [OF b1(2)] by blast
  have ne: "SimpleHeader_bytes h \<noteq> []"
    by (metis length_SimpleHeader_bytes list.size(3) zero_neq_numeral)
  have start: "send_packet (Suc (Suc n)) clk link (fa_data a) (fa_id a) (fa_eos a) (fa_ts a) (fa_pose a)
        (fa_save a) True timeout v b
      = send_all_generated_packets (Suc (Suc n)) clk timeout link [] (v\<lparr>sv_packetizer :=
          Some \<lparr>sp_data = Some (fa_data a), sp_header = h, sp_header_sent = False\<rparr>\<rparr>) b"
    by (simp only: send_packet_def p(1) option.case added)
  have wire: "wire_frame (framed pad f a) = SimpleHeader_bytes h @ fa_data a"
    by (simp add: wire_frame_def h_def framed_def)
  note run = create_next_packet_def Let_def tcp_is_connected_def conn ne
    tcp_send_delivering [OF link] b1(1) h collected_end_of_frame
  show ?thesis
  proof (cases "fa_data a = []")
    case True
    then show ?thesis
      unfolding start wire using b1 by (auto simp: run)
  next
    case False
    then show ?thesis
      unfolding start wire using b2 by (auto simp: run)
  qed
qed

lemma send_frames_framed:
  assumes "delivering timeout link" "tcp_state (sv_socket v) = CONNECTED"
    and "registered (tcp_measurement_storage_id (sv_socket v)) b"
    and "sv_packetizer v = Some p" "sh_flags (sp_header p) = f" "sh_padding (sp_header p) = pad"
    and "list_all (\<lambda>a. sizeof_SimpleHeader + length (fa_data a) < 2 ^ 32) as"
  shows "\<exists>b' v'. send_frames (Suc (Suc n)) clk link timeout as v b
      = Some (concat (map wire_frame (framed_all pad f as)), Inr b', v')"
  using assms(2-)
proof (induction as arbitrary: v b p f)
  case (Cons a as)
  obtain b' p' where one: "send_packet (Suc (Suc n)) clk link (fa_data a) (fa_id a) (fa_eos a) (fa_ts a)
        (fa_pose a) (fa_save a) True timeout v b
      = Some (wire_frame (framed pad f a), Inr b', v\<lparr>sv_packetizer := Some p'\<rparr>)"
      "registered (tcp_measurement_storage_id (sv_socket v)) b'"
      "sh_flags (sp_header p') = collected_flags f a" "sh_padding (sp_header p') = pad"
    using send_packet_framed [OF assms(1) Cons.prems(1-5), of a n clk] Cons.prems(6) by auto
  obtain b2 v2 where "send_frames (Suc (Suc n)) clk link timeout as (v\<lparr>sv_packetizer := Some p'\<rparr>) b'
      = Some (concat (map wire_frame (framed_all pad (collected_flags f a) as)), Inr b2, v2)"
    using Cons.IH [of "v\<lparr>sv_packetizer := Some p'\<rparr>" b' p' "collected_flags f a"] Cons.prems one by auto
  with one(1) show ?case by simp
qed simp

section \<open>What the client makes of it\<close>

text \<open>
  The calls of the client's threads: \<open>update\<close>, with what \<open>recv\<close> gives until there is nothing left, and the
  next call of the rendering thread, which receives a frame or releases the one that it holds. A call
  of \<open>update\<close> that has to wait for the rendering thread gives \<open>Inr None\<close>.
\<close>

datatype client_call = Update "(int \<times> bytes) list" | Read

type_synonym client_threads = "ClientVideoSocket \<times> bucket \<times> bool \<times> frame_data list"

definition client_step :: "clock_now \<Rightarrow> client_call \<Rightarrow> client_threads \<Rightarrow> client_threads option result" where
  "client_step clk c st =
     (case st of (v, b, held, out) \<Rightarrow>
       (case c of
          Update ps \<Rightarrow>
            (case client_update clk (map (\<lambda>(t, p). (t, Done p)) ps @ [(0, Error EWOULDBLOCK)]) v b of
               None \<Rightarrow> Inr None
             | Some (Inl f, _) \<Rightarrow> Inl f
             | Some (Inr b', v') \<Rightarrow> Inr (Some (v', b', held, out)))
        | Read \<Rightarrow>
            if held then map_sum id (\<lambda>v'. Some (v', b, False, out)) (video_release_frame_data v)
            else map_sum id (\<lambda>(f, v'). case f of None \<Rightarrow> Some (v', b, False, out)
                                      | Some x \<Rightarrow> Some (v', b, True, out @ [x])) (receive_packet v)))"

fun client_run :: "clock_now \<Rightarrow> client_call list \<Rightarrow> client_threads \<Rightarrow> client_threads option result" where
  "client_run clk [] st = Inr (Some st)"
| "client_run clk (c # cs) st =
     (case client_step clk c st of Inl f \<Rightarrow> Inl f | Inr None \<Rightarrow> Inr None
      | Inr (Some st') \<Rightarrow> client_run clk cs st')"

text \<open>What these calls do to the depacketizer.\<close>

fun thread_ops :: "client_call \<Rightarrow> thread_op list" where
  "thread_ops (Update ps) = map (\<lambda>(t, p). Add t p) ps"
| "thread_ops Read = [Reader]"

definition drain_calls :: "client_call list" where
  "drain_calls = replicate (2 * QUEUE_CAPACITY) Read"

lemma drain_thread_ops: "concat (map thread_ops drain_calls) = drain_ops"
proof -
  have "concat (map thread_ops (replicate n Read)) = replicate n Reader" for n
    by (induction n) simp_all
  then show ?thesis by (simp add: drain_calls_def drain_ops_def)
qed

lemma client_update_adds:
  assumes "tcp_state (cv_socket v) = CONNECTED" "registered (tcp_measurement_storage_id (cv_socket v)) b"
    and "cv_depacketizer v = Some d"
    and "run_ops (map (\<lambda>(t, p). Add t p) ps) (d, held, out) = Inr (Some (d', held', out'))"
  shows "held' = held \<and> out' = out
    \<and> (\<exists>b'. client_update clk (map (\<lambda>(t, p). (t, Done p)) ps @ [(0, Error EWOULDBLOCK)]) v b
              = Some (Inr b', v\<lparr>cv_depacketizer := Some d'\<rparr>)
          \<and> registered (tcp_measurement_storage_id (cv_socket v)) b')"
  using assms
proof (induction ps arbitrary: v b d)
  case Nil
  then show ?case
    by (auto simp: tcp_is_connected_def tcp_receive_def errno_defs)
next
  case (Cons x ps)
  obtain t p where x: "x = (t, p)" by fastforce
  obtain d1 where d1: "add_packet t p d = Some d1"
      "run_ops (map (\<lambda>(t, p). Add t p) ps) (d1, held, out) = Inr (Some (d', held', out'))"
    using Cons.prems(4) by (auto simp: x run_op_def split: option.splits)
  obtain b1 where b1: "count_received clk (tcp_measurement_storage_id (cv_socket v)) (length p) b = Inr b1"
      "registered (tcp_measurement_storage_id (cv_socket v)) b1"
    using count_registered(2) [OF Cons.prems(2)] by blast
  have "client_update clk (map (\<lambda>(t, p). (t, Done p)) (x # ps) @ [(0, Error EWOULDBLOCK)]) v b
      = client_update clk (map (\<lambda>(t, p). (t, Done p)) ps @ [(0, Error EWOULDBLOCK)]) (v\<lparr>cv_depacketizer := Some d1\<rparr>) b1"
    using Cons.prems(1,3) d1(1) b1(1) by (simp add: x tcp_is_connected_def tcp_receive_def)
  with Cons.IH [of "v\<lparr>cv_depacketizer := Some d1\<rparr>" b1 d1] Cons.prems(1) b1(2) d1(2) show ?case by simp
qed

lemma client_run_ops:
  assumes "tcp_state (cv_socket v) = CONNECTED" "registered (tcp_measurement_storage_id (cv_socket v)) b"
    and "cv_depacketizer v = Some d"
    and "run_ops (concat (map thread_ops cs)) (d, held, out) = Inr (Some (d', held', out'))"
  shows "\<exists>b'. client_run clk cs (v, b, held, out) = Inr (Some (v\<lparr>cv_depacketizer := Some d'\<rparr>, b', held', out'))"
  using assms
proof (induction cs arbitrary: v b d held out)
  case (Cons c cs)
  obtain d1 h1 o1 where one: "run_ops (thread_ops c) (d, held, out) = Inr (Some (d1, h1, o1))"
      "run_ops (concat (map thread_ops cs)) (d1, h1, o1) = Inr (Some (d', held', out'))"
    using Cons.prems(4) by (auto simp: run_ops_append split: sum.splits option.splits)
  have "\<exists>b1. client_step clk c (v, b, held, out) = Inr (Some (v\<lparr>cv_depacketizer := Some d1\<rparr>, b1, h1, o1))
      \<and> registered (tcp_measurement_storage_id (cv_socket v)) b1"
  proof (cases c)
    case (Update ps)
    then show ?thesis
      using client_update_adds [OF Cons.prems(1-3), of ps held out d1 h1 o1 clk] one(1)
      by (auto simp: client_step_def)
  next
    case Read
    then show ?thesis
      using one(1) Cons.prems(2,3)
      by (cases "release_frame_data d"; cases "receive_frame_data d")
        (auto simp: client_step_def run_op_def receive_packet_def video_release_frame_data_def
          split: if_splits option.splits)
  qed
  then obtain b1 where "client_step clk c (v, b, held, out) = Inr (Some (v\<lparr>cv_depacketizer := Some d1\<rparr>, b1, h1, o1))"
      "registered (tcp_measurement_storage_id (cv_socket v)) b1" by blast
  with Cons.IH [of "v\<lparr>cv_depacketizer := Some d1\<rparr>" b1 d1 h1 o1] Cons.prems(1) one(2) show ?case by simp
qed simp

section \<open>Properties\<close>

text \<open>What both ends agree on, apart from the two flags.\<close>

definition video_content :: "payload \<Rightarrow> u32 \<times> u32 \<times> u32 \<times> bytes" where
  "video_content p = (case p of (i, ts, pose, eos, save, d) \<Rightarrow> (i, ts, pose, d))"

lemma framed_content:
  "map (\<lambda>f. video_content (sent_payload f)) (framed_all pad f as)
     = map (\<lambda>a. (fa_id a, fa_ts a, fa_pose a, fa_data a)) as"
  by (induction as arbitrary: f) (simp_all add: sent_payload_def framed_def video_content_def Let_def)

lemma framed_lengths:
  "map frame_length (framed_all pad f as) = map (\<lambda>a. sizeof_SimpleHeader + length (fa_data a)) as"
  by (induction as arbitrary: f) (simp_all add: wire_frame_def framed_def sizeof_SimpleHeader_def)

lemma flag_bits:
  "(x OR END_OF_FRAME) AND SAVE_FRAME = x AND SAVE_FRAME"
  "(x OR END_OF_FRAME) AND END_OF_STREAM = x AND END_OF_STREAM"
  "(x OR SAVE_FRAME) AND SAVE_FRAME = SAVE_FRAME"
  "(x OR SAVE_FRAME) AND END_OF_STREAM = x AND END_OF_STREAM"
  "(x OR END_OF_STREAM) AND END_OF_STREAM = END_OF_STREAM"
  "(x OR END_OF_STREAM) AND SAVE_FRAME = x AND SAVE_FRAME"
  by (rule bit_word_eqI, auto simp: END_OF_FRAME_def SAVE_FRAME_def END_OF_STREAM_def bit_simps)+

lemma collected_bits:
  "collected_flags f a AND SAVE_FRAME = SAVE_FRAME \<longleftrightarrow> f AND SAVE_FRAME = SAVE_FRAME \<or> fa_save a"
  "collected_flags f a AND END_OF_STREAM = END_OF_STREAM \<longleftrightarrow> f AND END_OF_STREAM = END_OF_STREAM \<or> fa_eos a"
  by (auto simp: collected_flags_def Let_def flag_bits)

lemma framed_flags:
  "i < length as \<Longrightarrow>
     (sh_flags (fst (framed_all pad f as ! i)) AND SAVE_FRAME = SAVE_FRAME
        \<longleftrightarrow> f AND SAVE_FRAME = SAVE_FRAME \<or> list_ex fa_save (take (Suc i) as))
     \<and> (sh_flags (fst (framed_all pad f as ! i)) AND END_OF_STREAM = END_OF_STREAM
        \<longleftrightarrow> f AND END_OF_STREAM = END_OF_STREAM \<or> list_ex fa_eos (take (Suc i) as))"
proof (induction as arbitrary: i f)
  case (Cons a as)
  have "(0 :: u8) AND x = 0" for x by simp
  then show ?case
    using Cons by (cases i) (auto simp: framed_def collected_bits)
qed simp

lemma length_framed_all [simp]: "length (framed_all pad f as) = length as"
  by (induction as arbitrary: f) simp_all

definition example_server_socket :: ServerVideoSocket where
  "example_server_socket = \<lparr>sv_socket = example_socket, sv_peer_addr = any_addr,
     sv_packetizer = Some (create_simple_packetizer (0, 0, 0))\<rparr>"

definition example_args :: frame_args where
  "example_args = \<lparr>fa_data = [1, 2], fa_id = 7, fa_eos = False, fa_ts = 9, fa_pose = 8, fa_save = True\<rparr>"

definition example_calls :: "client_call list" where
  "example_calls = [Update [(0, take 21 (wire_frame (framed (0, 0, 0) 0 example_args)))], Read, Read,
     Update [(1, [2]), (2, [])], Read]"

definition example_client_socket :: ClientVideoSocket where
  "example_client_socket = \<lparr>cv_socket = example_socket, cv_peer_addr = any_addr,
     cv_depacketizer = Some create_simple_depacketizer\<rparr>"

lemma frames_received:
  assumes size: "list_all (\<lambda>a. sizeof_SimpleHeader + length (fa_data a) < 2 ^ 32) as"
    and c: "tcp_state (cv_socket c) = CONNECTED" "registered (tcp_measurement_storage_id (cv_socket c)) cb"
      "cv_depacketizer c = Some create_simple_depacketizer"
    and pre: "prefix (concat (packets (concat (map thread_ops calls)))) (stream (framed_all pad FLAGS_NONE as))"
      "keeps_up (concat (map thread_ops calls))"
  shows "\<exists>c' cb' held out. client_run clk (calls @ drain_calls) (c, cb, False, []) = Inr (Some (c', cb', held, out))
    \<and> map (\<lambda>f. video_content (received_payload f)) out
        = map (\<lambda>a. (fa_id a, fa_ts a, fa_pose a, fa_data a))
            (take (completed (map (\<lambda>a. sizeof_SimpleHeader + length (fa_data a)) as) 0
               (map length (packets (concat (map thread_ops calls))))) as)
    \<and> (concat (packets (concat (map thread_ops calls))) = stream (framed_all pad FLAGS_NONE as)
        \<and> (\<forall>a \<in> set as. \<forall>p \<in> set (packets (concat (map thread_ops calls))).
             length p \<le> sizeof_SimpleHeader + length (fa_data a)) \<longrightarrow>
         map (\<lambda>f. video_content (received_payload f)) out
           = map (\<lambda>a. (fa_id a, fa_ts a, fa_pose a, fa_data a)) as)"
proof -
  define fs where "fs = framed_all pad FLAGS_NONE as"
  define ops where "ops = concat (map thread_ops calls)"
  define k where "k = completed (map (\<lambda>a. sizeof_SimpleHeader + length (fa_data a)) as) 0 (map length (packets ops))"
  have wf: "list_all wf_frame fs"
    unfolding fs_def by (rule wf_framed_all [OF size])
  have k: "k = completed (map frame_length fs) 0 (map length (packets ops))"
    unfolding k_def fs_def framed_lengths ..
  obtain d' h' out where run: "run_ops (ops @ drain_ops) start = Inr (Some (d', h', out))"
      "map received_payload out = map sent_payload (take k fs)"
    using frames_come_out [OF wf pre [folded fs_def ops_def]] unfolding k by blast
  obtain cb' where "client_run clk (calls @ drain_calls) (c, cb, False, [])
      = Inr (Some (c\<lparr>cv_depacketizer := Some d'\<rparr>, cb', h', out))"
    using client_run_ops [OF c, of "calls @ drain_calls" False "[]" d' h' out clk] run(1)
    by (auto simp: drain_thread_ops start_def ops_def)
  moreover have content: "map (\<lambda>f. video_content (received_payload f)) out
      = map (\<lambda>a. (fa_id a, fa_ts a, fa_pose a, fa_data a)) (take k as)"
    using arg_cong [OF run(2), of "map video_content"] framed_content [of pad FLAGS_NONE as]
    by (simp add: comp_def fs_def flip: take_map)
  moreover have "map (\<lambda>f. video_content (received_payload f)) out
      = map (\<lambda>a. (fa_id a, fa_ts a, fa_pose a, fa_data a)) as"
    if "concat (packets ops) = stream fs"
      "\<forall>a \<in> set as. \<forall>p \<in> set (packets ops). length p \<le> sizeof_SimpleHeader + length (fa_data a)"
  proof -
    have "\<forall>l \<in> set (map frame_length fs). \<forall>p \<in> set (packets ops). length p \<le> l"
      using that(2) unfolding fs_def framed_lengths by auto
    then have "k = length as"
      using all_completed [OF wf that(1)] by (auto simp: k fs_def)
    then show ?thesis using content by simp
  qed
  ultimately show ?thesis
    unfolding k_def ops_def fs_def by blast
qed

text \<open>C1: video over TCP, end to end. The server sends frames through its packetizer over a link that
  takes every packet in the end; the client receives a prefix of those bytes in any pieces, between any
  calls of its rendering thread, which keeps up. Then, after its next calls, the rendering thread has
  got exactly the frames that the pieces completed, each once and in order, with identifier,
  timestamps and data intact; these are all the frames sent when all bytes have arrived and no piece is
  longer than a frame with its header.\<close>

theorem video_end_to_end:
  assumes "delivering timeout link" "tcp_state (sv_socket v) = CONNECTED"
    and "registered (tcp_measurement_storage_id (sv_socket v)) b"
    and "sv_packetizer v = Some (create_simple_packetizer pad)"
    and "list_all (\<lambda>a. sizeof_SimpleHeader + length (fa_data a) < 2 ^ 32) as"
    and "tcp_state (cv_socket c) = CONNECTED" "registered (tcp_measurement_storage_id (cv_socket c)) cb"
    and "cv_depacketizer c = Some create_simple_depacketizer"
  shows "\<exists>wire b' v'. send_frames (Suc (Suc n)) clk link timeout as v b = Some (wire, Inr b', v')
     \<and> (\<forall>calls. let ps = packets (concat (map thread_ops calls)) in
          prefix (concat ps) wire \<and> keeps_up (concat (map thread_ops calls)) \<longrightarrow>
          (\<exists>c' cb' held out. client_run clk' (calls @ drain_calls) (c, cb, False, []) = Inr (Some (c', cb', held, out))
            \<and> map (\<lambda>f. video_content (received_payload f)) out
                = map (\<lambda>a. (fa_id a, fa_ts a, fa_pose a, fa_data a))
                    (take (completed (map (\<lambda>a. sizeof_SimpleHeader + length (fa_data a)) as) 0 (map length ps)) as)
            \<and> (concat ps = wire
                \<and> (\<forall>a \<in> set as. \<forall>p \<in> set ps. length p \<le> sizeof_SimpleHeader + length (fa_data a)) \<longrightarrow>
                 map (\<lambda>f. video_content (received_payload f)) out
                   = map (\<lambda>a. (fa_id a, fa_ts a, fa_pose a, fa_data a)) as)))"
proof -
  define fs where "fs = framed_all pad FLAGS_NONE as"
  obtain b' v' where sent: "send_frames (Suc (Suc n)) clk link timeout as v b = Some (stream fs, Inr b', v')"
    using send_frames_framed [OF assms(1-4) refl refl assms(5), of n clk]
    by (auto simp: fs_def create_simple_packetizer_def)
  show ?thesis
    by (rule exI, rule exI, rule exI, rule conjI [OF sent], unfold Let_def fs_def, intro allI impI, elim conjE)
      (rule frames_received [OF assms(5-8)])
qed

lemma example_args_eqs:
  "map (\<lambda>a. (fa_id a, fa_ts a, fa_pose a, fa_data a)) [example_args] = [(7, 9, 8, [1, 2])]"
  "(\<forall>a \<in> set [example_args]. \<forall>p \<in> P. length p \<le> sizeof_SimpleHeader + length (fa_data a)) \<longleftrightarrow> (\<forall>p \<in> P. length p \<le> 22)"
  by (simp_all add: example_args_def sizeof_SimpleHeader_def)

theorem video_end_to_end_witness:
  "\<exists>c' cb' held out. client_run (\<lambda>_. 0) (example_calls @ drain_calls) (example_client_socket, None, False, [])
        = Inr (Some (c', cb', held, out))
     \<and> map (\<lambda>f. video_content (received_payload f)) out = [(7, 9, 8, [1, 2])]"
proof -
  have link: "delivering 0 (\<lambda>_ p. [(0, Done (length p))])"
    by (simp add: delivering_def)
  have conn: "tcp_state (sv_socket example_server_socket) = CONNECTED"
      "registered (tcp_measurement_storage_id (sv_socket example_server_socket)) None"
      "sv_packetizer example_server_socket = Some (create_simple_packetizer (0, 0, 0))"
    by (simp_all add: example_server_socket_def example_socket_def registered_def)
  have cl: "tcp_state (cv_socket example_client_socket) = CONNECTED"
      "registered (tcp_measurement_storage_id (cv_socket example_client_socket)) None"
      "cv_depacketizer example_client_socket = Some create_simple_depacketizer"
    by (simp_all add: example_client_socket_def example_socket_def registered_def)
  have size: "list_all (\<lambda>a. sizeof_SimpleHeader + length (fa_data a) < 2 ^ 32) [example_args]"
    by (simp add: example_args_def sizeof_SimpleHeader_def)
  let ?w = "wire_frame (framed (0, 0, 0) 0 example_args)"
  have w: "?w = take 21 ?w @ [2]" "length ?w = 22"
    by (simp_all add: wire_frame_def framed_def example_args_def)
  have got: "concat (packets (concat (map thread_ops example_calls))) = ?w"
    using w(1) by (simp add: example_calls_def)
  have up: "keeps_up (concat (map thread_ops example_calls))"
    by (rule keeps_up_few) (simp add: example_calls_def QUEUE_CAPACITY_def)
  have small: "\<forall>p \<in> set (packets (concat (map thread_ops example_calls))). length p \<le> 22"
    by (simp add: example_calls_def)
  show ?thesis
    using video_end_to_end [OF link conn size cl, of 0 "\<lambda>_. 0" "\<lambda>_. 0"]
  proof (elim exE conjE, goal_cases)
    case (1 wire b' v')
    have "wire = ?w"
      using 1(1) send_frames_framed [OF link conn refl refl size, of 0 "\<lambda>_. 0"]
      by (simp add: create_simple_packetizer_def FLAGS_NONE_def)
    note 1(2) [THEN spec [of _ example_calls], unfolded Let_def this got example_args_eqs, THEN mp,
        OF conjI [OF prefix_order.order_refl up]]
    then show ?case
    proof (elim exE conjE, goal_cases)
      case (1 c' cb' held out)
      show ?case
        by (intro exI conjI) (rule 1(1), rule 1(3) [THEN mp, OF conjI [OF refl small]])
    qed
  qed
qed

text \<open>The packetizer never clears its flags, so a frame carries the save flag exactly when it or any
  frame before it was to be saved, and likewise the end-of-stream flag.\<close>

theorem flags_stick:
  assumes "i < length as"
  shows "(case sent_payload (framed_all pad FLAGS_NONE as ! i) of (_, _, _, eos, save, _) \<Rightarrow>
      (save \<longleftrightarrow> list_ex fa_save (take (Suc i) as)) \<and> (eos \<longleftrightarrow> list_ex fa_eos (take (Suc i) as)))"
  using framed_flags [OF assms, of pad FLAGS_NONE]
  by (simp add: sent_payload_def Let_def FLAGS_NONE_def SAVE_FRAME_def END_OF_STREAM_def)

theorem flags_stick_witness:
  "fst (snd (snd (snd (snd (sent_payload (framed_all (0, 0, 0) FLAGS_NONE
     [example_args, example_args\<lparr>fa_save := False\<rparr>] ! 1))))))"
  using flags_stick [of 1 "[example_args, example_args\<lparr>fa_save := False\<rparr>]" "(0, 0, 0)"]
  by (simp add: example_args_def split: prod.splits)

text \<open>When the peer shuts the connection down, \<open>recv\<close> returns no bytes and no error; \<open>receive\<close> takes that
  for a message of length 0 and stays connected, so the loops of \<open>update\<close> and \<open>flush\<close> never return,
  however often it is called. An error result ends them.\<close>

theorem update_hangs_on_shutdown:
  assumes "tcp_state (cv_socket v) = CONNECTED" "cv_depacketizer v \<noteq> None"
    and "registered (tcp_measurement_storage_id (cv_socket v)) b"
  shows "client_update clk (map (\<lambda>t. (t, Done [])) ts) v b = None
    \<and> video_flush clk (replicate k (Done [])) v b = None
    \<and> client_update clk [(t, Error EWOULDBLOCK)] v b = Some (Inr b, v)
    \<and> (\<exists>v'. client_update clk [(t, Error ECONNRESET)] v b = Some (Inr b, v')
          \<and> (tcp_socket (cv_socket v) \<noteq> None \<longrightarrow> \<not> tcp_is_connected (cv_socket v')))"
proof (intro conjI)
  show "client_update clk (map (\<lambda>t. (t, Done [])) ts) v b = None"
    using assms
  proof (induction ts arbitrary: v b)
    case (Cons t ts)
    obtain b' where "count_received clk (tcp_measurement_storage_id (cv_socket v)) 0 b = Inr b'"
        "registered (tcp_measurement_storage_id (cv_socket v)) b'"
      using count_registered(2) [OF Cons.prems(3)] by blast
    then show ?case
      using Cons by (auto simp: tcp_is_connected_def tcp_receive_def split: option.splits)
  qed (simp add: tcp_is_connected_def)
  show "video_flush clk (replicate k (Done [])) v b = None"
    using assms
  proof (induction k arbitrary: v b)
    case (Suc k)
    obtain b' where "count_received clk (tcp_measurement_storage_id (cv_socket v)) 0 b = Inr b'"
        "registered (tcp_measurement_storage_id (cv_socket v)) b'"
      using count_registered(2) [OF Suc.prems(3)] by blast
    then show ?case
      using Suc by (auto simp: tcp_is_connected_def tcp_receive_def)
  qed (simp add: tcp_is_connected_def)
  show "client_update clk [(t, Error EWOULDBLOCK)] v b = Some (Inr b, v)"
    using assms by (simp add: tcp_is_connected_def tcp_receive_def errno_defs)
  show "\<exists>v'. client_update clk [(t, Error ECONNRESET)] v b = Some (Inr b, v')
          \<and> (tcp_socket (cv_socket v) \<noteq> None \<longrightarrow> \<not> tcp_is_connected (cv_socket v'))"
    using assms by (auto simp: tcp_is_connected_def tcp_receive_def tcp_close_def errno_defs)
qed

theorem update_hangs_on_shutdown_witness:
  "client_update (\<lambda>_. 0) (map (\<lambda>t. (t, Done [])) [1, 2, 3]) example_client_socket None = None"
  using update_hangs_on_shutdown [of example_client_socket None "\<lambda>_. 0" "[1, 2, 3]" 0 0]
  by (simp add: example_client_socket_def example_socket_def registered_def)

end
