(* ===== verification/VrcpSocket.thy ===== *)
theory VrcpSocket
  imports Vrcp VrStructs Sockets
begin

text \<open>
  \<open>common/src/vrcp_socket.cpp\<close> and its header, first part: the state of a VRCP socket, its
  constructors, the two reception buffers that cut what arrives into packets, sending, closing and
  resetting. Connection set-up and discovery are in the theories VrcpHandshake and VrcpDiscovery.

  A UDP socket that was moved from or default-constructed has a null \<open>m_data\<close> and is \<open>None\<close>; the TCP
  socket is always constructed. The measurement bucket is shared with other sockets: \<open>vs_bucket\<close> is
  its current content. A packet handed out is a pointer into a reception buffer, here the offset of
  its first byte, with its size. Results of system calls come in scripts, one entry per call, and an
  exhausted script means that nothing more has arrived (\<open>EAGAIN\<close>).
\<close>

section \<open>State\<close>

datatype VRCPSocketState = AWAITING_CONNECTION | NEGOTIATING | VRCP_CONNECTED | VRCP_CLOSED

definition DEFAULT_RECEPTION_BUFFER_SIZE :: nat where
  "DEFAULT_RECEPTION_BUFFER_SIZE = 255 * VRCP_ROW_SIZE * 4"

text \<open>
  Heads and tails are 16-bit in the code; they stay below the buffer size plus one packet, so they
  are natural numbers here.
\<close>

record VRCPData =
  vs_state :: VRCPSocketState
  vs_tcp :: TCPSocket
  vs_udp :: "UDPSocket option"
  vs_bcast :: "UDPSocket option"
  vs_is_server :: bool
  vs_advertisement_interval_sec :: u8
  vs_local_advert_port :: u16
  vs_udp_advert_port :: u16
  vs_udp_vrcp_port :: u16
  vs_peer_udp_addr :: SocketAddr
  vs_last_advertisement_time :: u32
  vs_server_candidates :: "VRCPServerCandidate list"
  vs_bucket :: bucket
  vs_tcp_buffer :: bytes
  vs_tcp_head :: nat
  vs_tcp_tail :: nat
  vs_udp_buffer :: bytes
  vs_udp_head :: nat
  vs_udp_tail :: nat

definition empty_buffer :: bytes where
  "empty_buffer = replicate DEFAULT_RECEPTION_BUFFER_SIZE 0"

definition create_server ::
    "socket_calls \<Rightarrow> socket_calls \<Rightarrow> u8 \<Rightarrow> u16 \<Rightarrow> u16 \<Rightarrow> u16 \<Rightarrow> bucket \<Rightarrow> VRCPData result" where
  "create_server tcp_calls bcast_calls interval udp_vrcp_port local_advert_port udp_advert_port b =
     (case new_TCPSocket tcp_calls True VRCP_TCP_SOCKET b of Inl f \<Rightarrow> Inl f
      | Inr (tcp, b1) \<Rightarrow>
        (case new_UDPSocket bcast_calls True True VRCP_BCAST_SOCKET b1 of Inl f \<Rightarrow> Inl f
         | Inr (bcast, b2) \<Rightarrow>
           Inr \<lparr>vs_state = AWAITING_CONNECTION, vs_tcp = tcp, vs_udp = None, vs_bcast = Some bcast,
                vs_is_server = True, vs_advertisement_interval_sec = interval,
                vs_local_advert_port = local_advert_port, vs_udp_advert_port = udp_advert_port,
                vs_udp_vrcp_port = udp_vrcp_port, vs_peer_udp_addr = any_addr,
                vs_last_advertisement_time = 0, vs_server_candidates = [], vs_bucket = b2,
                vs_tcp_buffer = empty_buffer, vs_tcp_head = 0, vs_tcp_tail = 0,
                vs_udp_buffer = empty_buffer, vs_udp_head = 0, vs_udp_tail = 0\<rparr>))"

definition create_client ::
    "socket_calls \<Rightarrow> socket_calls \<Rightarrow> u16 \<Rightarrow> u16 \<Rightarrow> bucket \<Rightarrow> VRCPData result" where
  "create_client tcp_calls bcast_calls udp_vrcp_port udp_advert_port b =
     (case new_TCPSocket tcp_calls True VRCP_TCP_SOCKET b of Inl f \<Rightarrow> Inl f
      | Inr (tcp, b1) \<Rightarrow>
        (case new_UDPSocket bcast_calls True True VRCP_BCAST_SOCKET b1 of Inl f \<Rightarrow> Inl f
         | Inr (bcast, b2) \<Rightarrow>
           Inr \<lparr>vs_state = AWAITING_CONNECTION, vs_tcp = tcp, vs_udp = None, vs_bcast = Some bcast,
                vs_is_server = False, vs_advertisement_interval_sec = 0,
                vs_local_advert_port = PORT_AUTO, vs_udp_advert_port = udp_advert_port,
                vs_udp_vrcp_port = udp_vrcp_port, vs_peer_udp_addr = any_addr,
                vs_last_advertisement_time = 0, vs_server_candidates = [], vs_bucket = b2,
                vs_tcp_buffer = empty_buffer, vs_tcp_head = 0, vs_tcp_tail = 0,
                vs_udp_buffer = empty_buffer, vs_udp_head = 0, vs_udp_tail = 0\<rparr>))"

section \<open>Texts\<close>

text \<open>
  For a video mode mismatch the error data is passed to the unqualified \<open>to_string\<close>; among its
  overloads a byte only converts to an IPv4 address.
\<close>

definition reject_reason_to_string :: "VRCPRejectReason \<Rightarrow> u8 \<Rightarrow> string" where
  "reject_reason_to_string reason err_data =
     (if reason = GENERIC_ERROR then ''Generic error. Error data: '' @ string_of_nat (unat err_data)
      else if reason = VERSION_MISMATCH
      then ''Version mismatch. Expected version: '' @ string_of_nat (unat err_data)
      else if reason = INVALID_VRCP_PORT then ''Invalid VRCP port''
      else if reason = INVALID_VIDEO_PORT then ''Invalid video port''
      else if reason = INVALID_EYE_SIZE then ''Invalid eye size''
      else if reason = INVALID_REFRESH_RATE then ''Invalid refresh rate''
      else if reason = INVALID_MANUFACTURER_NAME then ''Invalid manufacturer name''
      else if reason = INVALID_SYSTEM_NAME then ''Invalid system name''
      else if reason = INVALID_VIDEO_CODECS then ''Invalid video codecs''
      else if reason = NO_SUPPORTED_VIDEO_CODEC then ''No supported video codec''
      else if reason = VIDEO_MODE_MISMATCH
      then ''Video mode mismatch. Expected mode: '' @ inet_addr_to_string (ucast err_data)
      else ''Unknown reason. Reason code: '' @ string_of_nat (unat (reason_u8 reason))
        @ ''. Error data: '' @ string_of_nat (unat err_data))"

fun field_type_to_string :: "VRCPFieldType \<Rightarrow> string" where
  "field_type_to_string CONN_REQ = ''CONN_REQ''"
| "field_type_to_string CONN_ACCEPT = ''CONN_ACCEPT''"
| "field_type_to_string CONN_REJECT = ''CONN_REJECT''"
| "field_type_to_string INPUT_DATA = ''INPUT_DATA''"
| "field_type_to_string MANUFACTURER_NAME_TLV = ''MANUFACTURER_NAME_TLV''"
| "field_type_to_string SYSTEM_NAME_TLV = ''SYSTEM_NAME_TLV''"
| "field_type_to_string SUPPORTED_VIDEO_CODECS_TLV = ''SUPPORTED_VIDEO_CODECS_TLV''"
| "field_type_to_string CHOSEN_VIDEO_CODEC_TLV = ''CHOSEN_VIDEO_CODEC_TLV''"
| "field_type_to_string SERVER_ADVERTISEMENT = ''SERVER_ADVERTISEMENT''"
| "field_type_to_string USER_DATA = ''USER_DATA''"
| "field_type_to_string PING = ''PING''"
| "field_type_to_string PING_REPLY = ''PING_REPLY''"
| "field_type_to_string SYNC_FINISHED = ''SYNC_FINISHED''"
| "field_type_to_string _ = ''INVALID''"

text \<open>The enumeration's underlying byte, which may hold any value.\<close>

definition video_mode_to_string :: "u8 \<Rightarrow> string" where
  "video_mode_to_string b =
     (if b = video_mode_u8 VM_UDP then ''UDP'' else if b = video_mode_u8 VM_TCP then ''TCP'' else ''INVALID'')"

section \<open>Cutting the TCP stream into packets\<close>

definition sizeof_VRCPBaseHeader :: nat where
  "sizeof_VRCPBaseHeader = 4"

text \<open>The difference of the two indices is an \<open>int\<close> that is compared as a \<open>size_t\<close>.\<close>

definition buffered :: "nat \<Rightarrow> nat \<Rightarrow> nat" where
  "buffered head tail = (if tail < head then 2 ^ 64 - (head - tail) else tail - head)"

text \<open>The size of the packet that starts with the given bytes, from its row count.\<close>

definition packet_length :: "bytes \<Rightarrow> nat" where
  "packet_length bs =
     (let n = unat (load8 (drop 1 bs)) * VRCP_ROW_SIZE in if n = 0 then VRCP_ROW_SIZE else n)"

definition next_tcp_packet :: "VRCPData \<Rightarrow> (nat \<times> nat) option \<times> VRCPData" where
  "next_tcp_packet d =
     (let head = vs_tcp_head d; tail = vs_tcp_tail d in
      if buffered head tail \<ge> sizeof_VRCPBaseHeader
      then let len = packet_length (drop head (vs_tcp_buffer d)) in
        if buffered head tail \<ge> len
        then (Some (head, len),
              if head + len = tail then d\<lparr>vs_tcp_head := 0, vs_tcp_tail := 0\<rparr>
              else d\<lparr>vs_tcp_head := head + len\<rparr>)
        else (None, d)
      else (None, d))"

text \<open>An incomplete packet moves to the front of the buffer.\<close>

definition compact :: "VRCPData \<Rightarrow> VRCPData" where
  "compact d =
     (if vs_tcp_head d > 0
      then d\<lparr>vs_tcp_buffer := write_at 0
               (take (vs_tcp_tail d - vs_tcp_head d) (drop (vs_tcp_head d) (vs_tcp_buffer d))) (vs_tcp_buffer d),
             vs_tcp_tail := vs_tcp_tail d - vs_tcp_head d, vs_tcp_head := 0\<rparr>
      else d)"

fun next_result :: "'a sys list \<Rightarrow> 'a sys \<times> 'a sys list" where
  "next_result [] = (Error EAGAIN, [])"
| "next_result (r # rs) = (r, rs)"

definition receive_at_tail ::
    "clock_now \<Rightarrow> bytes sys list \<Rightarrow> VRCPData \<Rightarrow> (nat \<times> nat) option result \<times> bytes sys list \<times> VRCPData" where
  "receive_at_tail clk script d =
     (if \<not> tcp_is_connected (vs_tcp d) then (Inl (RuntimeError ''Socket is not connected''), script, d)
      else case next_result script of (r, rs) \<Rightarrow>
        (case tcp_receive clk r (vs_tcp d) (vs_bucket d) of
           (Inl f, s) \<Rightarrow> (Inl f, rs, d\<lparr>vs_tcp := s\<rparr>)
         | (Inr (None, b), s) \<Rightarrow> (Inr None, rs, d\<lparr>vs_tcp := s, vs_bucket := b\<rparr>)
         | (Inr (Some bs, b), s) \<Rightarrow>
             (case next_tcp_packet (d\<lparr>vs_tcp := s, vs_bucket := b,
                  vs_tcp_buffer := write_at (vs_tcp_tail d) bs (vs_tcp_buffer d),
                  vs_tcp_tail := vs_tcp_tail d + length bs\<rparr>) of
                (p, d') \<Rightarrow> (Inr p, rs, d'))))"

definition reliable_receive ::
    "clock_now \<Rightarrow> bytes sys list \<Rightarrow> VRCPData \<Rightarrow> (nat \<times> nat) option result \<times> bytes sys list \<times> VRCPData" where
  "reliable_receive clk script d =
     (case next_tcp_packet d of
        (Some p, d') \<Rightarrow> (Inr (Some p), script, d')
      | (None, d') \<Rightarrow> receive_at_tail clk script (compact d'))"

section \<open>Cutting datagrams into packets\<close>

text \<open>The row count is read inside the array as long as the head is; nothing else guards the head.\<close>

definition next_udp_packet :: "VRCPData \<Rightarrow> (nat \<times> nat) option result \<times> VRCPData" where
  "next_udp_packet d =
     (let head = vs_udp_head d; tail = vs_udp_tail d; dropped = d\<lparr>vs_udp_head := 0, vs_udp_tail := 0\<rparr> in
      if buffered head tail \<ge> sizeof_VRCPBaseHeader
      then if head + 1 \<ge> length (vs_udp_buffer d)
        then (Inl (UndefinedBehaviour ''read past the UDP reception buffer''), d)
        else let len = packet_length (drop head (vs_udp_buffer d)) in
          if tail \<ge> len
          then (Inr (Some (head, len)),
                if head + len = tail then dropped else d\<lparr>vs_udp_head := head + len\<rparr>)
          else (Inr None, dropped)
      else (Inr None, dropped))"

text \<open>
  The loop over datagrams. One that comes from somebody else has overwritten the buffer but is
  not counted in the tail.
\<close>

fun receive_datagrams ::
    "clock_now \<Rightarrow> (bytes \<times> SocketAddr) sys list \<Rightarrow> VRCPData
     \<Rightarrow> (nat \<times> nat) option result \<times> (bytes \<times> SocketAddr) sys list \<times> VRCPData" where
  "receive_datagrams clk [] d =
     (case vs_udp d of None \<Rightarrow> (Inl (UndefinedBehaviour ''null UDP socket''), [], d)
      | Some u \<Rightarrow> (Inr None, [], d))"
| "receive_datagrams clk (r # rs) d =
     (case vs_udp d of None \<Rightarrow> (Inl (UndefinedBehaviour ''null UDP socket''), r # rs, d)
      | Some u \<Rightarrow>
        if \<not> udp_is_open u then (Inr None, r # rs, d)
        else (case udp_receive_from clk r u (vs_bucket d) of
            Inl f \<Rightarrow> (Inl f, rs, d)
          | Inr (None, b) \<Rightarrow> (Inr None, rs, d\<lparr>vs_bucket := b\<rparr>)
          | Inr (Some (bs, sender), b) \<Rightarrow>
              let d1 = d\<lparr>vs_bucket := b, vs_udp_buffer := write_at 0 bs (vs_udp_buffer d)\<rparr> in
              if sender = vs_peer_udp_addr d
              then (case next_udp_packet (d1\<lparr>vs_udp_tail := vs_udp_tail d1 + length bs\<rparr>) of
                      (p, d') \<Rightarrow> (p, rs, d'))
              else receive_datagrams clk rs d1))"

definition unreliable_receive ::
    "clock_now \<Rightarrow> (bytes \<times> SocketAddr) sys list \<Rightarrow> VRCPData
     \<Rightarrow> (nat \<times> nat) option result \<times> (bytes \<times> SocketAddr) sys list \<times> VRCPData" where
  "unreliable_receive clk script d =
     (case next_udp_packet d of
        (Inl f, d') \<Rightarrow> (Inl f, script, d')
      | (Inr (Some p), d') \<Rightarrow> (Inr (Some p), script, d')
      | (Inr None, d') \<Rightarrow> receive_datagrams clk script d')"

section \<open>Sending\<close>

text \<open>What reached the wire and the outcome; \<open>None\<close> while the send loop has not ended.\<close>

definition reliable_send ::
    "clock_now \<Rightarrow> bytes \<Rightarrow> u32 \<Rightarrow> (nat \<times> nat sys) list \<Rightarrow> VRCPData \<Rightarrow> (bytes \<times> unit result \<times> VRCPData) option" where
  "reliable_send clk packet timeout tries d =
     (case tcp_send clk packet timeout tries (vs_tcp d) (vs_bucket d) of None \<Rightarrow> None
      | Some (w, Inl f) \<Rightarrow> Some (w, Inl f, d)
      | Some (w, Inr b) \<Rightarrow> Some (w, Inr (), d\<lparr>vs_bucket := b\<rparr>))"

definition unreliable_send :: "clock_now \<Rightarrow> nat sys \<Rightarrow> VRCPData \<Rightarrow> bool result \<times> VRCPData" where
  "unreliable_send clk sendto d =
     (case vs_udp d of None \<Rightarrow> (Inl (UndefinedBehaviour ''null UDP socket''), d)
      | Some u \<Rightarrow>
        (case udp_send_to clk sendto u (vs_bucket d) of
           Inl f \<Rightarrow> (Inl f, d) | Inr (ok, b) \<Rightarrow> (Inr ok, d\<lparr>vs_bucket := b\<rparr>)))"

section \<open>Closing and resetting\<close>

definition vrcp_close :: "VRCPData \<Rightarrow> VRCPData" where
  "vrcp_close d = d\<lparr>vs_tcp := tcp_close (vs_tcp d), vs_udp := map_option udp_close (vs_udp d),
     vs_bcast := map_option udp_close (vs_bcast d), vs_state := VRCP_CLOSED\<rparr>"

definition renew_tcp :: "socket_calls \<Rightarrow> VRCPData \<Rightarrow> unit result \<times> VRCPData" where
  "renew_tcp sys d =
     (case new_TCPSocket sys True VRCP_TCP_SOCKET (vs_bucket d) of
        Inl f \<Rightarrow> (Inl f, d\<lparr>vs_tcp := tcp_close (vs_tcp d)\<rparr>)
      | Inr (s, b) \<Rightarrow> (Inr (), d\<lparr>vs_tcp := s, vs_bucket := b, vs_tcp_head := 0, vs_tcp_tail := 0\<rparr>))"

text \<open>The broadcast socket is kept when it has the wanted port; a null one is closed all the same.\<close>

definition renew_bcast :: "socket_calls \<Rightarrow> u16 \<Rightarrow> VRCPData \<Rightarrow> unit result \<times> VRCPData" where
  "renew_bcast sys wanted d =
     (case vs_bcast d of
        None \<Rightarrow> (Inl (UndefinedBehaviour ''null broadcast socket''), d)
      | Some u \<Rightarrow>
        if port (udp_local_addr u) = wanted then (Inr (), d)
        else (case new_UDPSocket sys True True VRCP_BCAST_SOCKET (vs_bucket d) of
            Inl f \<Rightarrow> (Inl f, d\<lparr>vs_bcast := Some (udp_close u)\<rparr>)
          | Inr (u', b) \<Rightarrow> (Inr (), d\<lparr>vs_bcast := Some u', vs_bucket := b\<rparr>)))"

definition reset_client :: "socket_calls \<Rightarrow> socket_calls \<Rightarrow> VRCPData \<Rightarrow> unit result \<times> VRCPData" where
  "reset_client tcp_calls bcast_calls d =
     (if vs_state d = AWAITING_CONNECTION then (Inr (), d)
      else case renew_tcp tcp_calls d of
          (Inl f, d1) \<Rightarrow> (Inl f, d1)
        | (Inr _, d1) \<Rightarrow>
          (case renew_bcast bcast_calls (vs_udp_advert_port d1) d1 of
             (Inl f, d2) \<Rightarrow> (Inl f, d2)
           | (Inr _, d2) \<Rightarrow>
               (Inr (), d2\<lparr>vs_udp_head := 0, vs_udp_tail := 0, vs_state := AWAITING_CONNECTION\<rparr>)))"

definition reset_server :: "socket_calls \<Rightarrow> socket_calls \<Rightarrow> VRCPData \<Rightarrow> unit result \<times> VRCPData" where
  "reset_server tcp_calls bcast_calls d =
     (if vs_state d = AWAITING_CONNECTION then (Inr (), d)
      else case renew_tcp tcp_calls d of
          (Inl f, d1) \<Rightarrow> (Inl f, d1)
        | (Inr _, d1) \<Rightarrow> renew_bcast bcast_calls (vs_local_advert_port d1) d1)"

section \<open>Getters\<close>

definition is_connected_refresh :: "nat sys \<Rightarrow> VRCPData \<Rightarrow> bool \<times> VRCPData" where
  "is_connected_refresh peek d =
     (if vs_state d = VRCP_CONNECTED
      then case refresh_state peek (vs_tcp d) of
          (st, s) \<Rightarrow> let d1 = d\<lparr>vs_tcp := s\<rparr> in
            (st = CONNECTED, if st \<noteq> CONNECTED then vrcp_close d1 else d1)
      else (False, d))"

definition vrcp_is_connected :: "VRCPData \<Rightarrow> bool" where
  "vrcp_is_connected d \<longleftrightarrow> vs_state d = VRCP_CONNECTED \<and> tcp_is_connected (vs_tcp d)"

definition peer_inet_addr :: "VRCPData \<Rightarrow> InetAddr" where
  "peer_inet_addr d = addr (tcp_peer_addr (vs_tcp d))"

section \<open>The packets of a byte stream\<close>

text \<open>Specification of the cutting: the complete packets of a stream, and what is left over.\<close>

function split_packets :: "bytes \<Rightarrow> bytes list \<times> bytes" where
  "split_packets bs =
     (if sizeof_VRCPBaseHeader \<le> length bs \<and> packet_length bs \<le> length bs
      then let (ps, rs) = split_packets (drop (packet_length bs) bs)
           in (take (packet_length bs) bs # ps, rs)
      else ([], bs))"
  by pat_completeness auto

lemma packet_length_bounds: "4 \<le> packet_length bs" "packet_length bs \<le> 1020"
proof -
  have "unat (load8 (drop 1 bs)) < 2 ^ 8" using unsigned_less [of "load8 (drop 1 bs)"] by simp
  then show "4 \<le> packet_length bs" "packet_length bs \<le> 1020"
    by (simp_all add: packet_length_def VRCP_ROW_SIZE_def Let_def)
qed

lemma packet_length_pos [simp]: "0 < packet_length bs"
  by (rule order.strict_trans2 [OF _ packet_length_bounds(1)]) simp

termination split_packets
proof (relation "measure length", simp, simp only: in_measure length_drop)
  fix bs :: bytes
  assume "sizeof_VRCPBaseHeader \<le> length bs \<and> packet_length bs \<le> length bs"
  then show "length bs - packet_length bs < length bs"
    by (intro diff_less) (auto simp: sizeof_VRCPBaseHeader_def)
qed

declare split_packets.simps [simp del]

lemma four_le: "packet_length bs \<le> n \<Longrightarrow> 4 \<le> n"
  using packet_length_bounds(1) by (rule order_trans)

text \<open>The row count is the second byte, so more bytes behind it change nothing.\<close>

lemma packet_length_append [simp]: "2 \<le> length bs \<Longrightarrow> packet_length (bs @ rs) = packet_length bs"
proof -
  assume "2 \<le> length bs"
  then obtain a b r where "bs = a # b # r"
    by (metis One_nat_def Suc_1 Suc_le_length_iff)
  then show ?thesis by (simp add: packet_length_def)
qed

lemma packet_length_take [simp]: "2 \<le> n \<Longrightarrow> packet_length (take n bs) = packet_length bs"
proof (cases "2 \<le> length bs")
  case True
  assume "2 \<le> n"
  with True have "2 \<le> length (take n bs)" by simp
  from packet_length_append [OF this, of "drop n bs"] show ?thesis by simp
next
  case False
  assume "2 \<le> n"
  with False show ?thesis by simp
qed

lemma split_none:
  "length bs < 4 \<or> length bs < packet_length bs \<Longrightarrow> split_packets bs = ([], bs)"
  by (subst split_packets.simps) (auto simp: sizeof_VRCPBaseHeader_def)

lemma split_some:
  "packet_length bs \<le> length bs \<Longrightarrow> split_packets bs =
     (take (packet_length bs) bs # fst (split_packets (drop (packet_length bs) bs)),
      snd (split_packets (drop (packet_length bs) bs)))"
  by (subst split_packets.simps) (simp add: sizeof_VRCPBaseHeader_def split_beta Let_def four_le)

lemma split_append:
  "split_packets (a @ b) =
     (fst (split_packets a) @ fst (split_packets (snd (split_packets a) @ b)),
      snd (split_packets (snd (split_packets a) @ b)))"
proof (induction a rule: split_packets.induct)
  case (1 a)
  show ?case
  proof (cases "packet_length a \<le> length a")
    case True
    have two: "2 \<le> length a" using four_le [OF True] by simp
    have ih: "split_packets (drop (packet_length a) a @ b) =
        (fst (split_packets (drop (packet_length a) a)) @ fst (split_packets (snd (split_packets (drop (packet_length a) a)) @ b)),
         snd (split_packets (snd (split_packets (drop (packet_length a) a)) @ b)))"
      using True four_le [OF True] by (intro 1) (simp add: sizeof_VRCPBaseHeader_def)
    have "split_packets (a @ b) =
        (take (packet_length a) a # fst (split_packets (drop (packet_length a) a @ b)),
         snd (split_packets (drop (packet_length a) a @ b)))"
      using True two split_some [of "a @ b"] by simp
    with ih split_some [OF True] show ?thesis by simp
  qed (simp add: split_none)
qed

text \<open>Well-formed packets, whose row count is their size, are found as they were sent.\<close>

definition wf_packet :: "bytes \<Rightarrow> bool" where
  "wf_packet p \<longleftrightarrow> 4 \<le> length p \<and> packet_length p = length p"

lemma split_concat: "list_all wf_packet ps \<Longrightarrow> split_packets (concat ps) = (ps, [])"
proof (induction ps)
  case (Cons p ps)
  then have "packet_length (p @ concat ps) = length p" by (simp add: wf_packet_def)
  then show ?case using Cons split_some [of "p @ concat ps"] by simp
qed (simp add: split_none)

section \<open>The reception buffer holds the unread bytes\<close>

definition tcp_ok :: "VRCPData \<Rightarrow> bool" where
  "tcp_ok d \<longleftrightarrow> length (vs_tcp_buffer d) = DEFAULT_RECEPTION_BUFFER_SIZE
     \<and> vs_tcp_head d \<le> vs_tcp_tail d \<and> vs_tcp_tail d \<le> DEFAULT_RECEPTION_BUFFER_SIZE"

definition unread :: "VRCPData \<Rightarrow> bytes" where
  "unread d = take (vs_tcp_tail d - vs_tcp_head d) (drop (vs_tcp_head d) (vs_tcp_buffer d))"

definition packet_at :: "VRCPData \<Rightarrow> nat \<times> nat \<Rightarrow> bytes" where
  "packet_at d p = take (snd p) (drop (fst p) (vs_tcp_buffer d))"

lemma buffer_size [simp]: "DEFAULT_RECEPTION_BUFFER_SIZE = 4080"
  by (simp add: DEFAULT_RECEPTION_BUFFER_SIZE_def VRCP_ROW_SIZE_def)

lemma length_unread: "tcp_ok d \<Longrightarrow> length (unread d) = vs_tcp_tail d - vs_tcp_head d"
  by (auto simp: unread_def tcp_ok_def min_def)

lemma packet_length_unread:
  "tcp_ok d \<Longrightarrow> 2 \<le> length (unread d) \<Longrightarrow>
     packet_length (drop (vs_tcp_head d) (vs_tcp_buffer d)) = packet_length (unread d)"
  by (simp add: unread_def)

lemma next_tcp_packet_spec:
  assumes "tcp_ok d"
  shows "if packet_length (unread d) \<le> length (unread d)
    then \<exists>d'. next_tcp_packet d = (Some (vs_tcp_head d, packet_length (unread d)), d')
      \<and> tcp_ok d' \<and> packet_at d' (vs_tcp_head d, packet_length (unread d)) = take (packet_length (unread d)) (unread d)
      \<and> unread d' = drop (packet_length (unread d)) (unread d)
      \<and> vs_tcp d' = vs_tcp d \<and> vs_bucket d' = vs_bucket d
    else next_tcp_packet d = (None, d)"
proof -
  have buf: "buffered (vs_tcp_head d) (vs_tcp_tail d) = length (unread d)"
    using assms by (simp add: buffered_def length_unread tcp_ok_def)
  show ?thesis
  proof (cases "packet_length (unread d) \<le> length (unread d)")
    case True
    then have four: "4 \<le> length (unread d)"
      by (rule four_le)
    define n where "n = packet_length (unread d)"
    have n: "packet_length (drop (vs_tcp_head d) (vs_tcp_buffer d)) = n"
      using four assms by (simp add: packet_length_unread n_def)
    have le: "n \<le> vs_tcp_tail d - vs_tcp_head d"
      using True assms by (simp add: n_def length_unread)
    let ?d' = "if vs_tcp_head d + n = vs_tcp_tail d then d\<lparr>vs_tcp_head := 0, vs_tcp_tail := 0\<rparr>
       else d\<lparr>vs_tcp_head := vs_tcp_head d + n\<rparr>"
    have "next_tcp_packet d = (Some (vs_tcp_head d, n), ?d')"
      using True four by (simp add: next_tcp_packet_def Let_def buf n sizeof_VRCPBaseHeader_def flip: n_def)
    moreover have "tcp_ok ?d'"
      using assms le by (auto simp: tcp_ok_def)
    moreover have "packet_at ?d' (vs_tcp_head d, n) = take n (unread d)"
      using le by (simp add: packet_at_def unread_def min_def)
    moreover have "unread ?d' = drop n (unread d)"
      using assms le by (auto simp: unread_def tcp_ok_def drop_take add.commute)
    ultimately show ?thesis using True unfolding n_def [symmetric] by simp
  next
    case False
    then show ?thesis
      using assms by (auto simp: next_tcp_packet_def Let_def buf sizeof_VRCPBaseHeader_def packet_length_unread)
  qed
qed

definition rx_ok :: "VRCPData \<Rightarrow> bool" where
  "rx_ok d \<longleftrightarrow> tcp_ok d \<and> tcp_is_connected (vs_tcp d)
     \<and> registered (tcp_measurement_storage_id (vs_tcp d)) (vs_bucket d)"

text \<open>The size that the code passes to \<open>recv\<close>.\<close>

definition recv_space :: "VRCPData \<Rightarrow> nat" where
  "recv_space d = DEFAULT_RECEPTION_BUFFER_SIZE - (vs_tcp_tail d - vs_tcp_head d)"

lemma compact_spec:
  assumes "tcp_ok d"
  shows "tcp_ok (compact d)" "unread (compact d) = unread d" "vs_tcp_head (compact d) = 0"
    "vs_tcp_tail (compact d) = vs_tcp_tail d - vs_tcp_head d"
    "vs_tcp (compact d) = vs_tcp d" "vs_bucket (compact d) = vs_bucket d"
  using assms length_unread [OF assms] by (auto simp: compact_def tcp_ok_def unread_def min_def)

lemma next_packet_rx:
  assumes "rx_ok d"
  shows "case next_tcp_packet d of (p, d') \<Rightarrow> rx_ok d'
    \<and> (case p of None \<Rightarrow> split_packets (unread d) = ([], unread d) \<and> d' = d
       | Some x \<Rightarrow> split_packets (unread d) =
           (packet_at d' x # fst (split_packets (unread d')), snd (split_packets (unread d'))))"
proof (cases "packet_length (unread d) \<le> length (unread d)")
  case True
  then show ?thesis
    using assms next_tcp_packet_spec [of d] by (auto simp: rx_ok_def split_some)
next
  case False
  then show ?thesis
    using assms next_tcp_packet_spec [of d] by (auto simp: rx_ok_def split_none)
qed

text \<open>
  One call: either a packet was complete in the buffer and nothing is received, or the bytes
  received are appended to the unread ones first.
\<close>

lemma tcp_receive_rx:
  assumes "rx_ok d"
  shows "\<exists>b. tcp_receive clk (Done bs) (vs_tcp d) (vs_bucket d) = (Inr (Some bs, b), vs_tcp d)
      \<and> registered (tcp_measurement_storage_id (vs_tcp d)) b"
    and "tcp_receive clk (Error EAGAIN) (vs_tcp d) (vs_bucket d) = (Inr (None, vs_bucket d), vs_tcp d)"
  using assms count_registered(2) [of "tcp_measurement_storage_id (vs_tcp d)" "vs_bucket d" clk "length bs"]
  by (auto simp: rx_ok_def tcp_receive_def tcp_is_connected_def errno_defs)

lemma reliable_receive_buffered:
  assumes "rx_ok d" "packet_length (unread d) \<le> length (unread d)"
  shows "\<exists>x d'. reliable_receive clk script d = (Inr (Some x), script, d') \<and> rx_ok d'
    \<and> split_packets (unread d) = (packet_at d' x # fst (split_packets (unread d')), snd (split_packets (unread d')))"
proof -
  have "next_tcp_packet d \<noteq> (None, d)"
    using next_tcp_packet_spec [of d] assms by (auto simp: rx_ok_def)
  with next_packet_rx [OF assms(1)] obtain x d' where "next_tcp_packet d = (Some x, d')" "rx_ok d'"
    "split_packets (unread d) = (packet_at d' x # fst (split_packets (unread d')), snd (split_packets (unread d')))"
    by (cases "next_tcp_packet d"; cases "fst (next_tcp_packet d)") auto
  then show ?thesis by (simp add: reliable_receive_def)
qed

lemma reliable_receive_nothing:
  assumes "rx_ok d" "length (unread d) < packet_length (unread d)"
  shows "\<exists>d'. reliable_receive clk [Error EAGAIN] d = (Inr None, [], d') \<and> rx_ok d' \<and> unread d' = unread d"
proof -
  have rx: "rx_ok (compact d)" using assms(1) by (simp add: rx_ok_def compact_spec)
  have "reliable_receive clk [Error EAGAIN] d = (Inr None, [], compact d)"
    using assms next_tcp_packet_spec [of d] tcp_receive_rx(2) [OF rx, of clk] rx
    by (simp add: rx_ok_def reliable_receive_def receive_at_tail_def)
  with rx assms(1) show ?thesis by (auto simp: compact_spec rx_ok_def)
qed

lemma take_write_at: "t \<le> length mem \<Longrightarrow> take (t + length bs) (write_at t bs mem) = take t mem @ bs"
  by (simp add: write_at_def min_def)

lemma reliable_receive_data:
  assumes "rx_ok d" "length (unread d) < packet_length (unread d)" "length bs \<le> recv_space d"
  shows "\<exists>p d'. reliable_receive clk [Done bs] d = (Inr p, [], d') \<and> rx_ok d'
    \<and> (case p of None \<Rightarrow> split_packets (unread d @ bs) = ([], unread d')
       | Some x \<Rightarrow> split_packets (unread d @ bs) =
           (packet_at d' x # fst (split_packets (unread d')), snd (split_packets (unread d'))))"
proof -
  let ?c = "compact d"
  have ok: "tcp_ok d" "tcp_ok ?c" using assms(1) by (simp_all add: rx_ok_def compact_spec)
  then have rx: "rx_ok ?c" using assms(1) by (simp add: rx_ok_def compact_spec)
  obtain b where b: "tcp_receive clk (Done bs) (vs_tcp ?c) (vs_bucket ?c) = (Inr (Some bs, b), vs_tcp ?c)"
    "registered (tcp_measurement_storage_id (vs_tcp ?c)) b"
    using tcp_receive_rx(1) [OF rx] by blast
  define e where "e = ?c\<lparr>vs_tcp := vs_tcp ?c, vs_bucket := b,
      vs_tcp_buffer := write_at (vs_tcp_tail ?c) bs (vs_tcp_buffer ?c), vs_tcp_tail := vs_tcp_tail ?c + length bs\<rparr>"
  have fits: "vs_tcp_tail ?c + length bs \<le> 4080"
    using assms(3) ok(1) compact_spec(4) [OF ok(1)] by (auto simp: recv_space_def tcp_ok_def)
  have "take (vs_tcp_tail ?c) (vs_tcp_buffer ?c) = unread d"
    using compact_spec(2,3) [OF ok(1)] by (simp add: unread_def)
  then have un: "unread e = unread d @ bs"
    using fits ok take_write_at [of "vs_tcp_tail ?c" "vs_tcp_buffer ?c" bs]
    by (simp add: e_def unread_def [of "_\<lparr>vs_tcp_tail := _\<rparr>"] compact_spec(3) [OF ok(1)] tcp_ok_def)
  have e: "rx_ok e"
    using rx b fits by (auto simp: rx_ok_def tcp_ok_def e_def length_write_at)
  have "reliable_receive clk [Done bs] d = (case next_tcp_packet e of (p, d') \<Rightarrow> (Inr p, [], d'))"
    using assms(2) next_tcp_packet_spec [OF ok(1)] b rx
    by (simp add: rx_ok_def reliable_receive_def receive_at_tail_def e_def split: prod.split)
  with next_packet_rx [OF e] show ?thesis
    by (auto simp: un split: prod.splits option.splits)
qed

section \<open>Polling the socket\<close>

text \<open>
  The kernel holds \<open>stream\<close> and offers some number of bytes at each call of \<open>recv\<close>, which takes at
  most the size it is given. The owner of the socket calls \<open>reliable_receive\<close> again and again and
  copies each packet before the next call.
\<close>

definition kernel_recv :: "nat list \<Rightarrow> bytes \<Rightarrow> VRCPData \<Rightarrow> bytes sys" where
  "kernel_recv offers stream d =
     (case take (min (case offers of [] \<Rightarrow> 0 | k # ks \<Rightarrow> k) (recv_space d)) stream of
        [] \<Rightarrow> Error EAGAIN | b # bs \<Rightarrow> Done (b # bs))"

fun sys_bytes :: "bytes sys \<Rightarrow> nat" where
  "sys_bytes (Done bs) = length bs"
| "sys_bytes (Error e) = 0"

function poll :: "clock_now \<Rightarrow> nat list \<Rightarrow> bytes \<Rightarrow> VRCPData \<Rightarrow> (bytes list \<times> bytes \<times> VRCPData) result" where
  "poll clk offers stream d =
     (let r = kernel_recv offers stream d; rest = drop (sys_bytes r) stream in
      case reliable_receive clk [r] d of
        (Inl f, _, _) \<Rightarrow> Inl f
      | (Inr None, _, d') \<Rightarrow> if offers = [] then Inr ([], stream, d') else poll clk (tl offers) rest d'
      | (Inr (Some p), [], d') \<Rightarrow> map_sum id (apfst (Cons (packet_at d' p))) (poll clk (tl offers) rest d')
      | (Inr (Some p), _ # _, d') \<Rightarrow> map_sum id (apfst (Cons (packet_at d' p))) (poll clk offers stream d'))"
  by pat_completeness auto

lemma next_tcp_packet_decreases:
  "next_tcp_packet d = (Some p, d') \<Longrightarrow>
     buffered (vs_tcp_head d') (vs_tcp_tail d') < buffered (vs_tcp_head d) (vs_tcp_tail d)"
  using packet_length_bounds [of "drop (vs_tcp_head d) (vs_tcp_buffer d)"]
  by (auto simp: next_tcp_packet_def Let_def buffered_def sizeof_VRCPBaseHeader_def
      simp del: packet_length_pos split: if_splits)

lemma reliable_receive_progress:
  assumes "reliable_receive clk [r] d = (Inr (Some p), rs, d')"
  shows "rs = [] \<and> (\<exists>bs. r = Done bs)
    \<or> rs \<noteq> [] \<and> buffered (vs_tcp_head d') (vs_tcp_tail d') < buffered (vs_tcp_head d) (vs_tcp_tail d)"
  using assms next_tcp_packet_decreases [of d p d']
  by (auto simp: reliable_receive_def receive_at_tail_def tcp_receive_def
      split: option.splits prod.splits sys.splits if_splits sum.splits)

termination poll
proof (relation "(\<lambda>(clk, offers, stream, d). length offers) <*mlex*>
    measure (\<lambda>(clk, offers, stream, d). buffered (vs_tcp_head d) (vs_tcp_tail d))", goal_cases)
  case 1 show ?case by (simp add: wf_mlex)
next
  case (2 clk offers stream d) then show ?case by (simp add: mlex_less)
next
  case (3 clk offers stream d r rest res y q p rs d')
  then have "reliable_receive clk [kernel_recv offers stream d] d = (Inr (Some p), [], d')" by simp
  from reliable_receive_progress [OF this] have "offers \<noteq> []"
    by (auto simp: kernel_recv_def)
  then show ?case by (simp add: mlex_less)
next
  case (4 clk offers stream d r rest res y q p rs d' z zs)
  then have "reliable_receive clk [kernel_recv offers stream d] d = (Inr (Some p), z # zs, d')" by simp
  from reliable_receive_progress [OF this] show ?case by (auto intro!: mlex_leq)
qed

declare poll.simps [simp del]

lemma kernel_recv_Done:
  assumes "kernel_recv offers stream d = Done bs"
  shows "offers \<noteq> []" "length bs \<le> recv_space d" "bs @ drop (length bs) stream = stream"
proof -
  define n where "n = min (case offers of [] \<Rightarrow> 0 | k # ks \<Rightarrow> k) (recv_space d)"
  have bs: "bs = take n stream" "bs \<noteq> []"
    using assms unfolding kernel_recv_def n_def [symmetric] by (auto split: list.splits)
  show "offers \<noteq> []" using bs by (auto simp: n_def)
  show "length bs \<le> recv_space d" by (simp add: bs(1) n_def)
  show "bs @ drop (length bs) stream = stream"
    by (simp add: bs(1) min_def)
qed

lemma kernel_recv_cases:
  obtains bs where "kernel_recv offers stream d = Done bs" | "kernel_recv offers stream d = Error EAGAIN"
  by (cases "kernel_recv offers stream d") (auto simp: kernel_recv_def split: list.splits)

text \<open>Enough calls to empty the kernel's buffer even one byte at a time.\<close>

definition enough :: "nat list \<Rightarrow> bytes \<Rightarrow> bool" where
  "enough offers stream \<longleftrightarrow> list_all (\<lambda>k. 0 < k) offers \<and> length stream \<le> length offers"

lemma enough_step:
  assumes "rx_ok d" "length (unread d) < packet_length (unread d)" "enough offers stream"
  shows "enough (tl offers) (drop (sys_bytes (kernel_recv offers stream d)) stream)"
proof -
  have "0 < recv_space d"
    using assms(1,2) packet_length_bounds(2) [of "unread d"] length_unread [of d]
    by (simp add: recv_space_def rx_ok_def)
  then show ?thesis
    using assms(3)
    by (cases offers; cases stream)
      (auto simp: enough_def kernel_recv_def list_all_iff split: list.splits nat.splits dest: list.set_sel(2))
qed

text \<open>All that the polling returns and leaves unread is the cutting of what was received.\<close>

lemma poll_spec:
  "rx_ok d \<Longrightarrow> \<exists>got ps rest d'. poll clk offers stream d = Inr (ps, rest, d') \<and> rx_ok d'
     \<and> stream = got @ rest \<and> split_packets (unread d @ got) = (ps, unread d')
     \<and> (enough offers stream \<longrightarrow> rest = [])"
proof (induction clk offers stream d rule: poll.induct)
  case (1 clk offers stream d)
  let ?r = "kernel_recv offers stream d"
  show ?case
  proof (cases "packet_length (unread d) \<le> length (unread d)")
    case True
    from reliable_receive_buffered [OF "1.prems" True] obtain x d' where
      r: "reliable_receive clk [?r] d = (Inr (Some x), [?r], d')" "rx_ok d'"
      "split_packets (unread d) = (packet_at d' x # fst (split_packets (unread d')), snd (split_packets (unread d')))"
      by blast
    from "1.IH"(3) [OF refl refl r(1) [symmetric] refl refl refl refl r(2)] obtain got ps rest e where
      "poll clk offers stream d' = Inr (ps, rest, e)" "rx_ok e" "stream = got @ rest"
      "split_packets (unread d' @ got) = (ps, unread e)" "enough offers stream \<longrightarrow> rest = []"
      by blast
    then show ?thesis
      using r(1,3) split_append [of "unread d" got] split_append [of "unread d'" got]
      by (subst poll.simps) auto
  next
    case False
    then have small: "length (unread d) < packet_length (unread d)" by simp
    show ?thesis
    proof (rule kernel_recv_cases [of offers stream d])
      assume e: "?r = Error EAGAIN"
      from reliable_receive_nothing [OF "1.prems" small] obtain d' where
        r: "reliable_receive clk [?r] d = (Inr None, [], d')" "rx_ok d'" "unread d' = unread d"
        unfolding e by blast
      show ?thesis
      proof (cases "offers = []")
        case True
        then show ?thesis using r small by (subst poll.simps) (auto simp: split_none enough_def)
      next
        case ne: False
        from "1.IH"(1) [OF refl refl r(1) [symmetric] refl refl refl ne r(2)] r(1,3) ne e
          enough_step [OF "1.prems" small, of offers stream] show ?thesis
          by (subst poll.simps) auto
      qed
    next
      fix bs assume e: "?r = Done bs"
      note k = kernel_recv_Done [OF e]
      from reliable_receive_data [OF "1.prems" small k(2)] obtain p d' where
        r: "reliable_receive clk [?r] d = (Inr p, [], d')" "rx_ok d'"
          "case p of None \<Rightarrow> split_packets (unread d @ bs) = ([], unread d')
           | Some x \<Rightarrow> split_packets (unread d @ bs) =
               (packet_at d' x # fst (split_packets (unread d')), snd (split_packets (unread d')))"
        unfolding e by blast
      have more: "enough offers stream \<longrightarrow> enough (tl offers) (drop (length bs) stream)"
        using enough_step [OF "1.prems" small, of offers stream] e by simp
      show ?thesis
      proof (cases p)
        case None
        have r1: "(Inr None, [], d') = reliable_receive clk [?r] d" using r(1) None by simp
        from "1.IH"(1) [OF refl refl r1 refl refl refl k(1) r(2)] obtain got ps rest e' where
          i: "poll clk (tl offers) (drop (length bs) stream) d' = Inr (ps, rest, e')" "rx_ok e'"
          "drop (length bs) stream = got @ rest" "split_packets (unread d' @ got) = (ps, unread e')"
          "enough (tl offers) (drop (length bs) stream) \<longrightarrow> rest = []"
          unfolding e sys_bytes.simps by blast
        have "stream = (bs @ got) @ rest" using k(3) i(3) by simp
        moreover have "split_packets (unread d @ (bs @ got)) = (ps, unread e')"
          using split_append [of "unread d @ bs" got] r(3) None i(4) by simp
        moreover have "poll clk offers stream d = Inr (ps, rest, e')"
          using r(1) None e k(1) i(1) by (subst poll.simps) simp
        ultimately show ?thesis using i(2,5) more by blast
      next
        case (Some x)
        have r1: "(Inr (Some x), [], d') = reliable_receive clk [?r] d" using r(1) Some by simp
        from "1.IH"(2) [OF refl refl r1 refl refl refl refl r(2)] obtain got ps rest e' where
          i: "poll clk (tl offers) (drop (length bs) stream) d' = Inr (ps, rest, e')" "rx_ok e'"
          "drop (length bs) stream = got @ rest" "split_packets (unread d' @ got) = (ps, unread e')"
          "enough (tl offers) (drop (length bs) stream) \<longrightarrow> rest = []"
          unfolding e sys_bytes.simps by blast
        have "stream = (bs @ got) @ rest" using k(3) i(3) by simp
        moreover have "split_packets (unread d @ (bs @ got)) = (packet_at d' x # ps, unread e')"
          using split_append [of "unread d @ bs" got] split_append [of "unread d'" got] r(3) Some i(4) by simp
        moreover have "poll clk offers stream d = Inr (packet_at d' x # ps, rest, e')"
          using r(1) Some e i(1) by (subst poll.simps) simp
        ultimately show ?thesis using i(2,5) more by blast
      qed
    qed
  qed
qed

section \<open>Datagrams\<close>

definition udp_ok :: "VRCPData \<Rightarrow> bool" where
  "udp_ok d \<longleftrightarrow> length (vs_udp_buffer d) = DEFAULT_RECEPTION_BUFFER_SIZE
     \<and> vs_udp_head d \<le> vs_udp_tail d \<and> vs_udp_tail d \<le> DEFAULT_RECEPTION_BUFFER_SIZE"

definition udp_unread :: "VRCPData \<Rightarrow> bytes" where
  "udp_unread d = take (vs_udp_tail d - vs_udp_head d) (drop (vs_udp_head d) (vs_udp_buffer d))"

definition udp_packet_at :: "VRCPData \<Rightarrow> nat \<times> nat \<Rightarrow> bytes" where
  "udp_packet_at d p = take (snd p) (drop (fst p) (vs_udp_buffer d))"

text \<open>The packets of up to \<open>k\<close> further calls that need no datagram.\<close>

fun udp_packets :: "nat \<Rightarrow> VRCPData \<Rightarrow> bytes list \<times> VRCPData" where
  "udp_packets 0 d = ([], d)"
| "udp_packets (Suc k) d =
     (case next_udp_packet d of
        (Inr (Some p), d') \<Rightarrow> apfst (Cons (udp_packet_at d' p)) (udp_packets k d')
      | _ \<Rightarrow> ([], d))"

lemma next_udp_packet_spec:
  assumes "udp_ok d" "udp_unread d = p @ r" "wf_packet p"
  shows "\<exists>x d'. next_udp_packet d = (Inr (Some x), d') \<and> udp_packet_at d' x = p \<and> udp_ok d'
    \<and> udp_unread d' = r"
proof -
  have "length (udp_unread d) = vs_udp_tail d - vs_udp_head d"
    using assms(1) by (auto simp: udp_ok_def udp_unread_def min_def)
  then have len: "vs_udp_tail d - vs_udp_head d = length p + length r"
    by (simp add: assms(2))
  have four: "4 \<le> length p" using assms(3) by (simp add: wf_packet_def)
  have mem: "drop (vs_udp_head d) (vs_udp_buffer d)
      = (p @ r) @ drop (length p + length r) (drop (vs_udp_head d) (vs_udp_buffer d))"
    using append_take_drop_id [of "length p + length r" "drop (vs_udp_head d) (vs_udp_buffer d)"] assms(2) len
    by (simp add: udp_unread_def)
  have n: "packet_length (drop (vs_udp_head d) (vs_udp_buffer d)) = length p"
    using assms(3) four by (subst mem) (simp add: wf_packet_def)
  let ?d' = "if vs_udp_head d + length p = vs_udp_tail d then d\<lparr>vs_udp_head := 0, vs_udp_tail := 0\<rparr>
     else d\<lparr>vs_udp_head := vs_udp_head d + length p\<rparr>"
  have "next_udp_packet d = (Inr (Some (vs_udp_head d, length p)), ?d')"
    using assms(1) len four
    by (auto simp: next_udp_packet_def Let_def buffered_def sizeof_VRCPBaseHeader_def n udp_ok_def)
  moreover have "udp_packet_at ?d' (vs_udp_head d, length p) = p"
    using mem by (simp add: udp_packet_at_def)
  moreover have "udp_ok ?d'"
    using assms(1) len by (auto simp: udp_ok_def)
  moreover have "udp_unread ?d' = r"
  proof -
    have "drop (vs_udp_head d + length p) (vs_udp_buffer d)
        = r @ drop (length p + length r) (drop (vs_udp_head d) (vs_udp_buffer d))"
      using arg_cong [OF mem, of "drop (length p)"] by (simp add: add.commute)
    moreover have "r = []" if "vs_udp_head d + length p = vs_udp_tail d"
      using that len by (cases r) auto
    ultimately show ?thesis using len by (auto simp: udp_unread_def)
  qed
  ultimately show ?thesis by blast
qed

lemma udp_packets_spec:
  "udp_ok d \<Longrightarrow> udp_unread d = concat ps \<Longrightarrow> list_all wf_packet ps \<Longrightarrow>
     \<exists>d'. udp_packets (length ps) d = (ps, d') \<and> udp_ok d' \<and> udp_unread d' = []"
proof (induction ps arbitrary: d)
  case (Cons p ps)
  then obtain x d' where "next_udp_packet d = (Inr (Some x), d')" "udp_packet_at d' x = p" "udp_ok d'"
    "udp_unread d' = concat ps"
    using next_udp_packet_spec [of d p "concat ps"] by auto
  with Cons.IH [of d'] Cons.prems show ?case by auto
qed simp

lemma next_udp_packet_empty:
  "vs_udp_tail d = vs_udp_head d \<Longrightarrow> next_udp_packet d = (Inr None, d\<lparr>vs_udp_head := 0, vs_udp_tail := 0\<rparr>)"
  by (simp add: next_udp_packet_def Let_def buffered_def sizeof_VRCPBaseHeader_def)

lemma receive_datagrams_foreign:
  assumes "vs_udp d = Some u" "udp_is_open u" "registered (udp_measurement_storage_id u) (vs_bucket d)"
    "length (vs_udp_buffer d) = 4080"
    "list_all (\<lambda>x. snd x \<noteq> vs_peer_udp_addr d \<and> length (fst x) \<le> 4080) foreign"
  shows "\<exists>d'. receive_datagrams clk (map Done foreign @ rs) d = receive_datagrams clk rs d'
    \<and> vs_udp d' = Some u \<and> registered (udp_measurement_storage_id u) (vs_bucket d')
    \<and> length (vs_udp_buffer d') = 4080 \<and> vs_peer_udp_addr d' = vs_peer_udp_addr d
    \<and> vs_udp_head d' = vs_udp_head d \<and> vs_udp_tail d' = vs_udp_tail d"
  using assms
proof (induction foreign arbitrary: d)
  case (Cons x foreign)
  obtain bs a where x: "x = (bs, a)" by fastforce
  obtain fd where fd: "udp_socket u = Some fd" using Cons.prems(2) by (auto simp: udp_is_open_def)
  obtain b where b: "count_received clk (udp_measurement_storage_id u) (length bs) (vs_bucket d) = Inr b"
    "registered (udp_measurement_storage_id u) b"
    using count_registered(2) [OF Cons.prems(3)] by blast
  have "receive_datagrams clk (map Done (x # foreign) @ rs) d =
      receive_datagrams clk (map Done foreign @ rs)
        (d\<lparr>vs_bucket := b, vs_udp_buffer := write_at 0 bs (vs_udp_buffer d)\<rparr>)"
    using Cons.prems b fd by (simp add: x udp_receive_from_def)
  with Cons.IH [of "d\<lparr>vs_bucket := b, vs_udp_buffer := write_at 0 bs (vs_udp_buffer d)\<rparr>"] Cons.prems b
  show ?case by (simp add: x)
qed auto

section \<open>Properties\<close>

text \<open>C4: TCP may deliver the control stream in pieces of any size, cutting and joining packets at
  will; whoever polls the socket often enough gets exactly the packets that were sent, in order, and
  the reception buffer (4080 bytes, head and tail within it) is empty afterwards.\<close>

theorem vrcp_stream_reassembled:
  assumes "rx_ok d" "unread d = []" "list_all wf_packet ps" "enough offers (concat ps)"
  shows "\<exists>d'. poll clk offers (concat ps) d = Inr (ps, [], d') \<and> unread d' = [] \<and> rx_ok d'"
proof -
  from poll_spec [OF assms(1), of clk offers "concat ps"] obtain got qs rest d' where
    q: "poll clk offers (concat ps) d = Inr (qs, rest, d')" "rx_ok d'" "concat ps = got @ rest"
    "split_packets (unread d @ got) = (qs, unread d')" "rest = []"
    using assms(4) by blast
  then have "split_packets (concat ps) = (qs, unread d')" using assms(2) by simp
  with split_concat [OF assms(3)] q show ?thesis by auto
qed

definition example_vrcp :: VRCPData where
  "example_vrcp =
     \<lparr>vs_state = VRCP_CONNECTED,
      vs_tcp = \<lparr>tcp_socket = Some 3, tcp_state = CONNECTED, tcp_local_addr = any_addr,
        tcp_peer_addr = any_addr, tcp_measurement_storage_id = -1\<rparr>,
      vs_udp = Some \<lparr>udp_socket = Some 4, udp_local_addr = any_addr, udp_measurement_storage_id = -1\<rparr>,
      vs_bcast = None, vs_is_server = True, vs_advertisement_interval_sec = 2,
      vs_local_advert_port = PORT_AUTO, vs_udp_advert_port = 7672, vs_udp_vrcp_port = PORT_AUTO,
      vs_peer_udp_addr = \<lparr>addr = 0x0A000001, port = 9\<rparr>, vs_last_advertisement_time = 0,
      vs_server_candidates = [], vs_bucket = None,
      vs_tcp_buffer = empty_buffer, vs_tcp_head = 0, vs_tcp_tail = 0,
      vs_udp_buffer = empty_buffer, vs_udp_head = 0, vs_udp_tail = 0\<rparr>"

lemma example_vrcp_ok: "rx_ok example_vrcp" "unread example_vrcp = []" "udp_ok example_vrcp"
  by (simp_all add: rx_ok_def tcp_ok_def udp_ok_def tcp_is_connected_def registered_def example_vrcp_def
      empty_buffer_def unread_def)

theorem vrcp_stream_reassembled_witness:
  "\<exists>d'. poll (\<lambda>_. 0) [3, 1, 6, 1, 1, 1, 1, 1, 1, 1, 1, 1] [0x12, 1, 0, 0, 0x10, 2, 7, 0, 1, 2, 3, 4] example_vrcp
     = Inr ([[0x12, 1, 0, 0], [0x10, 2, 7, 0, 1, 2, 3, 4]], [], d')"
  using vrcp_stream_reassembled [OF example_vrcp_ok(1,2), of "[[0x12, 1, 0, 0], [0x10, 2, 7, 0, 1, 2, 3, 4]]"
      "[3, 1, 6, 1, 1, 1, 1, 1, 1, 1, 1, 1]" "\<lambda>_. 0"]
  by (auto simp: wf_packet_def packet_length_def VRCP_ROW_SIZE_def enough_def)

text \<open>On the UDP side, datagrams from anyone but the connected peer are skipped, and the packets
  that the peer joined in one datagram come out one by one, in order, after which the buffer is empty.\<close>

theorem udp_packets_delivered:
  assumes "vs_udp d = Some u" "udp_is_open u" "registered (udp_measurement_storage_id u) (vs_bucket d)"
    and "udp_ok d" "vs_udp_head d = 0" "vs_udp_tail d = 0"
    and "list_all (\<lambda>x. snd x \<noteq> vs_peer_udp_addr d \<and> length (fst x) \<le> 4080) foreign"
    and "list_all wf_packet (p # ps)" "length (concat (p # ps)) \<le> 4080"
  shows "\<exists>x d1 d2. unreliable_receive clk (map Done foreign @ Done (concat (p # ps), vs_peer_udp_addr d) # rs) d
        = (Inr (Some x), rs, d1)
      \<and> udp_packet_at d1 x = p \<and> udp_packets (length ps) d1 = (ps, d2) \<and> udp_unread d2 = []"
proof -
  have "next_udp_packet d = (Inr None, d)"
    using next_udp_packet_empty [of d] assms(5,6) by simp
  with receive_datagrams_foreign [OF assms(1-3) _ assms(7), of clk "Done (concat (p # ps), vs_peer_udp_addr d) # rs"] assms(4-6)
  obtain e where e: "unreliable_receive clk (map Done foreign @ Done (concat (p # ps), vs_peer_udp_addr d) # rs) d
      = receive_datagrams clk (Done (concat (p # ps), vs_peer_udp_addr d) # rs) e"
    "vs_udp e = Some u" "registered (udp_measurement_storage_id u) (vs_bucket e)"
    "length (vs_udp_buffer e) = 4080" "vs_peer_udp_addr e = vs_peer_udp_addr d" "vs_udp_head e = 0" "vs_udp_tail e = 0"
    by (auto simp: unreliable_receive_def udp_ok_def)
  obtain b where b: "count_received clk (udp_measurement_storage_id u) (length (concat (p # ps))) (vs_bucket e) = Inr b"
    using count_registered(2) [OF e(3)] by blast
  obtain fd where fd: "udp_socket u = Some fd" using assms(2) by (auto simp: udp_is_open_def)
  define f where "f = e\<lparr>vs_bucket := b, vs_udp_buffer := write_at 0 (concat (p # ps)) (vs_udp_buffer e),
      vs_udp_tail := length (concat (p # ps))\<rparr>"
  have f: "udp_ok f" "udp_unread f = p @ concat ps"
    using e assms(9) by (auto simp: f_def udp_ok_def udp_unread_def)
  from next_udp_packet_spec [OF f] assms(8) obtain x d1 where
    x: "next_udp_packet f = (Inr (Some x), d1)" "udp_packet_at d1 x = p" "udp_ok d1" "udp_unread d1 = concat ps"
    by auto
  have "receive_datagrams clk (Done (concat (p # ps), vs_peer_udp_addr d) # rs) e = (Inr (Some x), rs, d1)"
    using e b fd assms(2) x(1) by (simp add: udp_receive_from_def f_def)
  with udp_packets_spec [OF x(3,4)] assms(8) x e(1) show ?thesis by auto
qed

theorem udp_packets_delivered_witness:
  "\<exists>x d1 d2. unreliable_receive (\<lambda>_. 0)
       [Done ([5, 1, 0, 0], any_addr), Done ([0x10, 1, 0, 0, 0x05, 1, 6, 7], \<lparr>addr = 0x0A000001, port = 9\<rparr>)] example_vrcp
     = (Inr (Some x), [], d1) \<and> udp_packet_at d1 x = [0x10, 1, 0, 0] \<and> udp_packets 1 d1 = ([[0x05, 1, 6, 7]], d2)"
  using udp_packets_delivered [OF _ _ _ example_vrcp_ok(3),
      of "\<lparr>udp_socket = Some 4, udp_local_addr = any_addr, udp_measurement_storage_id = -1\<rparr>"
        "[([5, 1, 0, 0], any_addr)]" "[0x10, 1, 0, 0]" "[[0x05, 1, 6, 7]]" "\<lambda>_. 0" "[]"]
  by (auto simp: example_vrcp_def udp_is_open_def registered_def any_addr_def INET_ADDR_ANY_def
      wf_packet_def packet_length_def VRCP_ROW_SIZE_def)

text \<open>A datagram whose second or later packet announces more rows than are left, but no more than
  the whole datagram has, is not dropped as the comment says: the packet handed out goes on with
  stale bytes behind the datagram, and the head is left behind the tail, so the next call cuts there.\<close>

theorem udp_overread:
  assumes "udp_ok d" "vs_udp_head d + 4 \<le> vs_udp_tail d"
    and "n = packet_length (drop (vs_udp_head d) (vs_udp_buffer d))"
    and "vs_udp_tail d - vs_udp_head d < n" "n \<le> vs_udp_tail d"
  shows "\<exists>d'. next_udp_packet d = (Inr (Some (vs_udp_head d, n)), d')
    \<and> udp_packet_at d' (vs_udp_head d, n)
        = udp_unread d @ take (n - (vs_udp_tail d - vs_udp_head d)) (drop (vs_udp_tail d) (vs_udp_buffer d))
    \<and> vs_udp_tail d' < vs_udp_head d' \<and> sizeof_VRCPBaseHeader \<le> buffered (vs_udp_head d') (vs_udp_tail d')"
proof (intro exI conjI)
  let ?d' = "d\<lparr>vs_udp_head := vs_udp_head d + n\<rparr>"
  have "n \<le> 1020" using assms(3) packet_length_bounds(2) by simp
  with assms show "next_udp_packet d = (Inr (Some (vs_udp_head d, n)), ?d')"
    "vs_udp_tail ?d' < vs_udp_head ?d'" "sizeof_VRCPBaseHeader \<le> buffered (vs_udp_head ?d') (vs_udp_tail ?d')"
    by (auto simp: next_udp_packet_def Let_def buffered_def sizeof_VRCPBaseHeader_def udp_ok_def)
  have "take n xs = take k xs @ take (n - k) (drop k xs)" if "k < n" for k and xs :: bytes
    using that take_add [of k "n - k" xs] by simp
  from this [OF assms(4)] show "udp_packet_at ?d' (vs_udp_head d, n)
      = udp_unread d @ take (n - (vs_udp_tail d - vs_udp_head d)) (drop (vs_udp_tail d) (vs_udp_buffer d))"
    using assms(2) by (simp add: udp_packet_at_def udp_unread_def)
qed

theorem udp_overread_witness:
  "\<exists>d'. next_udp_packet (example_vrcp\<lparr>vs_udp_buffer := write_at 0 [5, 1, 0, 0, 5, 2, 0, 0] empty_buffer,
        vs_udp_head := 4, vs_udp_tail := 8\<rparr>) = (Inr (Some (4, 8)), d') \<and> vs_udp_tail d' < vs_udp_head d'"
proof -
  let ?d = "example_vrcp\<lparr>vs_udp_buffer := write_at 0 [5, 1, 0, 0, 5, 2, 0, 0] empty_buffer,
        vs_udp_head := 4, vs_udp_tail := 8\<rparr>"
  have "8 = packet_length (drop (vs_udp_head ?d) (vs_udp_buffer ?d))"
    by (simp add: packet_length_def VRCP_ROW_SIZE_def)
  from udp_overread [OF _ _ this] show ?thesis
    by (auto simp: udp_ok_def empty_buffer_def)
qed

end
