(* ===== verification/VrcpDiscovery.thy ===== *)
theory VrcpDiscovery
  imports VrcpSocket
begin

text \<open>
  \<open>common/src/vrcp_socket.cpp\<close>, second part: the server broadcasts advertisements while it waits for a
  TCP connection, and a client keeps a list of the servers it has heard of. Times are seconds in
  32-bit arithmetic that wraps around.
\<close>

section \<open>Advertising\<close>

text \<open>
  Every broadcast address comes with the result of its \<open>sendto\<close>; the datagrams handed to the kernel
  are collected.
\<close>

fun send_advertisements ::
    "clock_now \<Rightarrow> bytes \<Rightarrow> (InetAddr \<times> nat sys) list \<Rightarrow> VRCPData
     \<Rightarrow> unit result \<times> (SocketAddr \<times> bytes) list \<times> VRCPData" where
  "send_advertisements clk packet [] d = (Inr (), [], d)"
| "send_advertisements clk packet ((bcast_addr, sendto) # rest) d =
     (case vs_bcast d of None \<Rightarrow> (Inl (UndefinedBehaviour ''null broadcast socket''), [], d)
      | Some u \<Rightarrow>
        (case udp_send_to clk sendto u (vs_bucket d) of
           Inl f \<Rightarrow> (Inl f, [], d)
         | Inr (_, b) \<Rightarrow>
           (case send_advertisements clk packet rest (d\<lparr>vs_bucket := b\<rparr>) of
              (r, sent, d') \<Rightarrow>
                (r, (if udp_is_open u then [(\<lparr>addr = bcast_addr, port = vs_udp_advert_port d\<rparr>, packet)] else [])
                    @ sent, d'))))"

definition advertisement :: "VRCPData \<Rightarrow> u32 \<Rightarrow> VRCPServerAdvertisement" where
  "advertisement d secs = default_VRCPServerAdvertisement
     \<lparr>ad_tcp_port := htons (port (tcp_local_addr (vs_tcp d))),
      ad_interval := vs_advertisement_interval_sec d, ad_timestamp := htonl secs\<rparr>"

definition listen_for_tcp_connection ::
    "clock_now \<Rightarrow> accept_calls \<Rightarrow> u32 \<Rightarrow> (InetAddr \<times> nat sys) list \<Rightarrow> VRCPData
     \<Rightarrow> bool result \<times> (SocketAddr \<times> bytes) list \<times> VRCPData" where
  "listen_for_tcp_connection clk calls secs bcast_addrs d =
     (case tcp_listen calls (vs_tcp d) of
        (Inl f, s) \<Rightarrow> (Inl f, [], d\<lparr>vs_tcp := s\<rparr>)
      | (Inr True, s) \<Rightarrow> (Inr True, [], d\<lparr>vs_tcp := s, vs_state := NEGOTIATING\<rparr>)
      | (Inr False, s) \<Rightarrow>
          let d1 = d\<lparr>vs_tcp := s\<rparr> in
          if secs - vs_last_advertisement_time d1 \<ge> ucast (vs_advertisement_interval_sec d1)
          then let d2 = d1\<lparr>vs_last_advertisement_time := secs\<rparr> in
            (case send_advertisements clk (VRCPServerAdvertisement_bytes (advertisement d2 secs)) bcast_addrs d2 of
               (r, sent, d') \<Rightarrow> (map_sum id (\<lambda>_. False) r, sent, d'))
          else (Inr False, [], d1))"

section \<open>Keeping the list of servers\<close>

definition ADVERTISEMENT_TIMEOUT_MARGIN_SEC :: u32 where
  "ADVERTISEMENT_TIMEOUT_MARGIN_SEC = 10000"

definition sizeof_VRCPServerAdvertisement :: nat where
  "sizeof_VRCPServerAdvertisement = 12"

definition candidate_expired :: "u32 \<Rightarrow> VRCPServerCandidate \<Rightarrow> bool" where
  "candidate_expired secs c \<longleftrightarrow>
     secs - cand_timestamp c > ucast (cand_interval c) + ADVERTISEMENT_TIMEOUT_MARGIN_SEC"

definition valid_advertisement :: "u32 \<Rightarrow> VRCPServerAdvertisement \<Rightarrow> bool" where
  "valid_advertisement secs p \<longleftrightarrow>
     ad_ftype p = SERVER_ADVERTISEMENT \<and> ad_magic p = VRCP_MAGIC \<and> ad_version p = VRCP_VERSION
     \<and> secs - ntohl (ad_timestamp p) < ucast (ad_interval p) + ADVERTISEMENT_TIMEOUT_MARGIN_SEC
     \<and> ntohs (ad_tcp_port p) \<noteq> 0"

text \<open>The first candidate with the server's address is updated if the advertisement is newer.\<close>

fun update_candidates :: "SocketAddr \<Rightarrow> u32 \<Rightarrow> u8 \<Rightarrow> VRCPServerCandidate list \<Rightarrow> VRCPServerCandidate list" where
  "update_candidates a t i [] = [\<lparr>cand_addr = a, cand_timestamp = t, cand_interval = i\<rparr>]"
| "update_candidates a t i (c # cs) =
     (if addr (cand_addr c) = addr a
      then (if cand_timestamp c < t
            then c\<lparr>cand_timestamp := t, cand_interval := i, cand_addr := a\<rparr> else c) # cs
      else c # update_candidates a t i cs)"

definition receive_advertisement ::
    "u32 \<Rightarrow> bytes \<Rightarrow> SocketAddr \<Rightarrow> VRCPServerCandidate list \<Rightarrow> VRCPServerCandidate list" where
  "receive_advertisement secs bs sender cs =
     (if length bs = sizeof_VRCPServerAdvertisement
      then let p = VRCPServerAdvertisement_of bs in
        if valid_advertisement secs p
        then update_candidates \<lparr>addr = addr sender, port = ntohs (ad_tcp_port p)\<rparr>
               (ntohl (ad_timestamp p)) (ad_interval p) cs
        else cs
      else cs)"

fun receive_advertisements ::
    "clock_now \<Rightarrow> u32 \<Rightarrow> (bytes \<times> SocketAddr) sys list \<Rightarrow> VRCPData \<Rightarrow> unit result \<times> VRCPData" where
  "receive_advertisements clk secs [] d =
     (case vs_bcast d of None \<Rightarrow> (Inl (UndefinedBehaviour ''null broadcast socket''), d)
      | Some u \<Rightarrow> (Inr (), d))"
| "receive_advertisements clk secs (r # rs) d =
     (case vs_bcast d of None \<Rightarrow> (Inl (UndefinedBehaviour ''null broadcast socket''), d)
      | Some u \<Rightarrow>
        (case udp_receive_from clk r u (vs_bucket d) of
           Inl f \<Rightarrow> (Inl f, d)
         | Inr (None, b) \<Rightarrow> (Inr (), d\<lparr>vs_bucket := b\<rparr>)
         | Inr (Some (bs, sender), b) \<Rightarrow>
             receive_advertisements clk secs rs
               (d\<lparr>vs_bucket := b,
                  vs_server_candidates := receive_advertisement secs bs sender (vs_server_candidates d)\<rparr>)))"

definition available_servers ::
    "clock_now \<Rightarrow> u32 \<Rightarrow> (bytes \<times> SocketAddr) sys list \<Rightarrow> VRCPData
     \<Rightarrow> VRCPServerCandidate list result \<times> VRCPData" where
  "available_servers clk secs script d =
     (if tcp_state (vs_tcp d) \<noteq> NOT_STARTED \<and> tcp_state (vs_tcp d) \<noteq> CONNECTING
      then (Inl (RuntimeError ''The socket is not NOT_STARTED or CONNECTING''), d)
      else case receive_advertisements clk secs script
          (d\<lparr>vs_server_candidates := filter (\<lambda>c. \<not> candidate_expired secs c) (vs_server_candidates d)\<rparr>) of
        (Inl f, d') \<Rightarrow> (Inl f, d')
      | (Inr _, d') \<Rightarrow> (Inr (vs_server_candidates d'), d'))"

section \<open>What the list promises\<close>

text \<open>Addresses are unique, and no entry has expired at the time of the call.\<close>

definition candidates_ok :: "u32 \<Rightarrow> VRCPServerCandidate list \<Rightarrow> bool" where
  "candidates_ok secs cs \<longleftrightarrow>
     distinct (map (\<lambda>c. addr (cand_addr c)) cs) \<and> list_all (\<lambda>c. \<not> candidate_expired secs c) cs"

text \<open>The list has the address with a timestamp at least as new.\<close>

definition knows :: "VRCPServerCandidate list \<Rightarrow> InetAddr \<Rightarrow> u32 \<Rightarrow> bool" where
  "knows cs a t \<longleftrightarrow> list_ex (\<lambda>c. addr (cand_addr c) = a \<and> t \<le> cand_timestamp c) cs"

lemma update_candidates_addrs:
  "set (map (\<lambda>c. addr (cand_addr c)) (update_candidates a t i cs))
     = insert (addr a) (set (map (\<lambda>c. addr (cand_addr c)) cs))"
  by (induction cs) auto

lemma update_candidates_ok:
  assumes "\<not> candidate_expired secs \<lparr>cand_addr = a, cand_timestamp = t, cand_interval = i\<rparr>"
  shows "candidates_ok secs cs \<Longrightarrow> candidates_ok secs (update_candidates a t i cs)"
proof (induction cs)
  case (Cons c cs)
  then show ?case
    using assms update_candidates_addrs [of a t i cs]
    by (auto simp: candidates_ok_def candidate_expired_def)
qed (use assms in \<open>simp add: candidates_ok_def\<close>)

lemma update_candidates_knows:
  "knows (update_candidates a t i cs) (addr a) t"
  "knows cs x y \<Longrightarrow> knows (update_candidates a t i cs) x y"
  by (induction cs) (auto simp: knows_def)

lemmas update_candidates_heard = update_candidates_knows(1) [of "\<lparr>addr = a, port = q\<rparr>" for a q, simplified]

lemma valid_not_expired:
  "valid_advertisement secs p \<Longrightarrow>
     \<not> candidate_expired secs \<lparr>cand_addr = a, cand_timestamp = ntohl (ad_timestamp p), cand_interval = ad_interval p\<rparr>"
  by (auto simp: valid_advertisement_def candidate_expired_def dest: order.asym)

lemma receive_advertisement_ok:
  "candidates_ok secs cs \<Longrightarrow> candidates_ok secs (receive_advertisement secs bs sender cs)"
  "knows cs x y \<Longrightarrow> knows (receive_advertisement secs bs sender cs) x y"
  by (simp_all add: receive_advertisement_def Let_def update_candidates_ok valid_not_expired update_candidates_knows(2))

text \<open>The advertisements among the datagrams received.\<close>

definition heard :: "u32 \<Rightarrow> (bytes \<times> SocketAddr) list \<Rightarrow> (InetAddr \<times> u32) list" where
  "heard secs datagrams =
     map (\<lambda>(bs, sender). (addr sender, ntohl (ad_timestamp (VRCPServerAdvertisement_of bs))))
       (filter (\<lambda>(bs, sender). length bs = sizeof_VRCPServerAdvertisement
          \<and> valid_advertisement secs (VRCPServerAdvertisement_of bs)) datagrams)"

lemma receive_advertisements_spec:
  assumes "vs_bcast d = Some u" "udp_is_open u" "registered (udp_measurement_storage_id u) (vs_bucket d)"
    "candidates_ok secs (vs_server_candidates d)" "\<forall>(x, y) \<in> set seen. knows (vs_server_candidates d) x y"
  shows "\<exists>d'. receive_advertisements clk secs (map Done datagrams) d = (Inr (), d')
    \<and> candidates_ok secs (vs_server_candidates d')
    \<and> (\<forall>(x, y) \<in> set (seen @ heard secs datagrams). knows (vs_server_candidates d') x y)"
  using assms
proof (induction datagrams arbitrary: d seen)
  case (Cons g datagrams)
  obtain bs sender where g: "g = (bs, sender)" by fastforce
  obtain fd where fd: "udp_socket u = Some fd" using Cons.prems(2) by (auto simp: udp_is_open_def)
  obtain b where b: "count_received clk (udp_measurement_storage_id u) (length bs) (vs_bucket d) = Inr b"
    "registered (udp_measurement_storage_id u) b"
    using count_registered(2) [OF Cons.prems(3)] by blast
  let ?d = "d\<lparr>vs_bucket := b,
     vs_server_candidates := receive_advertisement secs bs sender (vs_server_candidates d)\<rparr>"
  have step: "receive_advertisements clk secs (map Done (g # datagrams)) d
      = receive_advertisements clk secs (map Done datagrams) ?d"
    using Cons.prems(1) b(1) fd by (simp add: g udp_receive_from_def)
  have "\<forall>(x, y) \<in> set (seen @ heard secs [g]). knows (vs_server_candidates ?d) x y"
    using Cons.prems(5)
    by (auto simp: heard_def g receive_advertisement_def Let_def update_candidates_heard
        intro: update_candidates_knows(2))
  moreover have "vs_bcast ?d = Some u" "registered (udp_measurement_storage_id u) (vs_bucket ?d)"
      "candidates_ok secs (vs_server_candidates ?d)"
    using Cons.prems b receive_advertisement_ok(1) by simp_all
  moreover have "heard secs (g # datagrams) = heard secs [g] @ heard secs datagrams"
    by (simp add: heard_def)
  ultimately show ?case
    using Cons.IH [of ?d "seen @ heard secs [g]"] Cons.prems(2) unfolding step append_assoc by simp
qed (simp add: heard_def)

text \<open>C25: a call of \<open>available_servers\<close> on an unconnected client leaves one entry per server address,
  none of them expired, and every valid advertisement received in the call is in the list with its
  timestamp or a newer one.\<close>

theorem available_servers_list:
  assumes "tcp_state (vs_tcp d) = NOT_STARTED" "vs_bcast d = Some u" "udp_is_open u"
    and "registered (udp_measurement_storage_id u) (vs_bucket d)"
    and "distinct (map (\<lambda>c. addr (cand_addr c)) (vs_server_candidates d))"
  shows "\<exists>cs d'. available_servers clk secs (map Done datagrams) d = (Inr cs, d')
    \<and> vs_server_candidates d' = cs \<and> distinct (map (\<lambda>c. addr (cand_addr c)) cs)
    \<and> list_all (\<lambda>c. \<not> candidate_expired secs c) cs
    \<and> list_all (\<lambda>(a, t). knows cs a t) (heard secs datagrams)"
proof -
  let ?d = "d\<lparr>vs_server_candidates := filter (\<lambda>c. \<not> candidate_expired secs c) (vs_server_candidates d)\<rparr>"
  have "candidates_ok secs (vs_server_candidates ?d)"
    using assms(5) by (simp add: candidates_ok_def distinct_map_filter list_all_iff)
  with receive_advertisements_spec [of ?d u secs "[]" clk datagrams] assms(2-4) show ?thesis
    using assms(1) by (auto simp: available_servers_def candidates_ok_def list_all_iff)
qed

theorem available_servers_list_witness:
  "\<exists>cs d'. available_servers (\<lambda>_. 0) 100
      [Done ([0x70, 3, 0x4D, 1, 0x12, 0x34, 2, 0, 0, 0, 0, 90], any_addr)]
      (example_vrcp\<lparr>vs_tcp := (vs_tcp example_vrcp)\<lparr>tcp_state := NOT_STARTED\<rparr>, vs_bcast := vs_udp example_vrcp\<rparr>)
    = (Inr cs, d') \<and> list_all (\<lambda>c. \<not> candidate_expired 100 c) cs"
  using available_servers_list [where clk = "\<lambda>_. 0" and secs = 100
      and datagrams = "[([0x70, 3, 0x4D, 1, 0x12, 0x34, 2, 0, 0, 0, 0, 90], any_addr)]"
      and d = "example_vrcp\<lparr>vs_tcp := (vs_tcp example_vrcp)\<lparr>tcp_state := NOT_STARTED\<rparr>, vs_bcast := vs_udp example_vrcp\<rparr>"
      and u = "the (vs_udp example_vrcp)"]
  by (auto simp: example_vrcp_def udp_is_open_def registered_def)

end
