(* ===== verification/VrcpHandshake.thy ===== *)
theory VrcpHandshake
  imports VrcpDiscovery
begin

text \<open>
  \<open>common/src/vrcp_socket.cpp\<close>, third part: how a client and a server agree on a session. The client
  sends a CONN_REQ with its specifications as TLV fields, the server checks it, chooses a codec and
  answers with a CONN_ACCEPT or a CONN_REJECT. The video mode is TCP, as in the default build.
  Memory from \<open>new uint8_t[n]\<close> is an argument (\<open>mem n\<close>), since the code does not write all of it in
  every case. What the code reads behind a packet is whatever the reception buffer holds there; a
  read behind the buffer is a fault.
\<close>

section \<open>Parameters\<close>

record VRCPClientParams =
  cp_video_port :: u16
  cp_specs :: VRSystemSpecs
  cp_supported_video_codecs :: "string list"
  cp_ntp_timestamp :: u64

record VRCPServerParams =
  srv_video_port :: u16
  srv_supported_video_codecs :: "string list"

record VRCPConnectResp =
  resp_peer_video_port :: u16
  resp_chosen_video_codec :: string
  resp_ntp_timestamp :: u64

definition sizeof_VRCPConnectionRequest :: nat where
  "sizeof_VRCPConnectionRequest = 40"

definition sizeof_VRCPConnectionAccept :: nat where
  "sizeof_VRCPConnectionAccept = 8"

text \<open>Sizes are rounded up to a multiple of four bytes.\<close>

definition padded :: "nat \<Rightarrow> nat" where
  "padded n = (n + 3) div 4 * 4"

definition write_tlv_header :: "nat \<Rightarrow> VRCPFieldType \<Rightarrow> nat \<Rightarrow> bytes \<Rightarrow> bytes" where
  "write_tlv_header off t len mem = write_at off [to_u8 t, of_nat len] mem"

definition name_size :: "string \<Rightarrow> nat" where
  "name_size s = min (length s) 32 + 2"

definition write_name :: "nat \<Rightarrow> VRCPFieldType \<Rightarrow> string \<Rightarrow> bytes \<Rightarrow> bytes" where
  "write_name off t s mem =
     write_at (off + 2) (bytes_of_string (take (name_size s - 2) s)) (write_tlv_header off t (name_size s - 2) mem)"

section \<open>The connection request\<close>

fun codecs_size :: "nat \<Rightarrow> string list \<Rightarrow> nat" where
  "codecs_size n [] = n"
| "codecs_size n (c # cs) = codecs_size ((if n > 2 then n + 1 else n) + min (length c) 32) cs"

text \<open>The separator is written only while the offset is inside the field's one-byte length.\<close>

fun write_codecs :: "nat \<Rightarrow> nat \<Rightarrow> nat \<Rightarrow> string list \<Rightarrow> bytes \<Rightarrow> bytes" where
  "write_codecs base len off [] mem = mem"
| "write_codecs base len off (c # cs) mem =
     (let m = write_at (base + off) (bytes_of_string (take 32 c)) mem; off' = off + min (length c) 32 in
      if off' < len then write_codecs base len (off' + 1) cs (write_at (base + off') [0x2C] m)
      else write_codecs base len off' cs m)"

definition conn_req_header :: "VRCPClientParams \<Rightarrow> u16 \<Rightarrow> nat \<Rightarrow> VRCPConnectionRequest" where
  "conn_req_header params udp_port psize = default_VRCPConnectionRequest
     \<lparr>cr_n_rows := of_nat (psize div 4),
      cr_video_mode := video_mode_u8 VM_TCP,
      cr_udp_vrcp_port := htons udp_port,
      cr_video_port := htons (cp_video_port params),
      cr_eye_width := htons (ucast (ext_width (eye_resolution (cp_specs params)))),
      cr_eye_height := htons (ucast (ext_height (eye_resolution (cp_specs params)))),
      cr_refresh_rate_numerator := htons (ucast (rr_numerator (refresh_rate (cp_specs params)))),
      cr_refresh_rate_denominator := htons (ucast (rr_denominator (refresh_rate (cp_specs params)))),
      cr_ipd := htonf (ipd (cp_specs params)),
      cr_eye_to_head_distance := htonf (eye_to_head_distance (cp_specs params)),
      cr_world_bounds_width := htonf (extf_width (world_bounds (cp_specs params))),
      cr_world_bounds_height := htonf (extf_height (world_bounds (cp_specs params))),
      cr_ntp_timestamp := htonll (cp_ntp_timestamp params)\<rparr>"

definition conn_req_packet :: "(nat \<Rightarrow> bytes) \<Rightarrow> u16 \<Rightarrow> VRCPClientParams \<Rightarrow> bytes" where
  "conn_req_packet mem udp_port params =
     (let manufacturer = manufacturer_name (cp_specs params); system = system_name (cp_specs params);
          codecs = cp_supported_video_codecs params;
          manufacturer_size = name_size manufacturer; system_size = name_size system;
          video_codecs_size = codecs_size 2 codecs;
          packet_size = sizeof_VRCPConnectionRequest + manufacturer_size + system_size + video_codecs_size;
          padded_size = padded packet_size;
          m0 = write_at 0 (VRCPConnectionRequest_bytes (conn_req_header params udp_port padded_size)) (mem padded_size);
          o1 = sizeof_VRCPConnectionRequest;
          m1 = write_name o1 MANUFACTURER_NAME_TLV manufacturer m0;
          o2 = o1 + manufacturer_size;
          m2 = write_name o2 SYSTEM_NAME_TLV system m1;
          o3 = o2 + system_size;
          m3 = write_tlv_header o3 SUPPORTED_VIDEO_CODECS_TLV (video_codecs_size - 2) m2;
          m4 = write_codecs (o3 + 2) (unat (of_nat (video_codecs_size - 2) :: u8)) 0 codecs m3
      in write_at packet_size (replicate (padded_size - packet_size) 0) m4)"

section \<open>Reading the TLV fields\<close>

function split_codecs :: "bytes \<Rightarrow> string list" where
  "split_codecs bs =
     (if bs = [] then []
      else chars_of (takeWhile (\<lambda>b. b \<noteq> 0x2C) bs) # split_codecs (drop 1 (dropWhile (\<lambda>b. b \<noteq> 0x2C) bs)))"
  by pat_completeness auto

termination split_codecs
proof (relation "measure length", simp)
  fix bs :: bytes assume "bs \<noteq> []"
  then show "(drop 1 (dropWhile (\<lambda>b. b \<noteq> 0x2C) bs), bs) \<in> measure length"
    using length_dropWhile_le [of "\<lambda>b. b \<noteq> 0x2C" bs] by (cases bs) (auto simp: less_Suc_eq_le diff_le_mono)
qed

declare split_codecs.simps [simp del]

record tlv_fields =
  tlv_manufacturer :: string
  tlv_system :: string
  tlv_codecs :: "string list"

definition no_fields :: tlv_fields where
  "no_fields = \<lparr>tlv_manufacturer = [], tlv_system = [], tlv_codecs = []\<rparr>"

text \<open>
  The remaining size is a 64-bit unsigned integer that is decremented by the field's size whatever
  that is. \<open>data\<close> is the memory from the field to the end of the reception buffer.
\<close>

function parse_tlvs :: "bytes \<Rightarrow> u64 \<Rightarrow> tlv_fields \<Rightarrow> (VRCPRejectReason \<times> tlv_fields) result" where
  "parse_tlvs data remaining acc =
     (if remaining < 2 then Inr (NONE, acc)
      else if length data < 2 then Inl (UndefinedBehaviour ''read past the reception buffer'')
      else
        let ft = to_ft (load8 data); len = unat (load8 (drop 1 data)); value = drop 2 data;
            invalid = (len = 0 \<or> of_nat (len + 2) > remaining);
            overread = Inl (UndefinedBehaviour ''read past the reception buffer'')
        in if ft = MANUFACTURER_NAME_TLV
           then if invalid then Inr (INVALID_MANUFACTURER_NAME, acc)
             else if length value < len then overread
             else parse_tlvs (drop (len + 2) data) (remaining - of_nat (len + 2))
                    (acc\<lparr>tlv_manufacturer := chars_of (take len value)\<rparr>)
           else if ft = SYSTEM_NAME_TLV
           then if invalid then Inr (INVALID_SYSTEM_NAME, acc)
             else if length value < len then overread
             else parse_tlvs (drop (len + 2) data) (remaining - of_nat (len + 2))
                    (acc\<lparr>tlv_system := chars_of (take len value)\<rparr>)
           else if ft = SUPPORTED_VIDEO_CODECS_TLV
           then if invalid then Inr (INVALID_VIDEO_CODECS, acc)
             else if length value < len then overread
             else parse_tlvs (drop (len + 2) data) (remaining - of_nat (len + 2))
                    (acc\<lparr>tlv_codecs := tlv_codecs acc @ split_codecs (take len value)\<rparr>)
           else parse_tlvs (drop (len + 2) data) (remaining - of_nat (len + 2)) acc)"
  by pat_completeness auto

termination parse_tlvs
  by (relation "measure (\<lambda>(data, remaining, acc). length data)") (auto simp: not_less)

declare parse_tlvs.simps [simp del]

section \<open>Checking the request\<close>

text \<open>The checks of the fixed part, in the code's order: the reason and the error data.\<close>

definition check_header :: "VRCPConnectionRequest \<Rightarrow> VRCPRejectReason \<times> u8" where
  "check_header r =
     (if cr_version r \<noteq> VRCP_VERSION then (VERSION_MISMATCH, VRCP_VERSION)
      else if cr_video_mode r \<noteq> video_mode_u8 VM_TCP then (VIDEO_MODE_MISMATCH, video_mode_u8 VM_TCP)
      else if ntohs (cr_udp_vrcp_port r) = 0 then (INVALID_VRCP_PORT, 0)
      else if ntohs (cr_video_port r) = 0 then (INVALID_VIDEO_PORT, 0)
      else if ntohs (cr_eye_width r) > 4000 \<or> ntohs (cr_eye_height r) > 4000 then (INVALID_EYE_SIZE, 0)
      else if ntohs (cr_refresh_rate_denominator r) = 0 \<or> ntohs (cr_refresh_rate_numerator r) = 0
      then (INVALID_REFRESH_RATE, 0)
      else if uint (ntohll (cr_ntp_timestamp r)) < UNIX_EPOCH_NTP then (INVALID_NTP_TIMESTAMP, 0)
      else (NONE, 0))"

definition choose_codec :: "string list \<Rightarrow> string list \<Rightarrow> string" where
  "choose_codec server_codecs client_codecs =
     (case find (\<lambda>c. c \<in> set client_codecs) server_codecs of None \<Rightarrow> [] | Some c \<Rightarrow> c)"

datatype verdict = Rejected VRCPRejectReason u8 | Accepted string tlv_fields

text \<open>\<open>mem\<close> is the reception buffer from the packet on, \<open>psize\<close> the packet's size.\<close>

definition check_conn_req :: "VRCPServerParams \<Rightarrow> bytes \<Rightarrow> nat \<Rightarrow> verdict result" where
  "check_conn_req params mem psize =
     (if length mem < sizeof_VRCPConnectionRequest
      then Inl (UndefinedBehaviour ''read past the reception buffer'')
      else case check_header (VRCPConnectionRequest_of mem) of (reason, err_data) \<Rightarrow>
        if reason \<noteq> NONE then Inr (Rejected reason err_data)
        else case parse_tlvs (drop sizeof_VRCPConnectionRequest mem)
              (of_nat psize - of_nat sizeof_VRCPConnectionRequest) no_fields of
            Inl f \<Rightarrow> Inl f
          | Inr (reason, acc) \<Rightarrow>
              if reason \<noteq> NONE then Inr (Rejected reason 0)
              else let codec = choose_codec (srv_supported_video_codecs params) (tlv_codecs acc) in
                if codec = [] then Inr (Rejected NO_SUPPORTED_VIDEO_CODEC 0)
                else Inr (Accepted codec acc))"

section \<open>The server's side\<close>

text \<open>
  What a negotiation works on: the socket, what the kernel will deliver on the TCP connection, what
  has been sent on it, and the caller's output parameters.
\<close>

record negotiation =
  ng_data :: VRCPData
  ng_script :: "bytes sys list"
  ng_wire :: bytes
  ng_client :: VRCPClientParams
  ng_resp :: VRCPConnectResp

record negotiation_calls =
  nc_clk :: clock_now
  nc_mem :: "nat \<Rightarrow> bytes"
  nc_udp :: socket_calls
  nc_send :: "(nat \<times> nat sys) list"
  nc_reset_tcp :: socket_calls
  nc_reset_bcast :: socket_calls

definition send_on_wire ::
    "negotiation_calls \<Rightarrow> bytes \<Rightarrow> negotiation \<Rightarrow> (unit result \<times> negotiation) option" where
  "send_on_wire calls packet g =
     (case reliable_send (nc_clk calls) packet 100000 (nc_send calls) (ng_data g) of None \<Rightarrow> None
      | Some (w, r, d) \<Rightarrow> Some (r, g\<lparr>ng_data := d, ng_wire := ng_wire g @ w\<rparr>))"

definition ensure_udp :: "negotiation_calls \<Rightarrow> VRCPData \<Rightarrow> unit result \<times> VRCPData" where
  "ensure_udp calls d =
     (case vs_udp d of Some u \<Rightarrow> (Inr (), d)
      | None \<Rightarrow>
        (case new_UDPSocket (nc_udp calls) True False VRCP_UDP_SOCKET (vs_bucket d) of
           Inl f \<Rightarrow> (Inl f, d)
         | Inr (u, b) \<Rightarrow> (Inr (), d\<lparr>vs_udp := Some u, vs_bucket := b\<rparr>)))"

definition udp_local_port :: "VRCPData \<Rightarrow> u16" where
  "udp_local_port d = (case vs_udp d of None \<Rightarrow> 0 | Some u \<Rightarrow> port (udp_local_addr u))"

definition conn_accept_packet :: "(nat \<Rightarrow> bytes) \<Rightarrow> u16 \<Rightarrow> u16 \<Rightarrow> string \<Rightarrow> bytes" where
  "conn_accept_packet mem udp_port video_port codec =
     (let codec_size = name_size codec; packet_size = sizeof_VRCPConnectionAccept + codec_size;
          padded_size = padded packet_size;
          m0 = write_at 0 (VRCPConnectionAccept_bytes (default_VRCPConnectionAccept
                 \<lparr>ca_n_rows := of_nat (padded_size div 4), ca_udp_vrcp_port := htons udp_port,
                  ca_video_port := htons video_port\<rparr>)) (mem padded_size);
          m1 = write_name sizeof_VRCPConnectionAccept CHOSEN_VIDEO_CODEC_TLV codec m0
      in write_at packet_size (replicate (padded_size - packet_size) 0) m1)"

definition requested_specs :: "VRCPConnectionRequest \<Rightarrow> tlv_fields \<Rightarrow> VRSystemSpecs" where
  "requested_specs r fs =
     \<lparr>system_name = tlv_system fs, manufacturer_name = tlv_manufacturer fs,
      eye_resolution = \<lparr>ext_width = ucast (ntohs (cr_eye_width r)), ext_height = ucast (ntohs (cr_eye_height r))\<rparr>,
      refresh_rate = \<lparr>rr_numerator = ucast (ntohs (cr_refresh_rate_numerator r)),
        rr_denominator = ucast (ntohs (cr_refresh_rate_denominator r))\<rparr>,
      ipd = ntohf (cr_ipd r), eye_to_head_distance = ntohf (cr_eye_to_head_distance r),
      world_bounds = \<lparr>extf_width = ntohf (cr_world_bounds_width r),
        extf_height = ntohf (cr_world_bounds_height r)\<rparr>\<rparr>"

definition accept_client ::
    "negotiation_calls \<Rightarrow> VRCPServerParams \<Rightarrow> VRCPConnectionRequest \<Rightarrow> string \<Rightarrow> tlv_fields
     \<Rightarrow> negotiation \<Rightarrow> (bool result \<times> negotiation) option" where
  "accept_client calls params r codec fs g =
     (let d1 = (ng_data g)\<lparr>vs_peer_udp_addr :=
            \<lparr>addr = addr (tcp_peer_addr (vs_tcp (ng_data g))), port = ntohs (cr_udp_vrcp_port r)\<rparr>,
            vs_bcast := None\<rparr>;
          g1 = g\<lparr>ng_resp := \<lparr>resp_peer_video_port = ntohs (cr_video_port r), resp_chosen_video_codec = codec,
                    resp_ntp_timestamp = ntohll (cr_ntp_timestamp r)\<rparr>,
                 ng_client := (ng_client g)\<lparr>cp_specs := requested_specs r fs,
                    cp_supported_video_codecs := tlv_codecs fs, cp_video_port := ntohs (cr_video_port r)\<rparr>\<rparr>
      in case ensure_udp calls d1 of
          (Inl f, d2) \<Rightarrow> Some (Inl f, g1\<lparr>ng_data := d2\<rparr>)
        | (Inr _, d2) \<Rightarrow>
          (case send_on_wire calls (conn_accept_packet (nc_mem calls) (udp_local_port d2) (srv_video_port params) codec)
                (g1\<lparr>ng_data := d2\<rparr>) of
             None \<Rightarrow> None
           | Some (Inl f, g2) \<Rightarrow> Some (Inl f, g2)
           | Some (Inr _, g2) \<Rightarrow> Some (Inr True, g2\<lparr>ng_data := (ng_data g2)\<lparr>vs_state := VRCP_CONNECTED\<rparr>\<rparr>)))"

definition reject_client ::
    "negotiation_calls \<Rightarrow> VRCPRejectReason \<Rightarrow> u8 \<Rightarrow> negotiation \<Rightarrow> (unit result \<times> negotiation) option" where
  "reject_client calls reason err_data g =
     (case send_on_wire calls (VRCPConnectionReject_bytes
          (default_VRCPConnectionReject\<lparr>cj_reason := reason, cj_data := err_data\<rparr>)) g of
        None \<Rightarrow> None
      | Some (Inl f, g1) \<Rightarrow> Some (Inl f, g1)
      | Some (Inr _, g1) \<Rightarrow>
          (case reset_server (nc_reset_tcp calls) (nc_reset_bcast calls) (ng_data g1) of
             (r, d) \<Rightarrow> Some (r, g1\<lparr>ng_data := d\<rparr>)))"

text \<open>How much a negotiation has still to read: deliveries first, then bytes in the buffer.\<close>

definition to_read :: "negotiation \<Rightarrow> nat \<times> nat" where
  "to_read g = (length (ng_script g), buffered (vs_tcp_head (ng_data g)) (vs_tcp_tail (ng_data g)))"

function listen_for_conn_req ::
    "negotiation_calls \<Rightarrow> VRCPServerParams \<Rightarrow> negotiation \<Rightarrow> (bool result \<times> negotiation) option" where
  "listen_for_conn_req calls params g =
     (case reliable_receive (nc_clk calls) (ng_script g) (ng_data g) of
        (Inl f, rs, d) \<Rightarrow> Some (Inl f, g\<lparr>ng_data := d, ng_script := rs\<rparr>)
      | (Inr None, rs, d) \<Rightarrow> Some (Inr False, g\<lparr>ng_data := d, ng_script := rs\<rparr>)
      | (Inr (Some (off, psize)), rs, d) \<Rightarrow>
          let mem = drop off (vs_tcp_buffer d); g1 = g\<lparr>ng_data := d, ng_script := rs\<rparr> in
          if to_ft (load8 mem) \<noteq> CONN_REQ then listen_for_conn_req calls params g1
          else case check_conn_req params mem psize of
              Inl f \<Rightarrow> Some (Inl f, g1)
            | Inr (Accepted codec fs) \<Rightarrow>
                accept_client calls params (VRCPConnectionRequest_of mem) codec fs g1
            | Inr (Rejected reason err_data) \<Rightarrow>
                (case reject_client calls reason err_data g1 of
                   None \<Rightarrow> None
                 | Some (Inl f, g2) \<Rightarrow> Some (Inl f, g2)
                 | Some (Inr _, g2) \<Rightarrow> listen_for_conn_req calls params g2))"
  by pat_completeness auto

lemma reliable_receive_shrinks:
  assumes "reliable_receive clk script d = (Inr (Some p), rs, d')"
  shows "((length rs, buffered (vs_tcp_head d') (vs_tcp_tail d')), length script, buffered (vs_tcp_head d) (vs_tcp_tail d))
     \<in> less_than <*lex*> less_than"
  using assms next_tcp_packet_decreases [of d p d']
  by (cases script) (auto simp: reliable_receive_def receive_at_tail_def tcp_receive_def errno_defs
      split: option.splits prod.splits sys.splits if_splits sum.splits)

lemma reset_server_buffered:
  "reset_server t b d = (r, d') \<Longrightarrow>
     buffered (vs_tcp_head d') (vs_tcp_tail d') \<le> buffered (vs_tcp_head d) (vs_tcp_tail d)"
  by (auto simp: reset_server_def renew_tcp_def renew_bcast_def buffered_def
      split: sum.splits option.splits prod.splits if_splits)

lemma send_on_wire_same:
  "send_on_wire calls p g = Some (r, g') \<Longrightarrow> ng_script g' = ng_script g
     \<and> (\<exists>b. ng_data g' = (ng_data g)\<lparr>vs_bucket := b\<rparr>)"
  by (auto simp: send_on_wire_def reliable_send_def split: option.splits sum.splits)
    (metis VRCPData.surjective VRCPData.update_convs(13), blast)

lemma reject_client_reads_no_more:
  assumes "reject_client calls reason err g = Some (r, g')"
  shows "ng_script g' = ng_script g
    \<and> buffered (vs_tcp_head (ng_data g')) (vs_tcp_tail (ng_data g'))
        \<le> buffered (vs_tcp_head (ng_data g)) (vs_tcp_tail (ng_data g))"
  using assms
  by (auto simp: reject_client_def dest!: send_on_wire_same reset_server_buffered
      split: option.splits sum.splits prod.splits)

lemma reads_on:
  "(Inr (Some p), rs, d') = reliable_receive clk (ng_script g) (ng_data g) \<Longrightarrow>
     (to_read (g\<lparr>ng_data := d', ng_script := rs\<rparr>), to_read g) \<in> less_than <*lex*> less_than"
  using reliable_receive_shrinks [of clk "ng_script g" "ng_data g" p rs d'] by (simp add: to_read_def)

lemma reads_on_rejecting:
  "(to_read g1, r) \<in> less_than <*lex*> less_than \<Longrightarrow> reject_client calls reason err g1 = Some (x, g2) \<Longrightarrow>
     (to_read g2, r) \<in> less_than <*lex*> less_than"
  using reject_client_reads_no_more [of calls reason err g1 x g2] by (cases r) (auto simp: to_read_def)

termination listen_for_conn_req
proof (relation "inv_image (less_than <*lex*> less_than) (\<lambda>(calls, params, g). to_read g)", goal_cases)
  case (2 calls params g)
  then show ?case by (auto dest: reads_on)
next
  case (3 calls params g)
  then show ?case by (auto dest!: reads_on dest: reads_on_rejecting)
qed (intro wf_inv_image wf_lex_prod wf_less_than)

declare listen_for_conn_req.simps [simp del]

definition vrcp_listen ::
    "negotiation_calls \<Rightarrow> accept_calls \<Rightarrow> u32 \<Rightarrow> (InetAddr \<times> nat sys) list \<Rightarrow> VRCPServerParams
     \<Rightarrow> negotiation \<Rightarrow> (bool result \<times> (SocketAddr \<times> bytes) list \<times> negotiation) option" where
  "vrcp_listen calls accepts secs bcast_addrs params g =
     (if vs_state (ng_data g) \<noteq> AWAITING_CONNECTION \<and> vs_state (ng_data g) \<noteq> NEGOTIATING
      then Some (Inl (RuntimeError ''Socket is not in AWAITING_CONNECTION or NEGOTIATING state''), [], g)
      else if srv_supported_video_codecs params = []
      then Some (Inl (InvalidArgument ''Invalid parameters''), [], g)
      else if vs_state (ng_data g) = AWAITING_CONNECTION
      then case listen_for_tcp_connection (nc_clk calls) accepts secs bcast_addrs (ng_data g) of
          (Inl f, sent, d) \<Rightarrow> Some (Inl f, sent, g\<lparr>ng_data := d\<rparr>)
        | (Inr False, sent, d) \<Rightarrow> Some (Inr False, sent, g\<lparr>ng_data := d\<rparr>)
        | (Inr True, sent, d) \<Rightarrow>
            map_option (\<lambda>(r, g'). (r, sent, g')) (listen_for_conn_req calls params (g\<lparr>ng_data := d\<rparr>))
      else map_option (\<lambda>(r, g'). (r, [], g')) (listen_for_conn_req calls params g))"

section \<open>The client's side\<close>

text \<open>The TLV loop over a CONN_ACCEPT stops at a field that is longer than what remains.\<close>

function find_chosen_codec :: "bytes \<Rightarrow> nat \<Rightarrow> string result" where
  "find_chosen_codec data remaining =
     (if remaining < 2 then Inr []
      else if length data < 2 then Inl (UndefinedBehaviour ''read past the reception buffer'')
      else let len = unat (load8 (drop 1 data)) in
        if to_ft (load8 data) = CHOSEN_VIDEO_CODEC_TLV \<and> remaining \<ge> len + 2
        then if length data < len + 2 then Inl (UndefinedBehaviour ''read past the reception buffer'')
          else Inr (chars_of (take len (drop 2 data)))
        else if remaining < len + 2 then Inr []
        else find_chosen_codec (drop (len + 2) data) (remaining - (len + 2)))"
  by pat_completeness auto

termination find_chosen_codec
  by (relation "measure snd") auto

declare find_chosen_codec.simps [simp del]

function listen_for_conn_resp ::
    "negotiation_calls \<Rightarrow> VRCPClientParams \<Rightarrow> negotiation \<Rightarrow> bool result \<times> negotiation" where
  "listen_for_conn_resp calls params g =
     (if vs_state (ng_data g) \<noteq> NEGOTIATING then (Inl (RuntimeError ''Socket is not in NEGOTIATING state''), g)
      else case reliable_receive (nc_clk calls) (ng_script g) (ng_data g) of
        (Inl f, rs, d) \<Rightarrow> (Inl f, g\<lparr>ng_data := d, ng_script := rs\<rparr>)
      | (Inr None, rs, d) \<Rightarrow> (Inr False, g\<lparr>ng_data := d, ng_script := rs\<rparr>)
      | (Inr (Some (off, psize)), rs, d) \<Rightarrow>
          let mem = drop off (vs_tcp_buffer d); g1 = g\<lparr>ng_data := d, ng_script := rs\<rparr> in
          if to_ft (load8 mem) = CONN_ACCEPT \<and> psize \<ge> sizeof_VRCPConnectionAccept + 2
          then
            let acc = VRCPConnectionAccept_of mem;
                d1 = d\<lparr>vs_peer_udp_addr :=
                  \<lparr>addr = addr (tcp_peer_addr (vs_tcp d)), port = ntohs (ca_udp_vrcp_port acc)\<rparr>\<rparr>;
                g2 = g1\<lparr>ng_data := d1, ng_resp := (ng_resp g1)\<lparr>resp_peer_video_port := ntohs (ca_video_port acc),
                  resp_ntp_timestamp := cp_ntp_timestamp params\<rparr>\<rparr>
            in (case find_chosen_codec (drop sizeof_VRCPConnectionAccept mem) (psize - sizeof_VRCPConnectionAccept) of
                  Inl f \<Rightarrow> (Inl f, g2)
                | Inr codec \<Rightarrow>
                    if codec = [] then (Inl (RuntimeError ''No chosen video codec in CONN_ACCEPT''), g2)
                    else (Inr True, g2\<lparr>ng_resp := (ng_resp g2)\<lparr>resp_chosen_video_codec := codec\<rparr>,
                      ng_data := d1\<lparr>vs_state := VRCP_CONNECTED, vs_bcast := None, vs_server_candidates := []\<rparr>\<rparr>))
          else if to_ft (load8 mem) = CONN_REJECT
          then case reset_client (nc_reset_tcp calls) (nc_reset_bcast calls) d of
              (Inl f, d1) \<Rightarrow> (Inl f, g1\<lparr>ng_data := d1\<rparr>)
            | (Inr _, d1) \<Rightarrow>
                let rej = VRCPConnectionReject_of mem in
                (Inl (RuntimeError (''Connection rejected: '' @ reject_reason_to_string (cj_reason rej) (cj_data rej))),
                 g1\<lparr>ng_data := d1\<rparr>)
          else listen_for_conn_resp calls params g1)"
  by pat_completeness auto

termination listen_for_conn_resp
proof (relation "inv_image (less_than <*lex*> less_than) (\<lambda>(calls, params, g). to_read g)", goal_cases)
  case (2 calls params g)
  then show ?case by (auto dest: reads_on)
qed (intro wf_inv_image wf_lex_prod wf_less_than)

declare listen_for_conn_resp.simps [simp del]

definition client_connect ::
    "negotiation_calls \<Rightarrow> unit sys \<Rightarrow> SocketAddr \<Rightarrow> VRCPClientParams \<Rightarrow> negotiation
     \<Rightarrow> (bool result \<times> negotiation) option" where
  "client_connect calls connect_call a params g =
     (let d = ng_data g in
      if manufacturer_name (cp_specs params) = [] \<or> system_name (cp_specs params) = []
        \<or> cp_supported_video_codecs params = []
      then Some (Inl (RuntimeError ''Invalid specs''), g)
      else if vs_state d \<noteq> AWAITING_CONNECTION \<and> vs_state d \<noteq> NEGOTIATING
      then Some (Inl (RuntimeError ''Socket is not in AWAITING_CONNECTION or NEGOTIATING state''), g)
      else if vs_state d = NEGOTIATING then Some (listen_for_conn_resp calls params g)
      else case tcp_connect connect_call a (vs_tcp d) of
          (Inl f, s) \<Rightarrow> Some (Inl f, g\<lparr>ng_data := d\<lparr>vs_tcp := s\<rparr>\<rparr>)
        | (Inr False, s) \<Rightarrow> Some (Inr False, g\<lparr>ng_data := d\<lparr>vs_tcp := s\<rparr>\<rparr>)
        | (Inr True, s) \<Rightarrow>
          (case ensure_udp calls (d\<lparr>vs_tcp := s, vs_state := NEGOTIATING\<rparr>) of
             (Inl f, d1) \<Rightarrow> Some (Inl f, g\<lparr>ng_data := d1\<rparr>)
           | (Inr _, d1) \<Rightarrow>
             (case send_on_wire calls (conn_req_packet (nc_mem calls) (udp_local_port d1) params)
                   (g\<lparr>ng_data := d1\<rparr>) of
                None \<Rightarrow> None
              | Some (Inl f, g1) \<Rightarrow> Some (Inl f, g1)
              | Some (Inr _, g1) \<Rightarrow> Some (listen_for_conn_resp calls params g1))))"

end
