(* ===== verification/VrcpSession.thy ===== *)
theory VrcpSession
  imports VrcpHandshake
begin

text \<open>
  What the handshake of VrcpHandshake achieves: the memory images of its packets, that the server
  reads back what the client wrote, that both ends agree on the session, and what happens when the
  server turns a client away.
\<close>

section \<open>The packets that are built\<close>

definition tlv :: "VRCPFieldType \<Rightarrow> bytes \<Rightarrow> bytes" where
  "tlv t v = to_u8 t # of_nat (length v) # v"

definition name_bytes :: "string \<Rightarrow> bytes" where
  "name_bytes s = bytes_of_string (take 32 s)"

fun join_codecs :: "string list \<Rightarrow> bytes" where
  "join_codecs [] = []"
| "join_codecs [c] = name_bytes c"
| "join_codecs (c # cs) = name_bytes c @ [0x2C] @ join_codecs cs"

lemma length_name_bytes: "length (name_bytes s) = min (length s) 32"
  by (simp add: name_bytes_def)

lemma write_name_append:
  assumes "length pre = off" "name_size s \<le> length m"
  shows "write_name off t s (pre @ m) = pre @ tlv t (name_bytes s) @ drop (name_size s) m"
proof -
  have "take (min (length s) 32) s = take 32 s"
    by (simp add: min_def)
  then show ?thesis
    using assms write_at_append [of "pre @ [to_u8 t, of_nat (min (length s) 32)]" "off + 2" "bytes_of_string (take 32 s)" "drop 2 m"]
    by (simp add: write_name_def write_tlv_header_def name_size_def tlv_def name_bytes_def min.commute numeral_2_eq_2)
qed

lemma codecs_size_more: "n > 2 \<Longrightarrow> list_all (\<lambda>c. c \<noteq> []) cs \<Longrightarrow> cs \<noteq> [] \<Longrightarrow> codecs_size n cs = n + 1 + length (join_codecs cs)"
proof (induction cs arbitrary: n rule: join_codecs.induct)
  case (3 c c' cs)
  with 3(1) [of "n + 1 + min (length c) 32"] show ?case by (simp add: length_name_bytes)
qed (auto simp: length_name_bytes)

lemma codecs_size_join:
  "list_all (\<lambda>c. c \<noteq> []) cs \<Longrightarrow> codecs_size 2 cs = 2 + length (join_codecs cs)"
proof (induction cs rule: join_codecs.induct)
  case (3 c c' cs)
  then have "2 + min (length c) 32 > 2" by (cases c) auto
  with 3 codecs_size_more [of "2 + min (length c) 32" "c' # cs"] show ?case
    by (simp add: length_name_bytes)
qed (auto simp: length_name_bytes)

lemma write_codecs_append:
  "length pre = base + off \<Longrightarrow> length (join_codecs cs) \<le> length m \<Longrightarrow> len = off + length (join_codecs cs) \<Longrightarrow>
     write_codecs base len off cs (pre @ m) = pre @ join_codecs cs @ drop (length (join_codecs cs)) m"
proof (induction cs arbitrary: pre off m rule: join_codecs.induct)
  case (2 c)
  then show ?case by (simp add: Let_def name_bytes_def)
next
  case (3 c c' cs)
  let ?k = "min (length c) 32"
  have k: "length (name_bytes c) = ?k" by (rule length_name_bytes)
  have one: "write_at (base + off) (name_bytes c) (pre @ m) = (pre @ name_bytes c) @ drop ?k m"
    using 3(2) k by simp
  have two: "write_at (base + (off + ?k)) [0x2C] ((pre @ name_bytes c) @ drop ?k m)
      = (pre @ name_bytes c @ [0x2C]) @ drop (?k + 1) m"
    using 3(2) k by (subst write_at_append) simp_all
  have "write_codecs base len off (c # c' # cs) (pre @ m)
      = write_codecs base len (off + ?k + 1) (c' # cs) ((pre @ name_bytes c @ [0x2C]) @ drop (?k + 1) m)"
    using 3(4) k one two by (simp add: Let_def name_bytes_def)
  also have "\<dots> = (pre @ name_bytes c @ [0x2C]) @ join_codecs (c' # cs) @ drop (length (join_codecs (c' # cs))) (drop (?k + 1) m)"
    using 3(2-4) k by (intro "3.IH") simp_all
  finally show ?case by (simp add: k add.commute)
qed simp

definition padding :: "nat \<Rightarrow> bytes" where
  "padding n = replicate (padded n - n) 0"

lemma padded_bounds: "n \<le> padded n" "padded n \<le> n + 3" "padded n mod 4 = 0"
  unfolding padded_def by presburger+

definition codec_ok :: "string \<Rightarrow> bool" where
  "codec_ok c \<longleftrightarrow> c \<noteq> [] \<and> CHR '','' \<notin> set c"

text \<open>The request that the code builds, whatever the allocated memory contained.\<close>

definition conn_req_body :: "VRCPClientParams \<Rightarrow> bytes" where
  "conn_req_body p = tlv MANUFACTURER_NAME_TLV (name_bytes (manufacturer_name (cp_specs p)))
     @ tlv SYSTEM_NAME_TLV (name_bytes (system_name (cp_specs p)))
     @ tlv SUPPORTED_VIDEO_CODECS_TLV (join_codecs (cp_supported_video_codecs p))"

definition conn_req_size :: "VRCPClientParams \<Rightarrow> nat" where
  "conn_req_size p = padded (40 + length (conn_req_body p))"

lemma conn_req_packet_image:
  assumes "\<And>n. length (mem n) = n" "list_all (\<lambda>c. c \<noteq> []) (cp_supported_video_codecs p)"
    and "length (join_codecs (cp_supported_video_codecs p)) \<le> 255"
  shows "conn_req_packet mem udp_port p =
    VRCPConnectionRequest_bytes (conn_req_header p udp_port (conn_req_size p)) @ conn_req_body p
      @ padding (40 + length (conn_req_body p))"
proof -
  let ?m = "manufacturer_name (cp_specs p)" and ?s = "system_name (cp_specs p)"
  let ?cs = "cp_supported_video_codecs p"
  define n where "n = 40 + name_size ?m + name_size ?s + codecs_size 2 ?cs"
  let ?h = "VRCPConnectionRequest_bytes (conn_req_header p udp_port (padded n))"
  have sizes: "name_size s = 2 + length (name_bytes s)" for s by (simp add: name_size_def length_name_bytes)
  have cs: "codecs_size 2 ?cs = 2 + length (join_codecs ?cs)" by (rule codecs_size_join [OF assms(2)])
  have len: "unat (of_nat (length (join_codecs ?cs)) :: u8) = length (join_codecs ?cs)"
    using assms(3) by (simp add: unsigned_of_nat take_bit_nat_eq_self)
  have body: "length (conn_req_body p) = name_size ?m + name_size ?s + codecs_size 2 ?cs"
    by (simp add: conn_req_body_def tlv_def sizes cs)
  have n: "n = 40 + length (conn_req_body p)" by (simp add: body n_def)
  have h: "length ?h = 40" by (rule cr_layout.enc_size)
  have fits: "n \<le> length (mem (padded n))" by (simp add: assms(1) padded_bounds)
  define r1 where "r1 = drop 40 (mem (padded n))"
  define r2 where "r2 = drop (name_size ?m) r1"
  define r3 where "r3 = drop (name_size ?s) r2"
  have rs: "length r1 = padded n - 40" "length r2 = padded n - 40 - name_size ?m"
      "length r3 = padded n - 40 - name_size ?m - name_size ?s"
    by (simp_all add: r1_def r2_def r3_def assms(1))
  have big: "40 + name_size ?m + name_size ?s + codecs_size 2 ?cs \<le> padded n"
    unfolding n_def [symmetric] by (rule padded_bounds)
  let ?a = "?h @ tlv MANUFACTURER_NAME_TLV (name_bytes ?m)"
  let ?b = "?a @ tlv SYSTEM_NAME_TLV (name_bytes ?s)"
  let ?c = "?b @ [to_u8 SUPPORTED_VIDEO_CODECS_TLV, of_nat (length (join_codecs ?cs))]"
  have m0: "write_at 0 ?h (mem (padded n)) = ?h @ r1" by (simp add: h r1_def)
  have m1: "write_name 40 MANUFACTURER_NAME_TLV ?m (?h @ r1) = ?a @ r2"
    using write_name_append [OF h, of ?m r1] rs big by (simp add: r2_def)
  have la: "length ?a = 40 + name_size ?m" by (simp add: h tlv_def sizes)
  have m2: "write_name (40 + name_size ?m) SYSTEM_NAME_TLV ?s (?a @ r2) = ?b @ r3"
    using write_name_append [OF la, of ?s r2] rs big by (simp add: r3_def)
  have lb: "length ?b = 40 + name_size ?m + name_size ?s" using la by (simp add: tlv_def sizes)
  have m3: "write_tlv_header (40 + name_size ?m + name_size ?s) SUPPORTED_VIDEO_CODECS_TLV (length (join_codecs ?cs)) (?b @ r3)
      = ?c @ drop 2 r3"
    using write_at_append [OF lb, of "[to_u8 SUPPORTED_VIDEO_CODECS_TLV, of_nat (length (join_codecs ?cs))]" r3]
    by (simp add: write_tlv_header_def numeral_2_eq_2)
  have m4: "write_codecs (40 + name_size ?m + name_size ?s + 2) (length (join_codecs ?cs)) 0 ?cs (?c @ drop 2 r3)
      = (?h @ conn_req_body p) @ drop (length (join_codecs ?cs)) (drop 2 r3)"
    using write_codecs_append [of ?c "40 + name_size ?m + name_size ?s + 2" 0 ?cs "drop 2 r3" "length (join_codecs ?cs)"]
      lb rs big cs by (simp add: conn_req_body_def tlv_def)
  have lc: "length (?h @ conn_req_body p) = n" using h by (simp add: n)
  have m5: "write_at n (replicate (padded n - n) 0) ((?h @ conn_req_body p) @ drop (length (join_codecs ?cs)) (drop 2 r3))
      = ?h @ conn_req_body p @ padding n"
    using write_at_append [OF lc, of "replicate (padded n - n) 0"] rs big cs by (simp add: padding_def n_def)
  have d: "codecs_size 2 ?cs - 2 = length (join_codecs ?cs)" by (simp add: cs)
  show ?thesis
    unfolding conn_req_packet_def Let_def sizeof_VRCPConnectionRequest_def conn_req_size_def n [symmetric]
      n_def [symmetric] m0 m1 m2 d len m3 m4 by (rule m5)
qed

section \<open>Reading them\<close>

lemma to_ft_tlv: "to_ft 0 = INVALID" "to_ft 1 = CONN_REQ" "to_ft 2 = CONN_ACCEPT" "to_ft 3 = CONN_REJECT"
    "to_ft 9 = MANUFACTURER_NAME_TLV" "to_ft 10 = SYSTEM_NAME_TLV" "to_ft 11 = SUPPORTED_VIDEO_CODECS_TLV"
    "to_ft 12 = CHOSEN_VIDEO_CODEC_TLV"
  by (simp_all add: to_ft_def)

lemma parse_known_field:
  assumes "t \<in> {MANUFACTURER_NAME_TLV, SYSTEM_NAME_TLV, SUPPORTED_VIDEO_CODECS_TLV}"
    and "v \<noteq> []" "length v \<le> 255" "length v + 2 \<le> n" "n < 2 ^ 32"
  shows "parse_tlvs (tlv t v @ rest) (of_nat n) fs = parse_tlvs rest (of_nat (n - (length v + 2)))
    (if t = MANUFACTURER_NAME_TLV then fs\<lparr>tlv_manufacturer := chars_of v\<rparr>
     else if t = SYSTEM_NAME_TLV then fs\<lparr>tlv_system := chars_of v\<rparr>
     else fs\<lparr>tlv_codecs := tlv_codecs fs @ split_codecs v\<rparr>)"
proof -
  have len: "unat (of_nat (length v) :: u8) = length v"
    using assms(3) by (simp add: unsigned_of_nat take_bit_nat_eq_self)
  have un: "unat (of_nat k :: u64) = k" if "k < 2 ^ 32" for k
    using that by (simp add: unsigned_of_nat take_bit_nat_eq_self)
  have "\<not> (of_nat n :: u64) < 2" "\<not> (of_nat n :: u64) < of_nat (length v + 2)"
    using assms(3,4,5) un [of n] un [of "length v + 2"] un [of 2]
    by (simp_all add: word_less_nat_alt del: of_nat_add)
  moreover have "(of_nat n :: u64) - of_nat (length v + 2) = of_nat (n - (length v + 2))"
    using assms(4) by (simp only: of_nat_diff)
  moreover have "to_ft (load8 (tlv t v @ rest)) = t" "unat (load8 (drop 1 (tlv t v @ rest))) = length v"
      "drop 2 (tlv t v @ rest) = v @ rest" "drop (length v + 2) (tlv t v @ rest) = rest"
      "\<not> length (tlv t v @ rest) < 2" "\<not> length (v @ rest) < length v" "take (length v) (v @ rest) = v"
      "length v \<noteq> 0"
    using assms(1,2) len by (auto simp: tlv_def to_ft_tlv)
  ultimately show ?thesis
    using assms(1) by (subst parse_tlvs.simps) (simp only: Let_def if_False simp_thms insert_iff empty_iff; elim disjE; simp)
qed

lemma parse_field:
  assumes "t \<in> {MANUFACTURER_NAME_TLV, SYSTEM_NAME_TLV, SUPPORTED_VIDEO_CODECS_TLV}"
    and "v \<noteq> []" "length v \<le> 255" "length v + 2 + r < 2 ^ 32"
  shows "parse_tlvs (tlv t v @ rest) (of_nat (length v + 2 + r)) fs = parse_tlvs rest (of_nat r)
    (if t = MANUFACTURER_NAME_TLV then fs\<lparr>tlv_manufacturer := chars_of v\<rparr>
     else if t = SYSTEM_NAME_TLV then fs\<lparr>tlv_system := chars_of v\<rparr>
     else fs\<lparr>tlv_codecs := tlv_codecs fs @ split_codecs v\<rparr>)"
  using parse_known_field [OF assms(1-3) _ assms(4)] by (simp only: diff_add_inverse le_add1)

text \<open>At most three bytes of padding are left, which make at most one empty unknown field.\<close>

lemma parse_padding:
  assumes "k \<le> 3"
  shows "parse_tlvs (replicate k 0 @ beyond) (of_nat k) fs = Inr (NONE, fs)"
proof -
  have stop: "r < 2 \<Longrightarrow> parse_tlvs d r fs = Inr (NONE, fs)" for d and r :: u64
    by (subst parse_tlvs.simps) simp
  consider "k = 0" | "k = 1" | "k = 2" | "k = 3" using assms by linarith
  then show ?thesis
  proof cases
    case 3
    then show ?thesis by (subst parse_tlvs.simps) (simp add: numeral_2_eq_2 Let_def stop to_ft_tlv)
  next
    case 4
    then show ?thesis by (subst parse_tlvs.simps) (simp add: numeral_3_eq_3 Let_def stop to_ft_tlv)
  qed (simp_all add: stop)
qed

lemma comma_byte: "(of_nat (of_char c) :: u8) = 0x2C \<longleftrightarrow> c = CHR '',''"
proof -
  have "(of_nat (of_char c) :: u8) = 0x2C \<longleftrightarrow> unat (of_nat (of_char c) :: u8) = unat (0x2C :: u8)"
    by (rule word_unat_eq_iff)
  also have "\<dots> \<longleftrightarrow> (of_char c :: nat) = 0x2C"
    unfolding unat_of_char by simp
  also have "\<dots> \<longleftrightarrow> (of_char c :: nat) = of_char (CHR '','')" by simp
  finally show ?thesis by (simp only: of_char_eq_iff)
qed

lemma name_no_comma: "codec_ok c \<Longrightarrow> 0x2C \<notin> set (name_bytes c)"
  by (auto simp: codec_ok_def name_bytes_def bytes_of_string_def comma_byte dest: in_set_takeD)

lemma name_not_empty: "c \<noteq> [] \<Longrightarrow> name_bytes c \<noteq> []"
  by (simp add: name_bytes_def)

lemma chars_of_name: "chars_of (name_bytes c) = take 32 c"
  by (simp add: name_bytes_def)

lemma split_join_codecs:
  "list_all codec_ok cs \<Longrightarrow> split_codecs (join_codecs cs) = map (take 32) cs"
proof (induction cs rule: join_codecs.induct)
  case (2 c)
  then have c: "name_bytes c \<noteq> []" "0x2C \<notin> set (name_bytes c)"
    using name_no_comma name_not_empty by (auto simp: codec_ok_def)
  then have "takeWhile (\<lambda>b. b \<noteq> 0x2C) (name_bytes c) = name_bytes c"
      "dropWhile (\<lambda>b. b \<noteq> 0x2C) (name_bytes c) = []"
    by (auto simp: takeWhile_eq_all_conv dropWhile_eq_Nil_conv)
  moreover have "split_codecs (name_bytes c) = chars_of (takeWhile (\<lambda>b. b \<noteq> 0x2C) (name_bytes c))
      # split_codecs (drop 1 (dropWhile (\<lambda>b. b \<noteq> 0x2C) (name_bytes c)))"
    using c(1) by (subst split_codecs.simps) simp
  ultimately show ?case
    using split_codecs.simps [of "[]"] by (simp only: join_codecs.simps list.map chars_of_name drop_Nil) simp
next
  case (3 c c' cs)
  let ?r = "join_codecs (c' # cs)"
  have c: "name_bytes c \<noteq> []" "\<forall>b \<in> set (name_bytes c). b \<noteq> 0x2C"
    using 3(2) name_no_comma [of c] name_not_empty [of c] by (auto simp: codec_ok_def)
  have "takeWhile (\<lambda>b. b \<noteq> 0x2C) (name_bytes c @ 0x2C # ?r) = name_bytes c"
      "dropWhile (\<lambda>b. b \<noteq> 0x2C) (name_bytes c @ 0x2C # ?r) = 0x2C # ?r"
    using c(2) by (simp_all add: takeWhile_append2 dropWhile_append2)
  then have "split_codecs (name_bytes c @ 0x2C # ?r) = chars_of (name_bytes c) # split_codecs ?r"
    by (subst split_codecs.simps) simp
  with 3 show ?case by (simp add: name_bytes_def)
qed (simp add: split_codecs.simps)

section \<open>A request the server can accept\<close>

definition request_ok :: "VRCPClientParams \<Rightarrow> bool" where
  "request_ok p \<longleftrightarrow>
     cp_video_port p \<noteq> 0
     \<and> ext_width (eye_resolution (cp_specs p)) \<le> 4000 \<and> ext_height (eye_resolution (cp_specs p)) \<le> 4000
     \<and> rr_numerator (refresh_rate (cp_specs p)) \<noteq> 0 \<and> rr_numerator (refresh_rate (cp_specs p)) < 0x10000
     \<and> rr_denominator (refresh_rate (cp_specs p)) \<noteq> 0 \<and> rr_denominator (refresh_rate (cp_specs p)) < 0x10000
     \<and> UNIX_EPOCH_NTP \<le> uint (cp_ntp_timestamp p)
     \<and> manufacturer_name (cp_specs p) \<noteq> [] \<and> system_name (cp_specs p) \<noteq> []
     \<and> cp_supported_video_codecs p \<noteq> [] \<and> list_all codec_ok (cp_supported_video_codecs p)
     \<and> length (join_codecs (cp_supported_video_codecs p)) \<le> 255"

text \<open>What is left of the specifications: names are cut to 32 bytes.\<close>

definition sent_specs :: "VRCPClientParams \<Rightarrow> VRSystemSpecs" where
  "sent_specs p = (cp_specs p)\<lparr>system_name := take 32 (system_name (cp_specs p)),
     manufacturer_name := take 32 (manufacturer_name (cp_specs p))\<rparr>"

definition sent_fields :: "VRCPClientParams \<Rightarrow> tlv_fields" where
  "sent_fields p = \<lparr>tlv_manufacturer = take 32 (manufacturer_name (cp_specs p)),
     tlv_system = take 32 (system_name (cp_specs p)),
     tlv_codecs = map (take 32) (cp_supported_video_codecs p)\<rparr>"

lemma ucast_16_32: "x < 0x10000 \<Longrightarrow> (ucast (ucast x :: u16) :: u32) = x"
proof -
  assume "x < 0x10000"
  then have "take_bit 16 (uint x) = uint x"
    by (simp add: word_less_alt take_bit_int_eq_self)
  then show ?thesis
    by (intro word_uint_eqI) (simp add: unsigned_ucast_eq unsigned_take_bit_eq)
qed

lemma ucast_16: "(x :: u32) < 0x10000 \<Longrightarrow> (ucast x :: u16) = 0 \<longleftrightarrow> x = 0"
  using ucast_16_32 [of x] by (metis unsigned_0)

lemma ucast_16_le: "(x :: u32) \<le> 4000 \<Longrightarrow> (ucast x :: u16) \<le> 4000"
proof -
  assume "x \<le> 4000"
  then have "uint x \<le> 4000" by (simp add: word_le_def)
  then have "take_bit 16 (uint x) \<le> 4000"
    using take_bit_int_less_eq_self_iff [of 16 "uint x"] by simp
  then show ?thesis by (simp add: word_le_def unsigned_ucast_eq)
qed

lemma le_4000: "(x :: u32) \<le> 4000 \<Longrightarrow> x < 0x10000"
  by (simp add: word_less_nat_alt word_le_nat_alt)

lemma requested_specs_sent:
  assumes "request_ok p"
  shows "requested_specs (conn_req_header p udp_port n) (sent_fields p) = sent_specs p"
  using assms
  by (intro VRSystemSpecs.equality)
    (simp_all add: requested_specs_def conn_req_header_def sent_fields_def sent_specs_def request_ok_def
      ucast_16_32 le_4000)

lemma check_header_sent:
  assumes "request_ok p" "udp_port \<noteq> 0"
  shows "check_header (conn_req_header p udp_port n) = (NONE, 0)"
  using assms
  by (auto simp: check_header_def conn_req_header_def default_VRCPConnectionRequest_def request_ok_def
      ucast_16 not_less ucast_16_le)

lemma request_sizes:
  assumes "request_ok p"
  shows "length (conn_req_body p) \<le> 325" "length (conn_req_body p) = 6
      + length (name_bytes (manufacturer_name (cp_specs p))) + length (name_bytes (system_name (cp_specs p)))
      + length (join_codecs (cp_supported_video_codecs p))"
  using assms by (auto simp: conn_req_body_def tlv_def request_ok_def length_name_bytes)

lemma join_codecs_not_empty: "cs \<noteq> [] \<Longrightarrow> list_all codec_ok cs \<Longrightarrow> join_codecs cs \<noteq> []"
  by (induction cs rule: join_codecs.induct) (auto simp: codec_ok_def name_bytes_def)

lemma parse_request:
  assumes "request_ok p"
  shows "parse_tlvs (conn_req_body p @ padding (40 + length (conn_req_body p)) @ beyond)
     (of_nat (conn_req_size p - 40)) no_fields = Inr (NONE, sent_fields p)"
proof -
  let ?m = "name_bytes (manufacturer_name (cp_specs p))" and ?s = "name_bytes (system_name (cp_specs p))"
  let ?c = "join_codecs (cp_supported_video_codecs p)"
  define k where "k = conn_req_size p - (40 + length (conn_req_body p))"
  have k: "k \<le> 3" "conn_req_size p - 40 = length (conn_req_body p) + k"
    unfolding k_def conn_req_size_def using padded_bounds [of "40 + length (conn_req_body p)"] by linarith+
  have b: "length (conn_req_body p) + k = length ?m + 2 + (length ?s + 2 + (length ?c + 2 + k))"
    using request_sizes(2) [OF assms] by simp
  have bounds: "?m \<noteq> []" "length ?m \<le> 255" "?s \<noteq> []" "length ?s \<le> 255" "?c \<noteq> []" "length ?c \<le> 255"
    using assms join_codecs_not_empty by (auto simp: request_ok_def name_not_empty length_name_bytes)
  have fits: "length (conn_req_body p) + k < 2 ^ 32"
    using request_sizes(1) [OF assms] k(1) by simp
  have pad: "padding (40 + length (conn_req_body p)) = replicate k 0"
    by (simp add: padding_def k_def conn_req_size_def)
  have "split_codecs ?c = map (take 32) (cp_supported_video_codecs p)"
    using assms by (simp add: split_join_codecs request_ok_def)
  note codecs = this
  let ?Z = "replicate k 0 @ beyond"
  have e1: "parse_tlvs (tlv MANUFACTURER_NAME_TLV ?m @ tlv SYSTEM_NAME_TLV ?s @ tlv SUPPORTED_VIDEO_CODECS_TLV ?c @ ?Z)
        (of_nat (length ?m + 2 + (length ?s + 2 + (length ?c + 2 + k)))) no_fields
      = parse_tlvs (tlv SYSTEM_NAME_TLV ?s @ tlv SUPPORTED_VIDEO_CODECS_TLV ?c @ ?Z)
        (of_nat (length ?s + 2 + (length ?c + 2 + k))) (no_fields\<lparr>tlv_manufacturer := chars_of ?m\<rparr>)"
    using bounds fits b by (subst parse_field) (simp_all del: of_nat_add)
  have e2: "parse_tlvs (tlv SYSTEM_NAME_TLV ?s @ tlv SUPPORTED_VIDEO_CODECS_TLV ?c @ ?Z)
        (of_nat (length ?s + 2 + (length ?c + 2 + k))) f
      = parse_tlvs (tlv SUPPORTED_VIDEO_CODECS_TLV ?c @ ?Z) (of_nat (length ?c + 2 + k))
        (f\<lparr>tlv_system := chars_of ?s\<rparr>)" for f
    using bounds fits b by (subst parse_field) (simp_all del: of_nat_add)
  have e3: "parse_tlvs (tlv SUPPORTED_VIDEO_CODECS_TLV ?c @ ?Z) (of_nat (length ?c + 2 + k)) f
      = parse_tlvs ?Z (of_nat k) (f\<lparr>tlv_codecs := tlv_codecs f @ split_codecs ?c\<rparr>)" for f
    using bounds fits b by (subst parse_field) (simp_all del: of_nat_add)
  show ?thesis
    unfolding k(2) b pad unfolding conn_req_body_def append_assoc e1 e2 e3 parse_padding [OF k(1)]
    by (simp add: no_fields_def sent_fields_def chars_of_name codecs)
qed

lemma request_accepted:
  assumes "request_ok p" "\<And>n. length (mem n) = n" "udp_port \<noteq> 0"
    and "choose_codec (srv_supported_video_codecs sp) (map (take 32) (cp_supported_video_codecs p)) = codec" "codec \<noteq> []"
  shows "let w = conn_req_packet mem udp_port p in
    length w = conn_req_size p \<and> wf_packet w \<and> to_ft (load8 (w @ beyond)) = CONN_REQ
    \<and> VRCPConnectionRequest_of (w @ beyond) = conn_req_header p udp_port (conn_req_size p)
    \<and> check_conn_req sp (w @ beyond) (length w) = Inr (Accepted codec (sent_fields p))"
proof -
  let ?h = "conn_req_header p udp_port (conn_req_size p)"
  let ?t = "conn_req_body p @ padding (40 + length (conn_req_body p))"
  have h: "length (VRCPConnectionRequest_bytes ?h) = 40" by (rule cr_layout.enc_size)
  have w: "conn_req_packet mem udp_port p = VRCPConnectionRequest_bytes ?h @ ?t"
    using assms(1) by (intro conn_req_packet_image assms(2)) (auto simp: request_ok_def codec_ok_def list_all_iff)
  have size: "length (conn_req_packet mem udp_port p) = conn_req_size p"
    unfolding w using h padded_bounds(1) [of "40 + length (conn_req_body p)"]
    by (simp add: conn_req_size_def padding_def)
  have n: "40 \<le> conn_req_size p" "conn_req_size p \<le> 368" "conn_req_size p mod 4 = 0"
    using padded_bounds [of "40 + length (conn_req_body p)"] request_sizes(1) [OF assms(1)]
    by (auto simp: conn_req_size_def)
  have rows: "unat (of_nat (conn_req_size p div 4) :: u8) * 4 = conn_req_size p"
    using n div_mult_mod_eq [of "conn_req_size p" 4] by (simp add: unsigned_of_nat take_bit_nat_eq_self)
  have first: "VRCPConnectionRequest_bytes ?h = 1 # of_nat (conn_req_size p div 4) # drop 2 (VRCPConnectionRequest_bytes ?h)"
    by (simp add: VRCPConnectionRequest_bytes_def conn_req_header_def default_VRCPConnectionRequest_def numeral_2_eq_2)
  have wf: "wf_packet (conn_req_packet mem udp_port p)"
    unfolding wf_packet_def size using n(1) rows
    by (subst w, subst first) (simp add: packet_length_def VRCP_ROW_SIZE_def)
  have ty: "to_ft (load8 (conn_req_packet mem udp_port p @ beyond)) = CONN_REQ"
    unfolding w by (subst first) (simp add: to_ft_tlv)
  have "to_ft (to_u8 (cr_ftype ?h)) = cr_ftype ?h"
    by (simp add: conn_req_header_def default_VRCPConnectionRequest_def to_ft_tlv)
  then have hd: "VRCPConnectionRequest_of (conn_req_packet mem udp_port p @ beyond) = ?h"
    unfolding w append_assoc by (rule cr_layout.dec_enc_append)
  have dr: "drop 40 (conn_req_packet mem udp_port p @ beyond) = ?t @ beyond"
    unfolding w using h by simp
  have rem: "of_nat (conn_req_size p) - 40 = (of_nat (conn_req_size p - 40) :: u64)"
    using n(1) by (simp add: of_nat_diff)
  have "check_conn_req sp (conn_req_packet mem udp_port p @ beyond) (conn_req_size p) = Inr (Accepted codec (sent_fields p))"
  proof -
    have "\<not> length (conn_req_packet mem udp_port p @ beyond) < 40" using n(1) size by simp
    then show ?thesis
      unfolding check_conn_req_def sizeof_VRCPConnectionRequest_def hd dr of_nat_numeral rem
        check_header_sent [OF assms(1,3)] append_assoc parse_request [OF assms(1), of beyond]
      using assms(4,5) by (simp add: sent_fields_def)
  qed
  with wf ty hd size show ?thesis by (simp add: Let_def)
qed

section \<open>The answer of the server\<close>

lemma conn_accept_packet_image:
  assumes "\<And>n. length (mem n) = n"
  shows "conn_accept_packet mem udp_port video_port codec =
    VRCPConnectionAccept_bytes (default_VRCPConnectionAccept
       \<lparr>ca_n_rows := of_nat (padded (8 + name_size codec) div 4), ca_udp_vrcp_port := htons udp_port,
        ca_video_port := htons video_port\<rparr>)
      @ tlv CHOSEN_VIDEO_CODEC_TLV (name_bytes codec) @ padding (8 + name_size codec)"
proof -
  define n where "n = 8 + name_size codec"
  let ?h = "VRCPConnectionAccept_bytes (default_VRCPConnectionAccept
       \<lparr>ca_n_rows := of_nat (padded n div 4), ca_udp_vrcp_port := htons udp_port,
        ca_video_port := htons video_port\<rparr>)"
  have h: "length ?h = 8" by (rule ca_layout.enc_size)
  define r1 where "r1 = drop 8 (mem (padded n))"
  have r1: "length r1 = padded n - 8" by (simp add: r1_def assms)
  have big: "8 + name_size codec \<le> padded n" unfolding n_def by (rule padded_bounds)
  have m0: "write_at 0 ?h (mem (padded n)) = ?h @ r1" using h by (simp add: r1_def)
  have m1: "write_name 8 CHOSEN_VIDEO_CODEC_TLV codec (?h @ r1)
      = ?h @ tlv CHOSEN_VIDEO_CODEC_TLV (name_bytes codec) @ drop (name_size codec) r1"
    using r1 big by (intro write_name_append h) simp
  have lc: "length (?h @ tlv CHOSEN_VIDEO_CODEC_TLV (name_bytes codec)) = n"
    using h by (simp add: tlv_def n_def name_size_def length_name_bytes)
  have m2: "write_at n (replicate (padded n - n) 0)
        (?h @ tlv CHOSEN_VIDEO_CODEC_TLV (name_bytes codec) @ drop (name_size codec) r1)
      = ?h @ tlv CHOSEN_VIDEO_CODEC_TLV (name_bytes codec) @ padding n"
    using write_at_append [OF lc, of "replicate (padded n - n) 0" "drop (name_size codec) r1"] r1 big
    by (simp add: padding_def n_def)
  show ?thesis
    unfolding conn_accept_packet_def Let_def sizeof_VRCPConnectionAccept_def n_def [symmetric] m0 m1 by (rule m2)
qed

lemma accept_read:
  assumes "\<And>n. length (mem n) = n" "codec \<noteq> []"
  shows "let w = conn_accept_packet mem udp_port video_port codec in
    wf_packet w \<and> sizeof_VRCPConnectionAccept + 2 \<le> length w \<and> length w \<le> 48
    \<and> to_ft (load8 (w @ beyond)) = CONN_ACCEPT
    \<and> ntohs (ca_udp_vrcp_port (VRCPConnectionAccept_of (w @ beyond))) = udp_port
    \<and> ntohs (ca_video_port (VRCPConnectionAccept_of (w @ beyond))) = video_port
    \<and> find_chosen_codec (drop sizeof_VRCPConnectionAccept (w @ beyond)) (length w - sizeof_VRCPConnectionAccept)
        = Inr (take 32 codec)"
proof -
  define n where "n = 8 + name_size codec"
  let ?a = "default_VRCPConnectionAccept
       \<lparr>ca_n_rows := of_nat (padded n div 4), ca_udp_vrcp_port := htons udp_port, ca_video_port := htons video_port\<rparr>"
  let ?h = "VRCPConnectionAccept_bytes ?a" and ?v = "name_bytes codec"
  define w where "w = conn_accept_packet mem udp_port video_port codec"
  have w: "w = ?h @ tlv CHOSEN_VIDEO_CODEC_TLV ?v @ padding n"
    unfolding w_def n_def by (rule conn_accept_packet_image [OF assms(1)])
  have h: "length ?h = 8" by (rule ca_layout.enc_size)
  have v: "?v \<noteq> []" "length ?v \<le> 32" "name_size codec = length ?v + 2"
    using assms(2) by (auto simp: name_not_empty length_name_bytes name_size_def)
  have v1: "1 \<le> length ?v" using v(1) by (cases ?v) auto
  have n: "11 \<le> padded n" "padded n \<le> 45" "padded n mod 4 = 0" "n \<le> padded n"
    using padded_bounds [of n] v(2,3) v1 by (auto simp: n_def)
  have len: "length w = padded n"
    unfolding w using h n(4) v(3) by (simp add: tlv_def padding_def n_def)
  have rows: "unat (of_nat (padded n div 4) :: u8) * 4 = padded n"
    using n div_mult_mod_eq [of "padded n" 4] by (simp add: unsigned_of_nat take_bit_nat_eq_self)
  have first: "?h = 2 # of_nat (padded n div 4) # drop 2 ?h"
    by (simp add: VRCPConnectionAccept_bytes_def default_VRCPConnectionAccept_def numeral_2_eq_2)
  have wf: "wf_packet w"
    unfolding wf_packet_def len using n(1) rows
    by (subst w, subst first) (simp add: packet_length_def VRCP_ROW_SIZE_def)
  have ty: "to_ft (load8 (w @ beyond)) = CONN_ACCEPT"
    unfolding w by (subst first) (simp add: to_ft_tlv)
  have hd: "VRCPConnectionAccept_of (w @ beyond) = ?a"
    unfolding w append_assoc
    by (rule ca_layout.dec_enc_append) (simp add: default_VRCPConnectionAccept_def to_ft_tlv)
  have dr: "drop 8 (w @ beyond) = tlv CHOSEN_VIDEO_CODEC_TLV ?v @ padding n @ beyond"
    unfolding w using h by simp
  have l8: "unat (of_nat (length ?v) :: u8) = length ?v"
    using v(2) by (simp add: unsigned_of_nat take_bit_nat_eq_self)
  have rem: "length ?v + 2 \<le> length w - 8" using len n(4) v(3) by (simp add: n_def)
  have "find_chosen_codec (tlv CHOSEN_VIDEO_CODEC_TLV ?v @ padding n @ beyond) (length w - 8) = Inr (take 32 codec)"
    using rem l8 by (subst find_chosen_codec.simps) (simp add: tlv_def Let_def to_ft_tlv chars_of_name)
  then show ?thesis
    unfolding Let_def w_def [symmetric] sizeof_VRCPConnectionAccept_def
    using wf ty hd dr len n by simp
qed

section \<open>Moving one packet\<close>

text \<open>A packet that arrives alone in an empty buffer is read from its front.\<close>

lemma receive_one:
  assumes "rx_ok d" "unread d = []" "wf_packet w" "length w \<le> 1020"
  shows "\<exists>buf b. reliable_receive clk (Done w # rs) d = (Inr (Some (0, length w)), rs,
      d\<lparr>vs_tcp_buffer := w @ buf, vs_tcp_head := 0, vs_tcp_tail := 0, vs_bucket := b\<rparr>)
    \<and> rx_ok (d\<lparr>vs_tcp_buffer := w @ buf, vs_tcp_head := 0, vs_tcp_tail := 0, vs_bucket := b\<rparr>)
    \<and> unread (d\<lparr>vs_tcp_buffer := w @ buf, vs_tcp_head := 0, vs_tcp_tail := 0, vs_bucket := b\<rparr>) = []"
proof -
  have ok: "tcp_ok d" and con: "tcp_is_connected (vs_tcp d)"
    and reg: "registered (tcp_measurement_storage_id (vs_tcp d)) (vs_bucket d)"
    using assms(1) by (simp_all add: rx_ok_def)
  have ht: "vs_tcp_head d = vs_tcp_tail d"
    using length_unread [OF ok] assms(2) ok by (simp add: tcp_ok_def)
  have w4: "4 \<le> length w" "packet_length w = length w" using assms(3) by (simp_all add: wf_packet_def)
  obtain b where b: "tcp_receive clk (Done w) (vs_tcp d) (vs_bucket d) = (Inr (Some w, b), vs_tcp d)"
    "registered (tcp_measurement_storage_id (vs_tcp d)) b"
    using tcp_receive_rx(1) [OF assms(1)] by blast
  define buf where "buf = drop (length w) (vs_tcp_buffer d)"
  have none: "next_tcp_packet d = (None, d)"
    using ht by (simp add: next_tcp_packet_def buffered_def sizeof_VRCPBaseHeader_def)
  have cpt: "compact d = d\<lparr>vs_tcp_tail := 0, vs_tcp_head := 0\<rparr>"
    using ht by (auto simp: compact_def)
  have "reliable_receive clk (Done w # rs) d = (Inr (Some (0, length w)), rs,
      d\<lparr>vs_tcp_buffer := w @ buf, vs_tcp_head := 0, vs_tcp_tail := 0, vs_bucket := b\<rparr>)"
  proof -
    have "reliable_receive clk (Done w # rs) d = receive_at_tail clk (Done w # rs) (d\<lparr>vs_tcp_tail := 0, vs_tcp_head := 0\<rparr>)"
      by (simp add: reliable_receive_def none cpt)
    then show ?thesis
      using b(1) con w4 by (simp add: receive_at_tail_def next_tcp_packet_def Let_def buffered_def
          sizeof_VRCPBaseHeader_def buf_def)
  qed
  moreover have "length (w @ buf) = 4080"
    using ok assms(4) by (simp add: buf_def tcp_ok_def)
  ultimately show ?thesis
    using b(2) con by (intro exI [of _ buf] exI [of _ b]) (simp add: rx_ok_def tcp_ok_def unread_def)
qed

lemma receive_nothing:
  assumes "rx_ok d" "unread d = []"
  shows "\<exists>d'. reliable_receive clk [] d = (Inr None, [], d') \<and> rx_ok d' \<and> unread d' = []
    \<and> d' = d\<lparr>vs_tcp_head := 0, vs_tcp_tail := 0\<rparr>"
proof -
  have ok: "tcp_ok d" using assms(1) by (simp add: rx_ok_def)
  have ht: "vs_tcp_head d = vs_tcp_tail d"
    using length_unread [OF ok] assms(2) ok by (simp add: tcp_ok_def)
  have none: "next_tcp_packet d = (None, d)"
    using ht by (simp add: next_tcp_packet_def buffered_def sizeof_VRCPBaseHeader_def)
  have cpt: "compact d = d\<lparr>vs_tcp_tail := 0, vs_tcp_head := 0\<rparr>"
    using ht by (auto simp: compact_def)
  have rx: "rx_ok (d\<lparr>vs_tcp_tail := 0, vs_tcp_head := 0\<rparr>)" "unread (d\<lparr>vs_tcp_tail := 0, vs_tcp_head := 0\<rparr>) = []"
    using assms(1) by (simp_all add: rx_ok_def tcp_ok_def unread_def)
  show ?thesis
    using rx tcp_receive_rx(2) [OF rx(1), of clk]
    by (simp add: reliable_receive_def none cpt receive_at_tail_def rx_ok_def)
qed

lemma send_whole:
  assumes "tcp_is_connected (vs_tcp (ng_data g))"
    and "registered (tcp_measurement_storage_id (vs_tcp (ng_data g))) (vs_bucket (ng_data g))"
    and "snd (send_loop 100000 w 0 (nc_send calls)) = Sent (length w)"
  shows "\<exists>b. send_on_wire calls w g = Some (Inr (), g\<lparr>ng_data := (ng_data g)\<lparr>vs_bucket := b\<rparr>, ng_wire := ng_wire g @ w\<rparr>)
    \<and> registered (tcp_measurement_storage_id (vs_tcp (ng_data g))) b"
  using assms count_registered(1) [OF assms(2), of "nc_clk calls" "length w"]
    send_loop_Sent [OF assms(3)]
  by (auto simp: send_on_wire_def reliable_send_def tcp_send_def tcp_is_connected_def split: prod.splits)

text \<open>The calls that create a UDP socket succeed and bind it to a port.\<close>

definition sockets_work :: "socket_calls \<Rightarrow> u16 \<Rightarrow> bool" where
  "sockets_work sys p \<longleftrightarrow> \<not> is_error (call_socket sys) \<and> \<not> is_error (call_setsockopt_reuse sys)
     \<and> \<not> is_error (call_setsockopt_broadcast sys) \<and> \<not> is_error (call_fcntl_get sys) \<and> \<not> is_error (call_fcntl_set sys)
     \<and> \<not> is_error (call_bind sys) \<and> (\<exists>a. call_getsockname sys = Done a \<and> port a = p)"

lemma register_if_registered:
  "registered i b \<Longrightarrow> registered i (snd (register_if b sid ty))"
  by (auto simp: register_if_def registered_def register_socket_def split: option.splits)

lemma ensure_udp_works:
  assumes "vs_udp d = None" "sockets_work (nc_udp calls) p" "registered i (vs_bucket d)"
  shows "\<exists>u b. ensure_udp calls d = (Inr (), d\<lparr>vs_udp := Some u, vs_bucket := b\<rparr>)
    \<and> port (udp_local_addr u) = p \<and> registered i b"
proof -
  obtain fd a where c: "call_socket (nc_udp calls) = Done fd" "call_getsockname (nc_udp calls) = Done a" "port a = p"
    "\<not> is_error (call_setsockopt_reuse (nc_udp calls))" "call_fcntl_get (nc_udp calls) = Done ()"
    "call_fcntl_set (nc_udp calls) = Done ()" "call_bind (nc_udp calls) = Done ()"
    using assms(2) unfolding sockets_work_def by (metis (full_types) is_error.elims(3) old.unit.exhaust)
  obtain x1 x2 where r: "register_if (vs_bucket d) VRCP_UDP_SOCKET SOCKET_TYPE_UDP = (x1, x2)" by fastforce
  show ?thesis
    using assms(1) c r register_if_registered [OF assms(3), of VRCP_UDP_SOCKET SOCKET_TYPE_UDP]
    by (intro exI [of _ "\<lparr>udp_socket = Some fd, udp_local_addr = a, udp_measurement_storage_id = x1\<rparr>"] exI [of _ x2])
      (simp add: ensure_udp_def new_UDPSocket_def)
qed

section \<open>The two sides of a successful handshake\<close>

text \<open>A client that has not connected yet, and a server that has just accepted its TCP connection.\<close>

definition client_ready :: "negotiation \<Rightarrow> bool" where
  "client_ready g \<longleftrightarrow> vs_state (ng_data g) = AWAITING_CONNECTION \<and> tcp_state (vs_tcp (ng_data g)) = NOT_STARTED
     \<and> tcp_ok (ng_data g) \<and> unread (ng_data g) = [] \<and> vs_udp (ng_data g) = None
     \<and> registered (tcp_measurement_storage_id (vs_tcp (ng_data g))) (vs_bucket (ng_data g))
     \<and> ng_script g = [] \<and> ng_wire g = []"

definition server_ready :: "negotiation \<Rightarrow> bool" where
  "server_ready g \<longleftrightarrow> vs_state (ng_data g) = NEGOTIATING \<and> rx_ok (ng_data g) \<and> unread (ng_data g) = []
     \<and> vs_udp (ng_data g) = None \<and> ng_wire g = []"

text \<open>The kernel takes a whole message before the send times out.\<close>

definition sends_whole :: "negotiation_calls \<Rightarrow> bytes \<Rightarrow> bool" where
  "sends_whole calls w \<longleftrightarrow> snd (send_loop 100000 w 0 (nc_send calls)) = Sent (length w)"

lemma listen_for_conn_resp_nothing:
  assumes "vs_state (ng_data g) = NEGOTIATING" "rx_ok (ng_data g)" "unread (ng_data g) = []" "ng_script g = []"
  shows "listen_for_conn_resp calls p g
    = (Inr False, g\<lparr>ng_data := (ng_data g)\<lparr>vs_tcp_head := 0, vs_tcp_tail := 0\<rparr>, ng_script := []\<rparr>)"
  using assms receive_nothing [OF assms(2,3), of "nc_clk calls"]
  by (subst listen_for_conn_resp.simps) auto

lemma client_requests:
  assumes "client_ready g" "request_ok p" "sockets_work (nc_udp calls) cport"
    and "sends_whole calls (conn_req_packet (nc_mem calls) cport p)"
  shows "\<exists>g'. client_connect calls (Done ()) a p g = Some (Inr False, g')
    \<and> ng_wire g' = conn_req_packet (nc_mem calls) cport p \<and> vs_state (ng_data g') = NEGOTIATING
    \<and> rx_ok (ng_data g') \<and> unread (ng_data g') = [] \<and> tcp_peer_addr (vs_tcp (ng_data g')) = a"
proof -
  let ?d = "ng_data g" and ?w = "conn_req_packet (nc_mem calls) cport p"
  let ?s = "(vs_tcp ?d)\<lparr>tcp_state := CONNECTED, tcp_peer_addr := a\<rparr>"
  have con: "tcp_connect (Done ()) a (vs_tcp ?d) = (Inr True, ?s)"
    using assms(1) by (simp add: client_ready_def tcp_connect_def)
  from ensure_udp_works [of "?d\<lparr>vs_tcp := ?s, vs_state := NEGOTIATING\<rparr>" calls cport
      "tcp_measurement_storage_id (vs_tcp ?d)"] assms(1,3) obtain u b where
    u: "ensure_udp calls (?d\<lparr>vs_tcp := ?s, vs_state := NEGOTIATING\<rparr>)
        = (Inr (), ?d\<lparr>vs_tcp := ?s, vs_state := NEGOTIATING, vs_udp := Some u, vs_bucket := b\<rparr>)"
    "port (udp_local_addr u) = cport" "registered (tcp_measurement_storage_id (vs_tcp ?d)) b"
    by (auto simp: client_ready_def)
  define d1 where "d1 = ?d\<lparr>vs_tcp := ?s, vs_state := NEGOTIATING, vs_udp := Some u, vs_bucket := b\<rparr>"
  have pl: "udp_local_port d1 = cport" by (simp add: udp_local_port_def d1_def u(2))
  from send_whole [of "g\<lparr>ng_data := d1\<rparr>" ?w calls] assms(4) u(3) obtain b' where
    b': "send_on_wire calls ?w (g\<lparr>ng_data := d1\<rparr>) = Some (Inr (), g\<lparr>ng_data := d1\<lparr>vs_bucket := b'\<rparr>, ng_wire := ng_wire g @ ?w\<rparr>)"
    "registered (tcp_measurement_storage_id (vs_tcp ?d)) b'"
    by (auto simp: d1_def tcp_is_connected_def sends_whole_def)
  define d2 where "d2 = d1\<lparr>vs_bucket := b'\<rparr>"
  have d2: "vs_state d2 = NEGOTIATING" "rx_ok d2" "unread d2 = []" "tcp_peer_addr (vs_tcp d2) = a"
    using assms(1) b'(2)
    by (auto simp: d2_def d1_def client_ready_def rx_ok_def tcp_ok_def tcp_is_connected_def unread_def)
  have "client_connect calls (Done ()) a p g
      = Some (listen_for_conn_resp calls p (g\<lparr>ng_data := d2, ng_wire := ng_wire g @ ?w\<rparr>))"
    using assms(1,2) con u(1) b'(1) pl
    by (simp add: client_connect_def Let_def client_ready_def request_ok_def d1_def [symmetric] d2_def)
  moreover have "listen_for_conn_resp calls p (g\<lparr>ng_data := d2, ng_wire := ng_wire g @ ?w\<rparr>)
      = (Inr False, g\<lparr>ng_data := d2\<lparr>vs_tcp_head := 0, vs_tcp_tail := 0\<rparr>, ng_wire := ng_wire g @ ?w, ng_script := []\<rparr>)"
    using d2 assms(1) by (subst listen_for_conn_resp_nothing) (simp_all add: client_ready_def)
  ultimately show ?thesis
    using d2 assms(1) by (simp add: client_ready_def rx_ok_def tcp_ok_def unread_def)
qed

lemma server_accepts:
  assumes "server_ready g" "request_ok p" "cport \<noteq> 0" "\<And>n. length (mem n) = n"
    and "choose_codec (srv_supported_video_codecs sp) (map (take 32) (cp_supported_video_codecs p)) = codec" "codec \<noteq> []"
    and "sockets_work (nc_udp calls) sport" "ng_script g = [Done (conn_req_packet mem cport p)]"
    and "sends_whole calls (conn_accept_packet (nc_mem calls) sport (srv_video_port sp) codec)"
  shows "\<exists>g'. listen_for_conn_req calls sp g = Some (Inr True, g')
    \<and> ng_wire g' = conn_accept_packet (nc_mem calls) sport (srv_video_port sp) codec
    \<and> vs_state (ng_data g') = VRCP_CONNECTED
    \<and> vs_peer_udp_addr (ng_data g') = \<lparr>addr = addr (tcp_peer_addr (vs_tcp (ng_data g))), port = cport\<rparr>
    \<and> ng_resp g' = \<lparr>resp_peer_video_port = cp_video_port p, resp_chosen_video_codec = codec,
        resp_ntp_timestamp = cp_ntp_timestamp p\<rparr>
    \<and> cp_specs (ng_client g') = sent_specs p"
proof -
  let ?w = "conn_req_packet mem cport p"
  let ?r = "conn_req_header p cport (conn_req_size p)"
  let ?a = "conn_accept_packet (nc_mem calls) sport (srv_video_port sp) codec"
  note acc = request_accepted [OF assms(2,4,3,5,6), unfolded Let_def]
  have wf: "wf_packet ?w" "length ?w \<le> 1020"
    using acc [of "[]"] padded_bounds(2) [of "40 + length (conn_req_body p)"] request_sizes(1) [OF assms(2)]
    by (auto simp: conn_req_size_def)
  have rdy: "rx_ok (ng_data g)" "unread (ng_data g) = []" using assms(1) by (simp_all add: server_ready_def)
  from receive_one [OF rdy wf, of "nc_clk calls" "[]"] obtain buf b where
    rcv: "reliable_receive (nc_clk calls) [Done ?w] (ng_data g) = (Inr (Some (0, length ?w)), [],
      (ng_data g)\<lparr>vs_tcp_buffer := ?w @ buf, vs_tcp_head := 0, vs_tcp_tail := 0, vs_bucket := b\<rparr>)"
    "rx_ok ((ng_data g)\<lparr>vs_tcp_buffer := ?w @ buf, vs_tcp_head := 0, vs_tcp_tail := 0, vs_bucket := b\<rparr>)"
    by blast
  define d1 where "d1 = (ng_data g)\<lparr>vs_tcp_buffer := ?w @ buf, vs_tcp_head := 0, vs_tcp_tail := 0, vs_bucket := b\<rparr>"
  define g1 where "g1 = g\<lparr>ng_data := d1, ng_script := []\<rparr>"
  have chk: "to_ft (load8 (vs_tcp_buffer d1)) = CONN_REQ" "VRCPConnectionRequest_of (vs_tcp_buffer d1) = ?r"
    "check_conn_req sp (vs_tcp_buffer d1) (length ?w) = Inr (Accepted codec (sent_fields p))"
    using acc [of buf] by (auto simp: d1_def)
  have listen: "listen_for_conn_req calls sp g = accept_client calls sp ?r codec (sent_fields p) g1"
    using rcv(1) assms(8) chk by (subst listen_for_conn_req.simps) (simp add: g1_def d1_def [symmetric])
  define d2 where "d2 = d1\<lparr>vs_peer_udp_addr := \<lparr>addr = addr (tcp_peer_addr (vs_tcp d1)), port = cport\<rparr>, vs_bcast := None\<rparr>"
  have reg: "registered (tcp_measurement_storage_id (vs_tcp d1)) (vs_bucket d2)" "vs_udp d2 = None"
    using rcv(2) assms(1) by (simp_all add: d2_def d1_def rx_ok_def server_ready_def)
  from ensure_udp_works [OF reg(2) assms(7) reg(1)] obtain u b1 where
    u: "ensure_udp calls d2 = (Inr (), d2\<lparr>vs_udp := Some u, vs_bucket := b1\<rparr>)" "port (udp_local_addr u) = sport"
    "registered (tcp_measurement_storage_id (vs_tcp d1)) b1" by blast
  define d3 where "d3 = d2\<lparr>vs_udp := Some u, vs_bucket := b1\<rparr>"
  define g2 where "g2 = g1\<lparr>ng_resp := \<lparr>resp_peer_video_port = cp_video_port p, resp_chosen_video_codec = codec,
        resp_ntp_timestamp = cp_ntp_timestamp p\<rparr>,
      ng_client := (ng_client g1)\<lparr>cp_specs := sent_specs p, cp_supported_video_codecs := tlv_codecs (sent_fields p),
        cp_video_port := cp_video_port p\<rparr>, ng_data := d3\<rparr>"
  have con: "tcp_is_connected (vs_tcp d3)" "registered (tcp_measurement_storage_id (vs_tcp d3)) (vs_bucket d3)"
    using rcv(2) u(3) by (simp_all add: d3_def d2_def d1_def rx_ok_def)
  from send_whole [of g2 ?a calls] con assms(9) obtain b2 where
    b2: "send_on_wire calls ?a g2 = Some (Inr (), g2\<lparr>ng_data := d3\<lparr>vs_bucket := b2\<rparr>, ng_wire := ng_wire g2 @ ?a\<rparr>)"
    by (auto simp: g2_def sends_whole_def)
  have pl: "udp_local_port d3 = sport" by (simp add: udp_local_port_def d3_def u(2))
  have ports: "ntohs (cr_udp_vrcp_port ?r) = cport" "ntohs (cr_video_port ?r) = cp_video_port p"
    "ntohll (cr_ntp_timestamp ?r) = cp_ntp_timestamp p"
    by (simp_all add: conn_req_header_def)
  have "accept_client calls sp ?r codec (sent_fields p) g1
      = Some (Inr True, g2\<lparr>ng_data := d3\<lparr>vs_bucket := b2, vs_state := VRCP_CONNECTED\<rparr>, ng_wire := ng_wire g2 @ ?a\<rparr>)"
    unfolding accept_client_def Let_def ports requested_specs_sent [OF assms(2)]
    using u(1) b2 pl by (simp add: g1_def d2_def [symmetric] d3_def [symmetric] g2_def)
  with listen assms(1) show ?thesis
    by (simp add: g2_def g1_def d3_def d2_def d1_def server_ready_def)
qed

lemma client_completes:
  assumes "vs_state (ng_data g) = NEGOTIATING" "rx_ok (ng_data g)" "unread (ng_data g) = []" "request_ok p"
    and "\<And>n. length (mem n) = n" "codec \<noteq> []"
    and "ng_script g = [Done (conn_accept_packet mem sport video_port codec)]"
  shows "\<exists>g'. client_connect calls x a p g = Some (Inr True, g') \<and> vs_state (ng_data g') = VRCP_CONNECTED
    \<and> vs_peer_udp_addr (ng_data g') = \<lparr>addr = addr (tcp_peer_addr (vs_tcp (ng_data g))), port = sport\<rparr>
    \<and> ng_resp g' = \<lparr>resp_peer_video_port = video_port, resp_chosen_video_codec = take 32 codec,
        resp_ntp_timestamp = cp_ntp_timestamp p\<rparr>"
proof -
  let ?w = "conn_accept_packet mem sport video_port codec"
  note acc = accept_read [OF assms(5,6), of sport video_port, unfolded Let_def]
  have wf: "wf_packet ?w" "length ?w \<le> 1020" using acc [of "[]"] by auto
  from receive_one [OF assms(2,3) wf, of "nc_clk calls" "[]"] obtain buf b where
    rcv: "reliable_receive (nc_clk calls) [Done ?w] (ng_data g) = (Inr (Some (0, length ?w)), [],
      (ng_data g)\<lparr>vs_tcp_buffer := ?w @ buf, vs_tcp_head := 0, vs_tcp_tail := 0, vs_bucket := b\<rparr>)"
    by blast
  have "take 32 codec \<noteq> []" using assms(6) by simp
  then have "listen_for_conn_resp calls p g = (Inr True, g\<lparr>ng_script := [],
      ng_resp := \<lparr>resp_peer_video_port = video_port, resp_chosen_video_codec = take 32 codec,
        resp_ntp_timestamp = cp_ntp_timestamp p\<rparr>,
      ng_data := (ng_data g)\<lparr>vs_tcp_buffer := ?w @ buf, vs_tcp_head := 0, vs_tcp_tail := 0, vs_bucket := b,
        vs_peer_udp_addr := \<lparr>addr = addr (tcp_peer_addr (vs_tcp (ng_data g))), port = sport\<rparr>,
        vs_state := VRCP_CONNECTED, vs_bcast := None, vs_server_candidates := []\<rparr>\<rparr>)"
    using rcv assms(1,7) acc [of buf]
    by (subst listen_for_conn_resp.simps) (simp add: Let_def del: drop_append)
  moreover have "client_connect calls x a p g = Some (listen_for_conn_resp calls p g)"
    using assms(1,4) by (simp add: client_connect_def Let_def request_ok_def)
  ultimately show ?thesis by simp
qed

section \<open>Properties\<close>

text \<open>C3: the whole handshake. A client that connects sends its request, the server that reads it
  answers, and the client that reads the answer is connected: both ends are then in the connected
  state with the same codec, which is the server's first choice among those the client supports, the
  server has the client's specifications (names cut to 32 bytes) and NTP time, and each end has the
  other's UDP and video ports. This holds whatever the allocated memory contained.\<close>

theorem handshake_agrees:
  assumes "client_ready g" "server_ready h" "request_ok p"
    and "sockets_work (nc_udp cc) cport" "sockets_work (nc_udp sc) sport" "cport \<noteq> 0"
    and "\<And>n. length (nc_mem cc n) = n" "\<And>n. length (nc_mem sc n) = n"
    and "sends_whole cc (conn_req_packet (nc_mem cc) cport p)"
    and "sends_whole sc (conn_accept_packet (nc_mem sc) sport (srv_video_port sp) codec)"
    and "choose_codec (srv_supported_video_codecs sp) (map (take 32) (cp_supported_video_codecs p)) = codec" "codec \<noteq> []"
  shows "\<exists>g1 h1 g2. client_connect cc (Done ()) a p g = Some (Inr False, g1)
    \<and> listen_for_conn_req sc sp (h\<lparr>ng_script := [Done (ng_wire g1)]\<rparr>) = Some (Inr True, h1)
    \<and> client_connect cc x a p (g1\<lparr>ng_script := [Done (ng_wire h1)]\<rparr>) = Some (Inr True, g2)
    \<and> vs_state (ng_data h1) = VRCP_CONNECTED \<and> vs_state (ng_data g2) = VRCP_CONNECTED
    \<and> resp_chosen_video_codec (ng_resp h1) = codec \<and> resp_chosen_video_codec (ng_resp g2) = codec
    \<and> cp_specs (ng_client h1) = sent_specs p \<and> resp_ntp_timestamp (ng_resp h1) = cp_ntp_timestamp p
    \<and> vs_peer_udp_addr (ng_data g2) = \<lparr>addr = addr a, port = sport\<rparr>
    \<and> vs_peer_udp_addr (ng_data h1) = \<lparr>addr = addr (tcp_peer_addr (vs_tcp (ng_data h))), port = cport\<rparr>
    \<and> resp_peer_video_port (ng_resp g2) = srv_video_port sp \<and> resp_peer_video_port (ng_resp h1) = cp_video_port p"
proof -
  let ?s = "\<lambda>g1. h\<lparr>ng_script := [Done (ng_wire g1)]\<rparr>"
  from client_requests [OF assms(1,3,4,9), of a] obtain g1 where
    g1: "client_connect cc (Done ()) a p g = Some (Inr False, g1)" "ng_wire g1 = conn_req_packet (nc_mem cc) cport p"
    "vs_state (ng_data g1) = NEGOTIATING" "rx_ok (ng_data g1)" "unread (ng_data g1) = []"
    "tcp_peer_addr (vs_tcp (ng_data g1)) = a" by blast
  have rdy: "server_ready (?s g1)" using assms(2) by (simp add: server_ready_def)
  from server_accepts [OF rdy assms(3,6,7,11,12,5) _ assms(10)] g1(2) obtain h1 where
    h1: "listen_for_conn_req sc sp (?s g1) = Some (Inr True, h1)"
    "ng_wire h1 = conn_accept_packet (nc_mem sc) sport (srv_video_port sp) codec"
    "vs_state (ng_data h1) = VRCP_CONNECTED"
    "vs_peer_udp_addr (ng_data h1) = \<lparr>addr = addr (tcp_peer_addr (vs_tcp (ng_data h))), port = cport\<rparr>"
    "ng_resp h1 = \<lparr>resp_peer_video_port = cp_video_port p, resp_chosen_video_codec = codec,
        resp_ntp_timestamp = cp_ntp_timestamp p\<rparr>"
    "cp_specs (ng_client h1) = sent_specs p"
    by auto
  have cut: "take 32 codec = codec"
    using assms(11,12) by (auto simp: choose_codec_def find_Some_iff split: option.splits)
  from client_completes [of "g1\<lparr>ng_script := [Done (ng_wire h1)]\<rparr>", OF _ _ _ assms(3,8,12), of sport "srv_video_port sp" cc x a]
    g1 h1(2) obtain g2 where
    g2: "client_connect cc x a p (g1\<lparr>ng_script := [Done (ng_wire h1)]\<rparr>) = Some (Inr True, g2)"
    "vs_state (ng_data g2) = VRCP_CONNECTED"
    "vs_peer_udp_addr (ng_data g2) = \<lparr>addr = addr a, port = sport\<rparr>"
    "ng_resp g2 = \<lparr>resp_peer_video_port = srv_video_port sp, resp_chosen_video_codec = codec,
        resp_ntp_timestamp = cp_ntp_timestamp p\<rparr>"
    by (auto simp: cut)
  from g1 h1 g2 show ?thesis by auto
qed

definition working_calls :: "u16 \<Rightarrow> socket_calls" where
  "working_calls p = \<lparr>call_socket = Done 7, call_setsockopt_reuse = Done (), call_setsockopt_broadcast = Done (),
     call_fcntl_get = Done (), call_fcntl_set = Done (), call_bind = Done (),
     call_getsockname = Done \<lparr>addr = 0x0A000002, port = p\<rparr>\<rparr>"

definition example_calls :: "u16 \<Rightarrow> nat \<Rightarrow> negotiation_calls" where
  "example_calls p n = \<lparr>nc_clk = \<lambda>_. 0, nc_mem = \<lambda>n. replicate n 0xAA, nc_udp = working_calls p,
     nc_send = [(0, Done n)], nc_reset_tcp = working_calls 0, nc_reset_bcast = working_calls 0\<rparr>"

definition example_specs :: VRSystemSpecs where
  "example_specs = \<lparr>system_name = ''Quest 2'', manufacturer_name = ''Oculus'',
     eye_resolution = \<lparr>ext_width = 1440, ext_height = 1584\<rparr>,
     refresh_rate = \<lparr>rr_numerator = 72, rr_denominator = 1\<rparr>, ipd = 0, eye_to_head_distance = 0,
     world_bounds = \<lparr>extf_width = 0, extf_height = 0\<rparr>\<rparr>"

definition example_params :: VRCPClientParams where
  "example_params = \<lparr>cp_video_port = 7000, cp_specs = example_specs,
     cp_supported_video_codecs = [''h265'', ''h264''], cp_ntp_timestamp = 4000000000\<rparr>"

definition example_negotiation :: "VRCPData \<Rightarrow> negotiation" where
  "example_negotiation d = \<lparr>ng_data = d, ng_script = [], ng_wire = [], ng_client = example_params,
     ng_resp = \<lparr>resp_peer_video_port = 0, resp_chosen_video_codec = [], resp_ntp_timestamp = 0\<rparr>\<rparr>"

definition example_client :: negotiation where
  "example_client = example_negotiation (example_vrcp\<lparr>vs_state := AWAITING_CONNECTION, vs_udp := None,
     vs_tcp := (vs_tcp example_vrcp)\<lparr>tcp_state := NOT_STARTED\<rparr>\<rparr>)"

definition example_server :: negotiation where
  "example_server = example_negotiation (example_vrcp\<lparr>vs_state := NEGOTIATING, vs_udp := None, vs_bcast := vs_udp example_vrcp\<rparr>)"

lemma example_ready: "client_ready example_client" "server_ready example_server" "request_ok example_params"
  by (simp_all add: client_ready_def server_ready_def request_ok_def example_client_def example_server_def
      example_negotiation_def example_vrcp_def example_params_def example_specs_def rx_ok_def tcp_ok_def
      tcp_is_connected_def registered_def unread_def empty_buffer_def UNIX_EPOCH_NTP_def codec_ok_def
      name_bytes_def bytes_of_string_def)

lemma example_calls_work: "sockets_work (nc_udp (example_calls p n)) p" "length (nc_mem (example_calls p n) k) = k"
    "length w = n \<Longrightarrow> sends_whole (example_calls p n) w"
    "nc_mem (example_calls p n) = nc_mem (example_calls q k)"
    "sockets_work (nc_reset_tcp (example_calls p n)) 0" "sockets_work (nc_reset_bcast (example_calls p n)) 0"
  by (simp_all add: example_calls_def working_calls_def sockets_work_def sends_whole_def)

theorem handshake_agrees_witness:
  "\<exists>cc sc g1 h1 g2. client_connect cc (Done ()) any_addr example_params example_client = Some (Inr False, g1)
    \<and> listen_for_conn_req sc \<lparr>srv_video_port = 7001, srv_supported_video_codecs = [''av1'', ''h264'']\<rparr>
        (example_server\<lparr>ng_script := [Done (ng_wire g1)]\<rparr>) = Some (Inr True, h1)
    \<and> client_connect cc (Done ()) any_addr example_params (g1\<lparr>ng_script := [Done (ng_wire h1)]\<rparr>) = Some (Inr True, g2)
    \<and> resp_chosen_video_codec (ng_resp g2) = ''h264''"
proof -
  let ?mem = "nc_mem (example_calls 0 0)"
  let ?sp = "\<lparr>srv_video_port = 7001, srv_supported_video_codecs = [''av1'', ''h264'']\<rparr>"
  define cc where "cc = example_calls 5000 (length (conn_req_packet ?mem 5000 example_params))"
  define sc where "sc = example_calls 6000 (length (conn_accept_packet ?mem 6000 7001 ''h264''))"
  have mem: "nc_mem cc = ?mem" "nc_mem sc = ?mem"
    unfolding cc_def sc_def by (rule example_calls_work)+
  have codec: "choose_codec (srv_supported_video_codecs ?sp) (map (take 32) (cp_supported_video_codecs example_params)) = ''h264''"
    by (simp add: choose_codec_def example_params_def)
  have sends: "sends_whole cc (conn_req_packet (nc_mem cc) 5000 example_params)"
      "sends_whole sc (conn_accept_packet (nc_mem sc) 6000 (srv_video_port ?sp) ''h264'')"
    unfolding mem by (simp_all add: cc_def sc_def example_calls_work)
  have works: "sockets_work (nc_udp cc) 5000" "sockets_work (nc_udp sc) 6000"
      "length (nc_mem cc n) = n" "length (nc_mem sc n) = n" for n
    by (simp_all add: cc_def sc_def example_calls_work)
  have "(5000 :: u16) \<noteq> 0" "''h264'' \<noteq> []" by simp_all
  note agreed = handshake_agrees [OF example_ready works(1,2) this(1) works(3,4) sends codec this(2),
      where a = any_addr and x = "Done ()"]
  then show ?thesis by (elim exE conjE) (intro exI conjI)
qed

section \<open>Turning a client away\<close>

lemma request_of_append: "40 \<le> length w \<Longrightarrow> VRCPConnectionRequest_of (w @ rs) = VRCPConnectionRequest_of w"
  using cr_layout.enc_dec [of w] cr_layout.dec_enc_append [OF cr_layout.wf_dec, of w "drop 40 w @ rs"]
  by (simp flip: append_assoc)

lemma renew_tcp_works:
  "sockets_work sys p \<Longrightarrow> \<exists>s b. renew_tcp sys d = (Inr (), d\<lparr>vs_tcp := s, vs_bucket := b, vs_tcp_head := 0, vs_tcp_tail := 0\<rparr>)
     \<and> tcp_state s = NOT_STARTED"
  unfolding sockets_work_def
  by (cases "call_socket sys"; cases "call_fcntl_get sys"; cases "call_fcntl_set sys"; cases "call_bind sys";
      cases "call_getsockname sys") (auto simp: renew_tcp_def new_TCPSocket_def Let_def split: prod.splits)

lemma renew_bcast_works:
  "sockets_work sys p \<Longrightarrow> vs_bcast d = Some u \<Longrightarrow>
     \<exists>u' b. renew_bcast sys wanted d = (Inr (), d\<lparr>vs_bcast := Some u', vs_bucket := b\<rparr>)"
  unfolding sockets_work_def
  by (cases "port (udp_local_addr u) = wanted", rule exI [of _ u], rule exI [of _ "vs_bucket d"], simp add: renew_bcast_def)
    (cases "call_socket sys"; cases "call_fcntl_get sys"; cases "call_fcntl_set sys"; cases "call_bind sys";
      cases "call_getsockname sys"; auto simp: renew_bcast_def new_UDPSocket_def Let_def split: prod.splits)

lemma not_connected_raises:
  assumes "vs_state (ng_data g) = NEGOTIATING" "tcp_state (vs_tcp (ng_data g)) = NOT_STARTED"
    and "vs_tcp_head (ng_data g) = 0" "vs_tcp_tail (ng_data g) = 0"
  shows "listen_for_conn_req calls sp g = Some (Inl (RuntimeError ''Socket is not connected''), g)"
  using assms
  by (subst listen_for_conn_req.simps)
    (simp add: reliable_receive_def next_tcp_packet_def buffered_def sizeof_VRCPBaseHeader_def compact_def
      receive_at_tail_def tcp_is_connected_def)

text \<open>A client whose request fails a check of the header gets its CONN_REJECT, but the call then
  ends in an exception instead of waiting for the next client: \<open>reset_server\<close> leaves the state at
  NEGOTIATING with a fresh, unconnected TCP socket, so the loop and every later call of \<open>listen\<close>
  raise \<open>Socket is not connected\<close>. One rejected client keeps the server from ever accepting another.\<close>

theorem rejection_blocks_server:
  assumes "server_ready h" "vs_bcast (ng_data h) = Some u" "ng_script h = [Done w]"
    and "wf_packet w" "40 \<le> length w" "length w \<le> 1020" "to_ft (load8 w) = CONN_REQ"
    and "check_header (VRCPConnectionRequest_of w) = (reason, err_data)" "reason \<noteq> NONE"
    and "sends_whole calls (VRCPConnectionReject_bytes (default_VRCPConnectionReject\<lparr>cj_reason := reason, cj_data := err_data\<rparr>))"
    and "sockets_work (nc_reset_tcp calls) tcp_port" "sockets_work (nc_reset_bcast calls) bcast_port"
    and "srv_supported_video_codecs sp \<noteq> []"
  shows "\<exists>h'. listen_for_conn_req calls sp h = Some (Inl (RuntimeError ''Socket is not connected''), h')
    \<and> ng_wire h' = VRCPConnectionReject_bytes (default_VRCPConnectionReject\<lparr>cj_reason := reason, cj_data := err_data\<rparr>)
    \<and> vs_state (ng_data h') = NEGOTIATING
    \<and> vrcp_listen calls' accepts secs bcast_addrs sp h'
        = Some (Inl (RuntimeError ''Socket is not connected''), [], h')"
proof -
  let ?p = "VRCPConnectionReject_bytes (default_VRCPConnectionReject\<lparr>cj_reason := reason, cj_data := err_data\<rparr>)"
  have rdy: "rx_ok (ng_data h)" "unread (ng_data h) = []" using assms(1) by (simp_all add: server_ready_def)
  from receive_one [OF rdy assms(4,6), of "nc_clk calls" "[]"] obtain buf b where
    rcv: "reliable_receive (nc_clk calls) [Done w] (ng_data h) = (Inr (Some (0, length w)), [],
      (ng_data h)\<lparr>vs_tcp_buffer := w @ buf, vs_tcp_head := 0, vs_tcp_tail := 0, vs_bucket := b\<rparr>)"
    "rx_ok ((ng_data h)\<lparr>vs_tcp_buffer := w @ buf, vs_tcp_head := 0, vs_tcp_tail := 0, vs_bucket := b\<rparr>)"
    by blast
  define d1 where "d1 = (ng_data h)\<lparr>vs_tcp_buffer := w @ buf, vs_tcp_head := 0, vs_tcp_tail := 0, vs_bucket := b\<rparr>"
  define g1 where "g1 = h\<lparr>ng_data := d1, ng_script := []\<rparr>"
  have "load8 (w @ buf) = load8 w" using assms(5) by (cases w) auto
  then have chk: "to_ft (load8 (vs_tcp_buffer d1)) = CONN_REQ"
      "check_conn_req sp (vs_tcp_buffer d1) (length w) = Inr (Rejected reason err_data)"
    using assms(5,7-9)
    by (simp_all add: d1_def check_conn_req_def sizeof_VRCPConnectionRequest_def request_of_append)
  from send_whole [of g1 ?p calls] rcv(2) assms(10) obtain b1 where
    snd: "send_on_wire calls ?p g1 = Some (Inr (), g1\<lparr>ng_data := d1\<lparr>vs_bucket := b1\<rparr>, ng_wire := ng_wire g1 @ ?p\<rparr>)"
    by (auto simp: g1_def d1_def rx_ok_def sends_whole_def)
  from renew_tcp_works [OF assms(11), of "d1\<lparr>vs_bucket := b1\<rparr>"] obtain s b2 where
    tcp: "renew_tcp (nc_reset_tcp calls) (d1\<lparr>vs_bucket := b1\<rparr>)
        = (Inr (), d1\<lparr>vs_bucket := b1, vs_tcp := s, vs_bucket := b2, vs_tcp_head := 0, vs_tcp_tail := 0\<rparr>)"
    "tcp_state s = NOT_STARTED" by blast
  define d2 where "d2 = d1\<lparr>vs_tcp := s, vs_bucket := b2, vs_tcp_head := 0, vs_tcp_tail := 0\<rparr>"
  have fresh: "renew_tcp (nc_reset_tcp calls) (d1\<lparr>vs_bucket := b1\<rparr>) = (Inr (), d2)"
    by (simp add: tcp(1) d2_def)
  have "vs_bcast d2 = Some u" using assms(2) by (simp add: d2_def d1_def)
  from renew_bcast_works [OF assms(12) this, of "vs_local_advert_port d2"] obtain u' b3 where
    bc: "renew_bcast (nc_reset_bcast calls) (vs_local_advert_port d2) d2
      = (Inr (), d2\<lparr>vs_bcast := Some u', vs_bucket := b3\<rparr>)" by blast
  define h' where "h' = g1\<lparr>ng_wire := ng_wire g1 @ ?p, ng_data := d2\<lparr>vs_bcast := Some u', vs_bucket := b3\<rparr>\<rparr>"
  have st: "vs_state d1 = NEGOTIATING" using assms(1) by (simp add: d1_def server_ready_def)
  have rej: "reject_client calls reason err_data g1 = Some (Inr (), h')"
    using snd fresh bc st by (simp add: reject_client_def reset_server_def h'_def)
  have fin: "vs_state (ng_data h') = NEGOTIATING" "tcp_state (vs_tcp (ng_data h')) = NOT_STARTED"
      "vs_tcp_head (ng_data h') = 0" "vs_tcp_tail (ng_data h') = 0"
    using st tcp(2) by (simp_all add: h'_def d2_def)
  have "listen_for_conn_req calls sp h = listen_for_conn_req calls sp h'"
    using rcv(1) assms(3) chk rej
    by (subst listen_for_conn_req.simps) (simp add: g1_def [symmetric] d1_def [symmetric])
  moreover have "ng_wire h' = ?p" using assms(1) by (simp add: h'_def g1_def server_ready_def)
  ultimately show ?thesis
    using not_connected_raises [OF fin] fin(1) assms(13) by (auto simp: vrcp_listen_def)
qed

theorem rejection_blocks_server_witness:
  "\<exists>calls h'. listen_for_conn_req calls \<lparr>srv_video_port = 7001, srv_supported_video_codecs = [''h264'']\<rparr>
      (example_server\<lparr>ng_script := [Done (VRCPConnectionRequest_bytes (default_VRCPConnectionRequest\<lparr>cr_version := 9\<rparr>))]\<rparr>)
    = Some (Inl (RuntimeError ''Socket is not connected''), h') \<and> vs_state (ng_data h') = NEGOTIATING"
proof -
  let ?w = "VRCPConnectionRequest_bytes (default_VRCPConnectionRequest\<lparr>cr_version := 9\<rparr>)"
  let ?h = "example_server\<lparr>ng_script := [Done ?w]\<rparr>"
  have len: "length ?w = 40" by (rule cr_layout.enc_size)
  have w: "wf_packet ?w" "to_ft (load8 ?w) = CONN_REQ" "check_header (VRCPConnectionRequest_of ?w) = (VERSION_MISMATCH, VRCP_VERSION)"
  proof -
    have "VRCPConnectionRequest_of ?w = default_VRCPConnectionRequest\<lparr>cr_version := 9\<rparr>"
      by (rule cr_layout.dec_enc) (simp add: default_VRCPConnectionRequest_def to_ft_tlv)
    then show "check_header (VRCPConnectionRequest_of ?w) = (VERSION_MISMATCH, VRCP_VERSION)"
      by (simp add: check_header_def VRCP_VERSION_def)
    show "wf_packet ?w" unfolding wf_packet_def len
      by (simp add: VRCPConnectionRequest_bytes_def default_VRCPConnectionRequest_def packet_length_def VRCP_ROW_SIZE_def)
    show "to_ft (load8 ?w) = CONN_REQ"
      by (simp add: VRCPConnectionRequest_bytes_def default_VRCPConnectionRequest_def to_ft_tlv)
  qed
  have rdy: "server_ready ?h" using example_ready(2) by (simp add: server_ready_def)
  have bc: "vs_bcast (ng_data ?h) = Some (the (vs_udp example_vrcp))"
    by (simp add: example_server_def example_negotiation_def example_vrcp_def)
  have rl: "length (VRCPConnectionReject_bytes r) = 4" for r by (rule cj_layout.enc_size)
  from rejection_blocks_server [OF rdy bc _ w(1) _ _ w(2,3) _ example_calls_work(3) [OF rl] example_calls_work(5,6),
      of "\<lparr>srv_video_port = 7001, srv_supported_video_codecs = [''h264'']\<rparr>" 0] len
  show ?thesis by fastforce
qed

end
