(* ===== verification/Settings.thy ===== *)
theory Settings
  imports Prelude
begin

text \<open>
  \<open>common/include/wvb_common/settings.h\<close>: the settings of a session and the default values that the
  structures give to their members.
\<close>

datatype AppMode = APP_UNKNOWN | APP_NORMAL | APP_BENCHMARK

fun app_mode_u8 :: "AppMode \<Rightarrow> u8" where
  "app_mode_u8 APP_UNKNOWN = 0"
| "app_mode_u8 APP_NORMAL = 1"
| "app_mode_u8 APP_BENCHMARK = 2"

fun app_mode_to_string :: "AppMode \<Rightarrow> string" where
  "app_mode_to_string APP_NORMAL = ''NORMAL''"
| "app_mode_to_string APP_BENCHMARK = ''BENCHMARK''"
| "app_mode_to_string _ = ''INVALID''"

text \<open>The delay is a signed 16-bit number, read with \<open>sint\<close>.\<close>

record CodecSettings =
  bpp :: u8
  delay :: "16 word"
  bitrate :: u32

definition default_codec_settings :: CodecSettings where
  "default_codec_settings = \<lparr>bpp = 3, delay = 0, bitrate = 0\<rparr>"

record BenchmarkPass =
  pass_index :: u8
  codec_id :: string
  codec_settings :: CodecSettings
  num_repetitions :: u32
  duration_startup_phase_ms :: u32
  duration_timing_phase_ms :: u32
  duration_frame_quality_phase_ms :: u32
  duration_end_margin_ms :: u32

definition default_pass :: BenchmarkPass where
  "default_pass = \<lparr>pass_index = 0, codec_id = [], codec_settings = default_codec_settings,
     num_repetitions = 10, duration_startup_phase_ms = 15000, duration_timing_phase_ms = 4000,
     duration_frame_quality_phase_ms = 200, duration_end_margin_ms = 4000\<rparr>"

record BenchmarkSettings =
  passes :: "BenchmarkPass list"
  duration_inter_run_interval_ms :: u32

record NetworkSettings =
  ping_count :: u8
  ping_interval_ms :: u16
  ping_timeout_ms :: u16

definition default_network_settings :: NetworkSettings where
  "default_network_settings = \<lparr>ping_count = 20, ping_interval_ms = 200, ping_timeout_ms = 500\<rparr>"

definition WVB_DEFAULT_STEAMVR_PATH :: string where
  "WVB_DEFAULT_STEAMVR_PATH =
     ''C:'' @ [char_of (92 :: nat)] @ ''Program Files (x86)'' @ [char_of (92 :: nat)] @ ''Steam''
     @ [char_of (92 :: nat)] @ ''steamapps'' @ [char_of (92 :: nat)] @ ''common'' @ [char_of (92 :: nat)] @ ''SteamVR''"

record AppSettings =
  app_mode :: AppMode
  preferred_codec :: string
  steamvr_path :: string
  network_settings :: NetworkSettings
  benchmark_settings :: BenchmarkSettings

definition default_settings :: AppSettings where
  "default_settings = \<lparr>app_mode = APP_NORMAL, preferred_codec = ''h265'', steamvr_path = WVB_DEFAULT_STEAMVR_PATH,
     network_settings = default_network_settings,
     benchmark_settings = \<lparr>passes = [], duration_inter_run_interval_ms = 5000\<rparr>\<rparr>"

end
