(* ===== verification/ArgParser.thy ===== *)
theory ArgParser
  imports Settings
begin

text \<open>
  \<open>wvb_server/src/arg_parser.cpp\<close>: the server's command line. A parsing function that reports an
  invalid argument returns None; a C++ exception is an \<open>Inl\<close>. The messages on the error stream are
  not modelled. \<open>ub\<close> is the width in bits of the platform's \<open>unsigned long\<close>, the result of
  \<open>std::stoul\<close>: 32 on Windows, 64 on Linux.
\<close>

section \<open>Fields\<close>

datatype MultiArgType = MULTI_NONE | BENCHMARK_PASSES | NETWORK_SETTINGS

text \<open>\<open>find\<close> and \<open>substr\<close>: the text before and after the first occurrence of a character.\<close>

definition split_first :: "char \<Rightarrow> string \<Rightarrow> (string \<times> string) option" where
  "split_first c s = (case dropWhile (\<lambda>x. x \<noteq> c) s of [] \<Rightarrow> None | _ # rest \<Rightarrow> Some (takeWhile (\<lambda>x. x \<noteq> c) s, rest))"

definition split_value :: "string \<Rightarrow> string \<times> string" where
  "split_value s = (case split_first CHR ''='' s of None \<Rightarrow> (s, []) | Some (key, val) \<Rightarrow> (key, val))"

text \<open>\<open>std::isdigit\<close> is undefined on a negative \<open>char\<close> other than \<open>EOF\<close>.\<close>

fun all_digits :: "string \<Rightarrow> bool result" where
  "all_digits [] = Inr True"
| "all_digits (c # cs) =
     (if 128 \<le> (of_char c :: nat) \<and> (of_char c :: nat) < 255 then Inl (UndefinedBehaviour ''isdigit of a negative value'')
      else if is_digit c then all_digits cs else Inr False)"

definition parse_numerical_field :: "nat \<Rightarrow> string \<Rightarrow> u32 \<Rightarrow> u32 \<Rightarrow> u32 option result" where
  "parse_numerical_field ub val min_value max_value =
     (case (if val = [] then Inr False else all_digits val) of
        Inl f \<Rightarrow> Inl f
      | Inr False \<Rightarrow> Inr None
      | Inr True \<Rightarrow>
          let n = nat_of_digits 0 val in
          if n \<ge> 2 ^ ub then Inl (OutOfRange ''stoul'')
          else let value = of_nat n in
            if value < min_value \<or> value > max_value then Inr None else Inr (Some value))"

text \<open>A field that takes a number: the number is stored by \<open>put\<close>.\<close>

definition numerical :: "nat \<Rightarrow> string \<Rightarrow> u32 \<Rightarrow> u32 \<Rightarrow> (u32 \<Rightarrow> 'd) \<Rightarrow> 'd option result" where
  "numerical ub val lo hi put = map_sum id (map_option put) (parse_numerical_field ub val lo hi)"

definition parse_benchmark_pass_field :: "nat \<Rightarrow> string \<Rightarrow> u32 \<Rightarrow> BenchmarkPass \<Rightarrow> BenchmarkPass option result" where
  "parse_benchmark_pass_field ub field i p =
     (if i = 0 then (if field = [] then Inr None else Inr (Some (p\<lparr>codec_id := field\<rparr>)))
      else if field = [] then Inr (Some p)
      else case split_value field of (key, val) \<Rightarrow>
        if key = ''n'' then numerical ub val 1 0xFFFFFFFF (\<lambda>x. p\<lparr>num_repetitions := x\<rparr>)
        else if key = ''ds'' then numerical ub val 0 0xFFFFFFFF (\<lambda>x. p\<lparr>duration_startup_phase_ms := x\<rparr>)
        else if key = ''dt'' then numerical ub val 0 0xFFFFFFFF (\<lambda>x. p\<lparr>duration_timing_phase_ms := x\<rparr>)
        else if key = ''dq'' then numerical ub val 0 0xFFFFFFFF (\<lambda>x. p\<lparr>duration_frame_quality_phase_ms := x\<rparr>)
        else if key = ''de'' then numerical ub val 0 0xFFFFFFFF (\<lambda>x. p\<lparr>duration_end_margin_ms := x\<rparr>)
        else if key = ''delay''
        then (if val = ''auto'' then Inr (Some (p\<lparr>codec_settings := (codec_settings p)\<lparr>delay := -1\<rparr>\<rparr>))
              else numerical ub val 0 255 (\<lambda>x. p\<lparr>codec_settings := (codec_settings p)\<lparr>delay := ucast (ucast x :: u8)\<rparr>\<rparr>))
        else if key = ''bpp''
        then numerical ub val 1 255 (\<lambda>x. p\<lparr>codec_settings := (codec_settings p)\<lparr>bpp := ucast x\<rparr>\<rparr>)
        else if key = ''bitrate''
        then numerical ub val 0 0xFFFFFFFF (\<lambda>x. p\<lparr>codec_settings := (codec_settings p)\<lparr>bitrate := x\<rparr>\<rparr>)
        else Inr None)"

text \<open>The numbers are 32 bits wide and are cut to the width of their members.\<close>

definition parse_network_settings_field :: "nat \<Rightarrow> string \<Rightarrow> u32 \<Rightarrow> NetworkSettings \<Rightarrow> NetworkSettings option result" where
  "parse_network_settings_field ub field i s =
     (if field = [] then Inr (Some s)
      else case split_value field of (key, val) \<Rightarrow>
        if key = ''pc'' then numerical ub val 1 0xFFFFFFFF (\<lambda>x. s\<lparr>ping_count := ucast x\<rparr>)
        else if key = ''pi'' then numerical ub val 0 0xFFFFFFFF (\<lambda>x. s\<lparr>ping_interval_ms := ucast x\<rparr>)
        else if key = ''pt'' then numerical ub val 1 0xFFFFFFFF (\<lambda>x. s\<lparr>ping_timeout_ms := ucast x\<rparr>)
        else Inr None)"

lemma split_first_length: "split_first c s = Some (a, b) \<Longrightarrow> length b < length s"
  using length_dropWhile_le [of "\<lambda>x. x \<noteq> c" s] by (auto simp: split_first_def split: list.splits)

text \<open>The count is the bit pattern of the returned \<open>int32_t\<close>; -1 tells that a field is invalid.\<close>

function parse_multi_arg ::
    "(string \<Rightarrow> u32 \<Rightarrow> 'd \<Rightarrow> 'd option result) \<Rightarrow> u32 \<Rightarrow> string \<Rightarrow> 'd \<Rightarrow> (u32 \<times> 'd) result" where
  "parse_multi_arg pfn i arg d =
     (case split_first CHR '';'' arg of
        None \<Rightarrow> (case pfn arg i d of Inl f \<Rightarrow> Inl f | Inr None \<Rightarrow> Inr (-1, d) | Inr (Some d') \<Rightarrow> Inr (i + 1, d'))
      | Some (field, rest) \<Rightarrow>
          (case pfn field i d of Inl f \<Rightarrow> Inl f | Inr None \<Rightarrow> Inr (-1, d)
           | Inr (Some d') \<Rightarrow> parse_multi_arg pfn (i + 1) rest d'))"
  by pat_completeness auto

termination
  by (relation "measure (\<lambda>(pfn, i, arg, d). length arg)") (auto dest: split_first_length)

declare parse_multi_arg.simps [simp del]

section \<open>Arguments\<close>

record arg_state =
  as_settings :: AppSettings
  as_prev :: MultiArgType
  as_index :: u8

abbreviation set_bench :: "(BenchmarkSettings \<Rightarrow> BenchmarkSettings) \<Rightarrow> arg_state \<Rightarrow> arg_state" where
  "set_bench f st \<equiv> st\<lparr>as_settings := (as_settings st)\<lparr>benchmark_settings := f (benchmark_settings (as_settings st))\<rparr>\<rparr>"

definition parse_option :: "nat \<Rightarrow> string \<Rightarrow> string \<Rightarrow> arg_state \<Rightarrow> arg_state option result" where
  "parse_option ub key val st =
     (if key = ''-h'' \<or> key = ''--help'' then Inr None
      else if key = ''-b'' \<or> key = ''--benchmark''
      then Inr (Some (st\<lparr>as_settings := (as_settings st)\<lparr>app_mode := APP_BENCHMARK\<rparr>, as_prev := BENCHMARK_PASSES\<rparr>))
      else if key = ''-n'' \<or> key = ''--network'' then Inr (Some (st\<lparr>as_prev := NETWORK_SETTINGS\<rparr>))
      else if key = ''-ri'' \<or> key = ''--run-interval''
      then numerical ub val 0 0xFFFFFFFF (\<lambda>x. set_bench (\<lambda>b. b\<lparr>duration_inter_run_interval_ms := x\<rparr>) st)
      else if key = ''-sp'' \<or> key = ''--steamvr-path''
      then (if length val \<le> 2 \<or> hd val \<noteq> CHR 0x22 \<or> last val \<noteq> CHR 0x22 then Inr None
            else Inr (Some (st\<lparr>as_settings := (as_settings st)\<lparr>steamvr_path := butlast (tl val)\<rparr>\<rparr>)))
      else if key = ''-c'' \<or> key = ''--codec''
      then (if val = [] then Inr None
            else Inr (Some (st\<lparr>as_settings := (as_settings st)\<lparr>preferred_codec := val\<rparr>\<rparr>)))
      else Inr None)"

definition parse_pass_arg :: "nat \<Rightarrow> string \<Rightarrow> arg_state \<Rightarrow> arg_state option result" where
  "parse_pass_arg ub arg st =
     (case parse_multi_arg (parse_benchmark_pass_field ub) 0 arg (default_pass\<lparr>pass_index := as_index st\<rparr>) of
        Inl f \<Rightarrow> Inl f
      | Inr (n, p) \<Rightarrow>
          if n = -1 then Inr None
          else if codec_id p = [] then Inr None
          else Inr (Some (set_bench (\<lambda>b. b\<lparr>passes := passes b @ [p]\<rparr>) (st\<lparr>as_index := as_index st + 1\<rparr>))))"

definition parse_network_arg :: "nat \<Rightarrow> string \<Rightarrow> arg_state \<Rightarrow> arg_state option result" where
  "parse_network_arg ub arg st =
     (case parse_multi_arg (parse_network_settings_field ub) 0 arg (network_settings (as_settings st)) of
        Inl f \<Rightarrow> Inl f
      | Inr (n, s) \<Rightarrow>
          if n = -1 then Inr None
          else Inr (Some (st\<lparr>as_settings := (as_settings st)\<lparr>network_settings := s\<rparr>, as_prev := MULTI_NONE\<rparr>)))"

definition parse_arg :: "nat \<Rightarrow> string \<Rightarrow> arg_state \<Rightarrow> arg_state option result" where
  "parse_arg ub arg st =
     (if arg \<noteq> [] \<and> hd arg = CHR ''-''
      then (case split_value arg of (key, val) \<Rightarrow> parse_option ub key val (st\<lparr>as_prev := MULTI_NONE, as_index := 0\<rparr>))
      else case as_prev st of
        BENCHMARK_PASSES \<Rightarrow> parse_pass_arg ub arg st
      | NETWORK_SETTINGS \<Rightarrow> parse_network_arg ub arg st
      | MULTI_NONE \<Rightarrow> Inr None)"

text \<open>A null argument is skipped.\<close>

fun parse_args :: "nat \<Rightarrow> string option list \<Rightarrow> arg_state \<Rightarrow> arg_state option result" where
  "parse_args ub [] st = Inr (Some st)"
| "parse_args ub (None # as) st = parse_args ub as st"
| "parse_args ub (Some a # as) st =
     (case parse_arg ub a st of Inl f \<Rightarrow> Inl f | Inr None \<Rightarrow> Inr None | Inr (Some st') \<Rightarrow> parse_args ub as st')"

definition parse_arguments :: "nat \<Rightarrow> string option list option \<Rightarrow> AppSettings option result" where
  "parse_arguments ub argv =
     (case argv of None \<Rightarrow> Inr (Some default_settings)
      | Some args \<Rightarrow>
          if length args \<le> 1 then Inr (Some default_settings)
          else (case parse_args ub (tl args) \<lparr>as_settings = default_settings, as_prev = MULTI_NONE, as_index = 0\<rparr> of
             Inl f \<Rightarrow> Inl f
           | Inr None \<Rightarrow> Inr None
           | Inr (Some st) \<Rightarrow>
               if app_mode (as_settings st) = APP_BENCHMARK \<and> passes (benchmark_settings (as_settings st)) = []
               then Inr None else Inr (Some (as_settings st))))"

section \<open>What an accepted command line guarantees\<close>

lemma numerical_result:
  "numerical ub v lo hi put = Inr (Some d) \<Longrightarrow> \<exists>x. lo \<le> x \<and> x \<le> hi \<and> d = put x"
  by (auto simp: numerical_def parse_numerical_field_def Let_def not_less split: sum.splits bool.splits if_splits)

text \<open>What every field keeps, the whole argument keeps.\<close>

lemma multi_arg_keeps:
  assumes kept: "\<And>f i d d'. P d \<Longrightarrow> pfn f i d = Inr (Some d') \<Longrightarrow> P d'"
  shows "P d \<Longrightarrow> parse_multi_arg pfn i arg d = Inr (n, d') \<Longrightarrow> P d'"
proof (induction "length arg" arbitrary: i arg d rule: less_induct)
  case less
  show ?case
  proof (cases "split_first CHR '';'' arg")
    case None
    then show ?thesis using less.prems kept [OF less.prems(1)]
      by (subst (asm) parse_multi_arg.simps) (auto split: sum.splits option.splits)
  next
    case (Some x)
    obtain field rest where x: "x = (field, rest)" by fastforce
    then show ?thesis
      using Some less.prems kept [OF less.prems(1), of field i] less.hyps [OF split_first_length [OF Some [unfolded x]]]
      by (subst (asm) parse_multi_arg.simps) (fastforce split: sum.splits option.splits)
  qed
qed

definition pass_in_range :: "BenchmarkPass \<Rightarrow> bool" where
  "pass_in_range p \<longleftrightarrow> num_repetitions p \<noteq> 0 \<and> bpp (codec_settings p) \<noteq> 0
     \<and> (sint (delay (codec_settings p)) = -1 \<or> sint (delay (codec_settings p)) \<in> {0..255})"

lemma u8_nonzero: "1 \<le> x \<Longrightarrow> x \<le> 255 \<Longrightarrow> (ucast (x :: u32) :: u8) \<noteq> 0"
proof
  assume "1 \<le> x" "x \<le> 255" and z: "(ucast x :: u8) = 0"
  then have x: "1 \<le> unat x" "unat x \<le> 255" by (simp_all add: word_le_nat_alt)
  have "unat (ucast x :: u8) = unat x mod 256" by (simp add: unsigned_ucast_eq take_bit_eq_mod)
  with z x show False by simp
qed

lemma sint_delay: "sint (ucast (b :: u8) :: 16 word) = uint b"
  using uint_lt2p [of b] by (simp add: sint_uint signed_take_bit_eq_if_positive uint_up_ucast is_up bit_simps take_bit_int_eq_self)

lemma delay_range: "sint (ucast (b :: u8) :: 16 word) \<in> {0..255}"
  using uint_lt2p [of b] by (simp add: sint_delay)

lemma pass_field_in_range:
  "pass_in_range p \<Longrightarrow> parse_benchmark_pass_field ub f i p = Inr (Some p') \<Longrightarrow> pass_in_range p'"
  using delay_range
  by (fastforce simp: parse_benchmark_pass_field_def pass_in_range_def u8_nonzero
      split: if_splits prod.splits dest!: numerical_result)

definition settings_ok :: "AppSettings \<Rightarrow> bool" where
  "settings_ok s \<longleftrightarrow> app_mode s \<noteq> APP_UNKNOWN \<and> preferred_codec s \<noteq> [] \<and> steamvr_path s \<noteq> []
     \<and> list_all (\<lambda>p. pass_in_range p \<and> codec_id p \<noteq> []) (passes (benchmark_settings s))"

lemma default_in_range: "pass_in_range (default_pass\<lparr>pass_index := i\<rparr>)" "settings_ok default_settings"
  by (simp_all add: pass_in_range_def default_pass_def default_codec_settings_def settings_ok_def
      default_settings_def WVB_DEFAULT_STEAMVR_PATH_def)

lemma butlast_tl_ne: "2 < length v \<Longrightarrow> butlast (tl v) \<noteq> []"
  by (metis length_butlast length_tl less_diff_conv less_numeral_extra(3) list.size(3) nat_1_add_1 zero_less_diff)

text \<open>A case split that forgets the condition, for chains of comparisons with option names.\<close>

lemma either_branch: "(if c then x else y) = r \<Longrightarrow> (x = r \<Longrightarrow> P) \<Longrightarrow> (y = r \<Longrightarrow> P) \<Longrightarrow> P"
  by (auto split: if_splits)

lemma option_ok: "settings_ok (as_settings st) \<Longrightarrow> parse_option ub key val st = Inr (Some st') \<Longrightarrow> settings_ok (as_settings st')"
  unfolding parse_option_def
  apply (erule either_branch, simp)
  apply (erule either_branch, force simp: settings_ok_def)
  apply (erule either_branch, force simp: settings_ok_def)
  apply (erule either_branch, force simp: settings_ok_def dest!: numerical_result)
  apply (erule either_branch, force simp: settings_ok_def butlast_tl_ne not_le split: if_splits)
  apply (erule either_branch, force simp: settings_ok_def split: if_splits)
  apply simp
  done

lemma pass_arg_ok:
  assumes "settings_ok (as_settings st)" "parse_pass_arg ub arg st = Inr (Some st')"
  shows "settings_ok (as_settings st')"
proof -
  let ?p0 = "default_pass\<lparr>pass_index := as_index st\<rparr>"
  obtain n p where p: "parse_multi_arg (parse_benchmark_pass_field ub) 0 arg ?p0 = Inr (n, p)" "codec_id p \<noteq> []"
    "st' = set_bench (\<lambda>b. b\<lparr>passes := passes b @ [p]\<rparr>) (st\<lparr>as_index := as_index st + 1\<rparr>)"
    using assms(2) by (auto simp: parse_pass_arg_def split: sum.splits if_splits)
  have "pass_in_range p"
    by (rule multi_arg_keeps [where pfn = "parse_benchmark_pass_field ub"])
      (use pass_field_in_range default_in_range(1) p(1) in blast)+
  with assms(1) p(2,3) show ?thesis by (simp add: settings_ok_def)
qed

lemma arg_ok: "settings_ok (as_settings st) \<Longrightarrow> parse_arg ub arg st = Inr (Some st') \<Longrightarrow> settings_ok (as_settings st')"
  using pass_arg_ok [of st ub arg st'] option_ok [of "st\<lparr>as_prev := MULTI_NONE, as_index := 0\<rparr>" ub]
  by (auto simp: parse_arg_def parse_network_arg_def settings_ok_def
      split: sum.splits prod.splits if_splits MultiArgType.splits)

lemma args_ok: "settings_ok (as_settings st) \<Longrightarrow> parse_args ub as st = Inr (Some st') \<Longrightarrow> settings_ok (as_settings st')"
  by (induction ub as st rule: parse_args.induct) (auto split: sum.splits option.splits dest: arg_ok)

text \<open>C33: whatever the command line, settings that are accepted are well formed: the mode is normal or
  benchmark, the codec and the path are not empty, benchmark mode has at least one pass, and every pass
  has a codec, at least one repetition, a positive number of bits per pixel and a delay that is
  automatic (-1) or between 0 and 255.\<close>

theorem parsed_settings_ok:
  "parse_arguments ub argv = Inr (Some s) \<Longrightarrow>
     settings_ok s \<and> (app_mode s = APP_BENCHMARK \<longrightarrow> passes (benchmark_settings s) \<noteq> [])"
  using args_ok [of "\<lparr>as_settings = default_settings, as_prev = MULTI_NONE, as_index = 0\<rparr>" ub] default_in_range(2)
  by (auto simp: parse_arguments_def default_settings_def split: option.splits if_splits sum.splits)

section \<open>Every setting can be written on the command line\<close>

definition arg_number :: "string \<Rightarrow> u32 \<Rightarrow> string" where
  "arg_number key x = key @ ''='' @ string_of_nat (unat x)"

fun join_fields :: "string list \<Rightarrow> string" where
  "join_fields [] = []"
| "join_fields [f] = f"
| "join_fields (f # fs) = f @ '';'' @ join_fields fs"

definition pass_fields :: "BenchmarkPass \<Rightarrow> string list" where
  "pass_fields p =
     [codec_id p, arg_number ''n'' (num_repetitions p), arg_number ''ds'' (duration_startup_phase_ms p),
      arg_number ''dt'' (duration_timing_phase_ms p), arg_number ''dq'' (duration_frame_quality_phase_ms p),
      arg_number ''de'' (duration_end_margin_ms p),
      (if delay (codec_settings p) = -1 then ''delay=auto'' else arg_number ''delay'' (ucast (delay (codec_settings p)))),
      arg_number ''bpp'' (ucast (bpp (codec_settings p))), arg_number ''bitrate'' (bitrate (codec_settings p))]"

definition network_fields :: "NetworkSettings \<Rightarrow> string list" where
  "network_fields s = [arg_number ''pc'' (ucast (ping_count s)), arg_number ''pi'' (ucast (ping_interval_ms s)),
     arg_number ''pt'' (ucast (ping_timeout_ms s))]"

definition command_line :: "AppSettings \<Rightarrow> string list" where
  "command_line s =
     [''-c='' @ preferred_codec s, ''-sp='' @ [CHR 0x22] @ steamvr_path s @ [CHR 0x22],
      arg_number ''-ri'' (duration_inter_run_interval_ms (benchmark_settings s)),
      ''-n'', join_fields (network_fields (network_settings s))]
     @ (if app_mode s = APP_BENCHMARK
        then ''-b'' # map (\<lambda>p. join_fields (pass_fields p)) (passes (benchmark_settings s)) else [])"

lemma all_digits_string_of_nat: "list_all is_digit s \<Longrightarrow> all_digits s = Inr True"
  by (induction s) (auto simp: is_digit_def)

lemma parse_number:
  "32 \<le> ub \<Longrightarrow> lo \<le> x \<Longrightarrow> x \<le> hi \<Longrightarrow> parse_numerical_field ub (string_of_nat (unat x)) lo hi = Inr (Some x)"
proof -
  assume ub: "32 \<le> ub" and "lo \<le> x" "x \<le> hi"
  have "unat x < 2 ^ ub" using unat_bound32 [of x] power_increasing [OF ub, of "2 :: nat"] by simp
  then show ?thesis using \<open>lo \<le> x\<close> \<open>x \<le> hi\<close>
    by (simp add: parse_numerical_field_def all_digits_string_of_nat [OF string_of_nat_digits]
        nat_of_digits_string_of_nat Let_def not_le not_less)
qed

lemma no_separator: "is_digit c \<Longrightarrow> c \<noteq> CHR '';''"
  by (auto simp: is_digit_def)

lemma number_no_separator: "CHR '';'' \<notin> set (string_of_nat n)"
  using string_of_nat_digits [of n] no_separator by (auto simp: list_all_iff)

lemma split_first_none:
  assumes "c \<notin> set s"
  shows "split_first c s = None"
proof -
  have none: "dropWhile (\<lambda>x. x \<noteq> c) s = []" using assms by (induction s) auto
  show ?thesis unfolding split_first_def none by simp
qed

lemma split_first_append:
  assumes "c \<notin> set s"
  shows "split_first c (s @ c # rest) = Some (s, rest)"
proof -
  have "dropWhile (\<lambda>x. x \<noteq> c) (s @ c # rest) = c # rest" "takeWhile (\<lambda>x. x \<noteq> c) (s @ c # rest) = s"
    using assms by (induction s) auto
  then show ?thesis by (simp add: split_first_def)
qed

fun parse_fields :: "(string \<Rightarrow> u32 \<Rightarrow> 'd \<Rightarrow> 'd option result) \<Rightarrow> u32 \<Rightarrow> string list \<Rightarrow> 'd \<Rightarrow> (u32 \<times> 'd) result" where
  "parse_fields pfn i [] d = Inr (i, d)"
| "parse_fields pfn i (f # fs) d =
     (case pfn f i d of Inl e \<Rightarrow> Inl e | Inr None \<Rightarrow> Inr (-1, d) | Inr (Some d') \<Rightarrow> parse_fields pfn (i + 1) fs d')"

lemma parse_join_fields:
  "list_all (\<lambda>f. CHR '';'' \<notin> set f) fs \<Longrightarrow> fs \<noteq> [] \<Longrightarrow> parse_multi_arg pfn i (join_fields fs) d = parse_fields pfn i fs d"
proof (induction fs arbitrary: i d rule: join_fields.induct)
  case (3 f g fs)
  then show ?case
    by (subst parse_multi_arg.simps) (auto simp: split_first_append split: sum.splits option.splits)
qed (auto simp: parse_multi_arg.simps split_first_none split: sum.splits option.splits)

lemma split_value_number:
  "CHR ''='' \<notin> set key \<Longrightarrow> split_value (arg_number key x) = (key, string_of_nat (unat x))"
  "CHR ''='' \<notin> set key \<Longrightarrow> split_value (key @ CHR ''='' # v) = (key, v)"
  by (simp_all add: split_value_def arg_number_def split_first_append)

lemma arg_number_ne [simp]: "arg_number key x \<noteq> []"
  by (simp add: arg_number_def)

lemma parse_numerical:
  "32 \<le> ub \<Longrightarrow> lo \<le> x \<Longrightarrow> x \<le> hi \<Longrightarrow> numerical ub (string_of_nat (unat x)) lo hi put = Inr (Some (put x))"
  by (simp add: numerical_def parse_number)

lemma max32: "(x :: u32) \<le> 0xFFFFFFFF"
  using unat_bound32 [of x] by (simp add: word_le_nat_alt)

lemma ge1: "x \<noteq> 0 \<Longrightarrow> 1 \<le> (x :: u32)"
  by (simp add: word_gt_0 flip: word_less_1)

text \<open>Narrow numbers survive the detour through 32 bits.\<close>

lemma narrow_bounds: "unat (b :: u8) < 256" "unat (h :: u16) < 65536"
  using unsigned_less [of b] unsigned_less [of h] by simp_all

lemma widen: "unat (ucast (b :: u8) :: u32) = unat b" "unat (ucast (h :: u16) :: u32) = unat h"
  using narrow_bounds(1) [of b] narrow_bounds(2) [of h] by (simp_all add: unsigned_ucast_eq take_bit_nat_eq_self)

lemma widened_ne: "b \<noteq> 0 \<Longrightarrow> 1 \<le> (ucast (b :: u8) :: u32)" "h \<noteq> 0 \<Longrightarrow> 1 \<le> (ucast (h :: u16) :: u32)"
  by (rule ge1; metis widen unat_eq_zero)+

lemma narrow_u8: "(ucast (ucast (b :: u8) :: u32) :: u8) = b" "(ucast b :: u32) \<le> 255"
proof -
  have b: "unat b < 256" by (rule narrow_bounds)
  then show "(ucast b :: u32) \<le> 255" by (simp add: word_le_nat_alt widen)
  have "unat (ucast (ucast b :: u32) :: u8) = unat b"
    using b by (simp add: unsigned_ucast_eq [where 'b = 32] widen take_bit_nat_eq_self)
  then show "(ucast (ucast b :: u32) :: u8) = b" by (rule unsigned_word_eqI)
qed

lemma narrow_u16: "(ucast (ucast (b :: u16) :: u32) :: u16) = b"
proof -
  have "unat b < 65536" by (rule narrow_bounds)
  then have "unat (ucast (ucast b :: u32) :: u16) = unat b"
    by (simp add: unsigned_ucast_eq [where 'b = 32] widen take_bit_nat_eq_self)
  then show ?thesis by (rule unsigned_word_eqI)
qed

lemma narrow_delay:
  assumes "sint (d :: 16 word) \<in> {0..255}"
  shows "(ucast (ucast (ucast d :: u32) :: u8) :: 16 word) = d" "(ucast d :: u32) \<le> 255"
proof -
  have "uint d = take_bit 16 (sint d)" by (simp add: uint_sint)
  with assms have "uint d \<le> 255" by (simp add: take_bit_int_eq_self)
  moreover have "int (unat d) = uint d" by simp
  ultimately have u: "unat d \<le> 255" by linarith
  then show "(ucast d :: u32) \<le> 255" by (simp add: word_le_nat_alt widen)
  have "unat (ucast (ucast d :: u32) :: u8) = unat d"
    using u by (simp add: unsigned_ucast_eq [where 'b = 32] widen take_bit_nat_eq_self)
  then have "unat (ucast (ucast (ucast d :: u32) :: u8) :: 16 word) = unat d"
    using u by (simp add: unsigned_ucast_eq [where 'b = 8] take_bit_nat_eq_self)
  then show "(ucast (ucast (ucast d :: u32) :: u8) :: 16 word) = d" by (rule unsigned_word_eqI)
qed

definition expressible_pass :: "BenchmarkPass \<Rightarrow> bool" where
  "expressible_pass p \<longleftrightarrow> pass_in_range p \<and> codec_id p \<noteq> [] \<and> CHR '';'' \<notin> set (codec_id p) \<and> hd (codec_id p) \<noteq> CHR ''-''"

lemma pass_fields_plain: "expressible_pass p \<Longrightarrow> list_all (\<lambda>f. CHR '';'' \<notin> set f) (pass_fields p)"
  by (simp add: pass_fields_def expressible_pass_def arg_number_def number_no_separator)

lemma parse_pass_fields:
  assumes "32 \<le> ub" "expressible_pass p"
  shows "parse_fields (parse_benchmark_pass_field ub) 0 (pass_fields p) (default_pass\<lparr>pass_index := pass_index p\<rparr>) = Inr (9, p)"
proof -
  have d: "delay (codec_settings p) \<noteq> -1 \<Longrightarrow> sint (delay (codec_settings p)) \<in> {0..255}"
    using assms(2) signed_word_eqI [of "delay (codec_settings p)" "-1"]
    by (auto simp: expressible_pass_def pass_in_range_def)
  have b: "bpp (codec_settings p) \<noteq> 0" and n: "num_repetitions p \<noteq> 0" and c: "codec_id p \<noteq> []"
    using assms(2) by (simp_all add: expressible_pass_def pass_in_range_def)
  note num = parse_benchmark_pass_field_def split_value_number parse_numerical [OF assms(1)] max32
  have dl: "split_value ''delay=auto'' = (''delay'', ''auto'')"
    using split_value_number(2) [of "''delay''" "''auto''"] by simp
  have na: "string_of_nat k \<noteq> ''auto''" for k
    using string_of_nat_digits [of k] by (auto simp: is_digit_def)
  show ?thesis
    using c n b
    by (cases "delay (codec_settings p) = -1")
      (simp_all add: pass_fields_def num dl na ge1 widened_ne narrow_u8 narrow_delay [OF d] default_pass_def)
qed

lemma parse_rendered_pass:
  assumes "32 \<le> ub" "expressible_pass p" "as_prev st = BENCHMARK_PASSES" "as_index st = pass_index p"
  shows "parse_arg ub (join_fields (pass_fields p)) st
    = Inr (Some (set_bench (\<lambda>b. b\<lparr>passes := passes b @ [p]\<rparr>) (st\<lparr>as_index := as_index st + 1\<rparr>)))"
proof -
  have c: "codec_id p \<noteq> []" "hd (codec_id p) \<noteq> CHR ''-''" using assms(2) by (simp_all add: expressible_pass_def)
  have "hd (join_fields (pass_fields p)) \<noteq> CHR ''-''" using c by (simp add: pass_fields_def)
  moreover have "pass_fields p \<noteq> []" by (simp add: pass_fields_def)
  ultimately show ?thesis
    using parse_pass_fields [OF assms(1,2)] assms(3,4) c
      parse_join_fields [OF pass_fields_plain [OF assms(2)], of "parse_benchmark_pass_field ub"]
    by (simp add: parse_arg_def parse_pass_arg_def)
qed

lemma parse_rendered_network:
  assumes "32 \<le> ub" "ping_count n \<noteq> 0" "ping_timeout_ms n \<noteq> 0" "as_prev st = NETWORK_SETTINGS"
  shows "parse_arg ub (join_fields (network_fields n)) st
    = Inr (Some (st\<lparr>as_settings := (as_settings st)\<lparr>network_settings := n\<rparr>, as_prev := MULTI_NONE\<rparr>))"
proof -
  have plain: "list_all (\<lambda>f. CHR '';'' \<notin> set f) (network_fields n)" "network_fields n \<noteq> []"
    by (simp_all add: network_fields_def arg_number_def number_no_separator)
  have fields: "parse_fields (parse_network_settings_field ub) 0 (network_fields n) s = Inr (3, n)" for s
    using assms(2,3)
    by (simp add: network_fields_def parse_network_settings_field_def split_value_number
        parse_numerical [OF assms(1)] max32 widened_ne narrow_u8(1) narrow_u16)
  have "hd (join_fields (network_fields n)) \<noteq> CHR ''-''" by (simp add: network_fields_def arg_number_def)
  then show ?thesis
    using parse_join_fields [OF plain, of "parse_network_settings_field ub"] fields assms(4) by (simp add: parse_arg_def parse_network_arg_def)
qed

fun indexed :: "u8 \<Rightarrow> BenchmarkPass list \<Rightarrow> bool" where
  "indexed i [] \<longleftrightarrow> True"
| "indexed i (p # ps) \<longleftrightarrow> pass_index p = i \<and> indexed (i + 1) ps"

lemma parse_rendered_passes:
  "32 \<le> ub \<Longrightarrow> list_all expressible_pass ps \<Longrightarrow> as_prev st = BENCHMARK_PASSES \<Longrightarrow> indexed (as_index st) ps \<Longrightarrow>
     \<exists>i. parse_args ub (map Some (map (\<lambda>p. join_fields (pass_fields p)) ps)) st
       = Inr (Some (set_bench (\<lambda>b. b\<lparr>passes := passes b @ ps\<rparr>) (st\<lparr>as_index := i\<rparr>)))"
proof (induction ps arbitrary: st)
  case Nil
  then show ?case by (intro exI [of _ "as_index st"]) simp
next
  case (Cons p ps)
  then show ?case
    using Cons.IH [of "set_bench (\<lambda>b. b\<lparr>passes := passes b @ [p]\<rparr>) (st\<lparr>as_index := as_index st + 1\<rparr>)"]
    by (auto simp: parse_rendered_pass)
qed

text \<open>The settings that a user can ask for. A codec's name may not start with a dash or contain a separator,
  passes are numbered in order, and only benchmark mode has passes.\<close>

definition expressible :: "AppSettings \<Rightarrow> bool" where
  "expressible s \<longleftrightarrow> app_mode s \<noteq> APP_UNKNOWN \<and> preferred_codec s \<noteq> [] \<and> steamvr_path s \<noteq> []
     \<and> (app_mode s = APP_BENCHMARK \<longleftrightarrow> passes (benchmark_settings s) \<noteq> [])
     \<and> list_all expressible_pass (passes (benchmark_settings s)) \<and> indexed 0 (passes (benchmark_settings s))
     \<and> ping_count (network_settings s) \<noteq> 0 \<and> ping_timeout_ms (network_settings s) \<noteq> 0"

lemma split_option_value:
  "split_value (''-c='' @ v) = (''-c'', v)" "split_value (''-sp='' @ v) = (''-sp'', v)"
  "split_value ''-n'' = (''-n'', [])" "split_value ''-b'' = (''-b'', [])"
  "split_value (arg_number ''-ri'' x) = (''-ri'', string_of_nat (unat x))"
  using split_value_number(2) [of "''-c''" v] split_value_number(2) [of "''-sp''" v]
  by (simp_all add: split_value_number) (simp_all add: split_value_def split_first_def)

lemma parse_rendered_options:
  assumes "32 \<le> ub"
  shows "c \<noteq> [] \<Longrightarrow> parse_arg ub (''-c='' @ c) st
      = Inr (Some (st\<lparr>as_prev := MULTI_NONE, as_index := 0, as_settings := (as_settings st)\<lparr>preferred_codec := c\<rparr>\<rparr>))"
    and "d \<noteq> [] \<Longrightarrow> parse_arg ub (''-sp='' @ [CHR 0x22] @ d @ [CHR 0x22]) st
      = Inr (Some (st\<lparr>as_prev := MULTI_NONE, as_index := 0, as_settings := (as_settings st)\<lparr>steamvr_path := d\<rparr>\<rparr>))"
    and "parse_arg ub (arg_number ''-ri'' x) st
      = Inr (Some (set_bench (\<lambda>b. b\<lparr>duration_inter_run_interval_ms := x\<rparr>) (st\<lparr>as_prev := MULTI_NONE, as_index := 0\<rparr>)))"
    and "parse_arg ub ''-n'' st = Inr (Some (st\<lparr>as_prev := NETWORK_SETTINGS, as_index := 0\<rparr>))"
    and "parse_arg ub ''-b'' st
      = Inr (Some (st\<lparr>as_prev := BENCHMARK_PASSES, as_index := 0, as_settings := (as_settings st)\<lparr>app_mode := APP_BENCHMARK\<rparr>\<rparr>))"
proof -
  have dash: "hd (arg_number ''-ri'' x) = CHR ''-''" by (simp add: arg_number_def)
  show "c \<noteq> [] \<Longrightarrow> parse_arg ub (''-c='' @ c) st
      = Inr (Some (st\<lparr>as_prev := MULTI_NONE, as_index := 0, as_settings := (as_settings st)\<lparr>preferred_codec := c\<rparr>\<rparr>))"
    unfolding parse_arg_def split_option_value by (simp add: parse_option_def)
  have "2 < length ([CHR 0x22] @ d @ [CHR 0x22])" if "d \<noteq> []" using that by (cases d) auto
  then show "d \<noteq> [] \<Longrightarrow> parse_arg ub (''-sp='' @ [CHR 0x22] @ d @ [CHR 0x22]) st
      = Inr (Some (st\<lparr>as_prev := MULTI_NONE, as_index := 0, as_settings := (as_settings st)\<lparr>steamvr_path := d\<rparr>\<rparr>))"
    unfolding parse_arg_def split_option_value by (simp add: parse_option_def)
  show "parse_arg ub (arg_number ''-ri'' x) st
      = Inr (Some (set_bench (\<lambda>b. b\<lparr>duration_inter_run_interval_ms := x\<rparr>) (st\<lparr>as_prev := MULTI_NONE, as_index := 0\<rparr>)))"
    unfolding parse_arg_def split_option_value by (simp add: parse_option_def dash parse_numerical [OF assms] max32)
  show "parse_arg ub ''-n'' st = Inr (Some (st\<lparr>as_prev := NETWORK_SETTINGS, as_index := 0\<rparr>))"
    and "parse_arg ub ''-b'' st
      = Inr (Some (st\<lparr>as_prev := BENCHMARK_PASSES, as_index := 0, as_settings := (as_settings st)\<lparr>app_mode := APP_BENCHMARK\<rparr>\<rparr>))"
    unfolding parse_arg_def split_option_value by (simp_all add: parse_option_def)
qed

text \<open>C32: the settings survive a round trip through the command line: for all settings in the ranges that
  the parser accepts, parsing the arguments that spell them out gives exactly these settings, whatever
  the defaults. The bits per pixel are at least 1 there: the 0 that the usage text documents is refused.\<close>

theorem command_line_round_trip:
  assumes "32 \<le> ub" "expressible s"
  shows "parse_arguments ub (Some (prog # map Some (command_line s))) = Inr (Some s)"
proof -
  let ?st = "\<lparr>as_settings = default_settings, as_prev = MULTI_NONE, as_index = 0\<rparr>"
  let ?b = "benchmark_settings s"
  let ?head = "[''-c='' @ preferred_codec s, ''-sp='' @ [CHR 0x22] @ steamvr_path s @ [CHR 0x22],
      arg_number ''-ri'' (duration_inter_run_interval_ms ?b), ''-n'', join_fields (network_fields (network_settings s))]"
  let ?s1 = "s\<lparr>app_mode := APP_NORMAL, benchmark_settings := ?b\<lparr>passes := []\<rparr>\<rparr>"
  let ?st1 = "\<lparr>as_settings = ?s1, as_prev = MULTI_NONE, as_index = 0\<rparr>"
  have s: "preferred_codec s \<noteq> []" "steamvr_path s \<noteq> []" "ping_count (network_settings s) \<noteq> 0"
    "ping_timeout_ms (network_settings s) \<noteq> 0" "app_mode s = APP_BENCHMARK \<longleftrightarrow> passes ?b \<noteq> []" "app_mode s \<noteq> APP_UNKNOWN"
    using assms(2) by (simp_all add: expressible_def)
  have s1: "?s1 = \<lparr>app_mode = APP_NORMAL, preferred_codec = preferred_codec s, steamvr_path = steamvr_path s,
      network_settings = network_settings s,
      benchmark_settings = \<lparr>passes = [], duration_inter_run_interval_ms = duration_inter_run_interval_ms ?b\<rparr>\<rparr>"
    by (cases s; cases "benchmark_settings s"; simp)
  have head: "parse_args ub (map Some ?head @ as) ?st = parse_args ub as ?st1" for as
    using s(1-4)
    by (simp add: parse_rendered_options [OF assms(1), simplified] parse_rendered_network [OF assms(1)] default_settings_def s1)
  show ?thesis
  proof (cases "app_mode s = APP_BENCHMARK")
    case True
    have ps: "list_all expressible_pass (passes ?b)" "indexed 0 (passes ?b)"
      using assms(2) by (simp_all add: expressible_def)
    let ?st2 = "?st1\<lparr>as_settings := ?s1\<lparr>app_mode := APP_BENCHMARK\<rparr>, as_prev := BENCHMARK_PASSES\<rparr>"
    from parse_rendered_passes [OF assms(1) ps(1), of ?st2] ps(2) obtain i where
      "parse_args ub (map Some (map (\<lambda>p. join_fields (pass_fields p)) (passes ?b))) ?st2
        = Inr (Some (set_bench (\<lambda>b. b\<lparr>passes := passes b @ passes ?b\<rparr>) (?st2\<lparr>as_index := i\<rparr>)))" by auto
    moreover have "set_bench (\<lambda>b. b\<lparr>passes := passes b @ passes ?b\<rparr>) (?st2\<lparr>as_index := i\<rparr>)
        = \<lparr>as_settings = s, as_prev = BENCHMARK_PASSES, as_index = i\<rparr>" using True by simp
    ultimately have "parse_args ub (map Some (command_line s)) ?st
        = Inr (Some \<lparr>as_settings = s, as_prev = BENCHMARK_PASSES, as_index = i\<rparr>)"
      using True head [of "Some ''-b'' # map Some (map (\<lambda>p. join_fields (pass_fields p)) (passes ?b))"]
      by (simp add: command_line_def parse_rendered_options(5) [OF assms(1)])
    then show ?thesis using True s(5) by (simp add: parse_arguments_def command_line_def)
  next
    case False
    then have "?s1 = s" using s(5,6) by (cases "app_mode s") simp_all
    then have "parse_args ub (map Some (command_line s)) ?st = Inr (Some \<lparr>as_settings = s, as_prev = MULTI_NONE, as_index = 0\<rparr>)"
      using False head [of "[]"] by (simp add: command_line_def)
    then show ?thesis using False by (simp add: parse_arguments_def command_line_def)
  qed
qed

definition example_settings :: AppSettings where
  "example_settings = default_settings\<lparr>app_mode := APP_BENCHMARK,
     benchmark_settings := \<lparr>passes = [default_pass\<lparr>codec_id := ''h264''\<rparr>,
         default_pass\<lparr>pass_index := 1, codec_id := ''h265'', codec_settings := \<lparr>bpp = 4, delay = -1, bitrate = 0\<rparr>\<rparr>],
       duration_inter_run_interval_ms = 3000\<rparr>\<rparr>"

theorem command_line_round_trip_witness:
  "parse_arguments 32 (Some (Some ''wvb_server'' # map Some (command_line example_settings))) = Inr (Some example_settings)"
proof -
  have "expressible example_settings"
    by (simp add: expressible_def expressible_pass_def pass_in_range_def example_settings_def default_settings_def
        default_pass_def default_codec_settings_def default_network_settings_def WVB_DEFAULT_STEAMVR_PATH_def)
  from command_line_round_trip [OF _ this, of 32 "Some ''wvb_server''"] show ?thesis by simp
qed

theorem parsed_settings_ok_witness:
  "settings_ok (default_settings\<lparr>preferred_codec := ''av1''\<rparr>)"
proof -
  have "parse_arguments 64 (Some [Some ''wvb_server'', Some ''-c=av1''])
      = Inr (Some (default_settings\<lparr>preferred_codec := ''av1''\<rparr>))"
    by (simp add: parse_arguments_def parse_arg_def split_value_def split_first_def parse_option_def default_settings_def)
  from parsed_settings_ok [OF this] show ?thesis by (rule conjunct1)
qed

section \<open>What the usage text says\<close>

text \<open>A ping count of 256 is accepted although it must be at least one, and is cut to zero.\<close>

lemma ping_count_cut:
  "parse_network_settings_field 64 ''pc=256'' 0 default_network_settings = Inr (Some (default_network_settings\<lparr>ping_count := 0\<rparr>))"
  by (simp add: parse_network_settings_field_def split_value_def split_first_def numerical_def
      parse_numerical_field_def is_digit_def Let_def)

text \<open>The usage documents \<open>bpp=0\<close> as automatic, but zero is rejected.\<close>

lemma automatic_bpp_rejected: "parse_benchmark_pass_field 64 ''bpp=0'' 1 p = Inr None"
  by (simp add: parse_benchmark_pass_field_def split_value_def split_first_def numerical_def
      parse_numerical_field_def is_digit_def Let_def)

text \<open>
  The usage presents \<open>-b "h264" "h265"\<close> as the shorter equivalent of a command that gives the durations
  10000, 2000 and 200, ten pings and an interval of 3000: the defaults are others.
\<close>

lemma short_command_differs:
  "\<exists>s. parse_arguments 64 (Some (map Some [''wvb_server'', ''-b'', ''h264'', ''h265''])) = Inr (Some s)
     \<and> map duration_startup_phase_ms (passes (benchmark_settings s)) = [15000, 15000]
     \<and> ping_count (network_settings s) = 20 \<and> duration_inter_run_interval_ms (benchmark_settings s) = 5000"
  by (simp add: parse_arguments_def parse_arg_def split_value_def split_first_def parse_option_def parse_pass_arg_def
      parse_multi_arg.simps parse_benchmark_pass_field_def default_pass_def default_settings_def default_network_settings_def)

end
