(* ===== verification/Ipc.thy ===== *)
theory Ipc
  imports RtpClock "HOL-Library.Multiset"
begin

text \<open>
  \<open>common/include/wvb_common/ipc.h\<close> and \<open>common/src/ipc_posix.cpp\<close>: shared memory behind a mutex and
  events between the server and the driver, both on named POSIX semaphores. A semaphore is its
  value; a wait that would block for ever is None. The clock, interruptions by signals and whether
  another process posts before a deadline are arguments. The last part runs several processes on one
  mutex as a step relation.
\<close>

section \<open>Semaphores\<close>

type_synonym sem = nat

definition NO_TIMEOUT :: u32 where "NO_TIMEOUT = 0xFFFFFFFF"

definition EINTR :: int where "EINTR = 4"

definition SEM_VALUE_MAX :: nat where "SEM_VALUE_MAX = 2147483647"

definition sem_post :: "sem \<Rightarrow> sem" where
  "sem_post v = (if v < SEM_VALUE_MAX then v + 1 else v)"

text \<open>The C function: 0, or -1 when a signal interrupts the wait.\<close>

definition sem_wait :: "bool \<Rightarrow> sem \<Rightarrow> (int \<times> sem) option" where
  "sem_wait interrupted v = (if interrupted then Some (-1, v) else if v > 0 then Some (0, v - 1) else None)"

definition deadline :: "timespec \<Rightarrow> u32 \<Rightarrow> timespec" where
  "deadline clock timeout_ms =
     clock\<lparr>tv_sec := tv_sec clock + uint (timeout_ms div 1000),
           tv_nsec := tv_nsec clock + uint ((timeout_ms mod 1000) * 1000000)\<rparr>"

text \<open>
  \<open>sem_timedwait\<close> takes a free semaphore at once; when it would have to wait, it fails with \<open>EINVAL\<close>
  if the nanoseconds of the deadline are not below one second. A post of another process during the
  wait is taken at once.
\<close>

definition sem_timed_wait :: "timespec \<Rightarrow> bool \<Rightarrow> u32 \<Rightarrow> sem \<Rightarrow> bool \<times> sem" where
  "sem_timed_wait clock posted timeout_ms v =
     (if v > 0 then (True, v - 1)
      else if \<not> timespec_normal (deadline clock timeout_ms) then (False, v)
      else (posted, v))"

text \<open>
  The loop that waits without a limit, over the interruptions that its calls meet. It means to try
  again after an interruption, but compares the result with the error number.
\<close>

fun wait_loop :: "bool list \<Rightarrow> sem \<Rightarrow> (int \<times> sem) option" where
  "wait_loop [] v = sem_wait False v"
| "wait_loop (i # rest) v =
     (case sem_wait i v of None \<Rightarrow> None
      | Some (r, v') \<Rightarrow> if r = EINTR then wait_loop rest v' else Some (r, v'))"

section \<open>Shared memory\<close>

fun drain :: "nat \<Rightarrow> sem \<Rightarrow> sem" where
  "drain k 0 = 0"
| "drain k (Suc v) = (if Suc v > k then drain k v else Suc v)"

text \<open>
  The constructor repairs the mutex that it opened: more than one is drained to one, and a zero that
  does not change within 100 ms is taken for a crashed owner and posted.
\<close>

definition repair_mutex :: "timespec \<Rightarrow> bool \<Rightarrow> sem \<Rightarrow> sem" where
  "repair_mutex clock posted v =
     (if v > 1 then drain 1 v
      else if v = 0 then sem_post (snd (sem_timed_wait clock posted 100 v))
      else v)"

text \<open>\<open>unsafe_lock\<close>: whether the caller gets the data, and the semaphore; None when it waits for ever.\<close>

definition unsafe_lock :: "timespec \<Rightarrow> bool \<Rightarrow> bool list \<Rightarrow> u32 \<Rightarrow> sem \<Rightarrow> (bool \<times> sem) option" where
  "unsafe_lock clock posted interrupts timeout_ms v =
     (if timeout_ms = NO_TIMEOUT
      then (case wait_loop interrupts v of None \<Rightarrow> None | Some (r, v') \<Rightarrow> Some (r = 0, v'))
      else Some (sem_timed_wait clock posted timeout_ms v))"

definition unsafe_release :: "sem \<Rightarrow> sem" where
  "unsafe_release v = sem_post v"

text \<open>The destructor of a smart pointer releases the mutex only if the lock was obtained.\<close>

definition locked_ptr_destroy :: "bool \<Rightarrow> sem \<Rightarrow> sem" where
  "locked_ptr_destroy locked v = (if locked then unsafe_release v else v)"

section \<open>Events\<close>

text \<open>The sender starts with an event that is not signalled.\<close>

definition event_open :: "bool \<Rightarrow> sem \<Rightarrow> sem" where
  "event_open is_sender v =
     (if is_sender then (if v > 1 then drain 0 v else if v = 1 then v - 1 else v) else v)"

definition event_wait :: "timespec \<Rightarrow> bool \<Rightarrow> bool list \<Rightarrow> u32 \<Rightarrow> sem \<Rightarrow> (bool \<times> sem) option" where
  "event_wait clock posted interrupts timeout_ms v =
     (if timeout_ms = NO_TIMEOUT
      then (case wait_loop interrupts v of None \<Rightarrow> None | Some (r, v') \<Rightarrow> Some (r = 0, v'))
      else Some (sem_timed_wait clock posted timeout_ms v))"

definition event_signal :: "sem \<Rightarrow> sem" where
  "event_signal v = sem_post v"

definition is_signaled :: "sem \<Rightarrow> bool" where
  "is_signaled v \<longleftrightarrow> v > 0"

definition event_reset :: "sem \<Rightarrow> sem" where
  "event_reset v = (if is_signaled v then v - 1 else v)"

lemma drain_min: "drain k v = min k v"
  by (induction v) auto

lemma event_open_sender: "event_open True v = 0"
  by (auto simp: event_open_def drain_min)

lemma wait_loop_gives_up: "wait_loop (True # rest) v = Some (-1, v)"
  by (simp add: sem_wait_def EINTR_def)

lemma drain_to_one: "v \<noteq> 0 \<Longrightarrow> repair_mutex clock posted v = 1"
  by (auto simp: repair_mutex_def drain_min)

lemma repair_of_zero: "repair_mutex clock posted 0 = 1"
  by (simp add: repair_mutex_def sem_timed_wait_def sem_post_def SEM_VALUE_MAX_def)

section \<open>Processes on one mutex\<close>

text \<open>
  Every \<open>LockedDataPtr\<close> of a process is kept with its \<open>is_valid\<close>: one whose lock failed, or that another one
  was moved out of, is null and is destroyed like the others. A valid one holds the mutex. In a quiet
  run, processes attach only while nobody holds it. Every step carries the process that makes it.
\<close>

record shm =
  shm_mutex :: sem
  shm_ptrs :: "(nat \<times> bool) multiset"

definition owners :: "shm \<Rightarrow> nat multiset" where
  "owners s = image_mset fst (filter_mset snd (shm_ptrs s))"

lemma owners_mutex [simp]: "owners (s\<lparr>shm_mutex := v\<rparr>) = owners s"
  by (simp add: owners_def)

inductive shm_step :: "bool \<Rightarrow> nat \<Rightarrow> shm \<Rightarrow> shm \<Rightarrow> bool" for quiet where
  step_lock: "unsafe_lock clock False interrupts timeout (shm_mutex s) = Some (got, v) \<Longrightarrow>
    shm_step quiet p s (s\<lparr>shm_mutex := v, shm_ptrs := add_mset (p, got) (shm_ptrs s)\<rparr>)"
| step_move: "(p, valid) \<in># shm_ptrs s \<Longrightarrow>
    shm_step quiet p s (s\<lparr>shm_ptrs := add_mset (p, False) (shm_ptrs s)\<rparr>)"
| step_destroy: "(p, valid) \<in># shm_ptrs s \<Longrightarrow>
    shm_step quiet p s (s\<lparr>shm_mutex := locked_ptr_destroy valid (shm_mutex s), shm_ptrs := shm_ptrs s - {#(p, valid)#}\<rparr>)"
| step_attach: "quiet \<longrightarrow> owners s = {#} \<Longrightarrow>
    shm_step quiet p s (s\<lparr>shm_mutex := repair_mutex clock False (shm_mutex s)\<rparr>)"

inductive_cases shm_stepE: "shm_step quiet p s t"

inductive shm_run :: "bool \<Rightarrow> shm \<Rightarrow> shm \<Rightarrow> bool" for quiet where
  stay: "shm_run quiet s s"
| move: "shm_run quiet s t \<Longrightarrow> shm_step quiet p t u \<Longrightarrow> shm_run quiet s u"

text \<open>The mutex and its owners add up to one.\<close>

definition one_token :: "shm \<Rightarrow> bool" where
  "one_token s \<longleftrightarrow> shm_mutex s + size (owners s) = 1"

lemma lock_takes_token:
  assumes "unsafe_lock clock False interrupts timeout m = Some (got, v)"
  shows "if got then m = v + 1 else m = v"
proof -
  have "wait_loop interrupts m = Some (r, v) \<Longrightarrow> if r = 0 then m = v + 1 else m = v" for r
    by (induction interrupts) (auto simp: sem_wait_def EINTR_def split: if_splits)
  with assms show ?thesis
    by (auto simp: unsafe_lock_def sem_timed_wait_def split: option.splits if_splits)
qed

lemma step_keeps_token: "shm_step True p s t \<Longrightarrow> one_token s \<Longrightarrow> one_token t"
proof (induction rule: shm_step.induct)
  case (step_lock clock interrupts timeout s got v p)
  from lock_takes_token [OF step_lock(1)] step_lock(2) show ?case
    by (auto simp: one_token_def owners_def split: if_splits)
next
  case (step_destroy p valid s)
  then obtain ps where "shm_ptrs s = add_mset (p, valid) ps" by (metis insert_DiffM)
  with step_destroy show ?case
    by (cases valid) (auto simp: one_token_def owners_def locked_ptr_destroy_def unsafe_release_def sem_post_def
        SEM_VALUE_MAX_def)
next
  case (step_attach s p clock)
  then show ?case
    by (cases "shm_mutex s") (auto simp: one_token_def drain_to_one repair_of_zero)
qed (simp add: one_token_def owners_def)

lemma run_keeps_token: "shm_run True s t \<Longrightarrow> one_token s \<Longrightarrow> one_token t"
  by (induction rule: shm_run.induct) (auto intro: step_keeps_token)

text \<open>C8: mutual exclusion, and no lock is lost. As long as processes attach only while nobody holds the
  mutex, at most one valid pointer exists, however locks, time-outs, interruptions, moves and the
  destruction of valid and of null pointers interleave; while there is one, no other lock succeeds, and
  when there is none, the next lock succeeds at once, with any time-out.\<close>

theorem shared_memory_exclusive:
  assumes "shm_run True s t" "one_token s"
  shows "size (owners t) \<le> 1
    \<and> (owners t \<noteq> {#} \<longrightarrow> (\<forall>clock interrupts timeout v.
         unsafe_lock clock False interrupts timeout (shm_mutex t) \<noteq> Some (True, v)))
    \<and> (owners t = {#} \<longrightarrow> (\<forall>clock posted timeout.
         unsafe_lock clock posted [] timeout (shm_mutex t) = Some (True, 0)))"
proof -
  have tok: "shm_mutex t + size (owners t) = 1"
    using run_keeps_token [OF assms] by (simp add: one_token_def)
  have "unsafe_lock clock False interrupts timeout (shm_mutex t) \<noteq> Some (True, v)"
    if "owners t \<noteq> {#}" for clock interrupts timeout v
    using lock_takes_token [of clock interrupts timeout "shm_mutex t" True v] tok that
    by (auto simp: nonempty_has_size)
  moreover have "unsafe_lock clock posted [] timeout (shm_mutex t) = Some (True, 0)"
    if "owners t = {#}" for clock posted timeout
    using tok that by (simp add: unsafe_lock_def sem_wait_def sem_timed_wait_def)
  ultimately show ?thesis using tok by auto
qed

definition free_memory :: shm where
  "free_memory = \<lparr>shm_mutex = 1, shm_ptrs = {#}\<rparr>"

definition clock_at :: "int \<Rightarrow> timespec" where
  "clock_at ns = \<lparr>tv_sec = 100, tv_nsec = ns\<rparr>"

lemma take_free:
  "shm_mutex s = Suc 0 \<Longrightarrow> shm_step quiet p s (s\<lparr>shm_mutex := 0, shm_ptrs := add_mset (p, True) (shm_ptrs s)\<rparr>)"
  using shm_step.step_lock [of "clock_at 0" "[]" NO_TIMEOUT s True 0 quiet p]
  by (simp add: unsafe_lock_def sem_wait_def)

text \<open>A process holds the mutex, another one times out and destroys its null pointer: the first still holds it.\<close>

theorem shared_memory_exclusive_witness:
  "\<exists>t. shm_run True free_memory t \<and> owners t = {#3#} \<and> unsafe_lock (clock_at 0) False [] 5 (shm_mutex t) \<noteq> Some (True, 0)"
proof -
  let ?s1 = "free_memory\<lparr>shm_mutex := 0, shm_ptrs := {#(3, True)#}\<rparr>"
  let ?s2 = "?s1\<lparr>shm_ptrs := {#(4, False), (3, True)#}\<rparr>"
  have s1: "shm_step True 3 free_memory ?s1"
    using take_free [of free_memory True 3] by (simp add: free_memory_def)
  have s2: "shm_step True 4 ?s1 ?s2"
    using shm_step.step_lock [of "clock_at 0" "[]" 5 ?s1 False 0 True 4]
    by (simp add: unsafe_lock_def sem_timed_wait_def NO_TIMEOUT_def)
  have s3: "shm_step True 4 ?s2 ?s1"
    using shm_step.step_destroy [of 4 False ?s2 True] by (simp add: locked_ptr_destroy_def)
  have run: "shm_run True free_memory ?s1"
    by (rule shm_run.move [OF shm_run.move [OF shm_run.move [OF shm_run.stay s1] s2] s3])
  have "one_token free_memory" by (simp add: free_memory_def one_token_def owners_def)
  from shared_memory_exclusive [OF run this] have "owners ?s1 \<noteq> {#} \<longrightarrow>
      unsafe_lock (clock_at 0) False [] 5 (shm_mutex ?s1) \<noteq> Some (True, 0)" by blast
  then have "owners ?s1 = {#3#} \<and> unsafe_lock (clock_at 0) False [] 5 (shm_mutex ?s1) \<noteq> Some (True, 0)"
    by (simp add: owners_def)
  with run show ?thesis by blast
qed

text \<open>
  The repair breaks the exclusion: a process that attaches while another one holds the mutex longer
  than 100 ms (or at any time, when less than 100 ms are left of the second: the timed wait then fails
  at once) posts the mutex, and a third lock succeeds.
\<close>

theorem attach_breaks_exclusion:
  "\<exists>t. shm_run False free_memory t \<and> owners t = {#1, 2#}"
proof -
  let ?s1 = "free_memory\<lparr>shm_mutex := 0, shm_ptrs := {#(1, True)#}\<rparr>"
  let ?s2 = "?s1\<lparr>shm_mutex := 1\<rparr>"
  let ?s3 = "?s2\<lparr>shm_mutex := 0, shm_ptrs := {#(1, True), (2, True)#}\<rparr>"
  have "shm_step False 1 free_memory ?s1"
    using take_free [of free_memory False 1] by (simp add: free_memory_def)
  moreover have "shm_step False 2 ?s1 ?s2"
    using shm_step.step_attach [of False ?s1 2 "clock_at 0"] by (simp add: repair_of_zero)
  moreover have "shm_step False 2 ?s2 ?s3"
    using take_free [of ?s2 False 2] by (simp add: add_mset_commute)
  ultimately have "shm_run False free_memory ?s3"
    by (meson shm_run.move shm_run.stay)
  then show ?thesis by (intro exI [of _ ?s3]) (simp add: owners_def)
qed

text \<open>The carry of the nanoseconds is missing: late in a second, a timed wait on a taken semaphore fails
  at once even if the owner would release it in time.\<close>

lemma late_timed_wait_fails:
  assumes "900000000 \<le> tv_nsec clock" "tv_nsec clock < 1000000000"
  shows "sem_timed_wait clock True 100 0 = (False, 0)"
  using assms by (simp add: sem_timed_wait_def timespec_normal_def deadline_def NS_PER_SEC_def)

lemma early_timed_wait_succeeds:
  assumes "0 \<le> tv_nsec clock" "tv_nsec clock < 900000000"
  shows "sem_timed_wait clock True 100 0 = (True, 0)"
  using assms by (simp add: sem_timed_wait_def timespec_normal_def deadline_def NS_PER_SEC_def)

end
