(* ===== verification/SharedState.thy ===== *)
theory SharedState
  imports Ipc Buckets VrStructs
begin

text \<open>
  \<open>common/include/wvb_common/server_shared_state.h\<close> and \<open>common/src/server_shared_state.cpp\<close>: the memory
  that server and driver share, and the two sets of events. Polling returns the first pending event in
  a fixed order; the locale \<open>event_source\<close> states what a set of events promises.
\<close>

section \<open>The shared data\<close>

datatype ServerState = SRV_NOT_RUNNING | SRV_AWAITING_CONNECTION | SRV_READY | SRV_RUNNING
  | SRV_AWAITING_DRIVER_MEASUREMENTS | SRV_PROCESSING_MEASUREMENTS

datatype DriverState = DRV_NOT_RUNNING | DRV_AWAITING_CLIENT_SPEC | DRV_READY | DRV_RUNNING | DRV_STANDBY

text \<open>The vsync time is a double: its image.\<close>

record OpenVRPresentInfo =
  backbuffer_texture_handle :: u64
  frame_id :: u64
  vsync_time_in_seconds :: u64
  sample_rtp_timestamp :: u32
  pose_rtp_timestamp :: u32

record ServerDriverSharedData =
  sd_driver_state :: DriverState
  sd_latest_present_info :: OpenVRPresentInfo
  sd_frame_time_measurements_count :: u32
  sd_tracking_time_measurements_count :: u32
  sd_pose_access_time_measurements_count :: u32
  sd_frame_time_measurements :: "DriverFrameTimeMeasurements list"
  sd_tracking_time_measurements :: "TrackingTimeMeasurements list"
  sd_pose_access_time_measurements :: "PoseAccessTimeMeasurements list"
  sd_server_state :: ServerState
  sd_rtp_offset :: u32
  sd_ntp_epoch :: u64
  sd_vr_system_specs :: VRSystemSpecs
  sd_tracking_state :: TrackingState
  sd_measurement_window :: MeasurementWindow

section \<open>Events\<close>

datatype DriverEvent = DE_NO_EVENT | DRIVER_STATE_CHANGED | NEW_PRESENT_INFO | NEW_MEASUREMENTS

datatype ServerEvent = SE_NO_EVENT | SERVER_STATE_CHANGED | NEW_SYSTEM_SPECS | FRAME_FINISHED
  | NEW_TRACKING_DATA | NEW_BENCHMARK_DATA

record DriverEvents =
  ev_driver_state_changed :: sem
  ev_new_present_info :: sem
  ev_new_measurements :: sem

record ServerEvents =
  ev_server_state_changed :: sem
  ev_new_system_specs :: sem
  ev_frame_finished :: sem
  ev_new_tracking_data :: sem
  ev_new_benchmark_data :: sem

definition open_driver_events :: "bool \<Rightarrow> DriverEvents \<Rightarrow> DriverEvents" where
  "open_driver_events is_driver e =
     \<lparr>ev_driver_state_changed = event_open is_driver (ev_driver_state_changed e),
      ev_new_present_info = event_open is_driver (ev_new_present_info e),
      ev_new_measurements = event_open is_driver (ev_new_measurements e)\<rparr>"

definition open_server_events :: "bool \<Rightarrow> ServerEvents \<Rightarrow> ServerEvents" where
  "open_server_events is_server e =
     \<lparr>ev_server_state_changed = event_open is_server (ev_server_state_changed e),
      ev_new_system_specs = event_open is_server (ev_new_system_specs e),
      ev_frame_finished = event_open is_server (ev_frame_finished e),
      ev_new_tracking_data = event_open is_server (ev_new_tracking_data e),
      ev_new_benchmark_data = event_open is_server (ev_new_benchmark_data e)\<rparr>"

text \<open>The returned flag, the event and the semaphores.\<close>

definition driver_poll :: "DriverEvents \<Rightarrow> bool \<times> DriverEvent \<times> DriverEvents" where
  "driver_poll e =
     (if is_signaled (ev_driver_state_changed e)
      then (True, DRIVER_STATE_CHANGED, e\<lparr>ev_driver_state_changed := event_reset (ev_driver_state_changed e)\<rparr>)
      else if is_signaled (ev_new_measurements e)
      then (True, NEW_MEASUREMENTS, e\<lparr>ev_new_measurements := event_reset (ev_new_measurements e)\<rparr>)
      else (False, DE_NO_EVENT, e))"

definition server_poll :: "ServerEvents \<Rightarrow> bool \<times> ServerEvent \<times> ServerEvents" where
  "server_poll e =
     (if is_signaled (ev_new_tracking_data e)
      then (True, NEW_TRACKING_DATA, e\<lparr>ev_new_tracking_data := event_reset (ev_new_tracking_data e)\<rparr>)
      else if is_signaled (ev_server_state_changed e)
      then (True, SERVER_STATE_CHANGED, e\<lparr>ev_server_state_changed := event_reset (ev_server_state_changed e)\<rparr>)
      else if is_signaled (ev_new_system_specs e)
      then (True, NEW_SYSTEM_SPECS, e\<lparr>ev_new_system_specs := event_reset (ev_new_system_specs e)\<rparr>)
      else if is_signaled (ev_frame_finished e)
      then (True, FRAME_FINISHED, e\<lparr>ev_frame_finished := event_reset (ev_frame_finished e)\<rparr>)
      else if is_signaled (ev_new_benchmark_data e)
      then (True, NEW_BENCHMARK_DATA, e\<lparr>ev_new_benchmark_data := event_reset (ev_new_benchmark_data e)\<rparr>)
      else (False, SE_NO_EVENT, e))"

text \<open>The receiver's loop: poll while an event is returned, at most \<open>n\<close> times.\<close>

fun poll_events :: "('s \<Rightarrow> bool \<times> 'e \<times> 's) \<Rightarrow> nat \<Rightarrow> 's \<Rightarrow> 'e list \<times> 's" where
  "poll_events poll 0 s = ([], s)"
| "poll_events poll (Suc n) s =
     (case poll s of (False, _, t) \<Rightarrow> ([], t)
      | (True, e, t) \<Rightarrow> (case poll_events poll n t of (es, u) \<Rightarrow> (e # es, u)))"

text \<open>The pending events of a source, in the order in which polling returns them.\<close>

locale event_source =
  fixes poll :: "'s \<Rightarrow> bool \<times> 'e \<times> 's"
    and pending :: "'s \<Rightarrow> 'e list"
  assumes none: "pending s = [] \<Longrightarrow> fst (poll s) = False"
    and first: "pending s = e # es \<Longrightarrow> \<exists>t. poll s = (True, e, t) \<and> pending t = es"
begin

lemma poll_takes: "fst (poll_events poll n s) = take n (pending s)"
proof (induction n arbitrary: s)
  case (Suc n)
  show ?case
  proof (cases "pending s")
    case Nil
    then show ?thesis using none [of s] by (auto split: prod.splits bool.splits)
  next
    case (Cons e es)
    from first [OF this] obtain t where "poll s = (True, e, t)" "pending t = es" by blast
    then show ?thesis using Cons Suc [of t] by (cases "poll_events poll n t") simp
  qed
qed simp

lemma poll_leaves: "n \<le> length (pending s) \<Longrightarrow> pending (snd (poll_events poll n s)) = drop n (pending s)"
proof (induction n arbitrary: s)
  case (Suc n)
  then obtain e es where c: "pending s = e # es" by (cases "pending s") auto
  from first [OF c] obtain t where "poll s = (True, e, t)" "pending t = es" by blast
  then show ?case using c Suc.IH [of t] Suc.prems by (cases "poll_events poll n t") simp
qed simp

lemma all_delivered:
  "length (pending s) \<le> n \<Longrightarrow> fst (poll_events poll n s) = pending s"
  by (simp add: poll_takes)

end

definition driver_pending :: "DriverEvents \<Rightarrow> DriverEvent list" where
  "driver_pending e = replicate (ev_driver_state_changed e) DRIVER_STATE_CHANGED
     @ replicate (ev_new_measurements e) NEW_MEASUREMENTS"

definition server_pending :: "ServerEvents \<Rightarrow> ServerEvent list" where
  "server_pending e = replicate (ev_new_tracking_data e) NEW_TRACKING_DATA
     @ replicate (ev_server_state_changed e) SERVER_STATE_CHANGED
     @ replicate (ev_new_system_specs e) NEW_SYSTEM_SPECS
     @ replicate (ev_frame_finished e) FRAME_FINISHED
     @ replicate (ev_new_benchmark_data e) NEW_BENCHMARK_DATA"

lemma replicate_Cons: "replicate n x @ ys = z # zs \<longleftrightarrow>
    (if n = 0 then ys = z # zs else z = x \<and> replicate (n - 1) x @ ys = zs)"
  by (cases n) auto

lemmas replicate_eq_Cons = replicate_Cons replicate_Cons [where ys = "[]", simplified]

interpretation drv: event_source driver_poll driver_pending
  by unfold_locales
    (auto simp: driver_poll_def driver_pending_def is_signaled_def event_reset_def replicate_eq_Cons split: if_splits)

interpretation srv: event_source server_poll server_pending
  by unfold_locales
    (auto simp: server_poll_def server_pending_def is_signaled_def event_reset_def replicate_eq_Cons split: if_splits)

text \<open>Over semaphores no event is lost and none is invented: a receiver that polls the server's events
  often enough gets every signal exactly once, grouped by kind in the order of the code, and then nothing.\<close>

lemma server_events_delivered:
  assumes "length (server_pending e) \<le> n"
  shows "fst (poll_events server_poll n e) = server_pending e
    \<and> server_pending (snd (poll_events server_poll (length (server_pending e)) e)) = []
    \<and> fst (server_poll (snd (poll_events server_poll (length (server_pending e)) e))) = False"
  using srv.all_delivered [OF assms] srv.poll_leaves [of "length (server_pending e)" e]
    srv.none [of "snd (poll_events server_poll (length (server_pending e)) e)"] by simp

lemma server_events_example:
  "fst (poll_events server_poll 5 \<lparr>ev_server_state_changed = 1, ev_new_system_specs = 0, ev_frame_finished = 1,
       ev_new_tracking_data = 2, ev_new_benchmark_data = 0\<rparr>)
     = [NEW_TRACKING_DATA, NEW_TRACKING_DATA, SERVER_STATE_CHANGED, FRAME_FINISHED]"
  using server_events_delivered [of "\<lparr>ev_server_state_changed = 1, ev_new_system_specs = 0, ev_frame_finished = 1,
       ev_new_tracking_data = 2, ev_new_benchmark_data = 0\<rparr>" 5]
  by (simp add: server_pending_def numeral_2_eq_2)

text \<open>As long as tracking data is signalled before every poll, no other event gets through.\<close>

fun busy_polls :: "nat \<Rightarrow> ServerEvents \<Rightarrow> ServerEvent list" where
  "busy_polls 0 e = []"
| "busy_polls (Suc n) e =
     (case server_poll (e\<lparr>ev_new_tracking_data := event_signal (ev_new_tracking_data e)\<rparr>) of (_, x, t) \<Rightarrow> x # busy_polls n t)"

lemma tracking_starves: "busy_polls n e = replicate n NEW_TRACKING_DATA"
proof (induction n arbitrary: e)
  case (Suc n)
  have "is_signaled (event_signal v)" for v
    by (simp add: is_signaled_def event_signal_def sem_post_def SEM_VALUE_MAX_def)
  then show ?case using Suc by (simp add: server_poll_def)
qed simp

end
