(* ===== verification/Image.thy ===== *)
theory Image
  imports Prelude
begin

text \<open>
  \<open>common/include/wvb_common/image.h\<close> and \<open>common/src/image.cpp\<close>: a raw image and the copy of a mapped
  texture into it. Sizes are 32-bit and wrap around; a copy that leaves one of the two buffers is
  undefined behaviour. A null buffer is None.
\<close>

record RawImage =
  img_data :: "bytes option"
  img_max_width :: u32
  img_max_height :: u32
  img_pitch :: u32
  img_width :: u32
  img_height :: u32

definition empty_image :: RawImage where
  "empty_image = \<lparr>img_data = None, img_max_width = 0, img_max_height = 0, img_pitch = 0, img_width = 0, img_height = 0\<rparr>"

definition img_is_valid :: "RawImage \<Rightarrow> bool" where
  "img_is_valid i \<longleftrightarrow> img_data i \<noteq> None"

definition img_row_pitch :: "RawImage \<Rightarrow> u32" where
  "img_row_pitch i = img_pitch i * img_width i"

text \<open>The content of fresh memory is an argument.\<close>

definition img_allocate :: "(nat \<Rightarrow> bytes) \<Rightarrow> u32 \<Rightarrow> u32 \<Rightarrow> u32 \<Rightarrow> RawImage \<Rightarrow> RawImage result" where
  "img_allocate fresh w h p i =
     (if img_is_valid i then Inl (RuntimeError ''RawFrame::allocate: Frame is already allocated'')
      else Inr (i\<lparr>img_max_width := w, img_max_height := h, img_pitch := p,
        img_data := Some (fresh (unat (w * h * p)))\<rparr>))"

definition new_image :: "(nat \<Rightarrow> bytes) \<Rightarrow> u32 \<Rightarrow> u32 \<Rightarrow> u32 \<Rightarrow> RawImage result" where
  "new_image fresh w h p = img_allocate fresh w h p empty_image"

text \<open>Moving: the new image and what is left of the old one. The current size is not moved.\<close>

definition img_move :: "RawImage \<Rightarrow> RawImage \<times> RawImage" where
  "img_move other =
     (empty_image\<lparr>img_data := img_data other, img_max_width := img_max_width other,
        img_max_height := img_max_height other, img_pitch := img_pitch other\<rparr>,
      other\<lparr>img_data := None, img_max_width := 0, img_max_height := 0, img_pitch := 0\<rparr>)"

definition img_move_assign :: "RawImage \<Rightarrow> RawImage \<Rightarrow> RawImage \<times> RawImage" where
  "img_move_assign i other =
     (i\<lparr>img_data := img_data other, img_max_width := img_max_width other,
        img_max_height := img_max_height other, img_pitch := img_pitch other\<rparr>,
      other\<lparr>img_data := None, img_max_width := 0, img_max_height := 0, img_pitch := 0\<rparr>)"

definition memcpy :: "nat \<Rightarrow> nat \<Rightarrow> nat \<Rightarrow> bytes \<Rightarrow> bytes \<Rightarrow> bytes result" where
  "memcpy dst_off src_off n src dst =
     (if dst_off + n \<le> length dst \<and> src_off + n \<le> length src
      then Inr (write_at dst_off (take n (drop src_off src)) dst)
      else Inl (UndefinedBehaviour ''memcpy outside a buffer''))"

text \<open>The loop over the lines from \<open>y\<close> on, with \<open>k\<close> lines to go.\<close>

fun copy_lines :: "nat \<Rightarrow> nat \<Rightarrow> nat \<Rightarrow> nat \<Rightarrow> nat \<Rightarrow> bytes \<Rightarrow> bytes \<Rightarrow> bytes result" where
  "copy_lines dst_pitch src_pitch n y 0 src dst = Inr dst"
| "copy_lines dst_pitch src_pitch n y (Suc k) src dst =
     (case memcpy (y * dst_pitch) (y * src_pitch) n src dst of
        Inl f \<Rightarrow> Inl f
      | Inr dst' \<Rightarrow> copy_lines dst_pitch src_pitch n (Suc y) k src dst')"

definition copy_from_dx11 ::
    "(nat \<Rightarrow> bytes) \<Rightarrow> bytes \<Rightarrow> u32 \<Rightarrow> u32 \<Rightarrow> u32 \<Rightarrow> u32 \<Rightarrow> RawImage \<Rightarrow> RawImage result" where
  "copy_from_dx11 fresh src src_width src_height src_row_pitch dest_pitch i0 =
     (case (if img_is_valid i0 then Inr i0 else img_allocate fresh src_width src_height dest_pitch i0) of
        Inl f \<Rightarrow> Inl f
      | Inr i1 \<Rightarrow>
          let i = i1\<lparr>img_width := min (img_max_width i1) src_width, img_height := min (img_max_height i1) src_height\<rparr>;
              dst_row_pitch = img_width i * img_pitch i;
              dst = the (img_data i)
          in case (if dst_row_pitch = src_row_pitch
               then memcpy 0 0 (unat (dst_row_pitch * img_height i)) src dst
               else copy_lines (unat dst_row_pitch) (unat src_row_pitch) (unat (min dst_row_pitch src_row_pitch)) 0
                      (unat (img_height i)) src dst) of
             Inl f \<Rightarrow> Inl f
           | Inr d \<Rightarrow> Inr (i\<lparr>img_data := Some d\<rparr>))"

section \<open>The pixels that are copied\<close>

lemma write_at_nth:
  assumes "off + length bs \<le> length d" "k < length d"
  shows "write_at off bs d ! k = (if off \<le> k \<and> k < off + length bs then bs ! (k - off) else d ! k)"
  using assms by (auto simp: write_at_def nth_append min_def)

lemma write_at_twice:
  "off + length a + length b \<le> length d \<Longrightarrow> write_at (off + length a) b (write_at off a d) = write_at off (a @ b) d"
  by (simp add: write_at_def ac_simps)

lemma memcpy_inside:
  "dst_off + n \<le> length dst \<Longrightarrow> src_off + n \<le> length src \<Longrightarrow>
     memcpy dst_off src_off n src dst = Inr (write_at dst_off (take n (drop src_off src)) dst)"
  by (simp add: memcpy_def)

lemma lines_of_equal_pitch:
  "(y + k) * p \<le> length src \<Longrightarrow> (y + k) * p \<le> length dst \<Longrightarrow>
     copy_lines p p p y k src dst = Inr (write_at (y * p) (take (k * p) (drop (y * p) src)) dst)"
proof (induction k arbitrary: y dst)
  case 0
  then show ?case by (simp add: write_at_def)
next
  case (Suc k)
  let ?d = "write_at (y * p) (take p (drop (y * p) src)) dst"
  have b: "y * p + p \<le> length src" "y * p + p \<le> length dst" "y * p + (p + k * p) \<le> length src" "y * p + (p + k * p) \<le> length dst"
    using Suc.prems by (simp_all add: algebra_simps)
  then have ln: "length (take p (drop (y * p) src)) = p" "length ?d = length dst"
    by (simp_all add: length_write_at)
  have "copy_lines p p p y (Suc k) src dst = copy_lines p p p (Suc y) k src ?d"
    using b by (simp add: memcpy_inside)
  also have "\<dots> = Inr (write_at (Suc y * p) (take (k * p) (drop (Suc y * p) src)) ?d)"
    using Suc.prems ln(2) by (intro Suc.IH) simp_all
  also have "write_at (Suc y * p) (take (k * p) (drop (Suc y * p) src)) ?d
      = write_at (y * p) (take p (drop (y * p) src) @ take (k * p) (drop (y * p + p) src)) dst"
    using write_at_twice [of "y * p" "take p (drop (y * p) src)" "take (k * p) (drop (y * p + p) src)" dst] b ln(1)
    by (simp add: add.commute)
  also have "take p (drop (y * p) src) @ take (k * p) (drop (y * p + p) src) = take (Suc k * p) (drop (y * p) src)"
    by (simp add: take_add add.commute)
  finally show ?case .
qed

lemma copy_lines_result:
  assumes "n \<le> dp" "n \<le> sp"
  shows "(y + k) * dp \<le> length dst \<Longrightarrow> (y + k) * sp \<le> length src \<Longrightarrow>
    \<exists>new. copy_lines dp sp n y k src dst = Inr new \<and> length new = length dst
      \<and> (\<forall>l x. y \<le> l \<and> l < y + k \<and> x < n \<longrightarrow> new ! (l * dp + x) = src ! (l * sp + x))
      \<and> (\<forall>j < length dst. j < y * dp \<or> (y + k) * dp \<le> j \<longrightarrow> new ! j = dst ! j)"
proof (induction k arbitrary: y dst)
  case 0
  show ?case by (intro exI [of _ dst]) auto
next
  case (Suc k)
  let ?d = "write_at (y * dp) (take n (drop (y * sp) src)) dst"
  have b: "y * dp + dp \<le> length dst" "y * sp + sp \<le> length src"
    using Suc.prems by (simp_all add: algebra_simps)
  then have ln: "length (take n (drop (y * sp) src)) = n" "length ?d = length dst"
    using assms by (simp_all add: length_write_at)
  have d: "?d ! j = (if y * dp \<le> j \<and> j < y * dp + n then src ! (y * sp + (j - y * dp)) else dst ! j)"
    if "j < length dst" for j
    using write_at_nth [of "y * dp" "take n (drop (y * sp) src)" dst j] that b ln(1) assms by auto
  have first: "copy_lines dp sp n y (Suc k) src dst = copy_lines dp sp n (Suc y) k src ?d"
    using b assms by (simp add: memcpy_inside)
  obtain new where new: "copy_lines dp sp n (Suc y) k src ?d = Inr new" "length new = length dst"
    "\<And>l x. Suc y \<le> l \<Longrightarrow> l < Suc y + k \<Longrightarrow> x < n \<Longrightarrow> new ! (l * dp + x) = src ! (l * sp + x)"
    "\<And>j. j < length dst \<Longrightarrow> j < Suc y * dp \<or> (Suc y + k) * dp \<le> j \<Longrightarrow> new ! j = ?d ! j"
    using Suc.IH [of "Suc y" ?d] Suc.prems ln(2) by auto
  have lines: "new ! (l * dp + x) = src ! (l * sp + x)" if "y \<le> l" "l < y + Suc k" "x < n" for l x
  proof (cases "l = y")
    case True
    then show ?thesis using new(4) [of "y * dp + x"] d [of "y * dp + x"] that b assms by simp
  next
    case False
    then show ?thesis using new(3) [of l x] that by simp
  qed
  have kept: "new ! j = dst ! j" if "j < length dst" "j < y * dp \<or> (y + Suc k) * dp \<le> j" for j
    using new(4) [of j] d [of j] that assms by (auto simp: algebra_simps)
  show ?case
    by (intro exI [of _ new] conjI allI impI) (use first new(1,2) lines kept in auto)
qed

text \<open>The reference: the copy that always goes line by line.\<close>

definition copy_by_lines ::
    "(nat \<Rightarrow> bytes) \<Rightarrow> bytes \<Rightarrow> u32 \<Rightarrow> u32 \<Rightarrow> u32 \<Rightarrow> u32 \<Rightarrow> RawImage \<Rightarrow> RawImage result" where
  "copy_by_lines fresh src src_width src_height src_row_pitch dest_pitch i0 =
     (case (if img_is_valid i0 then Inr i0 else img_allocate fresh src_width src_height dest_pitch i0) of
        Inl f \<Rightarrow> Inl f
      | Inr i1 \<Rightarrow>
          let i = i1\<lparr>img_width := min (img_max_width i1) src_width, img_height := min (img_max_height i1) src_height\<rparr>;
              dst_row_pitch = img_width i * img_pitch i
          in map_sum id (\<lambda>d. i\<lparr>img_data := Some d\<rparr>)
               (copy_lines (unat dst_row_pitch) (unat src_row_pitch) (unat (min dst_row_pitch src_row_pitch)) 0
                  (unat (img_height i)) src (the (img_data i))))"

text \<open>The buffer has room for the maximum size, and the sizes do not overflow 32 bits.\<close>

definition image_fits :: "RawImage \<Rightarrow> bool" where
  "image_fits i \<longleftrightarrow> (case img_data i of None \<Rightarrow> False
     | Some d \<Rightarrow> unat (img_max_width i) * unat (img_pitch i) * unat (img_max_height i) \<le> length d)
     \<and> unat (img_max_width i) * unat (img_pitch i) * unat (img_max_height i) < 2 ^ 32
     \<and> unat (img_max_width i) * unat (img_pitch i) < 2 ^ 32"

lemma unat_mult_small: "unat (a :: u32) * unat b < 2 ^ 32 \<Longrightarrow> unat (a * b) = unat a * unat b"
  by (simp add: unat_word_ariths)

lemma unat_min: "unat (min (a :: u32) b) = min (unat a) (unat b)"
  by (simp add: min_def word_le_nat_alt)

lemma current_size_fits:
  assumes "image_fits i" "w \<le> img_max_width i" "h \<le> img_max_height i"
  shows "unat (w * img_pitch i) = unat w * unat (img_pitch i)"
    and "unat (w * img_pitch i * h) = unat w * unat (img_pitch i) * unat h"
    and "unat w * unat (img_pitch i) * unat h \<le> length (the (img_data i))"
proof -
  have w: "unat w * unat (img_pitch i) \<le> unat (img_max_width i) * unat (img_pitch i)"
    using assms(2) by (intro mult_le_mono1) (simp add: word_le_nat_alt)
  have wh: "unat w * unat (img_pitch i) * unat h \<le> unat (img_max_width i) * unat (img_pitch i) * unat (img_max_height i)"
    using mult_le_mono [OF w, of "unat h" "unat (img_max_height i)"] assms(3) by (simp only: word_le_nat_alt)
  have b: "unat (img_max_width i) * unat (img_pitch i) < 2 ^ 32"
    "unat (img_max_width i) * unat (img_pitch i) * unat (img_max_height i) < 2 ^ 32"
    "unat (img_max_width i) * unat (img_pitch i) * unat (img_max_height i) \<le> length (the (img_data i))"
    using assms(1) by (auto simp: image_fits_def split: option.splits)
  show row: "unat (w * img_pitch i) = unat w * unat (img_pitch i)"
    by (rule unat_mult_small [OF le_less_trans [OF w b(1)]])
  show "unat (w * img_pitch i * h) = unat w * unat (img_pitch i) * unat h"
    using unat_mult_small [of "w * img_pitch i" h, unfolded row, OF le_less_trans [OF wh b(2)]] .
  show "unat w * unat (img_pitch i) * unat h \<le> length (the (img_data i))"
    by (rule le_trans [OF wh b(3)])
qed

text \<open>C29: when the buffers are large enough, the copy of a texture is the line by line copy also on the
  fast path that copies the whole memory at once, and every byte of every line of the image comes from
  the same place of the texture.\<close>

theorem texture_copied:
  assumes "(if img_is_valid i0 then Inr i0 else img_allocate fresh sw sh dest_pitch i0) = Inr i" "image_fits i"
    and "unat src_pitch * unat (min (img_max_height i) sh) \<le> length src"
    and "unat (min (img_max_width i) sw) * unat (img_pitch i) \<le> unat src_pitch"
  shows "copy_from_dx11 fresh src sw sh src_pitch dest_pitch i0 = copy_by_lines fresh src sw sh src_pitch dest_pitch i0
    \<and> (\<exists>j. copy_from_dx11 fresh src sw sh src_pitch dest_pitch i0 = Inr j
        \<and> img_width j = min (img_max_width i) sw \<and> img_height j = min (img_max_height i) sh
        \<and> (\<forall>y x. y < unat (img_height j) \<and> x < unat (img_row_pitch j) \<longrightarrow>
              the (img_data j) ! (y * unat (img_row_pitch j) + x) = src ! (y * unat src_pitch + x)))"
proof -
  let ?w = "min (img_max_width i) sw" and ?h = "min (img_max_height i) sh"
  let ?dp = "?w * img_pitch i"
  let ?i = "i\<lparr>img_width := ?w, img_height := ?h\<rparr>"
  note fits = current_size_fits [OF assms(2), of ?w ?h]
  have dp: "unat ?dp = unat ?w * unat (img_pitch i)" "unat (?dp * ?h) = unat ?dp * unat ?h"
    "unat ?dp * unat ?h \<le> length (the (img_data i))"
    using fits by simp_all
  have m: "unat (min ?dp src_pitch) = unat ?dp" using assms(4) dp(1) by (simp add: unat_min)
  let ?lines = "copy_lines (unat ?dp) (unat src_pitch) (unat ?dp) 0 (unat ?h) src (the (img_data i))"
  have fast: "(if ?dp = src_pitch then memcpy 0 0 (unat (?dp * ?h)) src (the (img_data i)) else ?lines) = ?lines"
  proof (cases "?dp = src_pitch")
    case True
    have len: "unat ?dp * unat ?h \<le> length src" using assms(3) True by simp
    show ?thesis
      using lines_of_equal_pitch [of 0 "unat ?h" "unat ?dp" src "the (img_data i)"] dp len
        memcpy_inside [of 0 "unat ?dp * unat ?h" "the (img_data i)" 0 src] True
      by (simp add: mult.commute)
  qed simp
  from copy_lines_result [of "unat ?dp" "unat ?dp" "unat src_pitch" 0 "unat ?h" "the (img_data i)" src] assms(3,4) dp
  obtain new where new: "?lines = Inr new"
    "\<And>l x. l < unat ?h \<Longrightarrow> x < unat ?dp \<Longrightarrow> new ! (l * unat ?dp + x) = src ! (l * unat src_pitch + x)"
    by (auto simp: mult.commute)
  have copy: "copy_from_dx11 fresh src sw sh src_pitch dest_pitch i0 = Inr (?i\<lparr>img_data := Some new\<rparr>)"
    unfolding copy_from_dx11_def assms(1) using fast new(1) m
    by (cases "?dp = src_pitch") (simp_all add: Let_def)
  moreover have "copy_by_lines fresh src sw sh src_pitch dest_pitch i0 = Inr (?i\<lparr>img_data := Some new\<rparr>)"
    unfolding copy_by_lines_def assms(1) using new(1) m by (simp add: Let_def)
  ultimately show ?thesis using new(2) by (simp add: img_row_pitch_def mult.commute)
qed

theorem texture_copied_witness:
  "\<exists>j. copy_from_dx11 (\<lambda>n. replicate n 0) [1, 2, 9, 3, 4, 9] 2 2 3 1 empty_image = Inr j \<and> img_width j = 2"
proof -
  have a: "(if img_is_valid empty_image then Inr empty_image else img_allocate (\<lambda>n. replicate n 0) 2 2 1 empty_image)
      = Inr (empty_image\<lparr>img_max_width := 2, img_max_height := 2, img_pitch := 1, img_data := Some (replicate 4 0)\<rparr>)"
    by (simp add: img_allocate_def img_is_valid_def empty_image_def)
  have "image_fits (empty_image\<lparr>img_max_width := 2, img_max_height := 2, img_pitch := 1, img_data := Some (replicate 4 0)\<rparr>)"
    by (simp add: image_fits_def empty_image_def)
  from texture_copied [OF a this, of 3 "[1, 2, 9, 3, 4, 9]", THEN conjunct2] obtain j where
    "copy_from_dx11 (\<lambda>n. replicate n 0) [1, 2, 9, 3, 4, 9] 2 2 3 1 empty_image = Inr j" "img_width j = 2"
    by auto
  then show ?thesis by blast
qed

end
