(* ===== verification/Modules.thy ===== *)
theory Modules
  imports Prelude "HOL-Library.Sublist"
begin

text \<open>
  \<open>common/include/wvb_common/module.h\<close> and \<open>common/src/module.cpp\<close>: the codecs that are built in and the
  plug-ins that are found next to the executable. Function pointers are opaque and may be null; the
  directory's entries and the dynamic loader are arguments. The branch taken is the one of Linux, on
  which the built-in codecs have no encoder and no decoder.
\<close>

record 'fn Module =
  mod_codec_id :: string
  mod_name :: string
  mod_create_packetizer :: "'fn option"
  mod_create_depacketizer :: "'fn option"
  mod_create_video_encoder :: "'fn option"
  mod_create_video_decoder :: "'fn option"
  mod_test_function :: "'fn option"
  mod_handle :: "nat option"

definition is_module_file :: "string \<Rightarrow> bool" where
  "is_module_file file_name =
     (if length file_name < 12 then False
      else let f = (if prefix ''lib'' file_name then drop 3 file_name
            else if prefix ''lib_'' file_name then drop 4 file_name else file_name)
        in prefix ''wvb_module_'' f \<and> (suffix ''.dll'' f \<or> suffix ''.so'' f \<or> suffix ''.dylib'' f))"

text \<open>The loader: the handle of a file, and the module information of a handle.\<close>

definition load_module ::
    "(string \<Rightarrow> nat option) \<Rightarrow> (nat \<Rightarrow> (unit \<Rightarrow> 'fn Module) option) \<Rightarrow> string \<Rightarrow> 'fn Module option" where
  "load_module dlopen dlsym file_name =
     (case dlopen file_name of None \<Rightarrow> None
      | Some h \<Rightarrow> (case dlsym h of None \<Rightarrow> None
        | Some get_module_info \<Rightarrow> Some ((get_module_info ())\<lparr>mod_handle := Some h\<rparr>)))"

definition builtin :: "string \<Rightarrow> string \<Rightarrow> 'fn Module" where
  "builtin c n = \<lparr>mod_codec_id = c, mod_name = n, mod_create_packetizer = None, mod_create_depacketizer = None,
     mod_create_video_encoder = None, mod_create_video_decoder = None, mod_test_function = None, mod_handle = None\<rparr>"

definition builtin_modules :: "'fn \<Rightarrow> 'fn \<Rightarrow> 'fn Module list" where
  "builtin_modules h264_rtp_packetizer h264_rtp_depacketizer =
     [builtin ''h265'' ''H.265'',
      (builtin ''h264'' ''H.264'')\<lparr>mod_create_packetizer := Some h264_rtp_packetizer,
        mod_create_depacketizer := Some h264_rtp_depacketizer\<rparr>,
      builtin ''av1'' ''AV1'', builtin ''vp9'' ''VP9'']"

text \<open>An entry of the directory: whether it is a regular file, its name and its path.\<close>

fun scan_directory ::
    "(string \<Rightarrow> nat option) \<Rightarrow> (nat \<Rightarrow> (unit \<Rightarrow> 'fn Module) option) \<Rightarrow> (bool \<times> string \<times> string) list
     \<Rightarrow> 'fn Module list \<Rightarrow> 'fn Module list" where
  "scan_directory dlopen dlsym [] ms = ms"
| "scan_directory dlopen dlsym ((regular, name, path) # es) ms =
     (if regular \<and> is_module_file name
      then (case load_module dlopen dlsym path of None \<Rightarrow> scan_directory dlopen dlsym es ms
         | Some m \<Rightarrow>
             if mod_codec_id m \<noteq> [] \<and> mod_name m \<noteq> [] then scan_directory dlopen dlsym es (ms @ [m])
             else scan_directory dlopen dlsym es ms)
      else scan_directory dlopen dlsym es ms)"

definition load_modules ::
    "'fn \<Rightarrow> 'fn \<Rightarrow> (string \<Rightarrow> nat option) \<Rightarrow> (nat \<Rightarrow> (unit \<Rightarrow> 'fn Module) option)
     \<Rightarrow> (bool \<times> string \<times> string) list \<Rightarrow> 'fn Module list" where
  "load_modules p d dlopen dlsym entries = scan_directory dlopen dlsym entries (builtin_modules p d)"

text \<open>The handles that \<open>close\<close> gives back to the loader.\<close>

definition module_close :: "'fn Module \<Rightarrow> nat list" where
  "module_close m = (case mod_handle m of None \<Rightarrow> [] | Some h \<Rightarrow> [h])"

section \<open>Which files are modules\<close>

text \<open>The prefix \<open>lib_\<close> is announced, but \<open>lib\<close> is taken off first and leaves the underscore.\<close>

lemma is_module_file_iff:
  "is_module_file f \<longleftrightarrow> 12 \<le> length f \<and>
     (\<exists>pre \<in> {'''', ''lib''}. \<exists>rest. f = pre @ ''wvb_module_'' @ rest
        \<and> (suffix ''.dll'' (''wvb_module_'' @ rest) \<or> suffix ''.so'' (''wvb_module_'' @ rest) \<or> suffix ''.dylib'' (''wvb_module_'' @ rest)))"
  by (auto simp: is_module_file_def prefix_def)

lemma lib_underscore_rejected: "\<not> is_module_file ''lib_wvb_module_x.so''"
  by (simp add: is_module_file_def)

lemma lib_accepted: "is_module_file ''libwvb_module_x.so''" "is_module_file ''wvb_module_x.dll''"
  by (simp_all add: is_module_file_def suffix_def)

lemma scan_extends:
  "\<exists>found. scan_directory dlopen dlsym es ms = ms @ found
     \<and> list_all (\<lambda>m. mod_codec_id m \<noteq> [] \<and> mod_name m \<noteq> [] \<and> mod_handle m \<noteq> None) found"
proof (induction dlopen dlsym es ms rule: scan_directory.induct)
  case (2 dlopen dlsym regular name path es ms)
  then show ?case
    by (auto simp: load_module_def split: option.splits)
qed simp

text \<open>The built-in codecs are always there, first, and every plug-in has an identifier, a name and a handle.\<close>

lemma modules_usable:
  "\<exists>found. load_modules p d dlopen dlsym es = builtin_modules p d @ found
     \<and> list_all (\<lambda>m. mod_codec_id m \<noteq> [] \<and> mod_name m \<noteq> [] \<and> mod_handle m \<noteq> None) found"
  unfolding load_modules_def by (rule scan_extends)

end
