(* ===== verification/ServerCore.thy ===== *)
theory ServerCore
  imports ArgParser Modules SharedState VrcpConv CsvExport VrcpHandshake
begin

text \<open>
  \<open>wvb_server/src/server.cpp\<close>, first part: the server's data and the handlers of the driver's events and
  of the client's packets. A handler takes the readings of the system that it makes and the state, and
  returns the new state; the calls into the other components (sends, the video pipeline, the encoder,
  files, the SteamVR process) are appended to \<open>sv_calls\<close> in their order. A C++ exception is an \<open>Inl\<close>.
  Log messages are not modelled.
\<close>

section \<open>The state\<close>

datatype DriverConnectionState = AWAITING_DRIVER | DRIVER_CONNECTED

datatype ClientConnectionState = AWAITING_CLIENT | SYNCING_CLOCKS | CLIENT_CONNECTED

text \<open>The states of the app are numbers; two of them coincide.\<close>

type_synonym AppState = u32

definition NOT_READY :: AppState where "NOT_READY = 0"
definition READY :: AppState where "READY = 1"
definition RUNNING :: AppState where "RUNNING = 1"
definition STANDBY :: AppState where "STANDBY = 2"
definition GATHERING_RESULTS :: AppState where "GATHERING_RESULTS = 3"
definition INTER_PASS_PAUSE :: AppState where "INTER_PASS_PAUSE = 4"

lemmas app_states = NOT_READY_def READY_def RUNNING_def STANDBY_def GATHERING_RESULTS_def INTER_PASS_PAUSE_def

record EncoderCreateInfo =
  ec_src_size :: "u32 \<times> u32"
  ec_refresh_rate :: RefreshRate
  ec_bpp :: u32
  ec_bitrate :: u32
  ec_delay :: "32 word"

datatype server_call =
    Reliable_send bytes
  | Unreliable_send bytes
  | Set_packetizer
  | Create_encoder nat EncoderCreateInfo
  | Create_pipeline
  | Start_worker_thread
  | Send_stop_signal
  | Send_kill_signal
  | Prepare_driver string string
  | Launch_driver
  | Close_module nat
  | Write_file string bytes
  | Sleep_ms u32
  | Vrcp_close

record server_data =
  sv_modules :: "nat Module list"
  sv_chosen_module :: "nat Module"
  sv_settings :: AppSettings
  sv_current_pass :: u32
  sv_current_run :: u32
  sv_image_offset :: u32
  sv_total_received_bytes :: u32
  sv_client_params :: VRCPClientParams
  sv_ntp_epoch :: u64
  sv_rtp_clock :: RTPClock
  sv_shared :: ServerDriverSharedData
  sv_driver_events :: DriverEvents
  sv_server_events :: ServerEvents
  sv_driver_connection_state :: DriverConnectionState
  sv_client_connection_state :: ClientConnectionState
  sv_app_state :: AppState
  sv_should_stop :: bool
  sv_latest_tracking_timestamp :: "u32 option"
  sv_measurement_bucket :: ServerMeasurementBucket
  sv_driver_bucket :: "DriverMeasurementBucket option"
  sv_client_bucket :: "ClientMeasurementBucket option"
  sv_capture_buffer :: "bytes option"
  sv_calls :: "server_call list"

text \<open>
  What a handler reads of the system: whether the shared memory could be locked, the clock when it
  starts and when it reads the clock again, the clocks of the buckets, the content of fresh memory,
  which files can be opened, how a float is printed, and the encoder's delay.
\<close>

record server_env =
  se_locked :: bool
  se_clock :: clock_env
  se_later :: clock_env
  se_now :: clock_now
  se_fresh :: "nat \<Rightarrow> bytes"
  se_file_opens :: "string \<Rightarrow> bool"
  se_show_float :: "f32 \<Rightarrow> string"
  se_encoder_delay :: u32

definition call :: "server_call \<Rightarrow> server_data \<Rightarrow> server_data" where
  "call c s = s\<lparr>sv_calls := sv_calls s @ [c]\<rparr>"

text \<open>Access to the shared data without a check that the lock was obtained.\<close>

definition locked :: "server_env \<Rightarrow> (ServerDriverSharedData \<Rightarrow> ServerDriverSharedData) \<Rightarrow> server_data \<Rightarrow> server_data result" where
  "locked env f s =
     (if se_locked env then Inr (s\<lparr>sv_shared := f (sv_shared s)\<rparr>)
      else Inl (UndefinedBehaviour ''null shared data''))"

definition signal_state_changed :: "server_data \<Rightarrow> server_data" where
  "signal_state_changed s = s\<lparr>sv_server_events := (sv_server_events s)
     \<lparr>ev_server_state_changed := event_signal (ev_server_state_changed (sv_server_events s))\<rparr>\<rparr>"

definition current_pass_settings :: "server_data \<Rightarrow> BenchmarkPass result" where
  "current_pass_settings s =
     (let ps = passes (benchmark_settings (sv_settings s)); i = unat (sv_current_pass s) in
      if i < length ps then Inr (ps ! i) else Inl (UndefinedBehaviour ''pass index out of range''))"

section \<open>The benchmark window\<close>

text \<open>Milliseconds are 90 ticks of the RTP clock.\<close>

definition benchmark_window :: "int \<Rightarrow> BenchmarkPass \<Rightarrow> MeasurementWindow" where
  "benchmark_window start p =
     (let start_time = start + 90 * uint (duration_startup_phase_ms p);
          start_quality = start_time + 90 * uint (duration_timing_phase_ms p);
          end_meas = start_quality + 90 * uint (duration_frame_quality_phase_ms p)
      in \<lparr>start_timing_phase = start_time, start_image_quality_phase = start_quality,
          end_measurements = end_meas, end_window = end_meas + 90 * uint (duration_end_margin_ms p)\<rparr>)"

definition setup_benchmark_window :: "server_env \<Rightarrow> server_data \<Rightarrow> server_data result" where
  "setup_benchmark_window env s =
     and_then (current_pass_settings s) (\<lambda>p.
       let s1 = s\<lparr>sv_measurement_bucket := (sv_measurement_bucket s)
             \<lparr>sb_pass_id := sv_current_pass s, sb_run_id := sv_current_run s\<rparr>\<rparr>;
           w = benchmark_window (now (se_clock env) (sv_rtp_clock s)) p
       in and_then (locked env (\<lambda>d. d\<lparr>sd_measurement_window := w\<rparr>) s1) (\<lambda>s2.
         let s3 = s2\<lparr>sv_server_events := (sv_server_events s2)
               \<lparr>ev_new_benchmark_data := event_signal (ev_new_benchmark_data (sv_server_events s2))\<rparr>,
               sv_measurement_bucket := set_window w (sv_measurement_bucket s2)\<rparr>
         in Inr (call (Reliable_send (VRCPBenchmarkInfo_bytes (mk_VRCPBenchmarkInfo w (sv_rtp_clock s3)))) s3)))"

section \<open>The driver\<close>

definition driver_connection :: "DriverState \<Rightarrow> server_data \<Rightarrow> server_data" where
  "driver_connection st s =
     (if st = DRV_NOT_RUNNING
      then (if sv_driver_connection_state s \<noteq> AWAITING_DRIVER
            then s\<lparr>sv_app_state := STANDBY, sv_driver_connection_state := AWAITING_DRIVER\<rparr> else s)
      else if sv_driver_connection_state s \<noteq> DRIVER_CONNECTED
      then let s1 = s\<lparr>sv_driver_connection_state := DRIVER_CONNECTED\<rparr> in
        if sv_client_connection_state s1 = AWAITING_CLIENT then s1\<lparr>sv_app_state := NOT_READY\<rparr> else s1
      else s)"

definition handle_driver_state_changed :: "server_env \<Rightarrow> server_data \<Rightarrow> server_data result" where
  "handle_driver_state_changed env s0 =
     and_then (locked env id s0) (\<lambda>s1.
       let st = sd_driver_state (sv_shared s1); s = driver_connection st s1 in
       if st = DRV_AWAITING_CLIENT_SPEC
       then (if sv_client_connection_state s = CLIENT_CONNECTED
             then and_then (locked env (\<lambda>d. d\<lparr>sd_vr_system_specs := cp_specs (sv_client_params s),
                      sd_ntp_epoch := sv_ntp_epoch s\<rparr>) s)
               (\<lambda>s2. Inr (s2\<lparr>sv_server_events := (sv_server_events s2)
                  \<lparr>ev_new_system_specs := event_signal (ev_new_system_specs (sv_server_events s2))\<rparr>\<rparr>))
             else Inr s)
       else if st = DRV_READY
       then Inr (if sv_app_state s = RUNNING then s\<lparr>sv_app_state := STANDBY\<rparr> else s)
       else if st = DRV_RUNNING
       then (if sv_client_connection_state s = CLIENT_CONNECTED
             then and_then (locked env (\<lambda>d. d\<lparr>sd_server_state := SRV_RUNNING\<rparr>) s) (\<lambda>s2.
               let s3 = (call Start_worker_thread (signal_state_changed s2))\<lparr>sv_app_state := RUNNING\<rparr> in
               if app_mode (sv_settings s3) = APP_BENCHMARK then setup_benchmark_window env s3 else Inr s3)
             else Inr s)
       else Inr s)"

section \<open>The codec\<close>

text \<open>The chosen module: kept if it has the codec, else the first module that has it.\<close>

definition choose_module :: "string \<Rightarrow> server_data \<Rightarrow> server_data result" where
  "choose_module codec s =
     (if mod_codec_id (sv_chosen_module s) = codec then Inr s
      else case find (\<lambda>m. mod_codec_id m = codec) (sv_modules s) of
        None \<Rightarrow> Inl (RuntimeError (''No module found for codec '' @ [CHR 0x22] @ codec @ [CHR 0x22]))
      | Some m \<Rightarrow>
          let s1 = s\<lparr>sv_chosen_module := m\<rparr> in
          if app_mode (sv_settings s1) = APP_NORMAL
          then Inr (s1\<lparr>sv_modules := [],
             sv_calls := sv_calls s1 @ concat (map (\<lambda>k. case mod_handle k of None \<Rightarrow> []
               | Some h \<Rightarrow> if mod_handle m \<noteq> Some h then [Close_module h] else []) (sv_modules s1))\<rparr>)
          else Inr s1)"

definition encoder_info :: "server_data \<Rightarrow> EncoderCreateInfo result" where
  "encoder_info s =
     (let specs = cp_specs (sv_client_params s);
          info = \<lparr>ec_src_size = (ext_width (eye_resolution specs) * 2, ext_height (eye_resolution specs)),
            ec_refresh_rate = refresh_rate specs, ec_bpp = 3, ec_bitrate = 0, ec_delay = 0\<rparr>
      in if app_mode (sv_settings s) = APP_BENCHMARK
         then and_then (current_pass_settings s) (\<lambda>p. Inr (info\<lparr>ec_bpp := ucast (bpp (codec_settings p)),
           ec_delay := scast (delay (codec_settings p)), ec_bitrate := bitrate (codec_settings p)\<rparr>))
         else Inr info)"

definition setup_codec :: "string \<Rightarrow> server_data \<Rightarrow> server_data result" where
  "setup_codec codec s0 =
     and_then (choose_module codec s0) (\<lambda>s1.
       let s = call Set_packetizer s1 in
       case mod_create_video_encoder (sv_chosen_module s) of
         None \<Rightarrow> Inl (RuntimeError (''No video encoder found for codec '' @ [CHR 0x22]
           @ mod_codec_id (sv_chosen_module s) @ [CHR 0x22]))
       | Some create \<Rightarrow>
           and_then (encoder_info s) (\<lambda>info. Inr (call Create_pipeline (call (Create_encoder create info) s))))"

text \<open>The callback of the pipeline when its worker thread stops.\<close>

definition on_worker_thread_stopped :: "server_env \<Rightarrow> server_data \<Rightarrow> server_data result" where
  "on_worker_thread_stopped env s =
     (if app_mode (sv_settings s) = APP_BENCHMARK \<and> measurements_complete (se_now env) (sv_measurement_bucket s)
      then and_then (locked env (\<lambda>d. d\<lparr>sd_server_state := SRV_AWAITING_DRIVER_MEASUREMENTS\<rparr>)
             (s\<lparr>sv_app_state := GATHERING_RESULTS\<rparr>))
           (\<lambda>s1. Inr (signal_state_changed s1))
      else Inr s)"

end
