(* ===== verification/ServerMeasurements.thy ===== *)
theory ServerMeasurements
  imports ServerCore
begin

text \<open>
  \<open>wvb_server/src/server.cpp\<close>, second part: the measurements that driver and client send at the end of
  a run, their export, and the move to the next run or pass.
\<close>

section \<open>Buckets for received measurements\<close>

text \<open>The buckets refer to clocks by numbers; 1 and 2 are the clocks of the two buckets that the server
  creates for the driver's and the client's measurements.\<close>

definition new_driver_bucket :: "clock_ref \<Rightarrow> DriverMeasurementBucket" where
  "new_driver_bucket c = \<lparr>m_rtp_clock = Some c, m_window = default_window, m_mode = ACCEPT_ALL,
     db_frame_measurements = [], db_tracking_measurements = [], db_pose_accesses_measurements = []\<rparr>"

definition new_client_bucket :: "clock_ref \<Rightarrow> ClientMeasurementBucket" where
  "new_client_bucket c = \<lparr>m_rtp_clock = Some c, m_window = default_window, m_mode = ACCEPT_ALL,
     m_socket_measurements = [], cb_frame_measurements = [], cb_tracking_measurements = [],
     cb_image_quality_measurements = [], cb_network_measurements = [], cb_decoder_nb_pushed_frames = 0,
     cb_decoder_nb_pulled_frames = 0, cb_nb_saved_frames = 0, cb_nb_dropped_frames = 0, cb_nb_catched_up_frames = 0\<rparr>"

text \<open>\<open>make_shared<RTPClock>(ntp_epoch)\<close> may throw.\<close>

definition ensure_client_bucket_exists :: "server_env \<Rightarrow> server_data \<Rightarrow> server_data result" where
  "ensure_client_bucket_exists env s =
     (case sv_client_bucket s of Some b \<Rightarrow> Inr s
      | None \<Rightarrow> and_then (new_RTPClock_ntp (se_clock env) (sv_ntp_epoch s))
          (\<lambda>_. Inr (s\<lparr>sv_client_bucket := Some (new_client_bucket 2)\<rparr>)))"

text \<open>Storing a measurement of the client, in a bucket that is created when it is needed.\<close>

definition store_in_client_bucket ::
    "server_env \<Rightarrow> (ClientMeasurementBucket \<Rightarrow> ClientMeasurementBucket) \<Rightarrow> server_data \<Rightarrow> server_data result" where
  "store_in_client_bucket env f s =
     and_then (ensure_client_bucket_exists env s) (\<lambda>s1. Inr (s1\<lparr>sv_client_bucket := map_option f (sv_client_bucket s1)\<rparr>))"

section \<open>The export\<close>

definition put_text :: "string \<Rightarrow> ofstream \<Rightarrow> ofstream" where
  "put_text t file = map_option (\<lambda>s. s @ t) file"

definition table :: "string \<Rightarrow> (ofstream \<Rightarrow> ofstream) \<Rightarrow> ofstream \<Rightarrow> ofstream" where
  "table title export file = put_text ''---\<newline>'' (export (put_text (title @ ''\<newline>'') file))"

definition export_measurements ::
    "server_env \<Rightarrow> server_data \<Rightarrow> DriverMeasurementBucket \<Rightarrow> ClientMeasurementBucket \<Rightarrow> ofstream" where
  "export_measurements env s db cb =
     (let sb = sv_measurement_bucket s; clock = sv_rtp_clock s;
          f1 = table ''socket_measurements'' (\<lambda>f. export_csv_body (export_csv_body (export_csv_header f)
                 (m_socket_measurements sb) ''server'') (m_socket_measurements cb) ''client'') (Some []);
          f2 = table ''driver_frame_time_measurements'' (\<lambda>f. driver_frame_export_csv f clock (db_frame_measurements db)) f1;
          f3 = table ''driver_tracking_measurements'' (\<lambda>f. tracking_export_csv f clock (db_tracking_measurements db)) f2;
          f4 = table ''driver_pose_access_measurements'' (\<lambda>f. pose_access_export_csv f clock (db_pose_accesses_measurements db)) f3;
          f5 = table ''server_frame_time_measurements'' (\<lambda>f. server_frame_export_csv f clock (sb_frame_measurements sb)) f4;
          f6 = table ''server_tracking_measurements'' (\<lambda>f. tracking_export_csv f clock (sb_tracking_measurements sb)) f5;
          f7 = table ''server_image_quality_measurements''
                 (\<lambda>f. image_quality_export_csv (se_show_float env) f (sb_image_quality_measurements sb)) f6;
          f8 = table ''client_frame_time_measurements'' (\<lambda>f. client_frame_export_csv f clock (cb_frame_measurements cb)) f7;
          f9 = table ''client_tracking_measurements'' (\<lambda>f. tracking_export_csv f clock (cb_tracking_measurements cb)) f8;
          f10 = table ''client_image_quality_measurements''
                 (\<lambda>f. image_quality_export_csv (se_show_float env) f (cb_image_quality_measurements cb)) f9;
          f11 = table ''network_measurements'' (\<lambda>f. network_export_csv f (cb_network_measurements cb)) f10
      in table ''misc_measurements'' (\<lambda>f. export_misc_measurements_csv f (sb_dropped_frames sb)
           (cb_nb_dropped_frames cb) (cb_nb_catched_up_frames cb) (se_encoder_delay env) (get_decoder_frame_delay cb)) f11)"

definition measurements_file_name :: "server_data \<Rightarrow> string" where
  "measurements_file_name s = ''wvb_measurements_pass_'' @ string_of_nat (unat (sv_current_pass s))
     @ ''_run_'' @ string_of_nat (unat (sv_current_run s)) @ ''.csv''"

section \<open>The next run\<close>

text \<open>The counters after a run; whether all passes are done.\<close>

definition advance_run :: "server_data \<Rightarrow> (bool \<times> server_data) result" where
  "advance_run s =
     and_then (current_pass_settings s) (\<lambda>p.
       let run = sv_current_run s + 1;
           s1 = (if run = num_repetitions p then s\<lparr>sv_current_pass := sv_current_pass s + 1, sv_current_run := 0\<rparr>
                 else s\<lparr>sv_current_run := run\<rparr>)
       in Inr (unat (sv_current_pass s1) = length (passes (benchmark_settings (sv_settings s1))), s1))"

definition next_pass_packet :: "(nat \<Rightarrow> bytes) \<Rightarrow> u32 \<Rightarrow> u32 \<Rightarrow> string \<Rightarrow> bytes" where
  "next_pass_packet fresh pass run codec =
     (let psize = 4 + name_size codec; total = padded psize;
          m1 = write_at 0 (VRCPNextPass_bytes (default_VRCPNextPass
                 \<lparr>np_n_rows := of_nat (total div 4), np_pass := ucast pass, np_run := ucast run\<rparr>)) (fresh total);
          m2 = write_name 4 CHOSEN_VIDEO_CODEC_TLV codec m1
      in write_at psize (replicate (total - psize) 0) m2)"

text \<open>A default tracking state: zeros, and the identity rotation (the float 1.0 for \<open>w\<close>).\<close>

definition default_tracking_state :: TrackingState where
  "default_tracking_state = \<lparr>ts_sample_timestamp = 0, ts_pose_timestamp = 0,
     ts_pose = \<lparr>orientation = \<lparr>q_x = 0, q_y = 0, q_z = 0, q_w = 0x3F800000\<rparr>, position = \<lparr>v_x = 0, v_y = 0, v_z = 0\<rparr>\<rparr>,
     ts_fov_left = \<lparr>fov_l = 0, fov_r = 0, fov_u = 0, fov_d = 0\<rparr>,
     ts_fov_right = \<lparr>fov_l = 0, fov_r = 0, fov_u = 0, fov_d = 0\<rparr>\<rparr>"

definition restart_run :: "server_env \<Rightarrow> BenchmarkPass \<Rightarrow> server_data \<Rightarrow> server_data result" where
  "restart_run env p s0 =
     (let s1 = call (Reliable_send (next_pass_packet (se_fresh env) (sv_current_pass s0) (sv_current_run s0) (codec_id p))) s0;
          s2 = s1\<lparr>sv_measurement_bucket := server_reset (sv_measurement_bucket s1), sv_client_bucket := None,
                 sv_driver_bucket := None, sv_latest_tracking_timestamp := None\<rparr>;
          s3 = call (Sleep_ms (duration_inter_run_interval_ms (benchmark_settings (sv_settings s2)))) s2
      in and_then (setup_codec (codec_id p) s3) (\<lambda>s4.
        let s5 = (if se_locked env
              then s4\<lparr>sv_shared := (sv_shared s4)\<lparr>sd_server_state := SRV_READY, sd_tracking_state := default_tracking_state,
                 sd_measurement_window := default_window\<rparr>\<rparr>
              else s4)
        in Inr (call Launch_driver (signal_state_changed s5))))"

text \<open>
  Nothing happens until both buckets are complete. If the file cannot be opened, the server stays in
  the run. After the last pass, or at a codec that no module has, it stops.
\<close>

definition handle_measurements_received :: "server_env \<Rightarrow> server_data \<Rightarrow> server_data result" where
  "handle_measurements_received env s0 =
     (case (sv_driver_bucket s0, sv_client_bucket s0) of
        (Some db, Some cb) \<Rightarrow>
          if \<not> measurements_complete (se_now env) cb then Inr s0
          else if \<not> se_file_opens env (measurements_file_name s0) then Inr s0
          else
            let s1 = call (Write_file (measurements_file_name s0)
                  (case export_measurements env s0 db cb of None \<Rightarrow> [] | Some t \<Rightarrow> bytes_of_string t)) s0
            in and_then (advance_run s1) (\<lambda>(finished, s2).
              if finished then Inr (s2\<lparr>sv_should_stop := True\<rparr>)
              else and_then (current_pass_settings s2) (\<lambda>p.
                if list_ex (\<lambda>m. mod_codec_id m = codec_id p) (sv_modules s2) then restart_run env p s2
                else Inr (s2\<lparr>sv_should_stop := True\<rparr>)))
      | _ \<Rightarrow> Inr s0)"

section \<open>The driver's measurements\<close>

text \<open>The counts come from the shared memory; reading past an array is undefined.\<close>

definition driver_measurements :: "clock_now \<Rightarrow> ServerDriverSharedData \<Rightarrow> DriverMeasurementBucket result" where
  "driver_measurements clk d =
     (let nf = unat (sd_frame_time_measurements_count d); np = unat (sd_pose_access_time_measurements_count d);
          nt = unat (sd_tracking_time_measurements_count d)
      in if nf > length (sd_frame_time_measurements d) \<or> np > length (sd_pose_access_time_measurements d)
           \<or> nt > length (sd_tracking_time_measurements d)
         then Inl (UndefinedBehaviour ''measurement count beyond the array'')
         else
           let b0 = new_driver_bucket 1;
               b1 = fold (driver_add_frame_time_measurement clk) (take nf (sd_frame_time_measurements d)) b0;
               b2 = fold (driver_add_pose_access_measurement clk) (take np (sd_pose_access_time_measurements d)) b1;
               b3 = fold (driver_add_tracking_time_measurement clk) (take nt (sd_tracking_time_measurements d)) b2
           in Inr (set_as_finished b3))"

definition handle_new_driver_measurements :: "server_env \<Rightarrow> server_data \<Rightarrow> server_data result" where
  "handle_new_driver_measurements env s0 =
     and_then (new_RTPClock_ntp (se_clock env) (sv_ntp_epoch s0)) (\<lambda>_.
       and_then (locked env id s0) (\<lambda>s1.
         and_then (driver_measurements (se_now env) (sv_shared s1)) (\<lambda>b.
           let s2 = s1\<lparr>sv_driver_bucket := Some b,
                 sv_shared := (sv_shared s1)\<lparr>sd_server_state := SRV_PROCESSING_MEASUREMENTS\<rparr>\<rparr>
           in handle_measurements_received env (signal_state_changed s2))))"

end
