(* ===== verification/ServerPackets.thy ===== *)
theory ServerPackets
  imports ServerMeasurements
begin

text \<open>
  \<open>wvb_server/src/server.cpp\<close>, third part: the packets of the client. A packet is given as the bytes of
  its announced size.
\<close>

section \<open>Captured frames\<close>

definition capture_file_name :: "server_data \<Rightarrow> u32 \<Rightarrow> string" where
  "capture_file_name s n = ''wvb_capture_pass_'' @ string_of_nat (unat (sv_current_pass s))
     @ ''_run_'' @ string_of_nat (unat (sv_current_run s)) @ ''_client_'' @ string_of_nat (unat n) @ ''.rgba''"

definition sizeof_VRCPFrameCaptureFragment :: nat where
  "sizeof_VRCPFrameCaptureFragment = 16"

text \<open>
  The number of bytes to copy is the minimum of two \<open>int\<close>s, and becomes a \<open>size_t\<close> in \<open>memcpy\<close>; a
  negative one is therefore a huge size.
\<close>

definition fragment_copy_size :: "VRCPFrameCaptureFragment \<Rightarrow> nat \<Rightarrow> int" where
  "fragment_copy_size f capacity =
     min (sint (ntohl (fc_size f)))
         (sint (ucast ((of_nat capacity :: u64) - ucast (ntohl (fc_offset f))) :: 32 word))"

definition copy_fragment :: "bytes \<Rightarrow> bytes \<Rightarrow> (bytes \<times> u32) result" where
  "copy_fragment w buf =
     (let f = VRCPFrameCaptureFragment_of w; n = fragment_copy_size f (length buf); off = unat (ntohl (fc_offset f));
          payload = drop sizeof_VRCPFrameCaptureFragment w
      in if n < 0 \<or> nat n > length payload \<or> off + nat n > length buf
         then Inl (UndefinedBehaviour ''memcpy outside the capture buffer'')
         else Inr (write_at off (take (nat n) payload) buf, word_of_int n))"

text \<open>The capture is saved, if its file can be opened, and the buffer is freed.\<close>

definition save_capture :: "server_env \<Rightarrow> bytes \<Rightarrow> server_data \<Rightarrow> server_data result" where
  "save_capture env buf s =
     and_then (store_in_client_bucket env client_add_saved_frame s) (\<lambda>s1.
       case sv_client_bucket s1 of None \<Rightarrow> Inr s1
       | Some b \<Rightarrow>
           let name = capture_file_name s1 (cb_nb_saved_frames b - 1);
               s2 = (if se_file_opens env name then call (Write_file name buf) s1 else s1)
           in Inr (s2\<lparr>sv_capture_buffer := None\<rparr>))"

definition handle_fragment :: "server_env \<Rightarrow> bytes \<Rightarrow> server_data \<Rightarrow> server_data result" where
  "handle_fragment env w s0 =
     (let f = VRCPFrameCaptureFragment_of w in
      if unat (ntohl (fc_size f)) \<le> length w - sizeof_VRCPFrameCaptureFragment \<and> ntohl (fc_full_size f) > 0
      then
        let s1 = (case sv_capture_buffer s0 of None \<Rightarrow> s0
              | Some buf \<Rightarrow> if length buf \<noteq> unat (ntohl (fc_full_size f)) then s0\<lparr>sv_capture_buffer := None\<rparr> else s0)
        in and_then
          (if sv_capture_buffer s1 = None \<and> ntohl (fc_offset f) = 0
           then and_then (ensure_client_bucket_exists env s1) (\<lambda>s. Inr (s
                  \<lparr>sv_capture_buffer := Some (se_fresh env (unat (ntohl (fc_full_size f)))), sv_image_offset := 0\<rparr>))
           else Inr s1)
          (\<lambda>s2. case sv_capture_buffer s2 of None \<Rightarrow> Inr s2
            | Some buf \<Rightarrow>
              if ntohl (fc_offset f) \<noteq> sv_image_offset s2
              then and_then (store_in_client_bucket env client_add_saved_frame s2)
                     (\<lambda>s. Inr (s\<lparr>sv_capture_buffer := None, sv_image_offset := 0\<rparr>))
              else and_then (copy_fragment w buf) (\<lambda>(buf', n).
                let s3 = s2\<lparr>sv_capture_buffer := Some buf', sv_total_received_bytes := sv_total_received_bytes s2 + n,
                      sv_image_offset := sv_image_offset s2 + n\<rparr>
                in if fc_last f \<noteq> 0 then save_capture env buf' s3 else Inr s3))
      else Inr s0)"

section \<open>The packet handler\<close>

text \<open>Measurements are read into structures with their default values.\<close>

definition default_frame_time :: ClientFrameTimeMeasurements where
  "default_frame_time = \<lparr>cf_frame_index = 0, cf_frame_id = 0, cf_tracking_timestamp = 0,
     cf_last_packet_received_timestamp = 0, cf_pushed_to_decoder_timestamp = 0, cf_begin_wait_frame_timestamp = 0,
     cf_begin_frame_timestamp = 0, cf_after_wait_swapchain_timestamp = 0, cf_after_render_timestamp = 0,
     cf_end_frame_timestamp = 0, cf_predicted_present_timestamp = 0, cf_pose_timestamp = 0, cf_frame_delay = 0\<rparr>"

definition default_image_quality :: ImageQualityMeasurements where
  "default_image_quality = \<lparr>iq_frame_id = 0, iq_codestream_size = 0, iq_raw_size = 0, iq_psnr = 0\<rparr>"

definition default_tracking_time :: TrackingTimeMeasurements where
  "default_tracking_time = \<lparr>tt_pose_timestamp = 0, tt_tracking_received_timestamp = 0, tt_tracking_processed_timestamp = 0\<rparr>"

definition default_network_measurement :: NetworkMeasurements where
  "default_network_measurement = \<lparr>nm_rtt_us = 0, nm_clock_error_us = 0\<rparr>"

definition default_socket_measurement :: SocketMeasurements where
  "default_socket_measurement = \<lparr>sm_socket_id = UNKNOWN_SOCKET, sm_socket_type = SOCKET_TYPE_INVALID,
     sm_bytes_sent = 0, sm_bytes_received = 0, sm_packets_sent = 0, sm_packets_received = 0\<rparr>"

definition handle_ping :: "server_env \<Rightarrow> bytes \<Rightarrow> server_data \<Rightarrow> server_data" where
  "handle_ping env w s =
     (if length w = 4
      then call (Unreliable_send (VRCPPingReply_bytes (default_VRCPPingReply
             \<lparr>pr_ping_id := pi_ping_id (VRCPPing_of w),
              pr_reply_timestamp := htonl (now_rtp_timestamp (se_clock env) (sv_rtp_clock s))\<rparr>))) s
      else s)"

text \<open>Tracking data that is not newer than the last one is dropped.\<close>

definition handle_tracking :: "server_env \<Rightarrow> bytes \<Rightarrow> server_data \<Rightarrow> server_data" where
  "handle_tracking env w s =
     (if length w = 72
      then
        let p = VRCPTrackingData_of w; timestamp = ntohl (td_sample_timestamp p) in
        if (case sv_latest_tracking_timestamp s of None \<Rightarrow> True | Some t \<Rightarrow> compare_rtp_timestamps t timestamp)
        then s\<lparr>sv_latest_tracking_timestamp := Some timestamp,
          sv_shared := (if se_locked env then (sv_shared s)\<lparr>sd_tracking_state := to_tracking_state p (sd_tracking_state (sv_shared s))\<rparr>
             else sv_shared s),
          sv_server_events := (sv_server_events s)
            \<lparr>ev_new_tracking_data := event_signal (ev_new_tracking_data (sv_server_events s))\<rparr>,
          sv_measurement_bucket := server_add_tracking_time_measurement (se_now env)
            \<lparr>tt_pose_timestamp = ntohl (td_pose_timestamp p),
             tt_tracking_received_timestamp = now_rtp_timestamp (se_clock env) (sv_rtp_clock s),
             tt_tracking_processed_timestamp = now_rtp_timestamp (se_later env) (sv_rtp_clock s)\<rparr>
            (sv_measurement_bucket s)\<rparr>
        else s
      else s)"

definition handle_sync_finished :: "server_env \<Rightarrow> bytes \<Rightarrow> server_data \<Rightarrow> server_data result" where
  "handle_sync_finished env w s =
     (if length w = 4 \<and> sv_client_connection_state s = SYNCING_CLOCKS
      then and_then (locked env (\<lambda>d. d\<lparr>sd_server_state := SRV_READY\<rparr>) s) (\<lambda>s1.
        handle_driver_state_changed env
          (call Launch_driver ((signal_state_changed s1)\<lparr>sv_client_connection_state := CLIENT_CONNECTED\<rparr>)))
      else Inr s)"

definition finish_client_bucket :: "VRCPMeasurementTransferFinished \<Rightarrow> ClientMeasurementBucket \<Rightarrow> ClientMeasurementBucket" where
  "finish_client_bucket p b =
     set_as_finished (set_nb_catched_up_frames (ntohl (tf_nb_catched_up_frames p))
       (set_nb_dropped_frames (ntohl (tf_nb_dropped_frames p))
         (set_decoder_frame_delay (ucast (tf_decoder_frame_delay p)) b)))"

text \<open>
  The size of a tracking time measurement is compared with the size of the enumeration's value, one byte.
\<close>

definition handle_vrcp_packet :: "server_env \<Rightarrow> bytes \<Rightarrow> server_data \<Rightarrow> server_data result" where
  "handle_vrcp_packet env w s =
     (let ft = to_ft (load8 w) in
      if ft = PING then Inr (handle_ping env w s)
      else if ft = TRACKING_DATA then Inr (handle_tracking env w s)
      else if ft = SYNC_FINISHED then handle_sync_finished env w s
      else if ft = FRAME_TIME_MEASUREMENT
      then (if length w = 56
            then store_in_client_bucket env (client_add_frame_time_measurement (se_now env)
                   (to_frame_time_measurements (VRCPFrameTimeMeasurement_of w) default_frame_time)) s
            else Inr s)
      else if ft = IMAGE_QUALITY_MEASUREMENT
      then (if length w = 20
            then store_in_client_bucket env (client_add_image_quality_measurement (se_now env)
                   (to_image_quality_measurements (VRCPImageQualityMeasurement_of w) default_image_quality)) s
            else Inr s)
      else if ft = TRACKING_TIME_MEASUREMENT
      then (if length w = 1
            then store_in_client_bucket env (client_add_tracking_time_measurement (se_now env)
                   (to_tracking_time_measurements (VRCPTrackingTimeMeasurement_of w) default_tracking_time)) s
            else Inr s)
      else if ft = NETWORK_MEASUREMENT
      then (if length w = 12
            then store_in_client_bucket env (client_add_network_measurement
                   (to_network_measurements (VRCPNetworkMeasurement_of w) default_network_measurement)) s
            else Inr s)
      else if ft = SOCKET_MEASUREMENT
      then (if length w = 20
            then store_in_client_bucket env (add_socket_measurements (se_now env)
                   (to_socket_measurements (VRCPSocketMeasurement_of w) default_socket_measurement)) s
            else Inr s)
      else if ft = MEASUREMENT_TRANSFER_FINISHED
      then (if length w = 12
            then and_then (store_in_client_bucket env (finish_client_bucket (VRCPMeasurementTransferFinished_of w)) s)
                   (handle_measurements_received env)
            else Inr s)
      else if ft = FRAME_CAPTURE_FRAGMENT
      then (if length w \<ge> sizeof_VRCPFrameCaptureFragment then handle_fragment env w s else Inr s)
      else Inr s)"

text \<open>The packets that the socket returns to the loops of \<open>poll_vrcp\<close>, reliable ones first.\<close>

fun handle_packets :: "server_env \<Rightarrow> bytes list \<Rightarrow> server_data \<Rightarrow> server_data result" where
  "handle_packets env [] s = Inr s"
| "handle_packets env (w # ws) s = and_then (handle_vrcp_packet env w s) (handle_packets env ws)"

definition poll_vrcp :: "server_env \<Rightarrow> bool \<Rightarrow> bytes list \<Rightarrow> bytes list \<Rightarrow> server_data \<Rightarrow> server_data result" where
  "poll_vrcp env connected messages datagrams s =
     (if \<not> connected then Inr s
      else and_then (handle_packets env messages s) (handle_packets env datagrams))"

end
