(* ===== verification/ServerLoop.thy ===== *)
theory ServerLoop
  imports ServerPackets
begin

text \<open>
  \<open>wvb_server/src/server.cpp\<close>, last part: construction, waiting for a client, the main loop and the end.
  The sockets are arguments here: the results of \<open>listen\<close> (VrcpHandshake), of the video socket and of
  \<open>is_connected_refresh\<close>, and the packets received (VrcpSocket).
\<close>

section \<open>Construction\<close>

definition validate_settings :: "AppSettings \<Rightarrow> unit result" where
  "validate_settings s =
     (if app_mode s = APP_NORMAL \<and> preferred_codec s = [] then Inl (RuntimeError ''Preferred codec cannot be empty'')
      else if app_mode s = APP_BENCHMARK
      then (if passes (benchmark_settings s) = [] then Inl (RuntimeError ''At least one benchmark pass is required'')
            else case find (\<lambda>p. codec_id p = [] \<or> num_repetitions p = 0) (passes (benchmark_settings s)) of
              None \<Rightarrow> Inr ()
            | Some p \<Rightarrow> if codec_id p = [] then Inl (RuntimeError ''Benchmark pass codec cannot be empty'')
                else Inl (RuntimeError ''Benchmark pass repetitions cannot be 0''))
      else Inr ())"

definition no_module :: "nat Module" where
  "no_module = builtin [] []"

definition new_server_bucket :: ServerMeasurementBucket where
  "new_server_bucket = \<lparr>m_rtp_clock = None, m_window = default_window, m_mode = WINDOW, m_socket_measurements = [],
     sb_pass_id = 0, sb_run_id = 0, sb_frame_measurements = [], sb_tracking_measurements = [],
     sb_image_quality_measurements = [], sb_dropped_frames = 0, sb_nb_saved_frames = 0\<rparr>"

text \<open>
  The path of the executable that is started with SteamVR. The constructor reads it from the parameter
  that it has already moved into the server's data; \<open>left\<close> is what the move leaves there.
\<close>

definition WVB_STEAMVR_EXE_PATH :: string where
  "WVB_STEAMVR_EXE_PATH = ''bin'' @ [CHR 0x5C] @ ''win64'' @ [CHR 0x5C] @ ''vrstartup.exe''"

definition driver_path :: "string \<Rightarrow> string" where
  "driver_path left =
     (let p = (if left = [] then WVB_DEFAULT_STEAMVR_PATH else left) in
      (if last p \<noteq> CHR 0x2F \<and> last p \<noteq> CHR 0x5C then p @ [CHR 0x5C] else p) @ WVB_STEAMVR_EXE_PATH)"

text \<open>
  The server starts on the shared memory and the semaphores that it finds; the events of its own side
  are cleared; \<open>shader_dir\<close> tells whether that path is given. \<open>params\<close> stands for the client parameters of the zeroed structure, \<open>c\<close> for a new clock.
\<close>

definition new_server ::
    "server_env \<Rightarrow> nat Module list \<Rightarrow> VRCPClientParams \<Rightarrow> RTPClock \<Rightarrow> ServerDriverSharedData \<Rightarrow> DriverEvents \<Rightarrow> ServerEvents
     \<Rightarrow> string \<Rightarrow> bool \<Rightarrow> AppSettings \<Rightarrow> server_data result" where
  "new_server env modules params c shared de se left shader_dir settings =
     and_then (if shader_dir then Inr () else Inl (RuntimeError ''Shader dir path cannot be null'')) (\<lambda>_.
     and_then (validate_settings settings) (\<lambda>_.
       let s0 = \<lparr>sv_modules = [], sv_chosen_module = no_module, sv_settings = settings, sv_current_pass = 0,
             sv_current_run = 0, sv_image_offset = 0, sv_total_received_bytes = 0, sv_client_params = params,
             sv_ntp_epoch = 0, sv_rtp_clock = c, sv_shared = shared, sv_driver_events = open_driver_events False de,
             sv_server_events = open_server_events True se, sv_driver_connection_state = AWAITING_DRIVER,
             sv_client_connection_state = AWAITING_CLIENT, sv_app_state = NOT_READY, sv_should_stop = False,
             sv_latest_tracking_timestamp = None, sv_measurement_bucket = new_server_bucket, sv_driver_bucket = None,
             sv_client_bucket = None, sv_capture_buffer = None, sv_calls = []\<rparr>
       in and_then (locked env (\<lambda>d. d\<lparr>sd_server_state := SRV_AWAITING_CONNECTION\<rparr>) s0) (\<lambda>s1.
         and_then (handle_driver_state_changed env (signal_state_changed s1)) (\<lambda>s2.
           Inr (call (Prepare_driver (driver_path left) WVB_DEFAULT_STEAMVR_PATH) (s2\<lparr>sv_modules := modules\<rparr>))))))"

text \<open>A string that was moved from is empty in the usual libraries: the path in the settings has no effect.\<close>

lemma steamvr_path_ignored:
  "new_server env modules params c shared de se [] True settings = Inr s \<Longrightarrow>
     Prepare_driver (WVB_DEFAULT_STEAMVR_PATH @ [CHR 0x5C] @ WVB_STEAMVR_EXE_PATH) WVB_DEFAULT_STEAMVR_PATH \<in> set (sv_calls s)"
  by (auto simp: new_server_def call_def driver_path_def and_then_Inr Let_def WVB_DEFAULT_STEAMVR_PATH_def)

section \<open>Waiting for a client\<close>

text \<open>The loop that skips passes to the last one; None when it does not end.\<close>

partial_function (option) skip_passes :: "server_data \<Rightarrow> server_data option" where
  "skip_passes s =
     (if unat (sv_current_pass s) + 1 = length (passes (benchmark_settings (sv_settings s))) then Some s
      else skip_passes (s\<lparr>sv_current_pass := sv_current_pass s + 1, sv_current_run := 0\<rparr>))"

text \<open>
  The codecs that are offered to the clients, or none when the server has to give up. In benchmark mode
  the code looks for the preferred codec, not for the one of the pass, and offers the first module's.
\<close>

definition offered_codecs :: "server_data \<Rightarrow> (string list option \<times> server_data) result option" where
  "offered_codecs s =
     (let pref = preferred_codec (sv_settings s); ids = map mod_codec_id (sv_modules s);
          others = filter (\<lambda>c. c \<noteq> pref) ids
      in if app_mode (sv_settings s) = APP_NORMAL
         then (let codecs = (if pref \<in> set ids then [pref] else []) @ others in
               Some (Inr (if codecs = [] then None else Some codecs, s)))
         else if app_mode (sv_settings s) = APP_BENCHMARK
         then (if pref \<in> set ids then Some (Inr (Some [hd ids], s))
               else map_option (\<lambda>s'. Inr (None, s')) (skip_passes s))
         else Some (Inl (RuntimeError ''Unknown app mode'')))"

fun listen_loop ::
    "(VRCPClientParams \<times> VRCPConnectResp) option list \<Rightarrow> server_data
     \<Rightarrow> (VRCPClientParams \<times> VRCPConnectResp \<times> server_data) option" where
  "listen_loop [] s = None"
| "listen_loop (None # rs) s = listen_loop rs (call (Sleep_ms 10) s)"
| "listen_loop (Some (params, resp) # rs) s = Some (params, resp, s)"

fun video_loop :: "bool list \<Rightarrow> server_data \<Rightarrow> server_data option" where
  "video_loop [] s = None"
| "video_loop (True # rs) s = Some s"
| "video_loop (False # rs) s = video_loop rs (call (Sleep_ms 10) s)"

text \<open>
  The results of the \<open>listen\<close> calls depend on the codecs that they offer. None: still waiting. The
  flag \<open>should_stop\<close> is only set by the main loop, so it does not change while the server waits.
\<close>

definition connect_to_client ::
    "server_env \<Rightarrow> (string list \<Rightarrow> (VRCPClientParams \<times> VRCPConnectResp) option list) \<Rightarrow> bool list \<Rightarrow> bool
     \<Rightarrow> server_data \<Rightarrow> (bool \<times> server_data) result option" where
  "connect_to_client env listens video_listens refreshed s0 =
     (case offered_codecs s0 of None \<Rightarrow> None
      | Some (Inl f) \<Rightarrow> Some (Inl f)
      | Some (Inr (None, s)) \<Rightarrow> Some (Inr (False, s))
      | Some (Inr (Some codecs, s)) \<Rightarrow>
        if sv_should_stop s then Some (Inr (False, s))
        else (case listen_loop (listens codecs) s of None \<Rightarrow> None
          | Some (params, resp, s1) \<Rightarrow>
            let ntp = resp_ntp_timestamp resp in
            case set_epoch (se_clock env) ntp (sv_rtp_clock s1) of
              (Inl f, c) \<Rightarrow> Some (Inl f)
            | (Inr _, c) \<Rightarrow>
              (case and_then (new_RTPClock_ntp (se_clock env) ntp) (\<lambda>_.
                 setup_codec (resp_chosen_video_codec resp)
                   (s1\<lparr>sv_client_params := params, sv_ntp_epoch := ntp, sv_rtp_clock := c,
                      sv_measurement_bucket := set_clock (Some 0) (sv_measurement_bucket s1)\<rparr>)) of
                 Inl f \<Rightarrow> Some (Inl f)
               | Inr s2 \<Rightarrow>
                 (case video_loop video_listens s2 of None \<Rightarrow> None
                  | Some s3 \<Rightarrow>
                      Some (Inr (if \<not> refreshed then (False, s3)
                        else (True, s3\<lparr>sv_client_connection_state := SYNCING_CLOCKS\<rparr>)))))))"

section \<open>The main loop\<close>

text \<open>
  What happens around one iteration: the shared memory and the events as the driver left them, the
  state of the connection, and the packets received.
\<close>

record loop_input =
  li_env :: server_env
  li_shared :: ServerDriverSharedData
  li_driver_events :: DriverEvents
  li_refreshed :: bool
  li_connected :: bool
  li_messages :: "bytes list"
  li_datagrams :: "bytes list"

definition handle_driver_event :: "server_env \<Rightarrow> DriverEvent \<Rightarrow> server_data \<Rightarrow> server_data result" where
  "handle_driver_event env e s =
     (if e = DRIVER_STATE_CHANGED then handle_driver_state_changed env s
      else if e = NEW_MEASUREMENTS then handle_new_driver_measurements env s
      else Inr s)"

text \<open>The handlers leave the driver's semaphores alone, so the events polled one by one between them are
  those pending at the start.\<close>

fun handle_driver_events :: "server_env \<Rightarrow> DriverEvent list \<Rightarrow> server_data \<Rightarrow> server_data result" where
  "handle_driver_events env [] s = Inr s"
| "handle_driver_events env (e # es) s = and_then (handle_driver_event env e s) (handle_driver_events env es)"

definition end_of_iteration :: "server_env \<Rightarrow> server_data \<Rightarrow> server_data" where
  "end_of_iteration env s =
     (let s1 = (if sv_app_state s = NOT_READY \<and> sv_client_connection_state s \<noteq> SYNCING_CLOCKS
           then call (Sleep_ms 100) s else s)
      in if app_mode (sv_settings s1) = APP_BENCHMARK \<and> sv_app_state s1 = RUNNING
           \<and> measurements_complete (se_now env) (sv_measurement_bucket s1)
           \<and> server_has_saved_frames (sv_measurement_bucket s1)
         then call Send_stop_signal s1 else s1)"

definition loop_iteration :: "loop_input \<Rightarrow> server_data \<Rightarrow> server_data result" where
  "loop_iteration i s0 =
     (let env = li_env i;
          s1 = s0\<lparr>sv_shared := li_shared i\<rparr>
      in case poll_events driver_poll (length (driver_pending (li_driver_events i))) (li_driver_events i) of
        (es, de) \<Rightarrow>
          and_then (handle_driver_events env es (s1\<lparr>sv_driver_events := de\<rparr>)) (\<lambda>s2.
            let s3 = (if \<not> li_refreshed i then s2\<lparr>sv_should_stop := True\<rparr> else s2) in
            and_then (poll_vrcp env (li_connected i) (li_messages i) (li_datagrams i) s3) (\<lambda>s4.
              Inr (end_of_iteration env s4))))"

fun main_loop :: "loop_input list \<Rightarrow> server_data \<Rightarrow> (bool \<times> server_data) result" where
  "main_loop [] s = Inr (sv_should_stop s, s)"
| "main_loop (i # is') s =
     (if sv_should_stop s then Inr (True, s) else and_then (loop_iteration i s) (main_loop is'))"

text \<open>Whether \<open>run\<close> has returned, and the state; None while the server waits for a client.\<close>

definition run ::
    "server_env \<Rightarrow> (string list \<Rightarrow> (VRCPClientParams \<times> VRCPConnectResp) option list) \<Rightarrow> bool list \<Rightarrow> bool
     \<Rightarrow> loop_input list \<Rightarrow> server_data \<Rightarrow> (bool \<times> server_data) result option" where
  "run env listens video_listens refreshed inputs s0 =
     (case connect_to_client env listens video_listens refreshed s0 of None \<Rightarrow> None
      | Some (Inl f) \<Rightarrow> Some (Inl f)
      | Some (Inr (False, s)) \<Rightarrow> Some (Inr (True, s))
      | Some (Inr (True, s)) \<Rightarrow>
          Some (and_then (main_loop inputs s) (\<lambda>(stopped, t).
            Inr (stopped, if stopped then call Vrcp_close (call Send_kill_signal t) else t))))"

text \<open>The destructor tells the driver and stops the pipeline.\<close>

definition destroy_server :: "server_env \<Rightarrow> server_data \<Rightarrow> server_data result" where
  "destroy_server env s =
     and_then (locked env (\<lambda>d. d\<lparr>sd_server_state := SRV_NOT_RUNNING\<rparr>) (call Send_kill_signal s))
       (\<lambda>s1. Inr (signal_state_changed s1))"

end
