(* ===== verification/ClientCore.thy ===== *)
theory ClientCore
  imports ServerPackets
begin

text \<open>
  \<open>wvb_client/src/client.cpp\<close>: the client on the headset. Its operations take what the VR system, the
  sockets and the clocks return; the calls into them are appended to \<open>cl_calls\<close>. The threads are not
  interleaved: each definition is one pass of a thread.
\<close>

section \<open>The state\<close>

datatype ClientState = UNINITIALIZED | CL_CONNECTING | SYNCING | CL_RUNNING | SHUTDOWN | SOFT_SHUTDOWN

datatype client_call =
    C_reliable_send bytes u32
  | C_unreliable_send bytes
  | C_create_decoder nat "u32 \<times> u32" RefreshRate
  | C_set_depacketizer
  | C_flush_video
  | C_update_video
  | C_start_syncing_thread
  | C_push_frame bytes u32 u32 u32 u32 bool
  | C_release_frame
  | C_start_render_thread
  | C_handle_events
  | C_render
  | C_soft_shutdown
  | C_shutdown
  | C_sleep_ms nat

record client_data =
  cl_measurement_bucket :: ClientMeasurementBucket
  cl_rtp_clock :: RTPClock
  cl_modules :: "nat Module list"
  cl_chosen_module :: "nat Module"
  cl_connect_resp :: VRCPConnectResp
  cl_server_addr :: "SocketAddr option"
  cl_state :: ClientState
  cl_calls :: "client_call list"

definition client_call :: "client_call \<Rightarrow> client_data \<Rightarrow> client_data" where
  "client_call c s = s\<lparr>cl_calls := cl_calls s @ [c]\<rparr>"

definition should_exit :: "client_data \<Rightarrow> bool" where
  "should_exit s \<longleftrightarrow> cl_state s = SHUTDOWN"

definition should_soft_exit :: "client_data \<Rightarrow> bool" where
  "should_soft_exit s \<longleftrightarrow> cl_state s = SOFT_SHUTDOWN \<or> should_exit s"

section \<open>Connecting\<close>

definition client_setup_codec :: "VRSystemSpecs \<Rightarrow> string \<Rightarrow> client_data \<Rightarrow> client_data result" where
  "client_setup_codec specs codec s =
     (case find (\<lambda>m. mod_codec_id m = codec) (cl_modules s) of
        None \<Rightarrow> Inl (RuntimeError (''No module found for codec '' @ [CHR 0x22] @ codec @ [CHR 0x22]))
      | Some m \<Rightarrow>
          (case mod_create_video_decoder m of
             None \<Rightarrow> Inl (RuntimeError (''No video decoder found for codec '' @ [CHR 0x22]
               @ resp_chosen_video_codec (cl_connect_resp s) @ [CHR 0x22]))
           | Some create \<Rightarrow>
               Inr (client_call C_set_depacketizer (client_call (C_create_decoder create
                 (ext_width (eye_resolution specs) * 2, ext_height (eye_resolution specs)) (refresh_rate specs))
                 (s\<lparr>cl_chosen_module := m\<rparr>)))))"

definition select_server :: "VRCPServerCandidate list result \<Rightarrow> client_data \<Rightarrow> client_data result" where
  "select_server available s =
     (case cl_server_addr s of Some a \<Rightarrow> Inr s
      | None \<Rightarrow> and_then available (\<lambda>cs. Inr (case cs of [] \<Rightarrow> s | c # _ \<Rightarrow> s\<lparr>cl_server_addr := Some (cand_addr c)\<rparr>)))"

definition float_is_zero :: "f32 \<Rightarrow> bool" where
  "float_is_zero x \<longleftrightarrow> x = 0 \<or> x = 0x80000000"

definition specs_known :: "VRSystemSpecs \<Rightarrow> bool" where
  "specs_known specs \<longleftrightarrow> \<not> float_is_zero (ipd specs) \<and> rr_numerator (refresh_rate specs) \<noteq> 0
     \<and> system_name specs \<noteq> [] \<and> manufacturer_name specs \<noteq> []"

definition client_params :: "u16 \<Rightarrow> VRSystemSpecs \<Rightarrow> u64 \<Rightarrow> client_data \<Rightarrow> VRCPClientParams" where
  "client_params video_port specs ntp s =
     \<lparr>cp_video_port = video_port, cp_specs = specs, cp_supported_video_codecs = map mod_codec_id (cl_modules s),
      cp_ntp_timestamp = ntp\<rparr>"

text \<open>
  \<open>vrcp\<close> and \<open>video\<close> are the results of connecting the two sockets, to an address with given parameters;
  the flags tell whether they are connected already.
\<close>

definition client_connect_all ::
    "VRSystemSpecs \<Rightarrow> u16 \<Rightarrow> u64 \<Rightarrow> bool \<Rightarrow> (SocketAddr \<Rightarrow> VRCPClientParams \<Rightarrow> (bool \<times> VRCPConnectResp) result)
     \<Rightarrow> bool \<Rightarrow> (SocketAddr \<Rightarrow> bool result) \<Rightarrow> client_data \<Rightarrow> (bool \<times> client_data) result" where
  "client_connect_all specs video_port ntp vrcp_connected vrcp video_connected video s0 =
     (case cl_server_addr s0 of None \<Rightarrow> Inr (False, s0)
      | Some a \<Rightarrow>
        if \<not> specs_known specs then Inr (False, s0)
        else and_then
          (if vrcp_connected then Inr (True, s0)
           else and_then (vrcp a (client_params video_port specs ntp s0)) (\<lambda>(ok, resp).
             let s1 = s0\<lparr>cl_connect_resp := resp\<rparr> in
             if ok then and_then (client_setup_codec specs (resp_chosen_video_codec resp) s1) (\<lambda>s2. Inr (True, s2))
             else Inr (False, s1)))
          (\<lambda>(ok, s).
             if \<not> ok then Inr (False, s)
             else and_then
               (if video_connected then Inr True
                else video \<lparr>addr = addr a, port = resp_peer_video_port (cl_connect_resp s)\<rparr>)
               (\<lambda>ok2. Inr (if ok2 then (True, client_call C_start_syncing_thread (s\<lparr>cl_state := SYNCING\<rparr>)) else (False, s)))))"

section \<open>Packets of the server\<close>

text \<open>
  The loop over the fields of a \<open>NEXT_PASS\<close>; the last codec wins. An unknown field's length is not
  checked, so the remaining size may wrap around and the loop read on behind the packet.
\<close>

function next_pass_codec :: "bytes \<Rightarrow> u64 \<Rightarrow> string \<Rightarrow> string option result" where
  "next_pass_codec data remaining codec =
     (if remaining < 2 then Inr (Some codec)
      else if length data < 2 then Inl (UndefinedBehaviour ''read past the reception buffer'')
      else
        let len = unat (load8 (drop 1 data)); value = drop 2 data in
        if to_ft (load8 data) = CHOSEN_VIDEO_CODEC_TLV
        then (if len = 0 \<or> of_nat (len + 2) > remaining then Inr None
              else if length value < len then Inl (UndefinedBehaviour ''read past the reception buffer'')
              else next_pass_codec (drop (len + 2) data) (remaining - of_nat (len + 2)) (chars_of (take len value)))
        else next_pass_codec (drop (len + 2) data) (remaining - of_nat (len + 2)) codec)"
  by pat_completeness auto

termination next_pass_codec
  by (relation "measure (\<lambda>(data, remaining, codec). length data)") (auto simp: not_less)

declare next_pass_codec.simps [simp del]

text \<open>The packet is given with the memory behind it, up to the end of the reception buffer.\<close>

definition client_handle_vrcp_packet :: "VRSystemSpecs \<Rightarrow> bytes \<Rightarrow> nat \<Rightarrow> client_data \<Rightarrow> client_data result" where
  "client_handle_vrcp_packet specs mem psize s =
     (if to_ft (load8 mem) = BENCHMARK_INFO \<and> psize = 20
      then Inr (if has_window (cl_measurement_bucket s) then s
        else s\<lparr>cl_measurement_bucket := set_window (to_measurement_window (VRCPBenchmarkInfo_of mem) (cl_rtp_clock s))
               (cl_measurement_bucket s)\<rparr>)
      else if to_ft (load8 mem) = NEXT_PASS
      then (if psize \<ge> 6
            then and_then (next_pass_codec (drop 4 mem) (of_nat (psize - 4)) []) (\<lambda>r.
              case r of None \<Rightarrow> Inr s
              | Some codec \<Rightarrow>
                  if codec = [] then Inr s
                  else and_then (client_setup_codec specs codec (client_call C_flush_video s))
                    (\<lambda>s1. Inr (s1\<lparr>cl_state := CL_RUNNING\<rparr>)))
            else Inr s)
      else Inr s)"

fun client_handle_packets :: "VRSystemSpecs \<Rightarrow> (bytes \<times> nat) list \<Rightarrow> client_data \<Rightarrow> client_data result" where
  "client_handle_packets specs [] s = Inr s"
| "client_handle_packets specs ((mem, psize) # ps) s =
     and_then (client_handle_vrcp_packet specs mem psize s) (client_handle_packets specs ps)"

definition client_poll_vrcp_socket ::
    "VRSystemSpecs \<Rightarrow> bool \<Rightarrow> (bytes \<times> nat) list \<Rightarrow> (bytes \<times> nat) list \<Rightarrow> client_data \<Rightarrow> client_data result" where
  "client_poll_vrcp_socket specs refreshed messages datagrams s =
     (if \<not> refreshed then Inr (s\<lparr>cl_state := SHUTDOWN\<rparr>)
      else and_then (client_handle_packets specs messages s) (client_handle_packets specs datagrams))"

end
