(* ===== verification/ClientThreads.thy ===== *)
theory ClientThreads
  imports ClientCore
begin

text \<open>
  \<open>wvb_client/src/client.cpp\<close>: what the client sends and the three threads that drive it (rendering,
  clock synchronisation, and the caller of \<open>update\<close>). Each definition is one pass of a thread over
  the readings it makes; where a thread tests the client's state, which the others write, the value
  found is an input. Loops over inputs return None while they would still be waiting.
\<close>

section \<open>Tracking data and captured frames\<close>

definition send_tracking_update :: "TrackingState option \<Rightarrow> client_data \<Rightarrow> client_data" where
  "send_tracking_update tracking s =
     (if cl_state s \<noteq> CL_RUNNING then s
      else case tracking of None \<Rightarrow> s
        | Some t \<Rightarrow> client_call (C_unreliable_send (VRCPTrackingData_bytes (mk_VRCPTrackingData t))) s)"

definition FRAGMENT_SIZE :: nat where "FRAGMENT_SIZE = 400"

text \<open>One packet buffer serves all fragments, so the header of a fragment keeps what it does not set.\<close>

function fragments :: "bytes \<Rightarrow> nat \<Rightarrow> VRCPFrameCaptureFragment \<Rightarrow> bytes list" where
  "fragments buf offset p =
     (if offset < length buf
      then
        let data_size = min (length buf - offset) FRAGMENT_SIZE;
            packet_data_size = padded data_size;
            p' = p\<lparr>fc_size := htonl (of_nat data_size), fc_offset := htonl (of_nat offset),
                   fc_n_rows := of_nat ((packet_data_size + sizeof_VRCPFrameCaptureFragment) div 4),
                   fc_last := (if offset + data_size \<ge> length buf then 1 else fc_last p)\<rparr>
        in (VRCPFrameCaptureFragment_bytes p' @ take data_size (drop offset buf)
              @ replicate (packet_data_size - data_size) 0) # fragments buf (offset + FRAGMENT_SIZE) p'
      else [])"
  by pat_completeness auto

termination fragments
  by (relation "measure (\<lambda>(buf, offset, p). length buf - offset)") (auto simp: FRAGMENT_SIZE_def)

declare fragments.simps [simp del]

text \<open>\<open>saved\<close>: whether a frame should be sent, and the buffer, which may be null.\<close>

definition save_and_send_frame_if_needed :: "bool \<times> bytes option \<Rightarrow> client_data \<Rightarrow> client_data" where
  "save_and_send_frame_if_needed saved s =
     (case saved of
        (True, Some buf) \<Rightarrow>
          if length buf > 0
          then (fold (\<lambda>w. client_call (C_reliable_send w 0))
                 (fragments buf 0 (default_VRCPFrameCaptureFragment
                    \<lparr>fc_last := 0, fc_full_size := htonl (of_nat (length buf))\<rparr>)) s)
               \<lparr>cl_measurement_bucket := client_add_saved_frame (cl_measurement_bucket s)\<rparr>
          else s
      | _ \<Rightarrow> s)"

section \<open>Measurements\<close>

definition soft_shutdown :: "client_data \<Rightarrow> client_data" where
  "soft_shutdown s = (if cl_state s = CL_RUNNING then s\<lparr>cl_state := SOFT_SHUTDOWN\<rparr> else s)"

definition SEND_TIMEOUT_US :: u32 where "SEND_TIMEOUT_US = 100000"

definition send_array :: "bytes list \<Rightarrow> client_data \<Rightarrow> client_data" where
  "send_array packets s = client_call (C_reliable_send (concat packets) SEND_TIMEOUT_US) s"

definition transfer_finished :: "ClientMeasurementBucket \<Rightarrow> VRCPMeasurementTransferFinished" where
  "transfer_finished b = default_VRCPMeasurementTransferFinished
     \<lparr>tf_decoder_frame_delay := ucast (get_decoder_frame_delay b),
      tf_nb_dropped_frames := htonl (cb_nb_dropped_frames b),
      tf_nb_catched_up_frames := htonl (cb_nb_catched_up_frames b)\<rparr>"

definition send_measurements :: "clock_now \<Rightarrow> client_data \<Rightarrow> client_data" where
  "send_measurements clk s0 =
     (if \<not> measurements_complete clk (cl_measurement_bucket s0) then s0
      else
        let s = soft_shutdown s0; b = cl_measurement_bucket s;
            s1 = send_array (map (VRCPSocketMeasurement_bytes \<circ> mk_VRCPSocketMeasurement) (m_socket_measurements b)) s;
            s2 = send_array (map (VRCPNetworkMeasurement_bytes \<circ> mk_VRCPNetworkMeasurement) (cb_network_measurements b)) s1;
            s3 = send_array (map (VRCPFrameTimeMeasurement_bytes \<circ> mk_VRCPFrameTimeMeasurement) (cb_frame_measurements b)) s2;
            s4 = send_array (map (VRCPImageQualityMeasurement_bytes \<circ> mk_VRCPImageQualityMeasurement)
                   (cb_image_quality_measurements b)) s3;
            s5 = send_array (map (VRCPTrackingTimeMeasurement_bytes \<circ> mk_VRCPTrackingTimeMeasurement)
                   (cb_tracking_measurements b)) s4;
            s6 = send_array [VRCPMeasurementTransferFinished_bytes (transfer_finished b)] s5
        in s6\<lparr>cl_measurement_bucket := client_reset b\<rparr>)"

section \<open>Clock synchronisation\<close>

definition PING_COUNT :: u16 where "PING_COUNT = 20"
definition PING_TIMEOUT_ns :: int where "PING_TIMEOUT_ns = 500 * 1000000"
definition PING_INTERVAL_MS :: nat where "PING_INTERVAL_MS = 200"

definition ticks_of_us :: "int \<Rightarrow> int" where
  "ticks_of_us u = (u * 9) sdiv 100"

text \<open>A packet, when it is handled, and the readings of the RTP clock then.\<close>

record reply_event =
  re_packet :: bytes
  re_time :: int
  re_clock :: clock_env

text \<open>Whether a reply was received in this ping, and how many were received in all.\<close>

definition handle_ping_reply ::
    "u16 \<Rightarrow> int \<Rightarrow> reply_event \<Rightarrow> bool \<times> u16 \<times> client_data \<Rightarrow> bool \<times> u16 \<times> client_data" where
  "handle_ping_reply ping_id send_time e = (\<lambda>(received, n, s).
     let w = re_packet e; reply = VRCPPingReply_of w; c = cl_rtp_clock s in
     if to_ft (load8 w) = PING_REPLY \<and> length w = 8 \<and> ntohs (pr_ping_id reply) = ping_id
     then
       let round_trip_us = (re_time e - send_time) sdiv 1000;
           expected = word_of_int (uint (ntohl (pr_reply_timestamp reply)) + ticks_of_us (round_trip_us sdiv 2));
           error = rtp_timestamps_distance_us (word_of_int (now (re_clock e) c)) expected c
       in (True, n + 1, s\<lparr>cl_rtp_clock := move_epoch (- error) c,
            cl_measurement_bucket := client_add_network_measurement
              \<lparr>nm_rtt_us = word_of_int round_trip_us, nm_clock_error_us = word_of_int error\<rparr> (cl_measurement_bucket s)\<rparr>)
     else (received, n, s))"

text \<open>One round of the waiting loop: whether a shutdown is seen, the packets, and the time after them.\<close>

record sync_round =
  sr_exit :: bool
  sr_packets :: "reply_event list"
  sr_time :: int

fun await_reply :: "u16 \<Rightarrow> int \<Rightarrow> sync_round list \<Rightarrow> u16 \<times> client_data \<Rightarrow> (u16 \<times> client_data) option" where
  "await_reply ping_id send_time [] acc = None"
| "await_reply ping_id send_time (r # rs) (n, s) =
     (if sr_exit r then Some (n, s\<lparr>cl_state := SHUTDOWN\<rparr>)
      else case fold (handle_ping_reply ping_id send_time) (sr_packets r) (False, n, s) of
        (received, n', s') \<Rightarrow>
          if received \<or> sr_time r - send_time > PING_TIMEOUT_ns then Some (n', s')
          else await_reply ping_id send_time rs (n', s'))"

fun sync_loop :: "(int \<times> sync_round list) list \<Rightarrow> u16 \<Rightarrow> u16 \<Rightarrow> client_data \<Rightarrow> client_data option" where
  "sync_loop [] ping_id n s = (if should_exit s then Some s else None)"
| "sync_loop ((send_time, rounds) # ps) ping_id n s =
     (if should_exit s then Some s
      else
        let ping_id' = ping_id + 1;
            s1 = client_call (C_unreliable_send (VRCPPing_bytes (default_VRCPPing\<lparr>pi_ping_id := htons ping_id'\<rparr>))) s
        in case await_reply ping_id' send_time rounds (n, s1) of None \<Rightarrow> None
          | Some (n', s2) \<Rightarrow>
              if n' \<ge> PING_COUNT \<or> ping_id' \<ge> PING_COUNT * 2 then Some s2
              else sync_loop ps ping_id' n' (client_call (C_sleep_ms PING_INTERVAL_MS) s2))"

text \<open>The statistics are only logged, but computing them may fault.\<close>

definition syncing_thread_main :: "(int \<times> sync_round list) list \<Rightarrow> client_data \<Rightarrow> client_data result option" where
  "syncing_thread_main pings s0 =
     (case sync_loop pings 0 0 s0 of None \<Rightarrow> None
      | Some s \<Rightarrow>
          let s1 = client_call (C_reliable_send (VRCPSyncFinished_bytes default_VRCPSyncFinished) SEND_TIMEOUT_US) s
          in Some (and_then (get_clock_error_stats (cl_measurement_bucket s1))
               (\<lambda>_. Inr (s1\<lparr>cl_state := CL_RUNNING\<rparr>))))"

end
