(* ===== verification/ClientMain.thy ===== *)
theory ClientMain
  imports ClientThreads
begin

text \<open>
  \<open>wvb_client/src/client.cpp\<close>, last part: the render thread and the interface that the application
  calls (\<open>init\<close>, \<open>update\<close>, \<open>connect\<close>, \<open>shutdown\<close>).
\<close>

section \<open>The render thread\<close>

text \<open>A packet of the video socket; the time of its last part is a steady time point.\<close>

record frame_packet =
  fp_data :: bytes
  fp_frame_index :: u32
  fp_end_of_stream :: bool
  fp_timestamp :: u32
  fp_pose_timestamp :: u32
  fp_last_packet_received :: int
  fp_save_frame :: bool

definition no_packet :: frame_packet where
  "no_packet = \<lparr>fp_data = [], fp_frame_index = 0, fp_end_of_stream = False, fp_timestamp = 0,
     fp_pose_timestamp = 0, fp_last_packet_received = 0, fp_save_frame = False\<rparr>"

text \<open>The local variables that survive an iteration.\<close>

record render_state =
  rn_previous :: frame_packet
  rn_end_of_stream :: bool
  rn_push_cooldown :: u32

definition new_render_state :: render_state where
  "new_render_state = \<lparr>rn_previous = no_packet, rn_end_of_stream = False, rn_push_cooldown = 0\<rparr>"

definition push_frame :: "frame_packet \<Rightarrow> client_data \<Rightarrow> client_data" where
  "push_frame p s = client_call (C_push_frame (fp_data p) (fp_frame_index p) (fp_timestamp p) (fp_pose_timestamp p)
     (to_rtp_timestamp (cl_rtp_clock s) (from_steady_timepoint (cl_rtp_clock s) (fp_last_packet_received p)))
     (fp_save_frame p)) s"

text \<open>
  Polling: after the end of the stream its last packet is pushed again (\<open>pushed\<close> tells whether the
  decoder took it); before it, every packet that is available is pushed.
\<close>

fun poll_frames ::
    "clock_now \<Rightarrow> bool \<Rightarrow> bool \<Rightarrow> frame_packet list \<Rightarrow> render_state \<Rightarrow> client_data \<Rightarrow> render_state \<times> client_data" where
  "poll_frames clk has_decoder pushed ps r s =
     (if \<not> has_decoder \<or> rn_push_cooldown r \<noteq> 0 then (r, s)
      else if rn_end_of_stream r
      then (if pushed then r else r\<lparr>rn_push_cooldown := 10\<rparr>, push_frame (rn_previous r) s)
      else case ps of [] \<Rightarrow> (r, s)
        | p # ps' \<Rightarrow>
            let prev = fp_frame_index (rn_previous r);
                s1 = (if fp_frame_index p > prev
                  then s\<lparr>cl_measurement_bucket := add_dropped_frames clk (fp_frame_index p - prev - 1) (cl_measurement_bucket s)\<rparr>
                  else s);
                r1 = r\<lparr>rn_previous := p, rn_end_of_stream := fp_end_of_stream p\<rparr>;
                s2 = push_frame p s1
            in if fp_end_of_stream p then (r1, s2)
               else poll_frames clk has_decoder pushed ps' r1 (client_call C_release_frame s2))"

declare poll_frames.simps [simp del]

text \<open>What one iteration of the render loop meets.\<close>

record render_input =
  ri_state :: ClientState
  ri_decoder :: bool
  ri_running :: bool
  ri_pushed :: bool
  ri_packets :: "frame_packet list"
  ri_saved :: "bool \<times> bytes option"
  ri_tracking :: "TrackingState option"
  ri_frame_time :: ClientFrameTimeMeasurements
  ri_frame_delay :: u32
  ri_clk :: clock_now

definition render_iteration :: "render_input \<Rightarrow> render_state \<Rightarrow> client_data \<Rightarrow> render_state \<times> client_data" where
  "render_iteration i r s0 =
     (let s = client_call C_handle_events s0 in
      if \<not> ri_running i then (r, client_call (C_sleep_ms 5) s)
      else case poll_frames (ri_clk i) (ri_decoder i) (ri_pushed i) (ri_packets i) r s of
        (r1, s1) \<Rightarrow>
          let r2 = (if rn_push_cooldown r1 > 0 then r1\<lparr>rn_push_cooldown := rn_push_cooldown r1 - 1\<rparr> else r1);
              s2 = client_call C_render s1;
              s3 = save_and_send_frame_if_needed (ri_saved i) s2;
              s4 = send_tracking_update (ri_tracking i) s3
          in (r2, s4\<lparr>cl_measurement_bucket := client_add_frame_time_measurement (ri_clk i)
               ((ri_frame_time i)\<lparr>cf_frame_delay := ri_frame_delay i\<rparr>) (cl_measurement_bucket s4)\<rparr>))"

text \<open>One pass from the start of rendering to a soft or full exit, with the state found at every test.\<close>

fun render_loop :: "render_input list \<Rightarrow> render_state \<Rightarrow> client_data \<Rightarrow> (render_state \<times> client_data) option" where
  "render_loop [] r s = (if should_soft_exit s then Some (r, s) else None)"
| "render_loop (i # is') r s =
     (let s' = s\<lparr>cl_state := ri_state i\<rparr> in
      if should_soft_exit s' then Some (r, s')
      else case render_iteration i r s' of (r1, s1) \<Rightarrow> render_loop is' r1 s1)"

definition render_pass :: "render_input list \<Rightarrow> client_data \<Rightarrow> client_data option" where
  "render_pass inputs s0 =
     (case render_loop inputs new_render_state s0 of None \<Rightarrow> None
      | Some (r, s) \<Rightarrow>
          let s1 = (if rn_end_of_stream r then client_call C_release_frame s else s)
          in Some (if cl_state s1 = SOFT_SHUTDOWN then client_call C_soft_shutdown s1 else s1))"

section \<open>The interface\<close>

definition new_client :: "clock_env \<Rightarrow> nat Module \<Rightarrow> VRCPConnectResp \<Rightarrow> ClientMeasurementBucket \<Rightarrow> client_data" where
  "new_client env no_module resp bucket =
     \<lparr>cl_measurement_bucket = set_clock (Some 0) bucket, cl_rtp_clock = new_RTPClock env, cl_modules = [],
      cl_chosen_module = no_module, cl_connect_resp = resp, cl_server_addr = None, cl_state = UNINITIALIZED, cl_calls = []\<rparr>"

definition client_init :: "nat Module list \<Rightarrow> client_data \<Rightarrow> bool \<times> client_data" where
  "client_init modules s =
     (if cl_state s \<noteq> UNINITIALIZED then (True, s)
      else (True, client_call C_start_render_thread (s\<lparr>cl_modules := modules\<rparr>)))"

text \<open>The first thing the render thread does to the state.\<close>

definition render_thread_started :: "client_data \<Rightarrow> client_data" where
  "render_thread_started s = s\<lparr>cl_state := CL_CONNECTING\<rparr>"

definition client_connect_to :: "SocketAddr \<Rightarrow> client_data \<Rightarrow> client_data" where
  "client_connect_to a s = s\<lparr>cl_server_addr := Some a\<rparr>"

definition client_is_connected :: "bool \<Rightarrow> bool \<Rightarrow> client_data \<Rightarrow> bool" where
  "client_is_connected vrcp_refreshed video_connected s \<longleftrightarrow>
     (cl_state s = CL_RUNNING \<or> cl_state s = SYNCING \<or> cl_state s = SOFT_SHUTDOWN) \<and> vrcp_refreshed \<and> video_connected"

text \<open>
  What one call of \<open>update\<close> meets: the connections when it starts, the servers heard, the results of
  connecting, the connection when the VRCP socket is polled, and the packets.
\<close>

record update_input =
  ui_vrcp_refreshed :: bool
  ui_video_connected :: bool
  ui_servers :: "VRCPServerCandidate list result"
  ui_specs :: VRSystemSpecs
  ui_video_port :: u16
  ui_ntp :: u64
  ui_vrcp_connected :: bool
  ui_vrcp_connect :: "SocketAddr \<Rightarrow> VRCPClientParams \<Rightarrow> (bool \<times> VRCPConnectResp) result"
  ui_video_connect :: "SocketAddr \<Rightarrow> bool result"
  ui_still_connected :: bool
  ui_messages :: "(bytes \<times> nat) list"
  ui_datagrams :: "(bytes \<times> nat) list"
  ui_clk :: clock_now

definition update_connected :: "update_input \<Rightarrow> client_data \<Rightarrow> client_data result" where
  "update_connected u s =
     and_then (client_poll_vrcp_socket (ui_specs u) (ui_still_connected u) (ui_messages u) (ui_datagrams u) s) (\<lambda>s1.
       if cl_state s1 = CL_RUNNING
       then let s2 = client_call C_update_video s1 in
         Inr (if measurements_complete (ui_clk u) (cl_measurement_bucket s2) \<and> client_has_saved_frames (cl_measurement_bucket s2)
              then send_measurements (ui_clk u) s2 else s2)
       else Inr s1)"

text \<open>The flag of the second argument of the pair: the client failed and shuts down.\<close>

definition app_update :: "update_input \<Rightarrow> client_data \<Rightarrow> (bool \<times> client_data) result" where
  "app_update u s0 =
     (if cl_state s0 = UNINITIALIZED then Inr (True, s0)
      else
        let connected = client_is_connected (ui_vrcp_refreshed u) (ui_video_connected u) s0 in
        if \<not> connected \<and> cl_state s0 = CL_CONNECTING
        then and_then (select_server (ui_servers u) s0) (\<lambda>s.
          if cl_state s \<noteq> CL_RUNNING
          then and_then (client_connect_all (ui_specs u) (ui_video_port u) (ui_ntp u) (ui_vrcp_connected u)
                 (ui_vrcp_connect u) (ui_video_connected u) (ui_video_connect u) s) (\<lambda>(ok, s1).
               and_then (if ok then update_connected u s1 else Inr s1) (\<lambda>s2. Inr (\<not> should_exit s2, s2)))
          else Inr (False, s\<lparr>cl_state := SHUTDOWN\<rparr>))
        else and_then (if connected then update_connected u s0 else Inr s0) (\<lambda>s. Inr (\<not> should_exit s, s)))"

text \<open>
  The joins wait for the threads to end. The state they leave: only the synchronisation thread may
  still write it.
\<close>

definition client_shutdown :: "(client_data \<Rightarrow> client_data) \<Rightarrow> client_data \<Rightarrow> client_data" where
  "client_shutdown threads s =
     (if cl_state s = UNINITIALIZED then s
      else (client_call C_shutdown (threads (s\<lparr>cl_state := SHUTDOWN\<rparr>)))\<lparr>cl_state := UNINITIALIZED\<rparr>)"

section \<open>Connections that are lost\<close>

text \<open>
  A client that is running does not notice that its connection is lost: \<open>update\<close> polls only while it is
  connected, and the branch for a lost connection is taken only in the state CONNECTING and RUNNING at once.
\<close>

lemma lost_connection_unnoticed:
  assumes "cl_state s = CL_RUNNING" "\<not> ui_vrcp_refreshed u \<or> \<not> ui_video_connected u"
  shows "app_update u s = Inr (True, s)"
  using assms by (auto simp: app_update_def client_is_connected_def should_exit_def Let_def)

text \<open>A shutdown during the synchronisation is overwritten at its end, so the threads that wait for
  the state SHUTDOWN go on.\<close>

lemma sync_overwrites_shutdown:
  "syncing_thread_main pings s = Some (Inr t) \<Longrightarrow> cl_state t = CL_RUNNING"
  by (auto simp: syncing_thread_main_def and_then_Inr Let_def split: option.splits)

end
