(* ===== verification/Samples.thy ===== *)
theory Samples
  imports ClientMain ServerLoop
begin

text \<open>
  Concrete states of the server and of the client, used to show that the hypotheses of the properties
  can hold.
\<close>

definition sample_clock :: RTPClock where
  "sample_clock = \<lparr>clock_offset = 0, m_system_epoch = 0, m_steady_epoch = 0, m_timespec_epoch = \<lparr>tv_sec = 0, tv_nsec = 0\<rparr>\<rparr>"

text \<open>The epoch of the samples: 1 January 1970, and a device that started then.\<close>

definition sample_clock_env :: "int \<Rightarrow> clock_env" where
  "sample_clock_env ns = \<lparr>system_now = ns, steady_now = ns, timespec_now = \<lparr>tv_sec = ns div NS_PER_SEC, tv_nsec = ns mod NS_PER_SEC\<rparr>\<rparr>"

definition sample_env :: "int \<Rightarrow> server_env" where
  "sample_env ns = \<lparr>se_locked = True, se_clock = sample_clock_env ns, se_later = sample_clock_env ns, se_now = (\<lambda>_. 0),
     se_fresh = (\<lambda>n. replicate n 0), se_file_opens = (\<lambda>_. True), se_show_float = (\<lambda>_. ''0''), se_encoder_delay = 0\<rparr>"

definition sample_specs :: VRSystemSpecs where
  "sample_specs = \<lparr>system_name = ''HMD'', manufacturer_name = ''ACME'', eye_resolution = \<lparr>ext_width = 100, ext_height = 90\<rparr>,
     refresh_rate = \<lparr>rr_numerator = 72, rr_denominator = 1\<rparr>, ipd = 1, eye_to_head_distance = 0,
     world_bounds = \<lparr>extf_width = 0, extf_height = 0\<rparr>\<rparr>"

definition sample_params :: VRCPClientParams where
  "sample_params = \<lparr>cp_video_port = 4000, cp_specs = sample_specs, cp_supported_video_codecs = [''h264'', ''h265''],
     cp_ntp_timestamp = 2208988800\<rparr>"

definition sample_shared :: ServerDriverSharedData where
  "sample_shared = \<lparr>sd_driver_state = DRV_READY,
     sd_latest_present_info = \<lparr>backbuffer_texture_handle = 0, frame_id = 0, vsync_time_in_seconds = 0,
       sample_rtp_timestamp = 0, pose_rtp_timestamp = 0\<rparr>,
     sd_frame_time_measurements_count = 0, sd_tracking_time_measurements_count = 0, sd_pose_access_time_measurements_count = 0,
     sd_frame_time_measurements = [], sd_tracking_time_measurements = [], sd_pose_access_time_measurements = [],
     sd_server_state = SRV_RUNNING, sd_rtp_offset = 0, sd_ntp_epoch = 0, sd_vr_system_specs = sample_specs,
     sd_tracking_state = default_tracking_state, sd_measurement_window = default_window\<rparr>"

definition sample_server :: "AppSettings \<Rightarrow> nat Module list \<Rightarrow> server_data" where
  "sample_server settings modules = \<lparr>sv_modules = modules, sv_chosen_module = no_module, sv_settings = settings,
     sv_current_pass = 0, sv_current_run = 0, sv_image_offset = 0, sv_total_received_bytes = 0,
     sv_client_params = sample_params, sv_ntp_epoch = 2208988800, sv_rtp_clock = sample_clock, sv_shared = sample_shared,
     sv_driver_events = \<lparr>ev_driver_state_changed = 0, ev_new_present_info = 0, ev_new_measurements = 0\<rparr>,
     sv_server_events = \<lparr>ev_server_state_changed = 0, ev_new_system_specs = 0, ev_frame_finished = 0,
       ev_new_tracking_data = 0, ev_new_benchmark_data = 0\<rparr>,
     sv_driver_connection_state = DRIVER_CONNECTED, sv_client_connection_state = CLIENT_CONNECTED,
     sv_app_state = GATHERING_RESULTS, sv_should_stop = False, sv_latest_tracking_timestamp = None,
     sv_measurement_bucket = new_server_bucket, sv_driver_bucket = None, sv_client_bucket = None,
     sv_capture_buffer = None, sv_calls = []\<rparr>"

definition sample_client :: "ClientMeasurementBucket \<Rightarrow> client_data" where
  "sample_client bucket = \<lparr>cl_measurement_bucket = bucket, cl_rtp_clock = sample_clock, cl_modules = [],
     cl_chosen_module = no_module,
     cl_connect_resp = \<lparr>resp_peer_video_port = 0, resp_chosen_video_codec = ''h264'', resp_ntp_timestamp = 2208988800\<rparr>,
     cl_server_addr = None, cl_state = CL_RUNNING, cl_calls = []\<rparr>"

end
