(* ===== verification/ServerTracking.thy ===== *)
theory ServerTracking
  imports Samples
begin

text \<open>
  Tracking data in \<open>server.cpp\<close>: what the driver finds in the shared memory, and that the handlers of the
  driver's events leave its semaphores alone.
\<close>

section \<open>What the handlers keep\<close>

text \<open>The latest tracking data is kept, or forgotten when a new run starts.\<close>

definition keeps_tracking :: "server_data \<Rightarrow> server_data \<Rightarrow> bool" where
  "keeps_tracking s t \<longleftrightarrow> sv_driver_events t = sv_driver_events s \<and>
     (sv_latest_tracking_timestamp t = None
      \<or> (sv_latest_tracking_timestamp t = sv_latest_tracking_timestamp s
         \<and> sd_tracking_state (sv_shared t) = sd_tracking_state (sv_shared s)))"

lemma keeps_refl [simp]: "keeps_tracking s s"
  by (simp add: keeps_tracking_def)

lemma keeps_trans: "keeps_tracking s t \<Longrightarrow> keeps_tracking t u \<Longrightarrow> keeps_tracking s u"
  by (auto simp: keeps_tracking_def)

lemma keeps_locked: "locked env f s = Inr t \<Longrightarrow> (\<And>d. sd_tracking_state (f d) = sd_tracking_state d) \<Longrightarrow> keeps_tracking s t"
  by (auto simp: locked_def keeps_tracking_def split: if_splits)

lemma keeps_ensure: "ensure_client_bucket_exists env s = Inr t \<Longrightarrow> keeps_tracking s t"
  by (auto simp: ensure_client_bucket_exists_def and_then_Inr keeps_tracking_def split: option.splits)

lemma keeps_store: "store_in_client_bucket env f s = Inr t \<Longrightarrow> keeps_tracking s t"
  using keeps_ensure [of env s]
  by (auto simp: store_in_client_bucket_def and_then_Inr keeps_tracking_def)

lemma keeps_window: "setup_benchmark_window env s = Inr t \<Longrightarrow> keeps_tracking s t"
  by (auto simp: setup_benchmark_window_def and_then_Inr locked_def call_def keeps_tracking_def Let_def split: if_splits)

lemma keeps_connection: "keeps_tracking s (driver_connection st s)"
  by (simp add: driver_connection_def keeps_tracking_def Let_def)

lemma keeps_driver_state: "handle_driver_state_changed env s = Inr t \<Longrightarrow> keeps_tracking s t"
proof -
  assume h: "handle_driver_state_changed env s = Inr t"
  let ?s = "driver_connection (sd_driver_state (sv_shared s)) s"
  have "keeps_tracking ?s t"
    using h keeps_window [of env _ t]
    by (auto simp: handle_driver_state_changed_def and_then_Inr locked_def Let_def keeps_tracking_def call_def
        signal_state_changed_def split: if_splits)
  with keeps_connection show ?thesis by (rule keeps_trans)
qed

lemma keeps_codec: "setup_codec codec s = Inr t \<Longrightarrow> keeps_tracking s t"
  by (auto simp: setup_codec_def choose_module_def and_then_Inr Let_def keeps_tracking_def call_def split: if_splits option.splits)

lemma keeps_restart:
  assumes "restart_run env p s = Inr t"
  shows "keeps_tracking s t"
proof -
  let ?s3 = "call (Sleep_ms (duration_inter_run_interval_ms (benchmark_settings (sv_settings s))))
    ((call (Reliable_send (next_pass_packet (se_fresh env) (sv_current_pass s) (sv_current_run s) (codec_id p))) s)
      \<lparr>sv_measurement_bucket := server_reset (sv_measurement_bucket s), sv_client_bucket := None,
       sv_driver_bucket := None, sv_latest_tracking_timestamp := None\<rparr>)"
  have "and_then (setup_codec (codec_id p) ?s3) (\<lambda>s4. Inr (call Launch_driver (signal_state_changed
      (if se_locked env
       then s4\<lparr>sv_shared := (sv_shared s4)\<lparr>sd_server_state := SRV_READY, sd_tracking_state := default_tracking_state,
          sd_measurement_window := default_window\<rparr>\<rparr>
       else s4)))) = Inr t"
    using assms by (simp add: restart_run_def Let_def call_def)
  then obtain s4 where c: "setup_codec (codec_id p) ?s3 = Inr s4"
    and t: "sv_latest_tracking_timestamp t = sv_latest_tracking_timestamp s4" "sv_driver_events t = sv_driver_events s4"
    by (auto simp: and_then_Inr call_def signal_state_changed_def)
  show ?thesis using keeps_codec [OF c] t by (auto simp: keeps_tracking_def call_def)
qed

lemma keeps_advance: "advance_run s = Inr (b, t) \<Longrightarrow> keeps_tracking s t"
  by (auto simp: advance_run_def and_then_Inr Let_def keeps_tracking_def split: if_splits)

lemma keeps_received:
  assumes "handle_measurements_received env s = Inr t"
  shows "keeps_tracking s t"
proof (cases "t = s")
  case False
  with assms obtain db cb where "sv_driver_bucket s = Some db" "sv_client_bucket s = Some cb"
    by (auto simp: handle_measurements_received_def split: option.splits)
  with False assms obtain b s2 where adv: "advance_run (call (Write_file (measurements_file_name s)
      (case export_measurements env s db cb of None \<Rightarrow> [] | Some t \<Rightarrow> bytes_of_string t)) s) = Inr (b, s2)"
    and t: "t = s2\<lparr>sv_should_stop := True\<rparr> \<or> (\<exists>p. restart_run env p s2 = Inr t)"
    by (auto simp: handle_measurements_received_def and_then_Inr Let_def split: if_splits)
  have "keeps_tracking s s2" using keeps_advance [OF adv] by (simp add: keeps_tracking_def call_def)
  moreover have "keeps_tracking s2 t"
    using t keeps_restart [of env _ s2 t] by (auto simp: keeps_tracking_def)
  ultimately show ?thesis by (rule keeps_trans)
qed simp

lemma keeps_driver_measurements: "handle_new_driver_measurements env s = Inr t \<Longrightarrow> keeps_tracking s t"
  using keeps_received [of env _ t]
  by (fastforce simp: handle_new_driver_measurements_def and_then_Inr locked_def Let_def keeps_tracking_def
      signal_state_changed_def split: if_splits)

lemma keeps_sync: "handle_sync_finished env w s = Inr t \<Longrightarrow> keeps_tracking s t"
  using keeps_driver_state [of env _ t]
  by (fastforce simp: handle_sync_finished_def and_then_Inr locked_def Let_def keeps_tracking_def call_def
      signal_state_changed_def split: if_splits)

lemma keeps_save_capture:
  assumes "save_capture env buf s = Inr t"
  shows "keeps_tracking s t"
proof -
  from assms obtain s1 where s1: "store_in_client_bucket env client_add_saved_frame s = Inr s1"
    unfolding save_capture_def and_then_Inr by blast
  with assms have "keeps_tracking s1 t"
    by (cases "sv_client_bucket s1") (auto simp: save_capture_def Let_def keeps_tracking_def call_def split: if_splits)
  with keeps_store [OF s1] show ?thesis by (rule keeps_trans)
qed

lemma keeps_fragment:
  assumes "handle_fragment env w s = Inr t"
  shows "keeps_tracking s t"
proof (cases "t = s")
  case False
  let ?f = "VRCPFrameCaptureFragment_of w"
  define s1 where "s1 = (case sv_capture_buffer s of None \<Rightarrow> s
      | Some buf \<Rightarrow> if length buf \<noteq> unat (ntohl (fc_full_size ?f)) then s\<lparr>sv_capture_buffer := None\<rparr> else s)"
  have k1: "keeps_tracking s s1" by (simp add: s1_def keeps_tracking_def split: option.split)
  from assms False obtain s2 where s2: "(if sv_capture_buffer s1 = None \<and> ntohl (fc_offset ?f) = 0
           then and_then (ensure_client_bucket_exists env s1) (\<lambda>s. Inr (s
                  \<lparr>sv_capture_buffer := Some (se_fresh env (unat (ntohl (fc_full_size ?f)))), sv_image_offset := 0\<rparr>))
           else Inr s1) = Inr s2"
    and t: "(case sv_capture_buffer s2 of None \<Rightarrow> Inr s2
            | Some buf \<Rightarrow>
              if ntohl (fc_offset ?f) \<noteq> sv_image_offset s2
              then and_then (store_in_client_bucket env client_add_saved_frame s2)
                     (\<lambda>s. Inr (s\<lparr>sv_capture_buffer := None, sv_image_offset := 0\<rparr>))
              else and_then (copy_fragment w buf) (\<lambda>(buf', n).
                let s3 = s2\<lparr>sv_capture_buffer := Some buf', sv_total_received_bytes := sv_total_received_bytes s2 + n,
                      sv_image_offset := sv_image_offset s2 + n\<rparr>
                in if fc_last ?f \<noteq> 0 then save_capture env buf' s3 else Inr s3)) = Inr t"
    unfolding handle_fragment_def Let_def and_then_Inr s1_def [symmetric] by (auto simp: and_then_Inr split: if_splits)
  have "keeps_tracking s1 s2"
  proof (cases "sv_capture_buffer s1 = None \<and> ntohl (fc_offset ?f) = 0")
    case True
    then obtain x where "ensure_client_bucket_exists env s1 = Inr x" "keeps_tracking x s2"
      using s2 by (auto simp: and_then_Inr keeps_tracking_def)
    then show ?thesis using keeps_ensure keeps_trans by blast
  next
    case False
    with s2 have "s1 = s2" by (simp only: if_False sum.inject)
    then show ?thesis by simp
  qed
  moreover have "keeps_tracking s2 t"
  proof (cases "sv_capture_buffer s2")
    case None
    then show ?thesis using t by simp
  next
    case (Some buf)
    show ?thesis
    proof (cases "ntohl (fc_offset ?f) \<noteq> sv_image_offset s2")
      case True
      then obtain x where "store_in_client_bucket env client_add_saved_frame s2 = Inr x" "keeps_tracking x t"
        using t Some by (auto simp: and_then_Inr keeps_tracking_def)
      then show ?thesis using keeps_store keeps_trans by blast
    next
      case False
      with t Some obtain B n where "copy_fragment w buf = Inr (B, n)" by (cases "copy_fragment w buf") auto
      moreover define s3 where "s3 = s2\<lparr>sv_capture_buffer := Some B, sv_total_received_bytes := sv_total_received_bytes s2 + n,
          sv_image_offset := sv_image_offset s2 + n\<rparr>"
      ultimately have "s3 = t \<or> save_capture env B s3 = Inr t"
        using t Some False by (auto simp: Let_def split: if_splits)
      moreover have "keeps_tracking s2 s3" by (simp add: s3_def keeps_tracking_def)
      ultimately show ?thesis using keeps_save_capture keeps_trans by blast
    qed
  qed
  ultimately show ?thesis using k1 keeps_trans by blast
qed simp

lemma keeps_packet:
  assumes "handle_vrcp_packet env w s = Inr t" "to_ft (load8 w) \<noteq> TRACKING_DATA"
  shows "keeps_tracking s t"
proof -
  have ping: "keeps_tracking s (handle_ping env w s)" by (simp add: handle_ping_def call_def keeps_tracking_def)
  show ?thesis
    using assms ping unfolding handle_vrcp_packet_def Let_def
    by (auto split: if_splits simp: and_then_Inr dest: keeps_sync keeps_store keeps_received keeps_fragment
        intro: keeps_trans)
qed

section \<open>The driver's semaphores\<close>

lemma driver_events_left_alone: "handle_driver_event env e s = Inr t \<Longrightarrow> sv_driver_events t = sv_driver_events s"
  using keeps_driver_state [of env s t] keeps_driver_measurements [of env s t]
  by (auto simp: handle_driver_event_def keeps_tracking_def split: if_splits)

section \<open>Fresh tracking data\<close>

text \<open>The shared tracking state comes from a packet, whose time stamp is the latest one.\<close>

definition tracked :: "bytes set \<Rightarrow> server_data \<Rightarrow> bool" where
  "tracked W s \<longleftrightarrow> (\<forall>a. sv_latest_tracking_timestamp s = Some a \<longrightarrow> (\<exists>w \<in> W. \<exists>d.
     length w = 72 \<and> to_ft (load8 w) = TRACKING_DATA \<and> ntohl (td_sample_timestamp (VRCPTrackingData_of w)) = a
     \<and> sd_tracking_state (sv_shared s) = to_tracking_state (VRCPTrackingData_of w) d))"

lemma keeps_tracked: "keeps_tracking s t \<Longrightarrow> tracked W s \<Longrightarrow> tracked W t"
  by (auto simp: keeps_tracking_def tracked_def)

lemma tracking_tracked:
  "se_locked env \<Longrightarrow> to_ft (load8 w) = TRACKING_DATA \<Longrightarrow> tracked W s \<Longrightarrow> w \<in> W \<Longrightarrow> tracked W (handle_tracking env w s)"
  by (auto simp: handle_tracking_def tracked_def Let_def)

lemma packets_tracked:
  "handle_packets env ws s = Inr t \<Longrightarrow> se_locked env \<Longrightarrow> tracked W s \<Longrightarrow> set ws \<subseteq> W \<Longrightarrow> tracked W t"
proof (induction ws arbitrary: s)
  case (Cons w ws)
  from Cons.prems(1) obtain u where u: "handle_vrcp_packet env w s = Inr u" "handle_packets env ws u = Inr t"
    by (auto simp: and_then_Inr)
  have "tracked W u"
  proof (cases "to_ft (load8 w) = TRACKING_DATA")
    case True
    then show ?thesis using u(1) tracking_tracked [of env w W s] Cons.prems by (auto simp: handle_vrcp_packet_def)
  next
    case False
    then show ?thesis using keeps_tracked [OF keeps_packet [OF u(1)]] Cons.prems(3) by blast
  qed
  then show ?case using Cons.IH [OF u(2)] Cons.prems by simp
qed simp

lemma time_stamp_read: "ts_sample_timestamp (to_tracking_state p d) = ntohl (td_sample_timestamp p)"
  by (simp add: to_tracking_state_def)

text \<open>C12: the driver never sees a mixture or an invented pose. Whatever packets arrive, in whatever order,
  as long as the tracking packets are the client's, the tracking state in the shared memory is exactly
  one of the states that the client sent, and it is the one whose time stamp the server holds as the
  latest; data that is not newer than that is dropped.\<close>

theorem shared_tracking_is_clients:
  assumes "handle_packets env ws s = Inr t" "se_locked env" "sv_latest_tracking_timestamp s = None"
    and "\<forall>w \<in> set ws. to_ft (load8 w) = TRACKING_DATA \<longrightarrow> (\<exists>\<tau> \<in> sent. w = VRCPTrackingData_bytes (mk_VRCPTrackingData \<tau>))"
    and "sv_latest_tracking_timestamp t = Some a"
  shows "sd_tracking_state (sv_shared t) \<in> sent \<and> ts_sample_timestamp (sd_tracking_state (sv_shared t)) = a
    \<and> (\<forall>\<tau>. \<not> compare_rtp_timestamps a (ts_sample_timestamp \<tau>) \<longrightarrow>
        handle_tracking env (VRCPTrackingData_bytes (mk_VRCPTrackingData \<tau>)) t = t)"
proof -
  have mk: "to_tracking_state (VRCPTrackingData_of (VRCPTrackingData_bytes (mk_VRCPTrackingData \<tau>))) d = \<tau>" for \<tau> d
    using td_packet.over_wire [of \<tau> "[]" d] by simp
  have ts: "ntohl (td_sample_timestamp (VRCPTrackingData_of (VRCPTrackingData_bytes (mk_VRCPTrackingData \<tau>)))) = ts_sample_timestamp \<tau>" for \<tau>
    using time_stamp_read [of _ default_tracking_state] mk by metis
  have "tracked (set ws) s" by (simp add: tracked_def assms(3))
  from packets_tracked [OF assms(1,2) this] obtain w d where w: "w \<in> set ws" "to_ft (load8 w) = TRACKING_DATA"
    "ntohl (td_sample_timestamp (VRCPTrackingData_of w)) = a"
    "sd_tracking_state (sv_shared t) = to_tracking_state (VRCPTrackingData_of w) d"
    using assms(5) by (auto simp: tracked_def)
  with assms(4) obtain \<tau> where "\<tau> \<in> sent" "w = VRCPTrackingData_bytes (mk_VRCPTrackingData \<tau>)" by blast
  then show ?thesis
    using w(3,4) assms(5) by (auto simp: mk ts handle_tracking_def Let_def)
qed

theorem shared_tracking_is_clients_witness:
  "\<exists>t. handle_packets (sample_env 9) [VRCPTrackingData_bytes (mk_VRCPTrackingData (default_tracking_state\<lparr>ts_sample_timestamp := 5\<rparr>))]
       (sample_server default_settings []) = Inr t
    \<and> sd_tracking_state (sv_shared t) = default_tracking_state\<lparr>ts_sample_timestamp := 5\<rparr>"
proof -
  let ?\<tau> = "default_tracking_state\<lparr>ts_sample_timestamp := 5\<rparr>" and ?s = "sample_server default_settings []"
  let ?w = "VRCPTrackingData_bytes (mk_VRCPTrackingData ?\<tau>)" and ?t = "handle_tracking (sample_env 9)
      (VRCPTrackingData_bytes (mk_VRCPTrackingData (default_tracking_state\<lparr>ts_sample_timestamp := 5\<rparr>))) (sample_server default_settings [])"
  have ft: "to_ft (load8 ?w) = TRACKING_DATA"
    by (simp add: VRCPTrackingData_bytes_def mk_VRCPTrackingData_def default_VRCPTrackingData_def to_ft_def)
  then have h: "handle_packets (sample_env 9) [?w] ?s = Inr ?t" by (simp add: handle_vrcp_packet_def)
  have "td_sample_timestamp (VRCPTrackingData_of ?w) = td_sample_timestamp (mk_VRCPTrackingData ?\<tau>)"
    using td_layout.dec_enc_append [of "mk_VRCPTrackingData ?\<tau>" "[]"]
    by (simp add: mk_VRCPTrackingData_def default_VRCPTrackingData_def to_ft_def)
  then have "sv_latest_tracking_timestamp ?t = Some 5"
    by (simp add: handle_tracking_def Let_def td_layout.enc_size sample_server_def mk_VRCPTrackingData_def)
  with shared_tracking_is_clients [OF h, of "{?\<tau>}" 5] have "sd_tracking_state (sv_shared ?t) = ?\<tau>"
    by (simp add: sample_env_def sample_server_def)
  with h show ?thesis by blast
qed

end
