(* ===== verification/ServerRuns.thy ===== *)
theory ServerRuns
  imports Samples
begin

text \<open>
  The runs of a benchmark in \<open>server.cpp\<close>: which files the server exports, in which order, and when it
  stops; and which codecs it offers before.
\<close>

section \<open>The schedule\<close>

definition runs_of :: "BenchmarkPass list \<Rightarrow> nat \<Rightarrow> nat \<Rightarrow> (nat \<times> nat) list" where
  "runs_of ps p r = map (Pair p) [r..<unat (num_repetitions (ps ! p))]
     @ concat (map (\<lambda>q. map (Pair q) [0..<unat (num_repetitions (ps ! q))]) [Suc p..<length ps])"

definition file_of :: "nat \<times> nat \<Rightarrow> string" where
  "file_of pr = ''wvb_measurements_pass_'' @ string_of_nat (fst pr) @ ''_run_'' @ string_of_nat (snd pr) @ ''.csv''"

definition written :: "server_data \<Rightarrow> string list" where
  "written s = concat (map (\<lambda>c. case c of Write_file n _ \<Rightarrow> [n] | _ \<Rightarrow> []) (sv_calls s))"

lemma runs_of_step:
  assumes "p < length ps" "r < unat (num_repetitions (ps ! p))"
  shows "runs_of ps p r = (p, r) # (if Suc r < unat (num_repetitions (ps ! p)) then runs_of ps p (Suc r)
    else if Suc p < length ps then runs_of ps (Suc p) 0 else [])"
  using assms by (auto simp: runs_of_def upt_conv_Cons)

text \<open>
  A server that can run all passes: benchmark mode, every pass has repetitions and a codec that some
  module has, and all modules have encoders.
\<close>

definition bench_ready :: "server_data \<Rightarrow> bool" where
  "bench_ready s \<longleftrightarrow> (let ps = passes (benchmark_settings (sv_settings s)) in
     app_mode (sv_settings s) = APP_BENCHMARK \<and> length ps < 2 ^ 32
     \<and> (\<forall>p \<in> set ps. num_repetitions p \<noteq> 0 \<and> (\<exists>m \<in> set (sv_modules s). mod_codec_id m = codec_id p))
     \<and> (\<forall>m \<in> set (sv_modules s). mod_create_video_encoder m \<noteq> None)
     \<and> mod_create_video_encoder (sv_chosen_module s) \<noteq> None
     \<and> unat (sv_current_pass s) < length ps
     \<and> sv_current_run s < num_repetitions (ps ! unat (sv_current_pass s)) \<and> \<not> sv_should_stop s)"

text \<open>The measurements of several runs, one after the other: each in the environment in which it arrives.\<close>

fun complete_runs :: "(server_env \<times> DriverMeasurementBucket \<times> ClientMeasurementBucket) list \<Rightarrow> server_data \<Rightarrow> server_data result" where
  "complete_runs [] s = Inr s"
| "complete_runs ((env, db, cb) # rs) s =
     (if sv_should_stop s then Inr s
      else and_then (handle_measurements_received env (s\<lparr>sv_driver_bucket := Some db, sv_client_bucket := Some cb\<rparr>))
        (complete_runs rs))"

section \<open>One run\<close>

lemma written_call [simp]: "written (call c s) = written s @ (case c of Write_file n _ \<Rightarrow> [n] | _ \<Rightarrow> [])"
  by (simp add: written_def call_def)

lemma choose_module_ready:
  assumes "app_mode (sv_settings s) = APP_BENCHMARK" "\<exists>m \<in> set (sv_modules s). mod_codec_id m = codec"
    "\<forall>m \<in> set (sv_modules s). mod_create_video_encoder m \<noteq> None" "mod_create_video_encoder (sv_chosen_module s) \<noteq> None"
  shows "\<exists>m. choose_module codec s = Inr (s\<lparr>sv_chosen_module := m\<rparr>) \<and> mod_create_video_encoder m \<noteq> None"
proof (cases "mod_codec_id (sv_chosen_module s) = codec")
  case True
  then show ?thesis using assms(4) by (intro exI [of _ "sv_chosen_module s"]) (simp add: choose_module_def)
next
  case False
  from assms(2) obtain m where m: "find (\<lambda>m. mod_codec_id m = codec) (sv_modules s) = Some m"
    by (cases "find (\<lambda>m. mod_codec_id m = codec) (sv_modules s)") (auto simp: find_None_iff)
  then have "m \<in> set (sv_modules s)" by (auto simp: find_Some_iff)
  with False m assms(1,3) show ?thesis by (intro exI [of _ m]) (simp add: choose_module_def Let_def)
qed

lemma setup_codec_ready:
  assumes "app_mode (sv_settings s) = APP_BENCHMARK" "\<exists>m \<in> set (sv_modules s). mod_codec_id m = codec"
    "\<forall>m \<in> set (sv_modules s). mod_create_video_encoder m \<noteq> None" "mod_create_video_encoder (sv_chosen_module s) \<noteq> None"
    "unat (sv_current_pass s) < length (passes (benchmark_settings (sv_settings s)))"
  shows "\<exists>t. setup_codec codec s = Inr t \<and> written t = written s \<and> sv_modules t = sv_modules s
    \<and> mod_create_video_encoder (sv_chosen_module t) \<noteq> None \<and> sv_settings t = sv_settings s
    \<and> sv_current_pass t = sv_current_pass s \<and> sv_current_run t = sv_current_run s \<and> sv_should_stop t = sv_should_stop s"
proof -
  obtain m where m: "choose_module codec s = Inr (s\<lparr>sv_chosen_module := m\<rparr>)" "mod_create_video_encoder m \<noteq> None"
    using choose_module_ready [OF assms(1-4)] by blast
  then obtain create where c: "mod_create_video_encoder m = Some create" by blast
  show ?thesis
    using assms(1,5)
    by (simp add: setup_codec_def m(1) Let_def c encoder_info_def current_pass_settings_def call_def written_def)
qed

text \<open>What a move to the next run keeps.\<close>

lemma restart_run_ready:
  assumes "bench_ready s" "p \<in> set (passes (benchmark_settings (sv_settings s)))"
  shows "\<exists>t. restart_run env p s = Inr t \<and> bench_ready t \<and> written t = written s \<and> sv_settings t = sv_settings s
    \<and> sv_current_pass t = sv_current_pass s \<and> sv_current_run t = sv_current_run s"
proof -
  define s3 where "s3 = call (Sleep_ms (duration_inter_run_interval_ms (benchmark_settings (sv_settings s))))
    ((call (Reliable_send (next_pass_packet (se_fresh env) (sv_current_pass s) (sv_current_run s) (codec_id p))) s)
      \<lparr>sv_measurement_bucket := server_reset (sv_measurement_bucket s), sv_client_bucket := None,
       sv_driver_bucket := None, sv_latest_tracking_timestamp := None\<rparr>)"
  have s3: "written s3 = written s" "sv_modules s3 = sv_modules s" "sv_settings s3 = sv_settings s"
    "sv_current_pass s3 = sv_current_pass s" "sv_current_run s3 = sv_current_run s" "sv_should_stop s3 = sv_should_stop s"
    "sv_chosen_module s3 = sv_chosen_module s"
    by (simp_all add: s3_def call_def written_def)
  obtain t where t: "setup_codec (codec_id p) s3 = Inr t" "written t = written s" "sv_modules t = sv_modules s"
    "mod_create_video_encoder (sv_chosen_module t) \<noteq> None" "sv_settings t = sv_settings s"
    "sv_current_pass t = sv_current_pass s" "sv_current_run t = sv_current_run s" "sv_should_stop t = sv_should_stop s"
    using setup_codec_ready [of s3 "codec_id p"] assms by (auto simp: s3 bench_ready_def Let_def)
  have "restart_run env p s = (let s5 = (if se_locked env
              then t\<lparr>sv_shared := (sv_shared t)\<lparr>sd_server_state := SRV_READY, sd_tracking_state := default_tracking_state,
                 sd_measurement_window := default_window\<rparr>\<rparr>
              else t)
        in Inr (call Launch_driver (signal_state_changed s5)))"
    using t(1) by (simp add: restart_run_def s3_def Let_def call_def)
  then show ?thesis
    using t assms(1) by (auto simp: Let_def bench_ready_def call_def signal_state_changed_def written_def)
qed

lemma file_name_of: "measurements_file_name s = file_of (unat (sv_current_pass s), unat (sv_current_run s))"
  by (simp add: measurements_file_name_def file_of_def)

text \<open>The counters do not wrap around.\<close>

lemma next_run:
  fixes r n :: u32
  assumes "r < n"
  shows "unat (r + 1) = Suc (unat r)" "r + 1 = n \<longleftrightarrow> Suc (unat r) = unat n"
proof -
  have "unat r < unat n" using assms by (simp add: word_less_nat_alt)
  moreover have "unat n < 2 ^ 32" using unsigned_less [of n] by simp
  ultimately have "unat r + 1 < 2 ^ 32" by linarith
  then show u: "unat (r + 1) = Suc (unat r)" by (simp add: unat_word_ariths)
  show "r + 1 = n \<longleftrightarrow> Suc (unat r) = unat n"
    using u by (metis unsigned_word_eqI)
qed

lemma run_completed:
  assumes ready: "bench_ready s" and cb: "measurements_complete (se_now env) cb"
    and opens: "se_file_opens env (measurements_file_name s)"
  shows "\<exists>t. handle_measurements_received env (s\<lparr>sv_driver_bucket := Some db, sv_client_bucket := Some cb\<rparr>) = Inr t
    \<and> sv_settings t = sv_settings s
    \<and> written t = written s @ [file_of (unat (sv_current_pass s), unat (sv_current_run s))]
    \<and> (let ps = passes (benchmark_settings (sv_settings s)); p = unat (sv_current_pass s); r = unat (sv_current_run s) in
       if Suc r < unat (num_repetitions (ps ! p))
       then bench_ready t \<and> unat (sv_current_pass t) = p \<and> unat (sv_current_run t) = Suc r
       else if Suc p < length ps then bench_ready t \<and> unat (sv_current_pass t) = Suc p \<and> unat (sv_current_run t) = 0
       else sv_should_stop t)"
proof -
  let ?ps = "passes (benchmark_settings (sv_settings s))" and ?p = "unat (sv_current_pass s)" and ?r = "unat (sv_current_run s)"
  let ?n = "num_repetitions (?ps ! ?p)"
  have p: "?p < length ?ps" "sv_current_run s < ?n" "length ?ps < 2 ^ 32"
    using ready by (simp_all add: bench_ready_def Let_def)
  have pass: "unat (sv_current_pass s + 1) = Suc ?p" using p(1,3) by (simp add: unat_word_ariths)
  define s1 where "s1 = call (Write_file (measurements_file_name s)
      (case export_measurements env (s\<lparr>sv_driver_bucket := Some db, sv_client_bucket := Some cb\<rparr>) db cb of None \<Rightarrow> []
       | Some t \<Rightarrow> bytes_of_string t)) (s\<lparr>sv_driver_bucket := Some db, sv_client_bucket := Some cb\<rparr>)"
  define s2 where "s2 = (if sv_current_run s + 1 = ?n then s1\<lparr>sv_current_pass := sv_current_pass s + 1, sv_current_run := 0\<rparr>
    else s1\<lparr>sv_current_run := sv_current_run s + 1\<rparr>)"
  have s2: "sv_settings s2 = sv_settings s" "sv_modules s2 = sv_modules s" "sv_chosen_module s2 = sv_chosen_module s"
    "sv_should_stop s2 = sv_should_stop s" "written s2 = written s @ [file_of (?p, ?r)]"
    by (simp_all add: s2_def s1_def call_def written_def file_name_of)
  have pos: "unat (sv_current_pass s2) = (if Suc ?r = unat ?n then Suc ?p else ?p)"
    "unat (sv_current_run s2) = (if Suc ?r = unat ?n then 0 else Suc ?r)"
    using next_run [OF p(2)] pass by (simp_all add: s2_def s1_def call_def)
  have le: "Suc ?r \<le> unat ?n" using p(2) by (simp add: word_less_nat_alt)
  let ?next = "current_pass_settings s2"
  have step: "handle_measurements_received env (s\<lparr>sv_driver_bucket := Some db, sv_client_bucket := Some cb\<rparr>)
      = (if unat (sv_current_pass s2) = length ?ps then Inr (s2\<lparr>sv_should_stop := True\<rparr>)
         else and_then ?next (\<lambda>p. if list_ex (\<lambda>m. mod_codec_id m = codec_id p) (sv_modules s2) then restart_run env p s2
                else Inr (s2\<lparr>sv_should_stop := True\<rparr>)))"
    using cb opens p(1)
    by (simp add: handle_measurements_received_def measurements_file_name_def advance_run_def current_pass_settings_def
        Let_def s2_def s1_def call_def)
  show ?thesis
  proof (cases "unat (sv_current_pass s2) = length ?ps")
    case True
    then show ?thesis using step pos p(1) s2 le by (auto simp: written_def Let_def split: if_splits)
  next
    case False
    then have i: "unat (sv_current_pass s2) < length ?ps" using pos(1) p(1) by (simp split: if_splits)
    let ?q = "?ps ! unat (sv_current_pass s2)"
    have q: "?q \<in> set ?ps" using i by simp
    then have "num_repetitions ?q \<noteq> 0" and codec: "\<exists>m \<in> set (sv_modules s). mod_codec_id m = codec_id ?q"
      using ready by (auto simp: bench_ready_def Let_def)
    moreover have "Suc ?r \<noteq> unat ?n \<Longrightarrow> Suc ?r < unat ?n" using le by simp
    ultimately have "unat (sv_current_run s2) < unat (num_repetitions ?q)"
      using pos by (simp add: unat_gt_0 split: if_splits)
    then have ready2: "bench_ready s2"
      using ready i by (simp add: bench_ready_def Let_def s2 word_less_nat_alt)
    obtain t where t: "restart_run env ?q s2 = Inr t" "bench_ready t" "written t = written s2" "sv_settings t = sv_settings s2"
      "sv_current_pass t = sv_current_pass s2" "sv_current_run t = sv_current_run s2"
      using restart_run_ready [OF ready2, of ?q env] q by (auto simp: s2)
    have "handle_measurements_received env (s\<lparr>sv_driver_bucket := Some db, sv_client_bucket := Some cb\<rparr>) = Inr t"
      using step False i codec t(1) by (auto simp: current_pass_settings_def s2 list_ex_iff)
    then show ?thesis
      using t s2 pos le i by (auto simp: Let_def split: if_splits)
  qed
qed

section \<open>All runs\<close>

text \<open>Every input comes with finished measurements, and every file can be opened.\<close>

definition runs_arrive :: "(server_env \<times> DriverMeasurementBucket \<times> ClientMeasurementBucket) list \<Rightarrow> bool" where
  "runs_arrive rs \<longleftrightarrow> (\<forall>(env, db, cb) \<in> set rs. measurements_complete (se_now env) cb \<and> (\<forall>n. se_file_opens env n))"

lemma stopped_runs: "sv_should_stop s \<Longrightarrow> complete_runs rs s = Inr s"
  by (cases rs) auto

lemma runs_completed:
  assumes "bench_ready s" "runs_arrive rs"
    and "length (runs_of (passes (benchmark_settings (sv_settings s))) (unat (sv_current_pass s)) (unat (sv_current_run s))) \<le> length rs"
  shows "\<exists>t. complete_runs rs s = Inr t \<and> sv_should_stop t
    \<and> written t = written s @ map file_of (runs_of (passes (benchmark_settings (sv_settings s)))
        (unat (sv_current_pass s)) (unat (sv_current_run s)))"
  using assms
proof (induction rs arbitrary: s)
  case Nil
  let ?ps = "passes (benchmark_settings (sv_settings s))" and ?p = "unat (sv_current_pass s)" and ?r = "unat (sv_current_run s)"
  have "?p < length ?ps" "?r < unat (num_repetitions (?ps ! ?p))"
    using Nil(1) by (auto simp: bench_ready_def Let_def word_less_nat_alt)
  from runs_of_step [OF this] Nil(3) show ?case by simp
next
  case (Cons x rs)
  obtain env db cb where x: "x = (env, db, cb)" by (cases x)
  let ?ps = "passes (benchmark_settings (sv_settings s))" and ?p = "unat (sv_current_pass s)" and ?r = "unat (sv_current_run s)"
  have b: "?p < length ?ps" "?r < unat (num_repetitions (?ps ! ?p))" "\<not> sv_should_stop s"
    using Cons.prems(1) by (auto simp: bench_ready_def Let_def word_less_nat_alt)
  have arrive: "measurements_complete (se_now env) cb" "se_file_opens env (measurements_file_name s)" "runs_arrive rs"
    using Cons.prems(2) by (auto simp: runs_arrive_def x)
  obtain t where t: "handle_measurements_received env (s\<lparr>sv_driver_bucket := Some db, sv_client_bucket := Some cb\<rparr>) = Inr t"
    "sv_settings t = sv_settings s" "written t = written s @ [file_of (?p, ?r)]"
    and after: "if Suc ?r < unat (num_repetitions (?ps ! ?p))
       then bench_ready t \<and> unat (sv_current_pass t) = ?p \<and> unat (sv_current_run t) = Suc ?r
       else if Suc ?p < length ?ps then bench_ready t \<and> unat (sv_current_pass t) = Suc ?p \<and> unat (sv_current_run t) = 0
       else sv_should_stop t"
    using run_completed [OF Cons.prems(1) arrive(1,2), of db] by (auto simp: Let_def)
  have done_one: "complete_runs (x # rs) s = complete_runs rs t" using b(3) t(1) by (simp add: x)
  show ?case
  proof (cases "Suc ?r < unat (num_repetitions (?ps ! ?p)) \<or> Suc ?p < length ?ps")
    case True
    then have ready: "bench_ready t" and
      rest: "runs_of ?ps ?p ?r = (?p, ?r) # runs_of ?ps (unat (sv_current_pass t)) (unat (sv_current_run t))"
      using after runs_of_step [OF b(1,2)] by (auto split: if_splits)
    then show ?thesis
      using Cons.IH [OF ready arrive(3)] Cons.prems(3) t(2,3) by (simp add: done_one)
  next
    case False
    then show ?thesis
      using after runs_of_step [OF b(1,2)] t(3) by (simp add: done_one stopped_runs)
  qed
qed

text \<open>C6: a benchmark runs to its end. When the measurements of the runs keep arriving, the server exports
  one file for every repetition of every pass, each exactly once, pass by pass and run by run, and
  then stops.\<close>

theorem benchmark_runs_in_order:
  assumes "bench_ready s" "sv_current_pass s = 0" "sv_current_run s = 0" "runs_arrive rs"
    and "sum_list (map (\<lambda>p. unat (num_repetitions p)) (passes (benchmark_settings (sv_settings s)))) \<le> length rs"
  shows "\<exists>t. complete_runs rs s = Inr t \<and> sv_should_stop t
    \<and> written t = written s @ map file_of (concat (map (\<lambda>p. map (Pair p)
        [0..<unat (num_repetitions (passes (benchmark_settings (sv_settings s)) ! p))])
        [0..<length (passes (benchmark_settings (sv_settings s)))]))"
proof -
  let ?ps = "passes (benchmark_settings (sv_settings s))"
  have "0 < length ?ps" using assms(1,2) by (auto simp: bench_ready_def Let_def)
  then have all: "runs_of ?ps 0 0 = concat (map (\<lambda>p. map (Pair p) [0..<unat (num_repetitions (?ps ! p))]) [0..<length ?ps])"
    by (simp add: runs_of_def upt_conv_Cons)
  have "length (runs_of ?ps 0 0) = sum_list (map (\<lambda>p. unat (num_repetitions p)) ?ps)"
    unfolding all length_concat map_map comp_def length_map length_upt minus_nat.diff_0
    by (rule arg_cong [where f = sum_list]) (rule nth_equalityI; simp)
  then show ?thesis
    using runs_completed [OF assms(1,4)] assms(2,3,5) all by simp
qed

definition sample_passes :: AppSettings where
  "sample_passes = default_settings\<lparr>app_mode := APP_BENCHMARK, benchmark_settings := (benchmark_settings default_settings)
     \<lparr>passes := [default_pass\<lparr>codec_id := ''h264'', num_repetitions := 2\<rparr>, default_pass\<lparr>codec_id := ''av1'', num_repetitions := 1\<rparr>]\<rparr>\<rparr>"

definition sample_modules :: "nat Module list" where
  "sample_modules = [(builtin ''h264'' ''H.264'')\<lparr>mod_create_video_encoder := Some 1\<rparr>,
     (builtin ''av1'' ''AV1'')\<lparr>mod_create_video_encoder := Some 2\<rparr>]"

theorem benchmark_runs_in_order_witness:
  "\<exists>t. complete_runs (replicate 3 (sample_env 9, new_driver_bucket 1, set_as_finished (new_client_bucket 2)))
      ((sample_server sample_passes sample_modules)\<lparr>sv_chosen_module := hd sample_modules\<rparr>) = Inr t \<and> sv_should_stop t
    \<and> written t = map file_of [(0, 0), (0, 1), (1, 0)]"
proof -
  let ?s = "(sample_server sample_passes sample_modules)\<lparr>sv_chosen_module := hd sample_modules\<rparr>"
  have "bench_ready ?s"
    by (simp add: bench_ready_def sample_server_def sample_passes_def sample_modules_def builtin_def)
  moreover have "runs_arrive (replicate 3 (sample_env 9, new_driver_bucket 1, set_as_finished (new_client_bucket 2)))"
    by (simp add: runs_arrive_def sample_env_def measurements_complete_def set_as_finished_def new_client_bucket_def)
  ultimately show ?thesis
    using benchmark_runs_in_order [of ?s "replicate 3 (sample_env 9, new_driver_bucket 1, set_as_finished (new_client_bucket 2))"]
    by (simp add: sample_server_def sample_passes_def written_def upt_conv_Cons)
qed

section \<open>The codecs that are offered\<close>

text \<open>In benchmark mode the first module is offered, whatever codec the pass asks for.\<close>

lemma benchmark_offers_first_module:
  assumes "app_mode (sv_settings s) = APP_BENCHMARK" "preferred_codec (sv_settings s) \<in> set (map mod_codec_id (sv_modules s))"
  shows "offered_codecs s = Some (Inr (Some [hd (map mod_codec_id (sv_modules s))], s))"
  using assms by (simp add: offered_codecs_def Let_def)

text \<open>In normal mode the preferred codec comes first, if a module has it.\<close>

lemma normal_offers_preferred_first:
  assumes "app_mode (sv_settings s) = APP_NORMAL" "preferred_codec (sv_settings s) \<in> set (map mod_codec_id (sv_modules s))"
  shows "\<exists>others. offered_codecs s = Some (Inr (Some (preferred_codec (sv_settings s) # others), s))
    \<and> set (preferred_codec (sv_settings s) # others) = set (map mod_codec_id (sv_modules s))"
  using assms by (auto simp: offered_codecs_def Let_def)

end
