(* ===== verification/ClockSync.thy ===== *)
theory ClockSync
  imports Samples
begin

text \<open>
  The client's synchronisation thread (\<open>client.cpp\<close>) against the server's answer to a ping
  (\<open>server.cpp\<close>): how close the two RTP clocks are after a reply, and that the thread ends.
\<close>

section \<open>Truncated conversions\<close>

lemma sdiv_close: "0 < b \<Longrightarrow> \<bar>b * (a sdiv b) - a\<bar> < (b :: int)"
  using smod_bounds [of b a] by (simp add: smod_as_sdiv mult.commute)

lemma ticks_of_ns_close: "\<bar>100000 * ticks_of_ns n - 9 * n\<bar> < 100000"
  using sdiv_close [of 100000 "n * 9"] by (simp add: ticks_of_ns_def mult.commute)

lemma us_of_ticks_close: "\<bar>9 * us_of_ticks t - 100 * t\<bar> < 9"
  using sdiv_close [of 9 "t * 100"] by (simp add: us_of_ticks_def mult.commute)

lemma ticks_of_us_close: "\<bar>100 * ticks_of_us u - 9 * u\<bar> < 100"
  using sdiv_close [of 100 "u * 9"] by (simp add: ticks_of_us_def mult.commute)

lemma distance_word: "word_of_int (rtp_timestamps_distance a b) = b - a"
proof -
  have "(word_of_int (uint b - uint a + k) :: u32) = b - a" if "k = 0 \<or> k = 2 ^ 32 \<or> k = - (2 ^ 32)" for k
  proof -
    have "(word_of_int k :: u32) = 0" using that by (auto simp: word_of_int_eq_0_iff)
    then show ?thesis by simp
  qed
  from this [of 0] this [of "2 ^ 32"] this [of "- (2 ^ 32)"] show ?thesis by (simp add: distance_cases)
qed

lemma client_bound:
  fixes y :: int
  assumes "\<bar>100000 * n' - 9 * (y + u * 1000)\<bar> < 100000" "\<bar>100000 * n - 9 * y\<bar> < 100000" "\<bar>9 * u - 100 * d\<bar> < 9"
  shows "\<bar>100000 * (n' - n - d)\<bar> < 209000"
  using assms by (simp add: abs_less_iff algebra_simps)

lemma server_bound:
  fixes x :: int
  assumes "\<bar>100000 * s - 9 * x\<bar> < 100000" "\<bar>100000 * s' - 9 * (x + back)\<bar> < 100000"
    "\<bar>100 * t - 9 * h\<bar> < 100" "\<bar>2 * h - r\<bar> < 2" "\<bar>1000 * r - (forth + back)\<bar> < 1000"
  shows "\<bar>200000 * (s + t - s')\<bar> \<le> 9 * \<bar>forth - back\<bar> + 700000"
proof -
  have k: "\<bar>forth - back\<bar> \<ge> forth - back" "\<bar>forth - back\<bar> \<ge> back - forth" by simp_all
  from assms(1,2) have "\<bar>100000 * (s - s') + 9 * back\<bar> < 200000" by (simp add: abs_less_iff algebra_simps)
  moreover from assms(3-5) have "\<bar>200000 * t - 9 * (forth + back)\<bar> < 220000"
    by (simp add: abs_less_iff algebra_simps)
  ultimately show ?thesis using k unfolding abs_less_iff abs_le_iff by (simp add: algebra_simps)
qed

lemma sum_bound:
  fixes x :: int
  shows "100000 * x < 209000 \<Longrightarrow> 200000 * y \<le> 9 * m + 700000 \<Longrightarrow> z \<le> x + y \<Longrightarrow> 200000 * z \<le> 9 * m + 1200000"
  by linarith

lemma bounds_add:
  fixes a :: int
  shows "\<bar>100000 * a\<bar> < 209000 \<Longrightarrow> \<bar>200000 * b\<bar> \<le> 9 * m + 700000 \<Longrightarrow> 200000 * \<bar>a + b\<bar> \<le> 9 * m + 1200000"
proof -
  assume "\<bar>100000 * a\<bar> < 209000" "\<bar>200000 * b\<bar> \<le> 9 * m + 700000"
  then have "100000 * \<bar>a\<bar> < 209000" "200000 * \<bar>b\<bar> \<le> 9 * m + 700000" by (simp_all add: abs_mult)
  then show ?thesis using abs_triangle_ineq [of a b] by (rule sum_bound)
qed

lemma distance_us_close:
  "clock_offset c = 0 \<Longrightarrow> \<bar>9 * rtp_timestamps_distance_us a b c - 100 * rtp_timestamps_distance a b\<bar> < 9"
proof -
  have w: "uint (word_of_int k :: u32) = k" if "0 \<le> k" "k < 2 ^ 32" for k
    using that by (simp add: uint_word_of_int)
  assume "clock_offset c = 0"
  then have "rtp_timestamps_distance_us a b c =
      (let d = rtp_timestamps_distance a b in if d < 0 then - us_of_ticks (- d) else us_of_ticks d)"
    using distance_bound [of a b] w [of "rtp_timestamps_distance a b"] w [of "- rtp_timestamps_distance a b"]
    by (auto simp: rtp_timestamps_distance_us_def Let_def from_rtp_timestamp_def)
  then show ?thesis
    using us_of_ticks_close [of "rtp_timestamps_distance a b"] us_of_ticks_close [of "- rtp_timestamps_distance a b"]
    by (auto simp: Let_def split: if_splits)
qed

lemma now_after_move: "now e (move_epoch us c) = ticks_of_ns (steady_now e - m_steady_epoch c - us * 1000)"
  by (simp add: now_def move_epoch_def Let_def algebra_simps)

lemma now_rtp: "now_rtp_timestamp e c = word_of_int (now e c + clock_offset c)"
  by (simp add: now_rtp_timestamp_def now_def)

section \<open>One ping\<close>

lemma server_answers_ping:
  "sv_calls (handle_ping env (VRCPPing_bytes (default_VRCPPing\<lparr>pi_ping_id := htons ping_id\<rparr>)) s)
     = sv_calls s @ [Unreliable_send (VRCPPingReply_bytes (default_VRCPPingReply\<lparr>pr_ping_id := htons ping_id,
         pr_reply_timestamp := htonl (now_rtp_timestamp (se_clock env) (sv_rtp_clock s))\<rparr>))]"
proof -
  let ?p = "default_VRCPPing\<lparr>pi_ping_id := htons ping_id\<rparr>"
  have "VRCPPing_of (VRCPPing_bytes ?p @ []) = ?p"
    by (rule pi_layout.dec_enc_append) (simp add: default_VRCPPing_def to_ft_def)
  moreover have "length (VRCPPing_bytes ?p) = 4" by (rule pi_layout.enc_size)
  ultimately show ?thesis by (simp add: handle_ping_def call_def)
qed

lemma reply_read:
  "VRCPPingReply_of (VRCPPingReply_bytes (default_VRCPPingReply\<lparr>pr_ping_id := a, pr_reply_timestamp := b\<rparr>))
     = default_VRCPPingReply\<lparr>pr_ping_id := a, pr_reply_timestamp := b\<rparr>"
  using pr_layout.dec_enc_append [of "default_VRCPPingReply\<lparr>pr_ping_id := a, pr_reply_timestamp := b\<rparr>" "[]"]
  by (simp add: default_VRCPPingReply_def to_ft_def)

lemma reply_accepted:
  assumes "re_packet e = VRCPPingReply_bytes (default_VRCPPingReply\<lparr>pr_ping_id := htons ping_id, pr_reply_timestamp := htonl t\<rparr>)"
  shows "\<exists>s. handle_ping_reply ping_id send_time e (received, n, c) = (True, n + 1, s)
    \<and> cl_rtp_clock s = move_epoch (- rtp_timestamps_distance_us (word_of_int (now (re_clock e) (cl_rtp_clock c)))
        (t + word_of_int (ticks_of_us (((re_time e - send_time) sdiv 1000) sdiv 2))) (cl_rtp_clock c)) (cl_rtp_clock c)"
proof -
  have "load8 (re_packet e) = to_u8 PING_REPLY"
    by (simp add: assms VRCPPingReply_bytes_def default_VRCPPingReply_def)
  then have "to_ft (load8 (re_packet e)) = PING_REPLY" by (simp add: to_ft_def)
  moreover have "length (re_packet e) = 8" unfolding assms by (rule pr_layout.enc_size)
  ultimately show ?thesis
    by (simp add: handle_ping_reply_def Let_def assms reply_read)
qed

text \<open>C5: one answered ping aligns the client's RTP clock with the server's: when the reply has been
  handled, the time stamps of the two clocks at that moment differ by at most half the asymmetry of
  the two network delays (in ticks of 90 kHz) and 6 ticks for the roundings, modulo \<open>2 ^ 32\<close>, whatever
  the clocks showed before.\<close>

theorem ping_synchronises_clocks:
  assumes reply: "sv_calls (handle_ping env (VRCPPing_bytes (default_VRCPPing\<lparr>pi_ping_id := htons ping_id\<rparr>)) s)
      = sv_calls s @ [Unreliable_send (re_packet e)]"
    and delays: "re_time e - send_time = forth + back" "0 \<le> forth" "0 \<le> back"
    and server: "steady_now arrival = steady_now (se_clock env) + back"
    and offset: "clock_offset (cl_rtp_clock c) = 0"
    and handled: "handle_ping_reply ping_id send_time e (received, n, c) = (ok, n', c')"
  shows "ok \<and> (\<exists>d. now_rtp_timestamp (re_clock e) (cl_rtp_clock c') = now_rtp_timestamp arrival (sv_rtp_clock s) + word_of_int d
      \<and> 200000 * \<bar>d\<bar> \<le> 9 * \<bar>forth - back\<bar> + 1200000)"
proof -
  let ?T = "now_rtp_timestamp (se_clock env) (sv_rtp_clock s)" and ?N = "now (re_clock e) (cl_rtp_clock c)"
  let ?h = "((re_time e - send_time) sdiv 1000) sdiv 2"
  let ?E = "?T + word_of_int (ticks_of_us ?h)"
  let ?u = "rtp_timestamps_distance_us (word_of_int ?N) ?E (cl_rtp_clock c)"
  have "re_packet e = VRCPPingReply_bytes (default_VRCPPingReply\<lparr>pr_ping_id := htons ping_id, pr_reply_timestamp := htonl ?T\<rparr>)"
    using reply server_answers_ping [of env ping_id s] by simp
  from reply_accepted [OF this, of send_time received n c] handled have ok: ok
    and c': "cl_rtp_clock c' = move_epoch (- ?u) (cl_rtp_clock c)" by auto
  let ?N' = "now (re_clock e) (cl_rtp_clock c')" and ?D = "rtp_timestamps_distance (word_of_int ?N) ?E"
  let ?X = "steady_now (se_clock env) - m_steady_epoch (sv_rtp_clock s)"
  let ?S = "now (se_clock env) (sv_rtp_clock s)" and ?S' = "now arrival (sv_rtp_clock s)"
  have off': "clock_offset (cl_rtp_clock c') = 0"
    using offset by (simp add: c' move_epoch_def Let_def)
  have "\<bar>100000 * ?N' - 9 * (steady_now (re_clock e) - m_steady_epoch (cl_rtp_clock c) + ?u * 1000)\<bar> < 100000"
    using ticks_of_ns_close [of "steady_now (re_clock e) - m_steady_epoch (cl_rtp_clock c) + ?u * 1000"]
    by (simp add: c' now_after_move)
  from client_bound [OF this, of ?N ?D] have client: "\<bar>100000 * (?N' - ?N - ?D)\<bar> < 209000"
    using distance_us_close [OF offset, of "word_of_int ?N" ?E] ticks_of_ns_close [of "steady_now (re_clock e) - m_steady_epoch (cl_rtp_clock c)"]
    by (simp only: now_def)
  have "\<bar>100000 * ?S - 9 * ?X\<bar> < 100000" unfolding now_def by (rule ticks_of_ns_close)
  moreover have "\<bar>100000 * ?S' - 9 * (?X + back)\<bar> < 100000"
    using ticks_of_ns_close [of "?X + back"] by (simp add: now_def server algebra_simps)
  moreover have "\<bar>100 * ticks_of_us ?h - 9 * ?h\<bar> < 100" by (rule ticks_of_us_close)
  moreover have "\<bar>2 * ?h - (re_time e - send_time) sdiv 1000\<bar> < 2" by (rule sdiv_close) simp
  moreover have "\<bar>1000 * ((re_time e - send_time) sdiv 1000) - (forth + back)\<bar> < 1000"
    using sdiv_close [of 1000 "re_time e - send_time"] delays by simp
  ultimately have srv: "\<bar>200000 * (?S + ticks_of_us ?h - ?S')\<bar> \<le> 9 * \<bar>forth - back\<bar> + 700000"
    by (rule server_bound)
  define d where "d = (?N' - ?N - ?D) + (?S + ticks_of_us ?h - ?S')"
  have "word_of_int (?N + ?D) = ?E"
    by (simp add: distance_word)
  then have "word_of_int ?N' = (word_of_int (?S' + clock_offset (sv_rtp_clock s)) + word_of_int d :: u32)"
    by (simp add: d_def now_rtp algebra_simps)
  then have "now_rtp_timestamp (re_clock e) (cl_rtp_clock c') = now_rtp_timestamp arrival (sv_rtp_clock s) + word_of_int d"
    by (simp add: now_rtp off')
  moreover have "200000 * \<bar>d\<bar> \<le> 9 * \<bar>forth - back\<bar> + 1200000"
    using bounds_add [OF client srv] by (simp only: d_def)
  ultimately show ?thesis using ok by blast
qed

text \<open>A reply 3 ms after the ping left: the clocks, 100 s apart before, agree up to the roundings.\<close>

theorem ping_synchronises_clocks_witness:
  "\<exists>c' d. handle_ping_reply 7 0 \<lparr>re_packet = VRCPPingReply_bytes (default_VRCPPingReply\<lparr>pr_ping_id := htons 7,
         pr_reply_timestamp := htonl (now_rtp_timestamp (sample_clock_env 100000000000) sample_clock)\<rparr>),
       re_time = 3000000, re_clock = sample_clock_env 5000000000\<rparr> (False, 0, sample_client example_rtt_bucket) = (True, 1, c')
     \<and> now_rtp_timestamp (sample_clock_env 5000000000) (cl_rtp_clock c')
         = now_rtp_timestamp (sample_clock_env 100001500000) sample_clock + word_of_int d \<and> \<bar>d\<bar> \<le> 6"
proof -
  let ?e = "\<lparr>re_packet = VRCPPingReply_bytes (default_VRCPPingReply\<lparr>pr_ping_id := htons 7,
         pr_reply_timestamp := htonl (now_rtp_timestamp (sample_clock_env 100000000000) sample_clock)\<rparr>),
       re_time = 3000000, re_clock = sample_clock_env 5000000000\<rparr>"
  let ?s = "sample_server default_settings []"
  obtain c' where h: "handle_ping_reply 7 0 ?e (False, 0, sample_client example_rtt_bucket) = (True, 1, c')"
    using reply_accepted [where e = ?e and ping_id = 7 and t = "now_rtp_timestamp (sample_clock_env 100000000000) sample_clock"
        and send_time = 0 and received = False and n = 0 and c = "sample_client example_rtt_bucket"] by auto
  have "sv_calls (handle_ping (sample_env 100000000000) (VRCPPing_bytes (default_VRCPPing\<lparr>pi_ping_id := htons 7\<rparr>)) ?s)
      = sv_calls ?s @ [Unreliable_send (re_packet ?e)]"
    by (simp add: server_answers_ping sample_env_def sample_server_def)
  from ping_synchronises_clocks [OF this, of 0 1500000 1500000 "sample_clock_env 100001500000", OF _ _ _ _ _ h]
  obtain d where "now_rtp_timestamp (sample_clock_env 5000000000) (cl_rtp_clock c')
         = now_rtp_timestamp (sample_clock_env 100001500000) sample_clock + word_of_int d" "200000 * \<bar>d\<bar> \<le> 1200000"
    by (auto simp: sample_env_def sample_clock_env_def sample_client_def sample_clock_def sample_server_def)
  then show ?thesis using h by (intro exI [of _ c'] exI [of _ d]) simp
qed

section \<open>The synchronisation ends\<close>

lemma ping_reply_calls:
  "handle_ping_reply i t e acc = (ok, n, s) \<Longrightarrow> cl_calls s = cl_calls (snd (snd acc))"
  by (cases acc) (auto simp: handle_ping_reply_def Let_def split: if_splits)

lemma ping_replies_calls:
  "fold (handle_ping_reply i t) es acc = (ok, n, s) \<Longrightarrow> cl_calls s = cl_calls (snd (snd acc))"
proof (induction es arbitrary: acc)
  case (Cons e es)
  then show ?case
    using ping_reply_calls [of i t e acc] by (cases "handle_ping_reply i t e acc") auto
qed simp

lemma await_reply_returns:
  "\<exists>r \<in> set rounds. sr_exit r \<or> sr_time r - t > PING_TIMEOUT_ns \<Longrightarrow>
     \<exists>n' s'. await_reply i t rounds (n, s) = Some (n', s') \<and> cl_calls s' = cl_calls s"
proof (induction rounds arbitrary: n s)
  case (Cons r rs)
  obtain ok n' s' where f: "fold (handle_ping_reply i t) (sr_packets r) (False, n, s) = (ok, n', s')"
    by (metis prod_cases3)
  then have c: "cl_calls s' = cl_calls s" using ping_replies_calls [OF f] by simp
  show ?case
  proof (cases "sr_exit r \<or> ok \<or> sr_time r - t > PING_TIMEOUT_ns")
    case True
    then show ?thesis using f c by auto
  next
    case False
    then obtain n2 s2 where "await_reply i t rs (n', s') = Some (n2, s2)" "cl_calls s2 = cl_calls s'"
      using Cons.IH [of n' s'] Cons.prems by auto
    then show ?thesis using f c False by simp
  qed
qed simp

lemma await_reply_keeps_calls:
  "await_reply i t rounds (n, s) = Some (n', s') \<Longrightarrow> cl_calls s' = cl_calls s"
proof (induction rounds arbitrary: n s)
  case (Cons r rs)
  obtain ok n1 s1 where f: "fold (handle_ping_reply i t) (sr_packets r) (False, n, s) = (ok, n1, s1)"
    by (metis prod_cases3)
  then have "cl_calls s1 = cl_calls s" using ping_replies_calls [OF f] by simp
  then show ?case
    using Cons.IH [of n1 s1] Cons.prems f by (auto split: if_splits)
qed simp

definition pings_sent :: "client_data \<Rightarrow> nat" where
  "pings_sent s = length (filter (\<lambda>c. case c of C_unreliable_send _ \<Rightarrow> True | _ \<Rightarrow> False) (cl_calls s))"

lemma sync_loop_returns:
  assumes "unat i + length ps \<ge> 40" "unat i < 40"
    and "\<And>t rounds. (t, rounds) \<in> set ps \<Longrightarrow> \<exists>r \<in> set rounds. sr_exit r \<or> sr_time r - t > PING_TIMEOUT_ns"
  shows "\<exists>u. sync_loop ps i n s = Some u \<and> pings_sent u + unat i \<le> pings_sent s + 40"
  using assms
proof (induction ps arbitrary: i n s)
  case (Cons p ps)
  obtain t rounds where p: "p = (t, rounds)" by (cases p)
  let ?s = "client_call (C_unreliable_send (VRCPPing_bytes (default_VRCPPing\<lparr>pi_ping_id := htons (i + 1)\<rparr>))) s"
  have i: "unat (i + 1) = unat i + 1"
    using Cons.prems(2) by (simp add: unat_word_ariths)
  have "PING_COUNT * 2 \<le> i + 1 \<longleftrightarrow> 40 \<le> unat i + 1"
    by (simp add: PING_COUNT_def word_le_nat_alt i)
  moreover obtain n' s' where a: "await_reply (i + 1) t rounds (n, ?s) = Some (n', s')" "cl_calls s' = cl_calls ?s"
    using await_reply_returns Cons.prems(3) [of t rounds] p by (metis list.set_intros(1))
  moreover have "pings_sent s' = pings_sent s + 1" "pings_sent (client_call (C_sleep_ms PING_INTERVAL_MS) s') = pings_sent s + 1"
    using a(2) by (simp_all add: pings_sent_def client_call_def)
  ultimately show ?case
    using Cons.IH [of "i + 1" n' "client_call (C_sleep_ms PING_INTERVAL_MS) s'"] Cons.prems
    by (auto simp: p Let_def i)
qed simp

text \<open>A packet that is taken for the reply to a ping.\<close>

definition replies_to :: "u16 \<Rightarrow> reply_event \<Rightarrow> bool" where
  "replies_to i e \<longleftrightarrow> to_ft (load8 (re_packet e)) = PING_REPLY \<and> length (re_packet e) = 8
     \<and> ntohs (pr_ping_id (VRCPPingReply_of (re_packet e))) = i"

lemma handle_ping_reply_counts:
  "handle_ping_reply i t e (rcv, n, s) = (ok, n', s') \<Longrightarrow>
     cl_state s' = cl_state s \<and> (if replies_to i e then ok \<and> n' = n + 1 else ok = rcv \<and> n' = n)"
  by (auto simp: handle_ping_reply_def replies_to_def Let_def split: if_splits)

lemma ping_replies_counts:
  "fold (handle_ping_reply i t) es (rcv, n, s) = (ok, n', s') \<Longrightarrow>
     cl_state s' = cl_state s \<and> n' = n + of_nat (length (filter (replies_to i) es))
     \<and> (ok \<longleftrightarrow> rcv \<or> filter (replies_to i) es \<noteq> [])"
proof (induction es arbitrary: rcv n s)
  case (Cons e es)
  obtain ok1 n1 s1 where one: "handle_ping_reply i t e (rcv, n, s) = (ok1, n1, s1)" by (metis prod_cases3)
  with Cons.prems have "fold (handle_ping_reply i t) es (ok1, n1, s1) = (ok, n', s')" by simp
  from Cons.IH [OF this] handle_ping_reply_counts [OF one] show ?case by (auto split: if_splits)
qed simp

text \<open>Nobody shuts the client down meanwhile, and no reply comes twice.\<close>

definition quiet_rounds :: "u16 \<Rightarrow> sync_round list \<Rightarrow> bool" where
  "quiet_rounds i rounds \<longleftrightarrow> (\<forall>r \<in> set rounds. \<not> sr_exit r \<and> length (filter (replies_to i) (sr_packets r)) \<le> 1)"

lemma await_reply_counts:
  "await_reply i t rounds (n, s) = Some (n', s') \<Longrightarrow> quiet_rounds i rounds \<Longrightarrow>
     cl_state s' = cl_state s \<and> (n' = n \<or> n' = n + 1)"
proof (induction rounds arbitrary: n s)
  case (Cons r rs)
  obtain ok n1 s1 where f: "fold (handle_ping_reply i t) (sr_packets r) (False, n, s) = (ok, n1, s1)"
    by (metis prod_cases3)
  have q: "\<not> sr_exit r" "length (filter (replies_to i) (sr_packets r)) \<le> 1" "quiet_rounds i rs"
    using Cons.prems(2) by (simp_all add: quiet_rounds_def)
  have c: "cl_state s1 = cl_state s" "ok \<or> n1 = n" "n1 = n \<or> n1 = n + 1"
    using ping_replies_counts [OF f] q(2) by (auto simp: le_Suc_eq)
  show ?case
  proof (cases "ok \<or> sr_time r - t > PING_TIMEOUT_ns")
    case True
    then show ?thesis using Cons.prems(1) f q(1) c by auto
  next
    case False
    then show ?thesis using Cons.IH [of n1 s1] Cons.prems(1) f q c by auto
  qed
qed simp

lemma sync_loop_at_least:
  assumes "sync_loop ps i n s = Some u" "\<not> should_exit s" "unat n \<le> unat i" "unat i < 40"
    and "\<forall>k < length ps. quiet_rounds (i + of_nat (Suc k)) (snd (ps ! k))"
  shows "pings_sent s + 20 \<le> pings_sent u + unat i"
  using assms
proof (induction ps arbitrary: i n s)
  case (Cons p ps)
  obtain t rounds where p: "p = (t, rounds)" by (cases p)
  let ?s = "client_call (C_unreliable_send (VRCPPing_bytes (default_VRCPPing\<lparr>pi_ping_id := htons (i + 1)\<rparr>))) s"
  have i: "unat (i + 1) = unat i + 1"
    using Cons.prems(4) by (simp add: unat_word_ariths)
  have n1: "unat (n + 1) = unat n + 1"
    using Cons.prems(3,4) by (simp add: unat_word_ariths)
  have q: "quiet_rounds (i + 1) rounds"
    using Cons.prems(5) p by auto
  obtain n' s' where a: "await_reply (i + 1) t rounds (n, ?s) = Some (n', s')"
    using Cons.prems(1,2) by (auto simp: p Let_def split: option.splits)
  have st: "cl_state s' = cl_state s" "n' = n \<or> n' = n + 1" "cl_calls s' = cl_calls ?s"
    using await_reply_counts [OF a q] await_reply_keeps_calls [OF a] q
    by (auto simp: client_call_def quiet_rounds_def)
  have sent: "pings_sent s' = pings_sent s + 1" "pings_sent (client_call (C_sleep_ms PING_INTERVAL_MS) s') = pings_sent s + 1"
    using st(3) by (simp_all add: pings_sent_def client_call_def)
  have n': "unat n' \<le> unat (i + 1)"
    using st(2) n1 i Cons.prems(3) by auto
  have lim: "PING_COUNT \<le> n' \<longleftrightarrow> 20 \<le> unat n'" "PING_COUNT * 2 \<le> i + 1 \<longleftrightarrow> 40 \<le> unat i + 1"
    by (simp_all add: PING_COUNT_def word_le_nat_alt i)
  show ?case
  proof (cases "PING_COUNT \<le> n' \<or> PING_COUNT * 2 \<le> i + 1")
    case True
    then have "u = s'"
      using Cons.prems(1,2) a by (simp add: p Let_def)
    then show ?thesis
      using True lim n' sent(1) i by auto
  next
    case False
    then have "sync_loop ps (i + 1) n' (client_call (C_sleep_ms PING_INTERVAL_MS) s') = Some u"
      using Cons.prems(1,2) a by (simp add: p Let_def)
    moreover have "\<forall>k < length ps. quiet_rounds (i + 1 + of_nat (Suc k)) (snd (ps ! k))"
      using Cons.prems(5) by (auto simp: add.assoc dest: spec [of _ "Suc _"])
    moreover have "\<not> should_exit (client_call (C_sleep_ms PING_INTERVAL_MS) s')"
      using Cons.prems(2) st(1) by (simp add: should_exit_def client_call_def)
    ultimately have "pings_sent s + 1 + 20 \<le> pings_sent u + unat (i + 1)"
      using Cons.IH n' False lim(2) i sent(2) by fastforce
    then show ?thesis using i by simp
  qed
qed (simp add: should_exit_def)

text \<open>C30: the clock synchronisation ends whatever packets arrive or are lost, and where the setting for the
  number of pings is 20 it keeps what the setting promises: at most twice as many pings are sent, each of
  which ends by a reply, by its time-out or by a shutdown, and at least as many, unless the client is shut
  down or a reply comes twice. The client is then running unless the statistics fault.\<close>

theorem synchronisation_ends:
  assumes "ping_count ns = 20" "length pings \<ge> 40"
    and "\<And>t rounds. (t, rounds) \<in> set pings \<Longrightarrow> \<exists>r \<in> set rounds. sr_exit r \<or> sr_time r - t > PING_TIMEOUT_ns"
  shows "\<exists>s'. sync_loop pings 0 0 s = Some s' \<and> pings_sent s' \<le> pings_sent s + 2 * unat (ping_count ns)
    \<and> (\<not> should_exit s \<and> (\<forall>k < length pings. quiet_rounds (of_nat (Suc k)) (snd (pings ! k))) \<longrightarrow>
         pings_sent s + unat (ping_count ns) \<le> pings_sent s')
    \<and> (\<exists>r. syncing_thread_main pings s = Some r \<and> (\<forall>t. r = Inr t \<longrightarrow> cl_state t = CL_RUNNING))"
proof -
  obtain s' where run: "sync_loop pings 0 0 s = Some s'" "pings_sent s' \<le> pings_sent s + 40"
    using sync_loop_returns [of 0 pings 0 s] assms(2,3) by auto
  moreover have "pings_sent s + 20 \<le> pings_sent s'"
    if "\<not> should_exit s" "\<forall>k < length pings. quiet_rounds (of_nat (Suc k)) (snd (pings ! k))"
    using sync_loop_at_least [OF run(1) that(1)] that(2) by simp
  ultimately show ?thesis
    by (auto simp: assms(1) syncing_thread_main_def and_then_Inr Let_def)
qed

theorem synchronisation_ends_witness:
  "\<exists>s'. sync_loop (replicate 40 (0, [\<lparr>sr_exit = False, sr_packets = [], sr_time = 600000000\<rparr>])) 0 0
      (sample_client example_rtt_bucket) = Some s'
    \<and> pings_sent (sample_client example_rtt_bucket) + 20 \<le> pings_sent s'"
proof -
  let ?pings = "replicate 40 (0, [\<lparr>sr_exit = False, sr_packets = [], sr_time = 600000000\<rparr>])"
  have "\<not> should_exit (sample_client example_rtt_bucket)"
    by (simp add: should_exit_def sample_client_def)
  moreover have "\<forall>k < length ?pings. quiet_rounds (of_nat (Suc k)) (snd (?pings ! k))"
    by (simp add: quiet_rounds_def)
  ultimately show ?thesis
    using synchronisation_ends [of default_network_settings ?pings "sample_client example_rtt_bucket"]
    by (auto simp: PING_TIMEOUT_ns_def default_network_settings_def)
qed

end
