(* ===== verification/CaptureTransfer.thy ===== *)
theory CaptureTransfer
  imports Samples
begin

text \<open>
  A captured frame on its way from the client (\<open>save_and_send_frame_if_needed\<close>) to the file that the
  server writes (\<open>handle_vrcp_packet\<close>).
\<close>

section \<open>One fragment\<close>

definition is_fragment :: "bytes \<Rightarrow> nat \<Rightarrow> VRCPFrameCaptureFragment \<Rightarrow> bytes \<Rightarrow> bool" where
  "is_fragment buf offset p w \<longleftrightarrow>
     (let n = min (length buf - offset) FRAGMENT_SIZE in
      w = VRCPFrameCaptureFragment_bytes p @ take n (drop offset buf) @ replicate (padded n - n) 0
      \<and> fc_ftype p = FRAME_CAPTURE_FRAGMENT \<and> fc_full_size p = htonl (of_nat (length buf))
      \<and> fc_offset p = htonl (of_nat offset) \<and> fc_size p = htonl (of_nat n)
      \<and> fc_n_rows p = of_nat ((padded n + 16) div 4)
      \<and> (fc_last p \<noteq> 0 \<longleftrightarrow> offset + n \<ge> length buf))"

lemma sint_small: "k < 2 ^ 31 \<Longrightarrow> sint (of_nat k :: u32) = int k"
  by (simp add: signed_of_nat signed_take_bit_int_eq_self)

lemma ucast_of_nat_small: "k < 2 ^ 32 \<Longrightarrow> ucast (of_nat k :: u64) = (of_nat k :: u32)"
  by (simp add: unsigned_of_nat take_bit_nat_eq_self)

lemma fragment_fields:
  assumes "is_fragment buf offset p w"
  shows "VRCPFrameCaptureFragment_of w = p" "to_ft (load8 w) = FRAME_CAPTURE_FRAGMENT"
    "drop 16 w = take (min (length buf - offset) FRAGMENT_SIZE) (drop offset buf)
       @ replicate (padded (min (length buf - offset) FRAGMENT_SIZE) - min (length buf - offset) FRAGMENT_SIZE) 0"
    "16 \<le> length w"
proof -
  obtain rest where w: "w = VRCPFrameCaptureFragment_bytes p @ rest" "fc_ftype p = FRAME_CAPTURE_FRAGMENT"
    using assms by (auto simp: is_fragment_def Let_def)
  show "VRCPFrameCaptureFragment_of w = p"
    unfolding w(1) by (rule fc_layout.dec_enc_append) (simp add: w(2) to_ft_def)
  show "to_ft (load8 w) = FRAME_CAPTURE_FRAGMENT"
    by (simp add: w VRCPFrameCaptureFragment_bytes_def to_ft_def)
  show "16 \<le> length w" by (simp add: w fc_layout.enc_size)
  show "drop 16 w = take (min (length buf - offset) FRAGMENT_SIZE) (drop offset buf)
       @ replicate (padded (min (length buf - offset) FRAGMENT_SIZE) - min (length buf - offset) FRAGMENT_SIZE) 0"
    using assms by (simp add: is_fragment_def Let_def fc_layout.enc_size)
qed

lemma fragment_copied:
  assumes frag: "is_fragment buf offset p w" and L: "length buf < 2 ^ 31" "offset \<le> length buf" "length B = length buf"
  shows "copy_fragment w B = Inr (write_at offset (take (min (length buf - offset) FRAGMENT_SIZE) (drop offset buf)) B,
    of_nat (min (length buf - offset) FRAGMENT_SIZE))"
proof -
  let ?n = "min (length buf - offset) FRAGMENT_SIZE"
  have fields: "ntohl (fc_size p) = of_nat ?n" "ntohl (fc_offset p) = of_nat offset"
    using frag by (simp_all add: is_fragment_def Let_def)
  have off: "unat (of_nat offset :: u32) = offset" using L by (simp add: unsigned_of_nat take_bit_nat_eq_self)
  have "(of_nat (length B) :: u64) - ucast (of_nat offset :: u32) = of_nat (length buf - offset)"
    using L by (simp add: unsigned_of_nat take_bit_nat_eq_self of_nat_diff)
  then have cap: "(ucast ((of_nat (length B) :: u64) - ucast (of_nat offset :: u32)) :: u32) = of_nat (length buf - offset)"
    using ucast_of_nat_small [of "length buf - offset"] L by (simp only:) simp
  then have n: "fragment_copy_size p (length B) = int ?n"
    unfolding fragment_copy_size_def fields cap
    using sint_small [of "length buf - offset"] sint_small [of ?n] L by simp
  show ?thesis
    using L by (simp add: copy_fragment_def Let_def fragment_fields [OF frag] n [unfolded L(3)] fields off sizeof_VRCPFrameCaptureFragment_def)
qed

text \<open>A fragment that is not the last fills its part of the buffer; the last one saves the frame.\<close>

definition filled :: "bytes \<Rightarrow> nat \<Rightarrow> server_data \<Rightarrow> bool" where
  "filled buf offset s \<longleftrightarrow> sv_image_offset s = of_nat offset
     \<and> (\<exists>B. sv_capture_buffer s = Some B \<and> length B = length buf \<and> take offset B = take offset buf)"

lemma fragment_written:
  assumes "offset + length bs \<le> length B" "length B = length buf" "take offset B = take offset buf"
    and "bs = take n (drop offset buf)" "n \<le> length buf - offset"
  shows "take (offset + n) (write_at offset bs B) = take (offset + n) buf"
    and "length (write_at offset bs B) = length buf"
  using assms by (simp_all add: write_at_def take_add)

lemma handle_fragment_filled:
  assumes frag: "is_fragment buf offset p w" and L: "length buf < 2 ^ 31" "offset < length buf"
    and s: "filled buf offset s" "sv_client_bucket s = Some b"
    and opens: "se_file_opens env (capture_file_name s (cb_nb_saved_frames b))"
  shows "\<exists>t. handle_fragment env w s = Inr t \<and>
    (let n = min (length buf - offset) FRAGMENT_SIZE in
     if offset + n < length buf
     then filled buf (offset + n) t \<and> sv_client_bucket t = Some b \<and> sv_calls t = sv_calls s
       \<and> sv_current_pass t = sv_current_pass s \<and> sv_current_run t = sv_current_run s
     else sv_capture_buffer t = None \<and> sv_client_bucket t = Some (client_add_saved_frame b)
       \<and> sv_calls t = sv_calls s @ [Write_file (capture_file_name s (cb_nb_saved_frames b)) buf])"
proof -
  let ?n = "min (length buf - offset) FRAGMENT_SIZE"
  obtain B where B: "sv_capture_buffer s = Some B" "length B = length buf" "take offset B = take offset buf"
    and off: "sv_image_offset s = of_nat offset"
    using s(1) by (auto simp: filled_def)
  let ?B = "write_at offset (take ?n (drop offset buf)) B"
  let ?t = "s\<lparr>sv_capture_buffer := Some ?B, sv_total_received_bytes := sv_total_received_bytes s + of_nat ?n,
    sv_image_offset := sv_image_offset s + of_nat ?n\<rparr>"
  have u: "unat (of_nat k :: u32) = k" if "k < 2 ^ 31" for k
    using that by (simp add: unsigned_of_nat take_bit_nat_eq_self)
  have fields: "ntohl (fc_size p) = of_nat ?n" "ntohl (fc_offset p) = of_nat offset" "ntohl (fc_full_size p) = of_nat (length buf)"
    "fc_last p \<noteq> 0 \<longleftrightarrow> offset + ?n \<ge> length buf"
    using frag by (simp_all add: is_fragment_def Let_def)
  have lw: "length w - 16 \<ge> ?n"
    using arg_cong [OF fragment_fields(3) [OF frag], of length] L by simp
  have pos: "(of_nat (length buf) :: u32) > 0" using u [of "length buf"] L by (auto simp: word_less_nat_alt)
  have written: "take (offset + ?n) ?B = take (offset + ?n) buf" "length ?B = length buf"
    by (rule fragment_written [where n = ?n]; use B L in simp)+
  have step: "handle_fragment env w s = (if fc_last p \<noteq> 0 then save_capture env ?B ?t else Inr ?t)"
    using L lw fragment_copied [OF frag L(1) _ B(2)] pos
    by (simp add: handle_fragment_def Let_def fragment_fields(1) [OF frag] fields(1,2,3) u B(1,2) off sizeof_VRCPFrameCaptureFragment_def)
  show ?thesis
  proof (cases "offset + ?n < length buf")
    case True
    then show ?thesis
      using step fields(4) written off s(2) by (auto simp: filled_def Let_def intro!: exI [of _ ?t])
  next
    case False
    then have "?B = buf" using written by simp
    moreover have "fc_last p \<noteq> 0" using False fields(4) by simp
    ultimately show ?thesis
      using step opens s(2) False
      by (simp add: save_capture_def store_in_client_bucket_def ensure_client_bucket_exists_def Let_def
          capture_file_name_def client_add_saved_frame_def call_def)
  qed
qed

section \<open>All fragments\<close>

lemma fragments_step:
  assumes "offset < length buf" "fc_ftype p = FRAME_CAPTURE_FRAGMENT" "fc_full_size p = htonl (of_nat (length buf))" "fc_last p = 0"
  shows "\<exists>w p'. fragments buf offset p = w # fragments buf (offset + FRAGMENT_SIZE) p' \<and> is_fragment buf offset p' w
    \<and> fc_ftype p' = FRAME_CAPTURE_FRAGMENT \<and> fc_full_size p' = htonl (of_nat (length buf))
    \<and> (offset + FRAGMENT_SIZE < length buf \<longrightarrow> fc_last p' = 0)"
  using assms by (subst fragments.simps)
    (auto simp: is_fragment_def Let_def sizeof_VRCPFrameCaptureFragment_def intro!: exI)

lemma packet_is_fragment: "is_fragment buf offset p w \<Longrightarrow> handle_vrcp_packet env w s = handle_fragment env w s"
  using fragment_fields(2,4) [of buf offset p w]
  by (simp add: handle_vrcp_packet_def Let_def sizeof_VRCPFrameCaptureFragment_def)

lemma fragments_end: "length buf \<le> offset \<Longrightarrow> fragments buf offset p = []"
  by (subst fragments.simps) simp

lemma fragments_handled:
  assumes "length buf < 2 ^ 31" "offset < length buf" "filled buf offset s" "sv_client_bucket s = Some b"
    and "se_file_opens env (capture_file_name s (cb_nb_saved_frames b))"
    and "fc_ftype p = FRAME_CAPTURE_FRAGMENT" "fc_full_size p = htonl (of_nat (length buf))" "fc_last p = 0"
  shows "\<exists>t. handle_packets env (fragments buf offset p) s = Inr t \<and> sv_capture_buffer t = None
    \<and> sv_client_bucket t = Some (client_add_saved_frame b)
    \<and> sv_calls t = sv_calls s @ [Write_file (capture_file_name s (cb_nb_saved_frames b)) buf]"
  using assms
proof (induction "length buf - offset" arbitrary: offset p s rule: less_induct)
  case less
  let ?n = "min (length buf - offset) FRAGMENT_SIZE"
  obtain w p' where w: "fragments buf offset p = w # fragments buf (offset + FRAGMENT_SIZE) p'" "is_fragment buf offset p' w"
    and p': "fc_ftype p' = FRAME_CAPTURE_FRAGMENT" "fc_full_size p' = htonl (of_nat (length buf))"
      "offset + FRAGMENT_SIZE < length buf \<Longrightarrow> fc_last p' = 0"
    using fragments_step [of offset buf p] less.prems by blast
  obtain t where t: "handle_fragment env w s = Inr t" and
    cases: "if offset + ?n < length buf
     then filled buf (offset + ?n) t \<and> sv_client_bucket t = Some b \<and> sv_calls t = sv_calls s
       \<and> sv_current_pass t = sv_current_pass s \<and> sv_current_run t = sv_current_run s
     else sv_capture_buffer t = None \<and> sv_client_bucket t = Some (client_add_saved_frame b)
       \<and> sv_calls t = sv_calls s @ [Write_file (capture_file_name s (cb_nb_saved_frames b)) buf]"
    using handle_fragment_filled [OF w(2) less.prems(1-5)] by (auto simp: Let_def)
  show ?case
  proof (cases "offset + FRAGMENT_SIZE < length buf")
    case True
    then have "?n = FRAGMENT_SIZE" "offset + ?n < length buf" by simp_all
    with cases have c: "filled buf (offset + FRAGMENT_SIZE) t" "sv_client_bucket t = Some b" "sv_calls t = sv_calls s"
      "capture_file_name t k = capture_file_name s k" for k
      by (simp_all add: capture_file_name_def)
    have dec: "length buf - (offset + FRAGMENT_SIZE) < length buf - offset"
      using less.prems(2) by (simp add: FRAGMENT_SIZE_def)
    show ?thesis
      using less.hyps [OF dec less.prems(1) True c(1,2), of p'] less.prems(2,5) p' True c(3,4) t
      by (auto simp: w(1) packet_is_fragment [OF w(2)])
  next
    case False
    then show ?thesis
      using cases t by (simp add: w(1) fragments_end packet_is_fragment [OF w(2)])
  qed
qed

lemma fragment_framed:
  assumes "is_fragment buf offset p w"
  shows "length w = 4 * unat (load8 (drop 1 w))"
proof -
  let ?n = "min (length buf - offset) FRAGMENT_SIZE"
  have w: "w = VRCPFrameCaptureFragment_bytes p @ take ?n (drop offset buf) @ replicate (padded ?n - ?n) 0"
    and rows: "fc_n_rows p = of_nat ((padded ?n + 16) div 4)"
    using assms by (simp_all add: is_fragment_def Let_def)
  have n: "?n \<le> padded ?n" "padded ?n \<le> 400" "4 dvd padded ?n" "?n \<le> length (drop offset buf)"
    by (simp_all add: padded_def FRAGMENT_SIZE_def)
  have "(padded ?n + 16) div 4 < 256" using n(2) by simp
  then have "unat (fc_n_rows p) = (padded ?n + 16) div 4"
    unfolding rows by (simp add: unsigned_of_nat take_bit_nat_eq_self)
  moreover have "load8 (drop 1 w) = fc_n_rows p" by (simp add: w VRCPFrameCaptureFragment_bytes_def)
  moreover have "length w = 16 + padded ?n" using n(1,4) by (simp add: w fc_layout.enc_size)
  ultimately show ?thesis using n(3) by auto
qed

lemma fragments_framed:
  assumes "fc_ftype p = FRAME_CAPTURE_FRAGMENT" "fc_full_size p = htonl (of_nat (length buf))" "offset < length buf \<Longrightarrow> fc_last p = 0"
  shows "list_all (\<lambda>w. length w = 4 * unat (load8 (drop 1 w))) (fragments buf offset p)"
  using assms
proof (induction "length buf - offset" arbitrary: offset p rule: less_induct)
  case less
  show ?case
  proof (cases "offset < length buf")
    case True
    then obtain w p' where w: "fragments buf offset p = w # fragments buf (offset + FRAGMENT_SIZE) p'" "is_fragment buf offset p' w"
      and p': "fc_ftype p' = FRAME_CAPTURE_FRAGMENT" "fc_full_size p' = htonl (of_nat (length buf))"
        "offset + FRAGMENT_SIZE < length buf \<Longrightarrow> fc_last p' = 0"
      using fragments_step [of offset buf p] less.prems by blast
    have "length buf - (offset + FRAGMENT_SIZE) < length buf - offset" using True by (simp add: FRAGMENT_SIZE_def)
    from less.hyps [OF this p'] fragment_framed [OF w(2)] show ?thesis by (simp add: w(1))
  qed (simp add: fragments_end)
qed

lemma first_fragment:
  assumes frag: "is_fragment buf 0 p w" and L: "0 < length buf" "length buf < 2 ^ 31"
    and s: "sv_capture_buffer s = None" "ensure_client_bucket_exists env s = Inr s0"
    and fresh: "length (se_fresh env (length buf)) = length buf"
  shows "handle_fragment env w s
    = handle_fragment env w (s0\<lparr>sv_capture_buffer := Some (se_fresh env (length buf)), sv_image_offset := 0\<rparr>)"
proof -
  have u: "unat (of_nat k :: u32) = k" if "k < 2 ^ 31" for k
    using that by (simp add: unsigned_of_nat take_bit_nat_eq_self)
  have fields: "ntohl (fc_offset p) = 0" "ntohl (fc_full_size p) = of_nat (length buf)"
      "ntohl (fc_size p) = of_nat (min (length buf) FRAGMENT_SIZE)"
    using frag by (simp_all add: is_fragment_def Let_def)
  have "length w - 16 \<ge> min (length buf) FRAGMENT_SIZE"
    using arg_cong [OF fragment_fields(3) [OF frag], of length] by simp
  moreover have "(of_nat (length buf) :: u32) > 0" using u [of "length buf"] L by (auto simp: word_less_nat_alt)
  ultimately show ?thesis
    using s L fresh by (simp add: handle_fragment_def Let_def fragment_fields(1) [OF frag] fields u sizeof_VRCPFrameCaptureFragment_def)
qed

lemma sent_fragments:
  "cl_calls (fold (\<lambda>w. client_call (C_reliable_send w 0)) ws c) = cl_calls c @ map (\<lambda>w. C_reliable_send w 0) ws"
  by (induction ws arbitrary: c) (simp_all add: client_call_def)

text \<open>C7: a captured frame arrives as it was: the fragments that the client sends for a frame of at most
  \<open>2 ^ 31 - 1\<close> bytes, handled by the server in this order, make it write exactly the bytes of the
  frame to the file of its number, count the frame, and be ready for the next one; and every fragment
  has the length that its header announces.\<close>

theorem capture_transferred:
  assumes "0 < length buf" "length buf < 2 ^ 31"
    and "sv_capture_buffer s = None" "ensure_client_bucket_exists env s = Inr s0" "sv_client_bucket s0 = Some b"
    and "length (se_fresh env (length buf)) = length buf"
    and "se_file_opens env (capture_file_name s (cb_nb_saved_frames b))"
  shows "\<exists>ws t. cl_calls (save_and_send_frame_if_needed (True, Some buf) c) = cl_calls c @ map (\<lambda>w. C_reliable_send w 0) ws
    \<and> list_all (\<lambda>w. length w = 4 * unat (load8 (drop 1 w))) ws
    \<and> handle_packets env ws s = Inr t
    \<and> sv_calls t = sv_calls s @ [Write_file (capture_file_name s (cb_nb_saved_frames b)) buf]
    \<and> sv_capture_buffer t = None \<and> sv_client_bucket t = Some (client_add_saved_frame b)"
proof -
  let ?p = "default_VRCPFrameCaptureFragment\<lparr>fc_last := 0, fc_full_size := htonl (of_nat (length buf))\<rparr>"
  let ?s = "s0\<lparr>sv_capture_buffer := Some (se_fresh env (length buf)), sv_image_offset := 0\<rparr>"
  have p: "fc_ftype ?p = FRAME_CAPTURE_FRAGMENT" "fc_full_size ?p = htonl (of_nat (length buf))" "fc_last ?p = 0"
    by (simp_all add: default_VRCPFrameCaptureFragment_def)
  have s0: "sv_calls s0 = sv_calls s" "capture_file_name s0 k = capture_file_name s k" for k
    using assms(4) by (auto simp: ensure_client_bucket_exists_def and_then_Inr capture_file_name_def split: option.splits)
  have "filled buf 0 ?s" using assms(6) by (simp add: filled_def)
  moreover have "capture_file_name ?s k = capture_file_name s k" for k
    using s0(2) [of k] by (simp add: capture_file_name_def)
  ultimately obtain t where t: "handle_packets env (fragments buf 0 ?p) ?s = Inr t" "sv_capture_buffer t = None"
      "sv_client_bucket t = Some (client_add_saved_frame b)"
      "sv_calls t = sv_calls s @ [Write_file (capture_file_name s (cb_nb_saved_frames b)) buf]"
    using fragments_handled [OF assms(2,1), of ?s b env ?p] p assms(5,7) s0(1) by auto
  obtain w p' ws where "fragments buf 0 ?p = w # ws" "is_fragment buf 0 p' w"
    using fragments_step [OF assms(1) p] by blast
  then have "handle_packets env (fragments buf 0 ?p) s = Inr t"
    using t(1) first_fragment [OF _ assms(1,2,3,4,6)] by (simp add: packet_is_fragment)
  then show ?thesis
    using t assms(1) fragments_framed [of ?p buf 0] p
    by (intro exI [of _ "fragments buf 0 ?p"] exI [of _ t])
      (simp add: save_and_send_frame_if_needed_def sent_fragments)
qed

text \<open>A frame of 410 bytes: two fragments, the second one padded.\<close>

theorem capture_transferred_witness:
  "\<exists>ws t. cl_calls (save_and_send_frame_if_needed (True, Some (replicate 410 7)) (sample_client example_rtt_bucket))
       = map (\<lambda>w. C_reliable_send w 0) ws
    \<and> handle_packets (sample_env 9) ws (sample_server default_settings []) = Inr t
    \<and> sv_calls t = [Write_file ''wvb_capture_pass_0_run_0_client_0.rgba'' (replicate 410 7)]"
proof -
  let ?s = "sample_server default_settings []" and ?buf = "replicate 410 (7 :: u8)"
  have "ensure_client_bucket_exists (sample_env 9) ?s = Inr (?s\<lparr>sv_client_bucket := Some (new_client_bucket 2)\<rparr>)"
    by (simp add: ensure_client_bucket_exists_def sample_server_def new_RTPClock_ntp_def set_epoch_def sample_env_def
        sample_clock_env_def UNIX_EPOCH_NTP_def NS_PER_SEC_def Let_def)
  from capture_transferred [of ?buf, OF _ _ _ this, of "new_client_bucket 2" "sample_client example_rtt_bucket"]
  obtain ws t where "cl_calls (save_and_send_frame_if_needed (True, Some ?buf) (sample_client example_rtt_bucket))
       = cl_calls (sample_client example_rtt_bucket) @ map (\<lambda>w. C_reliable_send w 0) ws"
    "handle_packets (sample_env 9) ws ?s = Inr t"
    "sv_calls t = sv_calls ?s @ [Write_file (capture_file_name ?s 0) ?buf]"
    by (auto simp: sample_env_def sample_server_def new_client_bucket_def)
  moreover have "capture_file_name ?s 0 = ''wvb_capture_pass_0_run_0_client_0.rgba''"
    by (simp add: capture_file_name_def sample_server_def string_of_nat.simps char_of_def bit_0)
  ultimately show ?thesis by (auto simp: sample_client_def sample_server_def)
qed

end
