(* ===== verification/MeasurementTransfer.thy ===== *)
theory MeasurementTransfer
  imports Samples
begin

text \<open>
  The measurements of a run on their way from the client (\<open>send_measurements\<close>) into the bucket that the
  server keeps for it (\<open>handle_vrcp_packet\<close>).
\<close>

section \<open>What the client sends\<close>

definition measurement_packets :: "ClientMeasurementBucket \<Rightarrow> bytes list" where
  "measurement_packets b =
     map (VRCPSocketMeasurement_bytes \<circ> mk_VRCPSocketMeasurement) (m_socket_measurements b)
     @ map (VRCPNetworkMeasurement_bytes \<circ> mk_VRCPNetworkMeasurement) (cb_network_measurements b)
     @ map (VRCPFrameTimeMeasurement_bytes \<circ> mk_VRCPFrameTimeMeasurement) (cb_frame_measurements b)
     @ map (VRCPImageQualityMeasurement_bytes \<circ> mk_VRCPImageQualityMeasurement) (cb_image_quality_measurements b)
     @ map (VRCPTrackingTimeMeasurement_bytes \<circ> mk_VRCPTrackingTimeMeasurement) (cb_tracking_measurements b)
     @ [VRCPMeasurementTransferFinished_bytes (transfer_finished b)]"

definition sent_stream :: "client_call list \<Rightarrow> bytes" where
  "sent_stream cs = concat (map (\<lambda>c. case c of C_reliable_send w _ \<Rightarrow> w | _ \<Rightarrow> []) cs)"

lemma measurements_sent:
  assumes "measurements_complete clk (cl_measurement_bucket c)"
  shows "\<exists>cs. cl_calls (send_measurements clk c) = cl_calls c @ cs
    \<and> sent_stream cs = concat (measurement_packets (cl_measurement_bucket c))"
proof -
  have "cl_calls (soft_shutdown c) = cl_calls c" "cl_measurement_bucket (soft_shutdown c) = cl_measurement_bucket c"
    by (simp_all add: soft_shutdown_def)
  then show ?thesis
    using assms by (simp add: send_measurements_def Let_def send_array_def client_call_def measurement_packets_def sent_stream_def)
qed

section \<open>How the server stores it\<close>

text \<open>A packet whose handling stores one measurement in a bucket that exists and accepts everything.\<close>

definition accepting :: "server_data \<Rightarrow> ClientMeasurementBucket \<Rightarrow> bool" where
  "accepting s b \<longleftrightarrow> sv_client_bucket s = Some b \<and> m_mode b = ACCEPT_ALL \<and> m_rtp_clock b \<noteq> None"

lemma accepting_phases:
  "accepting s b \<Longrightarrow> is_in_timing_phase clk b" "accepting s b \<Longrightarrow> is_in_image_quality_phase clk b"
  by (auto simp: accepting_def is_in_timing_phase_def is_in_image_quality_phase_def)

lemma stored:
  "sv_client_bucket s = Some b \<Longrightarrow> store_in_client_bucket env f s = Inr (s\<lparr>sv_client_bucket := Some (f b)\<rparr>)"
  by (simp add: store_in_client_bucket_def ensure_client_bucket_exists_def)

lemma ftypes:
  "to_ft (load8 (VRCPSocketMeasurement_bytes (mk_VRCPSocketMeasurement m1))) = SOCKET_MEASUREMENT"
  "to_ft (load8 (VRCPNetworkMeasurement_bytes (mk_VRCPNetworkMeasurement m2))) = NETWORK_MEASUREMENT"
  "to_ft (load8 (VRCPFrameTimeMeasurement_bytes (mk_VRCPFrameTimeMeasurement m3))) = FRAME_TIME_MEASUREMENT"
  "to_ft (load8 (VRCPImageQualityMeasurement_bytes (mk_VRCPImageQualityMeasurement m4))) = IMAGE_QUALITY_MEASUREMENT"
  "to_ft (load8 (VRCPTrackingTimeMeasurement_bytes (mk_VRCPTrackingTimeMeasurement m5))) = TRACKING_TIME_MEASUREMENT"
  "to_ft (load8 (VRCPMeasurementTransferFinished_bytes (transfer_finished b))) = MEASUREMENT_TRANSFER_FINISHED"
  by (simp_all add: VRCPSocketMeasurement_bytes_def VRCPNetworkMeasurement_bytes_def VRCPFrameTimeMeasurement_bytes_def
      VRCPImageQualityMeasurement_bytes_def VRCPTrackingTimeMeasurement_bytes_def VRCPMeasurementTransferFinished_bytes_def
      mk_VRCPSocketMeasurement_def mk_VRCPNetworkMeasurement_def mk_VRCPFrameTimeMeasurement_def
      mk_VRCPImageQualityMeasurement_def mk_VRCPTrackingTimeMeasurement_def transfer_finished_def
      default_VRCPSocketMeasurement_def default_VRCPNetworkMeasurement_def default_VRCPFrameTimeMeasurement_def
      default_VRCPImageQualityMeasurement_def default_VRCPTrackingTimeMeasurement_def
      default_VRCPMeasurementTransferFinished_def to_ft_def)

text \<open>Sockets with a listed id and type: only those are converted back.\<close>

definition socket_listed :: "SocketMeasurements \<Rightarrow> bool" where
  "socket_listed m \<longleftrightarrow> socket_id_of (socket_id_u8 (sm_socket_id m)) = sm_socket_id m
     \<and> socket_type_of (socket_type_u8 (sm_socket_type m)) = sm_socket_type m"

lemmas measurement_bytes = so_packet.over_wire [where rs = "[]", simplified] ne_packet.over_wire [where rs = "[]", simplified]
  fm_packet.over_wire [where rs = "[]", simplified] im_packet.over_wire [where rs = "[]", simplified]

lemmas measurement_sizes = so_layout.enc_size ne_layout.enc_size fm_layout.enc_size im_layout.enc_size tm_layout.enc_size
  tf_layout.enc_size

lemma handle_socket:
  "accepting s b \<Longrightarrow> socket_listed m \<Longrightarrow>
     handle_vrcp_packet env (VRCPSocketMeasurement_bytes (mk_VRCPSocketMeasurement m)) s
       = Inr (s\<lparr>sv_client_bucket := Some (b\<lparr>m_socket_measurements := m_socket_measurements b @ [m]\<rparr>)\<rparr>)"
  using accepting_phases(1) [of s b "se_now env"]
  by (simp add: handle_vrcp_packet_def Let_def ftypes measurement_sizes stored accepting_def measurement_bytes
      socket_listed_def add_socket_measurements_def)

lemma handle_network:
  "accepting s b \<Longrightarrow>
     handle_vrcp_packet env (VRCPNetworkMeasurement_bytes (mk_VRCPNetworkMeasurement m)) s
       = Inr (s\<lparr>sv_client_bucket := Some (b\<lparr>cb_network_measurements := cb_network_measurements b @ [m]\<rparr>)\<rparr>)"
  by (simp add: handle_vrcp_packet_def Let_def ftypes measurement_sizes stored accepting_def measurement_bytes
      client_add_network_measurement_def)

lemma handle_frame_time:
  "accepting s b \<Longrightarrow>
     handle_vrcp_packet env (VRCPFrameTimeMeasurement_bytes (mk_VRCPFrameTimeMeasurement m)) s
       = Inr (s\<lparr>sv_client_bucket := Some (b\<lparr>cb_frame_measurements := cb_frame_measurements b @ [m]\<rparr>)\<rparr>)"
  using accepting_phases(1) [of s b "se_now env"]
  by (simp add: handle_vrcp_packet_def Let_def ftypes measurement_sizes stored accepting_def measurement_bytes
      client_add_frame_time_measurement_def)

lemma handle_image_quality:
  "accepting s b \<Longrightarrow>
     handle_vrcp_packet env (VRCPImageQualityMeasurement_bytes (mk_VRCPImageQualityMeasurement m)) s
       = Inr (s\<lparr>sv_client_bucket := Some (b\<lparr>cb_image_quality_measurements := cb_image_quality_measurements b @ [m]\<rparr>)\<rparr>)"
  using accepting_phases(2) [of s b "se_now env"]
  by (simp add: handle_vrcp_packet_def Let_def ftypes measurement_sizes stored accepting_def measurement_bytes
      client_add_image_quality_measurement_def)

text \<open>The 16 bytes of a tracking time measurement never have the size that the server asks for.\<close>

lemma handle_tracking_time_dropped:
  "handle_vrcp_packet env (VRCPTrackingTimeMeasurement_bytes (mk_VRCPTrackingTimeMeasurement m)) s = Inr s"
  by (simp add: handle_vrcp_packet_def Let_def ftypes measurement_sizes)

section \<open>A whole transfer\<close>

lemma handle_packets_append: "handle_packets env (ws @ vs) s = and_then (handle_packets env ws s) (handle_packets env vs)"
proof (induction ws arbitrary: s)
  case (Cons w ws)
  then show ?case by (cases "handle_vrcp_packet env w s") simp_all
qed simp

lemma handle_packets_one: "handle_packets env [w] s = handle_vrcp_packet env w s"
  by (cases "handle_vrcp_packet env w s") simp_all

text \<open>Packets of one kind: \<open>all\<close> adds their measurements to the bucket.\<close>

lemma handle_each:
  assumes one: "\<And>s b m. accepting s b \<Longrightarrow> ok m \<Longrightarrow> handle_vrcp_packet env (enc m) s = Inr (s\<lparr>sv_client_bucket := Some (all [m] b)\<rparr>)"
    and keep: "\<And>m b. m_mode (all [m] b) = m_mode b \<and> m_rtp_clock (all [m] b) = m_rtp_clock b"
    and all: "\<And>b. all [] b = b" "\<And>m ms b. all ms (all [m] b) = all (m # ms) b"
  shows "accepting s b \<Longrightarrow> list_all ok ms \<Longrightarrow> handle_packets env (map enc ms) s = Inr (s\<lparr>sv_client_bucket := Some (all ms b)\<rparr>)"
proof (induction ms arbitrary: s b)
  case Nil
  then show ?case by (simp add: accepting_def all)
next
  case (Cons m ms)
  then have "accepting (s\<lparr>sv_client_bucket := Some (all [m] b)\<rparr>) (all [m] b)" by (simp add: accepting_def keep)
  with Cons one [of s b m] show ?case by (simp add: all(2))
qed

lemma handle_sockets:
  assumes "accepting s b" "list_all socket_listed ms"
  shows "handle_packets env (map (VRCPSocketMeasurement_bytes \<circ> mk_VRCPSocketMeasurement) ms) s
    = Inr (s\<lparr>sv_client_bucket := Some (b\<lparr>m_socket_measurements := m_socket_measurements b @ ms\<rparr>)\<rparr>)"
  by (rule handle_each [where ok = "socket_listed" and all = "\<lambda>ms b. b\<lparr>m_socket_measurements := m_socket_measurements b @ ms\<rparr>"])
    (use assms in \<open>simp_all add: handle_socket list_all_iff\<close>)

lemma handle_networks:
  assumes "accepting s b"
  shows "handle_packets env (map (VRCPNetworkMeasurement_bytes \<circ> mk_VRCPNetworkMeasurement) ms) s
    = Inr (s\<lparr>sv_client_bucket := Some (b\<lparr>cb_network_measurements := cb_network_measurements b @ ms\<rparr>)\<rparr>)"
  by (rule handle_each [where ok = "\<lambda>_. True" and all = "\<lambda>ms b. b\<lparr>cb_network_measurements := cb_network_measurements b @ ms\<rparr>"])
    (use assms in \<open>simp_all add: handle_network list_all_iff\<close>)

lemma handle_frame_times:
  assumes "accepting s b"
  shows "handle_packets env (map (VRCPFrameTimeMeasurement_bytes \<circ> mk_VRCPFrameTimeMeasurement) ms) s
    = Inr (s\<lparr>sv_client_bucket := Some (b\<lparr>cb_frame_measurements := cb_frame_measurements b @ ms\<rparr>)\<rparr>)"
  by (rule handle_each [where ok = "\<lambda>_. True" and all = "\<lambda>ms b. b\<lparr>cb_frame_measurements := cb_frame_measurements b @ ms\<rparr>"])
    (use assms in \<open>simp_all add: handle_frame_time list_all_iff\<close>)

lemma handle_image_qualities:
  assumes "accepting s b"
  shows "handle_packets env (map (VRCPImageQualityMeasurement_bytes \<circ> mk_VRCPImageQualityMeasurement) ms) s
    = Inr (s\<lparr>sv_client_bucket := Some (b\<lparr>cb_image_quality_measurements := cb_image_quality_measurements b @ ms\<rparr>)\<rparr>)"
  by (rule handle_each [where ok = "\<lambda>_. True" and all = "\<lambda>ms b. b\<lparr>cb_image_quality_measurements := cb_image_quality_measurements b @ ms\<rparr>"])
    (use assms in \<open>simp_all add: handle_image_quality list_all_iff\<close>)

lemma handle_tracking_times:
  "handle_packets env (map (VRCPTrackingTimeMeasurement_bytes \<circ> mk_VRCPTrackingTimeMeasurement) ms) s = Inr s"
  by (induction ms) (simp_all add: handle_tracking_time_dropped)

lemma handle_finished:
  assumes "sv_client_bucket s = Some b"
  shows "handle_vrcp_packet env (VRCPMeasurementTransferFinished_bytes (transfer_finished cb)) s
    = handle_measurements_received env (s\<lparr>sv_client_bucket := Some (b\<lparr>cb_decoder_nb_pushed_frames := ucast (ucast (get_decoder_frame_delay cb) :: u8),
        cb_nb_dropped_frames := cb_nb_dropped_frames cb, cb_nb_catched_up_frames := cb_nb_catched_up_frames cb,
        m_mode := FINISHED\<rparr>)\<rparr>)"
proof -
  have "VRCPMeasurementTransferFinished_of (VRCPMeasurementTransferFinished_bytes (transfer_finished cb) @ []) = transfer_finished cb"
    by (rule tf_layout.dec_enc_append) (simp add: transfer_finished_def default_VRCPMeasurementTransferFinished_def to_ft_def)
  moreover have "tf_decoder_frame_delay (transfer_finished cb) = ucast (get_decoder_frame_delay cb)"
    "ntohl (tf_nb_dropped_frames (transfer_finished cb)) = cb_nb_dropped_frames cb"
    "ntohl (tf_nb_catched_up_frames (transfer_finished cb)) = cb_nb_catched_up_frames cb"
    by (simp_all add: transfer_finished_def)
  ultimately show ?thesis
    using assms
    by (simp add: handle_vrcp_packet_def Let_def ftypes measurement_sizes stored finish_client_bucket_def
        set_as_finished_def set_nb_catched_up_frames_def set_nb_dropped_frames_def set_decoder_frame_delay_def)
qed

text \<open>C10: the measurements of a run arrive, except the tracking times. The stream that the client sends is
  the sequence of the packets of its measurements, and the server, handling these packets, ends with
  the client's socket, network, frame time and image quality measurements and its counters in its
  bucket, in order, and marks the bucket as finished, before it looks whether the run is complete.
  The tracking times are all dropped; the decoder's delay is cut to 8 bits.\<close>

theorem measurements_transferred:
  assumes "measurements_complete clk cb" "cl_measurement_bucket c = cb" "list_all socket_listed (m_socket_measurements cb)"
    and "sv_client_bucket s = Some b" "m_mode b = ACCEPT_ALL" "m_rtp_clock b \<noteq> None"
  shows "\<exists>cs ws. cl_calls (send_measurements clk c) = cl_calls c @ cs \<and> sent_stream cs = concat ws
    \<and> handle_packets env ws s = handle_measurements_received env (s\<lparr>sv_client_bucket := Some (b
        \<lparr>m_socket_measurements := m_socket_measurements b @ m_socket_measurements cb,
         cb_network_measurements := cb_network_measurements b @ cb_network_measurements cb,
         cb_frame_measurements := cb_frame_measurements b @ cb_frame_measurements cb,
         cb_image_quality_measurements := cb_image_quality_measurements b @ cb_image_quality_measurements cb,
         cb_decoder_nb_pushed_frames := ucast (ucast (get_decoder_frame_delay cb) :: u8),
         cb_nb_dropped_frames := cb_nb_dropped_frames cb, cb_nb_catched_up_frames := cb_nb_catched_up_frames cb,
         m_mode := FINISHED\<rparr>)\<rparr>)"
proof -
  obtain cs where cs: "cl_calls (send_measurements clk c) = cl_calls c @ cs" "sent_stream cs = concat (measurement_packets cb)"
    using measurements_sent [of clk c] assms(1,2) by blast
  have a: "accepting s b" using assms(4-6) by (simp add: accepting_def)
  let ?b1 = "b\<lparr>m_socket_measurements := m_socket_measurements b @ m_socket_measurements cb\<rparr>"
  let ?b2 = "?b1\<lparr>cb_network_measurements := cb_network_measurements b @ cb_network_measurements cb\<rparr>"
  let ?b3 = "?b2\<lparr>cb_frame_measurements := cb_frame_measurements b @ cb_frame_measurements cb\<rparr>"
  have acc: "accepting (s\<lparr>sv_client_bucket := Some ?b1\<rparr>) ?b1" "accepting (s\<lparr>sv_client_bucket := Some ?b2\<rparr>) ?b2"
    "accepting (s\<lparr>sv_client_bucket := Some ?b3\<rparr>) ?b3"
    using assms(5,6) by (simp_all add: accepting_def)
  have "handle_packets env (measurement_packets cb) s = handle_measurements_received env (s\<lparr>sv_client_bucket := Some (b
        \<lparr>m_socket_measurements := m_socket_measurements b @ m_socket_measurements cb,
         cb_network_measurements := cb_network_measurements b @ cb_network_measurements cb,
         cb_frame_measurements := cb_frame_measurements b @ cb_frame_measurements cb,
         cb_image_quality_measurements := cb_image_quality_measurements b @ cb_image_quality_measurements cb,
         cb_decoder_nb_pushed_frames := ucast (ucast (get_decoder_frame_delay cb) :: u8),
         cb_nb_dropped_frames := cb_nb_dropped_frames cb, cb_nb_catched_up_frames := cb_nb_catched_up_frames cb,
         m_mode := FINISHED\<rparr>)\<rparr>)"
    unfolding measurement_packets_def handle_packets_append
    by (simp add: handle_sockets [OF a assms(3)] handle_networks [OF acc(1)] handle_frame_times [OF acc(2)]
        handle_image_qualities [OF acc(3)] handle_tracking_times handle_packets_one handle_finished
        del: handle_packets.simps)
  then show ?thesis using cs by blast
qed

definition run_bucket :: ClientMeasurementBucket where
  "run_bucket = (new_client_bucket 0)\<lparr>m_mode := FINISHED, cb_nb_saved_frames := 10, cb_nb_dropped_frames := 4,
     cb_network_measurements := [\<lparr>nm_rtt_us = 900, nm_clock_error_us = - 3\<rparr>],
     cb_tracking_measurements := [\<lparr>tt_pose_timestamp = 1, tt_tracking_received_timestamp = 2, tt_tracking_processed_timestamp = 3\<rparr>]\<rparr>"

theorem measurements_transferred_witness:
  "\<exists>ws t b. handle_packets (sample_env 9) ws ((sample_server default_settings [])\<lparr>sv_client_bucket := Some (new_client_bucket 2)\<rparr>) = Inr t
    \<and> sv_client_bucket t = Some b \<and> cb_network_measurements b = [\<lparr>nm_rtt_us = 900, nm_clock_error_us = - 3\<rparr>]
    \<and> cb_tracking_measurements b = [] \<and> cb_nb_dropped_frames b = 4"
proof -
  have "measurements_complete (\<lambda>_. 0) run_bucket"
    by (simp add: measurements_complete_def run_bucket_def new_client_bucket_def)
  from measurements_transferred [OF this, of "sample_client run_bucket"
      "(sample_server default_settings [])\<lparr>sv_client_bucket := Some (new_client_bucket 2)\<rparr>" "new_client_bucket 2" "sample_env 9"]
  obtain ws where "handle_packets (sample_env 9) ws ((sample_server default_settings [])\<lparr>sv_client_bucket := Some (new_client_bucket 2)\<rparr>)
      = handle_measurements_received (sample_env 9) ((sample_server default_settings [])\<lparr>sv_client_bucket := Some ((new_client_bucket 2)
          \<lparr>cb_network_measurements := [\<lparr>nm_rtt_us = 900, nm_clock_error_us = - 3\<rparr>], cb_nb_dropped_frames := 4, m_mode := FINISHED\<rparr>)\<rparr>)"
    by (auto simp: sample_client_def run_bucket_def new_client_bucket_def get_decoder_frame_delay_def)
  then show ?thesis
    by (intro exI [of _ ws] exI conjI) (auto simp: handle_measurements_received_def sample_server_def new_client_bucket_def)
qed

end
