(* ===== verification/DriverDevice.thy ===== *)
theory DriverDevice
  imports SharedState
begin

text \<open>
  \<open>wvb_driver/src/device_drivers.cpp\<close>: the two device drivers that SteamVR sees, the virtual headset and
  the one that only serves to end SteamVR. \<open>hmd_driver\<close> holds the members of \<open>VirtualHMDDriver\<close>;
  \<open>driver_links\<close> what its shared pointers refer to, and the calls into OpenVR in their order.
  High-resolution times are nanoseconds. Floating-point operations are arguments.
\<close>

section \<open>State\<close>

definition ACTIVE_WAIT_MARGIN_US :: int where "ACTIVE_WAIT_MARGIN_US = 2000"
definition WAIT_MARGIN_OFFSET_US :: int where "WAIT_MARGIN_OFFSET_US = 3000"
definition WVB_WAIT_TIMEOUT_MS :: u32 where "WVB_WAIT_TIMEOUT_MS = 50"
definition WVB_MAX_WAIT_COUNT :: u8 where "WVB_MAX_WAIT_COUNT = 10"

definition INVALID_OBJECT_ID :: u32 where "INVALID_OBJECT_ID = 0xFFFFFFFF"

definition WVB_VIRTUAL_DEVICE_SERIAL_NUMBER :: string where
  "WVB_VIRTUAL_DEVICE_SERIAL_NUMBER = ''WVB-VirtualHMD''"
definition WVB_VIRTUAL_DEVICE_MODEL_NUMBER :: string where
  "WVB_VIRTUAL_DEVICE_MODEL_NUMBER = ''wireless_vr_bridge virtual device''"
definition WVB_VIRTUAL_DEVICE_RENDER_MODEL_NAME :: string where
  "WVB_VIRTUAL_DEVICE_RENDER_MODEL_NAME = ''wireless_vr_bridge_virtual_device''"
definition WVB_UNIVERSE_ID :: u64 where "WVB_UNIVERSE_ID = 0x575642"
definition WVB_VERSION :: string where "WVB_VERSION = ''0.1.0''"

type_synonym f64 = u64

text \<open>The members of OpenVR's pose that the driver sets; the result is whether it is \<open>Running_OK\<close>.\<close>

record driver_pose =
  dp_time_offset :: f64
  dp_world_from_driver_w :: f64
  dp_driver_from_head_w :: f64
  dp_position :: "f64 \<times> f64 \<times> f64"
  dp_rotation :: "f64 \<times> f64 \<times> f64 \<times> f64"
  dp_running_ok :: bool
  dp_valid :: bool
  dp_will_drift :: bool
  dp_head_model :: bool
  dp_connected :: bool

definition zero_pose :: driver_pose where
  "zero_pose = \<lparr>dp_time_offset = 0, dp_world_from_driver_w = 0, dp_driver_from_head_w = 0, dp_position = (0, 0, 0),
     dp_rotation = (0, 0, 0, 0), dp_running_ok = False, dp_valid = False, dp_will_drift = False,
     dp_head_model = False, dp_connected = False\<rparr>"

datatype property_value = P_string string | P_bool bool | P_float f32 | P_uint64 u64

datatype driver_call =
    Device_added bool
  | Set_property string property_value
  | Motion_smoothing bool
  | Quit_requested u32
  | Enter_standby_requested u32
  | Leave_standby_requested u32
  | Vsync_event f64
  | Pose_updated u32 driver_pose
  | Sleep_us int
  | Event_thread_started
  | Event_thread_joined

record driver_links =
  dl_shared :: ServerDriverSharedData
  dl_server_events :: ServerEvents
  dl_driver_events :: DriverEvents
  dl_bucket :: DriverMeasurementBucket
  dl_calls :: "driver_call list"

record hmd_driver =
  hd_should_exit :: bool
  hd_current_frame :: DriverFrameTimeMeasurements
  hd_frame_number :: u64
  hd_last_vsync_time :: int
  hd_last_wait_time :: int
  hd_wait_margin_us :: u32
  hd_specs :: VRSystemSpecs
  hd_pose :: driver_pose
  hd_fov_left :: Fov
  hd_fov_right :: Fov
  hd_latest_pose_timestamp :: u32
  hd_latest_accessed_pose_timestamp :: u32
  hd_start_time :: int
  hd_frame_logged :: bool
  hd_object_id :: u32
  hd_rtp_clock :: RTPClock
  hd_event_thread_running :: bool

definition driver_call :: "driver_call \<Rightarrow> 'a driver_links_scheme \<Rightarrow> 'a driver_links_scheme" where
  "driver_call c d = d\<lparr>dl_calls := dl_calls d @ [c]\<rparr>"

definition driver_locked ::
    "bool \<Rightarrow> (ServerDriverSharedData \<Rightarrow> ServerDriverSharedData) \<Rightarrow> 'a driver_links_scheme \<Rightarrow> 'a driver_links_scheme result" where
  "driver_locked got f d =
     (if got then Inr (d\<lparr>dl_shared := f (dl_shared d)\<rparr>) else Inl (UndefinedBehaviour ''null shared data''))"

definition signal_driver_state_changed :: "'a driver_links_scheme \<Rightarrow> 'a driver_links_scheme" where
  "signal_driver_state_changed d = d\<lparr>dl_driver_events := (dl_driver_events d)
     \<lparr>ev_driver_state_changed := event_signal (ev_driver_state_changed (dl_driver_events d))\<rparr>\<rparr>"

definition signal_new_present_info :: "'a driver_links_scheme \<Rightarrow> 'a driver_links_scheme" where
  "signal_new_present_info d = d\<lparr>dl_driver_events := (dl_driver_events d)
     \<lparr>ev_new_present_info := event_signal (ev_new_present_info (dl_driver_events d))\<rparr>\<rparr>"

definition signal_new_measurements :: "'a driver_links_scheme \<Rightarrow> 'a driver_links_scheme" where
  "signal_new_measurements d = d\<lparr>dl_driver_events := (dl_driver_events d)
     \<lparr>ev_new_measurements := event_signal (ev_new_measurements (dl_driver_events d))\<rparr>\<rparr>"

section \<open>The driver that ends SteamVR\<close>

text \<open>Its only member is the object id.\<close>

definition shutdown_activate :: "u32 \<Rightarrow> u32 \<Rightarrow> u32" where
  "shutdown_activate object_id m_object_id = object_id"

definition shutdown_SendStopSignal :: "u32 \<Rightarrow> 'a driver_links_scheme \<Rightarrow> 'a driver_links_scheme" where
  "shutdown_SendStopSignal m_object_id d = driver_call (Quit_requested m_object_id) d"

section \<open>Life of the headset\<close>

definition zero_fov :: Fov where
  "zero_fov = \<lparr>fov_l = 0, fov_r = 0, fov_u = 0, fov_d = 0\<rparr>"

definition zero_frame_times :: DriverFrameTimeMeasurements where
  "zero_frame_times = \<lparr>df_frame_id = 0, df_present_called_timestamp = 0, df_vsync_timestamp = 0,
     df_frame_sent_timestamp = 0, df_wait_for_present_called_timestamp = 0, df_server_finished_timestamp = 0,
     df_pose_updated_event_timestamp = 0\<rparr>"

text \<open>The clock is created now, and then set to the epoch of the session, which may fail.\<close>

definition new_hmd :: "bool \<Rightarrow> clock_env \<Rightarrow> VRSystemSpecs \<Rightarrow> 'a driver_links_scheme \<Rightarrow> hmd_driver result" where
  "new_hmd got e specs d =
     (if \<not> got then Inl (UndefinedBehaviour ''null shared data'')
      else case set_epoch e (sd_ntp_epoch (dl_shared d)) (new_RTPClock e) of
        (Inl f, _) \<Rightarrow> Inl f
      | (Inr _, c) \<Rightarrow> Inr
          \<lparr>hd_should_exit = False, hd_current_frame = zero_frame_times, hd_frame_number = 0, hd_last_vsync_time = 0,
           hd_last_wait_time = 0, hd_wait_margin_us = 0, hd_specs = specs, hd_pose = zero_pose,
           hd_fov_left = zero_fov, hd_fov_right = zero_fov, hd_latest_pose_timestamp = 0,
           hd_latest_accessed_pose_timestamp = 0, hd_start_time = 0, hd_frame_logged = False,
           hd_object_id = INVALID_OBJECT_ID, hd_rtp_clock = c, hd_event_thread_running = False\<rparr>)"

text \<open>The properties of the device, in the order in which they are set, and the one setting of SteamVR.\<close>

definition hmd_property_calls :: "(RefreshRate \<Rightarrow> f32) \<Rightarrow> VRSystemSpecs \<Rightarrow> driver_call list" where
  "hmd_property_calls to_float specs =
    [Set_property ''ModelNumber'' (P_string WVB_VIRTUAL_DEVICE_MODEL_NUMBER),
     Set_property ''SerialNumber'' (P_string WVB_VIRTUAL_DEVICE_SERIAL_NUMBER),
     Set_property ''RenderModelName'' (P_string WVB_VIRTUAL_DEVICE_RENDER_MODEL_NAME),
     Set_property ''ManufacturerName'' (P_string (manufacturer_name specs)),
     Set_property ''WillDriftInYaw'' (P_bool False),
     Set_property ''DeviceIsWireless'' (P_bool True),
     Set_property ''DeviceIsCharging'' (P_bool False),
     Set_property ''DeviceBatteryPercentage'' (P_float 0x3F800000),
     Set_property ''DeviceProvidesBatteryStatus'' (P_bool False),
     Set_property ''DeviceCanPowerOff'' (P_bool True),
     Set_property ''Firmware_UpdateAvailable'' (P_bool False),
     Set_property ''Firmware_ManualUpdate'' (P_bool False),
     Set_property ''Firmware_ManualUpdateURL'' (P_string ''''),
     Set_property ''HasCamera'' (P_bool False),
     Set_property ''Firmware_ForceUpdateRequired'' (P_bool False),
     Set_property ''CurrentUniverseId'' (P_uint64 WVB_UNIVERSE_ID),
     Set_property ''IsOnDesktop'' (P_bool False),
     Set_property ''DisplaySuppressed'' (P_bool False),
     Set_property ''DisplayAllowNightMode'' (P_bool False),
     Set_property ''ReportsTimeSinceVSync'' (P_bool True),
     Set_property ''DriverVersion'' (P_string WVB_VERSION),
     Set_property ''ContainsProximitySensor'' (P_bool False),
     Set_property ''BlockServerShutdown'' (P_bool False),
     Set_property ''CanUnifyCoordinateSystemWithHmd'' (P_bool True),
     Set_property ''DriverProvidedChaperoneVisibility'' (P_bool True),
     Set_property ''UserIpdMeters'' (P_float (ipd specs)),
     Set_property ''UserHeadToEyeDepthMeters'' (P_float (eye_to_head_distance specs)),
     Set_property ''DisplayFrequency'' (P_float (to_float (refresh_rate specs))),
     Set_property ''SecondsFromVsyncToPhotons'' (P_float 0x3C23D70A),
     Motion_smoothing False,
     Set_property ''HasSpatialAnchorsSupport'' (P_bool False)]"

text \<open>The doubles 1.7 and 1.\<close>

definition initial_pose :: driver_pose where
  "initial_pose = zero_pose\<lparr>dp_valid := True, dp_running_ok := True, dp_connected := True,
     dp_position := (0, 0x3FFB333333333333, 0), dp_world_from_driver_w := 0x3FF0000000000000,
     dp_driver_from_head_w := 0x3FF0000000000000\<rparr>"

text \<open>\<open>interval\<close> is \<open>GetFrameIntervalUs\<close>, a computation in floats from the refresh rate.\<close>

definition set_driver_state_if :: "bool \<Rightarrow> DriverState \<Rightarrow> 'a driver_links_scheme \<Rightarrow> 'a driver_links_scheme" where
  "set_driver_state_if got st d = (if got then d\<lparr>dl_shared := (dl_shared d)\<lparr>sd_driver_state := st\<rparr>\<rparr> else d)"

definition Activate ::
    "(RefreshRate \<Rightarrow> f32) \<Rightarrow> (RefreshRate \<Rightarrow> u32) \<Rightarrow> bool \<Rightarrow> int \<Rightarrow> u32
     \<Rightarrow> hmd_driver \<times> 'a driver_links_scheme \<Rightarrow> hmd_driver \<times> 'a driver_links_scheme" where
  "Activate to_float interval got time object_id = (\<lambda>(h, d).
     (h\<lparr>hd_object_id := object_id, hd_pose := initial_pose, hd_start_time := time,
        hd_last_vsync_time := time - 1000 * uint (interval (refresh_rate (hd_specs h))),
        hd_event_thread_running := True\<rparr>,
      signal_driver_state_changed (set_driver_state_if got DRV_RUNNING
        (d\<lparr>dl_calls := dl_calls d @ hmd_property_calls to_float (hd_specs h) @ [Event_thread_started]\<rparr>))))"

text \<open>The join waits for the event thread, whose loop ends because its flag is cleared.\<close>

definition Deactivate :: "bool \<Rightarrow> hmd_driver \<times> 'a driver_links_scheme \<Rightarrow> hmd_driver \<times> 'a driver_links_scheme" where
  "Deactivate got = (\<lambda>(h, d).
     (h\<lparr>hd_event_thread_running := False, hd_object_id := INVALID_OBJECT_ID\<rparr>,
      signal_driver_state_changed (set_driver_state_if got DRV_READY (driver_call Event_thread_joined d))))"

definition SendStopSignal :: "hmd_driver \<times> 'a driver_links_scheme \<Rightarrow> hmd_driver \<times> 'a driver_links_scheme" where
  "SendStopSignal = (\<lambda>(h, d).
     (h\<lparr>hd_should_exit := True, hd_event_thread_running := False\<rparr>, driver_call (Quit_requested (hd_object_id h)) d))"

definition SendEnterStandbySignal :: "hmd_driver \<times> 'a driver_links_scheme \<Rightarrow> hmd_driver \<times> 'a driver_links_scheme" where
  "SendEnterStandbySignal = (\<lambda>(h, d). (h, driver_call (Enter_standby_requested (hd_object_id h)) d))"

definition SendLeaveStandbySignal :: "hmd_driver \<times> 'a driver_links_scheme \<Rightarrow> hmd_driver \<times> 'a driver_links_scheme" where
  "SendLeaveStandbySignal = (\<lambda>(h, d). (h, driver_call (Leave_standby_requested (hd_object_id h)) d))"

section \<open>Poses\<close>

definition GetPose ::
    "clock_now \<Rightarrow> clock_env \<Rightarrow> hmd_driver \<times> 'a driver_links_scheme \<Rightarrow> driver_pose \<times> hmd_driver \<times> 'a driver_links_scheme" where
  "GetPose clk e = (\<lambda>(h, d).
     (hd_pose h,
      h\<lparr>hd_latest_accessed_pose_timestamp := hd_latest_pose_timestamp h\<rparr>,
      d\<lparr>dl_bucket := driver_add_pose_access_measurement clk
          \<lparr>pa_pose_timestamp = hd_latest_pose_timestamp h, pa_pose_accessed_timestamp = now_rtp_timestamp e (hd_rtp_clock h)\<rparr>
          (dl_bucket d)\<rparr>))"

text \<open>The pose for OpenVR from the shared tracking state; \<open>widen\<close> converts a float to a double.\<close>

definition read_tracking :: "(f32 \<Rightarrow> f64) \<Rightarrow> TrackingState \<Rightarrow> hmd_driver \<Rightarrow> hmd_driver" where
  "read_tracking widen t h =
     (let q = orientation (ts_pose t); p = position (ts_pose t) in
      h\<lparr>hd_pose := (hd_pose h)\<lparr>dp_rotation := (widen (q_w q), widen (q_x q), widen (q_y q), widen (q_z q)),
            dp_position := (widen (v_x p), widen (v_y p), widen (v_z p)),
            dp_time_offset := 0, dp_valid := True, dp_connected := True, dp_will_drift := False,
            dp_head_model := False, dp_running_ok := True\<rparr>,
        hd_fov_left := ts_fov_left t, hd_fov_right := ts_fov_right t,
        hd_latest_pose_timestamp := ts_pose_timestamp t\<rparr>)"

text \<open>
  One pass of the event thread: the deadline clock and whether tracking data is signalled in time, the
  clock when it was received and when it was processed, and whether the lock was obtained.
\<close>

record event_pass =
  ep_wait_clock :: timespec
  ep_posted :: bool
  ep_received :: clock_env
  ep_locked :: bool
  ep_processed :: clock_env
  ep_now :: clock_now

text \<open>The measurement is saved even when no tracking data came, unless the lock failed.\<close>

definition event_thread_pass ::
    "(f32 \<Rightarrow> f64) \<Rightarrow> event_pass \<Rightarrow> TrackingTimeMeasurements \<times> hmd_driver \<times> 'a driver_links_scheme
     \<Rightarrow> TrackingTimeMeasurements \<times> hmd_driver \<times> 'a driver_links_scheme" where
  "event_thread_pass widen i = (\<lambda>(m, h, d).
     (case event_wait (ep_wait_clock i) (ep_posted i) [] WVB_WAIT_TIMEOUT_MS (ev_new_tracking_data (dl_server_events d)) of
        None \<Rightarrow> (m, h, d)
      | Some (signaled, v) \<Rightarrow>
          let d1 = d\<lparr>dl_server_events := (dl_server_events d)\<lparr>ev_new_tracking_data := v\<rparr>\<rparr> in
          if signaled
          then
            let m1 = m\<lparr>tt_tracking_received_timestamp := now_rtp_timestamp (ep_received i) (hd_rtp_clock h)\<rparr> in
            if \<not> ep_locked i then (m1, h, d1)
            else
              let h1 = read_tracking widen (sd_tracking_state (dl_shared d1)) h;
                  m2 = m1\<lparr>tt_pose_timestamp := hd_latest_pose_timestamp h1,
                     tt_tracking_processed_timestamp := now_rtp_timestamp (ep_processed i) (hd_rtp_clock h1)\<rparr>
              in (m2, h1, d1\<lparr>dl_bucket := driver_add_tracking_time_measurement (ep_now i) m2 (dl_bucket d1)\<rparr>)
          else (m, h, d1\<lparr>dl_bucket := driver_add_tracking_time_measurement (ep_now i) m (dl_bucket d1)\<rparr>)))"

section \<open>Frames\<close>

text \<open>Whole microseconds between two times.\<close>

definition us_between :: "int \<Rightarrow> int \<Rightarrow> int" where
  "us_between t u = (u - t) sdiv 1000"

text \<open>The active wait over the readings of the clock: the last one; None while it goes on.\<close>

fun active_wait :: "int \<Rightarrow> u32 \<Rightarrow> int \<Rightarrow> int list \<Rightarrow> int option" where
  "active_wait last_vsync interval t ts =
     (if us_between last_vsync t < uint interval
      then (case ts of [] \<Rightarrow> None | t' # ts' \<Rightarrow> active_wait last_vsync interval t' ts')
      else Some t)"

text \<open>\<open>start\<close> is the reading before the wait and \<open>ts\<close> those after the sleep.\<close>

definition WaitForVsync ::
    "u32 \<Rightarrow> u32 \<Rightarrow> int \<Rightarrow> int list \<Rightarrow> hmd_driver \<times> 'a driver_links_scheme \<Rightarrow> (hmd_driver \<times> 'a driver_links_scheme) option" where
  "WaitForVsync interval margin_us start ts = (\<lambda>(h, d).
     let should_wait = uint interval - us_between (hd_last_vsync_time h) start - uint margin_us in
     if should_wait \<le> 0 then Some (h, d)
     else
       let d1 = (if should_wait > ACTIVE_WAIT_MARGIN_US
             then driver_call (Sleep_us (should_wait - ACTIVE_WAIT_MARGIN_US)) d else d)
       in (case active_wait (hd_last_vsync_time h) interval start ts of None \<Rightarrow> None
          | Some t \<Rightarrow> Some (h\<lparr>hd_last_wait_time := t\<rparr>, d1)))"

text \<open>What SteamVR passes for a frame.\<close>

record present_info =
  pi_backbuffer :: u64
  pi_frame_id :: u64
  pi_vsync_time :: f64

text \<open>The readings that \<open>Present\<close> makes, in their order, and whether the lock was obtained.\<close>

record present_env =
  pe_now :: int
  pe_called :: clock_env
  pe_wait_start :: int
  pe_wait :: "int list"
  pe_vsync :: int
  pe_vsync_clock :: clock_env
  pe_locked :: bool
  pe_sample :: clock_env
  pe_sent :: clock_env

definition Present ::
    "(RefreshRate \<Rightarrow> u32) \<Rightarrow> present_env \<Rightarrow> present_info option \<Rightarrow> hmd_driver \<times> 'a driver_links_scheme
     \<Rightarrow> (hmd_driver \<times> 'a driver_links_scheme) result option" where
  "Present interval e info = (\<lambda>(h, d).
     (case info of None \<Rightarrow> Some (Inr (h, d))
      | Some i \<Rightarrow>
          let c = hd_rtp_clock h; n = pi_frame_id i;
              h1 = h\<lparr>hd_frame_number := n, hd_frame_logged := False,
                hd_current_frame := (hd_current_frame h)\<lparr>df_frame_id := ucast n,
                  df_present_called_timestamp := now_rtp_timestamp (pe_called e) c\<rparr>\<rparr>;
              h2 = (if n > 1 then h1\<lparr>hd_wait_margin_us :=
                    word_of_int (us_between (hd_last_wait_time h1) (pe_now e) + WAIT_MARGIN_OFFSET_US)\<rparr> else h1)
          in (case WaitForVsync (interval (refresh_rate (hd_specs h2))) 0 (pe_wait_start e) (pe_wait e) (h2, d) of
               None \<Rightarrow> None
             | Some (h3, d1) \<Rightarrow>
                 let h4 = h3\<lparr>hd_last_vsync_time := pe_vsync e, hd_current_frame := (hd_current_frame h3)
                       \<lparr>df_vsync_timestamp := now_rtp_timestamp (pe_vsync_clock e) c\<rparr>\<rparr>;
                     present = \<lparr>backbuffer_texture_handle = pi_backbuffer i, frame_id = n,
                       vsync_time_in_seconds = pi_vsync_time i,
                       sample_rtp_timestamp = now_rtp_timestamp (pe_sample e) c,
                       pose_rtp_timestamp = hd_latest_accessed_pose_timestamp h4\<rparr>
                 in (case driver_locked (pe_locked e) (\<lambda>s. s\<lparr>sd_latest_present_info := present\<rparr>) d1 of
                      Inl f \<Rightarrow> Some (Inl f)
                    | Inr d2 \<Rightarrow> Some (Inr (h4\<lparr>hd_current_frame := (hd_current_frame h4)
                        \<lparr>df_frame_sent_timestamp := now_rtp_timestamp (pe_sent e) c\<rparr>\<rparr>, signal_new_present_info d2))))))"

text \<open>
  Waiting for the server to finish the frame. One round is the clock of the deadline, whether the
  server signals in time, and whether the driver should exit after that.
\<close>

fun await_frame_finished :: "(timespec \<times> bool \<times> bool) list \<Rightarrow> u8 \<Rightarrow> sem \<Rightarrow> sem option" where
  "await_frame_finished [] wait_count v = None"
| "await_frame_finished ((clock, posted, exit) # rs) wait_count v =
     (case event_wait clock posted [] WVB_WAIT_TIMEOUT_MS v of
        None \<Rightarrow> None
      | Some (True, v') \<Rightarrow> Some v'
      | Some (False, v') \<Rightarrow>
          if \<not> exit \<and> wait_count < WVB_MAX_WAIT_COUNT then await_frame_finished rs (wait_count + 1) v'
          else Some v')"

text \<open>
  The operations on doubles: the quotient of microseconds by a million, the sum, and the test for a
  negative number. The loop adds frame intervals until the time is not in the past.
\<close>

record double_ops =
  seconds_of_us :: "int \<Rightarrow> f64"
  dbl_add :: "f64 \<Rightarrow> f64 \<Rightarrow> f64"
  dbl_negative :: "f64 \<Rightarrow> bool"

partial_function (option) add_intervals :: "double_ops \<Rightarrow> u32 \<Rightarrow> f64 \<Rightarrow> f64 option" where
  "add_intervals ops interval x =
     (if dbl_negative ops x then add_intervals ops interval (dbl_add ops x (seconds_of_us ops (uint interval))) else Some x)"

record present_wait_env =
  pw_called :: clock_env
  pw_rounds :: "(timespec \<times> bool \<times> bool) list"
  pw_finished :: clock_env
  pw_now :: int
  pw_pose :: clock_env
  pw_pose_now :: clock_now
  pw_updated :: clock_env
  pw_frame_now :: clock_now

definition WaitForPresent ::
    "double_ops \<Rightarrow> (RefreshRate \<Rightarrow> u32) \<Rightarrow> present_wait_env \<Rightarrow> hmd_driver \<times> 'a driver_links_scheme
     \<Rightarrow> (hmd_driver \<times> 'a driver_links_scheme) option" where
  "WaitForPresent ops interval e = (\<lambda>(h, d).
     let c = hd_rtp_clock h; us = interval (refresh_rate (hd_specs h)) in
     (case await_frame_finished (pw_rounds e) 0 (ev_frame_finished (dl_server_events d)) of None \<Rightarrow> None
      | Some v \<Rightarrow>
          let h1 = h\<lparr>hd_current_frame := (hd_current_frame h)
                \<lparr>df_wait_for_present_called_timestamp := now_rtp_timestamp (pw_called e) c,
                 df_server_finished_timestamp := now_rtp_timestamp (pw_finished e) c\<rparr>\<rparr>;
              d1 = d\<lparr>dl_server_events := (dl_server_events d)\<lparr>ev_frame_finished := v\<rparr>\<rparr>;
              left = us_between (pw_now e) (hd_last_vsync_time h1 + 1000 * uint us)
          in (case add_intervals ops us (seconds_of_us ops left) of None \<Rightarrow> None
             | Some x \<Rightarrow>
                 (case GetPose (pw_pose_now e) (pw_pose e) (h1, driver_call (Vsync_event x) d1) of (pose, h2, d2) \<Rightarrow>
                    let d3 = driver_call (Pose_updated (hd_object_id h2) pose) d2;
                        h3 = h2\<lparr>hd_current_frame := (hd_current_frame h2)
                          \<lparr>df_pose_updated_event_timestamp := now_rtp_timestamp (pw_updated e) c\<rparr>\<rparr>
                    in Some (h3, d3\<lparr>dl_bucket := driver_add_frame_time_measurement (pw_frame_now e)
                         (hd_current_frame h3) (dl_bucket d3)\<rparr>)))))"

section \<open>Display\<close>

definition GetRecommendedRenderTargetSize :: "hmd_driver \<Rightarrow> u32 \<times> u32" where
  "GetRecommendedRenderTargetSize h =
     (ext_width (eye_resolution (hd_specs h)) * 2, ext_height (eye_resolution (hd_specs h)))"

text \<open>The rectangle of an eye: x, y, width and height.\<close>

definition GetEyeOutputViewport :: "bool \<Rightarrow> hmd_driver \<Rightarrow> u32 \<times> u32 \<times> u32 \<times> u32" where
  "GetEyeOutputViewport is_left h =
     (if is_left then 0 else ext_width (eye_resolution (hd_specs h)), 0,
      ext_width (eye_resolution (hd_specs h)), ext_height (eye_resolution (hd_specs h)))"

definition GetWindowBounds :: "hmd_driver \<Rightarrow> u32 \<times> u32 \<times> u32 \<times> u32" where
  "GetWindowBounds h =
     (0, 0, ext_width (eye_resolution (hd_specs h)) * 2, ext_height (eye_resolution (hd_specs h)))"

text \<open>Left, right, top and bottom; the tangent and the negation of floats are arguments.\<close>

definition GetProjectionRaw :: "(f32 \<Rightarrow> f32) \<Rightarrow> (f32 \<Rightarrow> f32) \<Rightarrow> bool \<Rightarrow> hmd_driver \<Rightarrow> f32 \<times> f32 \<times> f32 \<times> f32" where
  "GetProjectionRaw tan_f neg_f is_left h =
     (let f = (if is_left then hd_fov_left h else hd_fov_right h)
      in (tan_f (fov_l f), tan_f (fov_r f), tan_f (neg_f (fov_u f)), tan_f (neg_f (fov_d f))))"

text \<open>The coordinates for red, green and blue.\<close>

definition ComputeDistortion :: "f32 \<Rightarrow> f32 \<Rightarrow> (f32 \<times> f32) \<times> (f32 \<times> f32) \<times> (f32 \<times> f32)" where
  "ComputeDistortion u v = ((u, v), (u, v), (u, v))"

text \<open>\<open>seconds\<close> is the duration in microseconds, as a float, divided by a million.\<close>

definition GetTimeSinceLastVsync :: "(int \<Rightarrow> f32) \<Rightarrow> int \<Rightarrow> hmd_driver \<Rightarrow> bool \<times> f32 \<times> u64" where
  "GetTimeSinceLastVsync seconds time h =
     (True, seconds (us_between (hd_last_vsync_time h) time), hd_frame_number h)"

text \<open>The interfaces that SteamVR may ask for; their version strings come from OpenVR.\<close>

datatype hmd_component = Display_component | Virtual_display

definition GetComponent :: "string \<Rightarrow> string \<Rightarrow> string \<Rightarrow> hmd_component option" where
  "GetComponent display_version virtual_version name =
     (if name = display_version then Some Display_component
      else if name = virtual_version then Some Virtual_display else None)"

text \<open>The first byte of the response is cleared, if there is one.\<close>

definition DebugRequest :: "bytes \<Rightarrow> u32 \<Rightarrow> bytes" where
  "DebugRequest response_buffer response_buffer_size =
     (if response_buffer_size \<ge> 1 then response_buffer[0 := 0] else response_buffer)"

end
