(* ===== verification/DriverFrames.thy ===== *)
theory DriverFrames
  imports DriverDevice Samples
begin

text \<open>
  The virtual headset over time: SteamVR presents frames and asks for poses, the event thread reads the
  tracking data, and the server writes it. The step relation interleaves them; it carries what SteamVR
  was given as history variables.
\<close>

section \<open>A sample device\<close>

definition sample_links :: driver_links where
  "sample_links = \<lparr>dl_shared = sample_shared\<lparr>sd_ntp_epoch := 2208988800\<rparr>,
     dl_server_events = \<lparr>ev_server_state_changed = 0, ev_new_system_specs = 0, ev_frame_finished = 0,
       ev_new_tracking_data = 0, ev_new_benchmark_data = 0\<rparr>,
     dl_driver_events = \<lparr>ev_driver_state_changed = 0, ev_new_present_info = 0, ev_new_measurements = 0\<rparr>,
     dl_bucket = \<lparr>m_rtp_clock = None, m_window = default_window, m_mode = WINDOW,
       db_frame_measurements = [], db_tracking_measurements = [], db_pose_accesses_measurements = []\<rparr>, dl_calls = []\<rparr>"

definition sample_hmd :: hmd_driver where
  "sample_hmd = \<lparr>hd_should_exit = False, hd_current_frame = zero_frame_times, hd_frame_number = 0, hd_last_vsync_time = 0,
     hd_last_wait_time = 0, hd_wait_margin_us = 0, hd_specs = sample_specs, hd_pose = zero_pose,
     hd_fov_left = zero_fov, hd_fov_right = zero_fov, hd_latest_pose_timestamp = 0,
     hd_latest_accessed_pose_timestamp = 0, hd_start_time = 0, hd_frame_logged = False,
     hd_object_id = INVALID_OBJECT_ID, hd_rtp_clock = sample_clock, hd_event_thread_running = False\<rparr>"

lemma sample_hmd_made: "new_hmd True (sample_clock_env 0) sample_specs sample_links = Inr sample_hmd"
  by (simp add: new_hmd_def sample_links_def sample_shared_def set_epoch_def new_RTPClock_def reset_epoch_def
      default_RTPClock_def sample_clock_env_def sample_hmd_def sample_clock_def UNIX_EPOCH_NTP_def NS_PER_SEC_def
      RTP_EPOCH_OFFSET_ns_def Let_def)

section \<open>The waits end\<close>

lemma active_wait_returns:
  "(\<exists>u \<in> set (t # ts). us_between last_vsync u \<ge> uint interval) \<Longrightarrow> active_wait last_vsync interval t ts \<noteq> None"
proof (induction ts arbitrary: t)
  case (Cons a ts)
  then show ?case using Cons.IH [of a] by (cases "us_between last_vsync t < uint interval") auto
qed auto

lemma active_wait_reached:
  "active_wait last_vsync interval t ts = Some u \<Longrightarrow> us_between last_vsync u \<ge> uint interval \<and> u \<in> set (t # ts)"
  by (induction ts arbitrary: t) (fastforce split: if_splits)+

lemma event_wait_limited:
  "event_wait clock posted is' WVB_WAIT_TIMEOUT_MS v = Some (sem_timed_wait clock posted WVB_WAIT_TIMEOUT_MS v)"
  by (simp add: event_wait_def WVB_WAIT_TIMEOUT_MS_def NO_TIMEOUT_def)

lemma count_up:
  assumes "k < 10"
  shows "unat (of_nat k + 1 :: u8) = Suc k" "(of_nat k :: u8) < WVB_MAX_WAIT_COUNT"
proof -
  have "unat (of_nat k :: u8) = k" using assms by (simp add: unsigned_of_nat take_bit_nat_eq_self)
  then show "unat (of_nat k + 1 :: u8) = Suc k" "(of_nat k :: u8) < WVB_MAX_WAIT_COUNT"
    using assms by (simp_all add: unat_word_ariths word_less_nat_alt WVB_MAX_WAIT_COUNT_def)
qed

lemma await_returns:
  "k \<le> 10 \<Longrightarrow> length rs \<ge> 11 - k \<Longrightarrow> \<exists>u. await_frame_finished rs (of_nat k) v = Some u
    \<and> await_frame_finished (take (11 - k) rs) (of_nat k) v = Some u"
proof (induction "11 - k" arbitrary: k rs v)
  case (Suc n)
  then obtain clock posted exit rest where rs: "rs = (clock, posted, exit) # rest" by (cases rs) auto
  obtain f v' where f: "sem_timed_wait clock posted WVB_WAIT_TIMEOUT_MS v = (f, v')" by fastforce
  show ?case
  proof (cases "k < 10")
    case True
    have "n = 11 - Suc k" "Suc k \<le> 10" "11 - Suc k \<le> length rest" using Suc True rs by auto
    from Suc.hyps(1) [OF this, of v'] show ?thesis
      using f True rs count_up [OF True] by (cases f) (auto simp: event_wait_limited take_Cons' add.commute)
  next
    case False
    then have "k = 10" using Suc by simp
    then show ?thesis using f rs by (cases f) (auto simp: event_wait_limited WVB_MAX_WAIT_COUNT_def)
  qed
qed simp

text \<open>C34: the driver never holds SteamVR for ever: the wait for the vsync returns as soon as one reading
  of the clock is a frame interval past the last vsync, and the wait for the server ends after at most
  eleven time-outs of 50 ms, whatever the server does.\<close>

theorem driver_waits_end:
  assumes "\<exists>u \<in> set (start # ts). us_between (hd_last_vsync_time h) u \<ge> uint interval"
    and "length rounds \<ge> 11"
  shows "(\<exists>h' d'. WaitForVsync interval margin start ts (h, d :: 'a driver_links_scheme) = Some (h', d'))
    \<and> (\<exists>u. await_frame_finished rounds 0 v = Some u \<and> await_frame_finished (take 11 rounds) 0 v = Some u)"
proof -
  have "\<exists>h' d'. WaitForVsync interval margin start ts (h, d) = Some (h', d')"
    using active_wait_returns [OF assms(1)] by (auto simp: WaitForVsync_def Let_def split: option.splits)
  then show ?thesis using await_returns [of 0 rounds v] assms(2) by simp
qed

theorem driver_waits_end_witness:
  "\<exists>h' d'. WaitForVsync 13889 0 5000000 [12000000, 13889000] (sample_hmd, sample_links) = Some (h', d')
     \<and> (\<exists>u. await_frame_finished (replicate 11 (\<lparr>tv_sec = 0, tv_nsec = 0\<rparr>, False, False)) 0 0 = Some u)"
  using driver_waits_end [where start = 5000000 and ts = "[12000000, 13889000]" and h = sample_hmd and interval = 13889
      and rounds = "replicate 11 (\<lparr>tv_sec = 0, tv_nsec = 0\<rparr>, False, False)" and margin = 0 and d = sample_links and v = 0]
  by (simp add: sample_hmd_def us_between_def signed_divide_int_def)

section \<open>Steps\<close>

record device_world =
  dw_hmd :: hmd_driver
  dw_links :: driver_links
  dw_times :: TrackingTimeMeasurements
  dw_seen :: "TrackingState set"
  dw_given :: driver_pose
  dw_presented :: "driver_pose option"
  dw_frames :: nat

text \<open>
  The clock does not run backwards between the readings of one call. The server writes anything but the
  frame. The history: the tracking states
  that the shared memory held, the pose that SteamVR was given last, the one it had when it presented
  the latest frame, and the number of frames.
\<close>

definition present_in_order :: "present_env \<Rightarrow> bool" where
  "present_in_order e \<longleftrightarrow> (\<forall>t \<in> set (pe_wait_start e # pe_wait e). t \<le> pe_vsync e)"

inductive device_step ::
    "(f32 \<Rightarrow> f64) \<Rightarrow> double_ops \<Rightarrow> (RefreshRate \<Rightarrow> u32) \<Rightarrow> device_world \<Rightarrow> device_world \<Rightarrow> bool"
  for widen ops interval where
  step_server: "sd_latest_present_info s = sd_latest_present_info (dl_shared (dw_links w)) \<Longrightarrow>
    device_step widen ops interval w
      (w\<lparr>dw_links := (dw_links w)\<lparr>dl_shared := s, dl_server_events := ev, dl_driver_events := dev\<rparr>,
         dw_seen := insert (sd_tracking_state s) (dw_seen w)\<rparr>)"
| step_event_thread: "event_thread_pass widen i (dw_times w, dw_hmd w, dw_links w) = (m, h, d) \<Longrightarrow>
    device_step widen ops interval w (w\<lparr>dw_hmd := h, dw_links := d, dw_times := m\<rparr>)"
| step_get_pose: "GetPose clk e (dw_hmd w, dw_links w) = (p, h, d) \<Longrightarrow>
    device_step widen ops interval w (w\<lparr>dw_hmd := h, dw_links := d, dw_given := p\<rparr>)"
| step_present: "Present interval e (Some i) (dw_hmd w, dw_links w) = Some (Inr (h, d)) \<Longrightarrow> present_in_order e \<Longrightarrow>
    device_step widen ops interval w (w\<lparr>dw_hmd := h, dw_links := d, dw_presented := Some (dw_given w),
      dw_frames := dw_frames w + 1\<rparr>)"
| step_wait: "WaitForPresent ops interval e (dw_hmd w, dw_links w) = Some (h, d) \<Longrightarrow>
    device_step widen ops interval w (w\<lparr>dw_hmd := h, dw_links := d, dw_given := hd_pose (dw_hmd w)\<rparr>)"

inductive_cases device_stepE: "device_step widen ops interval w w'"

text \<open>The world when SteamVR has activated the device.\<close>

definition activated :: "hmd_driver \<times> driver_links \<Rightarrow> device_world" where
  "activated x = \<lparr>dw_hmd = fst x, dw_links = snd x,
     dw_times = \<lparr>tt_pose_timestamp = 0, tt_tracking_received_timestamp = 0, tt_tracking_processed_timestamp = 0\<rparr>,
     dw_seen = {sd_tracking_state (dl_shared (snd x))}, dw_given = initial_pose, dw_presented = None, dw_frames = 0\<rparr>"

section \<open>What the operations leave alone\<close>

lemma event_thread_keeps:
  assumes "event_thread_pass widen i (m, h, d) = (m', h', d')"
  shows "hd_last_vsync_time h' = hd_last_vsync_time h" "hd_specs h' = hd_specs h"
    "hd_latest_accessed_pose_timestamp h' = hd_latest_accessed_pose_timestamp h" "dl_shared d' = dl_shared d"
    "h' = h \<or> h' = read_tracking widen (sd_tracking_state (dl_shared d)) h"
  using assms by (auto simp: event_thread_pass_def event_wait_limited read_tracking_def Let_def split: prod.splits if_splits)

lemma wait_for_vsync_keeps:
  assumes "WaitForVsync interval margin start ts (h, d) = Some (h', d')"
  shows "\<exists>t. h' = h\<lparr>hd_last_wait_time := t\<rparr>" "dl_shared d' = dl_shared d"
proof -
  show "\<exists>t. h' = h\<lparr>hd_last_wait_time := t\<rparr>"
    using assms by (auto simp: WaitForVsync_def Let_def intro: exI [of _ "hd_last_wait_time h"] split: if_splits option.splits)
  show "dl_shared d' = dl_shared d"
    using assms by (auto simp: WaitForVsync_def Let_def driver_call_def split: if_splits option.splits)
qed


lemma us_at_least:
  assumes "0 < k"
  shows "k \<le> us_between l t \<longleftrightarrow> l + 1000 * k \<le> t"
proof (cases "l \<le> t")
  case True
  have "k \<le> (t - l) div 1000 \<longleftrightarrow> k * 1000 \<le> t - l" by (rule iffI) linarith+
  then show ?thesis using True by (auto simp: us_between_def sdiv_nonneg)
next
  case False
  then have "(t - l) sdiv 1000 \<le> 0" by (simp add: signed_divide_int_def)
  then show ?thesis using False assms by (simp add: us_between_def)
qed

text \<open>A frame is presented at least an interval after the last vsync.\<close>

lemma wait_for_vsync_reaches:
  assumes w: "WaitForVsync interval 0 start ts (h, d) = Some hd'" and pos: "0 < uint interval"
    and le: "\<forall>t \<in> set (start # ts). t \<le> v"
  shows "hd_last_vsync_time h + 1000 * uint interval \<le> v"
proof -
  have "\<exists>u \<in> set (start # ts). us_between (hd_last_vsync_time h) u \<ge> uint interval"
    using w active_wait_reached
    by (fastforce simp: WaitForVsync_def Let_def split: if_splits option.splits)
  then show ?thesis using us_at_least [OF pos] le by force
qed

lemma present_effect:
  assumes "Present interval e (Some i) (h, d) = Some (Inr (h', d'))"
  shows "hd_last_vsync_time h' = pe_vsync e" "hd_specs h' = hd_specs h" "hd_pose h' = hd_pose h"
    "hd_latest_pose_timestamp h' = hd_latest_pose_timestamp h"
    "hd_latest_accessed_pose_timestamp h' = hd_latest_accessed_pose_timestamp h"
    "sd_tracking_state (dl_shared d') = sd_tracking_state (dl_shared d)"
    "pose_rtp_timestamp (sd_latest_present_info (dl_shared d')) = hd_latest_accessed_pose_timestamp h"
    "\<exists>hx w. hd_last_vsync_time hx = hd_last_vsync_time h
       \<and> WaitForVsync (interval (refresh_rate (hd_specs h))) 0 (pe_wait_start e) (pe_wait e) (hx, d) = Some w"
proof -
  define h2 where "h2 = (let h1 = h\<lparr>hd_frame_number := pi_frame_id i, hd_frame_logged := False,
      hd_current_frame := (hd_current_frame h)\<lparr>df_frame_id := ucast (pi_frame_id i),
        df_present_called_timestamp := now_rtp_timestamp (pe_called e) (hd_rtp_clock h)\<rparr>\<rparr>
    in if pi_frame_id i > 1 then h1\<lparr>hd_wait_margin_us :=
         word_of_int (us_between (hd_last_wait_time h1) (pe_now e) + WAIT_MARGIN_OFFSET_US)\<rparr> else h1)"
  have h2: "hd_specs h2 = hd_specs h" "hd_last_vsync_time h2 = hd_last_vsync_time h" "hd_pose h2 = hd_pose h"
    "hd_latest_pose_timestamp h2 = hd_latest_pose_timestamp h"
    "hd_latest_accessed_pose_timestamp h2 = hd_latest_accessed_pose_timestamp h"
    by (simp_all add: h2_def Let_def)
  obtain h3 d1 where w: "WaitForVsync (interval (refresh_rate (hd_specs h))) 0 (pe_wait_start e) (pe_wait e) (h2, d) = Some (h3, d1)"
    using assms by (auto simp: Present_def Let_def h2_def split: option.splits prod.splits if_splits)
  obtain t where h3: "h3 = h2\<lparr>hd_last_wait_time := t\<rparr>" using wait_for_vsync_keeps(1) [OF w] by blast
  have d1: "dl_shared d1 = dl_shared d" by (rule wait_for_vsync_keeps(2) [OF w])
  show "hd_last_vsync_time h' = pe_vsync e" "hd_specs h' = hd_specs h" "hd_pose h' = hd_pose h"
    "hd_latest_pose_timestamp h' = hd_latest_pose_timestamp h"
    "hd_latest_accessed_pose_timestamp h' = hd_latest_accessed_pose_timestamp h"
    "sd_tracking_state (dl_shared d') = sd_tracking_state (dl_shared d)"
    "pose_rtp_timestamp (sd_latest_present_info (dl_shared d')) = hd_latest_accessed_pose_timestamp h"
    using assms w h2 h3 d1
    by (simp_all add: Present_def Let_def h2_def driver_locked_def signal_new_present_info_def split: if_splits) auto
  show "\<exists>hx w. hd_last_vsync_time hx = hd_last_vsync_time h
       \<and> WaitForVsync (interval (refresh_rate (hd_specs h))) 0 (pe_wait_start e) (pe_wait e) (hx, d) = Some w"
    using w h2(2) by blast
qed

lemma wait_for_present_effect:
  assumes "WaitForPresent ops interval e (h, d) = Some (h', d')"
  shows "hd_last_vsync_time h' = hd_last_vsync_time h" "hd_specs h' = hd_specs h" "hd_pose h' = hd_pose h"
    "hd_latest_pose_timestamp h' = hd_latest_pose_timestamp h"
    "hd_latest_accessed_pose_timestamp h' = hd_latest_pose_timestamp h" "dl_shared d' = dl_shared d"
  using assms by (auto simp: WaitForPresent_def Let_def GetPose_def driver_call_def split: option.splits)

lemmas step_effects = event_thread_keeps present_effect(1-7) wait_for_present_effect

text \<open>A frame that comes late enough is presented at once.\<close>

lemma present_on_time:
  "us_between (hd_last_vsync_time h) (pe_wait_start e) \<ge> uint (interval (refresh_rate (hd_specs h))) \<Longrightarrow> pe_locked e
   \<Longrightarrow> \<exists>h' d'. Present interval e (Some i) (h, d) = Some (Inr (h', d'))"
  by (simp add: Present_def WaitForVsync_def driver_locked_def Let_def)

definition sample_present :: present_env where
  "sample_present = \<lparr>pe_now = 100000000, pe_called = sample_clock_env 0, pe_wait_start = 100000000, pe_wait = [],
     pe_vsync = 100000000, pe_vsync_clock = sample_clock_env 0, pe_locked = True, pe_sample = sample_clock_env 0,
     pe_sent = sample_clock_env 0\<rparr>"

definition sample_doubles :: double_ops where
  "sample_doubles = \<lparr>seconds_of_us = (\<lambda>_. 0), dbl_add = (\<lambda>x y. x), dbl_negative = (\<lambda>_. False)\<rparr>"

lemma sample_frame:
  assumes "hd_last_vsync_time (dw_hmd w) \<le> 50000000"
  shows "\<exists>w'. device_step widen ops (\<lambda>_. 13889) w w' \<and> dw_presented w' = Some (dw_given w)
    \<and> dw_frames w' = dw_frames w + 1"
proof -
  have le: "13889 \<le> us_between (hd_last_vsync_time (dw_hmd w)) 100000000"
    using assms us_at_least [of 13889 "hd_last_vsync_time (dw_hmd w)" 100000000] by simp
  have "\<exists>h d. Present (\<lambda>_. 13889) sample_present (Some \<lparr>pi_backbuffer = 1, pi_frame_id = 1, pi_vsync_time = 0\<rparr>)
      (dw_hmd w, dw_links w) = Some (Inr (h, d))"
    by (rule present_on_time) (use le in \<open>simp_all add: sample_present_def\<close>)
  then obtain h d where "Present (\<lambda>_. 13889) sample_present (Some \<lparr>pi_backbuffer = 1, pi_frame_id = 1, pi_vsync_time = 0\<rparr>)
      (dw_hmd w, dw_links w) = Some (Inr (h, d))" by blast
  then have "device_step widen ops (\<lambda>_. 13889) w (w\<lparr>dw_hmd := h, dw_links := d, dw_presented := Some (dw_given w),
      dw_frames := dw_frames w + 1\<rparr>)"
    by (rule step_present) (simp add: present_in_order_def sample_present_def)
  then show ?thesis by (intro exI conjI, assumption) simp_all
qed

section \<open>The pace of the frames\<close>

lemma step_paced:
  assumes "device_step widen ops interval w w'" "0 < uint (interval (refresh_rate (hd_specs (dw_hmd w))))"
  shows "hd_specs (dw_hmd w') = hd_specs (dw_hmd w) \<and> dw_frames w \<le> dw_frames w'
    \<and> hd_last_vsync_time (dw_hmd w) + 1000 * uint (interval (refresh_rate (hd_specs (dw_hmd w))))
        * (int (dw_frames w') - int (dw_frames w)) \<le> hd_last_vsync_time (dw_hmd w')"
  using assms(1)
proof cases
  case (step_present e i h d)
  obtain hx v where "hd_last_vsync_time hx = hd_last_vsync_time (dw_hmd w)"
    "WaitForVsync (interval (refresh_rate (hd_specs (dw_hmd w)))) 0 (pe_wait_start e) (pe_wait e) (hx, dw_links w) = Some v"
    using present_effect(8) [OF step_present(2)] by blast
  then show ?thesis
    using wait_for_vsync_reaches [of _ "pe_wait_start e" "pe_wait e" hx "dw_links w" v "pe_vsync e"]
      present_effect(1,2) [OF step_present(2)] step_present assms(2)
    by (simp add: present_in_order_def)
qed (auto simp: GetPose_def dest: event_thread_keeps wait_for_present_effect)

text \<open>C14: SteamVR is never made to render faster than the headset shows frames: however frames, pose
  requests and tracking data are interleaved, \<open>n\<close> presented frames take at least \<open>n\<close> frame intervals from
  vsync to vsync.\<close>

theorem frames_paced:
  assumes "(device_step widen ops interval)\<^sup>*\<^sup>* w w'" "0 < uint (interval (refresh_rate (hd_specs (dw_hmd w))))"
  shows "hd_last_vsync_time (dw_hmd w) + 1000 * uint (interval (refresh_rate (hd_specs (dw_hmd w))))
    * (int (dw_frames w') - int (dw_frames w)) \<le> hd_last_vsync_time (dw_hmd w')"
proof -
  have "hd_specs (dw_hmd w') = hd_specs (dw_hmd w) \<and> dw_frames w \<le> dw_frames w'
    \<and> hd_last_vsync_time (dw_hmd w) + 1000 * uint (interval (refresh_rate (hd_specs (dw_hmd w))))
        * (int (dw_frames w') - int (dw_frames w)) \<le> hd_last_vsync_time (dw_hmd w')"
    using assms(1)
  proof (induction rule: rtranclp_induct)
    case (step u v)
    then show ?case using step_paced [OF step(2)] assms(2) by (auto simp: algebra_simps)
  qed simp
  then show ?thesis by blast
qed

theorem frames_paced_witness:
  "\<exists>w' :: device_world. dw_frames w' = 1 \<and> 20000000 \<le> hd_last_vsync_time (dw_hmd w')"
proof -
  let ?w = "activated (Activate (\<lambda>_. 0) (\<lambda>_. 13889) True 20000000 1 (sample_hmd, sample_links))"
  have w: "hd_last_vsync_time (dw_hmd ?w) = 6111000" "dw_frames ?w = 0" "hd_specs (dw_hmd ?w) = sample_specs"
    by (simp_all add: activated_def Activate_def sample_hmd_def)
  obtain w' where "device_step (\<lambda>_. 0) sample_doubles (\<lambda>_. 13889) ?w w'" "dw_frames w' = 1"
    using sample_frame [of ?w "\<lambda>_. 0" sample_doubles] w by auto
  moreover from this have "hd_last_vsync_time (dw_hmd ?w) + 1000 * uint (13889 :: u32) * (int (dw_frames w') - int (dw_frames ?w))
      \<le> hd_last_vsync_time (dw_hmd w')"
    by (intro frames_paced [OF r_into_rtranclp]) simp_all
  ultimately show ?thesis using w by (intro exI [of _ w']) simp
qed

section \<open>The pose that goes with a frame\<close>

definition shows_pose :: "(f32 \<Rightarrow> f64) \<Rightarrow> TrackingState \<Rightarrow> driver_pose \<Rightarrow> bool" where
  "shows_pose widen t p \<longleftrightarrow>
     (let q = orientation (ts_pose t); x = position (ts_pose t) in
      dp_rotation p = (widen (q_w q), widen (q_x q), widen (q_y q), widen (q_z q))
      \<and> dp_position p = (widen (v_x x), widen (v_y x), widen (v_z x)))"

definition pose_from :: "(f32 \<Rightarrow> f64) \<Rightarrow> TrackingState set \<Rightarrow> driver_pose \<Rightarrow> u32 \<Rightarrow> bool" where
  "pose_from widen S p ts \<longleftrightarrow>
     (p = initial_pose \<and> ts = 0) \<or> (\<exists>t \<in> S. ts = ts_pose_timestamp t \<and> shows_pose widen t p)"

definition device_inv :: "(f32 \<Rightarrow> f64) \<Rightarrow> device_world \<Rightarrow> bool" where
  "device_inv widen w \<longleftrightarrow>
     sd_tracking_state (dl_shared (dw_links w)) \<in> dw_seen w
     \<and> pose_from widen (dw_seen w) (hd_pose (dw_hmd w)) (hd_latest_pose_timestamp (dw_hmd w))
     \<and> pose_from widen (dw_seen w) (dw_given w) (hd_latest_accessed_pose_timestamp (dw_hmd w))
     \<and> (\<forall>p. dw_presented w = Some p \<longrightarrow>
          pose_from widen (dw_seen w) p (pose_rtp_timestamp (sd_latest_present_info (dl_shared (dw_links w)))))"

lemma pose_from_mono: "pose_from widen S p ts \<Longrightarrow> S \<subseteq> T \<Longrightarrow> pose_from widen T p ts"
  by (auto simp: pose_from_def)

lemma read_tracking_from:
  "t \<in> S \<Longrightarrow> pose_from widen S (hd_pose (read_tracking widen t h)) (hd_latest_pose_timestamp (read_tracking widen t h))"
  by (auto simp: pose_from_def shows_pose_def read_tracking_def Let_def)

lemma step_keeps_inv:
  assumes "device_step widen ops interval w w'" "device_inv widen w"
  shows "device_inv widen w'"
  using assms(1)
proof cases
  case (step_server s ev dev)
  then show ?thesis
    using assms(2) pose_from_mono [of widen "dw_seen w" _ _ "insert (sd_tracking_state s) (dw_seen w)"]
    by (auto simp: device_inv_def)
next
  case (step_event_thread i m h d)
  then show ?thesis
    using assms(2) event_thread_keeps [OF step_event_thread(2)] read_tracking_from by (auto simp: device_inv_def)
next
  case (step_get_pose clk e p h d)
  then show ?thesis using assms(2) by (auto simp: device_inv_def GetPose_def)
next
  case (step_present e i h d)
  then show ?thesis using assms(2) present_effect(3-7) [OF step_present(2)] by (auto simp: device_inv_def)
next
  case (step_wait e h d)
  then show ?thesis using assms(2) wait_for_present_effect [OF step_wait(2)] by (auto simp: device_inv_def)
qed

lemma activated_inv:
  "new_hmd got e specs d = Inr h \<Longrightarrow> device_inv widen (activated (Activate to_float interval got' time oid (h, d)))"
  by (auto simp: device_inv_def activated_def Activate_def pose_from_def new_hmd_def split: if_splits prod.splits sum.splits)

text \<open>A pass without new tracking data saves the previous measurement once more.\<close>

lemma stale_measurement_saved:
  assumes "ev_new_tracking_data (dl_server_events d) = 0" "\<not> ep_posted i" "is_in_timing_phase (ep_now i) (dl_bucket d)"
  shows "\<exists>d'. event_thread_pass widen i (m, h, d) = (m, h, d')
    \<and> db_tracking_measurements (dl_bucket d') = db_tracking_measurements (dl_bucket d) @ [m]"
  using assms by (simp add: event_thread_pass_def event_wait_limited sem_timed_wait_def driver_add_tracking_time_measurement_def)

text \<open>The margin has no influence on when the active wait ends.\<close>

lemma margin_ignored:
  assumes "uint interval - us_between (hd_last_vsync_time h) start - uint margin > 0"
    and "WaitForVsync interval margin start ts (h, d) = Some (h', d')"
  shows "us_between (hd_last_vsync_time h) (hd_last_wait_time h') \<ge> uint interval"
  using assms active_wait_reached by (auto simp: WaitForVsync_def Let_def split: option.splits)

text \<open>C13: a frame carries the time stamp of its pose: whatever the interleaving of SteamVR, the event
  thread and the server, the pose time stamp that the server reads with a frame belongs to the pose that
  SteamVR had been given last when it presented the frame, and that pose is the one of a tracking state
  from the shared memory (or the initial pose with time stamp 0).\<close>

theorem frame_carries_its_pose:
  assumes "new_hmd got e specs d = Inr h"
    and "(device_step widen ops interval)\<^sup>*\<^sup>* (activated (Activate to_float interval got' time oid (h, d))) w"
    and "dw_presented w = Some p"
  shows "pose_from widen (dw_seen w) p (pose_rtp_timestamp (sd_latest_present_info (dl_shared (dw_links w))))"
proof -
  have "device_inv widen w"
    using assms(2) by (induction rule: rtranclp_induct) (auto intro: activated_inv [OF assms(1)] step_keeps_inv)
  then show ?thesis using assms(3) by (simp add: device_inv_def)
qed

theorem frame_carries_its_pose_witness:
  "\<exists>(w :: device_world) p. dw_presented w = Some p
     \<and> pose_from (\<lambda>_. 0) (dw_seen w) p (pose_rtp_timestamp (sd_latest_present_info (dl_shared (dw_links w))))"
proof -
  let ?w = "activated (Activate (\<lambda>_. 0) (\<lambda>_. 13889) True 20000000 1 (sample_hmd, sample_links))"
  have "hd_last_vsync_time (dw_hmd ?w) = 6111000" by (simp add: activated_def Activate_def sample_hmd_def)
  then obtain w' where w': "device_step (\<lambda>_. 0) sample_doubles (\<lambda>_. 13889) ?w w'" "dw_presented w' = Some (dw_given ?w)"
    using sample_frame [of ?w "\<lambda>_. 0" sample_doubles] by auto
  from w'(1) have "(device_step (\<lambda>_. 0) sample_doubles (\<lambda>_. 13889))\<^sup>*\<^sup>* ?w w'" by blast
  from frame_carries_its_pose [OF sample_hmd_made this w'(2)] w'(2) show ?thesis by blast
qed

end
