(* ===== verification/DriverProvider.thy ===== *)
theory DriverProvider
  imports DriverDevice Samples
begin

text \<open>
  \<open>wvb_driver/src/server_driver.cpp\<close>: what SteamVR loads. It waits for a client's specifications, adds a
  device, follows the state of the server and hands over the measurements of a run. \<open>server_driver\<close>
  extends the links with the members of \<open>ServerDriver\<close>.
\<close>

definition WVB_DRIVER_SESSION_DATA_TIMEOUT_MS :: u32 where "WVB_DRIVER_SESSION_DATA_TIMEOUT_MS = 250"
definition WVB_DRIVER_SERVER_STATE_CHECK_INTERVAL_MS :: int where
  "WVB_DRIVER_SERVER_STATE_CHECK_INTERVAL_MS = 1000"
definition WVB_BENCHMARK_TIMING_PHASE_CAPACITY :: u32 where "WVB_BENCHMARK_TIMING_PHASE_CAPACITY = 2000"

record server_driver = driver_links +
  drv_hmd :: "hmd_driver option"
  drv_shutdown_device :: "u32 option"
  drv_last_check :: int

section \<open>Start\<close>

datatype init_error = VRInitError_None | Driver_Failed

definition new_driver_measurement_bucket :: DriverMeasurementBucket where
  "new_driver_measurement_bucket = \<lparr>m_rtp_clock = None, m_window = default_window, m_mode = WINDOW,
     db_frame_measurements = [], db_tracking_measurements = [], db_pose_accesses_measurements = []\<rparr>"

text \<open>
  The specifications lie in the shared memory with their strings. A string keeps up to \<open>sso\<close> characters
  in the object; the text of a longer one is in the memory of the process that wrote it.
\<close>

definition read_shared_specs :: "nat \<Rightarrow> VRSystemSpecs \<Rightarrow> VRSystemSpecs result" where
  "read_shared_specs sso specs =
     (if length (system_name specs) \<le> sso \<and> length (manufacturer_name specs) \<le> sso then Inr specs
      else Inl (UndefinedBehaviour ''pointer of another process''))"

definition specs_acceptable :: "VRSystemSpecs \<Rightarrow> bool" where
  "specs_acceptable specs \<longleftrightarrow> \<not> (manufacturer_name specs = [] \<or> system_name specs = []
     \<or> ext_width (eye_resolution specs) = 0 \<or> ext_height (eye_resolution specs) = 0
     \<or> ext_width (eye_resolution specs) > 4096 \<or> ext_height (eye_resolution specs) > 4096
     \<or> rr_denominator (refresh_rate specs) = 0 \<or> rr_numerator (refresh_rate specs) = 0)"

text \<open>
  What \<open>Init\<close> finds: the locks in their order, the clock of the deadline and whether the server answers
  in time, the shared data after the wait, and the clocks when the device is created and at the end.
\<close>

record init_env =
  ie_lock_state :: bool
  ie_wait_clock :: timespec
  ie_posted :: bool
  ie_after_wait :: "ServerDriverSharedData \<Rightarrow> ServerDriverSharedData"
  ie_lock_specs :: bool
  ie_lock_epoch :: bool
  ie_device_clock :: clock_env
  ie_lock_ready :: bool
  ie_time :: int

definition add_hmd :: "init_env \<Rightarrow> VRSystemSpecs \<Rightarrow> server_driver \<Rightarrow> (init_error \<times> server_driver) result" where
  "add_hmd i specs d =
     (case new_hmd (ie_lock_epoch i) (ie_device_clock i) specs d of Inl f \<Rightarrow> Inl f
      | Inr h \<Rightarrow>
          (case driver_locked (ie_lock_ready i) (\<lambda>s. s\<lparr>sd_driver_state := DRV_READY\<rparr>)
                 (driver_call (Device_added False) (d\<lparr>drv_hmd := Some h\<rparr>)) of
             Inl f \<Rightarrow> Inl f
           | Inr d1 \<Rightarrow> Inr (VRInitError_None, signal_driver_state_changed d1)))"

definition Init ::
    "nat \<Rightarrow> init_env \<Rightarrow> ServerDriverSharedData \<Rightarrow> ServerEvents \<Rightarrow> DriverEvents \<Rightarrow> (init_error \<times> server_driver) result" where
  "Init sso i shared se de =
     (case driver_locked (ie_lock_state i) (\<lambda>s. s\<lparr>sd_driver_state := DRV_AWAITING_CLIENT_SPEC\<rparr>)
        \<lparr>dl_shared = shared, dl_server_events = open_server_events False se, dl_driver_events = open_driver_events True de,
         dl_bucket = new_driver_measurement_bucket, dl_calls = [], drv_hmd = None, drv_shutdown_device = None,
         drv_last_check = ie_time i\<rparr> of
       Inl f \<Rightarrow> Inl f
     | Inr d0 \<Rightarrow>
         let d1 = signal_driver_state_changed d0 in
         (case event_wait (ie_wait_clock i) (ie_posted i) [] WVB_DRIVER_SESSION_DATA_TIMEOUT_MS
                (ev_new_system_specs (dl_server_events d1)) of
            None \<Rightarrow> Inl (UndefinedBehaviour ''no limit to the wait'')
          | Some (signaled, v) \<Rightarrow>
              let d2 = d1\<lparr>dl_server_events := (dl_server_events d1)\<lparr>ev_new_system_specs := v\<rparr>,
                    dl_shared := ie_after_wait i (dl_shared d1)\<rparr>
              in (case driver_locked (ie_lock_specs i) id d2 of Inl f \<Rightarrow> Inl f
                | Inr d3 \<Rightarrow>
                    if \<not> signaled
                    then (if sd_server_state (dl_shared d3) = SRV_AWAITING_CONNECTION
                          then Inr (VRInitError_None, driver_call (Device_added True)
                            (d3\<lparr>drv_shutdown_device := Some INVALID_OBJECT_ID\<rparr>))
                          else Inr (Driver_Failed, d3))
                    else (case read_shared_specs sso (sd_vr_system_specs (dl_shared d3)) of Inl f \<Rightarrow> Inl f
                      | Inr specs \<Rightarrow>
                          if \<not> specs_acceptable specs then Inr (Driver_Failed, d3) else add_hmd i specs d3))))"

section \<open>Following the server\<close>

definition stop_devices :: "server_driver \<Rightarrow> server_driver" where
  "stop_devices d =
     (case drv_hmd d of
        Some h \<Rightarrow> (case SendStopSignal (h, d) of (h', d') \<Rightarrow> d'\<lparr>drv_hmd := Some h'\<rparr>)
      | None \<Rightarrow> (case drv_shutdown_device d of Some oid \<Rightarrow> shutdown_SendStopSignal oid d | None \<Rightarrow> d))"

text \<open>The array with its first elements replaced by the first of the measurements; and how many.\<close>

definition measurement_count :: "'m list \<Rightarrow> u32" where
  "measurement_count ms = min (of_nat (length ms)) WVB_BENCHMARK_TIMING_PHASE_CAPACITY"

definition fill_array :: "'m list \<Rightarrow> 'm list \<Rightarrow> 'm list" where
  "fill_array ms array = take (unat (measurement_count ms)) ms @ drop (unat (measurement_count ms)) array"

definition fill_measurements :: "DriverMeasurementBucket \<Rightarrow> ServerDriverSharedData \<Rightarrow> ServerDriverSharedData" where
  "fill_measurements b s = s
     \<lparr>sd_frame_time_measurements_count := measurement_count (db_frame_measurements b),
      sd_frame_time_measurements := fill_array (db_frame_measurements b) (sd_frame_time_measurements s),
      sd_tracking_time_measurements_count := measurement_count (db_tracking_measurements b),
      sd_tracking_time_measurements := fill_array (db_tracking_measurements b) (sd_tracking_time_measurements s),
      sd_pose_access_time_measurements_count := measurement_count (db_pose_accesses_measurements b),
      sd_pose_access_time_measurements := fill_array (db_pose_accesses_measurements b) (sd_pose_access_time_measurements s),
      sd_driver_state := DRV_READY\<rparr>"

text \<open>\<open>time\<close> is the steady clock; the second lock is only taken for the measurements.\<close>

definition HandleServerStateChange :: "bool \<Rightarrow> bool \<Rightarrow> int \<Rightarrow> server_driver \<Rightarrow> server_driver result" where
  "HandleServerStateChange got got_again time d0 =
     (case driver_locked got id d0 of Inl f \<Rightarrow> Inl f
      | Inr d1 \<Rightarrow>
          let st = sd_server_state (dl_shared d1); d = d1\<lparr>drv_last_check := time\<rparr> in
          if st = SRV_AWAITING_DRIVER_MEASUREMENTS
          then
            let d2 = d\<lparr>dl_bucket := reset_window (dl_bucket d)\<rparr> in
            Inr (if \<not> got_again then d2
              else signal_driver_state_changed (signal_new_measurements
                (d2\<lparr>dl_shared := fill_measurements (dl_bucket d2) (dl_shared d2)\<rparr>)))
          else if st = SRV_NOT_RUNNING \<or> st = SRV_AWAITING_CONNECTION \<or> st = SRV_PROCESSING_MEASUREMENTS
          then Inr (stop_devices d)
          else Inr d)"

text \<open>What \<open>RunFrame\<close> reads; \<open>fe_late\<close> is the steady clock of the regular check.\<close>

record frame_env =
  fe_locked :: bool
  fe_clock :: clock_env
  fe_late :: int
  fe_lock_state :: bool
  fe_lock_measurements :: bool
  fe_time :: int

definition take_window :: "frame_env \<Rightarrow> server_driver \<Rightarrow> server_driver result" where
  "take_window e d =
     (if \<not> has_window (dl_bucket d) \<and> is_signaled (ev_new_benchmark_data (dl_server_events d))
      then
        let d1 = d\<lparr>dl_server_events := (dl_server_events d)
              \<lparr>ev_new_benchmark_data := event_reset (ev_new_benchmark_data (dl_server_events d))\<rparr>\<rparr>;
            s = dl_shared d1
        in if fe_locked e \<and> window_is_valid (sd_measurement_window s) \<and> uint (sd_ntp_epoch s) > UNIX_EPOCH_NTP
           then (case new_RTPClock_ntp (fe_clock e) (sd_ntp_epoch s) of Inl f \<Rightarrow> Inl f
             | Inr _ \<Rightarrow> Inr (d1\<lparr>dl_bucket := set_window (sd_measurement_window s) (set_clock (Some 3) (dl_bucket d1))\<rparr>))
           else Inr d1
      else Inr d)"

definition RunFrame :: "frame_env \<Rightarrow> server_driver \<Rightarrow> server_driver result" where
  "RunFrame e d0 =
     (case take_window e d0 of Inl f \<Rightarrow> Inl f
      | Inr d \<Rightarrow>
          if is_signaled (ev_server_state_changed (dl_server_events d))
          then HandleServerStateChange (fe_lock_state e) (fe_lock_measurements e) (fe_time e)
            (d\<lparr>dl_server_events := (dl_server_events d)
               \<lparr>ev_server_state_changed := event_reset (ev_server_state_changed (dl_server_events d))\<rparr>\<rparr>)
          else if drv_last_check d + WVB_DRIVER_SERVER_STATE_CHECK_INTERVAL_MS * 1000000 < fe_late e
          then HandleServerStateChange (fe_lock_state e) (fe_lock_measurements e) (fe_time e) d
          else Inr d)"

section \<open>End\<close>

definition zero_present_info :: OpenVRPresentInfo where
  "zero_present_info = \<lparr>backbuffer_texture_handle = 0, frame_id = 0, vsync_time_in_seconds = 0,
     sample_rtp_timestamp = 0, pose_rtp_timestamp = 0\<rparr>"

definition Cleanup :: "bool \<Rightarrow> server_driver \<Rightarrow> server_driver result" where
  "Cleanup got d =
     (case driver_locked got (\<lambda>s. s\<lparr>sd_driver_state := DRV_NOT_RUNNING, sd_frame_time_measurements_count := 0,
             sd_tracking_time_measurements_count := 0, sd_pose_access_time_measurements_count := 0,
             sd_latest_present_info := zero_present_info\<rparr>) d of
        Inl f \<Rightarrow> Inl f
      | Inr d1 \<Rightarrow> Inr (signal_driver_state_changed (d1\<lparr>drv_hmd := None\<rparr>)))"

section \<open>The entry point of the library\<close>

text \<open>
  The provider and the return code, which is only written when the interface is unknown and there is
  somewhere to write it. The version string and the code are OpenVR's.
\<close>

definition HmdDriverFactory :: "string \<Rightarrow> int \<Rightarrow> string \<Rightarrow> int option \<Rightarrow> bool \<times> int option" where
  "HmdDriverFactory provider_version interface_not_found name return_code =
     (if name = provider_version then (True, return_code)
      else (False, map_option (\<lambda>_. interface_not_found) return_code))"

section \<open>What the start leads to\<close>

lemma session_wait:
  "event_wait clock posted is' WVB_DRIVER_SESSION_DATA_TIMEOUT_MS v
     = Some (sem_timed_wait clock posted WVB_DRIVER_SESSION_DATA_TIMEOUT_MS v)"
  by (simp add: event_wait_def WVB_DRIVER_SESSION_DATA_TIMEOUT_MS_def NO_TIMEOUT_def)

definition session_found :: "init_env \<Rightarrow> ServerEvents \<Rightarrow> bool" where
  "session_found i se \<longleftrightarrow> fst (sem_timed_wait (ie_wait_clock i) (ie_posted i) WVB_DRIVER_SESSION_DATA_TIMEOUT_MS
     (ev_new_system_specs se))"

lemma acceptable_specs:
  "specs_acceptable specs \<longleftrightarrow> manufacturer_name specs \<noteq> [] \<and> system_name specs \<noteq> []
     \<and> unat (ext_width (eye_resolution specs)) \<in> {1..4096} \<and> unat (ext_height (eye_resolution specs)) \<in> {1..4096}
     \<and> rr_numerator (refresh_rate specs) \<noteq> 0 \<and> rr_denominator (refresh_rate specs) \<noteq> 0"
proof -
  have "(x \<noteq> 0 \<and> \<not> x > 4096) \<longleftrightarrow> unat x \<in> {1..4096}" for x :: u32
    by (auto simp: word_less_nat_alt unat_gt_0 Suc_le_eq)
  then show ?thesis by (auto simp: specs_acceptable_def)
qed

lemma add_hmd_done:
  assumes "ie_lock_epoch i" "ie_lock_ready i"
    and "set_epoch (ie_device_clock i) (sd_ntp_epoch (dl_shared d)) (new_RTPClock (ie_device_clock i)) = (Inr (), c)"
  shows "\<exists>h d'. add_hmd i specs d = Inr (VRInitError_None, d') \<and> drv_hmd d' = Some h \<and> hd_specs h = specs
    \<and> drv_shutdown_device d' = drv_shutdown_device d \<and> dl_calls d' = dl_calls d @ [Device_added False]
    \<and> sd_driver_state (dl_shared d') = DRV_READY"
  using assms by (simp add: add_hmd_def new_hmd_def driver_locked_def driver_call_def signal_driver_state_changed_def)

text \<open>C35: what SteamVR gets from the driver's start, on every branch: a headset with the client's
  specifications exactly when the server announces a client in time and its specifications are
  usable; otherwise the placeholder that can only end SteamVR exactly when the server waits for a
  client, and a failure without any device in all other cases.\<close>

theorem init_outcome:
  assumes "ie_lock_state i" "ie_lock_specs i" "ie_lock_epoch i" "ie_lock_ready i"
    and "shared' = ie_after_wait i (shared\<lparr>sd_driver_state := DRV_AWAITING_CLIENT_SPEC\<rparr>)"
    and "specs = sd_vr_system_specs shared'"
    and "length (system_name specs) \<le> sso" "length (manufacturer_name specs) \<le> sso"
    and "set_epoch (ie_device_clock i) (sd_ntp_epoch shared') (new_RTPClock (ie_device_clock i)) = (Inr (), c)"
    and "usable \<longleftrightarrow> manufacturer_name specs \<noteq> [] \<and> system_name specs \<noteq> []
     \<and> unat (ext_width (eye_resolution specs)) \<in> {1..4096} \<and> unat (ext_height (eye_resolution specs)) \<in> {1..4096}
     \<and> rr_numerator (refresh_rate specs) \<noteq> 0 \<and> rr_denominator (refresh_rate specs) \<noteq> 0"
  shows "\<exists>r d. Init sso i shared se de = Inr (r, d)
    \<and> (if session_found i se \<and> usable
       then r = VRInitError_None \<and> (\<exists>h. drv_hmd d = Some h \<and> hd_specs h = specs) \<and> drv_shutdown_device d = None
         \<and> dl_calls d = [Device_added False] \<and> sd_driver_state (dl_shared d) = DRV_READY
       else if \<not> session_found i se \<and> sd_server_state shared' = SRV_AWAITING_CONNECTION
       then r = VRInitError_None \<and> drv_hmd d = None \<and> drv_shutdown_device d = Some INVALID_OBJECT_ID
         \<and> dl_calls d = [Device_added True]
       else r = Driver_Failed \<and> drv_hmd d = None \<and> drv_shutdown_device d = None \<and> dl_calls d = [])"
proof -
  have u: "specs_acceptable specs \<longleftrightarrow> usable" using acceptable_specs [of specs] assms(10) by simp
  obtain f v where f: "sem_timed_wait (ie_wait_clock i) (ie_posted i) WVB_DRIVER_SESSION_DATA_TIMEOUT_MS
      (ev_new_system_specs se) = (f, v)" by fastforce
  then have sf: "session_found i se = f" by (simp add: session_found_def)
  have o: "ev_new_system_specs (open_server_events False se) = ev_new_system_specs se"
    by (simp add: open_server_events_def event_open_def)
  note init = Init_def driver_locked_def signal_driver_state_changed_def session_wait o f read_shared_specs_def
    driver_call_def
  show ?thesis
  proof (cases "f \<and> usable")
    case True
    define d0 where "d0 = \<lparr>dl_shared = shared', dl_server_events = (open_server_events False se)\<lparr>ev_new_system_specs := v\<rparr>,
      dl_driver_events = (open_driver_events True de)\<lparr>ev_driver_state_changed :=
         event_signal (ev_driver_state_changed (open_driver_events True de))\<rparr>,
      dl_bucket = new_driver_measurement_bucket, dl_calls = [], drv_hmd = None, drv_shutdown_device = None,
      drv_last_check = ie_time i\<rparr>"
    have "Init sso i shared se de = add_hmd i specs d0"
      using True assms u by (simp add: init d0_def)
    then show ?thesis
      using True sf add_hmd_done [OF assms(3,4), of d0 c specs] assms(9) by (auto simp: d0_def)
  next
    case False
    note fail = this
    show ?thesis
    proof (cases "\<not> f \<and> sd_server_state shared' = SRV_AWAITING_CONNECTION")
      case True
      then show ?thesis using assms(1,2,5) sf by (simp add: init)
    next
      case False
      then show ?thesis using assms(1,2,5-8) u sf fail by (cases f) (simp_all add: init)
    qed
  qed
qed

definition sample_init_env :: init_env where
  "sample_init_env = \<lparr>ie_lock_state = True, ie_wait_clock = \<lparr>tv_sec = 0, tv_nsec = 0\<rparr>, ie_posted = True,
     ie_after_wait = (\<lambda>s. s\<lparr>sd_ntp_epoch := 2208988800, sd_vr_system_specs := sample_specs\<rparr>),
     ie_lock_specs = True, ie_lock_epoch = True, ie_device_clock = sample_clock_env 0, ie_lock_ready = True, ie_time = 0\<rparr>"

theorem init_outcome_witness:
  "\<exists>d h. Init 15 sample_init_env sample_shared
       \<lparr>ev_server_state_changed = 0, ev_new_system_specs = 0, ev_frame_finished = 0, ev_new_tracking_data = 0, ev_new_benchmark_data = 0\<rparr>
       \<lparr>ev_driver_state_changed = 0, ev_new_present_info = 0, ev_new_measurements = 0\<rparr> = Inr (VRInitError_None, d)
     \<and> drv_hmd d = Some h \<and> hd_specs h = sample_specs"
proof -
  let ?se = "\<lparr>ev_server_state_changed = 0, ev_new_system_specs = 0, ev_frame_finished = 0, ev_new_tracking_data = 0, ev_new_benchmark_data = 0\<rparr>"
  let ?sh = "sample_shared\<lparr>sd_driver_state := DRV_AWAITING_CLIENT_SPEC, sd_ntp_epoch := 2208988800, sd_vr_system_specs := sample_specs\<rparr>"
  have "set_epoch (sample_clock_env 0) 2208988800 (new_RTPClock (sample_clock_env 0)) = (Inr (), sample_clock)"
    by (simp add: set_epoch_def new_RTPClock_def reset_epoch_def default_RTPClock_def sample_clock_env_def sample_clock_def
        UNIX_EPOCH_NTP_def NS_PER_SEC_def RTP_EPOCH_OFFSET_ns_def Let_def)
  moreover have "session_found sample_init_env ?se"
    by (simp add: session_found_def sample_init_env_def sem_timed_wait_def deadline_def timespec_normal_def NS_PER_SEC_def
        WVB_DRIVER_SESSION_DATA_TIMEOUT_MS_def)
  ultimately show ?thesis
    using init_outcome [where i = sample_init_env and se = ?se and shared' = ?sh and specs = sample_specs
        and sso = 15 and c = sample_clock and usable = True and shared = sample_shared
        and de = "\<lparr>ev_driver_state_changed = 0, ev_new_present_info = 0, ev_new_measurements = 0\<rparr>"]
    by (auto simp: sample_init_env_def sample_specs_def)
qed

section \<open>Following the server, once more\<close>

text \<open>An announced window is lost when the lock fails: the event is consumed, and only the event leads to
  another try.\<close>

lemma window_lost:
  assumes "\<not> has_window (dl_bucket d)" "ev_new_benchmark_data (dl_server_events d) = 1" "\<not> fe_locked e"
    "take_window e d = Inr d'"
  shows "\<not> has_window (dl_bucket d')" "ev_new_benchmark_data (dl_server_events d') = 0" "take_window e' d' = Inr d'"
proof -
  show "\<not> has_window (dl_bucket d')" "ev_new_benchmark_data (dl_server_events d') = 0"
    using assms by (auto simp: take_window_def Let_def is_signaled_def event_reset_def)
  then show "take_window e' d' = Inr d'" by (simp add: take_window_def is_signaled_def)
qed

text \<open>Names that do not fit into the string object cannot be read in another process.\<close>

lemma long_names_unreadable:
  "sso < length (system_name specs) \<Longrightarrow> read_shared_specs sso specs = Inl (UndefinedBehaviour ''pointer of another process'')"
  by (simp add: read_shared_specs_def)

text \<open>As long as the server still waits for them, the measurements are sent again at every regular check.\<close>

lemma measurements_sent_again:
  assumes "sd_server_state (dl_shared d) = SRV_AWAITING_DRIVER_MEASUREMENTS"
    "HandleServerStateChange True True time d = Inr d'"
  shows "sd_server_state (dl_shared d') = SRV_AWAITING_DRIVER_MEASUREMENTS"
    "ev_new_measurements (dl_driver_events d') = event_signal (ev_new_measurements (dl_driver_events d))"
  using assms by (auto simp: HandleServerStateChange_def driver_locked_def Let_def fill_measurements_def
      signal_driver_state_changed_def signal_new_measurements_def)

end
