(* ===== verification/DriverHandover.thy ===== *)
theory DriverHandover
  imports DriverProvider
begin

text \<open>
  The measurements of a run on their way from the driver (\<open>HandleServerStateChange\<close> in
  \<open>server_driver.cpp\<close>) through the shared memory into the bucket that the server keeps for them
  (\<open>handle_new_driver_measurements\<close> in \<open>server.cpp\<close>).
\<close>

section \<open>What the driver leaves in the shared memory\<close>

lemma measurement_count_nat:
  assumes "length ms < 2 ^ 32"
  shows "unat (measurement_count ms) = min (length ms) 2000"
proof -
  have "unat (of_nat (length ms) :: u32) = length ms"
    using assms by (simp add: unsigned_of_nat take_bit_nat_eq_self)
  then show ?thesis
    by (auto simp: measurement_count_def WVB_BENCHMARK_TIMING_PHASE_CAPACITY_def min_def word_le_nat_alt)
qed

lemma measurement_count_le: "\<not> 2000 < unat (measurement_count ms)"
  by (auto simp: measurement_count_def WVB_BENCHMARK_TIMING_PHASE_CAPACITY_def min_def word_le_nat_alt)

lemma filled_array:
  assumes "length ms < 2 ^ 32" "length array = 2000"
  shows "length (fill_array ms array) = 2000"
    "take (unat (measurement_count ms)) (fill_array ms array) = take 2000 ms"
  using measurement_count_nat [OF assms(1)] assms(2) by (auto simp: fill_array_def min_def)

section \<open>What the server makes of it\<close>

lemma accept_all_phase:
  "m_mode b = ACCEPT_ALL \<Longrightarrow> m_rtp_clock b \<noteq> None \<Longrightarrow> is_in_timing_phase clk b"
  by (auto simp: is_in_timing_phase_def)

lemma added_frames:
  "m_mode b = ACCEPT_ALL \<Longrightarrow> m_rtp_clock b \<noteq> None \<Longrightarrow>
   fold (driver_add_frame_time_measurement clk) ms b = b\<lparr>db_frame_measurements := db_frame_measurements b @ ms\<rparr>"
  by (induction ms arbitrary: b) (auto simp: driver_add_frame_time_measurement_def accept_all_phase)

lemma added_poses:
  "m_mode b = ACCEPT_ALL \<Longrightarrow> m_rtp_clock b \<noteq> None \<Longrightarrow>
   fold (driver_add_pose_access_measurement clk) ms b
     = b\<lparr>db_pose_accesses_measurements := db_pose_accesses_measurements b @ ms\<rparr>"
  by (induction ms arbitrary: b) (auto simp: driver_add_pose_access_measurement_def accept_all_phase)

lemma added_tracking:
  "m_mode b = ACCEPT_ALL \<Longrightarrow> m_rtp_clock b \<noteq> None \<Longrightarrow>
   fold (driver_add_tracking_time_measurement clk) ms b = b\<lparr>db_tracking_measurements := db_tracking_measurements b @ ms\<rparr>"
  by (induction ms arbitrary: b) (auto simp: driver_add_tracking_time_measurement_def accept_all_phase)

definition received_bucket :: "DriverMeasurementBucket \<Rightarrow> DriverMeasurementBucket" where
  "received_bucket b = (new_driver_bucket 1)\<lparr>db_frame_measurements := take 2000 (db_frame_measurements b),
     db_pose_accesses_measurements := take 2000 (db_pose_accesses_measurements b),
     db_tracking_measurements := take 2000 (db_tracking_measurements b), m_mode := FINISHED\<rparr>"

definition few_measurements :: "DriverMeasurementBucket \<Rightarrow> bool" where
  "few_measurements b \<longleftrightarrow> length (db_frame_measurements b) < 2 ^ 32 \<and> length (db_tracking_measurements b) < 2 ^ 32
     \<and> length (db_pose_accesses_measurements b) < 2 ^ 32"

text \<open>The arrays of the shared memory have their fixed sizes.\<close>

definition arrays_sized :: "ServerDriverSharedData \<Rightarrow> bool" where
  "arrays_sized s \<longleftrightarrow> length (sd_frame_time_measurements s) = 2000 \<and> length (sd_tracking_time_measurements s) = 2000
     \<and> length (sd_pose_access_time_measurements s) = 2000"

lemma received_from_filled:
  assumes "few_measurements b" "arrays_sized s"
  shows "driver_measurements clk (fill_measurements b s) = Inr (received_bucket b)"
  using assms
  by (simp add: driver_measurements_def fill_measurements_def few_measurements_def arrays_sized_def Let_def
      filled_array measurement_count_le added_frames added_poses added_tracking new_driver_bucket_def set_as_finished_def
      received_bucket_def)

lemma filled_keeps_arrays: "few_measurements b \<Longrightarrow> arrays_sized s \<Longrightarrow> arrays_sized (fill_measurements b s)"
  by (simp add: few_measurements_def arrays_sized_def fill_measurements_def filled_array)

section \<open>Both together\<close>

lemma driver_side:
  assumes "sd_server_state (dl_shared d) = SRV_AWAITING_DRIVER_MEASUREMENTS"
    and "ev_driver_state_changed (dl_driver_events d) = 0" "ev_new_measurements (dl_driver_events d) = 0"
  shows "\<exists>d'. HandleServerStateChange True True time d = Inr d'
    \<and> dl_shared d' = fill_measurements (dl_bucket d) (dl_shared d)
    \<and> driver_pending (dl_driver_events d') = [DRIVER_STATE_CHANGED, NEW_MEASUREMENTS]
    \<and> \<not> has_window (dl_bucket d')"
  using assms
  by (simp add: HandleServerStateChange_def driver_locked_def Let_def signal_driver_state_changed_def
      signal_new_measurements_def driver_pending_def event_signal_def sem_post_def SEM_VALUE_MAX_def reset_window_def
      has_window_def default_window_def window_is_valid_def fill_measurements_def)

lemma server_side:
  assumes "sv_driver_connection_state s = DRIVER_CONNECTED" "sv_app_state s = GATHERING_RESULTS" "se_locked env"
    and "new_RTPClock_ntp (se_clock env) (sv_ntp_epoch s) = Inr c"
    and "sd_driver_state (sv_shared s) = DRV_READY" "driver_measurements (se_now env) (sv_shared s) = Inr b"
  shows "handle_driver_events env [DRIVER_STATE_CHANGED, NEW_MEASUREMENTS] s
    = handle_measurements_received env (signal_state_changed (s\<lparr>sv_driver_bucket := Some b,
        sv_shared := (sv_shared s)\<lparr>sd_server_state := SRV_PROCESSING_MEASUREMENTS\<rparr>\<rparr>))"
proof -
  have last: "and_then r (handle_driver_events env []) = r" for r :: "server_data result"
    by (cases r) simp_all
  have "handle_driver_state_changed env s = Inr s"
    using assms by (simp add: handle_driver_state_changed_def locked_def driver_connection_def Let_def app_states)
  then show ?thesis
    using assms by (simp add: handle_driver_event_def last handle_new_driver_measurements_def locked_def
        del: handle_driver_events.simps(1))
qed

text \<open>C11: the measurements of the driver arrive: when the server has asked for them, the driver's next look
  at the state and the server's next look at its events leave the first 2000 frame, tracking and pose
  measurements of the driver, in order and none else, in the server's bucket, which is complete; the
  driver stops recording and the server tells it that it may leave.\<close>

theorem driver_measurements_handed_over:
  assumes "few_measurements (dl_bucket d)" "arrays_sized (dl_shared d)"
    and "sd_server_state (dl_shared d) = SRV_AWAITING_DRIVER_MEASUREMENTS"
    and "ev_driver_state_changed (dl_driver_events d) = 0" "ev_new_measurements (dl_driver_events d) = 0"
    and "sv_driver_connection_state s = DRIVER_CONNECTED" "sv_app_state s = GATHERING_RESULTS" "se_locked env"
    and "new_RTPClock_ntp (se_clock env) (sv_ntp_epoch s) = Inr c"
  shows "\<exists>d' b. HandleServerStateChange True True time d = Inr d'
    \<and> handle_driver_events env (driver_pending (dl_driver_events d')) (s\<lparr>sv_shared := dl_shared d'\<rparr>)
        = handle_measurements_received env (signal_state_changed (s\<lparr>sv_driver_bucket := Some b,
            sv_shared := (dl_shared d')\<lparr>sd_server_state := SRV_PROCESSING_MEASUREMENTS\<rparr>\<rparr>))
    \<and> db_frame_measurements b = take 2000 (db_frame_measurements (dl_bucket d))
    \<and> db_tracking_measurements b = take 2000 (db_tracking_measurements (dl_bucket d))
    \<and> db_pose_accesses_measurements b = take 2000 (db_pose_accesses_measurements (dl_bucket d))
    \<and> measurements_complete clk b \<and> \<not> has_window (dl_bucket d')"
proof -
  obtain d' where d': "HandleServerStateChange True True time d = Inr d'"
    "dl_shared d' = fill_measurements (dl_bucket d) (dl_shared d)"
    "driver_pending (dl_driver_events d') = [DRIVER_STATE_CHANGED, NEW_MEASUREMENTS]" "\<not> has_window (dl_bucket d')"
    using driver_side [OF assms(3-5)] by blast
  have "handle_driver_events env (driver_pending (dl_driver_events d')) (s\<lparr>sv_shared := dl_shared d'\<rparr>)
        = handle_measurements_received env (signal_state_changed (s\<lparr>sv_driver_bucket := Some (received_bucket (dl_bucket d)),
            sv_shared := (dl_shared d')\<lparr>sd_server_state := SRV_PROCESSING_MEASUREMENTS\<rparr>\<rparr>))"
    unfolding d'(2,3)
    using server_side [of "s\<lparr>sv_shared := fill_measurements (dl_bucket d) (dl_shared d)\<rparr>" env c]
      received_from_filled [OF assms(1,2)] assms(6-9) by (simp add: fill_measurements_def)
  then show ?thesis using d'(1,4)
    by (intro exI [of _ d'] exI [of _ "received_bucket (dl_bucket d)"])
      (simp add: received_bucket_def new_driver_bucket_def measurements_complete_def)
qed

definition sample_driver :: server_driver where
  "sample_driver = \<lparr>dl_shared = sample_shared\<lparr>sd_server_state := SRV_AWAITING_DRIVER_MEASUREMENTS,
       sd_frame_time_measurements := replicate 2000 zero_frame_times,
       sd_tracking_time_measurements := replicate 2000 \<lparr>tt_pose_timestamp = 0, tt_tracking_received_timestamp = 0,
         tt_tracking_processed_timestamp = 0\<rparr>,
       sd_pose_access_time_measurements := replicate 2000 \<lparr>pa_pose_timestamp = 0, pa_pose_accessed_timestamp = 0\<rparr>\<rparr>,
     dl_server_events = \<lparr>ev_server_state_changed = 0, ev_new_system_specs = 0, ev_frame_finished = 0,
       ev_new_tracking_data = 0, ev_new_benchmark_data = 0\<rparr>,
     dl_driver_events = \<lparr>ev_driver_state_changed = 0, ev_new_present_info = 0, ev_new_measurements = 0\<rparr>,
     dl_bucket = new_driver_measurement_bucket\<lparr>db_pose_accesses_measurements :=
       [\<lparr>pa_pose_timestamp = 5, pa_pose_accessed_timestamp = 6\<rparr>]\<rparr>,
     dl_calls = [], drv_hmd = None, drv_shutdown_device = None, drv_last_check = 0\<rparr>"

theorem driver_measurements_handed_over_witness:
  "\<exists>d' t b. HandleServerStateChange True True 0 sample_driver = Inr d'
     \<and> handle_driver_events (sample_env 0) (driver_pending (dl_driver_events d'))
         ((sample_server default_settings [])\<lparr>sv_shared := dl_shared d'\<rparr>) = Inr t
     \<and> sv_driver_bucket t = Some b
     \<and> db_pose_accesses_measurements b = [\<lparr>pa_pose_timestamp = 5, pa_pose_accessed_timestamp = 6\<rparr>]"
proof -
  let ?s = "sample_server default_settings []"
  have "new_RTPClock_ntp (se_clock (sample_env 0)) (sv_ntp_epoch ?s) = Inr sample_clock"
    by (simp add: new_RTPClock_ntp_def set_epoch_def default_RTPClock_def sample_env_def sample_clock_env_def
        sample_server_def sample_clock_def UNIX_EPOCH_NTP_def NS_PER_SEC_def Let_def)
  from driver_measurements_handed_over [OF _ _ _ _ _ _ _ _ this, of sample_driver 0 "\<lambda>_. 0"]
  obtain d' b where *: "HandleServerStateChange True True 0 sample_driver = Inr d'"
    "handle_driver_events (sample_env 0) (driver_pending (dl_driver_events d')) (?s\<lparr>sv_shared := dl_shared d'\<rparr>)
       = handle_measurements_received (sample_env 0) (signal_state_changed (?s\<lparr>sv_driver_bucket := Some b,
            sv_shared := (dl_shared d')\<lparr>sd_server_state := SRV_PROCESSING_MEASUREMENTS\<rparr>\<rparr>))"
    "db_pose_accesses_measurements b = [\<lparr>pa_pose_timestamp = 5, pa_pose_accessed_timestamp = 6\<rparr>]"
    by (auto simp: sample_driver_def few_measurements_def new_driver_measurement_bucket_def arrays_sized_def
        sample_server_def sample_env_def)
  have "sv_client_bucket ?s = None" by (simp add: sample_server_def)
  then show ?thesis using * by (auto simp: handle_measurements_received_def signal_state_changed_def)
qed

end
