(* ===== verification/VideoDecoders.thy ===== *)
theory VideoDecoders
  imports VrStructs
begin

text \<open>
  \<open>common/include/wvb_common/video_encoder.h\<close>: the image formats, the frame that a decoder hands out, and
  the interface \<open>IVideoDecoder\<close> as the client uses it: compressed frames are pushed, decoded ones pulled.
\<close>

datatype ImageFormat = IF_ANY | R8G8B8A8_UNORM | B8G8R8A8_UNORM | NV12 | U8Y8V8Y8_UNORM

text \<open>The textures of a decoded frame; only as many as the format has planes are used.\<close>

record GLFrameTexture =
  gt_format :: ImageFormat
  gt_textures :: "u32 list"
  gt_size :: u64

text \<open>
  A decoder that accounts for what it takes and gives: \<open>accepted\<close> are the packets it took so far,
  \<open>delivered\<close> is the number of frames it handed out.
\<close>

locale video_decoder =
  fixes push :: "bytes \<Rightarrow> bool \<Rightarrow> 'd \<Rightarrow> (bool \<times> 'd) result"
    and pull :: "'d \<Rightarrow> (GLFrameTexture option \<times> 'd) result"
    and accepted :: "'d \<Rightarrow> bytes list"
    and delivered :: "'d \<Rightarrow> nat"
  assumes push_accepts: "push p eos d = Inr (taken, d') \<Longrightarrow>
      accepted d' = accepted d @ (if taken then [p] else []) \<and> delivered d' = delivered d"
    and pull_delivers: "pull d = Inr (f, d') \<Longrightarrow>
      accepted d' = accepted d \<and> delivered d' = delivered d + (if f = None then 0 else 1)"

end
