(* ===== verification/VideoPipeline.thy ===== *)
theory VideoPipeline
  imports ServerCore VideoDecoders
begin

text \<open>
  \<open>wvb_server/src/video_pipeline_windows.cpp\<close>: the worker thread that takes the frames of SteamVR through
  the encoder to the video socket. Direct3D and the encoder are seen through their results, which are
  arguments, and their calls, which are recorded; a texture is a number. One iteration is one frame.
\<close>

section \<open>Types\<close>

datatype dxgi_format = DXGI_R8G8B8A8_UNORM | DXGI_NV12 | DXGI_B8G8R8A8_UNORM | DXGI_R8G8_B8G8_UNORM

definition ENC_SOFTWARE :: u8 where "ENC_SOFTWARE = 0b0001"
definition ENC_D3D11TEXTURE2D :: u8 where "ENC_D3D11TEXTURE2D = 0b0010"
definition ENC_SHARED_HANDLE :: u8 where "ENC_SHARED_HANDLE = 0b0100"
definition ENC_PREPROCESS :: u8 where "ENC_PREPROCESS = 0b1000"

lemmas encoder_types = ENC_SOFTWARE_def ENC_D3D11TEXTURE2D_def ENC_SHARED_HANDLE_def ENC_PREPROCESS_def

definition has_type :: "u8 \<Rightarrow> u8 \<Rightarrow> bool" where
  "has_type a b \<longleftrightarrow> and a b \<noteq> 0"

definition VP_WAIT_TIMEOUT_MS :: u32 where "VP_WAIT_TIMEOUT_MS = 250"

text \<open>The planes of a frame, each with its pitch and the memory from its start on.\<close>

record raw_frame =
  rf_format :: ImageFormat
  rf_width :: u32
  rf_height :: u32
  rf_planes :: "(u32 \<times> bytes) list"

record FrameInfo =
  fr_frame_id :: u32
  fr_sample_rtp_timestamp :: u32
  fr_pose_rtp_timestamp :: u32
  fr_frame_event_received_timestamp :: u32
  fr_present_info_received_timestamp :: u32
  fr_shared_texture_opened_timestamp :: u32
  fr_shared_texture_acquired_timestamp :: u32
  fr_staging_texture_mapped_timestamp :: u32
  fr_frame_pushed_timestamp :: u32

datatype pipeline_call =
    Create_staging_texture u32 u32 dxgi_format
  | Acquire_sync nat
  | Release_sync nat
  | Encode_shared_handle u64 u32 bool u64
  | Encode_texture u64 u32 bool nat
  | Encode_cpu u64 u32 bool raw_frame
  | Send_packet bytes u32 bool u32 u32 bool
  | Save_file string bytes
  | On_worker_thread_stopped

text \<open>
  The members, and those locals of the worker thread that live longer than one iteration: whether the
  last frame was sent, the texture of the frame, and whether its mutex is not null.
\<close>

record pipeline =
  vp_rtp_clock :: RTPClock
  vp_measurements :: ServerMeasurementBucket
  vp_shared :: ServerDriverSharedData
  vp_driver_events :: DriverEvents
  vp_server_events :: ServerEvents
  vp_specs :: VRSystemSpecs
  vp_encoder_type :: u8
  vp_staging_format :: ImageFormat
  vp_should_stop :: bool
  vp_should_kill :: bool
  vp_frame_info_queue :: "FrameInfo list"
  vp_texture_cache :: "(u64 \<times> nat) list"
  vp_last_frame_sent :: bool
  vp_texture :: "nat option"
  vp_mutex :: bool
  vp_raw_size :: u64
  vp_calls :: "pipeline_call list"

definition vp_call :: "pipeline_call \<Rightarrow> pipeline \<Rightarrow> pipeline" where
  "vp_call c p = p\<lparr>vp_calls := vp_calls p @ [c]\<rparr>"

section \<open>Construction\<close>

definition to_dxgi_format :: "ImageFormat \<Rightarrow> dxgi_format result" where
  "to_dxgi_format f = (case f of R8G8B8A8_UNORM \<Rightarrow> Inr DXGI_R8G8B8A8_UNORM | NV12 \<Rightarrow> Inr DXGI_NV12
     | B8G8R8A8_UNORM \<Rightarrow> Inr DXGI_B8G8R8A8_UNORM | U8Y8V8Y8_UNORM \<Rightarrow> Inr DXGI_R8G8_B8G8_UNORM
     | IF_ANY \<Rightarrow> Inl (InvalidArgument ''Unsupported image format''))"

text \<open>What Direct3D answers: the device was created, has the feature level, is not null, and made the texture.\<close>

record d3d_env =
  d3_created :: bool
  d3_level_11 :: bool
  d3_not_null :: bool
  d3_staging :: bool

definition init_d3d11 :: "d3d_env \<Rightarrow> pipeline \<Rightarrow> pipeline result" where
  "init_d3d11 e p =
     (if \<not> d3_created e then Inl (RuntimeError ''Failed to create D3D11 device'')
      else if \<not> d3_level_11 e then Inl (RuntimeError ''D3D11 device does not support feature level 11.0'')
      else if \<not> d3_not_null e then Inl (RuntimeError ''D3D11 device or device context is null'')
      else if has_type (vp_encoder_type p) ENC_SOFTWARE
      then and_then (to_dxgi_format (vp_staging_format p)) (\<lambda>f.
        if \<not> d3_staging e then Inl (RuntimeError ''Failed to create staging texture.'')
        else Inr (vp_call (Create_staging_texture (ext_width (eye_resolution (vp_specs p)) * 2)
          (ext_height (eye_resolution (vp_specs p))) f) p))
      else Inr p)"

text \<open>The four pointers that must not be null are given by whether they are.\<close>

definition new_pipeline ::
    "d3d_env \<Rightarrow> bool \<Rightarrow> clock_env \<Rightarrow> bool \<Rightarrow> ServerDriverSharedData \<Rightarrow> DriverEvents \<Rightarrow> ServerEvents
     \<Rightarrow> u8 \<Rightarrow> ImageFormat \<Rightarrow> VRSystemSpecs \<Rightarrow> u64 \<Rightarrow> ServerMeasurementBucket \<Rightarrow> pipeline result" where
  "new_pipeline e encoder_init clock not_null shared de se type format specs ntp measurements =
     and_then (new_RTPClock_ntp clock ntp) (\<lambda>c.
       if \<not> not_null then Inl (InvalidArgument
         ''shared_memory, driver_events, server_events, and video_encoder must not be null'')
       else and_then (init_d3d11 e
           \<lparr>vp_rtp_clock = c, vp_measurements = measurements, vp_shared = shared, vp_driver_events = de,
            vp_server_events = se, vp_specs = specs, vp_encoder_type = type, vp_staging_format = format,
            vp_should_stop = False, vp_should_kill = False, vp_frame_info_queue = [], vp_texture_cache = [],
            vp_last_frame_sent = False, vp_texture = None, vp_mutex = False, vp_raw_size = 0, vp_calls = []\<rparr>)
         (\<lambda>p. if encoder_init then Inr p else Inl (RuntimeError ''Failed to initialize video encoder'')))"

text \<open>A new thread starts with fresh locals; the queue and the kill flag stay.\<close>

definition vp_start_worker_thread :: "pipeline \<Rightarrow> pipeline" where
  "vp_start_worker_thread p = p\<lparr>vp_should_stop := False, vp_last_frame_sent := False, vp_texture := None,
     vp_mutex := False, vp_raw_size := 0\<rparr>"

definition send_stop_signal :: "pipeline option \<Rightarrow> pipeline option" where
  "send_stop_signal p = map_option (\<lambda>p. p\<lparr>vp_should_stop := True\<rparr>) p"

definition send_kill_signal :: "pipeline option \<Rightarrow> pipeline option" where
  "send_kill_signal p = map_option (\<lambda>p. p\<lparr>vp_should_kill := True\<rparr>) p"

section \<open>What one iteration meets\<close>

text \<open>
  The signals that came before it; the rounds of the wait (the clock of the deadline, whether the driver
  signals in time, whether the thread should be killed after that); the lock and the shared data behind
  it; the readings of the clocks in their order; the results of Direct3D and of the encoder, the exception
  that sending the packet raises, if it does, and whether the socket is still connected.
\<close>

record frame_input =
  fi_stop :: bool
  fi_kill :: bool
  fi_waits :: "(timespec \<times> bool \<times> bool) list"
  fi_locked :: bool
  fi_present :: OpenVRPresentInfo
  fi_event_received :: clock_env
  fi_info_received :: clock_env
  fi_finished_sent :: clock_env
  fi_late_check :: clock_env
  fi_opened :: clock_env
  fi_acquired_time :: clock_env
  fi_mapped :: clock_env
  fi_pushed :: clock_env
  fi_pulled :: clock_env
  fi_before_get :: clock_env
  fi_after_get :: clock_env
  fi_before_send :: clock_env
  fi_after_send :: clock_env
  fi_save_now :: clock_now
  fi_drop_now :: clock_now
  fi_quality_now :: clock_now
  fi_time_now :: clock_now
  fi_open :: "u64 \<Rightarrow> nat option"
  fi_query_mutex :: bool
  fi_acquire :: bool
  fi_preprocessed :: "nat option"
  fi_map :: "(u32 \<times> bytes) option"
  fi_packet :: "bytes option"
  fi_send_fault :: "fault option"
  fi_connected :: bool
  fi_save_staging :: bool
  fi_save_map :: "(u32 \<times> bytes) option"

fun await_present :: "(timespec \<times> bool \<times> bool) list \<Rightarrow> sem \<Rightarrow> (bool \<times> sem) option" where
  "await_present [] v = None"
| "await_present ((clock, posted, kill) # rs) v =
     (case event_wait clock posted [] VP_WAIT_TIMEOUT_MS v of
        None \<Rightarrow> None
      | Some (True, v') \<Rightarrow> Some (kill, v')
      | Some (False, v') \<Rightarrow> if kill then Some (True, v') else await_present rs v')"

definition signal_frame_finished :: "pipeline \<Rightarrow> pipeline" where
  "signal_frame_finished p = p\<lparr>vp_server_events := (vp_server_events p)
     \<lparr>ev_frame_finished := event_signal (ev_frame_finished (vp_server_events p))\<rparr>\<rparr>"

definition zero_server_times :: ServerFrameTimeMeasurements where
  "zero_server_times = \<lparr>sf_dropped = False, sf_frame_id = 0, sf_frame_event_received_timestamp = 0,
     sf_present_info_received_timestamp = 0, sf_shared_texture_opened_timestamp = 0,
     sf_shared_texture_acquired_timestamp = 0, sf_staging_texture_mapped_timestamp = 0, sf_frame_pushed_timestamp = 0,
     sf_frame_pulled_timestamp = 0, sf_before_last_get_next_packet_timestamp = 0,
     sf_after_last_get_next_packet_timestamp = 0, sf_before_last_send_packet_timestamp = 0,
     sf_after_last_send_packet_timestamp = 0, sf_finished_signal_sent_timestamp = 0\<rparr>"

definition drop_frame :: "frame_input \<Rightarrow> ServerFrameTimeMeasurements \<Rightarrow> pipeline \<Rightarrow> pipeline" where
  "drop_frame i t p = p\<lparr>vp_measurements := server_add_frame_time_measurement (fi_time_now i) (t\<lparr>sf_dropped := True\<rparr>)
     (server_add_dropped_frame (fi_drop_now i) (vp_measurements p))\<rparr>"

section \<open>Push\<close>

text \<open>Textures are opened once and then found by their handle.\<close>

definition open_shared_texture :: "(u64 \<Rightarrow> nat option) \<Rightarrow> u64 \<Rightarrow> pipeline \<Rightarrow> nat option \<times> pipeline" where
  "open_shared_texture open_resource handle p =
     (if handle = 0 then (None, p)
      else case map_of (vp_texture_cache p) handle of
        Some tex \<Rightarrow> (Some tex, p)
      | None \<Rightarrow> (case open_resource handle of None \<Rightarrow> (None, p)
          | Some tex \<Rightarrow> (Some tex, p\<lparr>vp_texture_cache := vp_texture_cache p @ [(handle, tex)]\<rparr>)))"

text \<open>Frames that are more than a frame time and a millisecond old are dropped.\<close>

definition frame_is_late :: "frame_input \<Rightarrow> pipeline \<Rightarrow> bool result" where
  "frame_is_late i p =
     and_then (inter_frame_delay_us (refresh_rate (vp_specs p))) (\<lambda>delay.
       Inr (us_of_ticks (now (fi_late_check i) (vp_rtp_clock p)
              - from_rtp_timestamp (vp_rtp_clock p) (sample_rtp_timestamp (fi_present i))) > uint (delay + 1000)))"

text \<open>The product of pitch and height is computed in 32 bits.\<close>

definition mapped_frame :: "u32 \<Rightarrow> bytes \<Rightarrow> pipeline \<Rightarrow> raw_frame" where
  "mapped_frame pitch mem p =
     \<lparr>rf_format = vp_staging_format p, rf_width = ext_width (eye_resolution (vp_specs p)) * 2,
      rf_height = ext_height (eye_resolution (vp_specs p)),
      rf_planes = (if vp_staging_format p = NV12
        then [(pitch, mem), (pitch, drop (unat (pitch * ext_height (eye_resolution (vp_specs p)))) mem)]
        else [(pitch, mem)])\<rparr>"

text \<open>The CPU part: None when the staging texture cannot be mapped.\<close>

definition push_cpu ::
    "frame_input \<Rightarrow> bool \<Rightarrow> ServerFrameTimeMeasurements \<Rightarrow> pipeline \<Rightarrow> ServerFrameTimeMeasurements option \<times> pipeline" where
  "push_cpu i last_frame t p =
     (if has_type (vp_encoder_type p) ENC_SOFTWARE
      then (case fi_map i of None \<Rightarrow> (None, p)
        | Some (pitch, mem) \<Rightarrow>
            (Some (t\<lparr>sf_staging_texture_mapped_timestamp := now_rtp_timestamp (fi_mapped i) (vp_rtp_clock p)\<rparr>),
             vp_call (Encode_cpu (frame_id (fi_present i)) (sample_rtp_timestamp (fi_present i)) last_frame (mapped_frame pitch mem p))
               (p\<lparr>vp_raw_size := ucast (pitch * ext_height (eye_resolution (vp_specs p)))\<rparr>)))
      else (Some t, p))"

text \<open>From the acquired texture to the encoder; the mutex is kept when the frame is to be saved.\<close>

definition push_texture ::
    "frame_input \<Rightarrow> bool \<Rightarrow> bool \<Rightarrow> nat \<Rightarrow> ServerFrameTimeMeasurements \<Rightarrow> pipeline
     \<Rightarrow> ServerFrameTimeMeasurements option \<times> pipeline" where
  "push_texture i last_frame save tex t p =
     (let type = vp_encoder_type p; info = fi_present i in
      case (if has_type type ENC_PREPROCESS then fi_preprocessed i else Some tex) of
        None \<Rightarrow> (None, drop_frame i t (vp_call (Release_sync tex) p))
      | Some tex' \<Rightarrow>
          let p1 = (if has_type type ENC_D3D11TEXTURE2D
                then vp_call (Encode_texture (frame_id info) (sample_rtp_timestamp info) last_frame tex') p else p)
          in (case push_cpu i last_frame t p1 of
                (None, p2) \<Rightarrow> (None, drop_frame i t (vp_call (Release_sync tex) p2))
              | (Some t2, p2) \<Rightarrow> (Some t2, if save then p2 else vp_call (Release_sync tex) p2)))"

text \<open>The frame's times if it reached the encoder; otherwise it has been dropped.\<close>

definition push_phase ::
    "frame_input \<Rightarrow> bool \<Rightarrow> bool \<Rightarrow> ServerFrameTimeMeasurements \<Rightarrow> pipeline
     \<Rightarrow> ServerFrameTimeMeasurements option \<times> pipeline" where
  "push_phase i last_frame save t p0 =
     (let info = fi_present i; c = vp_rtp_clock p0; p = p0\<lparr>vp_raw_size := 0\<rparr> in
      if vp_encoder_type p = ENC_SHARED_HANDLE
      then (Some t, vp_call (Encode_shared_handle (frame_id info) (sample_rtp_timestamp info) last_frame
        (backbuffer_texture_handle info)) p)
      else (case open_shared_texture (fi_open i) (backbuffer_texture_handle info) p of
        (None, p1) \<Rightarrow> (None, drop_frame i t (p1\<lparr>vp_texture := None\<rparr>))
      | (Some tex, p1) \<Rightarrow>
          let t1 = t\<lparr>sf_shared_texture_opened_timestamp := now_rtp_timestamp (fi_opened i) c\<rparr>;
              p2 = p1\<lparr>vp_texture := Some tex, vp_mutex := fi_query_mutex i\<rparr>
          in if \<not> fi_query_mutex i \<or> \<not> fi_acquire i then (None, drop_frame i t1 p2)
             else push_texture i last_frame save tex
               (t1\<lparr>sf_shared_texture_acquired_timestamp := now_rtp_timestamp (fi_acquired_time i) c\<rparr>)
               (vp_call (Acquire_sync tex) p2)))"

section \<open>Pull and send\<close>

definition capture_name :: "ServerMeasurementBucket \<Rightarrow> string" where
  "capture_name b = ''wvb_capture_pass_'' @ string_of_nat (unat (sb_pass_id b)) @ ''_run_''
     @ string_of_nat (unat (sb_run_id b)) @ ''_server_'' @ string_of_nat (unat (sb_nb_saved_frames b)) @ ''.rgba''"

text \<open>\<open>stride * height\<close> bytes of the mapped texture are written; the product wraps around.\<close>

definition save_texture :: "frame_input \<Rightarrow> pipeline \<Rightarrow> pipeline result" where
  "save_texture i p =
     (if \<not> (has_type (vp_encoder_type p) ENC_SOFTWARE \<and> vp_staging_format p = R8G8B8A8_UNORM) \<and> \<not> fi_save_staging i
      then Inl (RuntimeError ''Failed to create staging texture.'')
      else case fi_save_map i of None \<Rightarrow> Inl (RuntimeError ''Failed to map staging texture.'')
      | Some (stride, mem) \<Rightarrow>
          let n = unat (stride * ext_height (eye_resolution (vp_specs p)))
          in if n > length mem then Inl (UndefinedBehaviour ''read past the mapped texture'')
             else Inr (vp_call (Save_file (capture_name (vp_measurements p)) (take n mem)) p))"

definition pushed_info :: "frame_input \<Rightarrow> ServerFrameTimeMeasurements \<Rightarrow> pipeline \<Rightarrow> FrameInfo" where
  "pushed_info i t p =
     \<lparr>fr_frame_id = ucast (frame_id (fi_present i)), fr_sample_rtp_timestamp = sample_rtp_timestamp (fi_present i),
      fr_pose_rtp_timestamp = pose_rtp_timestamp (fi_present i),
      fr_frame_event_received_timestamp = sf_frame_event_received_timestamp t,
      fr_present_info_received_timestamp = sf_present_info_received_timestamp t,
      fr_shared_texture_opened_timestamp = sf_shared_texture_opened_timestamp t,
      fr_shared_texture_acquired_timestamp = sf_shared_texture_acquired_timestamp t,
      fr_staging_texture_mapped_timestamp = sf_staging_texture_mapped_timestamp t,
      fr_frame_pushed_timestamp = now_rtp_timestamp (fi_pushed i) (vp_rtp_clock p)\<rparr>"

definition pulled_times :: "frame_input \<Rightarrow> FrameInfo \<Rightarrow> pipeline \<Rightarrow> ServerFrameTimeMeasurements" where
  "pulled_times i f p = zero_server_times
     \<lparr>sf_frame_id := fr_frame_id f, sf_frame_event_received_timestamp := fr_frame_event_received_timestamp f,
      sf_present_info_received_timestamp := fr_present_info_received_timestamp f,
      sf_shared_texture_opened_timestamp := fr_shared_texture_opened_timestamp f,
      sf_shared_texture_acquired_timestamp := fr_shared_texture_acquired_timestamp f,
      sf_staging_texture_mapped_timestamp := fr_staging_texture_mapped_timestamp f,
      sf_frame_pushed_timestamp := fr_frame_pushed_timestamp f,
      sf_frame_pulled_timestamp := now_rtp_timestamp (fi_pulled i) (vp_rtp_clock p),
      sf_before_last_get_next_packet_timestamp := now_rtp_timestamp (fi_before_get i) (vp_rtp_clock p),
      sf_after_last_get_next_packet_timestamp := now_rtp_timestamp (fi_after_get i) (vp_rtp_clock p)\<rparr>"

text \<open>Saving the current texture, when it was kept for that.\<close>

definition save_if_needed :: "frame_input \<Rightarrow> bool \<Rightarrow> pipeline \<Rightarrow> fault option \<times> pipeline" where
  "save_if_needed i save p =
     (if save \<and> vp_mutex p
      then (case save_texture i p of Inl f \<Rightarrow> (Some f, p)
        | Inr p1 \<Rightarrow> (None, (case vp_texture p1 of None \<Rightarrow> p1 | Some tex \<Rightarrow> vp_call (Release_sync tex) p1)
            \<lparr>vp_measurements := server_add_saved_frame (vp_measurements p1)\<rparr>))
      else (None, p))"

text \<open>
  Sending takes the frame off the queue; an exception of the socket leaves it at that (the call is
  recorded, the thread ends), and a lost connection ends the thread.
\<close>

definition send_frame ::
    "frame_input \<Rightarrow> bool \<Rightarrow> bool \<Rightarrow> bytes \<Rightarrow> FrameInfo \<Rightarrow> pipeline \<Rightarrow> fault option \<times> pipeline" where
  "send_frame i last_frame save packet f p0 =
     (let p1 = vp_call (Send_packet packet (fr_frame_id f) last_frame (fr_sample_rtp_timestamp f)
                 (fr_pose_rtp_timestamp f) save) (p0\<lparr>vp_frame_info_queue := tl (vp_frame_info_queue p0)\<rparr>);
          p2 = (if last_frame then p1\<lparr>vp_last_frame_sent := True\<rparr> else p1)
      in case fi_send_fault i of
           Some e \<Rightarrow> (Some e, p1)
         | None \<Rightarrow> (None, if \<not> fi_connected i
             then p2\<lparr>vp_should_stop := True, vp_should_kill := True, vp_last_frame_sent := True\<rparr> else p2))"

text \<open>
  The packet that the encoder gives belongs to the oldest frame in the queue. An exception leaves what
  was done before it.
\<close>

definition send_phase ::
    "frame_input \<Rightarrow> bool \<Rightarrow> bool \<Rightarrow> bytes \<Rightarrow> FrameInfo \<Rightarrow> ServerFrameTimeMeasurements \<Rightarrow> pipeline
     \<Rightarrow> fault option \<times> pipeline" where
  "send_phase i last_frame save packet f t p0 =
     (let c = vp_rtp_clock p0;
          t1 = t\<lparr>sf_before_last_send_packet_timestamp := now_rtp_timestamp (fi_before_send i) c,
                 sf_after_last_send_packet_timestamp := now_rtp_timestamp (fi_after_send i) c\<rparr>
      in case send_frame i last_frame save packet f p0 of
           (Some e, p1) \<Rightarrow> (Some e, p1)
         | (None, p1) \<Rightarrow> (case save_if_needed i save p1 of
             (Some e, p2) \<Rightarrow> (Some e, p2)
           | (None, p2) \<Rightarrow> (None, p2\<lparr>vp_measurements := server_add_frame_time_measurement (fi_time_now i) t1
               (server_add_image_quality_measurement (fi_quality_now i)
                 \<lparr>iq_frame_id = fr_frame_id f, iq_codestream_size = of_nat (length packet),
                  iq_raw_size = ucast (vp_raw_size p2), iq_psnr = 0\<rparr> (vp_measurements p2))\<rparr>)))"

definition pull_phase ::
    "frame_input \<Rightarrow> bool \<Rightarrow> bool \<Rightarrow> ServerFrameTimeMeasurements \<Rightarrow> pipeline \<Rightarrow> fault option \<times> pipeline" where
  "pull_phase i last_frame save t p0 =
     (let p = p0\<lparr>vp_frame_info_queue := vp_frame_info_queue p0 @ [pushed_info i t p0]\<rparr>;
          f = hd (vp_frame_info_queue p);
          t1 = pulled_times i f p
      in case fi_packet i of
           None \<Rightarrow> (None, drop_frame i t1 p)
         | Some packet \<Rightarrow> send_phase i last_frame save packet f t1 p)"

section \<open>The worker thread\<close>

definition should_save_frame :: "frame_input \<Rightarrow> pipeline \<Rightarrow> bool" where
  "should_save_frame i p \<longleftrightarrow> measurements_complete (fi_save_now i) (vp_measurements p)
     \<and> \<not> server_has_saved_frames (vp_measurements p)"

text \<open>A frame that the driver has announced. Every branch tells the driver that it may go on.\<close>

definition handle_frame :: "frame_input \<Rightarrow> bool \<Rightarrow> pipeline \<Rightarrow> fault option \<times> pipeline" where
  "handle_frame i last_frame p =
     (let c = vp_rtp_clock p; save = should_save_frame i p; p1 = signal_frame_finished p;
          t = zero_server_times\<lparr>sf_frame_event_received_timestamp := now_rtp_timestamp (fi_event_received i) c,
                sf_finished_signal_sent_timestamp := now_rtp_timestamp (fi_finished_sent i) c\<rparr>
      in if \<not> fi_locked i then (None, drop_frame i t p1)
         else
           let t1 = t\<lparr>sf_frame_id := ucast (frame_id (fi_present i)),
                 sf_present_info_received_timestamp := now_rtp_timestamp (fi_info_received i) c\<rparr>
           in case frame_is_late i p1 of
                Inl e \<Rightarrow> (Some e, p1)
              | Inr True \<Rightarrow> (None, drop_frame i t1 p1)
              | Inr False \<Rightarrow>
                  (case push_phase i last_frame save t1 p1 of
                     (None, p2) \<Rightarrow> (None, p2)
                   | (Some t2, p2) \<Rightarrow> pull_phase i last_frame save t2 p2))"

definition worker_iteration :: "frame_input \<Rightarrow> pipeline \<Rightarrow> (fault option \<times> pipeline) option" where
  "worker_iteration i p0 =
     (case await_present (fi_waits i) (ev_new_present_info (vp_driver_events p0)) of None \<Rightarrow> None
      | Some (kill, v) \<Rightarrow>
          let p = p0\<lparr>vp_driver_events := (vp_driver_events p0)\<lparr>ev_new_present_info := v\<rparr>\<rparr> in
          if kill then Some (None, p\<lparr>vp_should_kill := True\<rparr>)
          else Some (handle_frame i (vp_should_stop p0) p))"

definition worker_done :: "pipeline \<Rightarrow> bool" where
  "worker_done p \<longleftrightarrow> vp_should_kill p \<or> (vp_should_stop p \<and> vp_last_frame_sent p)"

definition take_signals :: "frame_input \<Rightarrow> pipeline \<Rightarrow> pipeline" where
  "take_signals i p = p\<lparr>vp_should_stop := vp_should_stop p \<or> fi_stop i, vp_should_kill := vp_should_kill p \<or> fi_kill i\<rparr>"

text \<open>None while the thread runs; otherwise the exception that ended it, if one did.\<close>

fun worker_loop :: "frame_input list \<Rightarrow> pipeline \<Rightarrow> (fault option \<times> pipeline) option" where
  "worker_loop [] p = (if worker_done p then Some (None, p) else None)"
| "worker_loop (i # is') p =
     (if worker_done (take_signals i p) then Some (None, take_signals i p)
      else case worker_iteration i (take_signals i p) of
        None \<Rightarrow> None
      | Some (Some e, q) \<Rightarrow> Some (Some e, q)
      | Some (None, q) \<Rightarrow> worker_loop is' q)"

text \<open>Exceptions are caught and end the thread like everything else.\<close>

definition worker_thread_main :: "frame_input list \<Rightarrow> pipeline \<Rightarrow> pipeline result option" where
  "worker_thread_main is' p =
     (case worker_loop is' p of None \<Rightarrow> None
      | Some (Some (UndefinedBehaviour m), q) \<Rightarrow> Some (Inl (UndefinedBehaviour m))
      | Some (_, q) \<Rightarrow> Some (Inr (vp_call On_worker_thread_stopped q)))"

end
