(* ===== verification/PipelineRuns.thy ===== *)
theory PipelineRuns
  imports VideoPipeline Samples
begin

text \<open>
  What the worker thread of the video pipeline guarantees over whole runs: that the numbers of the
  frames stay in step with the packets, that every frame is accounted for, and how the stream ends.
\<close>

section \<open>Reading the calls\<close>

definition pushed_frames :: "pipeline_call list \<Rightarrow> (u32 \<times> u32) list" where
  "pushed_frames cs = concat (map (\<lambda>c. case c of Encode_shared_handle f t _ _ \<Rightarrow> [(ucast f, t)]
     | Encode_texture f t _ _ \<Rightarrow> [(ucast f, t)] | Encode_cpu f t _ _ \<Rightarrow> [(ucast f, t)] | _ \<Rightarrow> []) cs)"

definition sent_frames :: "pipeline_call list \<Rightarrow> (u32 \<times> u32) list" where
  "sent_frames cs = concat (map (\<lambda>c. case c of Send_packet _ f _ t _ _ \<Rightarrow> [(f, t)] | _ \<Rightarrow> []) cs)"

definition end_flags :: "pipeline_call list \<Rightarrow> bool list" where
  "end_flags cs = concat (map (\<lambda>c. case c of Send_packet _ _ l _ _ _ \<Rightarrow> [l] | _ \<Rightarrow> []) cs)"

lemmas readings = pushed_frames_def sent_frames_def end_flags_def

definition queued_frames :: "pipeline \<Rightarrow> (u32 \<times> u32) list" where
  "queued_frames p = map (\<lambda>f. (fr_frame_id f, fr_sample_rtp_timestamp f)) (vp_frame_info_queue p)"

text \<open>The encoders that exist: exactly one way in, with or without preprocessing of the texture.\<close>

definition single_encoder :: "u8 \<Rightarrow> bool" where
  "single_encoder type \<longleftrightarrow> type \<in> {ENC_SOFTWARE, ENC_D3D11TEXTURE2D, ENC_SHARED_HANDLE,
     or ENC_PREPROCESS ENC_SOFTWARE, or ENC_PREPROCESS ENC_D3D11TEXTURE2D}"

lemma single_encoder_types:
  "single_encoder type \<Longrightarrow> type \<noteq> ENC_SHARED_HANDLE \<Longrightarrow>
     has_type type ENC_D3D11TEXTURE2D \<longleftrightarrow> \<not> has_type type ENC_SOFTWARE"
  by (auto simp: single_encoder_def has_type_def encoder_types)

section \<open>The push phase\<close>

text \<open>What the push phase does not touch.\<close>

definition rest_kept :: "pipeline \<Rightarrow> pipeline \<Rightarrow> bool" where
  "rest_kept p q \<longleftrightarrow> vp_rtp_clock q = vp_rtp_clock p \<and> vp_encoder_type q = vp_encoder_type p
     \<and> vp_frame_info_queue q = vp_frame_info_queue p \<and> vp_should_stop q = vp_should_stop p
     \<and> vp_should_kill q = vp_should_kill p \<and> vp_last_frame_sent q = vp_last_frame_sent p
     \<and> vp_server_events q = vp_server_events p \<and> sent_frames (vp_calls q) = sent_frames (vp_calls p)
     \<and> end_flags (vp_calls q) = end_flags (vp_calls p)"

lemma rest_kept_refl: "rest_kept p p" by (simp add: rest_kept_def)

lemma rest_kept_trans: "rest_kept p q \<Longrightarrow> rest_kept q r \<Longrightarrow> rest_kept p r" by (simp add: rest_kept_def)

lemma kept_drop: "rest_kept p (drop_frame i t p)" "vp_calls (drop_frame i t p) = vp_calls p"
  by (simp_all add: rest_kept_def drop_frame_def)

text \<open>The measurements after a dropped frame.\<close>

definition drop_measured :: "frame_input \<Rightarrow> ServerMeasurementBucket \<Rightarrow> ServerMeasurementBucket \<Rightarrow> bool" where
  "drop_measured i b b' \<longleftrightarrow> (\<exists>t. b' = server_add_frame_time_measurement (fi_time_now i) (t\<lparr>sf_dropped := True\<rparr>)
     (server_add_dropped_frame (fi_drop_now i) b))"

lemma drop_measured: "vp_measurements p = b \<Longrightarrow> drop_measured i b (vp_measurements (drop_frame i t p))"
  by (auto simp: drop_measured_def drop_frame_def)

lemma kept_calls:
  "rest_kept p (vp_call (Release_sync x) p)" "rest_kept p (vp_call (Acquire_sync x) p)"
  "rest_kept p (vp_call (Encode_texture f t l x) p)" "rest_kept p (vp_call (Encode_cpu f t l r) p)"
  "rest_kept p (vp_call (Encode_shared_handle f t l h) p)"
  by (simp_all add: rest_kept_def vp_call_def readings)

lemma kept_locals: "rest_kept p (p\<lparr>vp_raw_size := n\<rparr>)" "rest_kept p (p\<lparr>vp_texture := x\<rparr>)"
  "rest_kept p (p\<lparr>vp_texture := x, vp_mutex := b\<rparr>)"
  by (simp_all add: rest_kept_def)

lemma open_keeps:
  assumes "open_shared_texture f h p = (r, q)"
  shows "rest_kept p q \<and> vp_calls q = vp_calls p \<and> vp_measurements q = vp_measurements p"
  using assms by (auto simp: open_shared_texture_def rest_kept_def split: if_splits option.splits)

text \<open>Either the frame is with the encoder, or it has been dropped and the encoder has seen nothing of it.\<close>

definition push_outcome :: "frame_input \<Rightarrow> pipeline \<Rightarrow> ServerFrameTimeMeasurements option \<Rightarrow> pipeline \<Rightarrow> bool" where
  "push_outcome i p r q \<longleftrightarrow> rest_kept p q \<and>
     (case r of
        Some _ \<Rightarrow> vp_measurements q = vp_measurements p \<and> pushed_frames (vp_calls q)
          = pushed_frames (vp_calls p) @ [(ucast (frame_id (fi_present i)), sample_rtp_timestamp (fi_present i))]
      | None \<Rightarrow> pushed_frames (vp_calls q) = pushed_frames (vp_calls p)
          \<and> drop_measured i (vp_measurements p) (vp_measurements q))"

lemma push_outcome_drop:
  "rest_kept p p' \<Longrightarrow> vp_measurements p' = vp_measurements p \<Longrightarrow> pushed_frames (vp_calls p') = pushed_frames (vp_calls p)
   \<Longrightarrow> push_outcome i p None (drop_frame i t p')"
  using rest_kept_trans [OF _ kept_drop(1)] kept_drop(2) drop_measured by (auto simp: push_outcome_def)

lemma push_texture_outcome:
  assumes "single_encoder (vp_encoder_type p)" "vp_encoder_type p \<noteq> ENC_SHARED_HANDLE"
    and "push_texture i lf save tex t p = (r, q)"
  shows "push_outcome i p r q"
proof -
  have rel: "push_outcome i p None (drop_frame i t (vp_call (Release_sync tex) p))"
    by (rule push_outcome_drop [OF kept_calls(1)]) (simp_all add: vp_call_def readings)
  show ?thesis
  proof (cases "if has_type (vp_encoder_type p) ENC_PREPROCESS then fi_preprocessed i else Some tex")
    case None
    then show ?thesis using assms(3) rel by (simp add: push_texture_def Let_def)
  next
    case (Some tex')
    note single = single_encoder_types [OF assms(1,2)]
    show ?thesis
    proof (cases "has_type (vp_encoder_type p) ENC_SOFTWARE")
      case soft: True
      show ?thesis
      proof (cases "fi_map i")
        case None
        then show ?thesis using assms(3) Some soft single rel by (simp add: push_texture_def Let_def push_cpu_def)
      next
        case (Some m)
        define p' where "p' = vp_call (Encode_cpu (frame_id (fi_present i)) (sample_rtp_timestamp (fi_present i)) lf
          (mapped_frame (fst m) (snd m) p)) (p\<lparr>vp_raw_size := ucast (fst m * ext_height (eye_resolution (vp_specs p)))\<rparr>)"
        have "push_texture i lf save tex t p = (Some (t\<lparr>sf_staging_texture_mapped_timestamp :=
            now_rtp_timestamp (fi_mapped i) (vp_rtp_clock p)\<rparr>), if save then p' else vp_call (Release_sync tex) p')"
          using Some \<open>_ = Some tex'\<close> soft single
          by (cases m) (simp add: push_texture_def Let_def push_cpu_def p'_def)
        then have "r \<noteq> None" "q = (if save then p' else vp_call (Release_sync tex) p')" using assms(3) by auto
        then show ?thesis by (cases r) (simp_all add: push_outcome_def rest_kept_def p'_def vp_call_def readings)
      qed
    next
      case hard: False
      define p' where "p' = vp_call (Encode_texture (frame_id (fi_present i)) (sample_rtp_timestamp (fi_present i)) lf tex') p"
      have "vp_encoder_type p' = vp_encoder_type p" by (simp add: p'_def vp_call_def)
      then have "push_texture i lf save tex t p = (Some t, if save then p' else vp_call (Release_sync tex) p')"
        using Some hard single by (simp add: push_texture_def Let_def push_cpu_def p'_def [symmetric])
      then have "r = Some t" "q = (if save then p' else vp_call (Release_sync tex) p')" using assms(3) by auto
      then show ?thesis by (simp add: push_outcome_def rest_kept_def p'_def vp_call_def readings)
    qed
  qed
qed

lemma push_outcome_from:
  assumes "rest_kept p p'" "vp_measurements p' = vp_measurements p" "pushed_frames (vp_calls p') = pushed_frames (vp_calls p)"
    and "push_outcome i p' r q"
  shows "push_outcome i p r q"
  using assms rest_kept_trans [of p p' q] by (auto simp: push_outcome_def split: option.splits)

lemma push_phase_outcome:
  assumes "single_encoder (vp_encoder_type p)" "push_phase i lf save t p = (r, q)"
  shows "push_outcome i p r q"
proof (cases "vp_encoder_type p = ENC_SHARED_HANDLE")
  case True
  then show ?thesis
    using assms(2) by (auto simp: push_phase_def Let_def push_outcome_def rest_kept_def vp_call_def readings)
next
  case False
  obtain x p1 where o: "open_shared_texture (fi_open i) (backbuffer_texture_handle (fi_present i)) (p\<lparr>vp_raw_size := 0\<rparr>) = (x, p1)"
    by fastforce
  have k: "rest_kept p p1" "vp_calls p1 = vp_calls p" "vp_measurements p1 = vp_measurements p"
    using open_keeps [OF o] rest_kept_trans [OF kept_locals(1) [of p 0]] by auto
  show ?thesis
  proof (cases x)
    case None
    then show ?thesis
      using assms(2) False o k push_outcome_drop [of p "p1\<lparr>vp_texture := None\<rparr>"] rest_kept_trans [OF k(1) kept_locals(2)]
      by (auto simp: push_phase_def Let_def)
  next
    case (Some tex)
    define p2 where "p2 = p1\<lparr>vp_texture := Some tex, vp_mutex := fi_query_mutex i\<rparr>"
    have k2: "rest_kept p p2" "vp_calls p2 = vp_calls p" "vp_measurements p2 = vp_measurements p"
      using k rest_kept_trans [OF k(1) kept_locals(3)] by (auto simp: p2_def)
    show ?thesis
    proof (cases "fi_query_mutex i \<and> fi_acquire i")
      case True
      have "rest_kept p (vp_call (Acquire_sync tex) p2)" by (rule rest_kept_trans [OF k2(1) kept_calls(2)])
      moreover from True obtain t' where "push_texture i lf save tex t' (vp_call (Acquire_sync tex) p2) = (r, q)"
        using assms(2) False o Some by (auto simp: push_phase_def Let_def p2_def)
      ultimately show ?thesis
        using push_texture_outcome push_outcome_from [of p "vp_call (Acquire_sync tex) p2"] assms(1) False k2
        by (simp add: rest_kept_def vp_call_def readings)
    next
      case fail: False
      then show ?thesis
        using assms(2) False o Some push_outcome_drop [OF k2(1,3)] k2(2) by (auto simp: push_phase_def Let_def p2_def)
    qed
  qed
qed

section \<open>The pull phase\<close>

lemma save_effect:
  assumes "save_if_needed i save p = (e, q)"
  shows "rest_kept p q" "pushed_frames (vp_calls q) = pushed_frames (vp_calls p)"
    "vp_measurements q = vp_measurements p \<or> vp_measurements q = server_add_saved_frame (vp_measurements p)"
  using assms by (auto simp: save_if_needed_def save_texture_def Let_def vp_call_def rest_kept_def readings
      split: if_splits option.splits sum.splits prod.splits)

lemma send_effect:
  assumes "send_phase i lf save packet f t p = (e, q)"
  shows "pushed_frames (vp_calls q) = pushed_frames (vp_calls p)"
    "sent_frames (vp_calls q) = sent_frames (vp_calls p) @ [(fr_frame_id f, fr_sample_rtp_timestamp f)]"
    "end_flags (vp_calls q) = end_flags (vp_calls p) @ [lf]"
    "vp_frame_info_queue q = tl (vp_frame_info_queue p)" "vp_encoder_type q = vp_encoder_type p"
    "vp_server_events q = vp_server_events p"
    "fi_send_fault i \<noteq> None \<Longrightarrow> e \<noteq> None"
    "fi_send_fault i = None \<Longrightarrow> vp_should_kill q \<longleftrightarrow> vp_should_kill p \<or> \<not> fi_connected i"
    "fi_send_fault i = None \<Longrightarrow> vp_should_stop q \<longleftrightarrow> vp_should_stop p \<or> \<not> fi_connected i"
    "fi_send_fault i = None \<Longrightarrow> vp_last_frame_sent q \<longleftrightarrow> vp_last_frame_sent p \<or> lf \<or> \<not> fi_connected i"
proof -
  define p3 where "p3 = snd (send_frame i lf save packet f p)"
  have fst: "fst (send_frame i lf save packet f p) = fi_send_fault i"
    by (simp add: send_frame_def Let_def split: option.split)
  obtain e4 p4 where s: "save_if_needed i save p3 = (e4, p4)" by fastforce
  have "rest_kept p3 q \<and> pushed_frames (vp_calls q) = pushed_frames (vp_calls p3) \<and> (fi_send_fault i \<noteq> None \<longrightarrow> e \<noteq> None)"
  proof (cases "fi_send_fault i")
    case None
    then have "send_frame i lf save packet f p = (None, p3)" using fst by (metis p3_def prod.collapse)
    then obtain b where "q = p4\<lparr>vp_measurements := b\<rparr>"
      using assms s by (cases e4) (auto simp: send_phase_def Let_def intro: that [of "vp_measurements p4"])
    then show ?thesis using save_effect(1,2) [OF s] None by (simp add: rest_kept_def)
  next
    case (Some err)
    then have "send_frame i lf save packet f p = (Some err, p3)" using fst by (metis p3_def prod.collapse)
    then show ?thesis using assms by (auto simp: send_phase_def Let_def rest_kept_def)
  qed
  note eff = this
  have p3: "vp_calls p3 = vp_calls p @ [Send_packet packet (fr_frame_id f) lf (fr_sample_rtp_timestamp f)
      (fr_pose_rtp_timestamp f) save]" "vp_frame_info_queue p3 = tl (vp_frame_info_queue p)"
    "vp_encoder_type p3 = vp_encoder_type p" "vp_server_events p3 = vp_server_events p"
    "fi_send_fault i = None \<Longrightarrow> vp_should_kill p3 \<longleftrightarrow> vp_should_kill p \<or> \<not> fi_connected i"
    "fi_send_fault i = None \<Longrightarrow> vp_should_stop p3 \<longleftrightarrow> vp_should_stop p \<or> \<not> fi_connected i"
    "fi_send_fault i = None \<Longrightarrow> vp_last_frame_sent p3 \<longleftrightarrow> vp_last_frame_sent p \<or> lf \<or> \<not> fi_connected i"
    by (simp_all add: p3_def send_frame_def Let_def vp_call_def split: option.split)
  show "pushed_frames (vp_calls q) = pushed_frames (vp_calls p)"
    "sent_frames (vp_calls q) = sent_frames (vp_calls p) @ [(fr_frame_id f, fr_sample_rtp_timestamp f)]"
    "end_flags (vp_calls q) = end_flags (vp_calls p) @ [lf]"
    "vp_frame_info_queue q = tl (vp_frame_info_queue p)" "vp_encoder_type q = vp_encoder_type p"
    "vp_server_events q = vp_server_events p"
    "fi_send_fault i \<noteq> None \<Longrightarrow> e \<noteq> None"
    "fi_send_fault i = None \<Longrightarrow> vp_should_kill q \<longleftrightarrow> vp_should_kill p \<or> \<not> fi_connected i"
    "fi_send_fault i = None \<Longrightarrow> vp_should_stop q \<longleftrightarrow> vp_should_stop p \<or> \<not> fi_connected i"
    "fi_send_fault i = None \<Longrightarrow> vp_last_frame_sent q \<longleftrightarrow> vp_last_frame_sent p \<or> lf \<or> \<not> fi_connected i"
    using eff by (simp_all add: rest_kept_def p3 readings)
qed

text \<open>A frame that reached the encoder is queued; the packet, if there is one, goes with the oldest.\<close>

lemma pull_effect:
  assumes "pull_phase i lf save t p = (e, q)"
  shows "pushed_frames (vp_calls q) = pushed_frames (vp_calls p) \<and> vp_encoder_type q = vp_encoder_type p
    \<and> vp_server_events q = vp_server_events p
    \<and> sent_frames (vp_calls q) @ queued_frames q = sent_frames (vp_calls p) @ queued_frames p
       @ [(ucast (frame_id (fi_present i)), sample_rtp_timestamp (fi_present i))]
    \<and> (if fi_packet i = None
       then e = None \<and> end_flags (vp_calls q) = end_flags (vp_calls p) \<and> vp_should_kill q = vp_should_kill p
         \<and> vp_should_stop q = vp_should_stop p \<and> vp_last_frame_sent q = vp_last_frame_sent p
       else end_flags (vp_calls q) = end_flags (vp_calls p) @ [lf] \<and> (e = None \<longrightarrow>
           (vp_should_kill q \<longleftrightarrow> vp_should_kill p \<or> \<not> fi_connected i)
         \<and> (vp_should_stop q \<longleftrightarrow> vp_should_stop p \<or> \<not> fi_connected i)
         \<and> (vp_last_frame_sent q \<longleftrightarrow> vp_last_frame_sent p \<or> lf \<or> \<not> fi_connected i)))"
proof -
  define p1 where "p1 = p\<lparr>vp_frame_info_queue := vp_frame_info_queue p @ [pushed_info i t p]\<rparr>"
  have q1: "queued_frames p1 = queued_frames p @ [(ucast (frame_id (fi_present i)), sample_rtp_timestamp (fi_present i))]"
    "vp_frame_info_queue p1 \<noteq> []"
    by (simp_all add: p1_def queued_frames_def pushed_info_def)
  have same: "vp_calls p1 = vp_calls p" "vp_encoder_type p1 = vp_encoder_type p" "vp_server_events p1 = vp_server_events p"
    "vp_should_kill p1 = vp_should_kill p" "vp_should_stop p1 = vp_should_stop p"
    "vp_last_frame_sent p1 = vp_last_frame_sent p"
    by (simp_all add: p1_def)
  show ?thesis
  proof (cases "fi_packet i")
    case None
    then have "q = drop_frame i (pulled_times i (hd (vp_frame_info_queue p1)) p1) p1" "e = None"
      using assms by (simp_all add: pull_phase_def Let_def p1_def)
    then show ?thesis using None same q1 by (simp add: drop_frame_def queued_frames_def)
  next
    case (Some packet)
    then have "send_phase i lf save packet (hd (vp_frame_info_queue p1)) (pulled_times i (hd (vp_frame_info_queue p1)) p1) p1 = (e, q)"
      using assms by (simp add: pull_phase_def Let_def p1_def)
    note eff = send_effect [OF this]
    have "queued_frames p1 = (fr_frame_id (hd (vp_frame_info_queue p1)), fr_sample_rtp_timestamp (hd (vp_frame_info_queue p1)))
        # queued_frames q"
      using eff(4) q1(2) by (cases "vp_frame_info_queue p1") (simp_all add: queued_frames_def)
    then show ?thesis using eff q1(1) same Some by auto
  qed
qed

section \<open>One frame\<close>

lemma kept_signal: "rest_kept (signal_frame_finished p) (drop_frame i t (signal_frame_finished p))"
  by (rule kept_drop(1))

text \<open>A frame is either handed to the encoder and pulled, or it leaves the stream as it was.\<close>

lemma frame_cases:
  assumes "single_encoder (vp_encoder_type p)" "handle_frame i lf p = (e, q)"
  obtains (stopped) "e \<noteq> None" "q = signal_frame_finished p"
  | (dropped) "e = None" "rest_kept (signal_frame_finished p) q" "pushed_frames (vp_calls q) = pushed_frames (vp_calls p)"
      "drop_measured i (vp_measurements p) (vp_measurements q)"
  | (pushed) t p2 where "push_outcome i (signal_frame_finished p) (Some t) p2"
      "pull_phase i lf (should_save_frame i p) t p2 = (e, q)"
proof -
  define p1 where "p1 = signal_frame_finished p"
  have m: "vp_measurements p1 = vp_measurements p" "vp_calls p1 = vp_calls p" "vp_encoder_type p1 = vp_encoder_type p"
    by (simp_all add: p1_def signal_frame_finished_def)
  have drop: thesis if "e = None" "q = drop_frame i t p1" for t
    using that dropped [OF _ _ _] kept_drop [where p = p1] drop_measured [of p1] m by (auto simp: p1_def)
  show thesis
  proof (cases "fi_locked i")
    case False
    then show thesis using assms(2) drop by (auto simp: handle_frame_def Let_def p1_def)
  next
    case True
    show thesis
    proof (cases "frame_is_late i p1")
      case (Inl err)
      then show thesis using assms(2) True stopped by (auto simp: handle_frame_def Let_def p1_def)
    next
      case (Inr late)
      show thesis
      proof (cases late)
        case True
        then show thesis using assms(2) \<open>fi_locked i\<close> Inr drop by (auto simp: handle_frame_def Let_def p1_def)
      next
        case False
        define t1 where "t1 = zero_server_times\<lparr>sf_frame_event_received_timestamp := now_rtp_timestamp (fi_event_received i) (vp_rtp_clock p),
                sf_finished_signal_sent_timestamp := now_rtp_timestamp (fi_finished_sent i) (vp_rtp_clock p),
                sf_frame_id := ucast (frame_id (fi_present i)),
                sf_present_info_received_timestamp := now_rtp_timestamp (fi_info_received i) (vp_rtp_clock p)\<rparr>"
        obtain r p2 where r: "push_phase i lf (should_save_frame i p) t1 p1 = (r, p2)" by fastforce
        have o: "push_outcome i p1 r p2" by (rule push_phase_outcome [OF _ r]) (use assms(1) m in simp)
        have h: "handle_frame i lf p = (case r of None \<Rightarrow> (None, p2) | Some t2 \<Rightarrow> pull_phase i lf (should_save_frame i p) t2 p2)"
          using r False Inr \<open>fi_locked i\<close>
          by (simp add: handle_frame_def Let_def p1_def [symmetric] t1_def split: option.splits)
        show thesis
        proof (cases r)
          case None
          then show thesis using h assms(2) o m dropped by (auto simp: push_outcome_def p1_def)
        next
          case (Some t2)
          then show thesis using h assms(2) o pushed by (auto simp: p1_def)
        qed
      qed
    qed
  qed
qed

section \<open>The queue of frame numbers\<close>

definition in_step :: "pipeline \<Rightarrow> bool" where
  "in_step p \<longleftrightarrow> single_encoder (vp_encoder_type p)
     \<and> pushed_frames (vp_calls p) = sent_frames (vp_calls p) @ queued_frames p"

lemma frame_in_step:
  assumes "in_step p" "handle_frame i lf p = (e, q)"
  shows "in_step q"
proof -
  have single: "single_encoder (vp_encoder_type p)" using assms(1) by (simp add: in_step_def)
  have sig: "vp_calls (signal_frame_finished p) = vp_calls p" "vp_encoder_type (signal_frame_finished p) = vp_encoder_type p"
    "vp_frame_info_queue (signal_frame_finished p) = vp_frame_info_queue p"
    by (simp_all add: signal_frame_finished_def)
  from single assms(2) show ?thesis
  proof (cases rule: frame_cases)
    case stopped
    then show ?thesis using assms(1) sig by (simp add: in_step_def queued_frames_def)
  next
    case dropped
    then show ?thesis using assms(1) sig by (simp add: in_step_def rest_kept_def queued_frames_def)
  next
    case (pushed t p2)
    then show ?thesis
      using assms(1) pull_effect [OF pushed(2)] sig
      by (simp add: in_step_def push_outcome_def rest_kept_def queued_frames_def)
  qed
qed

lemma iteration_in_step:
  "in_step p \<Longrightarrow> worker_iteration i p = Some (e, q) \<Longrightarrow> in_step q"
  by (auto simp: worker_iteration_def Let_def in_step_def queued_frames_def split: option.splits prod.splits if_splits
      dest!: frame_in_step [rotated])

lemma loop_in_step:
  "in_step p \<Longrightarrow> worker_loop is' p = Some (e, q) \<Longrightarrow> in_step q"
proof (induction is' arbitrary: p)
  case Nil
  then show ?case by (auto split: if_splits)
next
  case (Cons i is')
  have t: "in_step (take_signals i p)"
    using Cons.prems(1) by (simp add: in_step_def take_signals_def queued_frames_def)
  show ?case
  proof (cases "worker_done (take_signals i p)")
    case True
    then show ?thesis using Cons.prems(2) t by auto
  next
    case False
    then obtain e1 p1 where w: "worker_iteration i (take_signals i p) = Some (e1, p1)"
      using Cons.prems(2) by (auto split: option.splits)
    show ?thesis
      using Cons.prems(2) False w iteration_in_step [OF t w] Cons.IH [of p1] by (cases e1) auto
  qed
qed

text \<open>The queue of frame numbers does not lose its place: with an encoder that takes each frame in one way,
  the ids and sample time stamps under which packets are sent are, one for one and in order, those of
  the frames handed to the encoder; what is left are the frames still in the queue. Whether the data of a
  packet belongs to its id depends on the encoder (theory \<open>EncoderRuns\<close>).\<close>

lemma packets_match_frames:
  assumes "single_encoder (vp_encoder_type p)" "vp_calls p = []" "vp_frame_info_queue p = []"
    and "worker_loop is' (vp_start_worker_thread p) = Some (e, q)"
  shows "pushed_frames (vp_calls q) = sent_frames (vp_calls q) @ queued_frames q"
proof -
  have "in_step (vp_start_worker_thread p)"
    using assms(1-3) by (simp add: in_step_def vp_start_worker_thread_def readings queued_frames_def)
  from loop_in_step [OF this assms(4)] show ?thesis by (simp add: in_step_def)
qed

section \<open>The end of the stream\<close>

text \<open>No packet is marked as the last one, or exactly the last packet is and the thread is done.\<close>

definition stream_ok :: "pipeline \<Rightarrow> bool" where
  "stream_ok p \<longleftrightarrow> single_encoder (vp_encoder_type p) \<and>
     (True \<notin> set (end_flags (vp_calls p)) \<and> (vp_last_frame_sent p \<longrightarrow> vp_should_kill p)
      \<or> (\<exists>fs. end_flags (vp_calls p) = fs @ [True] \<and> True \<notin> set fs) \<and> vp_last_frame_sent p \<and> vp_should_stop p)"

text \<open>What holds of the packets even when sending one of them has failed.\<close>

definition one_end :: "pipeline \<Rightarrow> bool" where
  "one_end p \<longleftrightarrow> True \<notin> set (end_flags (vp_calls p))
     \<or> (\<exists>fs. end_flags (vp_calls p) = fs @ [True] \<and> True \<notin> set fs)"

lemma stream_ok_one_end: "stream_ok p \<Longrightarrow> one_end p"
  by (auto simp: stream_ok_def one_end_def)

lemma frame_stream:
  assumes "stream_ok p" "\<not> worker_done p" "handle_frame i (vp_should_stop p) p = (e, q)"
  shows "one_end q \<and> (e = None \<longrightarrow> stream_ok q)"
proof -
  have single: "single_encoder (vp_encoder_type p)" using assms(1) by (simp add: stream_ok_def)
  have run: "\<not> vp_last_frame_sent p" "\<not> vp_should_kill p" and flags: "True \<notin> set (end_flags (vp_calls p))"
    using assms(1,2) by (auto simp: stream_ok_def worker_done_def)
  have sig: "vp_calls (signal_frame_finished p) = vp_calls p" "vp_encoder_type (signal_frame_finished p) = vp_encoder_type p"
    "vp_last_frame_sent (signal_frame_finished p) = vp_last_frame_sent p" "vp_should_stop (signal_frame_finished p) = vp_should_stop p"
    "vp_should_kill (signal_frame_finished p) = vp_should_kill p"
    by (simp_all add: signal_frame_finished_def)
  from single assms(3) show ?thesis
  proof (cases rule: frame_cases)
    case stopped
    then show ?thesis using stream_ok_one_end [OF assms(1)] sig by (auto simp: one_end_def)
  next
    case dropped
    then have "stream_ok q" using assms(1) sig by (simp add: stream_ok_def rest_kept_def)
    then show ?thesis using stream_ok_one_end by blast
  next
    case (pushed t p2)
    have k: "end_flags (vp_calls p2) = end_flags (vp_calls p)" "vp_last_frame_sent p2 = vp_last_frame_sent p"
      "vp_should_stop p2 = vp_should_stop p" "vp_should_kill p2 = vp_should_kill p" "vp_encoder_type p2 = vp_encoder_type p"
      using pushed(1) sig by (simp_all add: push_outcome_def rest_kept_def)
    show ?thesis
      using pull_effect [OF pushed(2)] k run flags single
      by (cases "fi_packet i"; cases "vp_should_stop p") (auto simp: stream_ok_def one_end_def)
  qed
qed

lemma iteration_stream:
  assumes "stream_ok p" "\<not> worker_done p" "worker_iteration i p = Some (e, q)"
  shows "one_end q \<and> (e = None \<longrightarrow> stream_ok q)"
proof -
  from assms(3) obtain kill v where w: "await_present (fi_waits i) (ev_new_present_info (vp_driver_events p)) = Some (kill, v)"
    by (auto simp: worker_iteration_def split: option.splits)
  define p' where "p' = p\<lparr>vp_driver_events := (vp_driver_events p)\<lparr>ev_new_present_info := v\<rparr>\<rparr>"
  have p': "stream_ok p'" "\<not> worker_done p'" "vp_should_stop p' = vp_should_stop p"
    using assms(1,2) by (simp_all add: p'_def stream_ok_def worker_done_def)
  show ?thesis
  proof (cases kill)
    case True
    then have "q = p'\<lparr>vp_should_kill := True\<rparr>" using assms(3) w by (simp add: worker_iteration_def p'_def)
    then show ?thesis using p'(1) by (auto simp: stream_ok_def one_end_def)
  next
    case False
    then have "handle_frame i (vp_should_stop p') p' = (e, q)" using assms(3) w by (simp add: worker_iteration_def p'_def)
    from frame_stream [OF p'(1,2) this] show ?thesis .
  qed
qed

lemma loop_stream:
  assumes "stream_ok p" "worker_loop is' p = Some (e, q)"
  shows "one_end q \<and> (e = None \<longrightarrow> stream_ok q \<and> worker_done q)"
  using assms
proof (induction is' arbitrary: p)
  case Nil
  then show ?case using stream_ok_one_end by (auto split: if_splits)
next
  case (Cons i is')
  have t: "stream_ok (take_signals i p)"
    using Cons.prems(1) by (auto simp: stream_ok_def take_signals_def)
  show ?case
  proof (cases "worker_done (take_signals i p)")
    case True
    then show ?thesis using Cons.prems(2) t stream_ok_one_end by auto
  next
    case False
    then obtain e1 p1 where w: "worker_iteration i (take_signals i p) = Some (e1, p1)"
      using Cons.prems(2) by (auto split: option.splits)
    show ?thesis
      using Cons.prems(2) False w iteration_stream [OF t False w] Cons.IH [of p1] by (cases e1) auto
  qed
qed

text \<open>C21: the stream ends properly. No packet follows one that is marked as the end of the stream, and a
  worker thread that ends without an exception, a kill signal and a lost connection has sent exactly one
  such packet, as its lf.\<close>

theorem stream_ends_once:
  assumes "single_encoder (vp_encoder_type p)" "vp_calls p = []"
    and "worker_loop is' (vp_start_worker_thread p) = Some (e, q)"
  shows "True \<notin> set (end_flags (vp_calls q)) \<and> (e = None \<longrightarrow> vp_should_kill q)
    \<or> (\<exists>fs. end_flags (vp_calls q) = fs @ [True] \<and> True \<notin> set fs)"
proof -
  have "stream_ok (vp_start_worker_thread p)"
    using assms(1,2) by (simp add: stream_ok_def vp_start_worker_thread_def readings)
  from loop_stream [OF this assms(3)] show ?thesis by (auto simp: stream_ok_def one_end_def worker_done_def)
qed

section \<open>Every frame is accounted for\<close>

text \<open>What one measurement more means, and the phases it needs.\<close>

definition one_more :: "ServerMeasurementBucket \<Rightarrow> bool \<Rightarrow> ServerMeasurementBucket \<Rightarrow> bool" where
  "one_more b dropped b' \<longleftrightarrow>
     (\<exists>t. sb_frame_measurements b' = sb_frame_measurements b @ [t] \<and> sf_dropped t = dropped)
     \<and> sb_dropped_frames b' = sb_dropped_frames b + (if dropped then 1 else 0)"

definition both_timed :: "frame_input \<Rightarrow> ServerMeasurementBucket \<Rightarrow> bool" where
  "both_timed i b \<longleftrightarrow> is_in_timing_phase (fi_drop_now i) b \<and> is_in_timing_phase (fi_time_now i) b"

lemma dropped_one_more:
  assumes "both_timed i b" "drop_measured i b b'"
  shows "one_more b True b'"
proof -
  have "is_in_timing_phase (fi_time_now i) (server_add_dropped_frame (fi_drop_now i) b)"
    using assms(1) timing_phase_cong [of "server_add_dropped_frame (fi_drop_now i) b" b]
    by (simp add: both_timed_def server_add_dropped_frame_def)
  then show ?thesis
    using assms by (auto simp: drop_measured_def one_more_def both_timed_def server_add_frame_time_measurement_def
        server_add_dropped_frame_def)
qed

lemma send_measured:
  assumes "send_phase i lf save packet f t p = (None, q)" "\<not> sf_dropped t"
  shows "\<exists>p3 p4 m u. vp_measurements p3 = vp_measurements p \<and> save_if_needed i save p3 = (None, p4) \<and> \<not> sf_dropped u
    \<and> vp_measurements q = server_add_frame_time_measurement (fi_time_now i) u
        (server_add_image_quality_measurement (fi_quality_now i) m (vp_measurements p4))"
proof -
  define p3 where "p3 = snd (send_frame i lf save packet f p)"
  have m: "vp_measurements p3 = vp_measurements p"
    by (simp add: p3_def send_frame_def Let_def vp_call_def split: option.split)
  have sent: "send_frame i lf save packet f p = (None, p3)"
    using assms(1) by (cases "send_frame i lf save packet f p"; cases "fst (send_frame i lf save packet f p)")
      (auto simp: send_phase_def Let_def p3_def)
  obtain e4 p4 where s: "save_if_needed i save p3 = (e4, p4)" by fastforce
  define u where "u = t\<lparr>sf_before_last_send_packet_timestamp := now_rtp_timestamp (fi_before_send i) (vp_rtp_clock p),
    sf_after_last_send_packet_timestamp := now_rtp_timestamp (fi_after_send i) (vp_rtp_clock p)\<rparr>"
  have "e4 = None" and "\<exists>m. vp_measurements q = server_add_frame_time_measurement (fi_time_now i) u
        (server_add_image_quality_measurement (fi_quality_now i) m (vp_measurements p4))"
    using assms(1) s sent by (cases e4; auto simp: send_phase_def Let_def u_def)+
  moreover have "\<not> sf_dropped u" using assms(2) by (simp add: u_def)
  ultimately show ?thesis using m s by blast
qed

lemma sent_one_more:
  assumes "both_timed i b" "vp_measurements p = b" "\<not> sf_dropped t"
    and "send_phase i lf save packet f t p = (None, q)"
  shows "one_more b False (vp_measurements q)"
proof -
  obtain p3 p4 m u where s: "vp_measurements p3 = b" "save_if_needed i save p3 = (None, p4)" "\<not> sf_dropped u"
    "vp_measurements q = server_add_frame_time_measurement (fi_time_now i) u
      (server_add_image_quality_measurement (fi_quality_now i) m (vp_measurements p4))"
    using send_measured [OF assms(4,3)] assms(2) by auto
  have same: "sb_frame_measurements (vp_measurements p4) = sb_frame_measurements b"
    "sb_dropped_frames (vp_measurements p4) = sb_dropped_frames b"
    "is_in_timing_phase (fi_time_now i) (vp_measurements p4)"
    using save_effect(3) [OF s(2)] s(1) assms(1) timing_phase_cong [of "server_add_saved_frame b" b]
    by (auto simp: both_timed_def server_add_saved_frame_def)
  then have "is_in_timing_phase (fi_time_now i) (server_add_image_quality_measurement (fi_quality_now i) m (vp_measurements p4))"
    using timing_phase_cong [of "server_add_image_quality_measurement (fi_quality_now i) m (vp_measurements p4)" "vp_measurements p4"]
    by (simp add: server_add_image_quality_measurement_def)
  then show ?thesis using s(3,4) same
    by (auto simp: one_more_def server_add_frame_time_measurement_def server_add_image_quality_measurement_def)
qed

text \<open>C36: every frame is accounted for. Whatever fails on the way of a frame that the driver announced, the
  driver gets exactly one signal to go on, exactly one measurement is added, and the frame counts as
  dropped exactly when no packet was sent for it; then it is marked as dropped.\<close>

theorem frame_accounted:
  assumes "single_encoder (vp_encoder_type p)" "both_timed i (vp_measurements p)"
    and "handle_frame i lf p = (None, q)"
  shows "ev_frame_finished (vp_server_events q) = event_signal (ev_frame_finished (vp_server_events p))
    \<and> (\<exists>fs. sent_frames (vp_calls q) = sent_frames (vp_calls p) @ fs \<and> length fs \<le> 1
        \<and> one_more (vp_measurements p) (fs = []) (vp_measurements q))"
proof -
  have sig: "vp_server_events (signal_frame_finished p)
        = (vp_server_events p)\<lparr>ev_frame_finished := event_signal (ev_frame_finished (vp_server_events p))\<rparr>"
    "vp_calls (signal_frame_finished p) = vp_calls p" "vp_measurements (signal_frame_finished p) = vp_measurements p"
    by (simp_all add: signal_frame_finished_def)
  from assms(1,3) show ?thesis
  proof (cases rule: frame_cases)
    case stopped
    then show ?thesis by simp
  next
    case dropped
    have "one_more (vp_measurements p) True (vp_measurements q)" by (rule dropped_one_more [OF assms(2) dropped(4)])
    then show ?thesis using dropped(2) sig by (auto simp: rest_kept_def)
  next
    case (pushed t p2)
    have p2: "vp_measurements p2 = vp_measurements p" "vp_server_events p2 = vp_server_events (signal_frame_finished p)"
      "sent_frames (vp_calls p2) = sent_frames (vp_calls p)"
      using pushed(1) sig by (simp_all add: push_outcome_def rest_kept_def)
    define p3 where "p3 = p2\<lparr>vp_frame_info_queue := vp_frame_info_queue p2 @ [pushed_info i t p2]\<rparr>"
    define f where "f = hd (vp_frame_info_queue p3)"
    have p3: "vp_measurements p3 = vp_measurements p" "vp_calls p3 = vp_calls p2" using p2 by (simp_all add: p3_def)
    have ev: "vp_server_events q = vp_server_events (signal_frame_finished p)"
      using pull_effect [OF pushed(2)] p2(2) by simp
    show ?thesis
    proof (cases "fi_packet i")
      case None
      then have "q = drop_frame i (pulled_times i f p3) p3"
        using pushed(2) by (simp add: pull_phase_def Let_def p3_def f_def)
      then show ?thesis using dropped_one_more [OF assms(2) drop_measured [OF p3(1)]] ev sig p2 p3 kept_drop(2) by auto
    next
      case (Some packet)
      then have send: "send_phase i lf (should_save_frame i p) packet f (pulled_times i f p3) p3 = (None, q)"
        using pushed(2) by (simp add: pull_phase_def Let_def p3_def f_def)
      have "one_more (vp_measurements p) False (vp_measurements q)"
        by (rule sent_one_more [OF assms(2) p3(1) _ send]) (simp add: pulled_times_def zero_server_times_def)
      then show ?thesis using send_effect(2) [OF send] ev sig p2 p3 by auto
    qed
  qed
qed

section \<open>A sample run\<close>

definition vp_sample :: pipeline where
  "vp_sample = \<lparr>vp_rtp_clock = sample_clock, vp_measurements = (new_server_bucket)\<lparr>m_rtp_clock := Some 0, m_mode := ACCEPT_ALL\<rparr>,
     vp_shared = sample_shared, vp_driver_events = \<lparr>ev_driver_state_changed = 0, ev_new_present_info = 0, ev_new_measurements = 0\<rparr>,
     vp_server_events = \<lparr>ev_server_state_changed = 0, ev_new_system_specs = 0, ev_frame_finished = 0,
       ev_new_tracking_data = 0, ev_new_benchmark_data = 0\<rparr>,
     vp_specs = sample_specs, vp_encoder_type = ENC_SHARED_HANDLE, vp_staging_format = NV12, vp_should_stop = False,
     vp_should_kill = False, vp_frame_info_queue = [], vp_texture_cache = [], vp_last_frame_sent = False,
     vp_texture = None, vp_mutex = False, vp_raw_size = 0, vp_calls = []\<rparr>"

definition vp_sample_input :: "u64 \<Rightarrow> bytes option \<Rightarrow> bool \<Rightarrow> frame_input" where
  "vp_sample_input n packet stop = (let e = sample_clock_env 0 in
     \<lparr>fi_stop = stop, fi_kill = False, fi_waits = [(\<lparr>tv_sec = 0, tv_nsec = 0\<rparr>, False, False), (\<lparr>tv_sec = 1, tv_nsec = 0\<rparr>, True, False)],
      fi_locked = True, fi_present = \<lparr>backbuffer_texture_handle = 1, frame_id = n, vsync_time_in_seconds = 0,
        sample_rtp_timestamp = 0, pose_rtp_timestamp = 0\<rparr>,
      fi_event_received = e, fi_info_received = e, fi_finished_sent = e, fi_late_check = e, fi_opened = e,
      fi_acquired_time = e, fi_mapped = e, fi_pushed = e, fi_pulled = e, fi_before_get = e, fi_after_get = e,
      fi_before_send = e, fi_after_send = e, fi_save_now = (\<lambda>_. 0), fi_drop_now = (\<lambda>_. 0), fi_quality_now = (\<lambda>_. 0),
      fi_time_now = (\<lambda>_. 0), fi_open = (\<lambda>_. None), fi_query_mutex = True, fi_acquire = True, fi_preprocessed = None,
      fi_map = None, fi_packet = packet, fi_send_fault = None, fi_connected = True, fi_save_staging = True, fi_save_map = None\<rparr>)"

lemmas vp_sample_simps = worker_iteration_def handle_frame_def frame_is_late_def push_phase_def pull_phase_def send_phase_def send_frame_def
  save_if_needed_def drop_frame_def signal_frame_finished_def vp_call_def pushed_info_def pulled_times_def
  vp_sample_input_def vp_sample_def take_signals_def worker_done_def event_wait_def VP_WAIT_TIMEOUT_MS_def NO_TIMEOUT_def
  sem_timed_wait_def deadline_def timespec_normal_def NS_PER_SEC_def inter_frame_delay_us_def sample_specs_def
  sample_clock_def sample_clock_env_def now_def ticks_of_ns_def from_rtp_timestamp_def us_of_ticks_def Let_def
  vp_start_worker_thread_def should_save_frame_def encoder_types measurements_complete_def

text \<open>An encoder with a delay of one frame: the second frame pushes the first one out, and the stop signal
  comes before the third.\<close>

lemma vp_sample_run:
  "\<exists>q. worker_loop [vp_sample_input 5 None False, vp_sample_input 6 (Some [1]) False, vp_sample_input 7 (Some [2]) True]
       (vp_start_worker_thread vp_sample) = Some (None, q)
     \<and> sent_frames (vp_calls q) = [(5, 0), (6, 0)] \<and> end_flags (vp_calls q) = [False, True]"
  by (simp add: vp_sample_simps readings)

lemma vp_sample_single: "single_encoder (vp_encoder_type vp_sample)"
  by (simp add: single_encoder_def vp_sample_def)

theorem stream_ends_once_witness:
  "\<exists>q :: pipeline. end_flags (vp_calls q) = [False, True]
     \<and> (\<exists>fs. end_flags (vp_calls q) = fs @ [True] \<and> True \<notin> set fs)"
proof -
  obtain q where q: "worker_loop [vp_sample_input 5 None False, vp_sample_input 6 (Some [1]) False, vp_sample_input 7 (Some [2]) True]
       (vp_start_worker_thread vp_sample) = Some (None, q)" "end_flags (vp_calls q) = [False, True]"
    using vp_sample_run by blast
  from stream_ends_once [OF vp_sample_single _ q(1)] q(2) show ?thesis by (auto simp: vp_sample_def)
qed

theorem frame_accounted_witness:
  "\<exists>q. handle_frame (vp_sample_input 5 None False) False vp_sample = (None, q)
     \<and> sb_dropped_frames (vp_measurements q) = sb_dropped_frames (vp_measurements vp_sample) + 1"
proof -
  obtain q where q: "handle_frame (vp_sample_input 5 None False) False vp_sample = (None, q)" "sent_frames (vp_calls q) = []"
    by (simp add: vp_sample_simps readings)
  have "both_timed (vp_sample_input 5 None False) (vp_measurements vp_sample)"
    by (simp add: both_timed_def is_in_timing_phase_def vp_sample_def)
  from frame_accounted [OF vp_sample_single this q(1)] q show ?thesis by (auto simp: one_more_def)
qed

section \<open>Observations\<close>

text \<open>Without a kill signal, the thread waits for a frame for ever; the stop signal does not end the wait.\<close>

lemma stop_does_not_wake:
  "(\<forall>r \<in> set rs. \<not> fst (snd r) \<and> \<not> snd (snd r)) \<Longrightarrow> await_present rs 0 = None"
  by (induction rs) (auto simp: event_wait_def VP_WAIT_TIMEOUT_MS_def NO_TIMEOUT_def sem_timed_wait_def)

text \<open>When a frame is to be saved but the encoder gives out no packet, the mutex of the texture stays
  acquired.\<close>

lemma mutex_kept:
  assumes "vp_encoder_type p = ENC_D3D11TEXTURE2D" "open_shared_texture (fi_open i) (backbuffer_texture_handle (fi_present i))
      (p\<lparr>vp_raw_size := 0\<rparr>) = (Some tex, p')" "fi_query_mutex i" "fi_acquire i" "fi_packet i = None"
    and "push_phase i lf True t p = (Some t', p1)" "pull_phase i lf True t' p1 = (e, q)"
  shows "\<exists>cs. vp_calls q = vp_calls p @ Acquire_sync tex # cs \<and> Release_sync tex \<notin> set cs"
  using assms open_keeps [OF assms(2)]
  by (auto simp: rest_kept_def push_phase_def push_texture_def push_cpu_def pull_phase_def drop_frame_def vp_call_def Let_def
      has_type_def encoder_types)

text \<open>The time at which the driver was told to go on is lost: sent frames carry zero.\<close>

lemma finished_time_lost: "sf_finished_signal_sent_timestamp (pulled_times i f p) = 0"
  by (simp add: pulled_times_def zero_server_times_def)

text \<open>An encoder that takes the shared handle never gets a frame saved, so a benchmark with it never has its
  ten frames.\<close>

lemma shared_handle_saves_nothing:
  assumes "vp_encoder_type p = ENC_SHARED_HANDLE" "\<not> vp_mutex p" "handle_frame i lf p = (e, q)"
  shows "sb_nb_saved_frames (vp_measurements q) = sb_nb_saved_frames (vp_measurements p)"
  using assms
  by (auto simp: handle_frame_def push_phase_def pull_phase_def send_phase_def send_frame_def save_if_needed_def drop_frame_def
      signal_frame_finished_def vp_call_def Let_def server_add_frame_time_measurement_def server_add_dropped_frame_def
      server_add_image_quality_measurement_def split: if_splits sum.splits option.splits bool.splits)

text \<open>The age of a frame is the difference of a time point that grows on and a time stamp of 32 bits: once
  the clock has gone round (13.3 hours and the longest possible frame time after the epoch), all frames
  are late.\<close>

lemma all_frames_late:
  assumes "clock_offset (vp_rtp_clock p) = 0" "rr_numerator (refresh_rate (vp_specs p)) \<noteq> 0"
    and "2 ^ 32 + 400000000 \<le> now (fi_late_check i) (vp_rtp_clock p)"
  shows "frame_is_late i p = Inr True"
proof -
  obtain delay where d: "inter_frame_delay_us (refresh_rate (vp_specs p)) = Inr delay"
    using assms(2) by (simp add: inter_frame_delay_us_def)
  define age where "age = now (fi_late_check i) (vp_rtp_clock p)
    - from_rtp_timestamp (vp_rtp_clock p) (sample_rtp_timestamp (fi_present i))"
  have "uint (sample_rtp_timestamp (fi_present i)) < 2 ^ 32" using uint_lt2p [of "sample_rtp_timestamp (fi_present i)"] by simp
  then have "400000000 < age" using assms(1,3) by (simp add: age_def from_rtp_timestamp_def)
  then have "2 ^ 32 \<le> us_of_ticks age" by (simp add: us_of_ticks_def sdiv_nonneg)
  moreover have "uint (delay + 1000) < 2 ^ 32" using uint_lt2p [of "delay + 1000"] by simp
  ultimately show ?thesis by (simp add: frame_is_late_def d age_def [symmetric])
qed

end
