(* ===== verification/H264Packetizer.thy ===== *)
theory H264Packetizer
  imports RtpTypes
begin

text \<open>
  \<open>common/src/formats/h264/h264_rtp_packetizer.cpp\<close>, the packetizer of the RTP build
  (\<open>WVB_VIDEO_SOCKET_USE_RTP\<close>): it cuts the byte stream of a frame at its start codes and sends each
  NAL unit in one packet, or in fragments (FU-A) when it does not fit. The pointers \<open>m_h264_head\<close> and
  \<open>m_h264_tail\<close> delimit the bytes that are left; they are null together.
\<close>

section \<open>Definitions\<close>

definition WVB_EARLY_FRAME_TOLERANCE :: nat where
  "WVB_EARLY_FRAME_TOLERANCE = 128"

definition WVB_RTP_MTU :: nat where
  "WVB_RTP_MTU = 1500"

definition RTP_MARGIN :: nat where
  "RTP_MARGIN = 100"

definition NALU_TYPE :: "u8 \<Rightarrow> u8" where
  "NALU_TYPE h = h AND 0x1F"

definition FU_INDICATOR :: "u8 \<Rightarrow> u8" where
  "FU_INDICATOR h = (h AND 0b11100000) OR 28"

definition FU_HEADER_START_BIT :: u8 where
  "FU_HEADER_START_BIT = 0b10000000"

definition FU_HEADER_END_BIT :: u8 where
  "FU_HEADER_END_BIT = 0b01000000"

record H264RtpPacketizer =
  hp_rtp_data :: bytes
  hp_sequence_number :: u16
  hp_h264 :: "bytes option"
  hp_last :: bool
  hp_current_nalu_header :: u8

text \<open>The header is a view of the first bytes of the packet buffer.\<close>

definition packet_header :: "H264RtpPacketizer \<Rightarrow> RTPHeader" where
  "packet_header p = RTPHeader_of (hp_rtp_data p)"

definition set_packet_header :: "RTPHeader \<Rightarrow> H264RtpPacketizer \<Rightarrow> H264RtpPacketizer" where
  "set_packet_header h p = p\<lparr>hp_rtp_data := write_at 0 (RTPHeader_bytes h) (hp_rtp_data p)\<rparr>"

text \<open>The constructor; the random base sequence number is an argument.\<close>

definition create_h264_rtp_packetizer :: "u16 \<Rightarrow> u32 \<Rightarrow> H264RtpPacketizer" where
  "create_h264_rtp_packetizer random the_ssrc =
     (let p = \<lparr>hp_rtp_data = replicate WVB_RTP_MTU 0, hp_sequence_number = 0, hp_h264 = None,
               hp_last = False, hp_current_nalu_header = 0\<rparr>;
          h1 = (packet_header p)\<lparr>first_byte := RTP_FIRST_BYTE_BASE\<rparr>;
          h2 = (set_payload h1 PT_H264 False)\<lparr>ssrc := htonl the_ssrc\<rparr>;
          h3 = h2\<lparr>sequence_number := htons random\<rparr>
      in (set_packet_header h3 p)\<lparr>hp_sequence_number := random\<rparr>)"

text \<open>
  The parameters are in the order of this class: \<open>last\<close> comes before \<open>save_frame\<close>, and the interface has
  them the other way round. A null pointer is \<open>None\<close>.
\<close>

definition h264_add_frame_data ::
    "bytes option \<Rightarrow> u32 \<Rightarrow> bool \<Rightarrow> u32 \<Rightarrow> u32 \<Rightarrow> bool \<Rightarrow> bool \<Rightarrow> H264RtpPacketizer \<Rightarrow> H264RtpPacketizer" where
  "h264_add_frame_data data frame_id end_of_stream ts pose_ts last_part save_frame p =
     (let p1 = p\<lparr>hp_h264 := data, hp_current_nalu_header := 0, hp_last := last_part\<rparr>;
          h = (packet_header p1)\<lparr>timestamp := htonl ts, pose_timestamp_ext := htonl pose_ts,
                frame_id_ext := htonl frame_id\<rparr>
      in set_packet_header h p1)"

text \<open>The virtual call of the interface passes its arguments by position.\<close>

definition interface_add_frame_data ::
    "bytes option \<Rightarrow> u32 \<Rightarrow> bool \<Rightarrow> u32 \<Rightarrow> u32 \<Rightarrow> bool \<Rightarrow> bool \<Rightarrow> H264RtpPacketizer \<Rightarrow> H264RtpPacketizer" where
  "interface_add_frame_data data frame_id eos ts pose_ts save_frame last_part p =
     h264_add_frame_data data frame_id eos ts pose_ts save_frame last_part p"

section \<open>Scanning for the end of a NAL unit\<close>

text \<open>The length of the start code at the head of the bytes that are left, 0 when there is none.\<close>

fun start_code_at :: "bytes \<Rightarrow> nat" where
  "start_code_at (a # b # c # rest) =
     (if a = 0 \<and> b = 0
      then if c = 1 then 3
           else if c = 0 then (case rest of d # _ \<Rightarrow> if d = 1 then 4 else 0 | [] \<Rightarrow> 0)
           else 0
      else 0)"
| "start_code_at _ = 0"

record nal_scan =
  sc_is_nalu_start :: bool
  sc_nal_size :: nat
  sc_current :: nat
  sc_nal_start :: "nat option"
  sc_nalu_header :: u8

text \<open>
  The loop: the list holds the bytes from \<open>current\<close> to the tail, and positions count from the head.
\<close>

function scan_nal :: "bytes \<Rightarrow> nal_scan \<Rightarrow> nal_scan" where
  "scan_nal left s =
     (if sc_nal_size s < WVB_RTP_MTU - RTP_MARGIN \<and> left \<noteq> []
      then let n = start_code_at left in
        if 0 < n
        then let s1 = s\<lparr>sc_is_nalu_start := True\<rparr> in
          if sc_nal_start s1 \<noteq> None then s1
          else scan_nal (drop n left) (s1\<lparr>sc_current := sc_current s1 + n\<rparr>)
        else let s1 = (if sc_is_nalu_start s
                       then s\<lparr>sc_is_nalu_start := False, sc_nal_start := Some (sc_current s),
                              sc_nalu_header := hd left\<rparr>
                       else s)
             in scan_nal (tl left)
                  (s1\<lparr>sc_nal_size := sc_nal_size s1 + 1, sc_current := sc_current s1 + 1\<rparr>)
      else s)"
  by pat_completeness auto
termination
  by (relation "measure (\<lambda>(left, s). length left)") (auto simp: neq_Nil_conv)

declare scan_nal.simps [simp del]

definition initial_scan :: "H264RtpPacketizer \<Rightarrow> nal_scan" where
  "initial_scan p =
     \<lparr>sc_is_nalu_start = False, sc_nal_size = 0, sc_current = 0,
      sc_nal_start = (if hp_current_nalu_header p \<noteq> 0 then Some 0 else None),
      sc_nalu_header = hp_current_nalu_header p\<rparr>"

section \<open>Building a packet\<close>

text \<open>The payload and the header of the NAL unit still in progress (0 when it is finished).\<close>

definition nal_payload :: "bool \<Rightarrow> bool \<Rightarrow> u8 \<Rightarrow> bytes \<Rightarrow> bytes \<times> u8" where
  "nal_payload in_fragmented_nal end_of_nal_reached header nal =
     (if \<not> in_fragmented_nal \<and> end_of_nal_reached then (nal, 0)
      else if \<not> in_fragmented_nal
      then ([FU_INDICATOR header, NALU_TYPE header OR FU_HEADER_START_BIT] @ tl nal, header)
      else if end_of_nal_reached
      then ([FU_INDICATOR header, NALU_TYPE header OR FU_HEADER_END_BIT] @ nal, 0)
      else ([FU_INDICATOR header, NALU_TYPE header] @ nal, header))"

text \<open>The payload is in the buffer; the header is completed and the pointers move on.\<close>

definition finalize_packet ::
    "bytes \<Rightarrow> nat \<Rightarrow> bytes \<Rightarrow> H264RtpPacketizer \<Rightarrow> (bool \<times> bytes option) \<times> H264RtpPacketizer" where
  "finalize_packet data current payload p =
     (let p1 = p\<lparr>hp_rtp_data := write_at sizeof_RTPHeader payload (hp_rtp_data p)\<rparr>;
          out_size = sizeof_RTPHeader + length payload;
          h1 = (packet_header p1)\<lparr>sequence_number := htons (hp_sequence_number p1)\<rparr>;
          eof = (current = length data);
          h2 = set_marker h1 (eof \<and> hp_last p1);
          p2 = (set_packet_header h2 p1)\<lparr>hp_sequence_number := hp_sequence_number p1 + 1,
                 hp_h264 := (if eof then None else Some (drop current data))\<rparr>
      in ((\<not> eof, Some (take out_size (hp_rtp_data p2))), p2))"

text \<open>
  The result: whether the caller should call again, and the packet. The bytes of the NAL unit are taken
  from \<open>nal_start\<close>, \<open>nal_size\<close> of them; what was skipped before the first start code is counted in
  \<open>nal_size\<close> too, so the read can go past the tail.
\<close>

definition h264_create_next_packet ::
    "H264RtpPacketizer \<Rightarrow> (bool \<times> bytes option) result \<times> H264RtpPacketizer" where
  "h264_create_next_packet p =
     (case hp_h264 p of
        None \<Rightarrow> (Inr (False, None), p)
      | Some data \<Rightarrow>
        let in_fragmented_nal = (hp_current_nalu_header p \<noteq> 0);
            s = scan_nal data (initial_scan p);
            p1 = p\<lparr>hp_current_nalu_header := sc_nalu_header s\<rparr>
        in case sc_nal_start s of
             None \<Rightarrow> (Inr (False, None), p1)
           | Some start \<Rightarrow>
             if sc_nal_size s = 0 then (Inr (False, None), p1)
             else if start + sc_nal_size s > length data
             then (Inl (UndefinedBehaviour ''read past the frame data''), p1)
             else let end_of_nal = (sc_is_nalu_start s \<or> sc_current s = length data);
                      (payload, header) = nal_payload in_fragmented_nal end_of_nal (sc_nalu_header s)
                        (take (sc_nal_size s) (drop start data));
                      (out, p2) = finalize_packet data (sc_current s) payload
                        (p1\<lparr>hp_current_nalu_header := header\<rparr>)
                  in (Inr out, p2))"

section \<open>Bounds\<close>

lemma start_code_le: "start_code_at xs \<le> length xs"
  by (induction xs rule: start_code_at.induct) (auto split: list.splits)

lemma scan_stop: "\<not> (sc_nal_size s < WVB_RTP_MTU - RTP_MARGIN \<and> left \<noteq> []) \<Longrightarrow> scan_nal left s = s"
  by (subst scan_nal.simps) (rule if_not_P)

lemma scan_bounds:
  "sc_nal_size s \<le> 1400 \<Longrightarrow>
     sc_nal_size (scan_nal left s) \<le> 1400
     \<and> sc_nal_size s \<le> sc_nal_size (scan_nal left s)
     \<and> sc_current s + sc_nal_size (scan_nal left s) \<le> sc_current (scan_nal left s) + sc_nal_size s
     \<and> sc_current (scan_nal left s) \<le> sc_current s + length left"
proof (induction left s rule: scan_nal.induct)
  case (1 left s)
  define s1 where "s1 = (if sc_is_nalu_start s
     then s\<lparr>sc_is_nalu_start := False, sc_nal_start := Some (sc_current s), sc_nalu_header := hd left\<rparr> else s)"
  have same: "sc_nal_size s1 = sc_nal_size s" "sc_current s1 = sc_current s"
    by (simp_all add: s1_def)
  show ?case
  proof (cases "sc_nal_size s < 1400 \<and> left \<noteq> []")
    case loop: True
    then have go: "sc_nal_size s < WVB_RTP_MTU - RTP_MARGIN \<and> left \<noteq> []"
      by (simp add: WVB_RTP_MTU_def RTP_MARGIN_def)
    show ?thesis
    proof (cases "0 < start_code_at left")
      case True
      note IH = "1.IH"(1) [OF go refl True refl]
      show ?thesis
      proof (cases "sc_nal_start s = None")
        case none: True
        have "scan_nal left s = scan_nal (drop (start_code_at left) left)
            (s\<lparr>sc_is_nalu_start := True, sc_current := sc_current s + start_code_at left\<rparr>)"
          using go True none by (simp add: scan_nal.simps [of left s] Let_def)
        then show ?thesis
          using IH none "1.prems" start_code_le [of left] by simp
      next
        case False
        then have "scan_nal left s = s\<lparr>sc_is_nalu_start := True\<rparr>"
          using go True by (simp add: scan_nal.simps [of left s] Let_def)
        then show ?thesis using "1.prems" by simp
      qed
    next
      case False
      have "scan_nal left s = scan_nal (tl left)
          (s1\<lparr>sc_nal_size := sc_nal_size s + 1, sc_current := sc_current s + 1\<rparr>)"
        using go False by (simp add: scan_nal.simps [of left s] s1_def Let_def)
      moreover obtain x xs where "left = x # xs" using loop by (cases left) auto
      ultimately show ?thesis
        using "1.IH"(2) [OF go refl False s1_def] loop same by simp
    qed
  next
    case False
    then have "\<not> (sc_nal_size s < WVB_RTP_MTU - RTP_MARGIN \<and> left \<noteq> [])"
      by (simp add: WVB_RTP_MTU_def RTP_MARGIN_def)
    then have "scan_nal left s = s" by (rule scan_stop)
    then show ?thesis using "1.prems" by simp
  qed
qed

text \<open>The buffer has its full size, and a NAL unit is only in progress while data is left.\<close>

definition packetizer_ok :: "H264RtpPacketizer \<Rightarrow> bool" where
  "packetizer_ok p \<longleftrightarrow> length (hp_rtp_data p) = WVB_RTP_MTU"

lemma create_packetizer_ok: "packetizer_ok (create_h264_rtp_packetizer random the_ssrc)"
  by (simp add: packetizer_ok_def create_h264_rtp_packetizer_def set_packet_header_def Let_def
      length_write_at sizeof_RTPHeader_def WVB_RTP_MTU_def)

lemma payload_length:
  "nal \<noteq> [] \<Longrightarrow> 0 < length (fst (nal_payload f e h nal)) \<and> length (fst (nal_payload f e h nal)) \<le> length nal + 2"
  by (cases nal) (auto simp: nal_payload_def)

lemma packet_header_set [simp]: "packet_header (set_packet_header h p) = h"
  by (simp add: packet_header_def set_packet_header_def)

lemma sizeof_RTPHeader_20 [simp]: "sizeof_RTPHeader = 20"
  by (simp add: sizeof_RTPHeader_def)

lemma RTPHeader_bytes_of: "20 \<le> length bs \<Longrightarrow> RTPHeader_bytes (RTPHeader_of bs) = take 20 bs"
proof -
  assume len: "20 \<le> length bs"
  then obtain a b r where bs: "bs = a # b # r" and r: "18 \<le> length r"
    by (cases bs rule: load16.cases) auto
  have "take (2 + (4 + (4 + (4 + 4)))) r = take 2 r @ take 4 (drop 2 r) @ take 4 (drop 6 r)
      @ take 4 (drop 10 r) @ take 4 (drop 14 r)"
    by (simp only: take_add drop_drop) simp
  then have "take 18 r = take 2 r @ take 4 (drop 2 r) @ take 4 (drop 6 r)
      @ take 4 (drop 10 r) @ take 4 (drop 14 r)"
    by simp
  then show ?thesis
    using r unfolding RTPHeader_bytes_def RTPHeader_of_def bs by simp
qed

lemma header_split:
  "length (hp_rtp_data p) = 1500 \<Longrightarrow>
     \<exists>r. hp_rtp_data p = RTPHeader_bytes (packet_header p) @ r \<and> length r = 1480"
  by (rule exI [of _ "drop 20 (hp_rtp_data p)"]) (simp add: packet_header_def RTPHeader_bytes_of)

lemma finalize_unfold:
  assumes len: "length (hp_rtp_data p) = 1500" and pl: "length payload \<le> 1402"
    and out: "finalize_packet data current payload p = ((again, out), p')"
  defines "h \<equiv> set_marker ((packet_header p)\<lparr>sequence_number := htons (hp_sequence_number p)\<rparr>)
                (current = length data \<and> hp_last p)"
  shows "out = Some (RTPHeader_bytes h @ payload)" "again \<longleftrightarrow> current \<noteq> length data"
    "hp_h264 p' = (if current = length data then None else Some (drop current data))"
    "hp_sequence_number p' = hp_sequence_number p + 1" "hp_last p' = hp_last p"
    "hp_current_nalu_header p' = hp_current_nalu_header p"
    "length (hp_rtp_data p') = 1500" "packet_header p' = h"
proof -
  obtain H r where H: "packet_header p = H" and r: "hp_rtp_data p = RTPHeader_bytes H @ r"
    and lr: "length r = 1480"
    using header_split [OF len] by blast
  have hdr: "packet_header (q\<lparr>hp_rtp_data := RTPHeader_bytes H @ xs\<rparr>) = H" for q xs
    by (simp add: packet_header_def)
  have w: "write_at 20 payload (hp_rtp_data p) = RTPHeader_bytes H @ payload @ drop (length payload) r"
    unfolding r by (subst write_at_append) auto
  have f: "finalize_packet data current payload p =
     ((current \<noteq> length data, Some (RTPHeader_bytes h @ payload)),
      p\<lparr>hp_rtp_data := RTPHeader_bytes h @ payload @ drop (length payload) r,
        hp_sequence_number := hp_sequence_number p + 1,
        hp_h264 := (if current = length data then None else Some (drop current data))\<rparr>)"
    unfolding finalize_packet_def Let_def sizeof_RTPHeader_20 w hdr h_def H
    by (simp add: set_packet_header_def)
  show "out = Some (RTPHeader_bytes h @ payload)" "again \<longleftrightarrow> current \<noteq> length data"
    "hp_h264 p' = (if current = length data then None else Some (drop current data))"
    "hp_sequence_number p' = hp_sequence_number p + 1" "hp_last p' = hp_last p"
    "hp_current_nalu_header p' = hp_current_nalu_header p"
    "length (hp_rtp_data p') = 1500" "packet_header p' = h"
    using out lr pl unfolding f by (auto simp: packet_header_def)
qed

text \<open>One call that gives out a packet.\<close>

lemma next_packet_out:
  assumes call: "h264_create_next_packet p = (Inr (again, Some pkt), p')"
  obtains data s payload header where
    "hp_h264 p = Some data" "s = scan_nal data (initial_scan p)"
    "0 < length payload" "length payload \<le> 1402" "sc_nal_size s \<noteq> 0"
    "finalize_packet data (sc_current s) payload (p\<lparr>hp_current_nalu_header := header\<rparr>)
       = ((again, Some pkt), p')"
proof -
  obtain data where data: "hp_h264 p = Some data"
    using call by (cases "hp_h264 p") (auto simp: h264_create_next_packet_def)
  define s where "s = scan_nal data (initial_scan p)"
  obtain n where start: "sc_nal_start s = Some n" and size: "sc_nal_size s \<noteq> 0"
    and fits: "\<not> n + sc_nal_size s > length data"
    using call data by (cases "sc_nal_start s")
      (auto simp: h264_create_next_packet_def s_def [symmetric] Let_def split: if_splits)
  define nal where "nal = take (sc_nal_size s) (drop n data)"
  obtain payload header where np: "nal_payload (hp_current_nalu_header p \<noteq> 0)
      (sc_is_nalu_start s \<or> sc_current s = length data) (sc_nalu_header s) nal = (payload, header)"
    by fastforce
  have nal: "length nal = sc_nal_size s" using fits by (simp add: nal_def)
  moreover have "sc_nal_size s \<le> 1400"
    using scan_bounds [of "initial_scan p" data] by (simp add: s_def initial_scan_def)
  ultimately have pl: "0 < length payload" "length payload \<le> 1402"
    using size nal payload_length [of nal, where f = "hp_current_nalu_header p \<noteq> 0"
        and e = "sc_is_nalu_start s \<or> sc_current s = length data" and h = "sc_nalu_header s"]
    unfolding np by fastforce+
  have "finalize_packet data (sc_current s) payload (p\<lparr>hp_current_nalu_header := header\<rparr>)
       = ((again, Some pkt), p')"
    using call data start size fits np
    by (simp add: h264_create_next_packet_def s_def [symmetric] nal_def Let_def split: prod.splits)
  with data s_def pl size show thesis using that by blast
qed

lemma next_packet_progress:
  assumes call: "h264_create_next_packet p = (Inr (True, Some pkt), p')"
  shows "\<exists>data rest. hp_h264 p = Some data \<and> hp_h264 p' = Some rest \<and> length rest < length data"
proof -
  obtain data s payload header where d: "hp_h264 p = Some data" "s = scan_nal data (initial_scan p)"
    and size: "sc_nal_size s \<noteq> 0"
    and fin: "finalize_packet data (sc_current s) payload (p\<lparr>hp_current_nalu_header := header\<rparr>)
       = ((True, Some pkt), p')"
    using next_packet_out [OF call] by metis
  have "sc_nal_size s \<le> sc_current s" "sc_current s \<le> length data"
    using scan_bounds [of "initial_scan p" data] by (simp_all add: d initial_scan_def)
  with size fin d(1) show ?thesis
    by (auto simp: finalize_packet_def Let_def set_packet_header_def)
qed

lemma next_packet_out_facts:
  assumes ok: "packetizer_ok p" and call: "h264_create_next_packet p = (Inr (again, Some pkt), p')"
  shows "packetizer_ok p' \<and> hp_sequence_number p' = hp_sequence_number p + 1 \<and>
    (\<exists>h payload. pkt = RTPHeader_bytes h @ payload \<and> 0 < length payload \<and> length payload \<le> 1402
       \<and> packet_header p' = h
       \<and> h = set_marker ((packet_header p)\<lparr>sequence_number := htons (hp_sequence_number p)\<rparr>)
               (\<not> again \<and> hp_last p))"
proof -
  obtain data s payload header where d: "hp_h264 p = Some data" "s = scan_nal data (initial_scan p)"
    and pl: "0 < length payload" "length payload \<le> 1402" "sc_nal_size s \<noteq> 0"
    and fin: "finalize_packet data (sc_current s) payload (p\<lparr>hp_current_nalu_header := header\<rparr>)
       = ((again, Some pkt), p')"
    using next_packet_out [OF call] by metis
  have len: "length (hp_rtp_data (p\<lparr>hp_current_nalu_header := header\<rparr>)) = 1500"
    using ok by (simp add: packetizer_ok_def WVB_RTP_MTU_def)
  note f = finalize_unfold [OF len pl(2) fin]
  have "packet_header (p\<lparr>hp_current_nalu_header := header\<rparr>) = packet_header p"
    by (simp add: packet_header_def)
  moreover have "\<not> again \<longleftrightarrow> sc_current s = length data" using f(2) by blast
  ultimately show ?thesis
    using f d(1) pl unfolding packetizer_ok_def WVB_RTP_MTU_def by (simp split: if_splits)
qed

lemma next_packet_none:
  assumes "h264_create_next_packet p = (Inr (again, None), p')"
  shows "\<not> again"
  using assms by (auto simp: h264_create_next_packet_def finalize_packet_def Let_def
      split: option.splits prod.splits if_splits)

section \<open>All packets of a frame\<close>

text \<open>
  The loop of \<open>ServerVideoSocket::send_all_generated_packets\<close> over this packetizer, while the socket
  stays open: the packets sent, how it ends, and the packetizer. It returns, because each call that
  asks for another one has used up some data.
\<close>

function h264_packets :: "H264RtpPacketizer \<Rightarrow> bytes list \<times> unit result \<times> H264RtpPacketizer" where
  "h264_packets p =
     (case h264_create_next_packet p of
        (Inl f, p') \<Rightarrow> ([], Inl f, p')
      | (Inr (has_next, out), p') \<Rightarrow>
          let sent = (case out of None \<Rightarrow> [] | Some pkt \<Rightarrow> [pkt]) in
          if has_next
          then (case h264_packets p' of (pkts, r, q) \<Rightarrow> (sent @ pkts, r, q))
          else (sent, Inr (), p'))"
  by pat_completeness auto
termination
proof (relation "measure (\<lambda>p. case hp_h264 p of None \<Rightarrow> 0 | Some data \<Rightarrow> length data)", goal_cases)
  case (2 p rp p' x has_next out sent)
  then have call: "h264_create_next_packet p = (Inr (True, out), p')" by simp
  then obtain pkt where "out = Some pkt"
    using next_packet_none [of p True p'] by (cases out) auto
  with call next_packet_progress [of p pkt p'] show ?case by auto
qed simp

declare h264_packets.simps [simp del]

end
