(* ===== verification/H264Fragments.thy ===== *)
theory H264Fragments
  imports H264Packetizer
begin

text \<open>
  What the packetizer sends for a frame, a list of NAL units behind start codes: every unit goes into
  one packet, or into fragments in the form of RFC 6184 (FU-A), with consecutive sequence numbers and
  the marker on the last packet.
\<close>

section \<open>The byte stream and its packets\<close>

definition start_code :: "bool \<Rightarrow> bytes" where
  "start_code long = (if long then [0, 0, 0, 1] else [0, 0, 1])"

definition annexb :: "(bool \<times> bytes) list \<Rightarrow> bytes" where
  "annexb nals = concat (map (\<lambda>(long, n). start_code long @ n) nals)"

fun no_start_code :: "bytes \<Rightarrow> bool" where
  "no_start_code (a # b # c # r) \<longleftrightarrow> \<not> (a = 0 \<and> b = 0 \<and> c = 1) \<and> no_start_code (b # c # r)"
| "no_start_code _ \<longleftrightarrow> True"

definition nal_unit_ok :: "bytes \<Rightarrow> bool" where
  "nal_unit_ok n \<longleftrightarrow> n \<noteq> [] \<and> last n \<noteq> 0 \<and> no_start_code n"

text \<open>
  A unit that is followed by another one must not fill its last fragment exactly (see
  \<open>full_fragment_stalls\<close>), and one that is fragmented must not have a header of 0.
\<close>

fun sendable :: "(bool \<times> bytes) list \<Rightarrow> bool" where
  "sendable [] \<longleftrightarrow> True"
| "sendable ((long, n) # nals) \<longleftrightarrow>
     nal_unit_ok n \<and> (1400 < length n \<longrightarrow> hd n \<noteq> 0)
     \<and> (nals \<noteq> [] \<longrightarrow> length n mod 1400 \<noteq> 0) \<and> sendable nals"

function fu_rest :: "u8 \<Rightarrow> bytes \<Rightarrow> bytes list" where
  "fu_rest h left =
     (if length left \<le> 1400 then [[FU_INDICATOR h, NALU_TYPE h OR FU_HEADER_END_BIT] @ left]
      else ([FU_INDICATOR h, NALU_TYPE h] @ take 1400 left) # fu_rest h (drop 1400 left))"
  by pat_completeness auto
termination
  by (relation "measure (\<lambda>(h, left). length left)") auto

declare fu_rest.simps [simp del]

definition nal_payloads :: "bytes \<Rightarrow> bytes list" where
  "nal_payloads n =
     (if length n \<le> 1400 then [n]
      else ([FU_INDICATOR (hd n), NALU_TYPE (hd n) OR FU_HEADER_START_BIT] @ tl (take 1400 n))
           # fu_rest (hd n) (drop 1400 n))"

definition frame_payloads :: "(bool \<times> bytes) list \<Rightarrow> bytes list" where
  "frame_payloads nals = concat (map (nal_payloads \<circ> snd) nals)"

fun framed_packets :: "RTPHeader \<Rightarrow> u16 \<Rightarrow> bool \<Rightarrow> bytes list \<Rightarrow> bytes list" where
  "framed_packets h seq is_last [] = []"
| "framed_packets h seq is_last (payload # rest) =
     (RTPHeader_bytes (set_marker (h\<lparr>sequence_number := htons seq\<rparr>) (rest = [] \<and> is_last)) @ payload)
     # framed_packets h (seq + 1) is_last rest"

section \<open>Scanning\<close>

text \<open>No start code begins inside the first list, whatever follows it.\<close>

fun clean :: "bytes \<Rightarrow> bytes \<Rightarrow> bool" where
  "clean [] rest \<longleftrightarrow> True"
| "clean (x # xs) rest \<longleftrightarrow> start_code_at (x # xs @ rest) = 0 \<and> clean xs rest"

lemma clean_append: "clean (xs @ ys) rest \<longleftrightarrow> clean xs (ys @ rest) \<and> clean ys rest"
  by (induction xs) auto

lemma clean_drop: "clean xs rest \<Longrightarrow> clean (drop k xs) rest"
  using clean_append [of "take k xs" "drop k xs" rest] by simp

lemma clean_nal: "last n \<noteq> 0 \<Longrightarrow> no_start_code n \<Longrightarrow> clean n rest"
proof (induction n rule: no_start_code.induct, goal_cases)
  case (1 a b c r)
  then have "start_code_at (a # b # c # r @ rest) = 0"
    by (cases r) (auto split: list.splits)
  with 1 show ?case by simp
next
  case (3 a)
  then show ?case by (cases rest rule: start_code_at.cases) auto
next
  case (4 a b)
  then show ?case by (cases rest rule: start_code_at.cases) auto
qed simp

lemma scan_byte:
  "sc_nal_size s < 1400 \<Longrightarrow> start_code_at (x # xs) = 0 \<Longrightarrow> scan_nal (x # xs) s = scan_nal xs
     (let s1 = (if sc_is_nalu_start s
                then s\<lparr>sc_is_nalu_start := False, sc_nal_start := Some (sc_current s), sc_nalu_header := x\<rparr>
                else s)
      in s1\<lparr>sc_nal_size := sc_nal_size s1 + 1, sc_current := sc_current s1 + 1\<rparr>)"
  by (simp add: scan_nal.simps [of "x # xs"] WVB_RTP_MTU_def RTP_MARGIN_def)

lemma start_code_found: "start_code_at (start_code long @ rest) = length (start_code long)"
  by (simp add: start_code_def)

lemma scan_code_stops:
  "sc_nal_size s < 1400 \<Longrightarrow> sc_nal_start s = Some m
     \<Longrightarrow> scan_nal (start_code long @ rest) s = s\<lparr>sc_is_nalu_start := True\<rparr>"
  using start_code_found [of long rest]
  by (subst scan_nal.simps) (simp add: WVB_RTP_MTU_def RTP_MARGIN_def start_code_def Let_def)

lemma scan_code_skips:
  "sc_nal_size s < 1400 \<Longrightarrow> sc_nal_start s = None
     \<Longrightarrow> scan_nal (start_code long @ rest) s
         = scan_nal rest (s\<lparr>sc_is_nalu_start := True, sc_current := sc_current s + length (start_code long)\<rparr>)"
  using start_code_found [of long rest]
  by (subst scan_nal.simps) (simp add: WVB_RTP_MTU_def RTP_MARGIN_def start_code_def Let_def)

lemma scan_full: "1400 \<le> sc_nal_size s \<or> left = [] \<Longrightarrow> scan_nal left s = s"
  by (rule scan_stop) (auto simp: WVB_RTP_MTU_def RTP_MARGIN_def)

lemma scan_to_end:
  assumes "clean left rest" "sc_nal_start s = Some m" "\<not> sc_is_nalu_start s" "sc_nal_size s \<le> 1400"
    and "rest = [] \<or> (\<exists>long r. rest = start_code long @ r)"
    and "rest \<noteq> [] \<longrightarrow> sc_nal_size s + length left \<noteq> 1400"
  shows "scan_nal (left @ rest) s =
     s\<lparr>sc_is_nalu_start := sc_nal_size s + length left < 1400 \<and> rest \<noteq> [],
       sc_nal_size := min 1400 (sc_nal_size s + length left),
       sc_current := sc_current s + min (1400 - sc_nal_size s) (length left)\<rparr>"
  using assms
proof (induction left arbitrary: s)
  case Nil
  show ?case
  proof (cases "rest = []")
    case False
    then obtain long r where "rest = start_code long @ r" using Nil by blast
    then show ?thesis
      using False Nil by (simp add: scan_code_stops)
  qed (use Nil in \<open>simp add: scan_full\<close>)
next
  case (Cons x xs)
  show ?case
  proof (cases "sc_nal_size s = 1400")
    case True
    then show ?thesis using Cons.prems by (simp add: scan_full)
  next
    case False
    define s1 where "s1 = s\<lparr>sc_nal_size := sc_nal_size s + 1, sc_current := sc_current s + 1\<rparr>"
    have "scan_nal ((x # xs) @ rest) s = scan_nal (xs @ rest) s1"
      using False Cons.prems scan_byte [of s x "xs @ rest"] by (simp add: s1_def)
    moreover have "clean xs rest" "sc_nal_start s1 = Some m" "\<not> sc_is_nalu_start s1"
      "sc_nal_size s1 \<le> 1400" "rest \<noteq> [] \<longrightarrow> sc_nal_size s1 + length xs \<noteq> 1400"
      using False Cons.prems by (simp_all add: s1_def)
    note Cons.IH [OF this(1-4) Cons.prems(5) this(5)]
    ultimately show ?thesis
      using False Cons.prems(4) by (simp add: s1_def Suc_diff_le min_def)
  qed
qed

section \<open>One packet\<close>

text \<open>What is left to send: the rest of a fragmented unit, or whole units.\<close>

definition pending :: "H264RtpPacketizer \<Rightarrow> bytes list \<Rightarrow> bool" where
  "pending p payloads \<longleftrightarrow> packetizer_ok p \<and>
     ((\<exists>left nals. hp_current_nalu_header p \<noteq> 0 \<and> left \<noteq> [] \<and> hp_h264 p = Some (left @ annexb nals)
         \<and> clean left (annexb nals) \<and> sendable nals \<and> (nals \<noteq> [] \<longrightarrow> length left mod 1400 \<noteq> 0)
         \<and> payloads = fu_rest (hp_current_nalu_header p) left @ frame_payloads nals)
      \<or> (\<exists>nals. hp_current_nalu_header p = 0 \<and> nals \<noteq> [] \<and> hp_h264 p = Some (annexb nals)
         \<and> sendable nals \<and> payloads = frame_payloads nals))"

definition emits :: "H264RtpPacketizer \<Rightarrow> bytes \<Rightarrow> bytes list \<Rightarrow> bool" where
  "emits p payload rest \<longleftrightarrow> (\<exists>p'. h264_create_next_packet p
      = (Inr (rest \<noteq> [], Some (RTPHeader_bytes (packet_header p') @ payload)), p')
      \<and> packet_header p' = set_marker ((packet_header p)\<lparr>sequence_number := htons (hp_sequence_number p)\<rparr>)
          (rest = [] \<and> hp_last p)
      \<and> packetizer_ok p' \<and> hp_last p' = hp_last p \<and> hp_sequence_number p' = hp_sequence_number p + 1
      \<and> (if rest = [] then hp_h264 p' = None \<and> hp_current_nalu_header p' = 0 else pending p' rest))"

lemma emitsI:
  assumes ok: "packetizer_ok p" and data: "hp_h264 p = Some data"
    and s: "scan_nal data (initial_scan p) = s"
    and start: "sc_nal_start s = Some n" "sc_nal_size s \<noteq> 0" "n + sc_nal_size s \<le> length data"
    and pl: "nal_payload (hp_current_nalu_header p \<noteq> 0) (sc_is_nalu_start s \<or> sc_current s = length data)
        (sc_nalu_header s) (take (sc_nal_size s) (drop n data)) = (payload, header)"
    and rest: "rest = [] \<longleftrightarrow> sc_current s = length data" "rest = [] \<Longrightarrow> header = 0"
    and pending: "\<And>p'. rest \<noteq> [] \<Longrightarrow> packetizer_ok p' \<Longrightarrow> hp_current_nalu_header p' = header
        \<Longrightarrow> hp_h264 p' = Some (drop (sc_current s) data) \<Longrightarrow> pending p' rest"
  shows "emits p payload rest"
proof -
  define p1 where "p1 = p\<lparr>hp_current_nalu_header := header\<rparr>"
  obtain again out p' where fin: "finalize_packet data (sc_current s) payload p1 = ((again, out), p')"
    by (metis surj_pair)
  have call: "h264_create_next_packet p = (Inr (again, out), p')"
    using data s start pl fin by (simp add: h264_create_next_packet_def Let_def p1_def)
  have "sc_nal_size s \<le> 1400"
    using scan_bounds [of "initial_scan p" data] unfolding s by (simp add: initial_scan_def)
  moreover have "take (sc_nal_size s) (drop n data) \<noteq> []"
    using start by auto
  ultimately have len: "length payload \<le> 1402"
    using payload_length [of "take (sc_nal_size s) (drop n data)"
        "hp_current_nalu_header p \<noteq> 0" "sc_is_nalu_start s \<or> sc_current s = length data" "sc_nalu_header s"]
    unfolding pl by (simp add: min_def split: if_splits)
  have "length (hp_rtp_data p1) = 1500" "packet_header p1 = packet_header p"
    using ok by (simp_all add: p1_def packetizer_ok_def WVB_RTP_MTU_def packet_header_def)
  note f = finalize_unfold [OF this(1) len fin, unfolded this(2)]
  have ok': "packetizer_ok p'" using f by (simp add: packetizer_ok_def WVB_RTP_MTU_def)
  have "if rest = [] then hp_h264 p' = None \<and> hp_current_nalu_header p' = 0 else pending p' rest"
    using f ok' rest pending by (simp add: p1_def)
  with f ok' call rest show ?thesis
    unfolding emits_def by (intro exI [of _ p']) (simp add: p1_def)
qed

lemma annexb_shape: "annexb nals = [] \<or> (\<exists>long r. annexb nals = start_code long @ r)"
proof (cases nals)
  case (Cons x xs)
  then have "annexb nals = start_code (fst x) @ snd x @ annexb xs"
    by (cases x) (simp add: annexb_def)
  then show ?thesis by blast
qed (simp add: annexb_def)

lemma annexb_Cons: "annexb ((long, n) # nals) = start_code long @ n @ annexb nals"
  by (simp add: annexb_def)

lemma annexb_Nil [simp]: "annexb nals = [] \<longleftrightarrow> nals = []"
  by (cases nals) (auto simp: annexb_def start_code_def split: prod.splits)

lemma fu_rest_Nil [simp]: "fu_rest h left \<noteq> []"
  by (simp add: fu_rest.simps [of h left])

lemma frame_payloads_Cons: "frame_payloads ((long, n) # nals) = nal_payloads n @ frame_payloads nals"
  by (simp add: frame_payloads_def)

lemma frame_payloads_Nil [simp]: "frame_payloads nals = [] \<longleftrightarrow> nals = []"
  by (cases nals) (auto simp: frame_payloads_def nal_payloads_def)

lemma emits_fragment:
  assumes ok: "packetizer_ok p" and head: "hp_current_nalu_header p = h" "h \<noteq> 0" and left: "left \<noteq> []"
    and data: "hp_h264 p = Some (left @ annexb nals)" and clean: "clean left (annexb nals)"
    and send: "sendable nals" and full: "nals \<noteq> [] \<longrightarrow> length left mod 1400 \<noteq> 0"
  shows "\<exists>payload rest. fu_rest h left @ frame_payloads nals = payload # rest \<and> emits p payload rest"
proof -
  define s where "s = (initial_scan p)\<lparr>sc_is_nalu_start := length left < 1400 \<and> annexb nals \<noteq> [],
     sc_nal_size := min 1400 (length left), sc_current := min 1400 (length left)\<rparr>"
  have ne: "annexb nals \<noteq> [] \<longrightarrow> length left \<noteq> 1400"
    using full by fastforce
  have scan: "scan_nal (left @ annexb nals) (initial_scan p) = s"
    using scan_to_end [OF clean, of "initial_scan p" 0] head annexb_shape [of nals] ne
    by (simp add: initial_scan_def s_def)
  have start: "sc_nal_start s = Some 0" "sc_nal_size s \<noteq> 0"
    "0 + sc_nal_size s \<le> length (left @ annexb nals)"
    using head left by (simp_all add: s_def initial_scan_def)
  note I = emitsI [OF ok data scan start]
  show ?thesis
  proof (cases "length left \<le> 1400")
    case True
    have "emits p ([FU_INDICATOR h, NALU_TYPE h OR FU_HEADER_END_BIT] @ left) (frame_payloads nals)"
    proof (rule I)
      show "nal_payload (hp_current_nalu_header p \<noteq> 0)
          (sc_is_nalu_start s \<or> sc_current s = length (left @ annexb nals)) (sc_nalu_header s)
          (take (sc_nal_size s) (drop 0 (left @ annexb nals)))
        = ([FU_INDICATOR h, NALU_TYPE h OR FU_HEADER_END_BIT] @ left, 0)"
        using True head ne by (auto simp: s_def initial_scan_def nal_payload_def)
    qed (use True send in \<open>auto simp: s_def pending_def\<close>)
    then show ?thesis using True by (simp add: fu_rest.simps [of h left])
  next
    case False
    have "emits p ([FU_INDICATOR h, NALU_TYPE h] @ take 1400 left)
        (fu_rest h (drop 1400 left) @ frame_payloads nals)"
    proof (rule I)
      show "nal_payload (hp_current_nalu_header p \<noteq> 0)
          (sc_is_nalu_start s \<or> sc_current s = length (left @ annexb nals)) (sc_nalu_header s)
          (take (sc_nal_size s) (drop 0 (left @ annexb nals)))
        = ([FU_INDICATOR h, NALU_TYPE h] @ take 1400 left, h)"
        using False head by (auto simp: s_def initial_scan_def nal_payload_def)
    next
      fix q
      assume q: "packetizer_ok q" "hp_current_nalu_header q = h"
        "hp_h264 q = Some (drop (sc_current s) (left @ annexb nals))"
      have "hp_h264 q = Some (drop 1400 left @ annexb nals)" "drop 1400 left \<noteq> []"
        using q(3) False by (simp_all add: s_def)
      moreover have "nals \<noteq> [] \<longrightarrow> length (drop 1400 left) mod 1400 \<noteq> 0"
        using full False le_mod_geq [of 1400 "length left"] by simp
      ultimately show "pending q (fu_rest h (drop 1400 left) @ frame_payloads nals)"
        using q(1,2) head(2) clean_drop [OF clean, of 1400] send unfolding pending_def by blast
    qed (use False in \<open>auto simp: s_def\<close>)
    then show ?thesis using False by (simp add: fu_rest.simps [of h left])
  qed
qed

lemma emits_unit:
  assumes ok: "packetizer_ok p" and head: "hp_current_nalu_header p = 0"
    and data: "hp_h264 p = Some (annexb ((long, n) # nals))" and send: "sendable ((long, n) # nals)"
  shows "\<exists>payload rest. frame_payloads ((long, n) # nals) = payload # rest \<and> emits p payload rest"
proof -
  define c where "c = length (start_code long)"
  obtain x xs where n: "n = x # xs" and ok_n: "last n \<noteq> 0" "no_start_code n"
    using send by (cases n) (auto simp: nal_unit_ok_def)
  have clean: "start_code_at (x # xs @ annexb nals) = 0" "clean xs (annexb nals)"
    using clean_nal [OF ok_n, of "annexb nals"] by (simp_all add: n)
  have full: "nals \<noteq> [] \<longrightarrow> length n mod 1400 \<noteq> 0" and send': "sendable nals"
    and h: "1400 < length n \<longrightarrow> x \<noteq> 0"
    using send by (simp_all add: n)
  have ne: "annexb nals \<noteq> [] \<longrightarrow> length n \<noteq> 1400"
    using full by fastforce
  define s1 where "s1 = (initial_scan p)\<lparr>sc_is_nalu_start := False, sc_nal_start := Some c,
     sc_nalu_header := x, sc_nal_size := 1, sc_current := c + 1\<rparr>"
  define s where "s = s1\<lparr>sc_is_nalu_start := length n < 1400 \<and> annexb nals \<noteq> [],
     sc_nal_size := min 1400 (length n), sc_current := c + min 1400 (length n)\<rparr>"
  have "scan_nal (start_code long @ n @ annexb nals) (initial_scan p) = scan_nal (xs @ annexb nals) s1"
    using head clean(1) by (simp add: scan_code_skips scan_byte initial_scan_def s1_def c_def n)
  also have "\<dots> = s"
    using scan_to_end [OF clean(2), of s1 c] annexb_shape [of nals] ne
    by (simp add: s1_def s_def n initial_scan_def)
  finally have scan: "scan_nal (start_code long @ n @ annexb nals) (initial_scan p) = s" .
  have data: "hp_h264 p = Some (start_code long @ n @ annexb nals)"
    using data by (simp add: annexb_Cons)
  have start: "sc_nal_start s = Some c" "sc_nal_size s \<noteq> 0"
    "c + sc_nal_size s \<le> length (start_code long @ n @ annexb nals)"
    by (simp_all add: s_def s1_def c_def n)
  note I = emitsI [OF ok data scan start]
  have rest: "drop (c + k) (start_code long @ n @ annexb nals) = drop k (n @ annexb nals)" for k
    by (simp add: c_def)
  show ?thesis
  proof (cases "length n \<le> 1400")
    case True
    have "emits p n (frame_payloads nals)"
    proof (rule I)
      show "nal_payload (hp_current_nalu_header p \<noteq> 0)
          (sc_is_nalu_start s \<or> sc_current s = length (start_code long @ n @ annexb nals)) (sc_nalu_header s)
          (take (sc_nal_size s) (drop c (start_code long @ n @ annexb nals))) = (n, 0)"
        using True head ne by (auto simp: s_def s1_def nal_payload_def c_def)
    next
      fix q
      assume q: "frame_payloads nals \<noteq> []" "packetizer_ok q" "hp_current_nalu_header q = 0"
        "hp_h264 q = Some (drop (sc_current s) (start_code long @ n @ annexb nals))"
      have "sc_current s = c + length n" using True by (simp add: s_def)
      then have "hp_h264 q = Some (annexb nals)"
        using q(4) unfolding \<open>sc_current s = c + length n\<close> rest by simp
      then show "pending q (frame_payloads nals)"
        using q(1-3) send' unfolding pending_def by auto
    qed (use True in \<open>auto simp: s_def c_def\<close>)
    then show ?thesis using True by (simp add: frame_payloads_Cons nal_payloads_def)
  next
    case False
    have "emits p ([FU_INDICATOR x, NALU_TYPE x OR FU_HEADER_START_BIT] @ tl (take 1400 n))
        (fu_rest x (drop 1400 n) @ frame_payloads nals)"
    proof (rule I)
      show "nal_payload (hp_current_nalu_header p \<noteq> 0)
          (sc_is_nalu_start s \<or> sc_current s = length (start_code long @ n @ annexb nals)) (sc_nalu_header s)
          (take (sc_nal_size s) (drop c (start_code long @ n @ annexb nals)))
        = ([FU_INDICATOR x, NALU_TYPE x OR FU_HEADER_START_BIT] @ tl (take 1400 n), x)"
        using False head by (auto simp: s_def s1_def nal_payload_def c_def)
    next
      fix q
      assume q: "packetizer_ok q" "hp_current_nalu_header q = x"
        "hp_h264 q = Some (drop (sc_current s) (start_code long @ n @ annexb nals))"
      have "sc_current s = c + 1400" using False by (simp add: s_def)
      then have "hp_h264 q = Some (drop 1400 n @ annexb nals)" "drop 1400 n \<noteq> []"
        using q(3) False unfolding \<open>sc_current s = c + 1400\<close> rest by simp_all
      moreover have "nals \<noteq> [] \<longrightarrow> length (drop 1400 n) mod 1400 \<noteq> 0"
        using full False le_mod_geq [of 1400 "length n"] by simp
      moreover have "clean (drop 1400 n) (annexb nals)"
        by (rule clean_drop [OF clean_nal [OF ok_n]])
      ultimately show "pending q (fu_rest x (drop 1400 n) @ frame_payloads nals)"
        using q(1,2) h False send' unfolding pending_def by (metis linorder_not_le)
    qed (use False in \<open>auto simp: s_def c_def\<close>)
    then show ?thesis using False by (simp add: frame_payloads_Cons nal_payloads_def n)
  qed
qed

lemma pending_step:
  assumes "pending p payloads"
  shows "\<exists>payload rest. payloads = payload # rest \<and> emits p payload rest"
  using assms unfolding pending_def
proof (elim conjE disjE exE, goal_cases)
  case (1 left nals)
  then show ?case using emits_fragment by blast
next
  case (2 nals)
  then obtain long n nals' where "nals = (long, n) # nals'" by (cases nals) auto
  with 2 show ?case using emits_unit by blast
qed

section \<open>All packets\<close>

lemma set_marker_twice:
  "set_marker ((set_marker h m)\<lparr>sequence_number := i\<rparr>) m' = set_marker (h\<lparr>sequence_number := i\<rparr>) m'"
proof -
  have "(x OR RTP_MARKER_BIT) OR RTP_MARKER_BIT = x OR RTP_MARKER_BIT"
    "(x AND NOT RTP_MARKER_BIT) OR RTP_MARKER_BIT = x OR RTP_MARKER_BIT"
    "(x OR RTP_MARKER_BIT) AND NOT RTP_MARKER_BIT = x AND NOT RTP_MARKER_BIT"
    "(x AND NOT RTP_MARKER_BIT) AND NOT RTP_MARKER_BIT = x AND NOT RTP_MARKER_BIT" for x :: u8
    by (auto intro!: bit_word_eqI simp: bit_simps)
  then show ?thesis by (cases m; cases m'; simp add: set_marker_def)
qed

lemma framed_marker:
  "framed_packets (set_marker (h\<lparr>sequence_number := i\<rparr>) m) seq is_last payloads
    = framed_packets h seq is_last payloads"
proof (induction payloads arbitrary: seq)
  case (Cons a payloads)
  have "(set_marker (h\<lparr>sequence_number := i\<rparr>) m)\<lparr>sequence_number := htons seq\<rparr>
      = (set_marker (h\<lparr>sequence_number := htons seq\<rparr>) m)\<lparr>sequence_number := htons seq\<rparr>"
    by (simp add: set_marker_def)
  then show ?case using Cons by (simp add: set_marker_twice)
qed simp

lemma pending_packets:
  assumes "pending p payloads"
  shows "\<exists>p'. h264_packets p
      = (framed_packets (packet_header p) (hp_sequence_number p) (hp_last p) payloads, Inr (), p')
    \<and> packetizer_ok p' \<and> hp_h264 p' = None \<and> hp_current_nalu_header p' = 0
    \<and> hp_sequence_number p' = hp_sequence_number p + of_nat (length payloads)"
  using assms
proof (induction payloads arbitrary: p)
  case Nil
  then show ?case using pending_step [of p "[]"] by simp
next
  case (Cons payload rest)
  then have "emits p payload rest"
    using pending_step [of p "payload # rest"] by auto
  then obtain p1 where call: "h264_create_next_packet p
      = (Inr (rest \<noteq> [], Some (RTPHeader_bytes (packet_header p1) @ payload)), p1)"
    and h: "packet_header p1 = set_marker ((packet_header p)\<lparr>sequence_number := htons (hp_sequence_number p)\<rparr>)
          (rest = [] \<and> hp_last p)"
    and q: "packetizer_ok p1" "hp_last p1 = hp_last p" "hp_sequence_number p1 = hp_sequence_number p + 1"
    and st: "if rest = [] then hp_h264 p1 = None \<and> hp_current_nalu_header p1 = 0 else pending p1 rest"
    unfolding emits_def by blast
  show ?case
  proof (cases "rest = []")
    case True
    then show ?thesis using call h q st by (simp add: h264_packets.simps [of p])
  next
    case False
    then obtain p' where "h264_packets p1
      = (framed_packets (packet_header p1) (hp_sequence_number p1) (hp_last p1) rest, Inr (), p')"
      "packetizer_ok p' \<and> hp_h264 p' = None \<and> hp_current_nalu_header p' = 0
       \<and> hp_sequence_number p' = hp_sequence_number p1 + of_nat (length rest)"
      using Cons.IH [of p1] st by auto
    then show ?thesis
      using False call q by (simp add: h264_packets.simps [of p] h framed_marker algebra_simps)
  qed
qed

lemma packet_bounds:
  "packetizer_ok p \<Longrightarrow> h264_packets p = (pkts, r, p')
     \<Longrightarrow> packetizer_ok p' \<and> (\<forall>pkt \<in> set pkts. 20 < length pkt \<and> length pkt \<le> 1422
           \<and> length pkt < WVB_RTP_MTU \<and> first_byte (RTPHeader_of pkt) = first_byte (packet_header p)
           \<and> timestamp (RTPHeader_of pkt) = timestamp (packet_header p)
           \<and> ssrc (RTPHeader_of pkt) = ssrc (packet_header p))"
proof (induction p arbitrary: pkts r p' rule: h264_packets.induct)
  case (1 p)
  obtain res q where call: "h264_create_next_packet p = (res, q)" by fastforce
  show ?case
  proof (cases res)
    case (Inl f)
    have "packetizer_ok q"
      using call "1.prems"(1) Inl
      by (auto simp: h264_create_next_packet_def Let_def packetizer_ok_def split: option.splits if_splits prod.splits)
    with call "1.prems" Inl show ?thesis by (simp add: h264_packets.simps [of p])
  next
    case (Inr x)
    obtain has_next out where x: "x = (has_next, out)" by fastforce
    show ?thesis
    proof (cases out)
      case None
      then have "\<not> has_next" using next_packet_none call Inr x by metis
      moreover have "packetizer_ok q"
        using call "1.prems"(1) Inr x None
        by (auto simp: h264_create_next_packet_def finalize_packet_def Let_def packetizer_ok_def
            split: option.splits if_splits prod.splits)
      ultimately show ?thesis
        using call "1.prems" Inr x None by (simp add: h264_packets.simps [of p])
    next
      case (Some pkt)
      obtain h payload where f: "packetizer_ok q" "pkt = RTPHeader_bytes h @ payload"
        "0 < length payload" "length payload \<le> 1402" "packet_header q = h"
        "h = set_marker ((packet_header p)\<lparr>sequence_number := htons (hp_sequence_number p)\<rparr>)
               (\<not> has_next \<and> hp_last p)"
        using next_packet_out_facts [of p has_next pkt q] call Inr x Some "1.prems"(1) by blast
      then have pkt: "20 < length pkt \<and> length pkt \<le> 1422 \<and> length pkt < WVB_RTP_MTU
          \<and> first_byte (RTPHeader_of pkt) = first_byte (packet_header p)
          \<and> timestamp (RTPHeader_of pkt) = timestamp (packet_header p)
          \<and> ssrc (RTPHeader_of pkt) = ssrc (packet_header p)"
        and same: "first_byte (packet_header q) = first_byte (packet_header p)
          \<and> timestamp (packet_header q) = timestamp (packet_header p)
          \<and> ssrc (packet_header q) = ssrc (packet_header p)"
        by (auto simp: set_marker_def WVB_RTP_MTU_def)
      show ?thesis
      proof (cases has_next)
        case True
        obtain pkts' r' p'' where rec: "h264_packets q = (pkts', r', p'')" by (metis surj_pair)
        have "pkts = pkt # pkts'" "p' = p''"
          using "1.prems"(2) call Inr x Some True rec by (simp_all add: h264_packets.simps [of p])
        then show ?thesis
          using "1.IH" [OF call [symmetric] Inr x [symmetric] refl] True f(1) rec pkt same by auto
      next
        case False
        then have "pkts = [pkt]" "p' = q"
          using "1.prems"(2) call Inr x Some by (simp_all add: h264_packets.simps [of p])
        then show ?thesis using pkt f(1) by simp
      qed
    qed
  qed
qed

lemma added_frame:
  fixes data frame_id eos ts pose_ts is_last save
  assumes ok: "packetizer_ok p"
  defines "q \<equiv> h264_add_frame_data (Some data) frame_id eos ts pose_ts is_last save p"
  shows "packetizer_ok q" "hp_h264 q = Some data" "hp_current_nalu_header q = 0" "hp_last q = is_last"
    "hp_sequence_number q = hp_sequence_number p"
    "packet_header q = (packet_header p)\<lparr>timestamp := htonl ts, pose_timestamp_ext := htonl pose_ts,
        frame_id_ext := htonl frame_id\<rparr>"
  using ok by (simp_all add: q_def h264_add_frame_data_def Let_def packetizer_ok_def set_packet_header_def
      WVB_RTP_MTU_def packet_header_def)

lemma created_header:
  "packet_header (create_h264_rtp_packetizer random the_ssrc) =
     \<lparr>first_byte = RTP_FIRST_BYTE_BASE, profile_byte = 97, sequence_number = htons random, timestamp = 0,
      ssrc = htonl the_ssrc, pose_timestamp_ext = 0, frame_id_ext = 0\<rparr>"
proof -
  define z :: bytes where "z = replicate 1480 0"
  have "replicate 1500 (0::u8) = RTPHeader_bytes
      \<lparr>first_byte = 0, profile_byte = 0, sequence_number = 0, timestamp = 0, ssrc = 0,
       pose_timestamp_ext = 0, frame_id_ext = 0\<rparr> @ z"
    using replicate_add [of 20 1480 "0::u8"]
    by (simp add: RTPHeader_bytes_def store16_def store32_def z_def numeral_eq_Suc)
  then show ?thesis
    by (simp add: create_h264_rtp_packetizer_def Let_def packet_header_def set_packet_header_def
        set_payload_def WVB_RTP_MTU_def)
qed

lemma h264_frames:
  assumes "packetizer_ok p" "nals \<noteq> []" "sendable nals"
  shows "\<exists>p'. h264_packets (h264_add_frame_data (Some (annexb nals)) frame_id eos ts pose_ts is_last save p)
      = (framed_packets ((packet_header p)\<lparr>timestamp := htonl ts, pose_timestamp_ext := htonl pose_ts,
            frame_id_ext := htonl frame_id\<rparr>) (hp_sequence_number p) is_last (frame_payloads nals), Inr (), p')
    \<and> packetizer_ok p' \<and> hp_h264 p' = None
    \<and> hp_sequence_number p' = hp_sequence_number p + of_nat (length (frame_payloads nals))"
proof -
  note a = added_frame [OF assms(1), of "annexb nals" frame_id eos ts pose_ts is_last save]
  have "pending (h264_add_frame_data (Some (annexb nals)) frame_id eos ts pose_ts is_last save p)
      (frame_payloads nals)"
    using a assms(2,3) by (auto simp: pending_def)
  from pending_packets [OF this] show ?thesis unfolding a by blast
qed

section \<open>Properties\<close>

text \<open>C37: For a frame that the packetizer can send (no unit that another one follows fills its last fragment
  exactly, and no fragmented unit has the header 0), handed over through the interface, the packets are
  exactly its units, whole or in fragments, with consecutive sequence numbers (they wrap around) and the
  frame's stamps; afterwards the packetizer has nothing left and its sequence number has moved on by the
  number of packets. Nothing is claimed of the marker.\<close>

theorem h264_frame_packets:
  assumes "packetizer_ok p" "nals \<noteq> []" "sendable nals"
  shows "\<exists>m p'. h264_packets (interface_add_frame_data (Some (annexb nals)) frame_id eos ts pose_ts save last_part p)
      = (framed_packets ((packet_header p)\<lparr>timestamp := htonl ts, pose_timestamp_ext := htonl pose_ts,
            frame_id_ext := htonl frame_id\<rparr>) (hp_sequence_number p) m (frame_payloads nals), Inr (), p')
    \<and> packetizer_ok p' \<and> hp_h264 p' = None
    \<and> hp_sequence_number p' = hp_sequence_number p + of_nat (length (frame_payloads nals))"
  unfolding interface_add_frame_data_def
  using h264_frames [OF assms, of frame_id eos ts pose_ts save last_part] by blast

theorem h264_frame_packets_witness:
  "\<exists>m p'. h264_packets (interface_add_frame_data (Some (annexb [(True, [0x67, 1]), (False, [0x65, 2, 0, 3])]))
        9 False 1000 900 False True (create_h264_rtp_packetizer 65535 7))
      = (framed_packets ((packet_header (create_h264_rtp_packetizer 65535 7))\<lparr>timestamp := htonl 1000,
          pose_timestamp_ext := htonl 900, frame_id_ext := htonl 9\<rparr>) 65535 m
          [[0x67, 1], [0x65, 2, 0, 3]], Inr (), p')
    \<and> hp_h264 p' = None \<and> hp_sequence_number p' = 1"
proof -
  have seq: "hp_sequence_number (create_h264_rtp_packetizer 65535 7) = 65535"
    by (simp add: create_h264_rtp_packetizer_def Let_def)
  show ?thesis
    using h264_frame_packets [OF create_packetizer_ok [of 65535 7],
        of "[(True, [0x67, 1]), (False, [0x65, 2, 0, 3])]" 9 False 1000 900 False True] seq
    by (fastforce simp: nal_unit_ok_def frame_payloads_def nal_payloads_def)
qed

text \<open>C38: Whatever the bytes of a frame, every packet given out is longer than its header, at most 1422
  bytes long, so within the 1500-byte buffer and what the depacketizer accepts, and carries the version
  byte, the source and the frame's time stamp.\<close>

theorem h264_packet_bounds:
  assumes "packetizer_ok p"
    and "h264_packets (h264_add_frame_data (Some data) frame_id eos ts pose_ts is_last save p) = (pkts, r, p')"
    and "pkt \<in> set pkts"
  shows "sizeof_RTPHeader < length pkt \<and> length pkt \<le> 1422 \<and> length pkt < WVB_RTP_MTU
    \<and> first_byte (RTPHeader_of pkt) = first_byte (packet_header p)
    \<and> ntohl (timestamp (RTPHeader_of pkt)) = ts \<and> ssrc (RTPHeader_of pkt) = ssrc (packet_header p)"
proof -
  note a = added_frame [OF assms(1), of data frame_id eos ts pose_ts is_last save]
  show ?thesis
    using packet_bounds [OF a(1) assms(2)] assms(3) unfolding a by auto
qed

theorem h264_packet_bounds_witness:
  "\<exists>pkt r p'. h264_packets (h264_add_frame_data (Some [0, 0, 1, 0x65, 2]) 9 False 1000 900 True False
        (create_h264_rtp_packetizer 5 7)) = ([pkt], r, p')
    \<and> length pkt \<le> 1422 \<and> ntohl (timestamp (RTPHeader_of pkt)) = 1000"
proof -
  have "annexb [(False, [0x65, 2])] = [0, 0, 1, 0x65, 2]"
    by (simp add: annexb_def start_code_def)
  moreover obtain p' where call: "h264_packets (h264_add_frame_data (Some (annexb [(False, [0x65, 2])])) 9 False
      1000 900 True False (create_h264_rtp_packetizer 5 7))
    = (framed_packets ((packet_header (create_h264_rtp_packetizer 5 7))\<lparr>timestamp := htonl 1000,
          pose_timestamp_ext := htonl 900, frame_id_ext := htonl 9\<rparr>)
        (hp_sequence_number (create_h264_rtp_packetizer 5 7)) True (frame_payloads [(False, [0x65, 2])]), Inr (), p')"
    using h264_frames [OF create_packetizer_ok [of 5 7], of "[(False, [0x65, 2])]" 9 False 1000 900 True False]
    by (auto simp: nal_unit_ok_def)
  ultimately show ?thesis
    using h264_packet_bounds [OF create_packetizer_ok call]
    by (simp add: frame_payloads_def nal_payloads_def)
qed

text \<open>Through the interface the flags arrive in the other order: the marker goes to the frames that are to
  be saved, and a frame that is not saved ends without one.\<close>

theorem marker_follows_save_flag:
  "interface_add_frame_data data frame_id eos ts pose_ts save is_last p
    = h264_add_frame_data data frame_id eos ts pose_ts save is_last p
   \<and> hp_last (interface_add_frame_data data frame_id eos ts pose_ts save is_last p) = save"
  by (simp add: interface_add_frame_data_def h264_add_frame_data_def Let_def set_packet_header_def)

lemma scan_exact:
  "clean left rest \<Longrightarrow> \<not> sc_is_nalu_start s \<Longrightarrow> sc_nal_size s + length left = 1400
     \<Longrightarrow> scan_nal (left @ rest) s = s\<lparr>sc_nal_size := 1400, sc_current := sc_current s + length left\<rparr>"
proof (induction left arbitrary: s)
  case Nil
  then show ?case by (simp add: scan_full)
next
  case (Cons x xs)
  have "scan_nal ((x # xs) @ rest) s
      = scan_nal (xs @ rest) (s\<lparr>sc_nal_size := sc_nal_size s + 1, sc_current := sc_current s + 1\<rparr>)"
    using Cons.prems scan_byte [of s x "xs @ rest"] by simp
  then show ?case using Cons.IH [of "s\<lparr>sc_nal_size := sc_nal_size s + 1, sc_current := sc_current s + 1\<rparr>"]
      Cons.prems by simp
qed

text \<open>A unit of exactly 1400 bytes that another one follows: its packet is sent as a first fragment, the
  next call finds a start code at once and gives up, and the rest of the frame is never sent.\<close>

theorem full_fragment_stalls:
  assumes ok: "packetizer_ok p" and n: "nal_unit_ok n" "length n = 1400" "hd n \<noteq> 0" and more: "nals \<noteq> []"
  shows "\<exists>pkt p'. h264_packets (h264_add_frame_data (Some (annexb ((long, n) # nals)))
        frame_id eos ts pose_ts is_last save p) = ([pkt], Inr (), p') \<and> hp_h264 p' = Some (annexb nals)"
proof -
  define q where "q = h264_add_frame_data (Some (annexb ((long, n) # nals))) frame_id eos ts pose_ts is_last save p"
  note q = added_frame [OF ok, of "annexb ((long, n) # nals)" frame_id eos ts pose_ts is_last save, folded q_def]
  define c where "c = length (start_code long)"
  obtain x xs where x: "n = x # xs" "x \<noteq> 0" using n by (cases n) (auto simp: nal_unit_ok_def)
  have clean: "start_code_at (x # xs @ annexb nals) = 0" "clean xs (annexb nals)"
    using clean_nal [of n "annexb nals"] n(1) by (simp_all add: x nal_unit_ok_def)
  define s where "s = (initial_scan q)\<lparr>sc_is_nalu_start := False, sc_nal_start := Some c,
     sc_nalu_header := x, sc_nal_size := 1400, sc_current := c + 1400\<rparr>"
  have scan: "scan_nal (start_code long @ n @ annexb nals) (initial_scan q) = s"
    using q(3) clean n(2) by (simp add: scan_code_skips scan_byte scan_exact initial_scan_def s_def c_def x)
  have data: "hp_h264 q = Some (start_code long @ n @ annexb nals)"
    using q(2) by (simp add: annexb_Cons)
  define payload where "payload = [FU_INDICATOR x, NALU_TYPE x OR FU_HEADER_START_BIT] @ tl n"
  obtain again out q' where fin: "finalize_packet (start_code long @ n @ annexb nals) (c + 1400) payload
      (q\<lparr>hp_current_nalu_header := x\<rparr>) = ((again, out), q')"
    by (metis surj_pair)
  have call: "h264_create_next_packet q = (Inr (again, out), q')"
    using data scan fin q(3) n(2) more by (simp add: h264_create_next_packet_def Let_def nal_payload_def
        s_def c_def payload_def)
  have "length payload \<le> 1402" using n(2) by (simp add: payload_def)
  moreover have "length (hp_rtp_data (q\<lparr>hp_current_nalu_header := x\<rparr>)) = 1500"
    using q(1) by (simp add: packetizer_ok_def WVB_RTP_MTU_def)
  ultimately have f: "again" "\<exists>pkt. out = Some pkt" "hp_h264 q' = Some (annexb nals)"
    "hp_current_nalu_header q' = x"
    using finalize_unfold [OF _ _ fin] n(2) more by (auto simp: c_def)
  obtain long' r where r: "annexb nals = start_code long' @ r"
    using annexb_shape [of nals] more by auto
  have "scan_nal (annexb nals) (initial_scan q') = (initial_scan q')\<lparr>sc_is_nalu_start := True\<rparr>"
    unfolding r using f(4) x(2) by (simp add: scan_code_stops initial_scan_def)
  then have "h264_create_next_packet q' = (Inr (False, None), q')"
    using f(3,4) x(2) by (simp add: h264_create_next_packet_def Let_def initial_scan_def)
  then have "h264_packets q' = ([], Inr (), q')"
    by (simp add: h264_packets.simps [of q'])
  then show ?thesis
    using call f unfolding q_def [symmetric] by (auto simp: h264_packets.simps [of q])
qed

text \<open>A zero byte before the first start code, which the byte stream format allows, is counted in the
  size of the unit: the packet is read one byte too far.\<close>

theorem leading_zero_overreads:
  assumes "nal_unit_ok n" "length n < 1400" "hp_current_nalu_header p = 0"
    and "hp_h264 p = Some (0 # start_code True @ n)"
  shows "fst (h264_create_next_packet p) = Inl (UndefinedBehaviour ''read past the frame data'')"
proof -
  obtain x xs where x: "n = x # xs" using assms(1) by (cases n) (auto simp: nal_unit_ok_def)
  have clean: "start_code_at (x # xs) = 0" "clean xs []"
    using clean_nal [of n "[]"] assms(1) by (simp_all add: x nal_unit_ok_def)
  define s0 where "s0 = (initial_scan p)\<lparr>sc_nal_size := 1, sc_current := 1\<rparr>"
  have five: "Suc (Suc (Suc (Suc (Suc 0)))) = 5" by simp
  have "start_code_at (0 # start_code True @ n) = 0" by (simp add: start_code_def)
  then have "scan_nal (0 # start_code True @ n) (initial_scan p) = scan_nal (start_code True @ n) s0"
    by (subst scan_byte) (simp_all add: initial_scan_def s0_def)
  also have "\<dots> = scan_nal n (s0\<lparr>sc_is_nalu_start := True, sc_current := 5\<rparr>)"
    using assms(3) scan_code_skips [of s0 True n] five
    by (simp add: initial_scan_def s0_def start_code_def)
  also have "\<dots> = scan_nal (xs @ []) (s0\<lparr>sc_is_nalu_start := False, sc_nal_start := Some 5,
      sc_nalu_header := x, sc_nal_size := Suc 1, sc_current := 6\<rparr>)"
    unfolding x using clean(1) by (subst scan_byte) (simp_all add: s0_def)
  also have "\<dots> = s0\<lparr>sc_is_nalu_start := False, sc_nal_start := Some 5, sc_nalu_header := x,
      sc_nal_size := min 1400 (length n + 1), sc_current := 6 + min 1398 (length n - 1)\<rparr>"
    using scan_to_end [OF clean(2), of _ 5] by (simp add: x s0_def)
  finally show ?thesis
    using assms(2,3,4) by (simp add: h264_create_next_packet_def Let_def start_code_def x s0_def)
qed

end
