(* ===== verification/RtpDepacketizer.thy ===== *)
theory RtpDepacketizer
  imports H264Packetizer
begin

text \<open>
  \<open>common/src/formats/rtp_packetizer.cpp\<close>, the part of RTP reassembly that all payload formats share:
  packets are processed in sequence order, and those that come early wait in the jitter buffer. The class
  is a record that the formats extend; its virtual functions are arguments. A call that never returns is
  \<open>None\<close>.
\<close>

section \<open>State\<close>

record RtpPacket =
  pk_valid :: bool
  pk_data :: bytes

record RtpPacketView =
  pv_index :: nat
  pv_size :: nat

definition view_is_valid :: "RtpPacketView \<Rightarrow> bool" where
  "view_is_valid v \<longleftrightarrow> pv_size v \<noteq> 0"

abbreviation no_view :: RtpPacketView where
  "no_view \<equiv> \<lparr>pv_index = 0, pv_size = 0\<rparr>"

abbreviation free_packet :: RtpPacket where
  "free_packet \<equiv> \<lparr>pk_valid = False, pk_data = replicate WVB_RTP_MTU 0\<rparr>"

text \<open>The capacity of \<open>m_frame_data\<close> is kept: growing past it moves the bytes.\<close>

record IRtpDepacketizer =
  rd_first_packet :: bool
  rd_has_frame :: bool
  rd_desired_seq_id :: u16
  rd_last_processed_seq_id :: u16
  rd_packet_views :: "RtpPacketView list"
  rd_packet_view_head :: nat
  rd_jitter_count :: u16
  rd_jitter_buffer :: "RtpPacket list"
  rd_current_rtp_timestamp :: u32
  rd_current_rtp_pose_timestamp :: u32
  rd_current_frame_id :: u32
  rd_last_packet_received_time :: int
  rd_frame_data :: bytes
  rd_frame_capacity :: nat

abbreviation head_view :: "'a IRtpDepacketizer_scheme \<Rightarrow> RtpPacketView" where
  "head_view d \<equiv> rd_packet_views d ! rd_packet_view_head d"

definition new_rtp_depacketizer :: IRtpDepacketizer where
  "new_rtp_depacketizer =
     \<lparr>rd_first_packet = True, rd_has_frame = False, rd_desired_seq_id = 0,
      rd_last_processed_seq_id = 0, rd_packet_views = replicate WVB_EARLY_FRAME_TOLERANCE no_view,
      rd_packet_view_head = 0, rd_jitter_count = 0, rd_jitter_buffer = [],
      rd_current_rtp_timestamp = 0, rd_current_rtp_pose_timestamp = 0, rd_current_frame_id = 0,
      rd_last_packet_received_time = 0, rd_frame_data = [], rd_frame_capacity = 0\<rparr>"

section \<open>Jitter buffer\<close>

fun first_free :: "RtpPacket list \<Rightarrow> nat option" where
  "first_free [] = None"
| "first_free (p # ps) = (if \<not> pk_valid p then Some 0 else map_option Suc (first_free ps))"

definition alloc_jitter_slot ::
    "'a IRtpDepacketizer_scheme \<Rightarrow> nat option \<times> 'a IRtpDepacketizer_scheme" where
  "alloc_jitter_slot d =
     (let count = unat (rd_jitter_count d) in
      if count = length (rd_jitter_buffer d)
      then let buf = rd_jitter_buffer d @ replicate 5 free_packet
           in (Some count, d\<lparr>rd_jitter_count := rd_jitter_count d + 1,
                 rd_jitter_buffer := buf[count := (buf ! count)\<lparr>pk_valid := True\<rparr>]\<rparr>)
      else case first_free (rd_jitter_buffer d) of
             Some i \<Rightarrow> (Some i, d\<lparr>rd_jitter_count := rd_jitter_count d + 1,
                 rd_jitter_buffer := (rd_jitter_buffer d)[i := (rd_jitter_buffer d ! i)\<lparr>pk_valid := True\<rparr>]\<rparr>)
           | None \<Rightarrow> (None, d))"

text \<open>The slot of a processed packet is given back, and the head of the views moves on.\<close>

definition free_head_view :: "'a IRtpDepacketizer_scheme \<Rightarrow> 'a IRtpDepacketizer_scheme" where
  "free_head_view d =
     (let view = head_view d in
      if view_is_valid view
      then let d1 = (if pk_valid (rd_jitter_buffer d ! pv_index view)
                     then d\<lparr>rd_jitter_count := rd_jitter_count d - 1,
                            rd_jitter_buffer := (rd_jitter_buffer d)[pv_index view :=
                               (rd_jitter_buffer d ! pv_index view)\<lparr>pk_valid := False\<rparr>]\<rparr>
                     else d)
           in d1\<lparr>rd_packet_views := (rd_packet_views d1)[rd_packet_view_head d1 := no_view]\<rparr>
      else d)"

definition finish_packet ::
    "('a IRtpDepacketizer_scheme \<Rightarrow> 'a IRtpDepacketizer_scheme) \<Rightarrow> u16 \<Rightarrow> bool
     \<Rightarrow> 'a IRtpDepacketizer_scheme \<Rightarrow> 'a IRtpDepacketizer_scheme" where
  "finish_packet finish_frame seq marker d =
     (let d1 = d\<lparr>rd_last_processed_seq_id := seq, rd_desired_seq_id := rd_desired_seq_id d + 1\<rparr>;
          d2 = free_head_view d1;
          d3 = d2\<lparr>rd_packet_view_head := (rd_packet_view_head d2 + 1) mod WVB_EARLY_FRAME_TOLERANCE\<rparr>
      in if marker then finish_frame d3 else d3)"

section \<open>Adding a packet\<close>

type_synonym 'a process = "bytes \<Rightarrow> 'a IRtpDepacketizer_scheme \<Rightarrow> 'a IRtpDepacketizer_scheme result"

text \<open>
  The loop over the packets that are already there. \<open>head\<close> is a reference, so it stays at the slot where
  it was bound, and \<open>head = m_packet_views[m_packet_view_head]\<close> copies the new head view into that slot.
\<close>

partial_function (option) process_ready ::
    "'a process \<Rightarrow> nat \<Rightarrow> 'a IRtpDepacketizer_scheme \<Rightarrow> 'a IRtpDepacketizer_scheme result option" where
  "process_ready process slot d =
     (let head = rd_packet_views d ! slot in
      if view_is_valid head
      then if pv_index head < length (rd_jitter_buffer d)
           then case process (take (pv_size head) (pk_data (rd_jitter_buffer d ! pv_index head))) d of
               Inl f \<Rightarrow> Some (Inl f)
             | Inr d' \<Rightarrow> process_ready process slot
                 (d'\<lparr>rd_packet_views := (rd_packet_views d')[slot := head_view d']\<rparr>)
           else Some (Inl (UndefinedBehaviour ''jitter buffer index''))
      else Some (Inr d))"

text \<open>The loop that gives up the packets that are too far behind the one that came.\<close>

partial_function (option) catch_up ::
    "'a process \<Rightarrow> u16 \<Rightarrow> 'a IRtpDepacketizer_scheme \<Rightarrow> 'a IRtpDepacketizer_scheme result option" where
  "catch_up process seq d =
     (if unat (rtp_seq_distance (rd_desired_seq_id d) seq) \<ge> WVB_EARLY_FRAME_TOLERANCE
      then let slot = rd_packet_view_head d;
               d1 = (if view_is_valid (rd_packet_views d ! slot) then d
                     else d\<lparr>rd_desired_seq_id := rd_desired_seq_id d + 1,
                            rd_packet_view_head := (slot + 1) mod WVB_EARLY_FRAME_TOLERANCE\<rparr>)
           in case process_ready process slot d1 of
                None \<Rightarrow> None
              | Some r \<Rightarrow> (case r of Inl f \<Rightarrow> Some (Inl f) | Inr d2 \<Rightarrow> catch_up process seq d2)
      else Some (Inr d))"

definition store_early_packet ::
    "bytes \<Rightarrow> u16 \<Rightarrow> 'a IRtpDepacketizer_scheme \<Rightarrow> 'a IRtpDepacketizer_scheme" where
  "store_early_packet pkt distance d =
     (case alloc_jitter_slot d of
        (None, d1) \<Rightarrow> d1
      | (Some i, d1) \<Rightarrow>
          let p = rd_jitter_buffer d1 ! i;
              v = (rd_packet_view_head d1 + unat distance) mod WVB_EARLY_FRAME_TOLERANCE
          in d1\<lparr>rd_jitter_buffer := (rd_jitter_buffer d1)[i := p\<lparr>pk_data := write_at 0 pkt (pk_data p)\<rparr>],
                rd_packet_views := (rd_packet_views d1)[v := \<lparr>pv_index = i, pv_size = length pkt\<rparr>]\<rparr>)"

text \<open>\<open>add_packet\<close> from the reset of a finished frame on, and as a whole; the packet is not a null pointer.\<close>

definition accept_packet ::
    "'a process \<Rightarrow> bytes \<Rightarrow> 'a IRtpDepacketizer_scheme \<Rightarrow> 'a IRtpDepacketizer_scheme result option" where
  "accept_packet process pkt d =
     (let h = RTPHeader_of pkt;
          ts = ntohl (timestamp h);
          seq = ntohs (sequence_number h);
          d1 = (if rd_first_packet d
                then d\<lparr>rd_desired_seq_id := seq, rd_current_rtp_timestamp := ts, rd_first_packet := False\<rparr>
                else d)
      in if compare_rtp_seq seq (rd_desired_seq_id d1)
            \<or> compare_rtp_timestamps ts (rd_current_rtp_timestamp d1)
         then Some (Inr d1)
         else case catch_up process seq d1 of
            None \<Rightarrow> None
          | Some (Inl f) \<Rightarrow> Some (Inl f)
          | Some (Inr d2) \<Rightarrow>
              let distance = rtp_seq_distance (rd_desired_seq_id d2) seq in
              if distance = 0
              then (case process pkt d2 of
                      Inl f \<Rightarrow> Some (Inl f)
                    | Inr d3 \<Rightarrow> process_ready process (rd_packet_view_head d3) d3)
              else Some (Inr (store_early_packet pkt distance d2)))"

definition rtp_add_packet ::
    "'a process \<Rightarrow> ('a IRtpDepacketizer_scheme \<Rightarrow> 'a IRtpDepacketizer_scheme) \<Rightarrow> bytes
     \<Rightarrow> 'a IRtpDepacketizer_scheme \<Rightarrow> 'a IRtpDepacketizer_scheme result option" where
  "rtp_add_packet process reset_frame pkt d =
     (if length pkt < sizeof_RTPHeader + 2 \<or> length pkt \<ge> WVB_RTP_MTU then Some (Inr d)
      else if first_byte (RTPHeader_of pkt) \<noteq> RTP_FIRST_BYTE_BASE then Some (Inr d)
      else accept_packet process pkt
             (if rd_has_frame d then (reset_frame d)\<lparr>rd_frame_data := []\<rparr> else d))"

text \<open>The outputs that are set: frame, time stamps and time. The frame id, the end of the stream and the
  save flag of the caller are left as they are.\<close>

definition rtp_receive_frame_data ::
    "'a IRtpDepacketizer_scheme \<Rightarrow> (bytes \<times> u32 \<times> u32 \<times> int) option" where
  "rtp_receive_frame_data d =
     (if \<not> rd_has_frame d then None
      else Some (rd_frame_data d, rd_current_rtp_timestamp d, rd_current_rtp_pose_timestamp d,
             rd_last_packet_received_time d))"

section \<open>Lemmas\<close>

text \<open>No packet waits.\<close>

definition no_packet_waits :: "'a IRtpDepacketizer_scheme \<Rightarrow> bool" where
  "no_packet_waits d \<longleftrightarrow> length (rd_packet_views d) = WVB_EARLY_FRAME_TOLERANCE
     \<and> rd_packet_view_head d < WVB_EARLY_FRAME_TOLERANCE
     \<and> (\<forall>v \<in> set (rd_packet_views d). \<not> view_is_valid v)"

lemma ready_none:
  "\<not> view_is_valid (rd_packet_views d ! slot) \<Longrightarrow> process_ready process slot d = Some (Inr d)"
  by (simp add: process_ready.simps Let_def)

lemma catch_up_near:
  "unat (rtp_seq_distance (rd_desired_seq_id d) seq) < 128 \<Longrightarrow> catch_up process seq d = Some (Inr d)"
  by (simp add: catch_up.simps WVB_EARLY_FRAME_TOLERANCE_def)

lemma views_invalid: "no_packet_waits d \<Longrightarrow> i < 128 \<Longrightarrow> \<not> view_is_valid (rd_packet_views d ! i)"
  by (simp add: no_packet_waits_def WVB_EARLY_FRAME_TOLERANCE_def)

lemma free_head_view_none: "no_packet_waits d \<Longrightarrow> free_head_view d = d"
  using views_invalid [of d "rd_packet_view_head d"]
  by (simp add: free_head_view_def no_packet_waits_def WVB_EARLY_FRAME_TOLERANCE_def)

lemma seq_not_before_itself [simp]: "\<not> compare_rtp_seq s s"
  by (simp add: compare_seq_iff)

lemma seq_distance_self [simp]: "rtp_seq_distance s s = 0"
  by (simp add: seq_distance_sub)

lemma timestamp_not_before_itself [simp]: "\<not> compare_rtp_timestamps s s"
  by (simp add: compare_timestamps_iff)

text \<open>A packet that comes in order is processed at once.\<close>

lemma accept_in_order:
  assumes "no_packet_waits d2" and "\<not> rd_first_packet d"
    and "ntohs (sequence_number (RTPHeader_of pkt)) = rd_desired_seq_id d"
    and "\<not> compare_rtp_timestamps (ntohl (timestamp (RTPHeader_of pkt))) (rd_current_rtp_timestamp d)"
    and "process pkt d = Inr d2"
  shows "accept_packet process pkt d = Some (Inr d2)"
proof -
  have "\<not> view_is_valid (head_view d2)"
    using views_invalid [OF assms(1)] assms(1)
    by (simp add: no_packet_waits_def WVB_EARLY_FRAME_TOLERANCE_def)
  then show ?thesis
    using assms by (simp add: accept_packet_def Let_def catch_up_near ready_none)
qed

section \<open>What a payload format owes to the loop\<close>

text \<open>The views and the jitter buffer, and the packet at the head.\<close>

definition queue_of :: "'a IRtpDepacketizer_scheme \<Rightarrow> RtpPacketView list \<times> nat \<times> RtpPacket list" where
  "queue_of d = (rd_packet_views d, rd_packet_view_head d, rd_jitter_buffer d)"

definition head_packet :: "'a IRtpDepacketizer_scheme \<Rightarrow> bytes" where
  "head_packet d = take (pv_size (head_view d)) (pk_data (rd_jitter_buffer d ! pv_index (head_view d)))"

definition head_waits :: "'a IRtpDepacketizer_scheme \<Rightarrow> bool" where
  "head_waits d \<longleftrightarrow> view_is_valid (head_view d) \<and> pv_index (head_view d) < length (rd_jitter_buffer d)"

text \<open>
  \<open>process_packet\<close> is to consume the packet that it is given. A format that can refuse one, that is,
  return with the queue unchanged and refuse it again, keeps the loop over the waiting packets from
  ending.
\<close>

locale payload_format =
  fixes process :: "'a process"
    and refuses :: "bytes \<Rightarrow> 'a IRtpDepacketizer_scheme \<Rightarrow> bool"
  assumes refused: "refuses pkt d \<Longrightarrow> \<exists>d'. process pkt d = Inr d' \<and> queue_of d' = queue_of d \<and> refuses pkt d'"
begin

lemma refused_again:
  assumes "head_waits d" "refuses (head_packet d) d"
  obtains d' where "process (head_packet d) d = Inr d'" "head_waits d'" "refuses (head_packet d') d'"
    "rd_packet_view_head d' = rd_packet_view_head d"
    "d'\<lparr>rd_packet_views := (rd_packet_views d')[rd_packet_view_head d := head_view d']\<rparr> = d'"
proof -
  obtain d' where "process (head_packet d) d = Inr d'" "queue_of d' = queue_of d" "refuses (head_packet d) d'"
    using refused [OF assms(2)] by blast
  then show thesis
    using assms that by (auto simp: queue_of_def head_packet_def head_waits_def)
qed

lemma refused_head_diverges:
  assumes "head_waits d" "refuses (head_packet d) d"
  shows "process_ready process (rd_packet_view_head d) d = None"
proof -
  let ?P = "\<lambda>pr slot d (y :: 'a IRtpDepacketizer_scheme result).
      pr = process \<longrightarrow> slot = rd_packet_view_head d \<longrightarrow> \<not> (head_waits d \<and> refuses (head_packet d) d)"
  have "?P pr slot d y" if ready: "process_ready pr slot d = Some y" for pr slot d y
  proof (rule process_ready.raw_induct [OF _ ready, where P = ?P], intro impI notI, goal_cases)
    case (1 f pr slot d y)
    obtain d' where d': "process (head_packet d) d = Inr d'" "head_waits d'" "refuses (head_packet d') d'"
      "rd_packet_view_head d' = rd_packet_view_head d"
      "d'\<lparr>rd_packet_views := (rd_packet_views d')[rd_packet_view_head d := head_view d']\<rparr> = d'"
      using refused_again 1(5) by blast
    have "f pr slot d' = Some y"
      using 1(2-) d' by (simp add: head_waits_def head_packet_def Let_def)
    then show False
      using 1(1) [of pr slot d' y] 1(3,4) d' by simp
  qed
  then show ?thesis
    using assms by (cases "process_ready process (rd_packet_view_head d) d") auto
qed

end

end
