(* ===== verification/H264Depacketizer.thy ===== *)
theory H264Depacketizer
  imports RtpDepacketizer H264Fragments
begin

text \<open>
  \<open>common/src/formats/h264/h264_rtp_depacketizer.cpp\<close>: single NAL units are put behind start codes, the
  fragments of a unit are joined, and a unit with a lost fragment is marked as damaged. The pointer
  \<open>m_fu_header\<close> refers to a byte inside the vector \<open>m_frame_data\<close>; it is stale once the vector had to move.
  How the vector grows is an argument (the capacity after a growth).
\<close>

section \<open>State\<close>

datatype fu_pointer = FuNull | FuByte nat | FuStale

record H264RtpDepacketizer = IRtpDepacketizer +
  rd_fu_header :: fu_pointer
  rd_should_drop_fragmented_unit :: bool

definition FU_A_TYPE :: u8 where
  "FU_A_TYPE = 28"

definition FU_REASSEMBLE_HEADER :: "u8 \<Rightarrow> u8 \<Rightarrow> u8" where
  "FU_REASSEMBLE_HEADER indicator header = (indicator AND 0b11100000) OR (header AND 0b00011111)"

definition NALU_HEADER_F_BIT :: u8 where
  "NALU_HEADER_F_BIT = 0b10000000"

definition create_h264_rtp_depacketizer :: H264RtpDepacketizer where
  "create_h264_rtp_depacketizer = IRtpDepacketizer.extend new_rtp_depacketizer
     (H264RtpDepacketizer.fields FuNull False)"

definition in_fragmented_unit :: "H264RtpDepacketizer \<Rightarrow> bool" where
  "in_fragmented_unit d \<longleftrightarrow> rd_fu_header d \<noteq> FuNull"

section \<open>The frame buffer\<close>

type_synonym growth = "nat \<Rightarrow> nat \<Rightarrow> nat"

definition append_bytes :: "growth \<Rightarrow> bytes \<Rightarrow> H264RtpDepacketizer \<Rightarrow> H264RtpDepacketizer" where
  "append_bytes grow bs d =
     (let n = length (rd_frame_data d) + length bs;
          d1 = d\<lparr>rd_frame_data := rd_frame_data d @ bs\<rparr>
      in if n > rd_frame_capacity d
         then d1\<lparr>rd_frame_capacity := grow (rd_frame_capacity d) n,
                 rd_fu_header := (if rd_fu_header d = FuNull then FuNull else FuStale)\<rparr>
         else d1)"

text \<open>\<open>*m_fu_header |= NALU_HEADER_F_BIT\<close>\<close>

definition mark_damaged :: "H264RtpDepacketizer \<Rightarrow> H264RtpDepacketizer result" where
  "mark_damaged d =
     (case rd_fu_header d of
        FuByte i \<Rightarrow> Inr (d\<lparr>rd_frame_data := (rd_frame_data d)[i := rd_frame_data d ! i OR NALU_HEADER_F_BIT]\<rparr>)
      | FuStale \<Rightarrow> Inl (UndefinedBehaviour ''write through a stale pointer'')
      | FuNull \<Rightarrow> Inl (UndefinedBehaviour ''write through a null pointer''))"

definition add_start_code :: "growth \<Rightarrow> H264RtpDepacketizer \<Rightarrow> H264RtpDepacketizer" where
  "add_start_code grow d =
     (if rd_frame_data d = [] then append_bytes grow [0, 0, 0, 1] d else append_bytes grow [0, 0, 1] d)"

definition start_new_fu :: "growth \<Rightarrow> bytes \<Rightarrow> H264RtpDepacketizer \<Rightarrow> H264RtpDepacketizer" where
  "start_new_fu grow payload d =
     (let d1 = add_start_code grow d;
          d2 = append_bytes grow [FU_REASSEMBLE_HEADER (payload ! 0) (payload ! 1)] d1;
          d3 = d2\<lparr>rd_fu_header := FuByte (length (rd_frame_data d2) - 1)\<rparr>;
          d4 = append_bytes grow (drop 2 payload) d3
      in d4\<lparr>rd_should_drop_fragmented_unit := False\<rparr>)"

definition h264_finish_frame :: "H264RtpDepacketizer \<Rightarrow> H264RtpDepacketizer" where
  "h264_finish_frame d = d\<lparr>rd_has_frame := True\<rparr>"

definition h264_reset_frame :: "H264RtpDepacketizer \<Rightarrow> H264RtpDepacketizer" where
  "h264_reset_frame d = d\<lparr>rd_fu_header := FuNull, rd_should_drop_fragmented_unit := False\<rparr>"

section \<open>Processing a packet\<close>

text \<open>A fragment of a unit; the sequence numbers are compared as \<open>int\<close>.\<close>

definition process_fragment ::
    "growth \<Rightarrow> u16 \<Rightarrow> bytes \<Rightarrow> H264RtpDepacketizer \<Rightarrow> H264RtpDepacketizer result" where
  "process_fragment grow seq payload d =
     (if \<not> in_fragmented_unit d
      then if payload ! 1 AND FU_HEADER_START_BIT \<noteq> 0 then Inr (start_new_fu grow payload d)
           else Inr (d\<lparr>rd_should_drop_fragmented_unit := True\<rparr>)
      else if payload ! 1 AND FU_HEADER_START_BIT \<noteq> 0
      then map_sum id (start_new_fu grow payload) (mark_damaged d)
      else let d1 = (if uint (rd_last_processed_seq_id d) \<noteq> uint seq - 1
                     then map_sum id (\<lambda>q. q\<lparr>rd_should_drop_fragmented_unit := True\<rparr>) (mark_damaged d)
                     else Inr d)
           in map_sum id (\<lambda>q.
                let q1 = (if \<not> rd_should_drop_fragmented_unit q
                          then append_bytes grow (drop 2 payload) q else q)
                in if payload ! 1 AND FU_HEADER_END_BIT \<noteq> 0
                   then q1\<lparr>rd_fu_header := FuNull, rd_should_drop_fragmented_unit := False\<rparr>
                   else q1) d1)"

definition process_unit ::
    "growth \<Rightarrow> bytes \<Rightarrow> H264RtpDepacketizer \<Rightarrow> H264RtpDepacketizer result" where
  "process_unit grow payload d =
     (let d1 = (if in_fragmented_unit d
                then map_sum id (\<lambda>q. q\<lparr>rd_fu_header := FuNull\<rparr>) (mark_damaged d) else Inr d)
      in map_sum id (\<lambda>q. append_bytes grow payload
           (add_start_code grow (q\<lparr>rd_should_drop_fragmented_unit := False\<rparr>))) d1)"

definition process_payload ::
    "growth \<Rightarrow> RTPHeader \<Rightarrow> bytes \<Rightarrow> H264RtpDepacketizer \<Rightarrow> H264RtpDepacketizer result" where
  "process_payload grow h payload d =
     map_sum id (finish_packet h264_finish_frame (ntohs (sequence_number h)) (is_marker h))
       (if NALU_TYPE (payload ! 0) = FU_A_TYPE
        then process_fragment grow (ntohs (sequence_number h)) payload d
        else process_unit grow payload d)"

definition h264_process_packet ::
    "growth \<Rightarrow> bytes \<Rightarrow> H264RtpDepacketizer \<Rightarrow> H264RtpDepacketizer result" where
  "h264_process_packet grow pkt d =
     (let h = RTPHeader_of pkt; payload = drop sizeof_RTPHeader pkt in
      if rd_current_rtp_timestamp d \<noteq> ntohl (timestamp h)
      then if rd_frame_data d \<noteq> []
           then map_sum id h264_finish_frame (if in_fragmented_unit d then mark_damaged d else Inr d)
           else process_payload grow h payload
                  (d\<lparr>rd_current_rtp_timestamp := ntohl (timestamp h),
                     rd_current_rtp_pose_timestamp := ntohl (pose_timestamp_ext h),
                     rd_current_frame_id := ntohl (frame_id_ext h)\<rparr>)
      else process_payload grow h payload d)"

definition h264_add_packet ::
    "growth \<Rightarrow> bytes \<Rightarrow> H264RtpDepacketizer \<Rightarrow> H264RtpDepacketizer result option" where
  "h264_add_packet grow pkt d = rtp_add_packet (h264_process_packet grow) h264_reset_frame pkt d"

text \<open>The packets that the client's socket hands over, one after the other.\<close>

fun h264_add_packets ::
    "growth \<Rightarrow> bytes list \<Rightarrow> H264RtpDepacketizer \<Rightarrow> H264RtpDepacketizer result option" where
  "h264_add_packets grow [] d = Some (Inr d)"
| "h264_add_packets grow (pkt # pkts) d =
     (case h264_add_packet grow pkt d of
        None \<Rightarrow> None
      | Some (Inl f) \<Rightarrow> Some (Inl f)
      | Some (Inr d') \<Rightarrow> h264_add_packets grow pkts d')"

section \<open>Lemmas\<close>

lemma append_frame [simp]:
  "rd_frame_data (append_bytes grow bs d) = rd_frame_data d @ bs"
  "rd_fu_header (append_bytes grow bs d) = FuNull \<longleftrightarrow> rd_fu_header d = FuNull"
  "rd_should_drop_fragmented_unit (append_bytes grow bs d) = rd_should_drop_fragmented_unit d"
  by (simp_all add: append_bytes_def Let_def)

lemma frame_only [simp]:
  "no_packet_waits (append_bytes grow bs d) = no_packet_waits d"
  "rd_first_packet (append_bytes grow bs d) = rd_first_packet d"
  "rd_has_frame (append_bytes grow bs d) = rd_has_frame d"
  "rd_desired_seq_id (append_bytes grow bs d) = rd_desired_seq_id d"
  "rd_last_processed_seq_id (append_bytes grow bs d) = rd_last_processed_seq_id d"
  "rd_current_rtp_timestamp (append_bytes grow bs d) = rd_current_rtp_timestamp d"
  "rd_current_rtp_pose_timestamp (append_bytes grow bs d) = rd_current_rtp_pose_timestamp d"
  "rd_current_frame_id (append_bytes grow bs d) = rd_current_frame_id d"
  "rd_last_packet_received_time (append_bytes grow bs d) = rd_last_packet_received_time d"
  "rd_packet_views (append_bytes grow bs d) = rd_packet_views d"
  "rd_packet_view_head (append_bytes grow bs d) = rd_packet_view_head d"
  "rd_jitter_buffer (append_bytes grow bs d) = rd_jitter_buffer d"
  "rd_jitter_count (append_bytes grow bs d) = rd_jitter_count d"
  by (simp_all add: append_bytes_def Let_def no_packet_waits_def)

definition code_after :: "bytes \<Rightarrow> bytes" where
  "code_after fd = start_code (fd = [])"

lemma add_start_code_eq: "add_start_code grow d = append_bytes grow (code_after (rd_frame_data d)) d"
  by (simp add: add_start_code_def code_after_def start_code_def)

lemma start_new_fu_frame:
  "rd_frame_data (start_new_fu grow payload d) = rd_frame_data d @ code_after (rd_frame_data d)
     @ FU_REASSEMBLE_HEADER (payload ! 0) (payload ! 1) # drop 2 payload"
  "in_fragmented_unit (start_new_fu grow payload d)"
  "\<not> rd_should_drop_fragmented_unit (start_new_fu grow payload d)"
  by (simp_all add: start_new_fu_def Let_def add_start_code_eq in_fragmented_unit_def)

text \<open>Bits of the fragment headers.\<close>

lemma fu_bits:
  "NALU_TYPE (FU_INDICATOR h) = FU_A_TYPE"
  "(NALU_TYPE h OR FU_HEADER_START_BIT) AND FU_HEADER_START_BIT \<noteq> 0"
  "NALU_TYPE h AND FU_HEADER_START_BIT = 0" "NALU_TYPE h AND FU_HEADER_END_BIT = 0"
  "(NALU_TYPE h OR FU_HEADER_END_BIT) AND FU_HEADER_START_BIT = 0"
  "(NALU_TYPE h OR FU_HEADER_END_BIT) AND FU_HEADER_END_BIT \<noteq> 0"
  "FU_REASSEMBLE_HEADER (FU_INDICATOR h) (NALU_TYPE h OR FU_HEADER_START_BIT) = h"
proof -
  have num: "(0x1F::u8) = mask 5" "(0b00011111::u8) = mask 5" "(0b11100000::u8) = push_bit 5 (mask 3)"
    "(28::u8) = push_bit 2 (mask 3)"
    by (simp_all add: mask_eq_exp_minus_1 push_bit_eq_mult)
  have one: "bit FU_HEADER_START_BIT n \<longleftrightarrow> n = 7" "bit FU_HEADER_END_BIT n \<longleftrightarrow> n = 6" for n
    unfolding FU_HEADER_START_BIT_def FU_HEADER_END_BIT_def
    using bit_exp_iff [of 7 n, where ?'a = "8 word"] bit_exp_iff [of 6 n, where ?'a = "8 word"] by auto
  note defs = NALU_TYPE_def FU_INDICATOR_def FU_A_TYPE_def FU_REASSEMBLE_HEADER_def num
  show "NALU_TYPE (FU_INDICATOR h) = FU_A_TYPE"
    unfolding defs by (rule bit_word_eqI) (simp add: one bit_and_iff bit_or_iff bit_mask_iff bit_push_bit_iff, arith)
  show "NALU_TYPE h AND FU_HEADER_START_BIT = 0" "NALU_TYPE h AND FU_HEADER_END_BIT = 0"
    "(NALU_TYPE h OR FU_HEADER_END_BIT) AND FU_HEADER_START_BIT = 0"
    unfolding defs by (rule bit_word_eqI; auto simp: one bit_and_iff bit_or_iff bit_mask_iff bit_push_bit_iff)+
  show "FU_REASSEMBLE_HEADER (FU_INDICATOR h) (NALU_TYPE h OR FU_HEADER_START_BIT) = h"
    unfolding defs by (rule bit_word_eqI) (simp add: one bit_and_iff bit_or_iff bit_mask_iff bit_push_bit_iff, arith)
  have "bit ((NALU_TYPE h OR FU_HEADER_START_BIT) AND FU_HEADER_START_BIT) 7"
    "bit ((NALU_TYPE h OR FU_HEADER_END_BIT) AND FU_HEADER_END_BIT) 6"
    unfolding defs by (simp_all add: one bit_and_iff bit_or_iff bit_mask_iff bit_push_bit_iff)
  then show "(NALU_TYPE h OR FU_HEADER_START_BIT) AND FU_HEADER_START_BIT \<noteq> 0"
    "(NALU_TYPE h OR FU_HEADER_END_BIT) AND FU_HEADER_END_BIT \<noteq> 0"
    by force+
qed

section \<open>The payload format\<close>

text \<open>A packet with another time stamp is not taken while there is a frame in the buffer.\<close>

definition h264_refuses :: "bytes \<Rightarrow> H264RtpDepacketizer \<Rightarrow> bool" where
  "h264_refuses pkt d \<longleftrightarrow> ntohl (timestamp (RTPHeader_of pkt)) \<noteq> rd_current_rtp_timestamp d
     \<and> rd_frame_data d \<noteq> [] \<and> \<not> in_fragmented_unit d"

interpretation h264: payload_format "h264_process_packet grow" h264_refuses for grow
  by unfold_locales
    (auto simp: h264_refuses_def h264_process_packet_def Let_def h264_finish_frame_def queue_of_def
      in_fragmented_unit_def)

end
