(* ===== verification/H264Transfer.thy ===== *)
theory H264Transfer
  imports H264Depacketizer
begin

text \<open>
  The H.264 packetizer and depacketizer together: what the client reassembles from packets that come in
  order, and what happens after the first frame, at a wrap-around and when packets are reordered.
\<close>

section \<open>Reassembly without loss\<close>

text \<open>The frame so far and whether a fragmented unit is open, and the effect of one payload.\<close>

definition is_fragment :: "bytes \<Rightarrow> bool" where
  "is_fragment payload \<longleftrightarrow> NALU_TYPE (payload ! 0) = FU_A_TYPE"

definition starts_unit :: "bytes \<Rightarrow> bool" where
  "starts_unit payload \<longleftrightarrow> payload ! 1 AND FU_HEADER_START_BIT \<noteq> 0"

definition ends_unit :: "bytes \<Rightarrow> bool" where
  "ends_unit payload \<longleftrightarrow> payload ! 1 AND FU_HEADER_END_BIT \<noteq> 0"

definition join :: "bytes \<Rightarrow> bytes \<times> bool \<Rightarrow> bytes \<times> bool" where
  "join payload = (\<lambda>(fd, open).
     if is_fragment payload
     then if starts_unit payload
          then (fd @ code_after fd @ FU_REASSEMBLE_HEADER (payload ! 0) (payload ! 1) # drop 2 payload, True)
          else (fd @ drop 2 payload, \<not> ends_unit payload)
     else (fd @ code_after fd @ payload, False))"

text \<open>The payload continues an open unit exactly when there is one.\<close>

definition fits :: "bytes \<Rightarrow> bool \<Rightarrow> bool" where
  "fits payload open \<longleftrightarrow> 2 \<le> length payload \<and> length payload < WVB_RTP_MTU - sizeof_RTPHeader
     \<and> (open \<longleftrightarrow> is_fragment payload \<and> \<not> starts_unit payload)"

fun all_fit :: "bytes list \<Rightarrow> bytes \<times> bool \<Rightarrow> bool" where
  "all_fit [] s \<longleftrightarrow> True"
| "all_fit (p # ps) s \<longleftrightarrow> fits p (snd s) \<and> all_fit ps (join p s)"

definition reassembling :: "H264RtpDepacketizer \<Rightarrow> u16 \<Rightarrow> bytes \<times> bool \<Rightarrow> bool" where
  "reassembling d seq s \<longleftrightarrow> \<not> rd_first_packet d \<and> rd_desired_seq_id d = seq
     \<and> rd_frame_data d = fst s \<and> (in_fragmented_unit d \<longleftrightarrow> snd s)
     \<and> (snd s \<longrightarrow> \<not> rd_should_drop_fragmented_unit d \<and> rd_last_processed_seq_id d = seq - 1)"

definition in_order :: "H264RtpDepacketizer \<Rightarrow> u16 \<Rightarrow> bytes \<times> bool \<Rightarrow> bool" where
  "in_order d seq s \<longleftrightarrow> no_packet_waits d \<and> reassembling d seq s"

text \<open>What reassembly leaves as it is: the views and the jitter buffer.\<close>

definition jitter :: "H264RtpDepacketizer \<Rightarrow> RtpPacketView list \<times> nat \<times> u16 \<times> RtpPacket list" where
  "jitter d = (rd_packet_views d, rd_packet_view_head d, rd_jitter_count d, rd_jitter_buffer d)"

text \<open>The stamps, which stay the same within a frame.\<close>

definition stamps :: "H264RtpDepacketizer \<Rightarrow> u32 \<times> u32 \<times> u32 \<times> int" where
  "stamps d = (rd_current_rtp_timestamp d, rd_current_rtp_pose_timestamp d, rd_current_frame_id d,
     rd_last_packet_received_time d)"

definition slots :: "H264RtpDepacketizer \<Rightarrow> u16 \<times> RtpPacket list" where
  "slots d = (rd_jitter_count d, rd_jitter_buffer d)"

lemma finish_frame_fields [simp]:
  "no_packet_waits (h264_finish_frame d) = no_packet_waits d"
  "rd_first_packet (h264_finish_frame d) = rd_first_packet d"
  "rd_has_frame (h264_finish_frame d)"
  "rd_desired_seq_id (h264_finish_frame d) = rd_desired_seq_id d"
  "rd_last_processed_seq_id (h264_finish_frame d) = rd_last_processed_seq_id d"
  "rd_frame_data (h264_finish_frame d) = rd_frame_data d"
  "in_fragmented_unit (h264_finish_frame d) = in_fragmented_unit d"
  "rd_should_drop_fragmented_unit (h264_finish_frame d) = rd_should_drop_fragmented_unit d"
  "stamps (h264_finish_frame d) = stamps d"
  "jitter (h264_finish_frame d) = jitter d"
  "slots (h264_finish_frame d) = slots d"
  by (simp_all add: jitter_def slots_def  h264_finish_frame_def no_packet_waits_def in_fragmented_unit_def stamps_def)

lemma finish_packet_idle:
  fixes seq :: u16
  assumes "no_packet_waits d"
  defines "d' \<equiv> d\<lparr>rd_last_processed_seq_id := seq, rd_desired_seq_id := rd_desired_seq_id d + 1,
     rd_packet_view_head := (rd_packet_view_head d + 1) mod WVB_EARLY_FRAME_TOLERANCE\<rparr>"
  shows "finish_packet fin seq marker d = (if marker then fin d' else d')" "no_packet_waits d'"
proof -
  have "no_packet_waits (d\<lparr>rd_last_processed_seq_id := seq, rd_desired_seq_id := rd_desired_seq_id d + 1\<rparr>)"
    using assms(1) by (simp add: no_packet_waits_def)
  from free_head_view_none [OF this]
  show "finish_packet fin seq marker d = (if marker then fin d' else d')"
    by (simp add: finish_packet_def Let_def d'_def)
  show "no_packet_waits d'"
    using assms(1) by (simp add: no_packet_waits_def d'_def WVB_EARLY_FRAME_TOLERANCE_def)
qed

lemma uint_pred: "s \<noteq> 0 \<Longrightarrow> uint (s - 1 :: u16) = uint s - 1"
proof -
  assume "s \<noteq> 0"
  then have "0 < uint s" using uint_bounds16 [of s] by (simp add: less_le unsigned_eq_0_iff)
  then show ?thesis using uint_bounds16 [of s] by (simp add: uint_word_ariths)
qed

lemma outer_kept [simp]:
  "rd_first_packet (start_new_fu grow payload d) = rd_first_packet d"
  "rd_has_frame (start_new_fu grow payload d) = rd_has_frame d"
  "rd_desired_seq_id (start_new_fu grow payload d) = rd_desired_seq_id d"
  "stamps (start_new_fu grow payload d) = stamps d"
  "jitter (start_new_fu grow payload d) = jitter d"
  "stamps (append_bytes grow bs d) = stamps d"
  "jitter (append_bytes grow bs d) = jitter d"
  "in_fragmented_unit (append_bytes grow bs d) = in_fragmented_unit d"
  by (simp_all add: start_new_fu_def Let_def add_start_code_eq stamps_def jitter_def in_fragmented_unit_def)

definition process_body :: "growth \<Rightarrow> u16 \<Rightarrow> bytes \<Rightarrow> H264RtpDepacketizer \<Rightarrow> H264RtpDepacketizer result" where
  "process_body grow seq payload d =
     (if NALU_TYPE (payload ! 0) = FU_A_TYPE then process_fragment grow seq payload d
      else process_unit grow payload d)"

lemma process_payload_body:
  "process_payload grow h payload d =
     map_sum id (finish_packet h264_finish_frame (ntohs (sequence_number h)) (is_marker h))
       (process_body grow (ntohs (sequence_number h)) payload d)"
  by (simp add: process_payload_def process_body_def)

lemma body_in_order:
  assumes d: "reassembling d seq s" and fit: "fits payload (snd s)" and seq: "snd s \<Longrightarrow> seq \<noteq> 0"
  shows "\<exists>q. process_body grow seq payload d = Inr q \<and> \<not> rd_first_packet q \<and> rd_desired_seq_id q = seq
     \<and> rd_frame_data q = fst (join payload s) \<and> (in_fragmented_unit q \<longleftrightarrow> snd (join payload s))
     \<and> \<not> rd_should_drop_fragmented_unit q \<and> rd_has_frame q = rd_has_frame d \<and> stamps q = stamps d
     \<and> jitter q = jitter d"
proof (cases "is_fragment payload")
  case frag: True
  show ?thesis
  proof (cases "starts_unit payload")
    case True
    then have "\<not> in_fragmented_unit d" using d fit by (simp add: reassembling_def fits_def)
    then show ?thesis
      using True frag d by (cases s) (auto simp: process_body_def process_fragment_def reassembling_def join_def
          is_fragment_def starts_unit_def start_new_fu_frame)
  next
    case False
    then have "snd s" using fit frag by (simp add: fits_def)
    then have opn: "in_fragmented_unit d" "\<not> rd_should_drop_fragmented_unit d"
      "uint (rd_last_processed_seq_id d) = uint seq - 1"
      using d seq by (auto simp: reassembling_def uint_pred)
    define q where "q = append_bytes grow (drop 2 payload) d"
    define q' where "q' = (if ends_unit payload
       then q\<lparr>rd_fu_header := FuNull, rd_should_drop_fragmented_unit := False\<rparr> else q)"
    have "process_fragment grow seq payload d = Inr q'"
      using False opn by (simp add: process_fragment_def starts_unit_def ends_unit_def q_def q'_def Let_def)
    moreover have "\<not> rd_first_packet q' \<and> rd_desired_seq_id q' = seq
     \<and> rd_frame_data q' = fst (join payload s) \<and> (in_fragmented_unit q' \<longleftrightarrow> snd (join payload s))
     \<and> \<not> rd_should_drop_fragmented_unit q' \<and> rd_has_frame q' = rd_has_frame d \<and> stamps q' = stamps d
     \<and> jitter q' = jitter d"
      using False frag opn d by (cases s) (simp add: q'_def q_def reassembling_def join_def
          in_fragmented_unit_def jitter_def stamps_def)
    ultimately show ?thesis using frag by (simp add: process_body_def is_fragment_def)
  qed
next
  case False
  then have "\<not> in_fragmented_unit d" using d fit by (simp add: reassembling_def fits_def)
  then show ?thesis
    using False d by (cases s) (simp add: process_body_def process_unit_def reassembling_def join_def
        is_fragment_def add_start_code_eq jitter_def stamps_def in_fragmented_unit_def)
qed

lemma unit_stamps:
  "in_fragmented_unit (d\<lparr>rd_last_processed_seq_id := a, rd_desired_seq_id := b, rd_packet_view_head := c\<rparr>)
     = in_fragmented_unit d"
  "stamps (d\<lparr>rd_last_processed_seq_id := a, rd_desired_seq_id := b, rd_packet_view_head := c\<rparr>) = stamps d"
  "slots (d\<lparr>rd_last_processed_seq_id := a, rd_desired_seq_id := b, rd_packet_view_head := c\<rparr>) = slots d"
  by (simp_all add: in_fragmented_unit_def stamps_def slots_def)

lemma process_in_order:
  assumes d: "in_order d seq s" and fit: "fits payload (snd s)"
    and seq: "ntohs (sequence_number h) = seq" "snd s \<Longrightarrow> seq \<noteq> 0"
  shows "\<exists>d'. process_payload grow h payload d = Inr d' \<and> in_order d' (seq + 1) (join payload s)
     \<and> rd_has_frame d' = (rd_has_frame d \<or> is_marker h) \<and> stamps d' = stamps d \<and> slots d' = slots d"
proof -
  have core: "reassembling d seq s" and idle: "no_packet_waits d" using d by (simp_all add: in_order_def)
  obtain q where q: "process_body grow seq payload d = Inr q"
    and f: "\<not> rd_first_packet q" "rd_desired_seq_id q = seq"
     "rd_frame_data q = fst (join payload s)" "in_fragmented_unit q \<longleftrightarrow> snd (join payload s)"
     "\<not> rd_should_drop_fragmented_unit q" "rd_has_frame q = rd_has_frame d" "stamps q = stamps d"
     "jitter q = jitter d"
    using body_in_order [OF core fit seq(2)] by blast
  have "slots q = slots d" using f(8) by (simp add: jitter_def slots_def)
  have "no_packet_waits q" using idle f(8) by (simp add: no_packet_waits_def jitter_def)
  note e = finish_packet_idle [OF this, where seq = seq]
  have "process_payload grow h payload d = Inr (finish_packet h264_finish_frame seq (is_marker h) q)"
    unfolding process_payload_body seq q by simp
  moreover have "in_order (finish_packet h264_finish_frame seq (is_marker h) q) (seq + 1) (join payload s)
     \<and> rd_has_frame (finish_packet h264_finish_frame seq (is_marker h) q) = (rd_has_frame d \<or> is_marker h)
     \<and> stamps (finish_packet h264_finish_frame seq (is_marker h) q) = stamps d
     \<and> slots (finish_packet h264_finish_frame seq (is_marker h) q) = slots d"
    unfolding e(1) in_order_def reassembling_def using f(1-7) e(2) \<open>slots q = slots d\<close>
    by (cases "is_marker h") (simp_all add: unit_stamps)
  ultimately show ?thesis by blast
qed

text \<open>One packet of a frame, and all of them.\<close>

lemma add_in_order:
  assumes d: "in_order d seq s" "\<not> rd_has_frame d" and fit: "fits payload (snd s)"
    and h: "first_byte h = RTP_FIRST_BYTE_BASE" "ntohs (sequence_number h) = seq"
      "ntohl (timestamp h) = rd_current_rtp_timestamp d" and seq: "snd s \<Longrightarrow> seq \<noteq> 0"
  shows "\<exists>d'. h264_add_packet grow (RTPHeader_bytes h @ payload) d = Some (Inr d')
     \<and> in_order d' (seq + 1) (join payload s) \<and> rd_has_frame d' = is_marker h \<and> stamps d' = stamps d
     \<and> slots d' = slots d"
proof -
  obtain d' where p: "process_payload grow h payload d = Inr d'" and d': "in_order d' (seq + 1) (join payload s)"
    "rd_has_frame d' = (rd_has_frame d \<or> is_marker h)" "stamps d' = stamps d" "slots d' = slots d"
    using process_in_order [OF d(1) fit h(2) seq] by blast
  have "h264_process_packet grow (RTPHeader_bytes h @ payload) d = Inr d'"
    using p h(3) by (simp add: h264_process_packet_def Let_def)
  then have "accept_packet (h264_process_packet grow) (RTPHeader_bytes h @ payload) d = Some (Inr d')"
    by (rule accept_in_order [rotated 4]) (use d d' h in \<open>simp_all add: in_order_def reassembling_def\<close>)
  then have "h264_add_packet grow (RTPHeader_bytes h @ payload) d = Some (Inr d')"
    using d(2) fit h(1) by (simp add: h264_add_packet_def rtp_add_packet_def fits_def WVB_RTP_MTU_def)
  with d' d(2) show ?thesis by simp
qed

lemma is_marker_set [simp]: "is_marker (set_marker h m) = m"
proof -
  have "(x OR RTP_MARKER_BIT) AND RTP_MARKER_BIT = RTP_MARKER_BIT"
    "(x AND NOT RTP_MARKER_BIT) AND RTP_MARKER_BIT = 0" for x :: u8
    by (auto intro!: bit_word_eqI simp: bit_and_iff bit_or_iff bit_not_iff)
  then show ?thesis by (simp add: is_marker_def set_marker_def RTP_MARKER_BIT_def)
qed

lemma set_marker_fields [simp]:
  "first_byte (set_marker h m) = first_byte h" "sequence_number (set_marker h m) = sequence_number h"
  "timestamp (set_marker h m) = timestamp h" "pose_timestamp_ext (set_marker h m) = pose_timestamp_ext h"
  "frame_id_ext (set_marker h m) = frame_id_ext h"
  by (simp_all add: set_marker_def)

lemma next_seq: "unat seq + n < 65536 \<Longrightarrow> 0 < n \<Longrightarrow> unat (seq + 1 :: u16) = unat seq + 1 \<and> seq + 1 \<noteq> 0"
proof -
  assume a: "unat seq + n < 65536" "0 < n"
  then have "unat (seq + 1) = unat seq + 1" by (simp add: unat_word_ariths)
  then show ?thesis by (metis add_gr_0 less_irrefl less_one unat_0)
qed

lemma add_all:
  assumes "in_order d seq s" "\<not> rd_has_frame d" "all_fit payloads s" "payloads \<noteq> []"
    and "first_byte h = RTP_FIRST_BYTE_BASE" "ntohl (timestamp h) = rd_current_rtp_timestamp d"
    and "unat seq + length payloads \<le> 65536" "snd s \<Longrightarrow> seq \<noteq> 0"
  shows "\<exists>d'. h264_add_packets grow (framed_packets h seq m payloads) d = Some (Inr d')
     \<and> in_order d' (seq + of_nat (length payloads)) (fold join payloads s)
     \<and> rd_has_frame d' = m \<and> stamps d' = stamps d \<and> slots d' = slots d"
  using assms
proof (induction payloads arbitrary: d seq s)
  case Nil
  then show ?case by simp
next
  case (Cons payload rest)
  define h1 where "h1 = set_marker (h\<lparr>sequence_number := htons seq\<rparr>) (rest = [] \<and> m)"
  have h1: "first_byte h1 = RTP_FIRST_BYTE_BASE" "ntohs (sequence_number h1) = seq"
    "ntohl (timestamp h1) = rd_current_rtp_timestamp d" "is_marker h1 \<longleftrightarrow> rest = [] \<and> m"
    using Cons.prems by (simp_all add: h1_def)
  have packets: "framed_packets h seq m (payload # rest)
      = (RTPHeader_bytes h1 @ payload) # framed_packets h (seq + 1) m rest"
    by (simp add: h1_def)
  have fit: "fits payload (snd s)" using Cons.prems(3) by simp
  obtain d1 where one: "h264_add_packet grow (RTPHeader_bytes h1 @ payload) d = Some (Inr d1)"
    and d1: "in_order d1 (seq + 1) (join payload s)" "rd_has_frame d1 = is_marker h1" "stamps d1 = stamps d"
    "slots d1 = slots d"
    using add_in_order [OF Cons.prems(1,2) fit h1(1,2,3) Cons.prems(8)] by blast
  show ?case
  proof (cases "rest = []")
    case True
    then show ?thesis using one d1 h1(4) unfolding packets by simp
  next
    case False
    then have nxt: "unat (seq + 1) = unat seq + 1" "seq + 1 \<noteq> 0"
      using next_seq [of seq "length rest"] Cons.prems(7) by simp_all
    have "\<exists>d'. h264_add_packets grow (framed_packets h (seq + 1) m rest) d1 = Some (Inr d')
     \<and> in_order d' (seq + 1 + of_nat (length rest)) (fold join rest (join payload s))
     \<and> rd_has_frame d' = m \<and> stamps d' = stamps d1 \<and> slots d' = slots d1"
      by (rule Cons.IH) (use d1 h1 False nxt Cons.prems in \<open>auto simp: stamps_def\<close>)
    then show ?thesis using one d1 False unfolding packets by (auto simp: algebra_simps)
  qed
qed

section \<open>The packets of a frame\<close>

text \<open>Every start code is short, except the first.\<close>

fun normal_codes :: "(bool \<times> bytes) list \<Rightarrow> (bool \<times> bytes) list" where
  "normal_codes [] = []"
| "normal_codes ((long, n) # nals) = (True, n) # map (\<lambda>(l, k). (False, k)) nals"

definition receivable :: "(bool \<times> bytes) list \<Rightarrow> bool" where
  "receivable nals \<longleftrightarrow> (\<forall>(long, n) \<in> set nals. 2 \<le> length n \<and> NALU_TYPE (hd n) \<noteq> FU_A_TYPE)"

lemma all_fit_append: "all_fit (xs @ ys) s \<longleftrightarrow> all_fit xs s \<and> all_fit ys (fold join xs s)"
  by (induction xs arbitrary: s) auto

lemmas fragment_defs = is_fragment_def starts_unit_def ends_unit_def

lemma join_rest:
  "all_fit (fu_rest h left) (fd, True) \<and> fold join (fu_rest h left) (fd, True) = (fd @ left, False)"
proof (induction h left arbitrary: fd rule: fu_rest.induct)
  case (1 h left)
  note b = fu_bits [of h]
  show ?case
  proof (cases "length left \<le> 1400")
    case True
    then show ?thesis
      using b by (simp add: fu_rest.simps [of h left] fits_def join_def fragment_defs WVB_RTP_MTU_def)
  next
    case False
    define p where "p = FU_INDICATOR h # NALU_TYPE h # take 1400 left"
    have "fits p True" "join p (fd, True) = (fd @ take 1400 left, True)"
      using b False by (simp_all add: p_def fits_def join_def fragment_defs WVB_RTP_MTU_def)
    moreover have "all_fit (fu_rest h (drop 1400 left)) (fd @ take 1400 left, True)
      \<and> fold join (fu_rest h (drop 1400 left)) (fd @ take 1400 left, True)
          = ((fd @ take 1400 left) @ drop 1400 left, False)"
      by (rule "1.IH") (use False in simp)
    ultimately show ?thesis
      using False by (simp add: fu_rest.simps [of h left] p_def [symmetric])
  qed
qed

lemma join_unit:
  assumes n: "2 \<le> length n" "NALU_TYPE (hd n) \<noteq> FU_A_TYPE"
  shows "all_fit (nal_payloads n) (fd, False)
     \<and> fold join (nal_payloads n) (fd, False) = (fd @ code_after fd @ n, False)"
proof (cases "length n \<le> 1400")
  case True
  then show ?thesis
    using n by (cases n) (auto simp: nal_payloads_def fits_def join_def fragment_defs WVB_RTP_MTU_def)
next
  case False
  obtain x xs where x: "n = x # xs" using n by (cases n) auto
  define p where "p = [FU_INDICATOR x, NALU_TYPE x OR FU_HEADER_START_BIT] @ tl (take 1400 n)"
  have first: "fits p False" "join p (fd, False) = (fd @ code_after fd @ x # take 1399 xs, True)"
    using fu_bits [of x] False by (simp_all add: p_def fits_def join_def fragment_defs WVB_RTP_MTU_def x)
  have "nal_payloads n = p # fu_rest x (drop 1399 xs)"
    using False by (simp add: nal_payloads_def p_def x)
  with first join_rest [of x "drop 1399 xs" "fd @ code_after fd @ x # take 1399 xs"] show ?thesis
    by (simp add: x)
qed

lemma join_units:
  "receivable nals \<Longrightarrow> fd \<noteq> [] \<Longrightarrow> all_fit (frame_payloads nals) (fd, False)
     \<and> fold join (frame_payloads nals) (fd, False) = (fd @ annexb (map (\<lambda>(l, k). (False, k)) nals), False)"
proof (induction nals arbitrary: fd)
  case Nil
  then show ?case by (simp add: frame_payloads_def annexb_def)
next
  case (Cons a nals)
  obtain long n where a: "a = (long, n)" by (cases a)
  have n: "2 \<le> length n" "NALU_TYPE (hd n) \<noteq> FU_A_TYPE" and r: "receivable nals"
    using Cons.prems(1) by (auto simp: a receivable_def)
  show ?case
    using join_unit [OF n, of fd] Cons.IH [OF r, of "fd @ code_after fd @ n"] Cons.prems(2)
    by (simp add: a frame_payloads_Cons all_fit_append annexb_Cons code_after_def)
qed

lemma join_frame:
  assumes "receivable nals" "nals \<noteq> []"
  shows "all_fit (frame_payloads nals) ([], False)
     \<and> fold join (frame_payloads nals) ([], False) = (annexb (normal_codes nals), False)"
proof -
  obtain long n rest where a: "nals = (long, n) # rest" using assms(2) by (cases nals) auto
  have n: "2 \<le> length n" "NALU_TYPE (hd n) \<noteq> FU_A_TYPE" and r: "receivable rest"
    using assms(1) by (auto simp: a receivable_def)
  show ?thesis
    using join_unit [OF n, of "[]"] join_units [OF r, of "code_after [] @ n"] n(1)
    by (simp add: a frame_payloads_Cons all_fit_append annexb_Cons code_after_def start_code_def)
qed

section \<open>The first frame\<close>

definition expecting :: "u16 \<Rightarrow> u32 \<Rightarrow> H264RtpDepacketizer" where
  "expecting seq ts = create_h264_rtp_depacketizer
     \<lparr>rd_desired_seq_id := seq, rd_current_rtp_timestamp := ts, rd_first_packet := False\<rparr>"

lemmas create_defs = create_h264_rtp_depacketizer_def new_rtp_depacketizer_def IRtpDepacketizer.extend_def
  H264RtpDepacketizer.fields_def

lemma expecting_in_order: "in_order (expecting seq ts) seq ([], False)"
  "\<not> rd_has_frame (expecting seq ts)" "stamps (expecting seq ts) = (ts, 0, 0, 0)"
  "slots (expecting seq ts) = (0, [])" "rd_current_rtp_timestamp (expecting seq ts) = ts"
  by (simp_all add: expecting_def create_defs in_order_def reassembling_def no_packet_waits_def
      in_fragmented_unit_def stamps_def slots_def view_is_valid_def WVB_EARLY_FRAME_TOLERANCE_def)

lemma first_packet_sets_start:
  assumes "20 < length pkt + 1" "22 \<le> length pkt" "length pkt < 1500"
    and "first_byte (RTPHeader_of pkt) = RTP_FIRST_BYTE_BASE"
  shows "h264_add_packet grow pkt create_h264_rtp_depacketizer = h264_add_packet grow pkt
     (expecting (ntohs (sequence_number (RTPHeader_of pkt))) (ntohl (timestamp (RTPHeader_of pkt))))"
  using assms by (simp add: h264_add_packet_def rtp_add_packet_def WVB_RTP_MTU_def accept_packet_def Let_def
      expecting_def create_defs)

lemma first_frame_packets:
  assumes "payloads \<noteq> []" "all_fit payloads ([], False)" "first_byte h = RTP_FIRST_BYTE_BASE"
  shows "h264_add_packets grow (framed_packets h seq m payloads) create_h264_rtp_depacketizer
     = h264_add_packets grow (framed_packets h seq m payloads) (expecting seq (ntohl (timestamp h)))"
proof -
  obtain p ps where p: "payloads = p # ps" using assms(1) by (cases payloads) auto
  define h1 where "h1 = set_marker (h\<lparr>sequence_number := htons seq\<rparr>) (ps = [] \<and> m)"
  have "2 \<le> length p" "length p < 1480" using assms(2) by (simp_all add: p fits_def WVB_RTP_MTU_def)
  then have "h264_add_packet grow (RTPHeader_bytes h1 @ p) create_h264_rtp_depacketizer
      = h264_add_packet grow (RTPHeader_bytes h1 @ p) (expecting seq (ntohl (timestamp h)))"
    using first_packet_sets_start [of "RTPHeader_bytes h1 @ p" grow] assms(3) by (simp add: h1_def)
  then show ?thesis by (simp add: p h1_def)
qed

lemma first_frame:
  assumes "nals \<noteq> []" "receivable nals" "first_byte h = RTP_FIRST_BYTE_BASE"
    and "unat seq + length (frame_payloads nals) \<le> 65536"
  shows "\<exists>d. h264_add_packets grow (framed_packets h seq m (frame_payloads nals)) create_h264_rtp_depacketizer
      = Some (Inr d) \<and> rd_frame_data d = annexb (normal_codes nals) \<and> rd_has_frame d = m
      \<and> stamps d = (ntohl (timestamp h), 0, 0, 0)
      \<and> in_order d (seq + of_nat (length (frame_payloads nals))) (annexb (normal_codes nals), False)"
proof -
  note j = join_frame [OF assms(2,1)]
  have "frame_payloads nals \<noteq> []" using assms(1) by simp
  define ts where "ts = ntohl (timestamp h)"
  have "\<exists>d'. h264_add_packets grow (framed_packets h seq m (frame_payloads nals)) (expecting seq ts) = Some (Inr d')
     \<and> in_order d' (seq + of_nat (length (frame_payloads nals))) (fold join (frame_payloads nals) ([], False))
     \<and> rd_has_frame d' = m \<and> stamps d' = stamps (expecting seq ts) \<and> slots d' = slots (expecting seq ts)"
    by (rule add_all) (use expecting_in_order j assms in \<open>auto simp: ts_def\<close>)
  then show ?thesis
    using first_frame_packets [OF \<open>frame_payloads nals \<noteq> []\<close> conjunct1 [OF j] assms(3), of grow seq m] j
    unfolding ts_def [symmetric] by (auto simp: expecting_in_order in_order_def reassembling_def)
qed

section \<open>After the first frame\<close>

definition alone :: "bytes \<Rightarrow> bytes" where
  "alone payload = (if is_fragment payload \<and> \<not> starts_unit payload then [] else fst (join payload ([], False)))"

lemma process_alone:
  assumes d: "in_order d seq ([], False)" and len: "2 \<le> length payload" "length payload < 1480"
    and seq: "ntohs (sequence_number h) = seq" and has: "rd_has_frame d"
  shows "\<exists>d'. process_payload grow h payload d = Inr d' \<and> no_packet_waits d' \<and> \<not> rd_first_packet d'
     \<and> rd_desired_seq_id d' = seq + 1 \<and> rd_frame_data d' = alone payload
     \<and> rd_has_frame d' \<and> stamps d' = stamps d"
proof (cases "is_fragment payload \<and> \<not> starts_unit payload")
  case False
  then have "fits payload (snd ([]::bytes, False))"
    using len by (simp add: fits_def WVB_RTP_MTU_def)
  from process_in_order [OF d this seq] False has show ?thesis
    by (fastforce simp: in_order_def reassembling_def alone_def)
next
  case True
  define q where "q = d\<lparr>rd_should_drop_fragmented_unit := True\<rparr>"
  have nf: "\<not> in_fragmented_unit d" using d by (simp add: in_order_def reassembling_def)
  have q: "no_packet_waits q" using d by (simp add: q_def in_order_def no_packet_waits_def)
  have "stamps q = stamps d" by (simp add: q_def stamps_def)
  note e = finish_packet_idle [OF q, where seq = seq]
  have "process_payload grow h payload d = Inr (finish_packet h264_finish_frame seq (is_marker h) q)"
    using True nf by (simp add: process_payload_def seq process_fragment_def is_fragment_def starts_unit_def q_def)
  moreover have "no_packet_waits (finish_packet h264_finish_frame seq (is_marker h) q)
     \<and> \<not> rd_first_packet (finish_packet h264_finish_frame seq (is_marker h) q)
     \<and> rd_desired_seq_id (finish_packet h264_finish_frame seq (is_marker h) q) = seq + 1
     \<and> rd_frame_data (finish_packet h264_finish_frame seq (is_marker h) q) = alone payload
     \<and> rd_has_frame (finish_packet h264_finish_frame seq (is_marker h) q)
     \<and> stamps (finish_packet h264_finish_frame seq (is_marker h) q) = stamps d"
    unfolding e(1) using e(2) d True has
    by (cases "is_marker h") (simp_all add: q_def unit_stamps in_order_def reassembling_def alone_def \<open>stamps q = stamps d\<close> [unfolded q_def])
  ultimately show ?thesis by blast
qed

text \<open>Between two packets, once there was a frame.\<close>

definition has_had_frame :: "H264RtpDepacketizer \<Rightarrow> u16 \<Rightarrow> u32 \<Rightarrow> bool" where
  "has_had_frame d seq ts \<longleftrightarrow> no_packet_waits d \<and> \<not> rd_first_packet d \<and> rd_has_frame d
     \<and> rd_desired_seq_id d = seq \<and> \<not> compare_rtp_timestamps ts (rd_current_rtp_timestamp d)"

lemma later_packet:
  assumes d: "has_had_frame d seq (ntohl (timestamp h))" and len: "2 \<le> length payload" "length payload < 1480"
    and h: "first_byte h = RTP_FIRST_BYTE_BASE" "ntohs (sequence_number h) = seq"
  shows "\<exists>d'. h264_add_packet grow (RTPHeader_bytes h @ payload) d = Some (Inr d')
     \<and> has_had_frame d' (seq + 1) (ntohl (timestamp h)) \<and> rd_frame_data d' = alone payload"
proof -
  define r where "r = (h264_reset_frame d)\<lparr>rd_frame_data := []\<rparr>"
  define r1 where "r1 = (if rd_current_rtp_timestamp d = ntohl (timestamp h) then r
     else r\<lparr>rd_current_rtp_timestamp := ntohl (timestamp h),
            rd_current_rtp_pose_timestamp := ntohl (pose_timestamp_ext h),
            rd_current_frame_id := ntohl (frame_id_ext h)\<rparr>)"
  have r: "in_order r1 seq ([], False)" "rd_has_frame r1" "rd_current_rtp_timestamp r1 = ntohl (timestamp h)"
    using d by (auto simp: r1_def r_def h264_reset_frame_def has_had_frame_def in_order_def reassembling_def
        no_packet_waits_def in_fragmented_unit_def)
  obtain d' where p: "process_payload grow h payload r1 = Inr d'"
    and d': "no_packet_waits d'" "\<not> rd_first_packet d'" "rd_desired_seq_id d' = seq + 1"
      "rd_frame_data d' = alone payload" "rd_has_frame d'" "stamps d' = stamps r1"
    using process_alone [OF r(1) len h(2) r(2)] by blast
  have "h264_process_packet grow (RTPHeader_bytes h @ payload) r = Inr d'"
    using p by (simp add: h264_process_packet_def Let_def r1_def r_def h264_reset_frame_def split: if_splits)
  then have "accept_packet (h264_process_packet grow) (RTPHeader_bytes h @ payload) r = Some (Inr d')"
    by (rule accept_in_order [rotated 4])
       (use d d'(1) h in \<open>simp_all add: has_had_frame_def r_def h264_reset_frame_def\<close>)
  then have "h264_add_packet grow (RTPHeader_bytes h @ payload) d = Some (Inr d')"
    using d len h(1) by (simp add: h264_add_packet_def rtp_add_packet_def WVB_RTP_MTU_def r_def has_had_frame_def)
  with d' r(3) show ?thesis by (auto simp: has_had_frame_def stamps_def)
qed

lemma later_packets:
  assumes "has_had_frame d seq (ntohl (timestamp h))" "first_byte h = RTP_FIRST_BYTE_BASE"
    and "\<forall>p \<in> set payloads. 2 \<le> length p \<and> length p < 1480" "payloads \<noteq> []"
  shows "\<exists>d'. h264_add_packets grow (framed_packets h seq m payloads) d = Some (Inr d')
     \<and> rd_has_frame d' \<and> rd_frame_data d' = alone (last payloads)"
  using assms
proof (induction payloads arbitrary: d seq)
  case (Cons p rest)
  define h1 where "h1 = set_marker (h\<lparr>sequence_number := htons seq\<rparr>) (rest = [] \<and> m)"
  have packets: "framed_packets h seq m (p # rest)
      = (RTPHeader_bytes h1 @ p) # framed_packets h (seq + 1) m rest"
    by (simp add: h1_def)
  have "has_had_frame d seq (ntohl (timestamp h1))" "first_byte h1 = RTP_FIRST_BYTE_BASE"
    "ntohs (sequence_number h1) = seq"
    using Cons.prems by (simp_all add: h1_def)
  then obtain d1 where one: "h264_add_packet grow (RTPHeader_bytes h1 @ p) d = Some (Inr d1)"
    and d1: "has_had_frame d1 (seq + 1) (ntohl (timestamp h))" "rd_frame_data d1 = alone p"
    using later_packet [of d seq h1 p grow] Cons.prems(3) by (auto simp: h1_def)
  show ?case
  proof (cases "rest = []")
    case True
    then show ?thesis using one d1 unfolding packets by (simp add: has_had_frame_def)
  next
    case False
    then show ?thesis using one d1 Cons.IH [OF d1(1)] Cons.prems unfolding packets by auto
  qed
qed simp

section \<open>Properties\<close>

text \<open>The first frame, sent with both flags through the interface, is cut into packets with the marker on
  the last one. Through the interface the flag that sets the marker is the one for saving the frame.\<close>

lemma first_frame_sent:
  assumes "nals \<noteq> []" "sendable nals"
  shows "\<exists>h p'. h264_packets (interface_add_frame_data (Some (annexb nals)) frame_id eos ts pose_ts True True
        (create_h264_rtp_packetizer random the_ssrc))
      = (framed_packets h random True (frame_payloads nals), Inr (), p')
    \<and> first_byte h = RTP_FIRST_BYTE_BASE \<and> ntohl (timestamp h) = ts"
proof -
  define h where "h = (packet_header (create_h264_rtp_packetizer random the_ssrc))
     \<lparr>timestamp := htonl ts, pose_timestamp_ext := htonl pose_ts, frame_id_ext := htonl frame_id\<rparr>"
  have seq: "hp_sequence_number (create_h264_rtp_packetizer random the_ssrc) = random"
    by (simp add: create_h264_rtp_packetizer_def Let_def)
  have "first_byte h = RTP_FIRST_BYTE_BASE" "ntohl (timestamp h) = ts"
    by (simp_all add: h_def created_header)
  then show ?thesis
    using h264_frames [OF create_packetizer_ok [of random the_ssrc] assms, of frame_id eos ts pose_ts True True]
    unfolding h_def seq interface_add_frame_data_def by blast
qed

text \<open>The pose time stamp and the time of reception that come with the first frame are 0, because they are only
  taken over when the time stamp changes.\<close>

lemma first_frame_received:
  assumes "nals \<noteq> []" "receivable nals" "first_byte h = RTP_FIRST_BYTE_BASE"
    and "unat seq + length (frame_payloads nals) \<le> 65536"
  shows "\<exists>d. h264_add_packets grow (framed_packets h seq True (frame_payloads nals)) create_h264_rtp_depacketizer = Some (Inr d)
    \<and> rtp_receive_frame_data d = Some (annexb (normal_codes nals), ntohl (timestamp h), 0, 0)"
proof -
  obtain d where "h264_add_packets grow (framed_packets h seq True (frame_payloads nals))
      create_h264_rtp_depacketizer = Some (Inr d)" "rd_frame_data d = annexb (normal_codes nals)"
    "rd_has_frame d" "stamps d = (ntohl (timestamp h), 0, 0, 0)"
    using first_frame [OF assms, of grow True] by auto
  then show ?thesis
    by (fastforce simp: rtp_receive_frame_data_def stamps_def)
qed

text \<open>C19: What the packetizer sends for the first frame, when it is handed over through the interface as a frame
  to be saved and in one part, is put together again by a new depacketizer when the packets come in
  order: the client gets the frame byte for byte, with a long start code in front and short ones inside,
  and its sampling time stamp. This is for frames that can be sent, whose units are two bytes long or
  longer and no fragments themselves, and whose sequence numbers do not wrap around.\<close>

theorem h264_first_frame_roundtrip:
  assumes "nals \<noteq> []" "sendable nals" "receivable nals"
    and "unat random + length (frame_payloads nals) \<le> 65536"
  shows "\<exists>pkts p' d. h264_packets (interface_add_frame_data (Some (annexb nals)) frame_id eos ts pose_ts True True
        (create_h264_rtp_packetizer random the_ssrc)) = (pkts, Inr (), p')
    \<and> h264_add_packets grow pkts create_h264_rtp_depacketizer = Some (Inr d)
    \<and> map_option (\<lambda>(frame, t, _). (frame, t)) (rtp_receive_frame_data d) = Some (annexb (normal_codes nals), ts)"
proof -
  obtain h p' where p: "h264_packets (interface_add_frame_data (Some (annexb nals)) frame_id eos ts pose_ts True True
        (create_h264_rtp_packetizer random the_ssrc))
      = (framed_packets h random True (frame_payloads nals), Inr (), p')"
    "first_byte h = RTP_FIRST_BYTE_BASE" "ntohl (timestamp h) = ts"
    using first_frame_sent [OF assms(1,2)] by blast
  from first_frame_received [OF assms(1,3) p(2) assms(4), of grow] show ?thesis
    unfolding p(1,3) by force
qed

theorem h264_first_frame_roundtrip_witness:
  "\<exists>pkts p' d. h264_packets (interface_add_frame_data (Some (annexb [(False, [0x67, 1]), (True, [0x65, 2, 3])]))
        9 False 1000 900 True True (create_h264_rtp_packetizer 65534 7)) = (pkts, Inr (), p')
    \<and> h264_add_packets max pkts create_h264_rtp_depacketizer = Some (Inr d)
    \<and> map_option (\<lambda>(frame, t, _). (frame, t)) (rtp_receive_frame_data d)
        = Some ([0, 0, 0, 1, 0x67, 1, 0, 0, 1, 0x65, 2, 3], 1000)"
proof -
  define nals where "nals = [(False, [0x67, 1 :: u8]), (True, [0x65, 2, 3])]"
  have n: "nals \<noteq> []" "sendable nals" "receivable nals" "length (frame_payloads nals) = 2"
    "annexb (normal_codes nals) = [0, 0, 0, 1, 0x67, 1, 0, 0, 1, 0x65, 2, 3]"
    by (simp_all add: nals_def nal_unit_ok_def receivable_def frame_payloads_def nal_payloads_def NALU_TYPE_def
        FU_A_TYPE_def annexb_def start_code_def)
  have "unat (65534 :: u16) + length (frame_payloads nals) \<le> 65536"
    by (simp add: n(4))
  from h264_first_frame_roundtrip [OF n(1-3) this, of 9 False 1000 900 7 max] show ?thesis
    unfolding n(5) unfolding nals_def .
qed

text \<open>Nothing clears the flag that says there is a frame, so each later packet empties the buffer: once the
  depacketizer has had a frame, whatever frame comes next in order, all that is left of it is the content
  of its last packet (nothing, when that is a later fragment), offered as a frame after every packet.\<close>

theorem later_frames_keep_last_packet:
  assumes "has_had_frame d seq (ntohl (timestamp h))" "first_byte h = RTP_FIRST_BYTE_BASE"
    and "\<forall>p \<in> set payloads. 2 \<le> length p \<and> length p < 1480" "payloads \<noteq> []"
  shows "\<exists>d'. h264_add_packets grow (framed_packets h seq m payloads) d = Some (Inr d')
     \<and> rd_has_frame d' \<and> rd_frame_data d' = alone (last payloads)"
  using assms by (rule later_packets)

theorem later_frames_keep_last_packet_witness:
  "\<exists>d d'. h264_add_packets max (framed_packets default_RTPHeader 5 True [[0x67, 1]]) create_h264_rtp_depacketizer
      = Some (Inr d) \<and> rd_frame_data d = [0, 0, 0, 1, 0x67, 1]
    \<and> h264_add_packets max (framed_packets (default_RTPHeader\<lparr>timestamp := htonl 90\<rparr>) 6 True
        [[0x67, 1], [0x68, 2], [0x65, 3]]) d = Some (Inr d')
    \<and> rd_has_frame d' \<and> rd_frame_data d' = [0, 0, 0, 1, 0x65, 3]"
proof -
  have first: "first_byte (default_RTPHeader\<lparr>timestamp := t\<rparr>) = RTP_FIRST_BYTE_BASE"
    "first_byte default_RTPHeader = RTP_FIRST_BYTE_BASE" "timestamp default_RTPHeader = 0" for t
    by (simp_all add: default_RTPHeader_def)
  have pay: "frame_payloads [(True, [0x67, 1])] = [[0x67, 1]]"
    by (simp add: frame_payloads_def nal_payloads_def)
  have "\<exists>d. h264_add_packets max (framed_packets default_RTPHeader 5 True [[0x67, 1]]) create_h264_rtp_depacketizer
      = Some (Inr d) \<and> rd_frame_data d = [0, 0, 0, 1, 0x67, 1] \<and> rd_has_frame d = True
      \<and> stamps d = (ntohl 0, 0, 0, 0) \<and> in_order d 6 ([0, 0, 0, 1, 0x67, 1], False)"
    using first_frame [of "[(True, [0x67, 1])]" default_RTPHeader 5 max True] unfolding pay first
    by (simp add: receivable_def NALU_TYPE_def FU_A_TYPE_def annexb_def start_code_def)
  then obtain d where d: "h264_add_packets max (framed_packets default_RTPHeader 5 True [[0x67, 1]])
      create_h264_rtp_depacketizer = Some (Inr d)" "rd_frame_data d = [0, 0, 0, 1, 0x67, 1]" "rd_has_frame d"
    "stamps d = (ntohl 0, 0, 0, 0)" "in_order d 6 ([0, 0, 0, 1, 0x67, 1], False)"
    by blast
  have "rd_current_rtp_timestamp d = 0"
    using d(4) by (simp add: stamps_def ntohl_def htonl_def)
  then have "has_had_frame d 6 (ntohl (timestamp (default_RTPHeader\<lparr>timestamp := htonl 90\<rparr>)))"
    using d(3,5) by (simp add: has_had_frame_def in_order_def reassembling_def compare_timestamps_iff)
  from later_frames_keep_last_packet [OF this first(1), of "[[0x67, 1], [0x68, 2], [0x65, 3]]" max True] d(1,2)
  show ?thesis
    by (auto simp: alone_def is_fragment_def NALU_TYPE_def FU_A_TYPE_def join_def code_after_def start_code_def)
qed

text \<open>The predecessor of sequence number 0 is computed as \<open>-1\<close>, so the fragment that comes with the number 0
  counts as following a loss and is not copied.\<close>

theorem fragment_lost_at_wrap:
  assumes "in_fragmented_unit d" "rd_last_processed_seq_id d = 65535" "\<not> starts_unit payload"
    and "process_fragment grow 0 payload d = Inr d'"
  shows "length (rd_frame_data d') = length (rd_frame_data d)"
  using assms by (auto simp: process_fragment_def starts_unit_def mark_damaged_def Let_def
      split: fu_pointer.splits if_splits)

text \<open>The pointer to the header of a fragmented unit is taken before the first fragment is copied. With a
  vector that doubles, the copy moves the bytes of a new frame, and marking the unit as damaged later
  writes through a stale pointer.\<close>

theorem fu_pointer_goes_stale:
  assumes "5 < length payload"
  defines "d \<equiv> start_new_fu (\<lambda>c n. max n (2 * c)) payload create_h264_rtp_depacketizer"
  shows "rd_fu_header d = FuStale" "mark_damaged d = Inl (UndefinedBehaviour ''write through a stale pointer'')"
proof -
  show *: "rd_fu_header d = FuStale"
    using assms(1) by (simp add: d_def start_new_fu_def Let_def add_start_code_def append_bytes_def create_defs)
  show "mark_damaged d = Inl (UndefinedBehaviour ''write through a stale pointer'')"
    by (simp add: mark_damaged_def *)
qed

text \<open>A unit of one byte (end of sequence, end of stream) makes a packet that is too short to be accepted;
  its sequence number stays the desired one, and the packets after it wait.\<close>

theorem one_byte_unit_ignored: "h264_add_packet grow (RTPHeader_bytes h @ [x]) d = Some (Inr d)"
  by (simp add: h264_add_packet_def rtp_add_packet_def)

end
