(* ===== verification/H264Reordering.thy ===== *)
theory H264Reordering
  imports H264Transfer
begin

text \<open>
  Packets out of order: the jitter buffer repairs an exchange inside a frame, and the depacketizer does
  not return from one across frames.
\<close>

section \<open>An early packet\<close>

lemma head_after: "no_packet_waits d \<Longrightarrow> (rd_packet_view_head d + 1) mod 128 \<noteq> rd_packet_view_head d
    \<and> (rd_packet_view_head d + 1) mod 128 < length (rd_packet_views d)"
  by (cases "rd_packet_view_head d = 127") (auto simp: no_packet_waits_def WVB_EARLY_FRAME_TOLERANCE_def)

text \<open>The packet after the desired one waits in the first slot.\<close>

definition with_early :: "bytes \<Rightarrow> H264RtpDepacketizer \<Rightarrow> H264RtpDepacketizer" where
  "with_early pkt d = d\<lparr>rd_packet_views := (rd_packet_views d)[(rd_packet_view_head d + 1) mod 128 :=
        \<lparr>pv_index = 0, pv_size = length pkt\<rparr>],
     rd_jitter_count := 1,
     rd_jitter_buffer := \<lparr>pk_valid = True, pk_data = write_at 0 pkt (replicate WVB_RTP_MTU 0)\<rparr>
        # replicate 4 free_packet\<rparr>"

lemma store_first:
  assumes "rd_jitter_count d = 0" "rd_jitter_buffer d = []"
  shows "store_early_packet pkt 1 d = with_early pkt d"
proof -
  have five: "replicate 5 x = x # replicate 4 x" for x :: RtpPacket
    by (simp add: numeral_eq_Suc)
  show ?thesis
    using assms by (simp add: store_early_packet_def alloc_jitter_slot_def with_early_def Let_def five
        WVB_EARLY_FRAME_TOLERANCE_def)
qed

lemma add_early:
  assumes d: "in_order d seq s" "\<not> rd_has_frame d" "slots d = (0, [])"
    and pkt: "22 \<le> length pkt" "length pkt < 1500" "first_byte (RTPHeader_of pkt) = RTP_FIRST_BYTE_BASE"
      "ntohs (sequence_number (RTPHeader_of pkt)) = seq + 1" "unat seq < 65535"
      "\<not> compare_rtp_timestamps (ntohl (timestamp (RTPHeader_of pkt))) (rd_current_rtp_timestamp d)"
  shows "h264_add_packet grow pkt d = Some (Inr (with_early pkt d))"
proof -
  have "unat (seq + 1) = unat seq + 1" using pkt(5) by (simp add: unat_word_ariths)
  then have "\<not> compare_rtp_seq (seq + 1) seq" by (simp add: compare_seq_iff)
  moreover have "rtp_seq_distance seq (seq + 1) = 1" by (simp add: seq_distance_sub)
  moreover have "rd_jitter_count d = 0" "rd_jitter_buffer d = []" "rd_desired_seq_id d = seq" "\<not> rd_first_packet d"
    using d by (simp_all add: slots_def in_order_def reassembling_def)
  ultimately show ?thesis
    using d(2) pkt by (simp add: h264_add_packet_def rtp_add_packet_def WVB_RTP_MTU_def accept_packet_def Let_def
        catch_up_near store_first)
qed

text \<open>The desired packet comes while the next one waits.\<close>

lemma early_processed:
  assumes d: "in_order d seq s" "\<not> rd_has_frame d" and fit: "fits payload (snd s)"
    and h: "ntohs (sequence_number h) = seq" "ntohl (timestamp h) = rd_current_rtp_timestamp d"
    and seq: "snd s \<Longrightarrow> seq \<noteq> 0" and i: "i = (rd_packet_view_head d + 1) mod 128"
  shows "\<exists>q. h264_process_packet grow (RTPHeader_bytes h @ payload) (with_early pkt d) = Inr q
     \<and> reassembling q (seq + 1) (join payload s) \<and> rd_has_frame q = is_marker h \<and> stamps q = stamps d
     \<and> rd_packet_views q = (rd_packet_views d)[i := \<lparr>pv_index = 0, pv_size = length pkt\<rparr>]
     \<and> rd_packet_view_head q = i \<and> rd_jitter_count q = 1
     \<and> rd_jitter_buffer q = \<lparr>pk_valid = True, pk_data = write_at 0 pkt (replicate WVB_RTP_MTU 0)\<rparr>
        # replicate 4 free_packet"
proof -
  define e where "e = with_early pkt d"
  have i': "i \<noteq> rd_packet_view_head d" "i < length (rd_packet_views d)"
    using head_after [of d] d(1) by (simp_all add: i in_order_def)
  have idle: "\<not> view_is_valid (head_view d)"
    using d(1) views_invalid [of d "rd_packet_view_head d"]
    by (simp add: in_order_def no_packet_waits_def WVB_EARLY_FRAME_TOLERANCE_def)
  have e: "reassembling e seq s" "\<not> rd_has_frame e" "stamps e = stamps d"
    using d by (simp_all add: e_def with_early_def in_order_def reassembling_def in_fragmented_unit_def stamps_def)
  then obtain q where q: "process_body grow seq payload e = Inr q" "\<not> rd_first_packet q" "rd_desired_seq_id q = seq"
    "rd_frame_data q = fst (join payload s)" "in_fragmented_unit q = snd (join payload s)"
    "\<not> rd_should_drop_fragmented_unit q" "\<not> rd_has_frame q" "stamps q = stamps d" "jitter q = jitter e"
    using body_in_order [of e seq s payload grow] fit seq by auto
  have views: "rd_packet_views q = (rd_packet_views d)[i := \<lparr>pv_index = 0, pv_size = length pkt\<rparr>]"
    "rd_packet_view_head q = rd_packet_view_head d" "rd_jitter_count q = 1"
    "rd_jitter_buffer q = \<lparr>pk_valid = True, pk_data = write_at 0 pkt (replicate WVB_RTP_MTU 0)\<rparr>
        # replicate 4 free_packet"
    using q(9) by (simp_all add: jitter_def e_def with_early_def i)
  define q1 where "q1 = q\<lparr>rd_last_processed_seq_id := seq, rd_desired_seq_id := seq + 1,
     rd_packet_view_head := i\<rparr>"
  define q2 where "q2 = (if is_marker h then h264_finish_frame q1 else q1)"
  have "free_head_view (q\<lparr>rd_last_processed_seq_id := seq, rd_desired_seq_id := seq + 1\<rparr>)
      = q\<lparr>rd_last_processed_seq_id := seq, rd_desired_seq_id := seq + 1\<rparr>"
    using idle i' by (simp add: free_head_view_def views)
  then have fin: "finish_packet h264_finish_frame seq (is_marker h) q = q2"
    using q(3) by (simp add: finish_packet_def Let_def q1_def q2_def views i WVB_EARLY_FRAME_TOLERANCE_def)
  have "h264_process_packet grow (RTPHeader_bytes h @ payload) e = Inr q2"
    using h q(1) fin e(3) by (simp add: h264_process_packet_def Let_def process_payload_body stamps_def)
  moreover have "reassembling q2 (seq + 1) (join payload s)" "rd_has_frame q2 = is_marker h" "stamps q2 = stamps d"
    using q by (cases "is_marker h"; simp add: q2_def q1_def reassembling_def unit_stamps)+
  moreover have "rd_packet_views q2 = rd_packet_views q" "rd_packet_view_head q2 = i"
    "rd_jitter_count q2 = rd_jitter_count q" "rd_jitter_buffer q2 = rd_jitter_buffer q"
    by (cases "is_marker h"; simp add: q2_def q1_def h264_finish_frame_def)+
  ultimately show ?thesis unfolding e_def views by blast
qed

lemma early_then_last:
  assumes d: "in_order d seq s" "\<not> rd_has_frame d" and fit: "fits payload (snd s)"
    and h: "first_byte h = RTP_FIRST_BYTE_BASE" "ntohs (sequence_number h) = seq"
      "ntohl (timestamp h) = rd_current_rtp_timestamp d" and seq: "snd s \<Longrightarrow> seq \<noteq> 0"
    and closed: "\<not> snd (join payload s)" "fst (join payload s) \<noteq> []"
    and pkt: "0 < length pkt" "length pkt < 1500"
      "ntohl (timestamp (RTPHeader_of pkt)) \<noteq> rd_current_rtp_timestamp d"
  shows "h264_add_packet grow (RTPHeader_bytes h @ payload) (with_early pkt d) = None"
proof -
  define e where "e = with_early pkt d"
  define i where "i = (rd_packet_view_head d + 1) mod 128"
  obtain q where q: "h264_process_packet grow (RTPHeader_bytes h @ payload) e = Inr q"
    "reassembling q (seq + 1) (join payload s)" "stamps q = stamps d"
    "rd_packet_views q = (rd_packet_views d)[i := \<lparr>pv_index = 0, pv_size = length pkt\<rparr>]"
    "rd_packet_view_head q = i"
    "rd_jitter_buffer q = \<lparr>pk_valid = True, pk_data = write_at 0 pkt (replicate WVB_RTP_MTU 0)\<rparr>
        # replicate 4 free_packet"
    using early_processed [OF d fit h(2,3) seq i_def] unfolding e_def by blast
  have "i < length (rd_packet_views d)"
    using head_after [of d] d(1) by (simp add: i_def in_order_def)
  then have "head_waits q" "h264_refuses (head_packet q) q"
    using pkt closed q by (simp_all add: head_waits_def head_packet_def h264_refuses_def view_is_valid_def
        reassembling_def stamps_def)
  moreover have "rd_desired_seq_id e = seq" "\<not> rd_first_packet e" "\<not> rd_has_frame e"
    "rd_current_rtp_timestamp e = rd_current_rtp_timestamp d"
    using d by (simp_all add: e_def with_early_def in_order_def reassembling_def)
  ultimately show ?thesis
    using fit h q(1) h264.refused_head_diverges [of q grow] unfolding e_def [symmetric]
    by (simp add: h264_add_packet_def rtp_add_packet_def fits_def WVB_RTP_MTU_def accept_packet_def
        Let_def catch_up_near)
qed

lemma waits_after:
  "no_packet_waits d \<Longrightarrow> \<not> view_is_valid v \<Longrightarrow> rd_packet_views d' = (rd_packet_views d)[i := v]
     \<Longrightarrow> rd_packet_view_head d' < 128 \<Longrightarrow> no_packet_waits d'"
  using set_update_subset_insert [of "rd_packet_views d" i v]
  by (auto simp: no_packet_waits_def WVB_EARLY_FRAME_TOLERANCE_def)

lemma waiting_processed:
  assumes q: "reassembling q seq s" "\<not> rd_has_frame q" and fit: "fits payload (snd s)"
    and h: "ntohs (sequence_number h) = seq" "ntohl (timestamp h) = rd_current_rtp_timestamp q"
    and seq: "snd s \<Longrightarrow> seq \<noteq> 0"
    and d: "no_packet_waits d" "i < 128"
    and views: "rd_packet_views q = (rd_packet_views d)[i := \<lparr>pv_index = 0, pv_size = length pkt\<rparr>]"
      "rd_packet_view_head q = i" "rd_jitter_buffer q = \<lparr>pk_valid = True, pk_data = pkt @ r\<rparr> # ps"
    and pkt: "pkt = RTPHeader_bytes h @ payload"
  shows "\<exists>d'. process_ready (h264_process_packet grow) i q = Some (Inr d')
     \<and> in_order d' (seq + 1) (join payload s) \<and> rd_has_frame d' = is_marker h \<and> stamps d' = stamps q"
proof -
  have len: "length (rd_packet_views d) = 128"
    using d(1) by (simp add: no_packet_waits_def WVB_EARLY_FRAME_TOLERANCE_def)
  have valid: "view_is_valid (rd_packet_views q ! i)" "rd_packet_views q ! i = \<lparr>pv_index = 0, pv_size = length pkt\<rparr>"
    using d(2) len by (simp_all add: views view_is_valid_def pkt)
  obtain b where b: "process_body grow seq payload q = Inr b" "\<not> rd_first_packet b" "rd_desired_seq_id b = seq"
    "rd_frame_data b = fst (join payload s)" "in_fragmented_unit b = snd (join payload s)"
    "\<not> rd_should_drop_fragmented_unit b" "\<not> rd_has_frame b" "stamps b = stamps q" "jitter b = jitter q"
    using body_in_order [OF q(1) fit seq] q(2) by auto
  have bv: "rd_packet_views b = (rd_packet_views d)[i := \<lparr>pv_index = 0, pv_size = length pkt\<rparr>]"
    "rd_packet_view_head b = i" "rd_jitter_buffer b = \<lparr>pk_valid = True, pk_data = pkt @ r\<rparr> # ps"
    "rd_jitter_count b = rd_jitter_count q"
    using b(9) views by (simp_all add: jitter_def)
  define b1 where "b1 = b\<lparr>rd_last_processed_seq_id := seq, rd_desired_seq_id := seq + 1,
     rd_jitter_count := rd_jitter_count q - 1,
     rd_jitter_buffer := \<lparr>pk_valid = False, pk_data = pkt @ r\<rparr> # ps,
     rd_packet_views := (rd_packet_views d)[i := no_view], rd_packet_view_head := (i + 1) mod 128\<rparr>"
  define b2 where "b2 = (if is_marker h then h264_finish_frame b1 else b1)"
  have fin: "finish_packet h264_finish_frame seq (is_marker h) b = b2"
    using valid(1) d(2) len b(3) by (simp add: finish_packet_def Let_def free_head_view_def bv b1_def b2_def
        view_is_valid_def pkt WVB_EARLY_FRAME_TOLERANCE_def)
  have one: "h264_process_packet grow pkt q = Inr b2"
    using b(1) h fin unfolding pkt by (simp add: h264_process_packet_def Let_def process_payload_body)
  define v where "v = rd_packet_views d ! ((i + 1) mod 128)"
  have v: "\<not> view_is_valid v" using views_invalid [OF d(1)] by (simp add: v_def)
  have nxt: "(i + 1) mod 128 \<noteq> i" using d(2) by (cases "i = 127") auto
  have head: "rd_packet_views b2 = (rd_packet_views d)[i := no_view]" "rd_packet_view_head b2 = (i + 1) mod 128"
    by (simp_all add: b2_def b1_def h264_finish_frame_def)
  have hv: "head_view b2 = v" using nxt by (simp add: head v_def)
  define d' where "d' = b2\<lparr>rd_packet_views := (rd_packet_views b2)[i := head_view b2]\<rparr>"
  have dv: "d' = b2\<lparr>rd_packet_views := (rd_packet_views d)[i := v]\<rparr>"
    unfolding d'_def hv by (simp add: head)
  have "process_ready (h264_process_packet grow) i q = process_ready (h264_process_packet grow) i d'"
    using valid(2) one by (subst process_ready.simps) (simp add: view_is_valid_def pkt views(3) d'_def [symmetric])
  also have "\<dots> = Some (Inr d')"
    using v d(2) len by (intro ready_none) (simp add: dv)
  finally have run: "process_ready (h264_process_packet grow) i q = Some (Inr d')" .
  have "no_packet_waits d'"
    by (rule waits_after [OF d(1) v]) (simp_all add: dv head)
  moreover have "reassembling b1 (seq + 1) (join payload s)" "\<not> rd_has_frame b1" "stamps b1 = stamps b"
    using b by (simp_all add: b1_def reassembling_def in_fragmented_unit_def stamps_def)
  then have "reassembling d' (seq + 1) (join payload s) \<and> rd_has_frame d' = is_marker h \<and> stamps d' = stamps q"
    using b(8) by (cases "is_marker h")
      (simp_all add: dv b2_def h264_finish_frame_def reassembling_def in_fragmented_unit_def stamps_def)
  ultimately show ?thesis using run by (auto simp: in_order_def)
qed

lemma framed_append:
  "ys \<noteq> [] \<Longrightarrow> framed_packets h seq m (xs @ ys)
     = framed_packets h seq False xs @ framed_packets h (seq + of_nat (length xs)) m ys"
  by (induction xs arbitrary: seq) (auto simp: algebra_simps)

lemma add_packets_append:
  "h264_add_packets grow (xs @ ys) d = (case h264_add_packets grow xs d of
     None \<Rightarrow> None | Some (Inl f) \<Rightarrow> Some (Inl f) | Some (Inr d') \<Rightarrow> h264_add_packets grow ys d')"
  by (induction xs arbitrary: d) (auto split: option.splits sum.splits)

lemma swapped_hangs:
  assumes all: "all_fit (xs @ [y]) ([], False)" "xs \<noteq> []" "fold join (xs @ [y]) ([], False) = (fd, False)" "fd \<noteq> []"
    and h: "first_byte h = RTP_FIRST_BYTE_BASE" "unat seq + length (xs @ [y]) < 65536"
    and pkt: "22 \<le> length pkt" "length pkt < 1500" "first_byte (RTPHeader_of pkt) = RTP_FIRST_BYTE_BASE"
      "ntohs (sequence_number (RTPHeader_of pkt)) = seq + of_nat (length (xs @ [y]))"
      "timestamp (RTPHeader_of pkt) \<noteq> timestamp h"
      "\<not> compare_rtp_timestamps (ntohl (timestamp (RTPHeader_of pkt))) (ntohl (timestamp h))"
  shows "h264_add_packets grow (framed_packets h seq False xs @ [pkt]
     @ framed_packets h (seq + of_nat (length xs)) m [y]) create_h264_rtp_depacketizer = None"
proof -
  define ts where "ts = ntohl (timestamp h)"
  define seq1 where "seq1 = seq + of_nat (length xs)"
  define s1 where "s1 = fold join xs ([], False)"
  have fits: "all_fit xs ([], False)" "fits y (snd s1)" "join y s1 = (fd, False)"
    using all(1,3) by (simp_all add: all_fit_append s1_def)
  have "\<exists>d'. h264_add_packets grow (framed_packets h seq False xs) (expecting seq ts) = Some (Inr d')
     \<and> in_order d' (seq + of_nat (length xs)) (fold join xs ([], False))
     \<and> rd_has_frame d' = False \<and> stamps d' = stamps (expecting seq ts) \<and> slots d' = slots (expecting seq ts)"
    by (rule add_all) (use expecting_in_order fits(1) all(2) h in \<open>auto simp: ts_def\<close>)
  then obtain d where d: "h264_add_packets grow (framed_packets h seq False xs) create_h264_rtp_depacketizer = Some (Inr d)"
    "in_order d seq1 s1" "\<not> rd_has_frame d" "slots d = (0, [])" "rd_current_rtp_timestamp d = ts"
    using first_frame_packets [OF all(2) fits(1) h(1), of grow seq False]
    unfolding ts_def [symmetric] seq1_def s1_def by (auto simp: expecting_in_order stamps_def)
  have "unat seq1 = unat seq + length xs"
    using h(2) by (simp add: seq1_def unat_word_ariths unsigned_of_nat take_bit_nat_eq_self)
  then have seq1: "unat seq1 < 65535" "seq1 \<noteq> 0" using h(2) all(2) by auto
  have early: "h264_add_packet grow pkt d = Some (Inr (with_early pkt d))"
    by (rule add_early [OF d(2,3,4)]) (use pkt d(5) seq1 in \<open>simp_all add: ts_def seq1_def\<close>)
  define h1 where "h1 = set_marker (h\<lparr>sequence_number := htons seq1\<rparr>) m"
  have h1: "first_byte h1 = RTP_FIRST_BYTE_BASE" "ntohs (sequence_number h1) = seq1" "ntohl (timestamp h1) = ts"
    using h(1) by (simp_all add: h1_def ts_def)
  have "ntohl (timestamp (RTPHeader_of pkt)) \<noteq> ts"
  proof
    assume "ntohl (timestamp (RTPHeader_of pkt)) = ts"
    then have "htonl (ntohl (timestamp (RTPHeader_of pkt))) = htonl (ntohl (timestamp h))"
      by (simp only: ts_def)
    with pkt(5) show False by simp
  qed
  then have "h264_add_packet grow (RTPHeader_bytes h1 @ y) (with_early pkt d) = None"
    by (intro early_then_last [OF d(2,3) fits(2)]) (use fits pkt h1 seq1 all(4) d(5) in auto)
  with d(1) early show ?thesis
    by (simp add: add_packets_append h1_def seq1_def [symmetric])
qed

lemma framed_length: "length (framed_packets h seq m xs) = length xs"
  by (induction xs arbitrary: seq) auto

text \<open>Two packets of the frame exchanged.\<close>

lemma add_swapped:
  fixes m
  assumes d: "in_order d seq s" "\<not> rd_has_frame d" "slots d = (0, [])"
    and fit: "fits y (snd s)" "fits z (snd (join y s))"
    and h: "first_byte h = RTP_FIRST_BYTE_BASE" "ntohl (timestamp h) = rd_current_rtp_timestamp d"
    and seq: "unat seq < 65535" "seq \<noteq> 0"
  defines "Y \<equiv> RTPHeader_bytes (set_marker (h\<lparr>sequence_number := htons seq\<rparr>) False) @ y"
    and "Z \<equiv> RTPHeader_bytes (set_marker (h\<lparr>sequence_number := htons (seq + 1)\<rparr>) m) @ z"
  shows "\<exists>d'. h264_add_packets grow [Z, Y] d = Some (Inr d') \<and> in_order d' (seq + 2) (join z (join y s))
     \<and> rd_has_frame d' = m \<and> stamps d' = stamps d"
proof -
  define i where "i = (rd_packet_view_head d + 1) mod 128"
  define hy where "hy = set_marker (h\<lparr>sequence_number := htons seq\<rparr>) False"
  define hz where "hz = set_marker (h\<lparr>sequence_number := htons (seq + 1)\<rparr>) m"
  note ZY = Y_def [folded hy_def] Z_def [folded hz_def]
  have len: "2 \<le> length z" "length z < 1480" using fit(2) by (simp_all add: fits_def WVB_RTP_MTU_def)
  have hs: "ntohs (sequence_number hy) = seq" "ntohl (timestamp hy) = rd_current_rtp_timestamp d"
    "ntohs (sequence_number hz) = seq + 1" "ntohl (timestamp hz) = rd_current_rtp_timestamp d"
    "first_byte hy = RTP_FIRST_BYTE_BASE" "first_byte hz = RTP_FIRST_BYTE_BASE"
    "\<not> is_marker hy" "is_marker hz = m"
    using h by (simp_all add: hy_def hz_def)
  have early: "h264_add_packet grow Z d = Some (Inr (with_early Z d))"
    by (rule add_early [OF d]) (use hs seq len in \<open>simp_all add: ZY\<close>)
  obtain q where q: "h264_process_packet grow Y (with_early Z d) = Inr q"
    "reassembling q (seq + 1) (join y s)" "rd_has_frame q = is_marker hy" "stamps q = stamps d"
    "rd_packet_views q = (rd_packet_views d)[i := \<lparr>pv_index = 0, pv_size = length Z\<rparr>]"
    "rd_packet_view_head q = i"
    "rd_jitter_buffer q = \<lparr>pk_valid = True, pk_data = write_at 0 Z (replicate WVB_RTP_MTU 0)\<rparr>
        # replicate 4 free_packet"
    using early_processed [OF d(1,2) fit(1) hs(1,2) seq(2) i_def] unfolding ZY by blast
  have seq1: "seq + 1 \<noteq> 0" using next_seq [of seq 1] seq(1) by simp
  have idle: "no_packet_waits d" using d(1) by (simp add: in_order_def)
  have buf: "rd_jitter_buffer q = \<lparr>pk_valid = True, pk_data = Z @ drop (length Z) (replicate WVB_RTP_MTU 0)\<rparr>
      # replicate 4 free_packet"
    using q(7) by simp
  have tsz: "ntohl (timestamp hz) = rd_current_rtp_timestamp q" "\<not> rd_has_frame q" "i < 128"
    using q(3,4) hs(4,7) by (simp_all add: stamps_def i_def)
  obtain d' where d': "process_ready (h264_process_packet grow) i q = Some (Inr d')"
    "in_order d' (seq + 1 + 1) (join z (join y s))" "rd_has_frame d' = is_marker hz" "stamps d' = stamps q"
    using waiting_processed [OF q(2) tsz(2) fit(2) hs(3) tsz(1) seq1 idle tsz(3) q(5,6) buf meta_eq_to_obj_eq [OF ZY(2)]] by blast
  define e where "e = with_early Z d"
  have e: "rd_desired_seq_id e = seq" "\<not> rd_first_packet e" "\<not> rd_has_frame e"
    "rd_current_rtp_timestamp e = rd_current_rtp_timestamp d"
    using d by (simp_all add: e_def with_early_def in_order_def reassembling_def)
  have "h264_add_packet grow Y e = Some (Inr d')"
    using fit(1) hs e q(1,6) d'(1) unfolding e_def [symmetric] ZY(1)
    by (simp add: h264_add_packet_def rtp_add_packet_def fits_def WVB_RTP_MTU_def accept_packet_def
        Let_def catch_up_near)
  then show ?thesis
    using early d' hs(8) q(4) by (simp add: e_def [symmetric] algebra_simps)
qed

lemma swap_repaired:
  assumes all: "all_fit (xs @ [y, z] @ ws) ([], False)" "xs \<noteq> []"
    and h: "first_byte h = RTP_FIRST_BYTE_BASE" "unat seq + length (xs @ [y, z] @ ws) \<le> 65536"
  shows "\<exists>Y Z W d. framed_packets h seq m (xs @ [y, z] @ ws) = framed_packets h seq False xs @ [Y, Z] @ W
     \<and> h264_add_packets grow (framed_packets h seq False xs @ [Z, Y] @ W) create_h264_rtp_depacketizer = Some (Inr d)
     \<and> rd_frame_data d = fst (fold join (xs @ [y, z] @ ws) ([], False)) \<and> rd_has_frame d = m
     \<and> stamps d = (ntohl (timestamp h), 0, 0, 0)"
proof -
  define ts where "ts = ntohl (timestamp h)"
  define seq1 where "seq1 = seq + of_nat (length xs)"
  define s1 where "s1 = fold join xs ([], False)"
  define Y where "Y = RTPHeader_bytes (set_marker (h\<lparr>sequence_number := htons seq1\<rparr>) False) @ y"
  define Z where "Z = RTPHeader_bytes (set_marker (h\<lparr>sequence_number := htons (seq1 + 1)\<rparr>) (ws = [] \<and> m)) @ z"
  define W where "W = framed_packets h (seq1 + 2) m ws"
  have packets: "framed_packets h seq m (xs @ [y, z] @ ws) = framed_packets h seq False xs @ [Y, Z] @ W"
    using framed_append [of "[y, z] @ ws" h seq m xs] by (simp add: Y_def Z_def W_def seq1_def algebra_simps)
  have fits: "all_fit xs ([], False)" "fits y (snd s1)" "fits z (snd (join y s1))" "all_fit ws (join z (join y s1))"
    using all(1) by (simp_all add: all_fit_append s1_def)
  have "\<exists>d'. h264_add_packets grow (framed_packets h seq False xs) (expecting seq ts) = Some (Inr d')
     \<and> in_order d' (seq + of_nat (length xs)) (fold join xs ([], False))
     \<and> rd_has_frame d' = False \<and> stamps d' = stamps (expecting seq ts) \<and> slots d' = slots (expecting seq ts)"
    by (rule add_all) (use expecting_in_order fits(1) all(2) h in \<open>auto simp: ts_def\<close>)
  then obtain d where d: "h264_add_packets grow (framed_packets h seq False xs) create_h264_rtp_depacketizer = Some (Inr d)"
    "in_order d seq1 s1" "\<not> rd_has_frame d" "slots d = (0, [])" "stamps d = (ts, 0, 0, 0)"
    using first_frame_packets [OF all(2) fits(1) h(1), of grow seq False]
    unfolding ts_def [symmetric] seq1_def s1_def by (auto simp: expecting_in_order)
  then have now: "rd_current_rtp_timestamp d = ts" by (simp add: stamps_def)
  have u: "unat seq1 = unat seq + length xs"
    using h(2) by (simp add: seq1_def unat_word_ariths unsigned_of_nat take_bit_nat_eq_self)
  then have seq1: "unat seq1 < 65535" "seq1 \<noteq> 0" using h(2) all(2) by auto
  have "ntohl (timestamp h) = rd_current_rtp_timestamp d" by (simp add: now ts_def)
  from add_swapped [OF d(2,3,4) fits(2,3) h(1) this seq1, of grow "ws = [] \<and> m"]
  obtain d2 where d2: "h264_add_packets grow [Z, Y] d = Some (Inr d2)"
    "in_order d2 (seq1 + 2) (join z (join y s1))" "rd_has_frame d2 = (ws = [] \<and> m)" "stamps d2 = stamps d"
    unfolding Y_def [symmetric] Z_def [symmetric] by blast
  have "\<exists>d3. h264_add_packets grow W d2 = Some (Inr d3)
     \<and> rd_frame_data d3 = fst (fold join ws (join z (join y s1))) \<and> rd_has_frame d3 = m \<and> stamps d3 = stamps d"
  proof (cases "ws = []")
    case True
    then show ?thesis using d2 by (simp add: W_def in_order_def reassembling_def)
  next
    case False
    then have "unat seq1 + 2 < 65536" using u h(2) by (cases ws) auto
    then have "unat (seq1 + 2) = unat seq1 + 2" by (simp add: unat_word_ariths)
    moreover from this have "seq1 + 2 \<noteq> 0" by auto
    ultimately have "\<exists>d'. h264_add_packets grow (framed_packets h (seq1 + 2) m ws) d2 = Some (Inr d')
       \<and> in_order d' (seq1 + 2 + of_nat (length ws)) (fold join ws (join z (join y s1)))
       \<and> rd_has_frame d' = m \<and> stamps d' = stamps d2 \<and> slots d' = slots d2"
      by (intro add_all) (use d2 d(5) fits(4) False h u in \<open>auto simp: ts_def stamps_def\<close>)
    then show ?thesis using d2(4) by (auto simp: W_def in_order_def reassembling_def)
  qed
  then obtain d3 where d3: "h264_add_packets grow W d2 = Some (Inr d3)"
    "rd_frame_data d3 = fst (fold join ws (join z (join y s1)))" "rd_has_frame d3 = m" "stamps d3 = stamps d"
    by blast
  have "h264_add_packets grow (framed_packets h seq False xs @ [Z, Y] @ W) create_h264_rtp_depacketizer = Some (Inr d3)"
    unfolding add_packets_append d(1) using d2(1) d3(1) by (simp add: add_packets_append [of grow "[Z, Y]" W d, simplified])
  with packets d3 d(5) show ?thesis
    by (intro exI [of _ Y] exI [of _ Z] exI [of _ W] exI [of _ d3]) (simp add: s1_def ts_def)
qed

section \<open>Properties\<close>

lemma framed_swap_repaired:
  assumes "nals \<noteq> []" "receivable nals" "first_byte h = RTP_FIRST_BYTE_BASE"
    and "unat seq + length (frame_payloads nals) \<le> 65536"
    and "0 < k" "k + 1 < length (frame_payloads nals)"
    and "pkts = framed_packets h seq True (frame_payloads nals)"
  shows "\<exists>d. h264_add_packets grow (take k pkts @ [pkts ! (k + 1), pkts ! k] @ drop (k + 2) pkts)
        create_h264_rtp_depacketizer = Some (Inr d)
     \<and> rtp_receive_frame_data d = Some (annexb (normal_codes nals), ntohl (timestamp h), 0, 0)"
proof -
  note j = join_frame [OF assms(2,1)]
  define ps where "ps = frame_payloads nals"
  define xs y z ws where "xs = take k ps" and "y = ps ! k" and "z = ps ! (k + 1)" and "ws = drop (k + 2) ps"
  have ps: "ps = xs @ [y, z] @ ws"
    using assms(6) unfolding ps_def [symmetric] xs_def y_def z_def ws_def
    by (simp add: Cons_nth_drop_Suc)
  have ne: "xs \<noteq> []" using assms(1,5) by (auto simp: xs_def ps_def)
  have "all_fit (xs @ [y, z] @ ws) ([], False)" "unat seq + length (xs @ [y, z] @ ws) \<le> 65536"
    using j assms(4) unfolding ps [symmetric] ps_def by simp_all
  from swap_repaired [OF this(1) ne assms(3) this(2), of True grow] obtain Y Z W d
    where p: "pkts = framed_packets h seq False xs @ [Y, Z] @ W"
      and d: "h264_add_packets grow (framed_packets h seq False xs @ [Z, Y] @ W) create_h264_rtp_depacketizer = Some (Inr d)"
      "rd_frame_data d = annexb (normal_codes nals)" "rd_has_frame d" "stamps d = (ntohl (timestamp h), 0, 0, 0)"
    using j unfolding ps [symmetric] ps_def assms(7) by auto
  have "length (framed_packets h seq False xs) = k"
    using assms(6) by (simp add: framed_length xs_def ps_def)
  then have "take k pkts @ [pkts ! (k + 1), pkts ! k] @ drop (k + 2) pkts
      = framed_packets h seq False xs @ [Z, Y] @ W"
    unfolding p by (simp add: nth_append)
  with d show ?thesis by (simp add: rtp_receive_frame_data_def stamps_def)
qed

text \<open>C20: Two neighbouring packets of the first frame that arrive in the wrong order, both after its first
  packet, do no harm: the early one waits in the jitter buffer, and the client gets the same frame. The
  frame is sent through the interface under the conditions of \<open>h264_first_frame_roundtrip\<close>: it is to be
  saved and in one part, it can be sent, its units are two bytes long or longer, and the sequence numbers
  do not wrap around. The first two packets are left out: the one that arrives first counts as the start.\<close>

theorem swap_within_frame_repaired:
  assumes "nals \<noteq> []" "sendable nals" "receivable nals"
    and "unat random + length (frame_payloads nals) \<le> 65536"
    and "0 < k" "k + 1 < length (frame_payloads nals)"
  shows "\<exists>pkts p' d. h264_packets (interface_add_frame_data (Some (annexb nals)) frame_id eos ts pose_ts True True
        (create_h264_rtp_packetizer random the_ssrc)) = (pkts, Inr (), p')
     \<and> h264_add_packets grow (take k pkts @ [pkts ! (k + 1), pkts ! k] @ drop (k + 2) pkts)
         create_h264_rtp_depacketizer = Some (Inr d)
     \<and> map_option (\<lambda>(frame, t, _). (frame, t)) (rtp_receive_frame_data d) = Some (annexb (normal_codes nals), ts)"
proof -
  obtain h p' where p: "h264_packets (interface_add_frame_data (Some (annexb nals)) frame_id eos ts pose_ts True True
        (create_h264_rtp_packetizer random the_ssrc))
      = (framed_packets h random True (frame_payloads nals), Inr (), p')"
    "first_byte h = RTP_FIRST_BYTE_BASE" "ntohl (timestamp h) = ts"
    using first_frame_sent [OF assms(1,2)] by blast
  from framed_swap_repaired [OF assms(1,3) p(2) assms(4-6) refl, of grow] show ?thesis
    unfolding p(1,3) by force
qed

theorem swap_within_frame_repaired_witness:
  "\<exists>pkts p' d. h264_packets (interface_add_frame_data (Some (annexb [(True, [0x67, 1]), (True, [0x68, 2]), (False, [0x65, 3])]))
        9 False 1000 900 True True (create_h264_rtp_packetizer 5 7)) = (pkts, Inr (), p')
     \<and> h264_add_packets max (take 1 pkts @ [pkts ! 2, pkts ! 1] @ drop 3 pkts) create_h264_rtp_depacketizer = Some (Inr d)
     \<and> map_option (\<lambda>(frame, t, _). (frame, t)) (rtp_receive_frame_data d)
        = Some ([0, 0, 0, 1, 0x67, 1, 0, 0, 1, 0x68, 2, 0, 0, 1, 0x65, 3], 1000)"
proof -
  define nals where "nals = [(True, [0x67, 1::u8]), (True, [0x68, 2]), (False, [0x65, 3])]"
  have n: "nals \<noteq> []" "sendable nals" "receivable nals" "length (frame_payloads nals) = 3"
    "annexb (normal_codes nals) = [0, 0, 0, 1, 0x67, 1, 0, 0, 1, 0x68, 2, 0, 0, 1, 0x65, 3]"
    by (simp_all add: nals_def nal_unit_ok_def receivable_def frame_payloads_def nal_payloads_def NALU_TYPE_def
        FU_A_TYPE_def annexb_def start_code_def)
  have "unat (5 :: u16) + length (frame_payloads nals) \<le> 65536" "0 < (1 :: nat)" "1 + 1 < length (frame_payloads nals)"
    by (simp_all add: n(4))
  from swap_within_frame_repaired [OF n(1-3) this, of 9 False 1000 900 7 max] show ?thesis
    unfolding n(5) by (simp add: nals_def numeral_2_eq_2 numeral_3_eq_3)
qed

text \<open>A client that gets the last packet of the first frame after the first packet of a later frame, the
  only packets out of order, never returns from adding it: the early packet is at the head, belongs to
  another frame than the one in the buffer, and is looked at again and again.\<close>

theorem reordering_across_frames_hangs:
  assumes "nals \<noteq> []" "receivable nals" "frame_payloads nals = xs @ [y]" "xs \<noteq> []"
    and "first_byte h = RTP_FIRST_BYTE_BASE" "unat seq + length (frame_payloads nals) < 65536"
    and "22 \<le> length pkt" "length pkt < 1500" "first_byte (RTPHeader_of pkt) = RTP_FIRST_BYTE_BASE"
    and "ntohs (sequence_number (RTPHeader_of pkt)) = seq + of_nat (length (frame_payloads nals))"
    and "timestamp (RTPHeader_of pkt) \<noteq> timestamp h"
    and "\<not> compare_rtp_timestamps (ntohl (timestamp (RTPHeader_of pkt))) (ntohl (timestamp h))"
  shows "h264_add_packets grow (framed_packets h seq False xs @ [pkt]
     @ framed_packets h (seq + of_nat (length xs)) m [y]) create_h264_rtp_depacketizer = None"
  by (rule swapped_hangs) (use assms join_frame [OF assms(2,1)] in
      \<open>auto simp: annexb_Nil normal_codes.simps elim: normal_codes.elims\<close>)

theorem reordering_across_frames_hangs_witness:
  "h264_add_packets max (framed_packets default_RTPHeader 5 False [[0x67, 1]]
     @ [RTPHeader_bytes (default_RTPHeader\<lparr>timestamp := htonl 90, sequence_number := htons 7\<rparr>) @ [0x65, 9]]
     @ framed_packets default_RTPHeader 6 True [[0x65, 2]]) create_h264_rtp_depacketizer = None"
proof -
  define pkt where "pkt = RTPHeader_bytes
     (default_RTPHeader\<lparr>timestamp := htonl 90, sequence_number := htons 7\<rparr>) @ [0x65, 9::u8]"
  define nals where "nals = [(True, [0x67, 1::u8]), (False, [0x65, 2])]"
  have nals: "nals \<noteq> []" "receivable nals"
    by (simp_all add: nals_def receivable_def NALU_TYPE_def FU_A_TYPE_def)
  have pay: "frame_payloads nals = [[0x67, 1]] @ [[0x65, 2]]"
    by (simp add: nals_def frame_payloads_def nal_payloads_def)
  have pkt: "RTPHeader_of pkt = default_RTPHeader\<lparr>timestamp := htonl 90, sequence_number := htons 7\<rparr>"
    "length pkt = 22"
    by (simp_all add: pkt_def)
  have "htonl 90 \<noteq> 0"
  proof
    assume "htonl 90 = 0"
    then have "ntohl (htonl 90) = ntohl 0" by simp
    then show False by (simp add: ntohl_def htonl_def)
  qed
  moreover have "ntohl 0 = 0" by (simp add: ntohl_def htonl_def)
  ultimately have "h264_add_packets max (framed_packets default_RTPHeader 5 False [[0x67, 1]] @ [pkt]
     @ framed_packets default_RTPHeader (5 + of_nat (length [[0x67, 1 :: u8]])) True [[0x65, 2]])
     create_h264_rtp_depacketizer = None"
    by (intro reordering_across_frames_hangs [of nals])
       (simp_all add: pay pkt compare_timestamps_iff default_RTPHeader_def nals)
  then show ?thesis unfolding pkt_def by simp
qed

end
