(* ===== verification/MediaCodec.thy ===== *)
theory MediaCodec
  imports VideoDecoders
begin

text \<open>
  \<open>common/src/formats/mediacodec_decoder.cpp\<close> and \<open>decoders.cpp\<close>: the decoder of the headset over the
  Android codec. The codec is a parameter, its answers a function of the calls made so far; calls are
  recorded. Uploading a plane into a texture is such a call too.
\<close>

section \<open>The codec and the decoder\<close>

datatype codec_call =
    Create_codec string | Configure_codec Extent2D | Start_codec | Stop_codec | Delete_codec | Delete_format
  | Dequeue_input | Queue_input nat bytes bool
  | Dequeue_output | Get_output_format | Upload_plane u32 u32 u32 u32 int | Release_output nat

text \<open>
  A buffer comes with its size, \<open>None\<close> when its address is null. A format comes with the stride and the
  slice height where it has them, and the colour format.
\<close>

datatype input_answer =
    In_buffer nat "nat option" | In_try_again | In_buffers_changed | In_format_changed | In_error int

datatype output_answer =
    Out_buffer nat "nat option" | Out_try_again | Out_buffers_changed
  | Out_format_changed "u32 option" "u32 option" "u32 option" | Out_error int

record codec_env =
  ce_input :: "codec_call list \<Rightarrow> input_answer"
  ce_output :: "codec_call list \<Rightarrow> output_answer"

datatype format_ptr = No_format | Live_format | Freed_format

record MediaCodecVideoDecoder =
  mc_codec_name :: string
  mc_src_size :: Extent2D
  mc_codec :: bool
  mc_input_format :: format_ptr
  mc_texture_y :: u32
  mc_texture_uv :: u32
  mc_stride :: u32
  mc_slice_height :: u32
  mc_nb_pushed :: u32
  mc_nb_popped :: u32
  mc_frame_delay :: "u32 option"
  mc_calls :: "codec_call list"

definition mc_call :: "codec_call \<Rightarrow> MediaCodecVideoDecoder \<Rightarrow> MediaCodecVideoDecoder" where
  "mc_call c d = d\<lparr>mc_calls := mc_calls d @ [c]\<rparr>"

definition create_media_codec_video_decoder :: "string \<Rightarrow> Extent2D \<Rightarrow> MediaCodecVideoDecoder" where
  "create_media_codec_video_decoder name src =
     \<lparr>mc_codec_name = name, mc_src_size = src, mc_codec = False, mc_input_format = No_format, mc_texture_y = 0,
      mc_texture_uv = 0, mc_stride = 0, mc_slice_height = 0, mc_nb_pushed = 0, mc_nb_popped = 0,
      mc_frame_delay = None, mc_calls = []\<rparr>"

definition create_h264_decoder :: "Extent2D \<Rightarrow> MediaCodecVideoDecoder" where
  "create_h264_decoder = create_media_codec_video_decoder ''video/avc''"

definition create_hevc_decoder :: "Extent2D \<Rightarrow> MediaCodecVideoDecoder" where
  "create_hevc_decoder = create_media_codec_video_decoder ''video/hevc''"

definition create_av1_decoder :: "Extent2D \<Rightarrow> MediaCodecVideoDecoder" where
  "create_av1_decoder = create_media_codec_video_decoder ''video/AV1''"

definition create_vp9_decoder :: "Extent2D \<Rightarrow> MediaCodecVideoDecoder" where
  "create_vp9_decoder = create_media_codec_video_decoder ''video/x-vnd.on2.vp9''"

text \<open>
  \<open>init\<close>: whether the codec exists, the two textures, whether it takes the configuration. After a refused
  configuration the format is freed and its pointer kept.
\<close>

definition mc_init :: "bool \<Rightarrow> u32 \<times> u32 \<Rightarrow> bool \<Rightarrow> MediaCodecVideoDecoder \<Rightarrow> MediaCodecVideoDecoder" where
  "mc_init created textures configured d =
     (let d1 = mc_call (Create_codec (mc_codec_name d)) d\<lparr>mc_codec := created\<rparr> in
      if \<not> created then d1
      else let d2 = mc_call (Configure_codec (mc_src_size d)) (d1\<lparr>mc_input_format := Live_format,
             mc_texture_y := fst textures, mc_texture_uv := snd textures\<rparr>) in
        if \<not> configured then mc_call Delete_format (d2\<lparr>mc_input_format := Freed_format\<rparr>)
        else mc_call Start_codec d2)"

text \<open>The size of the input buffer is fetched and not compared with the packet's.\<close>

definition mc_push_packet ::
    "codec_env \<Rightarrow> bytes \<Rightarrow> bool \<Rightarrow> MediaCodecVideoDecoder \<Rightarrow> (bool \<times> MediaCodecVideoDecoder) result" where
  "mc_push_packet env packet end_of_stream d =
     (if packet = [] then Inr (False, d)
      else if \<not> mc_codec d then Inl (UndefinedBehaviour ''call on a null codec'')
      else let d1 = mc_call Dequeue_input d in
        case ce_input env (mc_calls d) of
          In_buffer i capacity \<Rightarrow>
            (case capacity of None \<Rightarrow> Inr (False, d1)
             | Some n \<Rightarrow>
                 if n < length packet then Inl (UndefinedBehaviour ''write past the input buffer'')
                 else Inr (True, (mc_call (Queue_input i packet end_of_stream) d1)\<lparr>mc_nb_pushed := mc_nb_pushed d + 1\<rparr>))
        | In_try_again \<Rightarrow> Inr (False, d1)
        | In_buffers_changed \<Rightarrow> Inr (False, d1)
        | In_format_changed \<Rightarrow> Inr (False, d1)
        | In_error status \<Rightarrow> Inr (False, d1))"

text \<open>The two planes are copied into the textures; the chroma plane starts \<open>stride * slice height\<close> bytes on.\<close>

definition mc_copy_planes :: "nat \<Rightarrow> MediaCodecVideoDecoder \<Rightarrow> (GLFrameTexture option \<times> MediaCodecVideoDecoder) result" where
  "mc_copy_planes i d =
     (let w = ext_width (mc_src_size d); h = ext_height (mc_src_size d);
          chroma = sint (mc_stride d) * sint (mc_slice_height d) in
      if chroma < - (2 ^ 31) \<or> 2 ^ 31 \<le> chroma then Inl (UndefinedBehaviour ''signed overflow in the plane offset'')
      else Inr (Some \<lparr>gt_format = NV12, gt_textures = [mc_texture_y d, mc_texture_uv d],
             gt_size = ucast (mc_slice_height d * mc_stride d + (mc_stride d * mc_slice_height d) div 2)\<rparr>,
           (mc_call (Release_output i) (mc_call (Upload_plane (mc_texture_uv d) (w div 2) (h div 4) (mc_stride d) chroma)
             (mc_call (Upload_plane (mc_texture_y d) w h (mc_stride d) 0) d)))\<lparr>mc_nb_popped := mc_nb_popped d + 1\<rparr>))"

definition COLOR_QCOM_FormatYUV420SemiPlanar32m :: u32 where
  "COLOR_QCOM_FormatYUV420SemiPlanar32m = 0x7fa30c04"

definition mc_new_format ::
    "u32 option \<Rightarrow> u32 option \<Rightarrow> u32 option \<Rightarrow> MediaCodecVideoDecoder \<Rightarrow> MediaCodecVideoDecoder result" where
  "mc_new_format stride slice_height color d =
     (let d1 = (mc_call Get_output_format d)\<lparr>mc_stride := (case stride of None \<Rightarrow> mc_stride d | Some x \<Rightarrow> x),
            mc_slice_height := (case slice_height of None \<Rightarrow> mc_slice_height d | Some x \<Rightarrow> x)\<rparr> in
      if (case color of None \<Rightarrow> 0 | Some c \<Rightarrow> c) = COLOR_QCOM_FormatYUV420SemiPlanar32m
      then Inr (mc_call Delete_format d1)
      else Inl (RuntimeError ''Unsupported color format''))"

text \<open>\<open>n_iter\<close> is the number of iterations done; the loop gives up after the eleventh.\<close>

function mc_get_frame_loop ::
    "codec_env \<Rightarrow> nat \<Rightarrow> MediaCodecVideoDecoder \<Rightarrow> (GLFrameTexture option \<times> MediaCodecVideoDecoder) result" where
  "mc_get_frame_loop env n_iter d =
     (let d1 = mc_call Dequeue_output d;
          retry = (\<lambda>d2. if n_iter + 1 > 10 then Inr (None, d2) else mc_get_frame_loop env (n_iter + 1) d2) in
      case ce_output env (mc_calls d) of
        Out_buffer i address \<Rightarrow>
          (if address = None \<or> mc_stride d = 0 then Inr (None, d1)
           else mc_copy_planes i (case mc_frame_delay d of
               None \<Rightarrow> d1\<lparr>mc_frame_delay := Some (mc_nb_pushed d - mc_nb_popped d)\<rparr> | Some x \<Rightarrow> d1))
      | Out_buffers_changed \<Rightarrow> retry d1
      | Out_format_changed stride slice_height color \<Rightarrow>
          (case mc_new_format stride slice_height color d1 of Inl e \<Rightarrow> Inl e | Inr d2 \<Rightarrow> retry d2)
      | Out_try_again \<Rightarrow> Inr (None, d1)
      | Out_error status \<Rightarrow> Inr (None, d1))"
  by pat_completeness auto

termination mc_get_frame_loop
  by (relation "measure (\<lambda>(env, n_iter, d). 11 - n_iter)") auto

declare mc_get_frame_loop.simps [simp del]

definition mc_get_frame_gpu ::
    "codec_env \<Rightarrow> MediaCodecVideoDecoder \<Rightarrow> (GLFrameTexture option \<times> MediaCodecVideoDecoder) result" where
  "mc_get_frame_gpu env d =
     (if \<not> mc_codec d then Inl (UndefinedBehaviour ''call on a null codec'') else mc_get_frame_loop env 0 d)"

definition mc_get_frame_delay :: "MediaCodecVideoDecoder \<Rightarrow> u32" where
  "mc_get_frame_delay d = (case mc_frame_delay d of None \<Rightarrow> 0 | Some x \<Rightarrow> x)"

definition mc_destroy :: "MediaCodecVideoDecoder \<Rightarrow> codec_call list result" where
  "mc_destroy d =
     (let calls = mc_calls d @ (if mc_codec d then [Stop_codec, Delete_codec] else []) in
      case mc_input_format d of
        No_format \<Rightarrow> Inr calls
      | Live_format \<Rightarrow> Inr (calls @ [Delete_format])
      | Freed_format \<Rightarrow> Inl (UndefinedBehaviour ''the format is deleted twice''))"

section \<open>What was accepted and delivered\<close>

definition mc_accepted :: "MediaCodecVideoDecoder \<Rightarrow> bytes list" where
  "mc_accepted d = concat (map (\<lambda>c. case c of Queue_input i p e \<Rightarrow> [p] | _ \<Rightarrow> []) (mc_calls d))"

definition released :: "codec_call list \<Rightarrow> nat list" where
  "released cs = concat (map (\<lambda>c. case c of Release_output i \<Rightarrow> [i] | _ \<Rightarrow> []) cs)"

definition mc_delivered :: "MediaCodecVideoDecoder \<Rightarrow> nat" where
  "mc_delivered d = length (released (mc_calls d))"

lemma mc_call_simps [simp]:
  "mc_accepted (mc_call c d) = mc_accepted d @ (case c of Queue_input i p e \<Rightarrow> [p] | _ \<Rightarrow> [])"
  "mc_delivered (mc_call c d) = mc_delivered d + (case c of Release_output i \<Rightarrow> 1 | _ \<Rightarrow> 0)"
  "mc_calls (mc_call c d) = mc_calls d @ [c]" "mc_codec (mc_call c d) = mc_codec d"
  "mc_nb_pushed (mc_call c d) = mc_nb_pushed d" "mc_nb_popped (mc_call c d) = mc_nb_popped d"
  "mc_frame_delay (mc_call c d) = mc_frame_delay d" "mc_stride (mc_call c d) = mc_stride d"
  by (simp_all add: mc_call_def mc_accepted_def mc_delivered_def released_def split: codec_call.split)

lemma mc_update_simps [simp]:
  "mc_accepted (d\<lparr>mc_nb_pushed := n\<rparr>) = mc_accepted d" "mc_delivered (d\<lparr>mc_nb_pushed := n\<rparr>) = mc_delivered d"
  "mc_accepted (d\<lparr>mc_nb_popped := n\<rparr>) = mc_accepted d" "mc_delivered (d\<lparr>mc_nb_popped := n\<rparr>) = mc_delivered d"
  "mc_accepted (d\<lparr>mc_frame_delay := x\<rparr>) = mc_accepted d" "mc_delivered (d\<lparr>mc_frame_delay := x\<rparr>) = mc_delivered d"
  "mc_accepted (d\<lparr>mc_stride := s, mc_slice_height := h\<rparr>) = mc_accepted d"
  "mc_delivered (d\<lparr>mc_stride := s, mc_slice_height := h\<rparr>) = mc_delivered d"
  by (simp_all add: mc_accepted_def mc_delivered_def)

text \<open>The counters of the decoder are those of the calls, modulo their width.\<close>

definition counts_true :: "MediaCodecVideoDecoder \<Rightarrow> bool" where
  "counts_true d \<longleftrightarrow> mc_nb_pushed d = of_nat (length (mc_accepted d)) \<and> mc_nb_popped d = of_nat (mc_delivered d)"

lemma mc_push_outcome:
  assumes "mc_push_packet env p eos d = Inr (taken, d')"
  shows "mc_accepted d' = mc_accepted d @ (if taken then [p] else [])" "mc_delivered d' = mc_delivered d"
    "counts_true d \<Longrightarrow> counts_true d'" "mc_frame_delay d' = mc_frame_delay d"
  using assms by (auto simp: mc_push_packet_def Let_def counts_true_def split: if_splits input_answer.splits option.splits)

lemma mc_new_format_outcome:
  assumes "mc_new_format s h c d = Inr d'"
  shows "mc_accepted d' = mc_accepted d" "mc_delivered d' = mc_delivered d" "counts_true d \<Longrightarrow> counts_true d'"
    "mc_frame_delay d' = mc_frame_delay d" "mc_calls d' = mc_calls d @ [Get_output_format, Delete_format]"
    "mc_nb_pushed d' = mc_nb_pushed d" "mc_nb_popped d' = mc_nb_popped d"
  using assms by (auto simp: mc_new_format_def Let_def counts_true_def mc_call_def mc_accepted_def mc_delivered_def released_def split: if_splits)

lemma mc_copy_outcome:
  assumes "mc_copy_planes i d = Inr (f, d')"
  shows "mc_accepted d' = mc_accepted d" "mc_delivered d' = Suc (mc_delivered d)" "f \<noteq> None"
    "counts_true d \<Longrightarrow> counts_true d'" "mc_frame_delay d' = mc_frame_delay d"
  using assms by (auto simp: mc_copy_planes_def Let_def counts_true_def split: if_splits)

text \<open>What one call of \<open>get_frame_gpu\<close> does, along the loop; the rule collects the branches once.\<close>

definition pull_outcome :: "MediaCodecVideoDecoder \<Rightarrow> GLFrameTexture option \<Rightarrow> MediaCodecVideoDecoder \<Rightarrow> bool" where
  "pull_outcome d f d' \<longleftrightarrow> mc_accepted d' = mc_accepted d
     \<and> mc_delivered d' = mc_delivered d + (if f = None then 0 else 1)
     \<and> (counts_true d \<longrightarrow> counts_true d')
     \<and> mc_frame_delay d' = (if f \<noteq> None \<and> mc_frame_delay d = None then Some (mc_nb_pushed d - mc_nb_popped d)
         else mc_frame_delay d)"

definition dequeues :: "codec_call list \<Rightarrow> nat" where
  "dequeues cs = length (filter (\<lambda>c. c = Dequeue_output) cs)"

lemma dequeues_simps [simp]: "dequeues [] = 0"
  "dequeues (c # cs) = (if c = Dequeue_output then Suc (dequeues cs) else dequeues cs)"
  "dequeues (cs @ cs') = dequeues cs + dequeues cs'"
  by (simp_all add: dequeues_def)

lemma mc_copy_dequeues: "mc_copy_planes i d = Inr (f, d') \<Longrightarrow> dequeues (mc_calls d') = dequeues (mc_calls d)"
  by (auto simp: mc_copy_planes_def Let_def split: if_splits)

lemma pull_outcome_retry:
  assumes "pull_outcome d2 f d'" "mc_accepted d2 = mc_accepted d" "mc_delivered d2 = mc_delivered d"
    "counts_true d \<Longrightarrow> counts_true d2" "mc_frame_delay d2 = mc_frame_delay d"
    "mc_nb_pushed d2 = mc_nb_pushed d" "mc_nb_popped d2 = mc_nb_popped d"
  shows "pull_outcome d f d'"
  using assms by (auto simp: pull_outcome_def)

lemma pull_outcome_none:
  assumes "mc_accepted d2 = mc_accepted d" "mc_delivered d2 = mc_delivered d"
    "counts_true d \<Longrightarrow> counts_true d2" "mc_frame_delay d2 = mc_frame_delay d"
  shows "pull_outcome d None d2"
  using assms by (auto simp: pull_outcome_def)

lemma dequeued_simps [simp]:
  "mc_accepted (mc_call Dequeue_output d) = mc_accepted d" "mc_delivered (mc_call Dequeue_output d) = mc_delivered d"
  "counts_true (mc_call Dequeue_output d) = counts_true d"
  by (simp_all add: counts_true_def)

lemma mc_loop_outcome:
  "mc_get_frame_loop env n d = Inr (f, d') \<Longrightarrow> n \<le> 10 \<Longrightarrow>
     pull_outcome d f d' \<and> dequeues (mc_calls d') + n \<le> dequeues (mc_calls d) + 11"
proof (induction env n d rule: mc_get_frame_loop.induct)
  case (1 env n d)
  define d1 where "d1 = mc_call Dequeue_output d"
  note loop = "1.prems"(1) [unfolded mc_get_frame_loop.simps [of env n d] Let_def, folded d1_def]
  note d1 = dequeued_simps [of d, folded d1_def]
  have same: "mc_frame_delay d1 = mc_frame_delay d" "mc_nb_pushed d1 = mc_nb_pushed d" "mc_nb_popped d1 = mc_nb_popped d"
    "dequeues (mc_calls d1) = Suc (dequeues (mc_calls d))" by (simp_all add: d1_def)
  have stop: "?case" if "f = None" "d' = d1"
    using that pull_outcome_none [OF d1(1,2)] d1(3) same "1.prems"(2) by simp
  have retry: "?case" if "(if n + 1 > 10 then Inr (None, d2) else mc_get_frame_loop env (n + 1) d2) = Inr (f, d')"
    "mc_accepted d2 = mc_accepted d" "mc_delivered d2 = mc_delivered d" "counts_true d \<Longrightarrow> counts_true d2"
    "mc_frame_delay d2 = mc_frame_delay d" "mc_nb_pushed d2 = mc_nb_pushed d" "mc_nb_popped d2 = mc_nb_popped d"
    "dequeues (mc_calls d2) = Suc (dequeues (mc_calls d))" for d2
    using that pull_outcome_none [OF that(2-5)] pull_outcome_retry [OF _ that(2-7)] "1.prems"(2) "1.IH" [OF d1_def, of d2]
    by (cases "n + 1 > 10") auto
  show ?case
  proof (cases "ce_output env (mc_calls d)")
    case (Out_buffer i address)
    define d2 where "d2 = (case mc_frame_delay d of
      None \<Rightarrow> d1\<lparr>mc_frame_delay := Some (mc_nb_pushed d - mc_nb_popped d)\<rparr> | Some x \<Rightarrow> d1)"
    show ?thesis
    proof (cases "address = None \<or> mc_stride d = 0")
      case True
      then show ?thesis using loop Out_buffer stop by simp
    next
      case False
      then have copy: "mc_copy_planes i d2 = Inr (f, d')" using loop Out_buffer by (auto simp: d2_def)
      have d2: "mc_accepted d2 = mc_accepted d" "mc_delivered d2 = mc_delivered d" "counts_true d \<Longrightarrow> counts_true d2"
        "mc_calls d2 = mc_calls d1" "mc_frame_delay d2 = (case mc_frame_delay d of
           None \<Rightarrow> Some (mc_nb_pushed d - mc_nb_popped d) | Some x \<Rightarrow> Some x)"
        using d1 same by (auto simp: d2_def counts_true_def split: option.splits)
      show ?thesis
        using mc_copy_outcome [OF copy] mc_copy_dequeues [OF copy] d2 same "1.prems"(2)
        by (auto simp: pull_outcome_def split: option.splits)
    qed
  next
    case Out_buffers_changed
    then show ?thesis using loop d1 same by (intro retry [of d1]) auto
  next
    case (Out_format_changed s h c)
    then obtain d2 where d2: "mc_new_format s h c d1 = Inr d2" using loop by (auto split: sum.splits)
    show ?thesis
    proof (rule retry [of d2])
      show "(if n + 1 > 10 then Inr (None, d2) else mc_get_frame_loop env (n + 1) d2) = Inr (f, d')"
        using loop Out_format_changed d2 by simp
    qed (use mc_new_format_outcome [OF d2] d1 same in auto)
  qed (use loop stop in auto)
qed

lemma mc_pull_outcome: "mc_get_frame_gpu env d = Inr (f, d') \<Longrightarrow> pull_outcome d f d'"
  using mc_loop_outcome [of env 0 d f d'] by (simp add: mc_get_frame_gpu_def split: if_splits)

interpretation mediacodec: video_decoder "mc_push_packet env" "mc_get_frame_gpu env" mc_accepted mc_delivered
  by unfold_locales
    (use mc_push_outcome mc_pull_outcome in \<open>fastforce simp: pull_outcome_def split: if_splits\<close>)+

text \<open>The interface between the decoder and the codec is polled a bounded number of times.\<close>

lemma mc_pull_bounded:
  "mc_get_frame_gpu env d = Inr (f, d') \<Longrightarrow> dequeues (mc_calls d') \<le> dequeues (mc_calls d) + 11"
  using mc_loop_outcome [of env 0 d f d'] by (simp add: mc_get_frame_gpu_def split: if_splits)

section \<open>Sequences of calls\<close>

datatype decoder_op = Push_op bytes bool | Pull_op

fun mc_ops :: "codec_env \<Rightarrow> decoder_op list \<Rightarrow> MediaCodecVideoDecoder \<Rightarrow> MediaCodecVideoDecoder result" where
  "mc_ops env [] d = Inr d"
| "mc_ops env (Push_op p eos # ops) d =
     (case mc_push_packet env p eos d of Inl e \<Rightarrow> Inl e | Inr (taken, d1) \<Rightarrow> mc_ops env ops d1)"
| "mc_ops env (Pull_op # ops) d =
     (case mc_get_frame_gpu env d of Inl e \<Rightarrow> Inl e | Inr (f, d1) \<Rightarrow> mc_ops env ops d1)"

definition decoder_invariant :: "MediaCodecVideoDecoder \<Rightarrow> bool" where
  "decoder_invariant d \<longleftrightarrow> counts_true d \<and> (mc_frame_delay d = None \<longleftrightarrow> mc_delivered d = 0)"

lemma mc_ops_invariant: "mc_ops env ops d = Inr d' \<Longrightarrow> decoder_invariant d \<Longrightarrow> decoder_invariant d'"
proof (induction env ops d rule: mc_ops.induct)
  case (2 env p eos ops d)
  then obtain taken d1 where push: "mc_push_packet env p eos d = Inr (taken, d1)" by (auto split: sum.splits)
  then show ?case using 2 mc_push_outcome [OF push] by (auto simp: decoder_invariant_def)
next
  case (3 env ops d)
  then obtain f d1 where pull: "mc_get_frame_gpu env d = Inr (f, d1)" by (auto split: sum.splits)
  then show ?case
    using 3 mc_pull_outcome [OF pull] by (auto simp: decoder_invariant_def pull_outcome_def split: if_splits)
qed simp

lemma created_invariant: "decoder_invariant (mc_init created textures configured (create_media_codec_video_decoder name src))"
  by (simp add: decoder_invariant_def counts_true_def mc_init_def create_media_codec_video_decoder_def Let_def mc_call_def
      mc_accepted_def mc_delivered_def released_def)

text \<open>
  The delay that the decoder reports: 0 before the first frame, then for good the number of packets that
  were accepted when the first frame came out, that frame's own packet included.
\<close>

lemma frame_delay_is_packets_before_first_frame:
  assumes "mc_ops env ops (mc_init created textures configured (create_media_codec_video_decoder name src)) = Inr d"
    and "mc_delivered d = 0" "mc_get_frame_gpu env d = Inr (Some f, d1)" "mc_ops env ops' d1 = Inr d2"
  shows "mc_get_frame_delay d = 0 \<and> mc_get_frame_delay d2 = of_nat (length (mc_accepted d))"
proof -
  have inv: "decoder_invariant d" by (rule mc_ops_invariant [OF assms(1) created_invariant])
  then have d1: "mc_frame_delay d1 = Some (of_nat (length (mc_accepted d)))" "mc_frame_delay d = None"
    using mc_pull_outcome [OF assms(3)] assms(2) by (auto simp: decoder_invariant_def pull_outcome_def counts_true_def)
  have keep: "mc_frame_delay d' = Some x" if "mc_ops env os e = Inr d'" "mc_frame_delay e = Some x" for os e d' x
    using that
  proof (induction env os e rule: mc_ops.induct)
    case (2 env p eos ops e)
    then show ?case using mc_push_outcome(4) by (fastforce split: sum.splits)
  next
    case (3 env ops e)
    then show ?case by (fastforce split: sum.splits dest: mc_pull_outcome simp: pull_outcome_def)
  qed simp
  show ?thesis using d1 keep [OF assms(4) d1(1)] by (simp add: mc_get_frame_delay_def)
qed

section \<open>What goes wrong\<close>

text \<open>A packet that is larger than the input buffer is copied over its end.\<close>

lemma large_packet_overflows:
  assumes "mc_codec d" "ce_input env (mc_calls d) = In_buffer i (Some n)" "n < length p"
  shows "mc_push_packet env p eos d = Inl (UndefinedBehaviour ''write past the input buffer'')"
  using assms by (auto simp: mc_push_packet_def)

text \<open>A frame that comes before the output format is dropped, and its buffer is never given back.\<close>

lemma frame_without_stride_kept:
  assumes "mc_codec d" "mc_stride d = 0" "ce_output env (mc_calls d) = Out_buffer i (Some n)"
  shows "mc_get_frame_gpu env d = Inr (None, mc_call Dequeue_output d)"
  using assms by (simp add: mc_get_frame_gpu_def mc_get_frame_loop.simps)

text \<open>After a refused configuration the destructor deletes the format again.\<close>

lemma refused_configuration_frees_twice:
  "mc_destroy (mc_init True textures False d) = Inl (UndefinedBehaviour ''the format is deleted twice'')"
  by (simp add: mc_destroy_def mc_init_def Let_def mc_call_def)

text \<open>A codec that does not exist is noticed only by the log; the first packet is pushed into a null codec.\<close>

lemma missing_codec_used:
  assumes "p \<noteq> []"
  shows "mc_push_packet env p eos (mc_init False textures configured d) = Inl (UndefinedBehaviour ''call on a null codec'')"
  using assms by (simp add: mc_push_packet_def mc_init_def Let_def)

end
