(* ===== verification/VrPoses.thy ===== *)
theory VrPoses
  imports VrStructs RtpClock
begin

text \<open>
  \<open>wvb_client/src/vr_system.cpp\<close>: the cache of the poses that the client sent to the server. A frame comes
  back with the time stamp of the pose it was rendered for; \<open>find_old_pose\<close> looks the views of that pose
  up. Poses and fields of view of OpenXR are carried as they are, floats as bit patterns.
\<close>

section \<open>Conversions of the OpenXR types\<close>

record XrQuaternionf =
  xq_x :: f32
  xq_y :: f32
  xq_z :: f32
  xq_w :: f32

record XrVector3f =
  xv_x :: f32
  xv_y :: f32
  xv_z :: f32

record XrPosef =
  xp_orientation :: XrQuaternionf
  xp_position :: XrVector3f

record XrFovf =
  angleLeft :: f32
  angleRight :: f32
  angleUp :: f32
  angleDown :: f32

definition to_quat :: "XrQuaternionf \<Rightarrow> Quaternion" where
  "to_quat q = \<lparr>q_x = xq_x q, q_y = xq_y q, q_z = xq_z q, q_w = xq_w q\<rparr>"

definition to_vec3 :: "XrVector3f \<Rightarrow> Vector3" where
  "to_vec3 v = \<lparr>v_x = xv_x v, v_y = xv_y v, v_z = xv_z v\<rparr>"

definition to_pose :: "XrPosef \<Rightarrow> Pose" where
  "to_pose p = \<lparr>orientation = to_quat (xp_orientation p), position = to_vec3 (xp_position p)\<rparr>"

definition to_fov :: "XrFovf \<Rightarrow> Fov" where
  "to_fov f = \<lparr>fov_l = angleLeft f, fov_r = angleRight f, fov_u = angleUp f, fov_d = angleDown f\<rparr>"

text \<open>The views of the left and the right eye: a pose and a field of view each.\<close>

type_synonym xr_view = "XrPosef \<times> XrFovf"
type_synonym eye_views = "xr_view \<times> xr_view"

definition no_pose :: XrPosef where
  "no_pose = \<lparr>xp_orientation = \<lparr>xq_x = 0, xq_y = 0, xq_z = 0, xq_w = 0\<rparr>, xp_position = \<lparr>xv_x = 0, xv_y = 0, xv_z = 0\<rparr>\<rparr>"

definition no_fov :: XrFovf where
  "no_fov = \<lparr>angleLeft = 0, angleRight = 0, angleUp = 0, angleDown = 0\<rparr>"

section \<open>The cache\<close>

definition TRACKING_STATE_CACHE_SIZE :: nat where
  "TRACKING_STATE_CACHE_SIZE = 100"

record PoseCacheEntry =
  pe_pose_timestamp :: u32
  pe_sample_timestamp :: u32
  pe_xr_time :: int
  pe_views :: eye_views

definition empty_entry :: PoseCacheEntry where
  "empty_entry = \<lparr>pe_pose_timestamp = 0, pe_sample_timestamp = 0, pe_xr_time = 0,
     pe_views = ((no_pose, no_fov), (no_pose, no_fov))\<rparr>"

record pose_cache =
  pc_slots :: "PoseCacheEntry list"
  pc_index :: nat

definition reset_pose_cache :: pose_cache where
  "reset_pose_cache = \<lparr>pc_slots = replicate TRACKING_STATE_CACHE_SIZE empty_entry, pc_index = 0\<rparr>"

definition store_pose :: "PoseCacheEntry \<Rightarrow> pose_cache \<Rightarrow> pose_cache" where
  "store_pose e c = \<lparr>pc_slots = (pc_slots c)[pc_index c := e],
     pc_index = (pc_index c + 1) mod TRACKING_STATE_CACHE_SIZE\<rparr>"

definition prev_slot :: "nat \<Rightarrow> nat" where
  "prev_slot i = (if i = 0 then TRACKING_STATE_CACHE_SIZE - 1 else i - 1)"

text \<open>
  The search goes back from the newest entry until it meets the stamp, an older one, or the slot that is
  written next. Stamps are compared as plain 32-bit numbers. Whether the loop ends is part of the result.
\<close>

partial_function (option) search_pose :: "pose_cache \<Rightarrow> u32 \<Rightarrow> nat \<Rightarrow> PoseCacheEntry option option" where
  "search_pose c t i =
     (let e = pc_slots c ! i in
      if pe_pose_timestamp e = t then Some (Some e)
      else if pe_pose_timestamp e < t then Some None
      else if prev_slot i = pc_index c then Some None
      else search_pose c t (prev_slot i))"

declare search_pose.simps [code]

definition find_old_pose :: "u32 \<Rightarrow> pose_cache \<Rightarrow> PoseCacheEntry option option" where
  "find_old_pose t c = (if t = 0 then Some None else search_pose c t (prev_slot (pc_index c)))"

section \<open>The history of stored poses\<close>

text \<open>
  \<open>hs\<close> lists the poses stored since the reset, the newest first. The slot \<open>k + 1\<close> steps behind the index
  holds \<open>hs ! k\<close>.
\<close>

definition back_slot :: "nat \<Rightarrow> nat \<Rightarrow> nat" where
  "back_slot i k = (prev_slot ^^ k) i"

definition past_pose :: "PoseCacheEntry list \<Rightarrow> nat \<Rightarrow> PoseCacheEntry" where
  "past_pose hs k = (if k < length hs then hs ! k else empty_entry)"

definition cache_holds :: "PoseCacheEntry list \<Rightarrow> pose_cache \<Rightarrow> bool" where
  "cache_holds hs c \<longleftrightarrow> length (pc_slots c) = TRACKING_STATE_CACHE_SIZE \<and> pc_index c < TRACKING_STATE_CACHE_SIZE
     \<and> (\<forall>k < TRACKING_STATE_CACHE_SIZE. pc_slots c ! back_slot (pc_index c) (Suc k) = past_pose hs k)"

text \<open>What the search promises: the newest of the last 99 poses that is not newer than the stamp, when it has it.\<close>

definition lookup_pose :: "u32 \<Rightarrow> PoseCacheEntry list \<Rightarrow> PoseCacheEntry option" where
  "lookup_pose t hs =
     (if t = 0 then None
      else case dropWhile (\<lambda>e. t < pe_pose_timestamp e) (take (TRACKING_STATE_CACHE_SIZE - 1) hs) of
        [] \<Rightarrow> None
      | e # _ \<Rightarrow> if pe_pose_timestamp e = t then Some e else None)"

lemma prev_slot_mod: "i < 100 \<Longrightarrow> prev_slot i = (i + 99) mod 100"
  by (auto simp: prev_slot_def TRACKING_STATE_CACHE_SIZE_def mod_if)

lemma back_slot_mod: "i < 100 \<Longrightarrow> k \<le> 100 \<Longrightarrow> back_slot i k = (i + (100 - k)) mod 100"
proof (induction k)
  case 0
  then show ?case by (simp add: back_slot_def)
next
  case (Suc k)
  then have "back_slot i (Suc k) = prev_slot ((i + (100 - k)) mod 100)" by (simp add: back_slot_def)
  also have "\<dots> = ((i + (100 - k)) mod 100 + 99) mod 100" by (rule prev_slot_mod) simp
  also have "\<dots> = (i + (100 - k) + 99) mod 100" by (rule mod_add_left_eq)
  also have "i + (100 - k) + 99 = (i + (100 - Suc k)) + 100" using Suc.prems by simp
  finally show ?case by simp
qed

lemma slot_away: "i < 100 \<Longrightarrow> 0 < m \<Longrightarrow> m < 100 \<Longrightarrow> (i + m) mod 100 \<noteq> (i::nat)"
  by (cases "i + m < 100") (simp_all add: mod_if, linarith)

lemma back_slot_Suc: "prev_slot (back_slot i k) = back_slot i (Suc k)"
  by (simp add: back_slot_def)

lemma cache_holds_reset: "cache_holds [] reset_pose_cache"
proof -
  have "replicate 100 empty_entry ! back_slot 0 (Suc k) = empty_entry" if "k < 100" for k
    using that by (subst nth_replicate) (auto simp: back_slot_mod)
  then show ?thesis
    by (simp add: cache_holds_def reset_pose_cache_def TRACKING_STATE_CACHE_SIZE_def past_pose_def)
qed

text \<open>The slot of the newest pose is the index before the store; every older pose is one step further back.\<close>

lemma cache_holds_store:
  assumes "cache_holds hs c"
  shows "cache_holds (e # hs) (store_pose e c)"
proof -
  define i where "i = pc_index c"
  have i: "i < 100" and len: "length (pc_slots c) = 100"
    and old: "\<And>k. k < 100 \<Longrightarrow> pc_slots c ! back_slot i (Suc k) = past_pose hs k"
    using assms by (simp_all add: cache_holds_def TRACKING_STATE_CACHE_SIZE_def i_def)
  have "(pc_slots c)[i := e] ! back_slot ((i + 1) mod 100) (Suc k) = past_pose (e # hs) k" if "k < 100" for k
  proof (cases k)
    case 0
    have "back_slot ((i + 1) mod 100) 1 = i" using i by (subst back_slot_mod) (auto simp: mod_if)
    then show ?thesis using 0 i len by (simp add: past_pose_def)
  next
    case (Suc j)
    have "back_slot ((i + 1) mod 100) (Suc k) = ((i + 1) mod 100 + (99 - k)) mod 100"
      using that by (subst back_slot_mod) auto
    also have "\<dots> = (i + 1 + (99 - k)) mod 100" by (rule mod_add_left_eq)
    also have "i + 1 + (99 - k) = i + (100 - Suc j)" using that Suc by arith
    also have "\<dots> mod 100 = back_slot i (Suc j)" using i that Suc by (subst back_slot_mod) auto
    finally have eq: "back_slot ((i + 1) mod 100) (Suc k) = back_slot i (Suc j)" .
    have "back_slot i (Suc j) \<noteq> i" using i that Suc by (subst back_slot_mod) (auto simp: mod_if)
    then show ?thesis using eq old [of j] that Suc by (simp add: past_pose_def)
  qed
  then show ?thesis
    using i len by (simp add: cache_holds_def store_pose_def TRACKING_STATE_CACHE_SIZE_def i_def)
qed

section \<open>The search\<close>

definition pick_pose :: "u32 \<Rightarrow> PoseCacheEntry list \<Rightarrow> PoseCacheEntry option" where
  "pick_pose t es = (case dropWhile (\<lambda>e. t < pe_pose_timestamp e) es of [] \<Rightarrow> None
     | e # _ \<Rightarrow> if pe_pose_timestamp e = t then Some e else None)"

lemma pick_pose_simps [simp]:
  "pick_pose t [] = None"
  "pick_pose t (e # es) = (if pe_pose_timestamp e = t then Some e else if pe_pose_timestamp e < t then None else pick_pose t es)"
  by (auto simp: pick_pose_def)

lemma lookup_pose_pick:
  "lookup_pose t hs = (if t = 0 then None else pick_pose t (take (TRACKING_STATE_CACHE_SIZE - 1) hs))"
  by (simp add: lookup_pose_def pick_pose_def)

lemma search_pose_pick:
  assumes "cache_holds hs c" "t \<noteq> 0"
  shows "k < 99 \<Longrightarrow> search_pose c t (back_slot (pc_index c) (Suc k)) = Some (pick_pose t (drop k (take 99 hs)))"
proof (induction "98 - k" arbitrary: k)
  case (0 k)
  then have k: "k = 98" by simp
  have i: "pc_index c < 100" and e: "pc_slots c ! back_slot (pc_index c) 99 = past_pose hs 98"
    using assms(1) by (auto simp: cache_holds_def TRACKING_STATE_CACHE_SIZE_def dest: spec [of _ 98])
  have last: "prev_slot (back_slot (pc_index c) 99) = pc_index c"
    using i by (simp only: back_slot_mod prev_slot_mod) (auto simp: back_slot_mod mod_if prev_slot_mod)
  have rest: "drop 98 (take 99 hs) = (if 98 < length hs then [hs ! 98] else [])"
    by (auto simp: Cons_nth_drop_Suc [symmetric])
  show ?case
    using assms(2) e last rest by (subst search_pose.simps) (simp add: k past_pose_def empty_entry_def word_gt_0)
next
  case (Suc n k)
  then have k: "k < 98" and n: "n = 98 - Suc k" by simp_all
  have i: "pc_index c < 100" and e: "pc_slots c ! back_slot (pc_index c) (Suc k) = past_pose hs k"
    using assms(1) k by (auto simp: cache_holds_def TRACKING_STATE_CACHE_SIZE_def)
  have go: "prev_slot (back_slot (pc_index c) (Suc k)) \<noteq> pc_index c"
    unfolding back_slot_Suc using i k slot_away [of "pc_index c" "100 - Suc (Suc k)"] by (simp add: back_slot_mod)
  have IH: "search_pose c t (prev_slot (back_slot (pc_index c) (Suc k))) = Some (pick_pose t (drop (Suc k) (take 99 hs)))"
    using Suc.hyps(1) [OF n] k by (simp add: back_slot_Suc)
  have rest: "drop k (take 99 hs) = (if k < length hs then hs ! k # drop (Suc k) (take 99 hs) else [])"
    using k by (auto simp: Cons_nth_drop_Suc [symmetric])
  show ?case
    using assms(2) e go IH rest by (subst search_pose.simps) (simp add: past_pose_def empty_entry_def word_gt_0 Let_def)
qed

lemma find_old_pose_history:
  assumes "cache_holds hs c"
  shows "find_old_pose t c = Some (lookup_pose t hs)"
  using search_pose_pick [OF assms, of t 0] assms
  by (simp add: find_old_pose_def lookup_pose_pick TRACKING_STATE_CACHE_SIZE_def back_slot_def)

text \<open>The poses of a pass: a reset and then one store after the other.\<close>

definition stored :: "PoseCacheEntry list \<Rightarrow> pose_cache" where
  "stored es = fold store_pose es reset_pose_cache"

lemma cache_holds_fold: "cache_holds hs c \<Longrightarrow> cache_holds (rev es @ hs) (fold store_pose es c)"
  by (induction es arbitrary: hs c) (auto dest: cache_holds_store)

lemma cache_holds_stored: "cache_holds (rev es) (stored es)"
  using cache_holds_fold [OF cache_holds_reset, of es] by (simp add: stored_def)

section \<open>Finding a pose again\<close>

lemma pick_pose_found:
  assumes "sorted_wrt (\<lambda>a b. pe_pose_timestamp b < pe_pose_timestamp a) es" "e \<in> set es"
  shows "pick_pose (pe_pose_timestamp e) es = Some e"
  using assms by (induction es) auto

lemma pick_pose_newer: "\<forall>x \<in> set es. t < pe_pose_timestamp x \<Longrightarrow> pick_pose t es = None"
  by (induction es) auto

lemma sorted_wrt_take: "sorted_wrt P xs \<Longrightarrow> sorted_wrt P (take n xs)"
  by (metis append_take_drop_id sorted_wrt_append)

lemma recent_pose_lookup:
  assumes "sorted_wrt (\<lambda>a b. pe_pose_timestamp a < pe_pose_timestamp b) es"
    and "e \<in> set (drop (length es - 99) es)" "pe_pose_timestamp e \<noteq> 0"
  shows "lookup_pose (pe_pose_timestamp e) (rev es) = Some e"
proof -
  have "sorted_wrt (\<lambda>a b. pe_pose_timestamp b < pe_pose_timestamp a) (take 99 (rev es))"
    by (rule sorted_wrt_take) (simp add: sorted_wrt_rev assms(1))
  moreover have "e \<in> set (take 99 (rev es))" using assms(2) by (simp add: take_rev)
  ultimately have "pick_pose (pe_pose_timestamp e) (take 99 (rev es)) = Some e" by (rule pick_pose_found)
  then show ?thesis using assms(3) by (simp add: lookup_pose_pick TRACKING_STATE_CACHE_SIZE_def)
qed

lemma find_append: "find P (xs @ ys) = (case find P xs of None \<Rightarrow> find P ys | Some x \<Rightarrow> Some x)"
  by (induction xs) auto

lemma find_outside: "\<forall>x \<in> set xs. \<not> P x \<Longrightarrow> find P xs = None"
  by (induction xs) auto

lemma pick_pose_find:
  "sorted_wrt (\<lambda>a b. pe_pose_timestamp b \<le> pe_pose_timestamp a) xs \<Longrightarrow> pick_pose t xs = find (\<lambda>e. pe_pose_timestamp e = t) xs"
proof (induction xs)
  case (Cons x xs)
  have "find (\<lambda>e. pe_pose_timestamp e = t) xs = None" if "pe_pose_timestamp x < t"
    using Cons.prems that by (intro find_outside) auto
  with Cons show ?case by auto
qed simp

text \<open>C18: the pose cache gives access to the past poses, as its declaration promises: while the time stamps do
  not wrap around, the search ends and finds the most recent of the last 100 stored poses that has the
  time stamp, and nothing when there is none. Left out are the stamp 0 and the stamp of the oldest of the
  100 poses.\<close>

theorem pose_cache_refines_history:
  assumes "sorted_wrt (\<lambda>a b. pe_pose_timestamp a \<le> pe_pose_timestamp b) es" "t \<noteq> 0"
    and "TRACKING_STATE_CACHE_SIZE \<le> length es \<longrightarrow> pe_pose_timestamp (rev es ! (TRACKING_STATE_CACHE_SIZE - 1)) \<noteq> t"
  shows "find_old_pose t (stored es) = Some (find (\<lambda>e. pe_pose_timestamp e = t) (take TRACKING_STATE_CACHE_SIZE (rev es)))"
proof -
  have "sorted_wrt (\<lambda>a b. pe_pose_timestamp b \<le> pe_pose_timestamp a) (take 99 (rev es))"
    by (rule sorted_wrt_take) (simp add: sorted_wrt_rev assms(1))
  then have "lookup_pose t (rev es) = find (\<lambda>e. pe_pose_timestamp e = t) (take 99 (rev es))"
    using assms(2) by (simp add: lookup_pose_pick TRACKING_STATE_CACHE_SIZE_def pick_pose_find)
  also have "\<dots> = find (\<lambda>e. pe_pose_timestamp e = t) (take 100 (rev es))"
  proof (cases "100 \<le> length es")
    case True
    then have "take 100 (rev es) = take 99 (rev es) @ [rev es ! 99]"
      using take_Suc_conv_app_nth [of 99 "rev es"] by simp
    then show ?thesis
      using True assms(3) by (simp add: find_append TRACKING_STATE_CACHE_SIZE_def split: option.split)
  qed simp
  finally show ?thesis
    by (simp add: find_old_pose_history [OF cache_holds_stored] TRACKING_STATE_CACHE_SIZE_def)
qed

definition example_pose :: "u32 \<Rightarrow> PoseCacheEntry" where
  "example_pose t = empty_entry\<lparr>pe_pose_timestamp := t\<rparr>"

theorem pose_cache_refines_history_witness:
  "find_old_pose 5 (stored [example_pose 3, example_pose 5, example_pose 9]) = Some (Some (example_pose 5))"
  using pose_cache_refines_history [of "[example_pose 3, example_pose 5, example_pose 9]" 5]
  by (simp add: example_pose_def TRACKING_STATE_CACHE_SIZE_def)

text \<open>The pose that is 100 stores old is still in its slot, but the search stops in front of it.\<close>

lemma oldest_pose_not_found:
  assumes "sorted_wrt (\<lambda>a b. pe_pose_timestamp a < pe_pose_timestamp b) (e # es)" "length es = 99"
  shows "find_old_pose (pe_pose_timestamp e) (stored (e # es)) = Some None"
proof -
  have "pick_pose (pe_pose_timestamp e) (rev es) = None"
    by (rule pick_pose_newer) (use assms(1) in simp)
  moreover have "take 99 (rev (e # es)) = rev es" using assms(2) by simp
  ultimately have "lookup_pose (pe_pose_timestamp e) (rev (e # es)) = None"
    unfolding lookup_pose_pick TRACKING_STATE_CACHE_SIZE_def by (simp del: take_append rev.simps)
  then show ?thesis by (simp add: find_old_pose_history [OF cache_holds_stored])
qed

text \<open>Stamps wrap around every 13 hours: just after that, no pose from before is found.\<close>

lemma wrapped_pose_not_found:
  assumes "pe_pose_timestamp new < pe_pose_timestamp old"
  shows "find_old_pose (pe_pose_timestamp old) (stored [old, new]) = Some None"
  using assms by (auto simp: find_old_pose_history [OF cache_holds_stored] lookup_pose_def TRACKING_STATE_CACHE_SIZE_def)

end
