(* ===== verification/VrSystem.thy ===== *)
theory VrSystem
  imports Buckets VrPoses VideoDecoders
begin

text \<open>
  \<open>wvb_client/src/vr_system.cpp\<close>: sessions, tracking, decoding and rendering on the headset. OpenXR,
  OpenGL ES, the decoder and the clocks are seen through their answers, which are arguments, and their
  calls, which are recorded in \<open>vr_calls\<close>. Handles are numbers, 0 the null handle. Log messages are not
  modelled, and neither are the calls that only check or set OpenGL state.
\<close>

section \<open>Results of OpenXR\<close>

datatype xr_result = XR_SUCCESS | XR_ERROR_RUNTIME_UNAVAILABLE | XR_OTHER int

text \<open>Only a missing runtime raises an exception; other results give \<open>False\<close>, which most callers drop.\<close>

definition xr_check :: "xr_result \<Rightarrow> bool result" where
  "xr_check r =
     (if r = XR_ERROR_RUNTIME_UNAVAILABLE then Inl (RuntimeError ''Unrecoverable OpenXR error'')
      else Inr (r = XR_SUCCESS))"

text \<open>\<open>check\<close> ends the process.\<close>

definition vr_check :: "bool \<Rightarrow> string \<Rightarrow> unit result" where
  "vr_check b message = (if b then Inr () else Inl (RuntimeError (''exit(1): '' @ message)))"

text \<open>The conversions of time of the runtime, with the value that the output variable has afterwards.\<close>

record xr_runtime =
  xr_time_of_timespec :: "timespec \<Rightarrow> xr_result \<times> int"
  xr_timespec_of_time :: "int \<Rightarrow> xr_result \<times> timespec"

section \<open>The state\<close>

record VrFrameInfo =
  vi_frame_id :: u32
  vi_end_of_stream :: bool
  vi_pose_timestamp :: u32
  vi_push_timestamp :: u32
  vi_last_packet_received_timestamp :: u32
  vi_frame_size :: u64
  vi_should_save_frame :: bool

record XrFrameState =
  predictedDisplayTime :: int
  shouldRender :: bool

definition no_frame_state :: XrFrameState where
  "no_frame_state = \<lparr>predictedDisplayTime = 0, shouldRender = False\<rparr>"

datatype vr_call =
    Xr_begin_session | Xr_end_session | Xr_performance_levels
  | Xr_wait_frame | Xr_begin_frame | Xr_acquire_image | Xr_wait_image | Xr_release_image
  | Xr_locate_views int | Xr_locate_space int
  | Xr_end_frame int "eye_views option"
  | Xr_destroy_swapchain nat | Xr_destroy_session nat | Xr_destroy_instance nat
  | Egl_destroy_context nat | Egl_terminate nat
  | Gl_finish | Gl_delete_program u32 | Gl_read_pixels u32 u32
  | Draw_frame u32 "u32 list" u32 u32 u32 bool bool
  | Decoder_init | Decoder_push VrFrameInfo | Decoder_pull "VrFrameInfo option"

text \<open>\<open>'d\<close> is the state of the video decoder.\<close>

record 'd vr_data =
  vr_measurements :: ClientMeasurementBucket
  vr_decoder :: "'d option"
  vr_infos :: "VrFrameInfo list"
  vr_decoder_initialized :: bool
  vr_specs :: VRSystemSpecs
  vr_instance :: nat
  vr_session :: nat
  vr_swapchain :: nat
  vr_latest_frame_pose_timestamp :: u32
  vr_frames_in_advance :: u32
  vr_pose_cache :: pose_cache
  vr_frame_state :: XrFrameState
  vr_debug_pose :: PoseCacheEntry
  vr_app :: bool
  vr_native_window :: bool
  vr_egl_display :: nat
  vr_egl_context :: nat
  vr_accumulated_delay :: u8
  vr_framebuffers :: "(u32 \<times> u32) list"
  vr_program_nv12 :: u32
  vr_program_rgba :: u32
  vr_program_bgra :: u32
  vr_last_texture :: "GLFrameTexture option"
  vr_last_info :: "VrFrameInfo option"
  vr_session_running :: bool
  vr_app_running :: bool
  vr_should_exit :: bool
  vr_frame_index :: u64
  vr_rtp_clock :: RTPClock
  vr_calls :: "vr_call list"

definition vr_call :: "vr_call \<Rightarrow> 'd vr_data \<Rightarrow> 'd vr_data" where
  "vr_call c s = s\<lparr>vr_calls := vr_calls s @ [c]\<rparr>"

definition new_vr_system :: "VRSystemSpecs \<Rightarrow> RTPClock \<Rightarrow> ClientMeasurementBucket \<Rightarrow> 'd vr_data" where
  "new_vr_system specs clock bucket =
     \<lparr>vr_measurements = bucket, vr_decoder = None, vr_infos = [], vr_decoder_initialized = False, vr_specs = specs,
      vr_instance = 0, vr_session = 0, vr_swapchain = 0, vr_latest_frame_pose_timestamp = 0, vr_frames_in_advance = 3,
      vr_pose_cache = reset_pose_cache, vr_frame_state = no_frame_state, vr_debug_pose = empty_entry, vr_app = False,
      vr_native_window = False, vr_egl_display = 0, vr_egl_context = 0, vr_accumulated_delay = 0, vr_framebuffers = [],
      vr_program_nv12 = 0, vr_program_rgba = 0, vr_program_bgra = 0, vr_last_texture = None, vr_last_info = None,
      vr_session_running = False, vr_app_running = False, vr_should_exit = False, vr_frame_index = 0,
      vr_rtp_clock = clock, vr_calls = []\<rparr>"

section \<open>Times\<close>

definition vr_to_xr_time :: "xr_runtime \<Rightarrow> u32 \<Rightarrow> 'd vr_data \<Rightarrow> int result" where
  "vr_to_xr_time rt t s =
     (case xr_time_of_timespec rt (rtp_to_timespec (vr_rtp_clock s) t) of
        (r, x) \<Rightarrow> and_then (xr_check r) (\<lambda>_. Inr x))"

definition vr_to_rtp_timestamp :: "xr_runtime \<Rightarrow> int \<Rightarrow> 'd vr_data \<Rightarrow> u32 result" where
  "vr_to_rtp_timestamp rt x s =
     (case xr_timespec_of_time rt x of
        (r, ts) \<Rightarrow> and_then (xr_check r) (\<lambda>_. Inr (rtp_timestamp_from_timespec (vr_rtp_clock s) ts)))"

definition vr_to_rtp_time_point :: "xr_runtime \<Rightarrow> int \<Rightarrow> 'd vr_data \<Rightarrow> int result" where
  "vr_to_rtp_time_point rt x s =
     and_then (vr_to_rtp_timestamp rt x s) (\<lambda>t.
       Inr (from_timespec (vr_rtp_clock s) (rtp_to_timespec (vr_rtp_clock s) t)))"

section \<open>The session\<close>

datatype xr_session_state = SESSION_READY | SESSION_STOPPING | SESSION_EXITING | SESSION_LOSS_PENDING | SESSION_OTHER

datatype xr_event = Instance_loss_pending | Session_state_changed xr_session_state | Other_event

text \<open>The results of beginning the session and of the two performance settings. The first is dropped.\<close>

definition begin_session :: "xr_result \<Rightarrow> xr_result \<Rightarrow> xr_result \<Rightarrow> 'd vr_data \<Rightarrow> 'd vr_data result" where
  "begin_session r_begin r_cpu r_gpu s =
     (if vr_session_running s then Inr s
      else and_then (xr_check r_begin) (\<lambda>_. and_then (xr_check r_cpu) (\<lambda>_. and_then (xr_check r_gpu) (\<lambda>_.
        Inr ((vr_call Xr_performance_levels (vr_call Xr_begin_session s))\<lparr>vr_session_running := True\<rparr>)))))"

definition end_session :: "xr_result \<Rightarrow> 'd vr_data \<Rightarrow> 'd vr_data result" where
  "end_session r_end s =
     (if vr_session_running s
      then and_then (xr_check r_end) (\<lambda>_. Inr ((vr_call Xr_end_session s)\<lparr>vr_session_running := False\<rparr>))
      else Inr s)"

text \<open>A polled event with the results of the session calls that it may lead to.\<close>

record session_answers =
  sa_begin :: xr_result
  sa_cpu_level :: xr_result
  sa_gpu_level :: xr_result
  sa_end :: xr_result

definition handle_event :: "xr_event \<Rightarrow> session_answers \<Rightarrow> 'd vr_data \<Rightarrow> 'd vr_data result" where
  "handle_event e a s =
     (case e of
        Instance_loss_pending \<Rightarrow> Inr s
      | Session_state_changed st \<Rightarrow>
          (case st of
             SESSION_READY \<Rightarrow> begin_session (sa_begin a) (sa_cpu_level a) (sa_gpu_level a) s
           | SESSION_STOPPING \<Rightarrow> end_session (sa_end a) s
           | SESSION_EXITING \<Rightarrow> Inr (s\<lparr>vr_should_exit := True\<rparr>)
           | SESSION_LOSS_PENDING \<Rightarrow> Inr s
           | SESSION_OTHER \<Rightarrow> Inr s)
      | Other_event \<Rightarrow> Inr s)"

text \<open>The events that the runtime has; polling ends at the first result that is not a success.\<close>

fun vr_poll_events :: "(xr_event \<times> session_answers) list \<Rightarrow> 'd vr_data \<Rightarrow> 'd vr_data result" where
  "vr_poll_events [] s = Inr s"
| "vr_poll_events ((e, a) # es) s = and_then (handle_event e a s) (vr_poll_events es)"

definition vr_handle_events :: "(xr_event \<times> session_answers) list \<Rightarrow> 'd vr_data \<Rightarrow> 'd vr_data result" where
  "vr_handle_events es s = (if \<not> vr_app s then Inr s else vr_poll_events es s)"

section \<open>The decoder\<close>

definition vr_set_decoder :: "'d option \<Rightarrow> 'd vr_data \<Rightarrow> 'd vr_data result" where
  "vr_set_decoder d s =
     (if d = None then Inl (RuntimeError ''Video decoder must not be null'')
      else Inr (s\<lparr>vr_decoder := d, vr_decoder_initialized := False\<rparr>))"

definition vr_init_decoder :: "('d \<Rightarrow> 'd) \<Rightarrow> 'd vr_data \<Rightarrow> bool \<times> 'd vr_data" where
  "vr_init_decoder init s =
     (case vr_decoder s of
        Some d \<Rightarrow>
          if vr_decoder_initialized s then (True, s)
          else (True, (vr_call Decoder_init s)\<lparr>vr_decoder := Some (init d), vr_decoder_initialized := True\<rparr>)
      | None \<Rightarrow> (vr_decoder_initialized s, s))"

definition vr_push_frame_data ::
    "(bytes \<Rightarrow> bool \<Rightarrow> 'd \<Rightarrow> (bool \<times> 'd) result) \<Rightarrow> clock_env \<Rightarrow> bytes \<Rightarrow> u32 \<Rightarrow> bool \<Rightarrow> u32 \<Rightarrow> u32 \<Rightarrow> bool
     \<Rightarrow> 'd vr_data \<Rightarrow> (bool \<times> 'd vr_data) result" where
  "vr_push_frame_data push e data frame_id end_of_stream pose_timestamp last_packet save_frame s =
     (case vr_decoder s of
        None \<Rightarrow> Inl (RuntimeError ''Video decoder must not be null'')
      | Some d \<Rightarrow>
          if \<not> vr_decoder_initialized s then Inl (RuntimeError ''Video decoder must not be null'')
          else and_then (push data end_of_stream d) (\<lambda>(pushed, d').
            let s1 = s\<lparr>vr_app_running := True, vr_decoder := Some d'\<rparr>;
                info = \<lparr>vi_frame_id = frame_id, vi_end_of_stream = end_of_stream, vi_pose_timestamp = pose_timestamp,
                  vi_push_timestamp = now_rtp_timestamp e (vr_rtp_clock s),
                  vi_last_packet_received_timestamp = last_packet, vi_frame_size = of_nat (length data),
                  vi_should_save_frame = save_frame\<rparr>
            in Inr (pushed,
                 if pushed
                 then (vr_call (Decoder_push info) s1)\<lparr>vr_measurements := add_decoder_pushed_frame (vr_measurements s),
                        vr_infos := vr_infos s @ [info]\<rparr>
                 else s1)))"

text \<open>The frame and its info; the flag tells whether there was a frame.\<close>

definition get_frame_from_decoder ::
    "('d \<Rightarrow> (GLFrameTexture option \<times> 'd) result) \<Rightarrow> 'd vr_data
     \<Rightarrow> (GLFrameTexture option \<times> VrFrameInfo option \<times> bool \<times> 'd vr_data) result" where
  "get_frame_from_decoder pull s =
     (case vr_decoder s of
        None \<Rightarrow> Inr (None, None, False, s)
      | Some d \<Rightarrow>
          if \<not> vr_decoder_initialized s then Inr (None, None, False, s)
          else case pull d of
            Inl e \<Rightarrow> Inl e
          | Inr (None, d') \<Rightarrow> Inr (None, None, False, s\<lparr>vr_decoder := Some d'\<rparr>)
          | Inr (Some f, d') \<Rightarrow>
              let s1 = s\<lparr>vr_decoder := Some d', vr_last_texture := Some f,
                    vr_measurements := add_decoder_pulled_frame (vr_measurements s)\<rparr>
              in case vr_infos s of
                   [] \<Rightarrow> Inr (Some f, None, True, vr_call (Decoder_pull None) s1)
                 | i # is' \<Rightarrow> Inr (Some f, Some i, True,
                     (vr_call (Decoder_pull (Some i)) s1)\<lparr>vr_infos := is', vr_last_info := Some i\<rparr>))"

definition vr_get_decoder_frame_delay :: "('d \<Rightarrow> u32) \<Rightarrow> 'd vr_data \<Rightarrow> u32" where
  "vr_get_decoder_frame_delay delay s = (case vr_decoder s of None \<Rightarrow> 0 | Some d \<Rightarrow> delay d)"

section \<open>Choosing the frame to render\<close>

definition LARGE_QUEUE_CATCHUP_THRESHOLD :: nat where "LARGE_QUEUE_CATCHUP_THRESHOLD = 0"

definition must_catch_up :: "'d vr_data \<Rightarrow> bool" where
  "must_catch_up s \<longleftrightarrow> vr_accumulated_delay s > 0 \<or> length (vr_infos s) > LARGE_QUEUE_CATCHUP_THRESHOLD"

lemma pulled_progress:
  assumes "get_frame_from_decoder pull s = Inr (f, i, True, s1)"
  shows "vr_infos s1 = tl (vr_infos s)" "vr_accumulated_delay s1 = vr_accumulated_delay s"
  using assms by (auto simp: get_frame_from_decoder_def vr_call_def Let_def split: option.splits if_splits sum.splits list.splits)

definition caught_up :: "clock_now \<Rightarrow> 'd vr_data \<Rightarrow> 'd vr_data" where
  "caught_up clk s = s\<lparr>vr_accumulated_delay := (if vr_accumulated_delay s > 0 then vr_accumulated_delay s - 1 else vr_accumulated_delay s),
     vr_measurements := add_catched_up_frame clk (vr_measurements s)\<rparr>"

text \<open>The loop pulls frames while there is a delay or an info in the queue; it ends in any case.\<close>

function vr_catch_up ::
    "('d \<Rightarrow> (GLFrameTexture option \<times> 'd) result) \<Rightarrow> clock_now \<Rightarrow> GLFrameTexture option \<Rightarrow> VrFrameInfo option
     \<Rightarrow> 'd vr_data \<Rightarrow> (GLFrameTexture option \<times> VrFrameInfo option \<times> 'd vr_data) result" where
  "vr_catch_up pull clk frame info s =
     (if \<not> must_catch_up s then Inr (frame, info, s)
      else case get_frame_from_decoder pull s of
        Inl e \<Rightarrow> Inl e
      | Inr (frame1, info1, has_frame, s1) \<Rightarrow>
          if has_frame then vr_catch_up pull clk frame1 info1 (caught_up clk s1)
          else Inr (vr_last_texture s1, vr_last_info s1, s1))"
  by pat_completeness auto

lemma unat_minus_1: "0 < (x :: u8) \<Longrightarrow> unat (x - 1) = unat x - 1"
  by (rule unat_minus_one) auto

termination vr_catch_up
proof (relation "measure (\<lambda>(pull, clk, frame, info, s). unat (vr_accumulated_delay s) + length (vr_infos s))", goal_cases)
  case (2 pull clk frame info s p frame1 q info1 r has_frame s1)
  then have got: "get_frame_from_decoder pull s = Inr (frame1, info1, True, s1)" by simp
  note s1 = pulled_progress [OF got]
  have "unat (if vr_accumulated_delay s > 0 then vr_accumulated_delay s - 1 else vr_accumulated_delay s)
      + length (tl (vr_infos s)) < unat (vr_accumulated_delay s) + length (vr_infos s)"
  proof (cases "vr_accumulated_delay s > 0")
    case True
    then have "unat (vr_accumulated_delay s) > 0" by (simp add: word_less_nat_alt)
    then show ?thesis using True by (simp add: unat_minus_1)
  next
    case False
    then show ?thesis using 2(1) by (simp add: must_catch_up_def LARGE_QUEUE_CATCHUP_THRESHOLD_def)
  qed
  then show ?case by (simp add: caught_up_def s1 split: if_splits)
qed simp

declare vr_catch_up.simps [simp del]

end
