(* ===== verification/VrFrames.thy ===== *)
theory VrFrames
  imports VrSystem
begin

text \<open>
  \<open>wvb_client/src/vr_system.cpp\<close>, second part: a frame of the headset, from waiting for it to submitting
  it, the tracking states that are sent to the server, the frames that are saved, and the shutdown.
\<close>

section \<open>Choosing the frame\<close>

definition reuse_last_frame ::
    "clock_now \<Rightarrow> GLFrameTexture option \<Rightarrow> VrFrameInfo option \<Rightarrow> 'd vr_data
     \<Rightarrow> GLFrameTexture option \<times> VrFrameInfo option \<times> 'd vr_data" where
  "reuse_last_frame clk frame info s =
     (let (frame1, s1) =
        (if frame = None \<and> vr_last_texture s \<noteq> None
         then (vr_last_texture s, s\<lparr>vr_accumulated_delay := vr_accumulated_delay s + 1,
                 vr_measurements := add_dropped_frames clk 1 (vr_measurements s)\<rparr>)
         else (frame, s))
      in (frame1, if info = None \<and> vr_last_info s1 \<noteq> None then vr_last_info s1 else info, s1))"

definition choose_frame ::
    "('d \<Rightarrow> (GLFrameTexture option \<times> 'd) result) \<Rightarrow> clock_now \<Rightarrow> 'd vr_data
     \<Rightarrow> (GLFrameTexture option \<times> VrFrameInfo option \<times> 'd vr_data) result" where
  "choose_frame pull clk s =
     and_then (get_frame_from_decoder pull s) (\<lambda>(frame, info, has_frame, s1).
     and_then (vr_catch_up pull clk frame info s1) (\<lambda>(frame2, info2, s2). Inr (reuse_last_frame clk frame2 info2 s2)))"

section \<open>Drawing\<close>

text \<open>An extent of 0 stands for the resolution of an eye.\<close>

definition draw_frame ::
    "GLFrameTexture \<Rightarrow> u32 \<Rightarrow> u32 \<times> u32 \<Rightarrow> bool \<Rightarrow> bool \<Rightarrow> 'd vr_data \<Rightarrow> bool \<times> 'd vr_data" where
  "draw_frame frame framebuffer extent flip_y split_texture s =
     (let w = (if fst extent = 0 then ext_width (eye_resolution (vr_specs s)) else fst extent);
          h = (if snd extent = 0 then ext_height (eye_resolution (vr_specs s)) else snd extent);
          draw = (\<lambda>program n. (True, vr_call (Draw_frame program (take n (gt_textures frame)) framebuffer w h flip_y split_texture) s))
      in case gt_format frame of
           NV12 \<Rightarrow> draw (vr_program_nv12 s) 2
         | R8G8B8A8_UNORM \<Rightarrow> draw (vr_program_rgba s) 1
         | B8G8R8A8_UNORM \<Rightarrow> draw (vr_program_bgra s) 1
         | IF_ANY \<Rightarrow> (False, s)
         | U8Y8V8Y8_UNORM \<Rightarrow> (False, s))"

section \<open>The pose of a frame\<close>

text \<open>
  What rendering a frame meets: results of OpenXR with their outputs, and readings of the clock. \<open>None\<close> stands
  for an output variable that the call did not write; the three have no initial value.
\<close>

record render_answers =
  ra_begin :: xr_result
  ra_acquire :: "xr_result \<times> nat option"
  ra_wait_image :: xr_result
  ra_release :: xr_result
  ra_locate_count :: "xr_result \<times> nat option"
  ra_locate :: "xr_result \<times> eye_views option"
  ra_end :: xr_result
  ra_begin_clock :: clock_env
  ra_image_clock :: clock_env
  ra_render_clock :: clock_env
  ra_end_clock :: clock_env
  ra_clk :: clock_now

definition use_entry ::
    "PoseCacheEntry \<Rightarrow> ClientFrameTimeMeasurements \<Rightarrow> eye_views \<times> int \<times> ClientFrameTimeMeasurements" where
  "use_entry e t = (pe_views e, pe_xr_time e,
     t\<lparr>cf_tracking_timestamp := pe_sample_timestamp e, cf_pose_timestamp := pe_pose_timestamp e\<rparr>)"

definition out_value :: "'a option \<Rightarrow> 'a result" where
  "out_value v = (case v of None \<Rightarrow> Inl (UndefinedBehaviour ''read of a variable without a value'') | Some x \<Rightarrow> Inr x)"

text \<open>
  The views that a frame with the given pose stamp is submitted with: those of its pose, else those of the
  last frame whose pose was found, else the ones that the runtime now predicts for that time.
\<close>

definition choose_views ::
    "xr_runtime \<Rightarrow> render_answers \<Rightarrow> u32 \<Rightarrow> ClientFrameTimeMeasurements \<Rightarrow> 'd vr_data
     \<Rightarrow> ((eye_views \<times> int \<times> ClientFrameTimeMeasurements) \<times> 'd vr_data) result" where
  "choose_views rt a stamp t s =
     (case find_old_pose stamp (vr_pose_cache s) of
        None \<Rightarrow> Inl (UndefinedBehaviour ''endless search of the pose cache'')
      | Some (Some e) \<Rightarrow> Inr (use_entry e t, s\<lparr>vr_debug_pose := e\<rparr>)
      | Some None \<Rightarrow>
          if pe_pose_timestamp (vr_debug_pose s) \<noteq> 0 then Inr (use_entry (vr_debug_pose s) t, s)
          else and_then (vr_to_xr_time rt stamp s) (\<lambda>x.
               and_then (xr_check (fst (ra_locate_count a))) (\<lambda>_.
               and_then (out_value (snd (ra_locate_count a))) (\<lambda>n.
               and_then (vr_check (n = 2) ''Unexpected number of views'') (\<lambda>_.
               and_then (xr_check (fst (ra_locate a))) (\<lambda>_.
               and_then (out_value (snd (ra_locate a))) (\<lambda>views.
                 Inr ((views, x, t), vr_call (Xr_locate_views x) (vr_call (Xr_locate_views x) s)))))))))"

section \<open>Rendering a frame\<close>

text \<open>A frame with its info: the measurements take its data, and it is drawn into the swapchain image.\<close>

definition draw_to_swapchain ::
    "render_answers \<Rightarrow> GLFrameTexture option \<Rightarrow> VrFrameInfo option \<Rightarrow> ClientFrameTimeMeasurements \<Rightarrow> 'd vr_data
     \<Rightarrow> (bool \<times> ClientFrameTimeMeasurements \<times> 'd vr_data) result" where
  "draw_to_swapchain a frame info t s =
     (case (frame, info) of
        (Some f, Some i) \<Rightarrow>
          and_then (out_value (snd (ra_acquire a))) (\<lambda>image.
            if length (vr_framebuffers s) \<le> image then Inl (UndefinedBehaviour ''image index out of range'')
            else case draw_frame f (fst (vr_framebuffers s ! image)) (0, 0) True True s of
              (drawn, s1) \<Rightarrow> Inr (drawn, t\<lparr>cf_frame_id := vi_frame_id i,
                 cf_last_packet_received_timestamp := vi_last_packet_received_timestamp i,
                 cf_pushed_to_decoder_timestamp := vi_push_timestamp i\<rparr>, s1))
      | _ \<Rightarrow> Inr (False, t, s))"

text \<open>The image of the frame, when the runtime wants one: its info and texture, the layer and its time.\<close>

type_synonym rendered = "(VrFrameInfo \<times> GLFrameTexture) option"

definition render_image ::
    "xr_runtime \<Rightarrow> ('d \<Rightarrow> (GLFrameTexture option \<times> 'd) result) \<Rightarrow> render_answers \<Rightarrow> ClientFrameTimeMeasurements
     \<Rightarrow> 'd vr_data \<Rightarrow> (rendered \<times> eye_views option \<times> int \<times> ClientFrameTimeMeasurements \<times> 'd vr_data) result" where
  "render_image rt pull a t s0 =
     and_then (xr_check (fst (ra_acquire a))) (\<lambda>_.
     and_then (xr_check (ra_wait_image a)) (\<lambda>_.
     let t1 = t\<lparr>cf_after_wait_swapchain_timestamp := now_rtp_timestamp (ra_image_clock a) (vr_rtp_clock s0)\<rparr>;
         s1 = vr_call Xr_wait_image (vr_call Xr_acquire_image s0) in
     and_then (choose_frame pull (ra_clk a) s1) (\<lambda>(frame, info, s2).
     and_then (draw_to_swapchain a frame info t1 s2) (\<lambda>(drawn, t2, s3).
     and_then (xr_check (ra_release a)) (\<lambda>_.
     let t3 = t2\<lparr>cf_after_render_timestamp := now_rtp_timestamp (ra_render_clock a) (vr_rtp_clock s0)\<rparr>;
         s4 = vr_call Xr_release_image s3 in
     case (drawn, frame, info) of
       (True, Some f, Some i) \<Rightarrow>
         and_then (choose_views rt a (vi_pose_timestamp i) t3 s4) (\<lambda>((views, x, t4), s5).
           Inr (Some (i, f), Some views, x, t4, s5))
     | _ \<Rightarrow> Inr (None, None, predictedDisplayTime (vr_frame_state s4), t3, s4))))))"

text \<open>The frames of advance: the distance from the sample to the presentation, in frames, less one.\<close>

definition update_advance :: "ClientFrameTimeMeasurements \<Rightarrow> 'd vr_data \<Rightarrow> 'd vr_data result" where
  "update_advance t s =
     (if cf_tracking_timestamp t = 0 then Inr s
      else and_then (inter_frame_delay_us (refresh_rate (vr_specs s))) (\<lambda>d.
        if d = 0 then Inl (UndefinedBehaviour ''division by zero'')
        else Inr (s\<lparr>vr_frames_in_advance := word_of_int (rtp_timestamps_distance_us (cf_tracking_timestamp t)
               (cf_predicted_present_timestamp t) (vr_rtp_clock s) sdiv uint d - 1)\<rparr>)))"

definition measure_quality :: "clock_now \<Rightarrow> rendered \<Rightarrow> 'd vr_data \<Rightarrow> 'd vr_data" where
  "measure_quality clk r s =
     (case r of None \<Rightarrow> s
      | Some (i, f) \<Rightarrow> s\<lparr>vr_measurements := client_add_image_quality_measurement clk
          \<lparr>iq_frame_id = vi_frame_id i, iq_codestream_size = ucast (vi_frame_size i), iq_raw_size = ucast (gt_size f),
           iq_psnr = 0\<rparr> (vr_measurements s)\<rparr>)"

definition render_frame ::
    "xr_runtime \<Rightarrow> ('d \<Rightarrow> (GLFrameTexture option \<times> 'd) result) \<Rightarrow> render_answers \<Rightarrow> ClientFrameTimeMeasurements
     \<Rightarrow> 'd vr_data \<Rightarrow> (ClientFrameTimeMeasurements \<times> 'd vr_data) result" where
  "render_frame rt pull a t s0 =
     (let t1 = t\<lparr>cf_begin_frame_timestamp := now_rtp_timestamp (ra_begin_clock a) (vr_rtp_clock s0)\<rparr>;
          s1 = vr_call Xr_begin_frame s0 in
      and_then (xr_check (ra_begin a)) (\<lambda>_.
      and_then (if shouldRender (vr_frame_state s1) then render_image rt pull a t1 s1
                else Inr (None, None, predictedDisplayTime (vr_frame_state s1), t1, s1)) (\<lambda>(r, layer, x, t2, s2).
      and_then (xr_check (ra_end a)) (\<lambda>_.
      let s3 = vr_call (Xr_end_frame x layer) s2 in
      and_then (if vr_app_running s3 \<and> vr_frame_index s3 mod 100 = 0
                then xr_check (fst (xr_timespec_of_time rt (predictedDisplayTime (vr_frame_state s3)))) else Inr True) (\<lambda>_.
      let t3 = t2\<lparr>cf_end_frame_timestamp := now_rtp_timestamp (ra_end_clock a) (vr_rtp_clock s3)\<rparr> in
      and_then (update_advance t3 s3) (\<lambda>s4.
        Inr (t3, measure_quality (ra_clk a) r s4)))))))"

definition vr_render ::
    "xr_runtime \<Rightarrow> ('d \<Rightarrow> (GLFrameTexture option \<times> 'd) result) \<Rightarrow> render_answers \<Rightarrow> ClientFrameTimeMeasurements
     \<Rightarrow> 'd vr_data \<Rightarrow> (ClientFrameTimeMeasurements \<times> 'd vr_data) result" where
  "vr_render rt pull a t s = (if vr_session_running s then render_frame rt pull a t s else Inr (t, s))"

text \<open>Waiting for the next frame; the runtime fills in its state.\<close>

definition vr_new_frame ::
    "xr_runtime \<Rightarrow> xr_result \<Rightarrow> XrFrameState \<Rightarrow> clock_env \<Rightarrow> ClientFrameTimeMeasurements \<Rightarrow> 'd vr_data
     \<Rightarrow> (bool \<times> ClientFrameTimeMeasurements \<times> 'd vr_data) result" where
  "vr_new_frame rt r_wait fs e t s =
     (if \<not> vr_session_running s then Inr (False, t, s)
      else
        let s1 = (vr_call Xr_wait_frame s)\<lparr>vr_frame_index := vr_frame_index s + 1, vr_frame_state := fs\<rparr>;
            t1 = t\<lparr>cf_frame_index := ucast (vr_frame_index s1), cf_tracking_timestamp := 0, cf_pose_timestamp := 0,
                   cf_begin_wait_frame_timestamp := now_rtp_timestamp e (vr_rtp_clock s)\<rparr>
        in and_then (xr_check r_wait) (\<lambda>_.
           and_then (vr_to_rtp_timestamp rt (predictedDisplayTime fs) s1) (\<lambda>p.
             Inr (True, t1\<lparr>cf_predicted_present_timestamp := p\<rparr>, s1))))"

section \<open>Tracking\<close>

record pose_answers =
  pa_views :: "xr_result \<times> eye_views"
  pa_head :: "xr_result \<times> XrPosef"
  pa_sampled :: clock_env
  pa_processed :: clock_env
  pa_clk :: clock_now

definition vr_get_pose ::
    "xr_runtime \<Rightarrow> pose_answers \<Rightarrow> int \<Rightarrow> 'd vr_data \<Rightarrow> (TrackingState option \<times> 'd vr_data) result" where
  "vr_get_pose rt a x s0 =
     (let sampled = now_rtp_timestamp (pa_sampled a) (vr_rtp_clock s0); s1 = vr_call (Xr_locate_views x) s0 in
      and_then (xr_check (fst (pa_views a))) (\<lambda>ok.
      if \<not> ok then Inr (None, s1)
      else let s2 = vr_call (Xr_locate_space x) s1; views = snd (pa_views a) in
        and_then (xr_check (fst (pa_head a))) (\<lambda>ok2.
        if \<not> ok2 then Inr (None, s2)
        else and_then (vr_to_rtp_timestamp rt x s2) (\<lambda>stamp.
          Inr (Some \<lparr>ts_sample_timestamp = sampled, ts_pose_timestamp = stamp, ts_pose = to_pose (snd (pa_head a)),
                 ts_fov_left = to_fov (snd (fst views)), ts_fov_right = to_fov (snd (snd views))\<rparr>,
               s2\<lparr>vr_pose_cache := store_pose \<lparr>pe_pose_timestamp = stamp, pe_sample_timestamp = sampled, pe_xr_time = x,
                    pe_views = views\<rparr> (vr_pose_cache s2),
                  vr_measurements := client_add_tracking_time_measurement (pa_clk a)
                    \<lparr>tt_pose_timestamp = stamp, tt_tracking_received_timestamp = sampled,
                     tt_tracking_processed_timestamp = now_rtp_timestamp (pa_processed a) (vr_rtp_clock s2)\<rparr>
                    (vr_measurements s2)\<rparr>)))))"

text \<open>One frame after the predicted display: the sum is in units of 1/9 microsecond and cut to ticks.\<close>

definition vr_get_next_tracking_state ::
    "xr_runtime \<Rightarrow> pose_answers \<Rightarrow> 'd vr_data \<Rightarrow> (TrackingState option \<times> 'd vr_data) result" where
  "vr_get_next_tracking_state rt a s =
     and_then (vr_to_rtp_time_point rt (predictedDisplayTime (vr_frame_state s)) s) (\<lambda>tp.
     and_then (inter_frame_delay_us (refresh_rate (vr_specs s))) (\<lambda>d.
     and_then (vr_to_xr_time rt (to_rtp_timestamp (vr_rtp_clock s) ((tp * 100 + uint d * 9) sdiv 100)) s) (\<lambda>x.
       vr_get_pose rt a x s)))"

section \<open>Saving a frame\<close>

text \<open>
  The pixels of both eyes are drawn into a new framebuffer and read back, four bytes each; \<open>read_pixels\<close>
  gives as many bytes as OpenGL is asked for. The size of the buffer is computed in 32 bits.
\<close>

definition vr_save_frame_if_needed ::
    "u32 \<Rightarrow> (nat \<Rightarrow> bytes) \<Rightarrow> 'd vr_data \<Rightarrow> (bool \<times> bytes option \<times> 'd vr_data) result" where
  "vr_save_frame_if_needed fbo read_pixels s =
     (case (vr_last_info s, vr_last_texture s) of
        (Some i, Some f) \<Rightarrow>
          if \<not> vi_should_save_frame i then Inr (False, None, s)
          else let w = ext_width (eye_resolution (vr_specs s)); h = ext_height (eye_resolution (vr_specs s)) in
            (case draw_frame f fbo (w * 2, h) False False s of
               (False, s1) \<Rightarrow> Inr (False, None, s1)
             | (True, s1) \<Rightarrow>
                 let n = unat (w * 2) * unat h * 4 in
                 if unat (w * h * 4 * 2) < n then Inl (UndefinedBehaviour ''write past the image'')
                 else Inr (True, Some (read_pixels n),
                   (vr_call (Gl_read_pixels (w * 2) h) s1)\<lparr>vr_last_info := Some (i\<lparr>vi_should_save_frame := False\<rparr>)\<rparr>))
      | _ \<Rightarrow> Inr (False, None, s))"

section \<open>Shutdown\<close>

definition vr_soft_shutdown :: "'d vr_data \<Rightarrow> 'd vr_data" where
  "vr_soft_shutdown s =
     (case vr_decoder s of None \<Rightarrow> s | Some d \<Rightarrow> s\<lparr>vr_decoder := None, vr_decoder_initialized := False\<rparr>)
     \<lparr>vr_latest_frame_pose_timestamp := 0, vr_frames_in_advance := 3, vr_frame_state := no_frame_state,
      vr_last_texture := None, vr_last_info := None, vr_frame_index := 0, vr_app_running := False, vr_infos := [],
      vr_pose_cache := reset_pose_cache, vr_debug_pose := empty_entry\<rparr>"

definition cleanup_gles :: "'d vr_data \<Rightarrow> 'd vr_data" where
  "cleanup_gles s =
     (if vr_program_nv12 s \<noteq> 0 then (vr_call (Gl_delete_program (vr_program_nv12 s)) s)\<lparr>vr_program_nv12 := 0\<rparr> else s)"

definition cleanup_egl :: "'d vr_data \<Rightarrow> 'd vr_data" where
  "cleanup_egl s =
     (let s1 = (if vr_egl_context s \<noteq> 0
                then (vr_call (Egl_destroy_context (vr_egl_context s)) s)\<lparr>vr_egl_context := 0\<rparr> else s)
      in if vr_egl_display s1 \<noteq> 0
         then (vr_call (Egl_terminate (vr_egl_display s1)) s1)\<lparr>vr_egl_display := 0\<rparr> else s1)"

record cleanup_answers =
  ca_end :: xr_result
  ca_swapchain :: xr_result
  ca_session :: xr_result
  ca_instance :: xr_result

definition cleanup_engine :: "cleanup_answers \<Rightarrow> 'd vr_data \<Rightarrow> 'd vr_data result" where
  "cleanup_engine a s0 =
     and_then (if vr_session s0 \<noteq> 0 then end_session (ca_end a) (vr_call Gl_finish s0) else Inr (vr_call Gl_finish s0)) (\<lambda>s1.
     and_then (if vr_swapchain s1 \<noteq> 0 then xr_check (ca_swapchain a) else Inr True) (\<lambda>_.
     let s2 = cleanup_gles (if vr_swapchain s1 \<noteq> 0 then vr_call (Xr_destroy_swapchain (vr_swapchain s1)) s1 else s1) in
     and_then (if vr_session s2 \<noteq> 0 then xr_check (ca_session a) else Inr True) (\<lambda>_.
     let s3 = cleanup_egl (if vr_session s2 \<noteq> 0 then vr_call (Xr_destroy_session (vr_session s2)) s2 else s2) in
     and_then (if vr_instance s3 \<noteq> 0 then xr_check (ca_instance a) else Inr True) (\<lambda>_.
       Inr (if vr_instance s3 \<noteq> 0 then vr_call (Xr_destroy_instance (vr_instance s3)) s3 else s3)))))"

definition vr_shutdown :: "cleanup_answers \<Rightarrow> 'd vr_data \<Rightarrow> 'd vr_data result" where
  "vr_shutdown a s =
     (if \<not> vr_app s then Inl (RuntimeError ''VRSystem not initialized'')
      else and_then (cleanup_engine a s) (\<lambda>s1. Inr (s1\<lparr>vr_app := False, vr_native_window := False\<rparr>)))"

text \<open>The destructor cleans up whatever has been done before.\<close>

definition vr_destroy :: "cleanup_answers \<Rightarrow> 'd vr_data \<Rightarrow> 'd vr_data result" where
  "vr_destroy = cleanup_engine"

section \<open>The interface\<close>

text \<open>The calls that the client makes on the VR system while it runs, with what they meet.\<close>

datatype vr_op =
    Op_events "(xr_event \<times> session_answers) list"
  | Op_new_frame xr_result XrFrameState clock_env ClientFrameTimeMeasurements
  | Op_push clock_env bytes u32 bool u32 u32 bool
  | Op_render render_answers ClientFrameTimeMeasurements
  | Op_save u32 "nat \<Rightarrow> bytes"
  | Op_track pose_answers

fun vr_step ::
    "xr_runtime \<Rightarrow> (bytes \<Rightarrow> bool \<Rightarrow> 'd \<Rightarrow> (bool \<times> 'd) result) \<Rightarrow> ('d \<Rightarrow> (GLFrameTexture option \<times> 'd) result)
     \<Rightarrow> vr_op \<Rightarrow> 'd vr_data \<Rightarrow> 'd vr_data result" where
  "vr_step rt push pull (Op_events es) s = vr_handle_events es s"
| "vr_step rt push pull (Op_new_frame r fs e t) s = and_then (vr_new_frame rt r fs e t s) (\<lambda>(ok, t1, s1). Inr s1)"
| "vr_step rt push pull (Op_push e data fid eos pose lp save) s =
     and_then (vr_push_frame_data push e data fid eos pose lp save s) (\<lambda>(pushed, s1). Inr s1)"
| "vr_step rt push pull (Op_render a t) s = and_then (vr_render rt pull a t s) (\<lambda>(t1, s1). Inr s1)"
| "vr_step rt push pull (Op_save fbo px) s = and_then (vr_save_frame_if_needed fbo px s) (\<lambda>(ok, b, s1). Inr s1)"
| "vr_step rt push pull (Op_track a) s = and_then (vr_get_next_tracking_state rt a s) (\<lambda>(ts, s1). Inr s1)"

fun vr_run ::
    "xr_runtime \<Rightarrow> (bytes \<Rightarrow> bool \<Rightarrow> 'd \<Rightarrow> (bool \<times> 'd) result) \<Rightarrow> ('d \<Rightarrow> (GLFrameTexture option \<times> 'd) result)
     \<Rightarrow> vr_op list \<Rightarrow> 'd vr_data \<Rightarrow> 'd vr_data result" where
  "vr_run rt push pull [] s = Inr s"
| "vr_run rt push pull (o1 # ops) s = and_then (vr_step rt push pull o1 s) (vr_run rt push pull ops)"

end
