(* ===== verification/VrRuns.thy ===== *)
theory VrRuns
  imports VrFrames MediaCodec
begin

text \<open>
  Runs of the client's VR system: the infos of pushed frames come back in order, each frame that is shown
  is submitted with the views of the pose it was rendered for, the decoder's frames are matched with the
  packets they were decoded from, and the calls into OpenXR follow its protocol.
\<close>

section \<open>What a step leaves alone\<close>

definition pushed_infos :: "vr_call list \<Rightarrow> VrFrameInfo list" where
  "pushed_infos cs = concat (map (\<lambda>c. case c of Decoder_push i \<Rightarrow> [i] | _ \<Rightarrow> []) cs)"

definition pulled_infos :: "vr_call list \<Rightarrow> VrFrameInfo option list" where
  "pulled_infos cs = concat (map (\<lambda>c. case c of Decoder_pull i \<Rightarrow> [i] | _ \<Rightarrow> []) cs)"

definition known :: "'a option list \<Rightarrow> 'a list" where
  "known xs = concat (map (\<lambda>x. case x of None \<Rightarrow> [] | Some y \<Rightarrow> [y]) xs)"

lemma infos_simps [simp]:
  "pushed_infos [] = []" "pulled_infos [] = []" "known [] = []"
  "pushed_infos (cs @ cs') = pushed_infos cs @ pushed_infos cs'"
  "pulled_infos (cs @ cs') = pulled_infos cs @ pulled_infos cs'" "known (xs @ ys) = known xs @ known ys"
  "pushed_infos (c # cs) = (case c of Decoder_push i \<Rightarrow> [i] | _ \<Rightarrow> []) @ pushed_infos cs"
  "pulled_infos (c # cs) = (case c of Decoder_pull i \<Rightarrow> [i] | _ \<Rightarrow> []) @ pulled_infos cs"
  "known (x # xs) = (case x of None \<Rightarrow> [] | Some y \<Rightarrow> [y]) @ known xs"
  by (simp_all add: pushed_infos_def pulled_infos_def known_def)

text \<open>The part of the state that belongs to the decoder, and the calls to it.\<close>

definition decoding :: "'d vr_data \<Rightarrow> 'd option \<times> bool \<times> VrFrameInfo list \<times> u8 \<times> VrFrameInfo list \<times> VrFrameInfo option list" where
  "decoding s = (vr_decoder s, vr_decoder_initialized s, vr_infos s, vr_accumulated_delay s,
     pushed_infos (vr_calls s), pulled_infos (vr_calls s))"

definition shown :: "'d vr_data \<Rightarrow> VrFrameInfo option \<times> GLFrameTexture option" where
  "shown s = (vr_last_info s, vr_last_texture s)"

definition decoder_call :: "vr_call \<Rightarrow> bool" where
  "decoder_call c \<longleftrightarrow> (case c of Decoder_push i \<Rightarrow> True | Decoder_pull i \<Rightarrow> True | _ \<Rightarrow> False)"

lemma other_call [simp]:
  assumes "\<not> decoder_call c"
  shows "decoding (vr_call c s) = decoding s" "shown (vr_call c s) = shown s" "vr_pose_cache (vr_call c s) = vr_pose_cache s"
  using assms by (auto simp: decoding_def shown_def vr_call_def decoder_call_def split: vr_call.splits)

lemma decoder_call_simps [simp]:
  "decoder_call (Decoder_push i)" "decoder_call (Decoder_pull j)" "\<not> decoder_call Xr_begin_session"
  "\<not> decoder_call Xr_end_session" "\<not> decoder_call Xr_performance_levels" "\<not> decoder_call Xr_wait_frame"
  "\<not> decoder_call Xr_begin_frame" "\<not> decoder_call Xr_acquire_image" "\<not> decoder_call Xr_wait_image"
  "\<not> decoder_call Xr_release_image" "\<not> decoder_call (Xr_locate_views x)" "\<not> decoder_call (Xr_locate_space x)"
  "\<not> decoder_call (Xr_end_frame x v)" "\<not> decoder_call (Draw_frame p ts fb w h fl sp)" "\<not> decoder_call (Gl_read_pixels w h)"
  by (simp_all add: decoder_call_def)

lemma kept_updates [simp]:
  "decoding (s\<lparr>vr_session_running := b\<rparr>) = decoding s" "decoding (s\<lparr>vr_should_exit := b\<rparr>) = decoding s"
  "decoding (s\<lparr>vr_frame_index := n, vr_frame_state := fs\<rparr>) = decoding s" "decoding (s\<lparr>vr_debug_pose := e\<rparr>) = decoding s"
  "decoding (s\<lparr>vr_frames_in_advance := a\<rparr>) = decoding s" "decoding (s\<lparr>vr_measurements := m\<rparr>) = decoding s"
  "decoding (s\<lparr>vr_pose_cache := c, vr_measurements := m\<rparr>) = decoding s" "decoding (s\<lparr>vr_last_info := li\<rparr>) = decoding s"
  "shown (s\<lparr>vr_debug_pose := e\<rparr>) = shown s" "shown (s\<lparr>vr_frames_in_advance := a\<rparr>) = shown s"
  "shown (s\<lparr>vr_measurements := m\<rparr>) = shown s"
  by (simp_all add: decoding_def shown_def)

lemma draw_keeps:
  assumes "draw_frame f fb ext flip split s = (drawn, s')"
  shows "decoding s' = decoding s" "shown s' = shown s" "vr_pose_cache s' = vr_pose_cache s"
    "vr_session_running s' = vr_session_running s" "drawn \<longleftrightarrow> gt_format f \<in> {NV12, R8G8B8A8_UNORM, B8G8R8A8_UNORM}"
  using assms by (auto simp: draw_frame_def Let_def vr_call_def decoding_def shown_def split: ImageFormat.splits)

lemma choose_views_keeps:
  assumes "choose_views rt a stamp t s = Inr (v, s')"
  shows "decoding s' = decoding s \<and> shown s' = shown s \<and> vr_pose_cache s' = vr_pose_cache s"
  using assms by (auto simp: choose_views_def and_then_Inr split: option.splits if_splits)

lemma update_advance_keeps:
  assumes "update_advance t s = Inr s'"
  shows "decoding s' = decoding s" "shown s' = shown s" "vr_pose_cache s' = vr_pose_cache s" "vr_calls s' = vr_calls s"
  using assms by (auto simp: update_advance_def and_then_Inr split: if_splits)

lemma measure_keeps [simp]:
  "decoding (measure_quality clk r s) = decoding s" "shown (measure_quality clk r s) = shown s"
  "vr_pose_cache (measure_quality clk r s) = vr_pose_cache s" "vr_calls (measure_quality clk r s) = vr_calls s"
  by (auto simp: measure_quality_def split: option.splits prod.splits)

section \<open>Choosing a frame\<close>

lemma get_frame_shown:
  assumes "get_frame_from_decoder pull s = Inr (f, i, has, s1)"
  shows "if has then f = vr_last_texture s1 \<and> (i = vr_last_info s1 \<or> i = None) \<and> f \<noteq> None
    else f = None \<and> i = None \<and> shown s1 = shown s" "vr_pose_cache s1 = vr_pose_cache s"
  using assms by (auto simp: get_frame_from_decoder_def vr_call_def shown_def Let_def
      split: option.splits if_splits sum.splits list.splits)

lemma caught_up_keeps [simp]: "shown (caught_up clk s) = shown s" "vr_pose_cache (caught_up clk s) = vr_pose_cache s"
  by (simp_all add: caught_up_def shown_def)

text \<open>Whatever the loop does: the frame and the info are the last ones that were seen.\<close>

definition is_shown :: "GLFrameTexture option \<Rightarrow> VrFrameInfo option \<Rightarrow> 'd vr_data \<Rightarrow> bool" where
  "is_shown f i s \<longleftrightarrow> (f = vr_last_texture s \<or> f = None) \<and> (i = vr_last_info s \<or> i = None)"

text \<open>An invariant of the loop: \<open>I\<close> holds at its test, \<open>Q\<close> when it is left at the test or by the break.\<close>

lemma catch_up_rule:
  assumes "vr_catch_up pull clk f i s = Inr (f', i', s')" "I f i s"
    and step: "\<And>f i s f1 i1 s1. I f i s \<Longrightarrow> must_catch_up s \<Longrightarrow> get_frame_from_decoder pull s = Inr (f1, i1, True, s1)
      \<Longrightarrow> I f1 i1 (caught_up clk s1)"
    and leave: "\<And>f i s. I f i s \<Longrightarrow> \<not> must_catch_up s \<Longrightarrow> Q f i s"
    and stop: "\<And>f i s f1 i1 s1. I f i s \<Longrightarrow> must_catch_up s \<Longrightarrow> get_frame_from_decoder pull s = Inr (f1, i1, False, s1)
      \<Longrightarrow> Q (vr_last_texture s1) (vr_last_info s1) s1"
  shows "Q f' i' s'"
  using assms
proof (induction pull clk f i s rule: vr_catch_up.induct [case_names loop])
  case (loop pull clk f i s)
  note result = loop.prems(1) [unfolded vr_catch_up.simps [of pull clk f i s]]
  show ?case
  proof (cases "must_catch_up s")
    case False
    then show ?thesis using result loop.prems(2,4) by auto
  next
    case True
    then obtain f1 i1 has s1 where got: "get_frame_from_decoder pull s = Inr (f1, i1, has, s1)"
      using result by (auto split: sum.splits)
    show ?thesis
    proof (cases has)
      case has: True
      have "vr_catch_up pull clk f1 i1 (caught_up clk s1) = Inr (f', i', s')" using result True got has by simp
      moreover have "I f1 i1 (caught_up clk s1)" using loop.prems(3) [OF loop.prems(2) True] got has by simp
      ultimately show ?thesis
        using True by (intro loop.IH [OF _ got refl refl refl has _ _ loop.prems(3,4,5)]) simp_all
    next
      case False
      then show ?thesis using result True got loop.prems(2,5) by auto
    qed
  qed
qed

lemma choose_frame_shown:
  assumes "choose_frame pull clk s = Inr (f, i, s')"
  shows "f = vr_last_texture s' \<and> i = vr_last_info s' \<and> vr_pose_cache s' = vr_pose_cache s"
proof -
  from assms obtain f1 i1 has s1 f2 i2 s2 where got: "get_frame_from_decoder pull s = Inr (f1, i1, has, s1)"
    and caught: "vr_catch_up pull clk f1 i1 s1 = Inr (f2, i2, s2)" and reuse: "(f, i, s') = reuse_last_frame clk f2 i2 s2"
    by (auto simp: choose_frame_def and_then_Inr)
  have "is_shown f2 i2 s2 \<and> vr_pose_cache s2 = vr_pose_cache s"
    by (rule catch_up_rule [OF caught, where I = "\<lambda>f i s'. is_shown f i s' \<and> vr_pose_cache s' = vr_pose_cache s"])
      (use get_frame_shown [OF got] in \<open>auto simp: is_shown_def shown_def caught_up_def split: if_splits dest: get_frame_shown\<close>)
  then show ?thesis using reuse by (auto simp: reuse_last_frame_def is_shown_def Let_def split: if_splits)
qed

text \<open>The search for a frame ends when the decoder has none left, or none is expected and none is owed.\<close>

lemma choose_frame_newest:
  fixes s s' :: "'d vr_data"
  assumes "choose_frame pull clk s = Inr (f, i, s')" "vr_decoder s = Some d" "vr_decoder_initialized s"
  shows "(\<exists>d0 d1. pull d0 = Inr (None, d1) \<and> vr_decoder s' = Some d1) \<or> vr_infos s' = [] \<and> vr_accumulated_delay s' = 0"
proof -
  define failed where "failed = (\<lambda>s :: 'd vr_data. \<exists>d0 d1. pull d0 = Inr (None, d1) \<and> vr_decoder s = Some d1)"
  define I where "I = (\<lambda>(f::GLFrameTexture option) (i::VrFrameInfo option) (s :: 'd vr_data).
    vr_decoder s \<noteq> None \<and> vr_decoder_initialized s \<and> (f = None \<longrightarrow> failed s))"
  define Q where "Q = (\<lambda>(f::GLFrameTexture option) (i::VrFrameInfo option) (s :: 'd vr_data).
    failed s \<or> f \<noteq> None \<and> vr_infos s = [] \<and> vr_accumulated_delay s = 0)"
  have got: "(has \<longrightarrow> f1 \<noteq> None) \<and> vr_decoder s1 \<noteq> None \<and> vr_decoder_initialized s1 \<and> (\<not> has \<longrightarrow> failed s1)"
    if "get_frame_from_decoder pull s0 = Inr (f1, i1, has, s1)" "vr_decoder s0 \<noteq> None" "vr_decoder_initialized s0"
    for s0 f1 i1 has s1
    using that by (auto simp: get_frame_from_decoder_def failed_def vr_call_def Let_def
        split: option.splits sum.splits list.splits, blast)
  from assms(1) obtain f1 i1 has s1 f2 i2 s2 where first: "get_frame_from_decoder pull s = Inr (f1, i1, has, s1)"
    and caught: "vr_catch_up pull clk f1 i1 s1 = Inr (f2, i2, s2)" and reuse: "(f, i, s') = reuse_last_frame clk f2 i2 s2"
    by (auto simp: choose_frame_def and_then_Inr)
  have "Q f2 i2 s2"
  proof (rule catch_up_rule [OF caught, where I = I])
    show "I f1 i1 s1" using got [OF first] assms(2,3) by (cases has) (auto simp: I_def)
  next
    fix f i s f1 i1 s1 assume "I f i s" "must_catch_up s" "get_frame_from_decoder pull s = Inr (f1, i1, True, s1)"
    then show "I f1 i1 (caught_up clk s1)" using got [of s f1 i1 True s1] by (auto simp: I_def caught_up_def failed_def)
  next
    fix f i s assume "I f i s" "\<not> must_catch_up s"
    then show "Q f i s" by (cases f) (auto simp: I_def Q_def must_catch_up_def LARGE_QUEUE_CATCHUP_THRESHOLD_def word_gt_0)
  next
    fix f i s f1 i1 s1 assume "I f i s" "must_catch_up s" "get_frame_from_decoder pull s = Inr (f1, i1, False, s1)"
    then show "Q (vr_last_texture s1) (vr_last_info s1) s1" using got [of s f1 i1 False s1] by (simp add: I_def Q_def)
  qed
  then show ?thesis using reuse
    by (auto simp: reuse_last_frame_def Q_def failed_def Let_def split: if_splits)
qed

section \<open>Rendering a frame\<close>

text \<open>A rendered frame changes the decoder's part of the state at one place only.\<close>

lemma render_image_effect:
  assumes "render_image rt pull a t s = Inr (r, layer, x, t', s')"
  obtains s1 f i s2 t1 drawn t2 s3 t3 s4 where
    "decoding s1 = decoding s" "shown s1 = shown s" "vr_pose_cache s1 = vr_pose_cache s"
    "choose_frame pull (ra_clk a) s1 = Inr (f, i, s2)" "draw_to_swapchain a f i t1 s2 = Inr (drawn, t2, s3)"
    "decoding s4 = decoding s2" "shown s4 = shown s2" "vr_pose_cache s4 = vr_pose_cache s2"
    "decoding s' = decoding s2" "shown s' = shown s2" "vr_pose_cache s' = vr_pose_cache s2"
    "t3 = t2\<lparr>cf_after_render_timestamp := now_rtp_timestamp (ra_render_clock a) (vr_rtp_clock s)\<rparr>"
    "(case (drawn, f, i) of (True, Some f, Some i) \<Rightarrow> \<exists>v. choose_views rt a (vi_pose_timestamp i) t3 s4 = Inr ((v, x, t'), s')
          \<and> layer = Some v \<and> r = Some (i, f)
      | _ \<Rightarrow> layer = None \<and> r = None \<and> t' = t3)"
proof -
  define s1 where "s1 = vr_call Xr_wait_image (vr_call Xr_acquire_image s)"
  from assms obtain f i s2 drawn t1 t2 s3 t3 where
    choose: "choose_frame pull (ra_clk a) s1 = Inr (f, i, s2)"
    and draw: "draw_to_swapchain a f i t1 s2 = Inr (drawn, t2, s3)"
    and t3: "t3 = t2\<lparr>cf_after_render_timestamp := now_rtp_timestamp (ra_render_clock a) (vr_rtp_clock s)\<rparr>"
    and rest: "(case (drawn, f, i) of (True, Some f, Some i) \<Rightarrow>
         and_then (choose_views rt a (vi_pose_timestamp i) t3 (vr_call Xr_release_image s3)) (\<lambda>((views, x, t4), s5).
           Inr (Some (i, f), Some views, x, t4, s5))
       | _ \<Rightarrow> Inr (None, None, predictedDisplayTime (vr_frame_state (vr_call Xr_release_image s3)), t3, vr_call Xr_release_image s3))
       = Inr (r, layer, x, t', s')"
    by (auto simp: render_image_def and_then_Inr Let_def s1_def)
  define s4 where "s4 = vr_call Xr_release_image s3"
  have s3: "decoding s3 = decoding s2" "shown s3 = shown s2" "vr_pose_cache s3 = vr_pose_cache s2"
    using draw draw_keeps by (fastforce simp: draw_to_swapchain_def and_then_Inr split: option.splits if_splits prod.splits)+
  then have s4: "decoding s4 = decoding s2" "shown s4 = shown s2" "vr_pose_cache s4 = vr_pose_cache s2"
    by (simp_all add: s4_def)
  have s': "decoding s' = decoding s2" "shown s' = shown s2" "vr_pose_cache s' = vr_pose_cache s2"
    using rest s4
    by (auto simp: and_then_Inr s4_def [symmetric] split: bool.splits option.splits dest!: choose_views_keeps)
  have post: "case (drawn, f, i) of (True, Some f, Some i) \<Rightarrow> \<exists>v. choose_views rt a (vi_pose_timestamp i) t3 s4 = Inr ((v, x, t'), s')
          \<and> layer = Some v \<and> r = Some (i, f)
      | _ \<Rightarrow> layer = None \<and> r = None \<and> t' = t3"
    using rest by (auto simp: and_then_Inr s4_def [symmetric] split: bool.splits option.splits)
  have s1: "decoding s1 = decoding s" "shown s1 = shown s" "vr_pose_cache s1 = vr_pose_cache s" by (simp_all add: s1_def)
  show ?thesis by (rule that [OF s1 choose draw s4 s' t3 post])
qed

lemma render_frame_effect:
  assumes "render_frame rt pull a t s = Inr (t', s')"
  obtains t1 s1 r layer x t2 s2 where
    "decoding s1 = decoding s" "shown s1 = shown s" "vr_pose_cache s1 = vr_pose_cache s" "vr_frame_state s1 = vr_frame_state s"
    "if shouldRender (vr_frame_state s) then render_image rt pull a t1 s1 = Inr (r, layer, x, t2, s2)
     else r = None \<and> layer = None \<and> t2 = t1 \<and> s2 = s1"
    "decoding s' = decoding s2" "shown s' = shown s2" "vr_pose_cache s' = vr_pose_cache s2"
    "vr_calls s' = vr_calls s2 @ [Xr_end_frame x layer]"
    "cf_tracking_timestamp t' = cf_tracking_timestamp t2" "cf_pose_timestamp t' = cf_pose_timestamp t2"
    "cf_frame_id t' = cf_frame_id t2"
proof -
  define s1 where "s1 = vr_call Xr_begin_frame s"
  define t1 where "t1 = t\<lparr>cf_begin_frame_timestamp := now_rtp_timestamp (ra_begin_clock a) (vr_rtp_clock s)\<rparr>"
  from assms obtain r layer x t2 s2 s4 where
    image: "(if shouldRender (vr_frame_state s1) then render_image rt pull a t1 s1
        else Inr (None, None, predictedDisplayTime (vr_frame_state s1), t1, s1)) = Inr (r, layer, x, t2, s2)"
    and advance: "update_advance t' (vr_call (Xr_end_frame x layer) s2) = Inr s4"
    and t': "t' = t2\<lparr>cf_end_frame_timestamp := now_rtp_timestamp (ra_end_clock a) (vr_rtp_clock (vr_call (Xr_end_frame x layer) s2))\<rparr>"
    and s': "s' = measure_quality (ra_clk a) r s4"
    unfolding render_frame_def Let_def s1_def [symmetric] t1_def [symmetric] and_then_Inr
    by (auto simp: and_then_Inr)
  have fs: "vr_frame_state s1 = vr_frame_state s" by (simp add: s1_def vr_call_def)
  have image': "if shouldRender (vr_frame_state s) then render_image rt pull a t1 s1 = Inr (r, layer, x, t2, s2)
      else r = None \<and> layer = None \<and> t2 = t1 \<and> s2 = s1"
    using image fs by (auto split: if_splits)
  show ?thesis
    by (rule that [OF _ _ _ fs image'])
      (use update_advance_keeps [OF advance] in \<open>simp_all add: s1_def s' t' vr_call_def [of "Xr_end_frame x layer"]\<close>,
       simp_all add: decoding_def shown_def)
qed

section \<open>Steps and poses\<close>

lemma begin_session_keeps:
  assumes "begin_session r_begin r_cpu r_gpu s = Inr s'"
  shows "decoding s' = decoding s \<and> shown s' = shown s \<and> vr_pose_cache s' = vr_pose_cache s"
  using assms by (auto simp: begin_session_def and_then_Inr vr_call_def decoding_def shown_def split: if_splits)

lemma end_session_keeps:
  assumes "end_session r_end s = Inr s'"
  shows "decoding s' = decoding s \<and> shown s' = shown s \<and> vr_pose_cache s' = vr_pose_cache s"
  using assms by (auto simp: end_session_def and_then_Inr vr_call_def decoding_def shown_def split: if_splits)

lemma handle_event_keeps:
  assumes "handle_event e a s = Inr s'"
  shows "decoding s' = decoding s \<and> shown s' = shown s \<and> vr_pose_cache s' = vr_pose_cache s"
  using assms begin_session_keeps [of "sa_begin a" "sa_cpu_level a" "sa_gpu_level a" s s'] end_session_keeps [of "sa_end a" s s']
  by (cases e) (auto simp: handle_event_def decoding_def shown_def split: xr_session_state.splits)

lemma events_keep:
  "vr_poll_events es s = Inr s' \<Longrightarrow> decoding s' = decoding s \<and> shown s' = shown s \<and> vr_pose_cache s' = vr_pose_cache s"
  by (induction es s rule: vr_poll_events.induct) (auto simp: and_then_Inr dest!: handle_event_keeps)

lemma get_pose_effect:
  assumes "vr_get_pose rt a x s = Inr (r, s')"
  shows "decoding s' = decoding s \<and> shown s' = shown s
    \<and> vr_pose_cache s' = (case r of None \<Rightarrow> vr_pose_cache s
        | Some ts \<Rightarrow> store_pose \<lparr>pe_pose_timestamp = ts_pose_timestamp ts, pe_sample_timestamp = ts_sample_timestamp ts,
            pe_xr_time = x, pe_views = snd (pa_views a)\<rparr> (vr_pose_cache s))"
  using assms by (auto simp: vr_get_pose_def and_then_Inr Let_def shown_def vr_call_def decoding_def split: if_splits)

lemma track_effect:
  assumes "vr_get_next_tracking_state rt a s = Inr (r, s')"
  shows "decoding s' = decoding s \<and> shown s' = shown s
    \<and> (\<exists>x. vr_pose_cache s' = (case r of None \<Rightarrow> vr_pose_cache s
        | Some ts \<Rightarrow> store_pose \<lparr>pe_pose_timestamp = ts_pose_timestamp ts, pe_sample_timestamp = ts_sample_timestamp ts,
            pe_xr_time = x, pe_views = snd (pa_views a)\<rparr> (vr_pose_cache s)))"
  using assms get_pose_effect by (fastforce simp: vr_get_next_tracking_state_def and_then_Inr)

lemma save_keeps:
  assumes "vr_save_frame_if_needed fbo px s = Inr (ok, b, s')"
  shows "decoding s' = decoding s \<and> vr_pose_cache s' = vr_pose_cache s"
proof (cases "vr_last_info s = None \<or> vr_last_texture s = None \<or> \<not> vi_should_save_frame (the (vr_last_info s))")
  case True
  then show ?thesis using assms by (auto simp: vr_save_frame_if_needed_def split: option.splits)
next
  case False
  then obtain i f where i: "vr_last_info s = Some i" "vi_should_save_frame i" "vr_last_texture s = Some f" by auto
  obtain drawn s1 where draw: "draw_frame f fbo (ext_width (eye_resolution (vr_specs s)) * 2, ext_height (eye_resolution (vr_specs s)))
      False False s = (drawn, s1)" by (cases "draw_frame f fbo (ext_width (eye_resolution (vr_specs s)) * 2, ext_height (eye_resolution (vr_specs s))) False False s")
  then show ?thesis
    using assms i draw_keeps [OF draw] by (auto simp: vr_save_frame_if_needed_def Let_def vr_call_def decoding_def split: bool.splits if_splits)
qed

lemma render_cache:
  assumes "vr_render rt pull a t s = Inr (t', s')"
  shows "vr_pose_cache s' = vr_pose_cache s"
proof (cases "vr_session_running s")
  case True
  then have "render_frame rt pull a t s = Inr (t', s')" using assms by (simp add: vr_render_def)
  then show ?thesis
  proof (cases rule: render_frame_effect)
    case (1 t1 s1 r layer x t2 s2)
    show ?thesis
    proof (cases "shouldRender (vr_frame_state s)")
      case True
      then have "render_image rt pull a t1 s1 = Inr (r, layer, x, t2, s2)" using 1 by simp
      then show ?thesis using 1(3,8) by (cases rule: render_image_effect) (auto dest: choose_frame_shown)
    qed (use 1 in simp)
  qed
qed (use assms in \<open>simp add: vr_render_def\<close>)

text \<open>The tracking states that a run produces, each with the views that were stored for it.\<close>

fun sent_poses ::
    "xr_runtime \<Rightarrow> (bytes \<Rightarrow> bool \<Rightarrow> 'd \<Rightarrow> (bool \<times> 'd) result) \<Rightarrow> ('d \<Rightarrow> (GLFrameTexture option \<times> 'd) result)
     \<Rightarrow> vr_op list \<Rightarrow> 'd vr_data \<Rightarrow> (TrackingState \<times> eye_views) list" where
  "sent_poses rt push pull [] s = []"
| "sent_poses rt push pull (o1 # ops) s =
     (case o1 of
        Op_track a \<Rightarrow> (case vr_get_next_tracking_state rt a s of Inr (Some ts, s1) \<Rightarrow> [(ts, snd (pa_views a))] | _ \<Rightarrow> [])
      | _ \<Rightarrow> [])
     @ (case vr_step rt push pull o1 s of Inl e \<Rightarrow> [] | Inr s1 \<Rightarrow> sent_poses rt push pull ops s1)"

definition entry_of :: "PoseCacheEntry \<Rightarrow> TrackingState \<times> eye_views \<Rightarrow> bool" where
  "entry_of e p \<longleftrightarrow> pe_pose_timestamp e = ts_pose_timestamp (fst p) \<and> pe_sample_timestamp e = ts_sample_timestamp (fst p)
     \<and> pe_views e = snd p"

lemma step_cache:
  assumes "vr_step rt push pull o1 s = Inr s1"
  shows "\<exists>es. vr_pose_cache s1 = fold store_pose es (vr_pose_cache s) \<and> list_all2 entry_of es
    (case o1 of
        Op_track a \<Rightarrow> (case vr_get_next_tracking_state rt a s of Inr (Some ts, s1) \<Rightarrow> [(ts, snd (pa_views a))] | _ \<Rightarrow> [])
      | _ \<Rightarrow> [])"
proof (cases o1)
  case (Op_track a)
  then obtain r where r: "vr_get_next_tracking_state rt a s = Inr (r, s1)" using assms by (auto simp: and_then_Inr)
  show ?thesis
  proof (cases r)
    case None
    then show ?thesis using track_effect [OF r] Op_track r by (intro exI [of _ "[]"]) auto
  next
    case (Some ts)
    then obtain x where "vr_pose_cache s1 = store_pose \<lparr>pe_pose_timestamp = ts_pose_timestamp ts,
        pe_sample_timestamp = ts_sample_timestamp ts, pe_xr_time = x, pe_views = snd (pa_views a)\<rparr> (vr_pose_cache s)"
      using track_effect [OF r] by auto
    then show ?thesis using Op_track r Some
      by (intro exI [of _ "[\<lparr>pe_pose_timestamp = ts_pose_timestamp ts,
        pe_sample_timestamp = ts_sample_timestamp ts, pe_xr_time = x, pe_views = snd (pa_views a)\<rparr>]"]) (simp add: entry_of_def)
  qed
next
  case (Op_events es)
  then show ?thesis using assms by (auto simp: vr_handle_events_def dest: events_keep split: if_splits)
next
  case (Op_new_frame r fs e t)
  then show ?thesis using assms by (auto simp: vr_new_frame_def and_then_Inr Let_def vr_call_def split: if_splits)
next
  case (Op_push e data fid eos pose lp save)
  then show ?thesis using assms
    by (auto simp: vr_push_frame_data_def and_then_Inr Let_def vr_call_def split: if_splits option.splits)
next
  case (Op_render a t)
  then show ?thesis using assms by (auto simp: and_then_Inr dest: render_cache)
next
  case (Op_save fbo px)
  then show ?thesis using assms by (auto simp: and_then_Inr dest: save_keeps)
qed

lemma run_cache:
  "vr_run rt push pull ops s = Inr s' \<Longrightarrow>
     \<exists>es. vr_pose_cache s' = fold store_pose es (vr_pose_cache s) \<and> list_all2 entry_of es (sent_poses rt push pull ops s)"
proof (induction ops arbitrary: s)
  case (Cons o1 ops)
  then obtain s1 where s1: "vr_step rt push pull o1 s = Inr s1" "vr_run rt push pull ops s1 = Inr s'" by (auto simp: and_then_Inr)
  obtain es where es: "vr_pose_cache s1 = fold store_pose es (vr_pose_cache s)" "list_all2 entry_of es
    (case o1 of
        Op_track a \<Rightarrow> (case vr_get_next_tracking_state rt a s of Inr (Some ts, s1) \<Rightarrow> [(ts, snd (pa_views a))] | _ \<Rightarrow> [])
      | _ \<Rightarrow> [])" using step_cache [OF s1(1)] by blast
  obtain es' where es': "vr_pose_cache s' = fold store_pose es' (vr_pose_cache s1)"
    "list_all2 entry_of es' (sent_poses rt push pull ops s1)" using Cons.IH [OF s1(2)] by blast
  show ?case
    using es es' s1(1) by (intro exI [of _ "es @ es'"]) (simp add: list_all2_appendI del: vr_step.simps)
qed simp

end
