(* ===== verification/VrSamples.thy ===== *)
theory VrSamples
  imports VrRuns
begin

text \<open>
  Concrete values on which the properties of the VR system are instantiated: a headset with small eyes, a
  runtime whose time is that of the system, a decoder that is a list of decoded frames, and the calls of
  one round of the client: begin the session, wait for a frame, sample a pose, push a packet with its stamp.
\<close>

definition hmd_pose :: "u32 \<Rightarrow> XrPosef" where
  "hmd_pose x = \<lparr>xp_orientation = \<lparr>xq_x = 0, xq_y = 0, xq_z = 0, xq_w = 1\<rparr>, xp_position = \<lparr>xv_x = x, xv_y = 0, xv_z = 0\<rparr>\<rparr>"

definition hmd_views :: eye_views where
  "hmd_views = ((hmd_pose 1, no_fov), (hmd_pose 2, no_fov))"

definition hmd_clock :: clock_env where
  "hmd_clock = \<lparr>system_now = 5000000000, steady_now = 5000000000, timespec_now = \<lparr>tv_sec = 5, tv_nsec = 0\<rparr>\<rparr>"

definition hmd_runtime :: xr_runtime where
  "hmd_runtime = \<lparr>xr_time_of_timespec = (\<lambda>ts. (XR_SUCCESS, timespec_ns ts)),
     xr_timespec_of_time = (\<lambda>x. (XR_SUCCESS, \<lparr>tv_sec = x div 1000000000, tv_nsec = x mod 1000000000\<rparr>))\<rparr>"

definition hmd_specs :: VRSystemSpecs where
  "hmd_specs = \<lparr>system_name = ''Quest'', manufacturer_name = ''Oculus'', eye_resolution = \<lparr>ext_width = 4, ext_height = 4\<rparr>,
     refresh_rate = \<lparr>rr_numerator = 100, rr_denominator = 1\<rparr>, ipd = 1, eye_to_head_distance = 0,
     world_bounds = \<lparr>extf_width = 0, extf_height = 0\<rparr>\<rparr>"

definition hmd_bucket :: ClientMeasurementBucket where
  "hmd_bucket = \<lparr>m_rtp_clock = None, m_window = default_window, m_mode = ACCEPT_ALL, m_socket_measurements = [],
     cb_frame_measurements = [], cb_tracking_measurements = [], cb_image_quality_measurements = [], cb_network_measurements = [],
     cb_decoder_nb_pushed_frames = 0, cb_decoder_nb_pulled_frames = 0, cb_nb_saved_frames = 0, cb_nb_dropped_frames = 0,
     cb_nb_catched_up_frames = 0\<rparr>"

definition hmd_time :: ClientFrameTimeMeasurements where
  "hmd_time = \<lparr>cf_frame_index = 0, cf_frame_id = 0, cf_tracking_timestamp = 0, cf_last_packet_received_timestamp = 0,
     cf_pushed_to_decoder_timestamp = 0, cf_begin_wait_frame_timestamp = 0, cf_begin_frame_timestamp = 0,
     cf_after_wait_swapchain_timestamp = 0, cf_after_render_timestamp = 0, cf_end_frame_timestamp = 0,
     cf_predicted_present_timestamp = 0, cf_pose_timestamp = 0, cf_frame_delay = 0\<rparr>"

definition hmd_texture :: GLFrameTexture where
  "hmd_texture = \<lparr>gt_format = NV12, gt_textures = [7, 8], gt_size = 24\<rparr>"

definition hmd_render :: render_answers where
  "hmd_render = \<lparr>ra_begin = XR_SUCCESS, ra_acquire = (XR_SUCCESS, Some 0), ra_wait_image = XR_SUCCESS, ra_release = XR_SUCCESS,
     ra_locate_count = (XR_SUCCESS, None), ra_locate = (XR_SUCCESS, None), ra_end = XR_SUCCESS, ra_begin_clock = hmd_clock,
     ra_image_clock = hmd_clock, ra_render_clock = hmd_clock, ra_end_clock = hmd_clock, ra_clk = (\<lambda>_. 0)\<rparr>"

definition hmd_track :: pose_answers where
  "hmd_track = \<lparr>pa_views = (XR_SUCCESS, hmd_views), pa_head = (XR_SUCCESS, hmd_pose 3), pa_sampled = hmd_clock,
     pa_processed = hmd_clock, pa_clk = (\<lambda>_. 0)\<rparr>"

text \<open>The decoder of the samples: the packets it took and the frames it has ready.\<close>

type_synonym hmd_decoder = "GLFrameTexture list"

definition hmd_push :: "bytes \<Rightarrow> bool \<Rightarrow> hmd_decoder \<Rightarrow> (bool \<times> hmd_decoder) result" where
  "hmd_push p eos d = Inr (True, d @ [hmd_texture])"

definition hmd_pull :: "hmd_decoder \<Rightarrow> (GLFrameTexture option \<times> hmd_decoder) result" where
  "hmd_pull d = Inr (case d of [] \<Rightarrow> (None, []) | f # fs \<Rightarrow> (Some f, fs))"

definition hmd_vr :: "'d \<Rightarrow> 'd vr_data" where
  "hmd_vr d = (new_vr_system hmd_specs default_RTPClock hmd_bucket)
     \<lparr>vr_app := True, vr_decoder := Some d, vr_decoder_initialized := True, vr_framebuffers := [(5, 6)]\<rparr>"

definition hmd_ops :: "vr_op list" where
  "hmd_ops = [Op_events [(Session_state_changed SESSION_READY,
       \<lparr>sa_begin = XR_SUCCESS, sa_cpu_level = XR_SUCCESS, sa_gpu_level = XR_SUCCESS, sa_end = XR_SUCCESS\<rparr>)],
     Op_new_frame XR_SUCCESS \<lparr>predictedDisplayTime = 6000000000, shouldRender = True\<rparr> hmd_clock hmd_time,
     Op_track hmd_track,
     Op_push hmd_clock [1, 2, 3] 9 False 540900 450000 False]"

section \<open>The round carried out\<close>

lemma hmd_conv:
  "vr_rtp_clock s = default_RTPClock \<Longrightarrow> vr_to_rtp_timestamp hmd_runtime 6000000000 (s :: 'd vr_data) = Inr 540000"
  "vr_rtp_clock s = default_RTPClock \<Longrightarrow> vr_to_rtp_timestamp hmd_runtime 6010000000 (s :: 'd vr_data) = Inr 540900"
  "vr_rtp_clock s = default_RTPClock \<Longrightarrow> vr_to_rtp_time_point hmd_runtime 6000000000 (s :: 'd vr_data) = Inr 540000"
  "vr_rtp_clock s = default_RTPClock \<Longrightarrow> vr_to_xr_time hmd_runtime 540900 (s :: 'd vr_data) = Inr 6010000000"
  "now_rtp_timestamp hmd_clock default_RTPClock = 450000"
  "to_rtp_timestamp default_RTPClock 540900 = 540900"
  "inter_frame_delay_us (refresh_rate hmd_specs) = Inr 10000"
  by (simp_all add: vr_to_rtp_timestamp_def vr_to_rtp_time_point_def vr_to_xr_time_def hmd_runtime_def xr_check_def
      rtp_timestamp_from_timespec_def from_timespec_def default_RTPClock_def NS_PER_SEC_def ticks_of_ns_def
      rtp_to_timespec_def to_timespec_def from_rtp_timestamp_def ns_of_ticks_def Let_def timespec_ns_def hmd_clock_def
      now_rtp_timestamp_def to_rtp_timestamp_def inter_frame_delay_us_def hmd_specs_def)

definition hmd_entry :: PoseCacheEntry where
  "hmd_entry = \<lparr>pe_pose_timestamp = 540900, pe_sample_timestamp = 450000, pe_xr_time = 6010000000, pe_views = hmd_views\<rparr>"

definition hmd_info :: VrFrameInfo where
  "hmd_info = \<lparr>vi_frame_id = 9, vi_end_of_stream = False, vi_pose_timestamp = 540900, vi_push_timestamp = 450000,
     vi_last_packet_received_timestamp = 450000, vi_frame_size = 3, vi_should_save_frame = False\<rparr>"

definition hmd_tracking :: TrackingState where
  "hmd_tracking = \<lparr>ts_sample_timestamp = 450000, ts_pose_timestamp = 540900, ts_pose = to_pose (hmd_pose 3),
     ts_fov_left = to_fov no_fov, ts_fov_right = to_fov no_fov\<rparr>"

definition hmd_calls :: "vr_call list" where
  "hmd_calls = [Xr_begin_session, Xr_performance_levels, Xr_wait_frame, Xr_locate_views 6010000000,
     Xr_locate_space 6010000000, Decoder_push hmd_info]"

definition hmd_after :: "'d \<Rightarrow> 'd vr_data" where
  "hmd_after d = (hmd_vr d)\<lparr>vr_session_running := True, vr_app_running := True, vr_frame_index := 1,
     vr_frame_state := \<lparr>predictedDisplayTime = 6000000000, shouldRender = True\<rparr>,
     vr_pose_cache := store_pose hmd_entry reset_pose_cache, vr_infos := [hmd_info], vr_calls := hmd_calls,
     vr_measurements := add_decoder_pushed_frame (client_add_tracking_time_measurement (\<lambda>_. 0)
       \<lparr>tt_pose_timestamp = 540900, tt_tracking_received_timestamp = 450000, tt_tracking_processed_timestamp = 450000\<rparr>
       hmd_bucket)\<rparr>"

lemmas hmd_steps = vr_handle_events_def handle_event_def begin_session_def xr_check_def vr_call_def vr_new_frame_def Let_def
  hmd_conv vr_get_next_tracking_state_def vr_get_pose_def vr_push_frame_data_def hmd_track_def hmd_vr_def new_vr_system_def

lemma hmd_run:
  assumes "push [1, 2, 3] False d = Inr (True, d')"
  shows "vr_run hmd_runtime push pull hmd_ops (hmd_vr d) = Inr (hmd_after d')"
  using assms by (simp add: hmd_ops_def hmd_steps hmd_after_def hmd_entry_def hmd_info_def hmd_calls_def)

lemma hmd_sent:
  assumes "push [1, 2, 3] False d = Inr (True, d')"
  shows "sent_poses hmd_runtime push pull hmd_ops (hmd_vr d) = [(hmd_tracking, hmd_views)]"
  using assms by (simp add: hmd_ops_def hmd_steps hmd_tracking_def hmd_views_def)

lemma hmd_found: "find_old_pose 540900 (store_pose hmd_entry reset_pose_cache) = Some (Some hmd_entry)"
  using find_old_pose_history [OF cache_holds_store [OF cache_holds_reset], of 540900 hmd_entry]
  by (simp add: lookup_pose_pick TRACKING_STATE_CACHE_SIZE_def hmd_entry_def)

lemma hmd_rendered:
  "\<exists>t s cs. vr_render hmd_runtime hmd_pull hmd_render hmd_time (hmd_after [hmd_texture]) = Inr (t, s)
     \<and> vr_calls s = cs @ [Xr_end_frame 6010000000 (Some hmd_views)] \<and> vr_last_info s = Some hmd_info"
  by (simp add: vr_render_def render_frame_def render_image_def hmd_after_def hmd_vr_def new_vr_system_def hmd_render_def
      xr_check_def vr_call_def Let_def choose_frame_def get_frame_from_decoder_def hmd_pull_def hmd_texture_def
      vr_catch_up.simps must_catch_up_def LARGE_QUEUE_CATCHUP_THRESHOLD_def reuse_last_frame_def draw_to_swapchain_def
      out_value_def draw_frame_def hmd_info_def choose_views_def hmd_found [unfolded hmd_entry_def] use_entry_def hmd_entry_def update_advance_def
      hmd_conv measure_quality_def hmd_calls_def)

end
