(* ===== verification/VrMatching.thy ===== *)
theory VrMatching
  imports VrSamples
begin

text \<open>
  What the parts of the VR system have to agree on: a frame and the views it is submitted with, the frames
  of the decoder and the infos in the queue, and the delay that the catch-up works off.
\<close>

section \<open>Frames and poses\<close>

text \<open>
  A frame that is drawn is submitted with the views that are stored for its pose stamp.
\<close>

lemma rendered_with_cached_pose:
  assumes "render_frame rt pull a t s = Inr (t', s')" "vr_calls s' = cs @ [Xr_end_frame x (Some views)]"
    and "cache_holds hs (vr_pose_cache s)" "vr_last_info s' = Some i"
    and "lookup_pose (vi_pose_timestamp i) hs = Some e"
  shows "views = pe_views e \<and> x = pe_xr_time e \<and> cf_tracking_timestamp t' = pe_sample_timestamp e
    \<and> cf_pose_timestamp t' = pe_pose_timestamp e \<and> cf_frame_id t' = vi_frame_id i"
  using assms(1)
proof (cases rule: render_frame_effect)
  case (1 t1 s1 r layer y t2 s2)
  have layer: "layer = Some views" "y = x" using 1(9) assms(2) by simp_all
  then have "render_image rt pull a t1 s1 = Inr (r, layer, x, t2, s2)" using 1(5) by (auto split: if_splits)
  then show ?thesis
  proof (cases rule: render_image_effect)
    case (1 s1a f j s2a t1a drawn t2a s3 t3 s4)
    note inner = this
    have drawn: "drawn" "f \<noteq> None" "j \<noteq> None" using inner(13) layer by (auto split: bool.splits option.splits)
    then obtain fr k where k: "f = Some fr" "j = Some k" by auto
    have views: "choose_views rt a (vi_pose_timestamp k) t3 s4 = Inr ((views, x, t2), s2)"
      using inner(13) drawn k layer by auto
    have "k = i"
      using choose_frame_shown [OF inner(4)] k assms(4) inner(10) \<open>shown s' = shown s2\<close>
      by (simp add: shown_def) (metis option.inject)
    moreover have "find_old_pose (vi_pose_timestamp i) (vr_pose_cache s4) = Some (Some e)"
      using find_old_pose_history [OF assms(3)] assms(5) inner(3,8) choose_frame_shown [OF inner(4)]
        \<open>vr_pose_cache s1 = vr_pose_cache s\<close> by simp
    ultimately have used: "use_entry e t3 = (views, x, t2)" using views by (simp add: choose_views_def)
    have "cf_frame_id t2a = vi_frame_id i"
      using inner(5) k drawn \<open>k = i\<close> by (auto simp: draw_to_swapchain_def and_then_Inr split: if_splits prod.splits)
    then show ?thesis
      using used inner(12) 1 \<open>cf_tracking_timestamp t' = cf_tracking_timestamp t2\<close>
        \<open>cf_pose_timestamp t' = cf_pose_timestamp t2\<close> \<open>cf_frame_id t' = cf_frame_id t2\<close>
      by (auto simp: use_entry_def)
  qed
qed

text \<open>C16: end to end on the headset. The pose of a frame, sent to the server as a tracking state among the last
  99, comes back as the frame's pose stamp, and the frame is submitted with exactly the views stored with
  that tracking state; the measurements take its stamps, and the id of the frame. The stamps sent must
  grow, which they do between wrap-arounds.
\<close>

theorem frame_submitted_with_its_pose:
  assumes "vr_pose_cache s0 = reset_pose_cache" "vr_run rt push pull ops s0 = Inr s"
    and "sorted_wrt (\<lambda>p q. ts_pose_timestamp (fst p) < ts_pose_timestamp (fst q)) (sent_poses rt push pull ops s0)"
    and "(ts, sampled) \<in> set (drop (length (sent_poses rt push pull ops s0) - 99) (sent_poses rt push pull ops s0))"
    and "vr_render rt pull a t s = Inr (t', s')" "vr_session_running s"
    and "vr_calls s' = cs @ [Xr_end_frame x (Some views)]"
    and "vr_last_info s' = Some i" "vi_pose_timestamp i = ts_pose_timestamp ts" "vi_pose_timestamp i \<noteq> 0"
  shows "views = sampled \<and> cf_tracking_timestamp t' = ts_sample_timestamp ts
    \<and> cf_pose_timestamp t' = ts_pose_timestamp ts \<and> cf_frame_id t' = vi_frame_id i"
proof -
  obtain es where es: "vr_pose_cache s = stored es" "list_all2 entry_of es (sent_poses rt push pull ops s0)"
    using run_cache [OF assms(2)] assms(1) by (auto simp: stored_def)
  define sent where "sent = sent_poses rt push pull ops s0"
  have len: "length es = length sent" using es(2) by (simp add: sent_def list_all2_lengthD)
  have entry: "entry_of (es ! k) (sent ! k)" if "k < length sent" for k
    using es(2) that by (auto simp: sent_def list_all2_conv_all_nth)
  have sorted: "sorted_wrt (\<lambda>a b. pe_pose_timestamp a < pe_pose_timestamp b) es"
    using assms(3) entry len unfolding sorted_wrt_iff_nth_less sent_def [symmetric] entry_of_def
    by (simp add: order_less_le_trans)
  define n where "n = length sent - 99"
  obtain j where "j < length (drop n sent)" "drop n sent ! j = (ts, sampled)"
    using assms(4) unfolding sent_def [symmetric] n_def [symmetric] in_set_conv_nth by blast
  then have k: "n + j < length sent" "sent ! (n + j) = (ts, sampled)" by auto
  define k where "k = n + j"
  have k: "k < length sent" "n \<le> k" "sent ! k = (ts, sampled)" using k by (simp_all add: k_def)
  have e: "pe_pose_timestamp (es ! k) = ts_pose_timestamp ts" "pe_sample_timestamp (es ! k) = ts_sample_timestamp ts"
    "pe_views (es ! k) = sampled" using entry [OF k(1)] k(3) by (simp_all add: entry_of_def)
  have "es ! k \<in> set (drop (length es - 99) es)"
    unfolding len n_def [symmetric] using k len by (auto simp: in_set_conv_nth intro!: exI [of _ "k - n"])
  then have "lookup_pose (vi_pose_timestamp i) (rev es) = Some (es ! k)"
    using recent_pose_lookup [OF sorted, of "es ! k"] assms(9,10) e by simp
  moreover have "render_frame rt pull a t s = Inr (t', s')" using assms(5,6) by (simp add: vr_render_def)
  ultimately show ?thesis
    using rendered_with_cached_pose [OF _ assms(7) _ assms(8)] cache_holds_stored [of es] es(1) e by auto
qed

theorem frame_submitted_with_its_pose_witness:
  "\<exists>t s. vr_render hmd_runtime hmd_pull hmd_render hmd_time (hmd_after [hmd_texture]) = Inr (t, s)
     \<and> cf_tracking_timestamp t = 450000 \<and> cf_pose_timestamp t = 540900 \<and> cf_frame_id t = 9"
proof -
  obtain t s cs where r: "vr_render hmd_runtime hmd_pull hmd_render hmd_time (hmd_after [hmd_texture]) = Inr (t, s)"
    "vr_calls s = cs @ [Xr_end_frame 6010000000 (Some hmd_views)]" "vr_last_info s = Some hmd_info"
    using hmd_rendered by blast
  have push: "hmd_push [1, 2, 3] False [] = Inr (True, [hmd_texture])" by (simp add: hmd_push_def)
  note sent = hmd_sent [of hmd_push, OF push, of hmd_pull]
  have "hmd_views = hmd_views \<and> cf_tracking_timestamp t = ts_sample_timestamp hmd_tracking
    \<and> cf_pose_timestamp t = ts_pose_timestamp hmd_tracking \<and> cf_frame_id t = vi_frame_id hmd_info"
    by (rule frame_submitted_with_its_pose [OF _ hmd_run [of hmd_push, OF push, of hmd_pull] _ _ r(1) _ r(2,3)])
      (simp add: hmd_vr_def new_vr_system_def, simp add: sent, simp add: sent, simp add: hmd_after_def,
       simp_all add: hmd_info_def hmd_tracking_def)
  then show ?thesis using r(1) by (simp add: hmd_info_def hmd_tracking_def)
qed

section \<open>Frames and packets\<close>

text \<open>
  Since the calls \<open>P0\<close> and \<open>Q0\<close>: the infos pushed are those pulled and then the queue, one for each packet
  that the decoder accepted, and there was one pull for each frame it delivered.
\<close>

definition matched ::
    "('d \<Rightarrow> bytes list) \<Rightarrow> ('d \<Rightarrow> nat) \<Rightarrow> VrFrameInfo list \<Rightarrow> VrFrameInfo option list \<Rightarrow> 'd vr_data \<Rightarrow> bool" where
  "matched acc del P0 Q0 s \<longleftrightarrow> (\<exists>P Q d. pushed_infos (vr_calls s) = P0 @ P \<and> pulled_infos (vr_calls s) = Q0 @ Q
     \<and> P = known Q @ vr_infos s \<and> vr_decoder s = Some d
     \<and> map vi_frame_size P = map (\<lambda>p. of_nat (length p)) (acc d) \<and> length Q = del d)"

lemma matched_decoding: "decoding s' = decoding s \<Longrightarrow> matched acc del P0 Q0 s' = matched acc del P0 Q0 s"
  by (simp add: matched_def decoding_def)

lemma known_prefix: "None \<notin> set Q \<Longrightarrow> Q = map Some (known Q)"
proof (induction Q)
  case (Cons x Q)
  then show ?case by (cases x) auto
qed simp

lemma known_length: "length (known Q) \<le> length Q"
  by (induction Q) (auto split: option.splits)

context video_decoder
begin

lemma pull_matched:
  assumes "get_frame_from_decoder pull s = Inr (f, i, has, s1)" "matched accepted delivered P0 Q0 s"
  shows "matched accepted delivered P0 Q0 s1"
proof -
  from assms(2) obtain P Q d where m: "pushed_infos (vr_calls s) = P0 @ P" "pulled_infos (vr_calls s) = Q0 @ Q"
    "P = known Q @ vr_infos s" "vr_decoder s = Some d"
    "map vi_frame_size P = map (\<lambda>p. of_nat (length p)) (accepted d)" "length Q = delivered d"
    by (auto simp: matched_def)
  show ?thesis
  proof (cases "vr_decoder_initialized s")
    case False
    then show ?thesis using assms m(4) by (simp add: get_frame_from_decoder_def)
  next
    case True
    then obtain f' d' where p: "pull d = Inr (f', d')"
      using assms(1) m(4) by (auto simp: get_frame_from_decoder_def split: sum.splits)
    note law = pull_delivers [OF p]
    show ?thesis
    proof (cases f')
      case None
      then show ?thesis using assms(1) m p law True by (auto simp: get_frame_from_decoder_def matched_def)
    next
      case (Some g)
      show ?thesis
      proof (cases "vr_infos s")
        case Nil
        then show ?thesis using assms(1) m p law True Some
          by (auto simp: get_frame_from_decoder_def matched_def Let_def vr_call_def intro!: exI [of _ "Q @ [None]"])
      next
        case (Cons j js)
        then show ?thesis using assms(1) m p law True Some
          by (auto simp: get_frame_from_decoder_def matched_def Let_def vr_call_def intro!: exI [of _ "Q @ [Some j]"])
      qed
    qed
  qed
qed

lemma choose_matched:
  assumes "choose_frame pull clk s = Inr (f, i, s')" "matched accepted delivered P0 Q0 s"
  shows "matched accepted delivered P0 Q0 s'"
proof -
  from assms(1) obtain f1 i1 has s1 f2 i2 s2 where got: "get_frame_from_decoder pull s = Inr (f1, i1, has, s1)"
    and caught: "vr_catch_up pull clk f1 i1 s1 = Inr (f2, i2, s2)" and reuse: "(f, i, s') = reuse_last_frame clk f2 i2 s2"
    by (auto simp: choose_frame_def and_then_Inr)
  have "matched accepted delivered P0 Q0 s2"
  proof (rule catch_up_rule [OF caught, where I = "\<lambda>_ _. matched accepted delivered P0 Q0"])
    show "matched accepted delivered P0 Q0 s1" by (rule pull_matched [OF got assms(2)])
  next
    fix f i s f1 i1 s1 assume "matched accepted delivered P0 Q0 s" "get_frame_from_decoder pull s = Inr (f1, i1, True, s1)"
    then have "matched accepted delivered P0 Q0 s1" using pull_matched by blast
    then show "matched accepted delivered P0 Q0 (caught_up clk s1)" by (simp add: matched_def caught_up_def)
  qed (use pull_matched in blast)+
  then show ?thesis using reuse by (auto simp: reuse_last_frame_def matched_def Let_def split: if_splits)
qed

lemma render_matched:
  assumes "vr_render rt pull a t s = Inr (t', s')" "matched accepted delivered P0 Q0 s"
  shows "matched accepted delivered P0 Q0 s'"
proof (cases "vr_session_running s")
  case True
  then have "render_frame rt pull a t s = Inr (t', s')" using assms by (simp add: vr_render_def)
  then show ?thesis
  proof (cases rule: render_frame_effect)
    case (1 t1 s1 r layer x t2 s2)
    note outer = this
    have s1: "matched accepted delivered P0 Q0 s1" using assms(2) matched_decoding [OF outer(1)] by simp
    have "matched accepted delivered P0 Q0 s2"
    proof (cases "shouldRender (vr_frame_state s)")
      case True
      then have "render_image rt pull a t1 s1 = Inr (r, layer, x, t2, s2)" using outer by simp
      then show ?thesis
      proof (cases rule: render_image_effect)
        case (1 s1a f j s2a t1a drawn t2a s3 t3 s4)
        then show ?thesis
          using choose_matched [of "ra_clk a" s1a f j s2a] s1 matched_decoding [OF 1(1)] matched_decoding [OF 1(9)] by simp
      qed
    qed (use outer s1 in simp)
    then show ?thesis using matched_decoding [OF outer(6)] by simp
  qed
qed (use assms in \<open>simp add: vr_render_def\<close>)

lemma push_matched:
  assumes "vr_push_frame_data push e data fid eos pose lp save s = Inr (ok, s1)" "matched accepted delivered P0 Q0 s"
  shows "matched accepted delivered P0 Q0 s1"
proof -
  from assms(2) obtain P Q d where m: "pushed_infos (vr_calls s) = P0 @ P" "pulled_infos (vr_calls s) = Q0 @ Q"
    "P = known Q @ vr_infos s" "vr_decoder s = Some d"
    "map vi_frame_size P = map (\<lambda>p. of_nat (length p)) (accepted d)" "length Q = delivered d"
    by (auto simp: matched_def)
  obtain d' where p: "push data eos d = Inr (ok, d')"
    using assms(1) m(4) by (auto simp: vr_push_frame_data_def and_then_Inr Let_def split: if_splits)
  show ?thesis
    using assms(1) m p push_accepts [OF p]
    by (cases ok) (auto simp: vr_push_frame_data_def and_then_Inr Let_def vr_call_def matched_def split: if_splits)
qed

lemma step_matched:
  assumes "vr_step rt push pull o1 s = Inr s1" "matched accepted delivered P0 Q0 s"
  shows "matched accepted delivered P0 Q0 s1"
proof (cases o1)
  case (Op_push e data fid eos pose lp save)
  then show ?thesis using assms push_matched by (auto simp: and_then_Inr)
next
  case (Op_render a t)
  then show ?thesis using assms render_matched by (auto simp: and_then_Inr)
next
  case (Op_new_frame r fs e t)
  then have "decoding s1 = decoding s"
    using assms(1) by (auto simp: vr_new_frame_def and_then_Inr Let_def split: if_splits)
  then show ?thesis using assms(2) matched_decoding [of s1 s] by simp
next
  case (Op_events es)
  then have "decoding s1 = decoding s" using assms(1) by (auto simp: vr_handle_events_def dest: events_keep split: if_splits)
  then show ?thesis using assms(2) matched_decoding [of s1 s] by simp
next
  case (Op_save fbo px)
  then have "decoding s1 = decoding s" using assms(1) by (auto simp: and_then_Inr dest: save_keeps)
  then show ?thesis using assms(2) matched_decoding [of s1 s] by simp
next
  case (Op_track a)
  then have "decoding s1 = decoding s" using assms(1) by (auto simp: and_then_Inr dest: track_effect)
  then show ?thesis using assms(2) matched_decoding [of s1 s] by simp
qed

lemma run_matched:
  "vr_run rt push pull ops s = Inr s' \<Longrightarrow> matched accepted delivered P0 Q0 s \<Longrightarrow> matched accepted delivered P0 Q0 s'"
  by (induction ops arbitrary: s) (auto simp: and_then_Inr simp del: vr_step.simps dest: step_matched)

end

text \<open>C17: with the Android decoder. In every run the packets that the decoder accepted have one info each, the
  infos leave the queue in the order of the packets, and each frame that the decoder delivers takes one;
  as long as the queue was not empty at any of them, the n-th frame has the info of the n-th packet.
\<close>

theorem mediacodec_frames_matched:
  assumes "vr_run rt (mc_push_packet env) (mc_get_frame_gpu env) ops s0 = Inr s" "vr_calls s = vr_calls s0 @ new"
    and "vr_decoder s0 = Some d0" "mc_accepted d0 = []" "mc_delivered d0 = 0" "vr_infos s0 = []"
  shows "\<exists>d. vr_decoder s = Some d \<and> map vi_frame_size (pushed_infos new) = map (\<lambda>p. of_nat (length p)) (mc_accepted d)
    \<and> known (pulled_infos new) @ vr_infos s = pushed_infos new \<and> length (pulled_infos new) = mc_delivered d
    \<and> (None \<notin> set (pulled_infos new) \<longrightarrow> pulled_infos new = map Some (take (mc_delivered d) (pushed_infos new)))"
proof -
  have "matched mc_accepted mc_delivered (pushed_infos (vr_calls s0)) (pulled_infos (vr_calls s0)) s0"
    using assms(3-6) by (simp add: matched_def)
  from mediacodec.run_matched [OF assms(1) this] obtain d where
    d: "vr_decoder s = Some d" "map vi_frame_size (pushed_infos new) = map (\<lambda>p. of_nat (length p)) (mc_accepted d)"
      "pushed_infos new = known (pulled_infos new) @ vr_infos s" "length (pulled_infos new) = mc_delivered d"
    using assms(2) by (auto simp: matched_def)
  have "pulled_infos new = map Some (take (mc_delivered d) (pushed_infos new))" if "None \<notin> set (pulled_infos new)"
  proof -
    have "length (known (pulled_infos new)) = mc_delivered d"
      using known_prefix [OF that] d(4) by (metis length_map)
    then show ?thesis using known_prefix [OF that] d(3) by simp
  qed
  then show ?thesis using d by auto
qed

definition sample_codec :: codec_env where
  "sample_codec = \<lparr>ce_input = (\<lambda>_. In_buffer 0 (Some 100)), ce_output = (\<lambda>_. Out_try_again)\<rparr>"

definition sample_mc :: MediaCodecVideoDecoder where
  "sample_mc = mc_init True (1, 2) True (create_h264_decoder \<lparr>ext_width = 8, ext_height = 4\<rparr>)"

theorem mediacodec_frames_matched_witness:
  "\<exists>d. mc_push_packet sample_codec [1, 2, 3] False sample_mc = Inr (True, d)
     \<and> map vi_frame_size (pushed_infos hmd_calls) = map (\<lambda>p. of_nat (length p)) (mc_accepted d)"
proof -
  obtain d where d: "mc_push_packet sample_codec [1, 2, 3] False sample_mc = Inr (True, d)"
    by (simp add: mc_push_packet_def sample_codec_def sample_mc_def mc_init_def create_h264_decoder_def
        create_media_codec_video_decoder_def Let_def mc_call_def)
  have new: "mc_accepted sample_mc = []" "mc_delivered sample_mc = 0"
    by (simp_all add: sample_mc_def mc_init_def create_h264_decoder_def create_media_codec_video_decoder_def Let_def
        mc_accepted_def mc_delivered_def released_def mc_call_def)
  have "\<exists>d'. vr_decoder (hmd_after d) = Some d'
    \<and> map vi_frame_size (pushed_infos hmd_calls) = map (\<lambda>p. of_nat (length p)) (mc_accepted d')
    \<and> known (pulled_infos hmd_calls) @ vr_infos (hmd_after d) = pushed_infos hmd_calls
    \<and> length (pulled_infos hmd_calls) = mc_delivered d'
    \<and> (None \<notin> set (pulled_infos hmd_calls) \<longrightarrow>
         pulled_infos hmd_calls = map Some (take (mc_delivered d') (pushed_infos hmd_calls)))"
    by (rule mediacodec_frames_matched [OF hmd_run [of "mc_push_packet sample_codec", OF d] _ _ new])
      (simp_all add: hmd_vr_def new_vr_system_def hmd_after_def)
  then show ?thesis using d by (auto simp: hmd_after_def hmd_vr_def)
qed

section \<open>The delay\<close>

lemma pulled_delay:
  assumes "get_frame_from_decoder pull s = Inr (f, i, has, s1)"
  shows "vr_accumulated_delay s1 = vr_accumulated_delay s"
  using assms by (auto simp: get_frame_from_decoder_def vr_call_def Let_def split: option.splits if_splits sum.splits list.splits)

lemma choose_frame_delay:
  assumes "choose_frame pull clk s = Inr (f, i, s')" "vr_accumulated_delay s \<le> 1"
  shows "vr_accumulated_delay s' \<le> 1"
proof -
  from assms(1) obtain f1 i1 has s1 f2 i2 s2 where got: "get_frame_from_decoder pull s = Inr (f1, i1, has, s1)"
    and caught: "vr_catch_up pull clk f1 i1 s1 = Inr (f2, i2, s2)" and reuse: "(f, i, s') = reuse_last_frame clk f2 i2 s2"
    by (auto simp: choose_frame_def and_then_Inr)
  have "vr_accumulated_delay s2 \<le> 1 \<and> (vr_accumulated_delay s2 = 0 \<or> f2 = vr_last_texture s2)"
  proof (rule catch_up_rule [OF caught, where I = "\<lambda>_ _ s. vr_accumulated_delay s \<le> 1"])
    show "vr_accumulated_delay s1 \<le> 1" using pulled_delay [OF got] assms(2) by simp
  next
    fix f i s f1 i1 s1 assume I: "vr_accumulated_delay s \<le> 1" "get_frame_from_decoder pull s = Inr (f1, i1, True, s1)"
    have "vr_accumulated_delay s - 1 \<le> 1" if "0 < vr_accumulated_delay s"
      using I(1) that by (simp add: word_le_nat_alt unat_minus_1)
    then show "vr_accumulated_delay (caught_up clk s1) \<le> 1" using I pulled_delay [OF I(2)] by (simp add: caught_up_def)
  next
    fix f i s f1 i1 s1 assume "vr_accumulated_delay s \<le> 1" "get_frame_from_decoder pull s = Inr (f1, i1, False, s1)"
    then show "vr_accumulated_delay s1 \<le> 1 \<and> (vr_accumulated_delay s1 = 0 \<or> vr_last_texture s1 = vr_last_texture s1)"
      using pulled_delay by fastforce
  next
    fix f i s assume "vr_accumulated_delay s \<le> 1" "\<not> must_catch_up s"
    then show "vr_accumulated_delay s \<le> 1 \<and> (vr_accumulated_delay s = 0 \<or> f = vr_last_texture s)"
      by (simp add: must_catch_up_def word_gt_0)
  qed
  then show ?thesis using reuse by (auto simp: reuse_last_frame_def Let_def split: if_splits)
qed

text \<open>An error of the choice is an error of the decoder.\<close>

lemma get_frame_returns:
  assumes "\<forall>d. \<exists>r. pull d = Inr r"
  obtains f i has s1 where "get_frame_from_decoder pull s = Inr (f, i, has, s1)"
proof (cases "vr_decoder s = None \<or> \<not> vr_decoder_initialized s")
  case True
  then have "get_frame_from_decoder pull s = Inr (None, None, False, s)"
    by (auto simp: get_frame_from_decoder_def split: option.splits)
  then show ?thesis by (rule that)
next
  case False
  then obtain d where d: "vr_decoder s = Some d" "vr_decoder_initialized s" by auto
  moreover obtain f d' where "pull d = Inr (f, d')" using assms by (metis surj_pair)
  ultimately show ?thesis using that
    by (cases f; cases "vr_infos s") (auto simp: get_frame_from_decoder_def Let_def)
qed

lemma catch_up_returns:
  "\<forall>d. \<exists>r. pull d = Inr r \<Longrightarrow> \<exists>r. vr_catch_up pull clk f i s = Inr r"
proof (induction pull clk f i s rule: vr_catch_up.induct [case_names loop])
  case (loop pull clk f i s)
  show ?case
  proof (cases "must_catch_up s")
    case True
    obtain f1 i1 has s1 where got: "get_frame_from_decoder pull s = Inr (f1, i1, has, s1)"
      using get_frame_returns [OF loop.prems] by blast
    show ?thesis
      using loop.IH [OF _ got refl refl refl _ loop.prems] True got by (cases has) (simp_all add: vr_catch_up.simps [of pull clk f i s])
  qed (simp add: vr_catch_up.simps)
qed

text \<open>C22: with a decoder that does not throw, the choice of a frame ends. The frame shown is the last one seen,
  with the info of the last packet matched; the search stops only when the decoder has no further frame, or
  no info is left and no frame is owed. The delay that is accumulated stays at most one frame.
\<close>

theorem newest_frame_shown:
  assumes "\<forall>d. \<exists>r. pull d = Inr r" "vr_decoder s = Some d" "vr_decoder_initialized s" "vr_accumulated_delay s \<le> 1"
  shows "\<exists>f i s'. choose_frame pull clk s = Inr (f, i, s')
    \<and> f = vr_last_texture s' \<and> i = vr_last_info s' \<and> vr_accumulated_delay s' \<le> 1
    \<and> ((\<exists>d0 d1. pull d0 = Inr (None, d1) \<and> vr_decoder s' = Some d1) \<or> vr_infos s' = [] \<and> vr_accumulated_delay s' = 0)"
proof -
  obtain f1 i1 has s1 where "get_frame_from_decoder pull s = Inr (f1, i1, has, s1)" using get_frame_returns [OF assms(1)] by blast
  moreover obtain r where "vr_catch_up pull clk f1 i1 s1 = Inr r" using catch_up_returns [OF assms(1)] by blast
  ultimately obtain f i s' where choice: "choose_frame pull clk s = Inr (f, i, s')"
    by (cases r, cases "reuse_last_frame clk (fst r) (fst (snd r)) (snd (snd r))") (simp add: choose_frame_def)
  then show ?thesis
    using choose_frame_shown [OF choice] choose_frame_newest [OF choice assms(2,3)] choose_frame_delay [OF choice assms(4)] by blast
qed

theorem newest_frame_shown_witness:
  "\<exists>f i s'. choose_frame hmd_pull (\<lambda>_. 0) (hmd_after [hmd_texture]) = Inr (f, i, s') \<and> f = vr_last_texture s'
     \<and> vr_accumulated_delay s' \<le> 1"
  using newest_frame_shown [of hmd_pull "hmd_after [hmd_texture]" "[hmd_texture]" "\<lambda>_. 0"]
  by (auto simp: hmd_pull_def hmd_after_def hmd_vr_def new_vr_system_def)

section \<open>What goes wrong\<close>

text \<open>
  A frame that is not decoded in time is not counted as dropped when another one is still in the decoder:
  the catch-up takes the last frame before the test for a drop.
\<close>

lemma pending_drop_not_counted:
  assumes "vr_decoder s = Some d" "vr_decoder_initialized s" "pull d = Inr (None, d1)" "pull d1 = Inr (None, d2)"
    and "vr_infos s \<noteq> [] \<or> vr_accumulated_delay s > 0" "vr_last_texture s = Some f" "vr_last_info s = Some i"
  shows "choose_frame pull clk s = Inr (Some f, Some i, s\<lparr>vr_decoder := Some d2\<rparr>)"
  using assms by (auto simp: choose_frame_def get_frame_from_decoder_def vr_catch_up.simps [of pull clk None None]
      must_catch_up_def LARGE_QUEUE_CATCHUP_THRESHOLD_def reuse_last_frame_def)

text \<open>A session that the runtime refuses to begin counts as running.\<close>

lemma refused_session_runs:
  assumes "\<not> vr_session_running s" "begin_session (XR_OTHER c) XR_SUCCESS XR_SUCCESS s = Inr s'"
  shows "vr_session_running s'"
  using assms by (auto simp: begin_session_def xr_check_def)

text \<open>A frame that is shown although no image was acquired is drawn with an index that has no value.\<close>

lemma drawn_without_image:
  assumes "ra_acquire a = (XR_OTHER c, None)"
  shows "draw_to_swapchain a (Some f) (Some i) t s = Inl (UndefinedBehaviour ''read of a variable without a value'')"
  using assms by (simp add: draw_to_swapchain_def out_value_def)

text \<open>The handles are kept after the shutdown, so the destructor destroys the same session again.\<close>

definition destroyed :: "nat \<Rightarrow> 'd vr_data \<Rightarrow> nat" where
  "destroyed h s = length (filter (\<lambda>c. c = Xr_destroy_session h) (vr_calls s))"

lemma destroyed_call [simp]:
  "destroyed h (vr_call c s) = (if c = Xr_destroy_session h then Suc (destroyed h s) else destroyed h s)"
  "vr_session (vr_call c s) = vr_session s"
  by (simp_all add: destroyed_def vr_call_def)

lemma destroyed_parts [simp]:
  "destroyed h (cleanup_gles s) = destroyed h s" "vr_session (cleanup_gles s) = vr_session s"
  "destroyed h (cleanup_egl s) = destroyed h s" "vr_session (cleanup_egl s) = vr_session s"
  by (simp_all add: cleanup_gles_def cleanup_egl_def Let_def destroyed_def vr_call_def)

lemma destroyed_end: "end_session r s = Inr s' \<Longrightarrow> destroyed h s' = destroyed h s \<and> vr_session s' = vr_session s"
  by (auto simp: end_session_def and_then_Inr destroyed_def vr_call_def split: if_splits)

lemma cleanup_destroys:
  assumes "cleanup_engine a s = Inr s'" "vr_session s = h" "h \<noteq> 0"
  shows "vr_session s' = h \<and> destroyed h s' = Suc (destroyed h s)"
proof -
  from assms obtain s1 where s1: "end_session (ca_end a) (vr_call Gl_finish s) = Inr s1"
    by (auto simp: cleanup_engine_def and_then_Inr)
  have "vr_session s1 = h" "destroyed h s1 = destroyed h s" using destroyed_end [OF s1, of h] assms(2) by simp_all
  moreover define s2 where "s2 = cleanup_gles (if vr_swapchain s1 \<noteq> 0 then vr_call (Xr_destroy_swapchain (vr_swapchain s1)) s1 else s1)"
  ultimately have s2: "vr_session s2 = h" "destroyed h s2 = destroyed h s" by simp_all
  define s3 where "s3 = cleanup_egl (if vr_session s2 \<noteq> 0 then vr_call (Xr_destroy_session (vr_session s2)) s2 else s2)"
  have s3: "vr_session s3 = h" "destroyed h s3 = Suc (destroyed h s)" using s2 assms(3) by (simp_all add: s3_def)
  have "s' = (if vr_instance s3 \<noteq> 0 then vr_call (Xr_destroy_instance (vr_instance s3)) s3 else s3)"
    using assms s1 by (auto simp: cleanup_engine_def and_then_Inr Let_def s2_def s3_def split: if_splits)
  then show ?thesis using s3 by simp
qed

lemma session_destroyed_twice:
  assumes "vr_shutdown a s = Inr s1" "vr_destroy b s1 = Inr s2" "vr_session s = h" "h \<noteq> 0"
  shows "destroyed h s2 = destroyed h s + 2"
proof -
  obtain s0 where s0: "cleanup_engine a s = Inr s0" "s1 = s0\<lparr>vr_app := False, vr_native_window := False\<rparr>"
    using assms(1) by (auto simp: vr_shutdown_def and_then_Inr split: if_splits)
  have "vr_session s0 = h" "destroyed h s0 = Suc (destroyed h s)"
    using cleanup_destroys [OF s0(1) assms(3,4)] by simp_all
  moreover from this have "destroyed h s2 = Suc (destroyed h s1)" "destroyed h s1 = destroyed h s0"
    using cleanup_destroys [of b s1 s2 h] assms(2,4) by (simp_all add: vr_destroy_def s0(2) destroyed_def)
  ultimately show ?thesis by simp
qed

text \<open>A new decoder meets the infos of the old one: its first frame is taken for a frame of the last stream.\<close>

lemma new_decoder_old_infos:
  assumes "vr_set_decoder (Some d) s = Inr s1" "vr_infos s = i # is" "pull (init d) = Inr (Some f, d')"
  shows "\<exists>s2. get_frame_from_decoder pull (snd (vr_init_decoder init s1)) = Inr (Some f, Some i, True, s2)"
  using assms by (auto simp: vr_set_decoder_def vr_init_decoder_def get_frame_from_decoder_def vr_call_def Let_def)

text \<open>The delay survives the end of a pass.\<close>

lemma delay_survives_pass: "vr_accumulated_delay (vr_soft_shutdown s) = vr_accumulated_delay s"
  by (simp add: vr_soft_shutdown_def split: option.splits)

end
