(* ===== verification/VrProtocol.thy ===== *)
theory VrProtocol
  imports VrSamples
begin

text \<open>
  The order in which the VR system calls OpenXR, as a monitor over the recorded calls: a session is begun
  and ended alternately, frames lie inside the session and do not overlap, and a swapchain image is
  acquired, waited for and released within its frame.
\<close>

record xr_monitor =
  xm_running :: bool
  xm_in_frame :: bool
  xm_image :: nat

definition xr_idle :: "bool \<Rightarrow> xr_monitor" where
  "xr_idle running = \<lparr>xm_running = running, xm_in_frame = False, xm_image = 0\<rparr>"

fun xr_allowed :: "vr_call \<Rightarrow> xr_monitor \<Rightarrow> xr_monitor option" where
  "xr_allowed Xr_begin_session m = (if \<not> xm_running m then Some (m\<lparr>xm_running := True\<rparr>) else None)"
| "xr_allowed Xr_end_session m = (if xm_running m \<and> \<not> xm_in_frame m then Some (m\<lparr>xm_running := False\<rparr>) else None)"
| "xr_allowed Xr_performance_levels m = (if xm_running m then Some m else None)"
| "xr_allowed Xr_wait_frame m = (if xm_running m \<and> \<not> xm_in_frame m then Some m else None)"
| "xr_allowed Xr_begin_frame m = (if xm_running m \<and> \<not> xm_in_frame m then Some (m\<lparr>xm_in_frame := True\<rparr>) else None)"
| "xr_allowed Xr_acquire_image m = (if xm_in_frame m \<and> xm_image m = 0 then Some (m\<lparr>xm_image := 1\<rparr>) else None)"
| "xr_allowed Xr_wait_image m = (if xm_image m = 1 then Some (m\<lparr>xm_image := 2\<rparr>) else None)"
| "xr_allowed Xr_release_image m = (if xm_image m = 2 then Some (m\<lparr>xm_image := 0\<rparr>) else None)"
| "xr_allowed (Xr_end_frame x v) m = (if xm_in_frame m \<and> xm_image m = 0 then Some (m\<lparr>xm_in_frame := False\<rparr>) else None)"
| "xr_allowed c m = Some m"

fun xr_trace :: "vr_call list \<Rightarrow> xr_monitor \<Rightarrow> xr_monitor option" where
  "xr_trace [] m = Some m"
| "xr_trace (c # cs) m = Option.bind (xr_allowed c m) (xr_trace cs)"

lemma xr_trace_append: "xr_trace (cs @ ds) m = Option.bind (xr_trace cs m) (xr_trace ds)"
  by (induction cs arbitrary: m) (auto simp: bind_assoc split: bind_splits)

lemma xr_trace_single [simp]: "xr_trace [c] = xr_allowed c"
proof (rule ext)
  show "xr_trace [c] m = xr_allowed c m" for m by (cases "xr_allowed c m") simp_all
qed

definition observed :: "'d vr_data \<Rightarrow> xr_monitor option" where
  "observed s = xr_trace (vr_calls s) (xr_idle False)"

lemma observed_call [simp]:
  "observed (vr_call c s) = Option.bind (observed s) (xr_allowed c)" "vr_session_running (vr_call c s) = vr_session_running s"
  by (simp_all add: observed_def vr_call_def xr_trace_append)

lemma observed_same: "vr_calls s' = vr_calls s \<Longrightarrow> observed s' = observed s"
  by (simp add: observed_def)

text \<open>The part of the state that the monitor is compared with.\<close>

definition session :: "'d vr_data \<Rightarrow> xr_monitor option \<times> bool" where
  "session s = (observed s, vr_session_running s)"

lemma session_updates [simp]:
  "session (s\<lparr>vr_measurements := m\<rparr>) = session s" "session (s\<lparr>vr_decoder := d\<rparr>) = session s"
  "session (s\<lparr>vr_debug_pose := e\<rparr>) = session s" "session (s\<lparr>vr_frames_in_advance := n\<rparr>) = session s"
  "session (s\<lparr>vr_accumulated_delay := x\<rparr>) = session s"
  "session (s\<lparr>vr_last_info := i\<rparr>) = session s" "session (s\<lparr>vr_should_exit := b\<rparr>) = session s"
  "session (s\<lparr>vr_pose_cache := c\<rparr>) = session s"
  "session (s\<lparr>vr_frame_index := k, vr_frame_state := fs\<rparr>) = session s"
  by (simp_all add: session_def observed_def)

lemma session_call:
  "xr_allowed c = Some \<Longrightarrow> session (vr_call c s) = session s"
  by (simp add: session_def)

lemma free_calls [simp]:
  "xr_allowed (Decoder_push i) = Some" "xr_allowed (Decoder_pull j) = Some" "xr_allowed (Xr_locate_views x) = Some"
  "xr_allowed (Xr_locate_space x) = Some" "xr_allowed (Draw_frame p ts fb w h fl sp) = Some" "xr_allowed (Gl_read_pixels w h) = Some"
  by (rule ext, simp)+

section \<open>Inside a frame\<close>

lemma get_frame_session:
  assumes "get_frame_from_decoder pull s = Inr (f, i, has, s1)"
  shows "session s1 = session s"
  using assms by (auto simp: get_frame_from_decoder_def vr_call_def session_def observed_def xr_trace_append Let_def
      split: option.splits if_splits sum.splits list.splits)

lemma catch_up_session:
  "vr_catch_up pull clk f i s = Inr (f', i', s') \<Longrightarrow> session s' = session s"
proof (induction pull clk f i s rule: vr_catch_up.induct [case_names loop])
  case (loop pull clk f i s)
  note result = loop.prems [unfolded vr_catch_up.simps [of pull clk f i s]]
  show ?case
  proof (cases "must_catch_up s")
    case True
    then obtain f1 i1 has s1 where got: "get_frame_from_decoder pull s = Inr (f1, i1, has, s1)"
      using result by (auto split: sum.splits)
    have "session (caught_up clk s1) = session s" using get_frame_session [OF got]
      by (simp add: caught_up_def session_def observed_def)
    then show ?thesis
      using loop.IH [OF _ got refl refl refl] result True got get_frame_session [OF got] by (cases has) auto
  qed (use result in simp)
qed

lemma reuse_session: "(f, i, s') = reuse_last_frame clk f2 i2 s2 \<Longrightarrow> session s' = session s2"
  by (auto simp: reuse_last_frame_def Let_def split: if_splits)

lemma choose_frame_session:
  assumes "choose_frame pull clk s = Inr (f, i, s')"
  shows "session s' = session s"
proof -
  from assms obtain f1 i1 has s1 f2 i2 s2 where parts: "get_frame_from_decoder pull s = Inr (f1, i1, has, s1)"
    "vr_catch_up pull clk f1 i1 s1 = Inr (f2, i2, s2)" "(f, i, s') = reuse_last_frame clk f2 i2 s2"
    by (auto simp: choose_frame_def and_then_Inr)
  show ?thesis using get_frame_session [OF parts(1)] catch_up_session [OF parts(2)] reuse_session [OF parts(3)] by simp
qed

lemma draw_session:
  "draw_frame f fb ext flip split s = (drawn, s') \<Longrightarrow> session s' = session s"
  by (auto simp: draw_frame_def Let_def session_call split: ImageFormat.splits)

lemma draw_to_swapchain_session:
  "draw_to_swapchain a f i t s = Inr (drawn, t', s') \<Longrightarrow> session s' = session s"
  by (auto simp: draw_to_swapchain_def and_then_Inr dest: draw_session split: option.splits if_splits prod.splits)

lemma choose_views_session:
  "choose_views rt a stamp t s = Inr (v, s') \<Longrightarrow> session s' = session s"
  by (auto simp: choose_views_def and_then_Inr session_call split: option.splits if_splits)

lemma render_image_session:
  assumes "render_image rt pull a t s = Inr (r, layer, x, t', s')"
    and "session s = (Some \<lparr>xm_running = True, xm_in_frame = True, xm_image = 0\<rparr>, True)"
  shows "session s' = session s"
proof -
  define s1 where "s1 = vr_call Xr_wait_image (vr_call Xr_acquire_image s)"
  from assms(1) obtain f i s2 drawn t1 t2 s3 t3 where
    choose: "choose_frame pull (ra_clk a) s1 = Inr (f, i, s2)"
    and draw: "draw_to_swapchain a f i t1 s2 = Inr (drawn, t2, s3)"
    and rest: "s' = vr_call Xr_release_image s3
      \<or> (\<exists>st v. choose_views rt a st t3 (vr_call Xr_release_image s3) = Inr (v, s'))"
    by (auto simp: render_image_def and_then_Inr Let_def s1_def split: bool.splits option.splits) blast+
  have "session s3 = session s1"
    using choose_frame_session [OF choose] draw_to_swapchain_session [OF draw] by simp
  then have "session (vr_call Xr_release_image s3) = session s" using assms(2) by (simp add: session_def s1_def)
  then show ?thesis using rest choose_views_session by metis
qed

lemma render_frame_session:
  assumes "render_frame rt pull a t s = Inr (t', s')" "session s = (Some (xr_idle True), True)"
  shows "session s' = (Some (xr_idle True), True)"
proof -
  define s1 where "s1 = vr_call Xr_begin_frame s"
  define t1 where "t1 = t\<lparr>cf_begin_frame_timestamp := now_rtp_timestamp (ra_begin_clock a) (vr_rtp_clock s)\<rparr>"
  from assms(1) obtain r layer x t2 s2 s4 t3 where
    image: "(if shouldRender (vr_frame_state s1) then render_image rt pull a t1 s1
        else Inr (None, None, predictedDisplayTime (vr_frame_state s1), t1, s1)) = Inr (r, layer, x, t2, s2)"
    and advance: "update_advance t3 (vr_call (Xr_end_frame x layer) s2) = Inr s4"
    and s': "s' = measure_quality (ra_clk a) r s4"
    unfolding render_frame_def Let_def s1_def [symmetric] t1_def [symmetric] and_then_Inr
    by (auto simp: and_then_Inr)
  have s1: "session s1 = (Some \<lparr>xm_running = True, xm_in_frame = True, xm_image = 0\<rparr>, True)"
    using assms(2) by (simp add: s1_def session_def xr_idle_def)
  have "session s2 = session s1"
    using image render_image_session [OF _ s1] by (auto split: if_splits)
  then have "session (vr_call (Xr_end_frame x layer) s2) = (Some (xr_idle True), True)"
    using s1 by (simp add: session_def xr_idle_def)
  then have "session s4 = (Some (xr_idle True), True)"
    using advance by (auto simp: update_advance_def and_then_Inr split: if_splits)
  then show ?thesis by (simp add: s' measure_quality_def split: option.splits prod.splits)
qed

section \<open>Along a run\<close>

definition in_order :: "'d vr_data \<Rightarrow> bool" where
  "in_order s \<longleftrightarrow> observed s = Some (xr_idle (vr_session_running s))"

lemma in_order_session: "session s' = session s \<Longrightarrow> in_order s \<Longrightarrow> in_order s'"
  by (simp add: in_order_def session_def)

lemma handle_event_order:
  "handle_event e a s = Inr s' \<Longrightarrow> in_order s \<Longrightarrow> in_order s'"
  by (auto simp: handle_event_def begin_session_def end_session_def and_then_Inr in_order_def xr_idle_def observed_def
      xr_trace_append vr_call_def split: xr_event.splits xr_session_state.splits if_splits)

lemma poll_events_order: "vr_poll_events es s = Inr s' \<Longrightarrow> in_order s \<Longrightarrow> in_order s'"
  by (induction es s rule: vr_poll_events.induct) (auto simp: and_then_Inr dest: handle_event_order)

lemma get_pose_session: "vr_get_pose rt a x s = Inr (r, s') \<Longrightarrow> session s' = session s"
  by (auto simp: vr_get_pose_def and_then_Inr Let_def session_call split: if_splits)

lemma save_session: "vr_save_frame_if_needed fbo px s = Inr (ok, b, s') \<Longrightarrow> session s' = session s"
  by (auto simp: vr_save_frame_if_needed_def Let_def session_call dest: draw_session split: option.splits bool.splits if_splits prod.splits)

lemma push_session: "vr_push_frame_data push e data fid eos pose lp save s = Inr (ok, s') \<Longrightarrow> session s' = session s"
  by (auto simp: vr_push_frame_data_def and_then_Inr Let_def session_def observed_def xr_trace_append vr_call_def split: option.splits if_splits)

lemma step_order:
  assumes "vr_step rt push pull o1 s = Inr s'" "in_order s"
  shows "in_order s'"
proof (cases o1)
  case (Op_events es)
  then show ?thesis using assms poll_events_order by (auto simp: vr_handle_events_def split: if_splits)
next
  case (Op_new_frame r fs e t)
  then show ?thesis using assms
    by (auto simp: vr_new_frame_def and_then_Inr Let_def in_order_def xr_idle_def observed_def xr_trace_append vr_call_def split: if_splits)
next
  case (Op_push e data fid eos pose lp save)
  then show ?thesis using assms by (auto simp: and_then_Inr dest!: push_session intro: in_order_session)
next
  case (Op_render a t)
  then show ?thesis using assms render_frame_session [of rt pull a t s _ s']
    by (auto simp: and_then_Inr vr_render_def in_order_def session_def split: if_splits)
next
  case (Op_save fbo px)
  then show ?thesis using assms by (auto simp: and_then_Inr dest!: save_session intro: in_order_session)
next
  case (Op_track a)
  then show ?thesis using assms
    by (auto simp: and_then_Inr vr_get_next_tracking_state_def dest!: get_pose_session intro: in_order_session)
qed

text \<open>C23: in every run from the start, whatever OpenXR answers, the calls into it are in order: a session is
  begun only when none runs and ended only when one does, frames are begun and ended one after the other
  inside a session, and each swapchain image is acquired, waited for and released inside its frame. The
  flag of the running session agrees with the calls.
\<close>

theorem openxr_calls_in_order:
  assumes "vr_run rt push pull ops s0 = Inr s" "vr_calls s0 = []" "\<not> vr_session_running s0"
  shows "xr_trace (vr_calls s) (xr_idle False) = Some (xr_idle (vr_session_running s))"
proof -
  have "in_order s0" using assms(2,3) by (simp add: in_order_def observed_def)
  with assms(1) have "in_order s"
    by (induction ops arbitrary: s0) (auto simp: and_then_Inr simp del: vr_step.simps dest: step_order)
  then show ?thesis by (simp add: in_order_def observed_def)
qed

theorem openxr_calls_in_order_witness:
  "xr_trace (vr_calls (hmd_after [hmd_texture])) (xr_idle False) = Some (xr_idle (vr_session_running (hmd_after [hmd_texture])))"
proof -
  have push: "hmd_push [1, 2, 3] False [] = Inr (True, [hmd_texture])" by (simp add: hmd_push_def)
  show ?thesis
    by (rule openxr_calls_in_order [OF hmd_run [of hmd_push, OF push, of hmd_pull]])
      (simp_all add: hmd_vr_def new_vr_system_def)
qed

end
