(* ===== verification/VrEngine.thy ===== *)
theory VrEngine
  imports VrSamples
begin

text \<open>
  \<open>wvb_client/src/vr_system.cpp\<close>: setting up OpenXR, EGL and OpenGL ES. The result of every OpenXR call is
  looked up by its name, its outputs are fields of \<open>engine_answers\<close>. Refresh rates are whole numbers of
  Hertz, as the code assumes; the difference of two floats for the distance of the eyes is an argument.
  The validation layers, which are off, are left out.
\<close>

section \<open>Choosing\<close>

definition check_xr_instance_extension_support :: "string list \<Rightarrow> string list \<Rightarrow> bool" where
  "check_xr_instance_extension_support desired available = list_all (\<lambda>d. list_ex (\<lambda>a. d = a) available) desired"

datatype reference_space = SPACE_VIEW | SPACE_LOCAL | SPACE_STAGE | SPACE_OTHER int

definition choose_reference_space_type :: "reference_space list \<Rightarrow> reference_space result" where
  "choose_reference_space_type available =
     (case find (\<lambda>t. t \<in> set available) [SPACE_STAGE, SPACE_LOCAL] of
        Some t \<Rightarrow> Inr t
      | None \<Rightarrow> and_then (vr_check False ''No supported reference space type found.'') (\<lambda>_. Inr SPACE_LOCAL))"

datatype egl_attrib =
    EGL_RED_SIZE | EGL_GREEN_SIZE | EGL_BLUE_SIZE | EGL_ALPHA_SIZE | EGL_DEPTH_SIZE | EGL_STENCIL_SIZE | EGL_SAMPLES
  | EGL_RENDERABLE_TYPE | EGL_SURFACE_TYPE

record egl_config =
  config_handle :: nat
  config_attrib :: "egl_attrib \<Rightarrow> u32"

definition EGL_PBUFFER_BIT :: u32 where "EGL_PBUFFER_BIT = 1"
definition EGL_WINDOW_BIT :: u32 where "EGL_WINDOW_BIT = 4"

definition config_attribs :: "(egl_attrib \<times> u32) list" where
  "config_attribs = [(EGL_RED_SIZE, 8), (EGL_GREEN_SIZE, 8), (EGL_BLUE_SIZE, 8), (EGL_ALPHA_SIZE, 8),
     (EGL_DEPTH_SIZE, 0), (EGL_STENCIL_SIZE, 0), (EGL_SAMPLES, 0)]"

definition config_fits :: "egl_config \<Rightarrow> bool" where
  "config_fits c \<longleftrightarrow>
     and (config_attrib c EGL_RENDERABLE_TYPE) (or EGL_WINDOW_BIT EGL_PBUFFER_BIT) = or EGL_WINDOW_BIT EGL_PBUFFER_BIT
     \<and> list_all (\<lambda>(a, v). config_attrib c a = v) config_attribs"

definition choose_egl_config :: "egl_config list \<Rightarrow> egl_config option" where
  "choose_egl_config configs = find config_fits configs"

fun nearest_rate :: "int \<Rightarrow> int \<Rightarrow> int list \<Rightarrow> int" where
  "nearest_rate target best [] = best"
| "nearest_rate target best (r # rs) =
     nearest_rate target (if \<bar>r - target\<bar> < \<bar>best - target\<bar> then r else best) rs"

definition setup_refresh_rate :: "int list \<Rightarrow> int \<Rightarrow> int result" where
  "setup_refresh_rate available target =
     (case available of
        [] \<Rightarrow> Inl (UndefinedBehaviour ''first element of an empty vector'')
      | r # rs \<Rightarrow> Inr (nearest_rate target r (r # rs)))"

section \<open>The engine\<close>

definition XR_MAKE_VERSION :: "u64 \<Rightarrow> u64 \<Rightarrow> u64 \<Rightarrow> u64" where
  "XR_MAKE_VERSION major minor patch = or (or (push_bit 48 (and major 0xffff)) (push_bit 32 (and minor 0xffff))) (and patch 0xffffffff)"

record engine_answers =
  ea_result :: "string \<Rightarrow> xr_result"
  ea_extensions :: "string list"
  ea_instance :: "nat option"
  ea_system_name :: string
  ea_gles_min :: u64
  ea_gles_max :: u64
  ea_gles_version :: "u64 \<times> u64"
  ea_display :: nat
  ea_configs :: "egl_config list"
  ea_context :: nat
  ea_multiview :: bool
  ea_session :: "nat option"
  ea_view_count :: nat
  ea_left_size :: Extent2D
  ea_right_size :: Extent2D
  ea_spaces :: "reference_space list"
  ea_bounds :: Extent2Df
  ea_swapchain :: "nat option"
  ea_images :: "(u32 \<times> u32 \<times> bool) list"
  ea_rates :: "int list"
  ea_programs :: "u32 \<times> u32 \<times> u32"
  ea_ipd :: f32
  ea_clock :: clock_env

fun xr_calls :: "engine_answers \<Rightarrow> string list \<Rightarrow> unit result" where
  "xr_calls a [] = Inr ()"
| "xr_calls a (n # ns) = and_then (xr_check (ea_result a n)) (\<lambda>_. xr_calls a ns)"

definition required_extensions :: "string list" where
  "required_extensions = [''XR_KHR_opengl_es_enable'', ''XR_FB_display_refresh_rate'', ''XR_KHR_convert_timespec_time'',
     ''XR_EXT_performance_settings'']"

text \<open>An output variable that a call does not write keeps its value.\<close>

definition written_to :: "'a option \<Rightarrow> 'a \<Rightarrow> 'a" where
  "written_to new old = (case new of None \<Rightarrow> old | Some x \<Rightarrow> x)"

definition init_instance :: "engine_answers \<Rightarrow> 'd vr_data \<Rightarrow> 'd vr_data result" where
  "init_instance a s =
     and_then (xr_calls a [''xrEnumerateInstanceExtensionProperties count'', ''xrEnumerateInstanceExtensionProperties'']) (\<lambda>_.
     and_then (vr_check (check_xr_instance_extension_support required_extensions (ea_extensions a))
       ''Not all required OpenXR extensions are supported.'') (\<lambda>_.
     and_then (xr_calls a [''xrCreateInstance'', ''xrGetInstanceProperties'', ''xrConvertTimeToTimespecTimeKHR'',
       ''xrConvertTimespecTimeToTimeKHR'', ''xrPerfSettingsSetPerformanceLevelEXT'', ''xrEnumerateDisplayRefreshRatesFB'',
       ''xrGetDisplayRefreshRateFB'', ''xrRequestDisplayRefreshRateFB'', ''xrGetSystem'', ''xrGetSystemProperties'']) (\<lambda>_.
       Inr (s\<lparr>vr_instance := written_to (ea_instance a) (vr_instance s),
              vr_specs := (vr_specs s)\<lparr>system_name := ea_system_name a, manufacturer_name := ''Oculus''\<rparr>\<rparr>))))"

definition init_egl :: "engine_answers \<Rightarrow> 'd vr_data \<Rightarrow> 'd vr_data result" where
  "init_egl a s =
     (if vr_egl_display s \<noteq> 0 then Inr s
      else if \<not> vr_native_window s then Inl (RuntimeError ''Native window is not set'')
      else and_then (vr_check (choose_egl_config (ea_configs a) \<noteq> None) ''Failed to choose EGL config'') (\<lambda>_.
        Inr (s\<lparr>vr_egl_display := ea_display a, vr_egl_context := ea_context a\<rparr>)))"

definition init_graphics :: "engine_answers \<Rightarrow> 'd vr_data \<Rightarrow> 'd vr_data result" where
  "init_graphics a s =
     and_then (xr_calls a [''xrGetInstanceProcAddr'', ''xrGetOpenGLESGraphicsRequirementsKHR'']) (\<lambda>_.
     and_then (init_egl a s) (\<lambda>s1.
     let version = XR_MAKE_VERSION (fst (ea_gles_version a)) (snd (ea_gles_version a)) 0 in
     and_then (vr_check (ea_gles_min a \<le> version \<and> version \<le> ea_gles_max a) ''Unsupported OpenGL ES version'') (\<lambda>_.
     and_then (vr_check (ea_multiview a) ''Failed to load glFramebufferTextureMultiviewOVR'') (\<lambda>_.
     and_then (xr_calls a [''xrCreateSession'']) (\<lambda>_.
       Inr (s1\<lparr>vr_session := written_to (ea_session a) (vr_session s1)\<rparr>))))))"

definition init_views :: "engine_answers \<Rightarrow> 'd vr_data \<Rightarrow> 'd vr_data result" where
  "init_views a s =
     and_then (xr_calls a [''xrEnumerateViewConfigurationViews count'']) (\<lambda>_.
     and_then (vr_check (ea_view_count a = 2) ''Expected 2 view configuration views'') (\<lambda>_.
     and_then (xr_calls a [''xrEnumerateViewConfigurationViews'']) (\<lambda>_.
     and_then (vr_check (ext_width (ea_left_size a) = ext_width (ea_right_size a)) ''Left and right eye should have the same width'') (\<lambda>_.
     and_then (vr_check (ext_height (ea_left_size a) = ext_height (ea_right_size a)) ''Left and right eye should have the same height'') (\<lambda>_.
     and_then (xr_calls a [''xrEnumerateReferenceSpaces count'', ''xrEnumerateReferenceSpaces'']) (\<lambda>_.
     and_then (choose_reference_space_type (ea_spaces a)) (\<lambda>_.
     and_then (xr_calls a [''xrCreateReferenceSpace world'', ''xrCreateReferenceSpace head'', ''xrGetReferenceSpaceBoundsRect'']) (\<lambda>_.
       Inr (s\<lparr>vr_specs := (vr_specs s)\<lparr>eye_resolution := ea_left_size a, world_bounds := ea_bounds a\<rparr>\<rparr>)))))))))"

text \<open>An image of the swapchain: its texture, the framebuffer made for it, and whether that is complete.\<close>

fun init_framebuffers :: "(u32 \<times> u32 \<times> bool) list \<Rightarrow> (u32 \<times> u32) list result" where
  "init_framebuffers [] = Inr []"
| "init_framebuffers ((texture, framebuffer, complete) # images) =
     and_then (vr_check complete ''Failed to create framebuffer'') (\<lambda>_.
     and_then (init_framebuffers images) (\<lambda>fs. Inr ((framebuffer, texture) # fs)))"

definition init_swapchain :: "engine_answers \<Rightarrow> 'd vr_data \<Rightarrow> 'd vr_data result" where
  "init_swapchain a s =
     and_then (xr_calls a [''xrCreateSwapchain'', ''xrEnumerateSwapchainImages count'', ''xrEnumerateSwapchainImages'']) (\<lambda>_.
     and_then (init_framebuffers (ea_images a)) (\<lambda>fs.
       Inr (s\<lparr>vr_swapchain := written_to (ea_swapchain a) (vr_swapchain s), vr_framebuffers := fs\<rparr>)))"

definition DESIRED_REFRESH_RATE :: int where "DESIRED_REFRESH_RATE = 90"

definition init_rate :: "engine_answers \<Rightarrow> 'd vr_data \<Rightarrow> 'd vr_data result" where
  "init_rate a s =
     and_then (xr_calls a [''xrEnumerateDisplayRefreshRatesFB count'', ''xrEnumerateDisplayRefreshRatesFB'']) (\<lambda>_.
     and_then (setup_refresh_rate (ea_rates a) DESIRED_REFRESH_RATE) (\<lambda>rate.
     and_then (xr_calls a [''xrRequestDisplayRefreshRateFB'']) (\<lambda>_.
       Inr (s\<lparr>vr_specs := (vr_specs s)\<lparr>refresh_rate := \<lparr>rr_numerator = word_of_int rate, rr_denominator = 1\<rparr>\<rparr>\<rparr>))))"

definition init_gles :: "engine_answers \<Rightarrow> 'd vr_data \<Rightarrow> 'd vr_data" where
  "init_gles a s = s\<lparr>vr_program_nv12 := fst (ea_programs a), vr_program_rgba := fst (snd (ea_programs a)),
     vr_program_bgra := snd (snd (ea_programs a))\<rparr>"

definition init_engine :: "xr_runtime \<Rightarrow> engine_answers \<Rightarrow> 'd vr_data \<Rightarrow> 'd vr_data result" where
  "init_engine rt a s =
     and_then (init_instance a s) (\<lambda>s1. and_then (init_graphics a s1) (\<lambda>s2. and_then (init_views a s2) (\<lambda>s3.
     and_then (init_swapchain a s3) (\<lambda>s4. and_then (init_rate a s4) (\<lambda>s5.
     let s6 = init_gles a s5 in
     and_then (vr_to_xr_time rt (now_rtp_timestamp (ea_clock a) (vr_rtp_clock s6)) s6) (\<lambda>x.
     and_then (xr_calls a [''xrLocateViews'']) (\<lambda>_.
       Inr ((vr_call (Xr_locate_views x) s6)\<lparr>vr_specs := (vr_specs s6)\<lparr>ipd := ea_ipd a\<rparr>\<rparr>))))))))"

text \<open>\<open>window\<close> is \<open>None\<close> for a null app, else tells whether the app has a window.\<close>

definition vr_init :: "xr_runtime \<Rightarrow> engine_answers \<Rightarrow> bool option \<Rightarrow> 'd vr_data \<Rightarrow> 'd vr_data result" where
  "vr_init rt a window s =
     (if vr_app s then Inl (RuntimeError ''VRSystem already initialized'')
      else case window of
        None \<Rightarrow> Inl (RuntimeError ''Android app must not be null'')
      | Some w \<Rightarrow>
          if \<not> w then Inl (RuntimeError ''Android app window must not be null'')
          else init_engine rt a (s\<lparr>vr_app := True, vr_native_window := True\<rparr>))"

section \<open>What is chosen\<close>

lemma extension_support: "check_xr_instance_extension_support desired available \<longleftrightarrow> set desired \<subseteq> set available"
  by (auto simp: check_xr_instance_extension_support_def list_all_iff list_ex_iff)

lemma nearest_rate_best:
  "nearest_rate t b rs \<in> insert b (set rs) \<and> (\<forall>r \<in> insert b (set rs). \<bar>nearest_rate t b rs - t\<bar> \<le> \<bar>r - t\<bar>)"
proof (induction rs arbitrary: b)
  case (Cons r rs)
  show ?case using Cons.IH [of "if \<bar>r - t\<bar> < \<bar>b - t\<bar> then r else b"] by (auto split: if_splits)
qed simp

lemma setup_refresh_rate_nearest:
  assumes "setup_refresh_rate rates t = Inr r"
  shows "r \<in> set rates \<and> (\<forall>q \<in> set rates. \<bar>r - t\<bar> \<le> \<bar>q - t\<bar>)"
  using assms nearest_rate_best by (cases rates) (fastforce simp: setup_refresh_rate_def)+

lemma stage_preferred:
  "choose_reference_space_type available = Inr t \<Longrightarrow>
     t \<in> set available \<and> (t = SPACE_STAGE \<or> t = SPACE_LOCAL \<and> SPACE_STAGE \<notin> set available)"
  by (auto simp: choose_reference_space_type_def vr_check_def split: if_splits)

lemma init_framebuffers_images:
  "init_framebuffers images = Inr fs \<Longrightarrow> fs = map (\<lambda>(t, f, c). (f, t)) images \<and> (\<forall>(t, f, c) \<in> set images. c)"
  by (induction images arbitrary: fs rule: init_framebuffers.induct) (auto simp: and_then_Inr vr_check_def split: if_splits)

text \<open>C39: a successful initialisation leaves specifications that fit the headset: both eyes have the resolution
  that is reported, the refresh rate is the available one nearest to 90 Hertz, the maker is set; every
  image of the swapchain has a framebuffer, and the required extensions are there.
\<close>

theorem initialised_system:
  assumes "vr_init rt a window s = Inr s'"
  shows "window = Some True \<and> \<not> vr_app s \<and> vr_app s' \<and> set required_extensions \<subseteq> set (ea_extensions a)
    \<and> eye_resolution (vr_specs s') = ea_left_size a \<and> ea_left_size a = ea_right_size a
    \<and> (\<exists>r \<in> set (ea_rates a). refresh_rate (vr_specs s') = \<lparr>rr_numerator = word_of_int r, rr_denominator = 1\<rparr>
        \<and> (\<forall>q \<in> set (ea_rates a). \<bar>r - 90\<bar> \<le> \<bar>q - 90\<bar>))
    \<and> manufacturer_name (vr_specs s') = ''Oculus'' \<and> system_name (vr_specs s') = ea_system_name a
    \<and> vr_framebuffers s' = map (\<lambda>(t, f, c). (f, t)) (ea_images a)"
proof -
  define s0 where "s0 = s\<lparr>vr_app := True, vr_native_window := True\<rparr>"
  have guards: "\<not> vr_app s" "window = Some True" and engine: "init_engine rt a s0 = Inr s'"
    using assms by (auto simp: vr_init_def s0_def split: if_splits option.splits)
  from engine obtain s1 s2 s3 s4 s5 x where i: "init_instance a s0 = Inr s1" "init_graphics a s1 = Inr s2"
    "init_views a s2 = Inr s3" "init_swapchain a s3 = Inr s4" "init_rate a s4 = Inr s5"
    "s' = (vr_call (Xr_locate_views x) (init_gles a s5))\<lparr>vr_specs := (vr_specs (init_gles a s5))\<lparr>ipd := ea_ipd a\<rparr>\<rparr>"
    unfolding init_engine_def Let_def by (auto simp: and_then_Inr)
  have s1: "vr_app s1" "system_name (vr_specs s1) = ea_system_name a" "manufacturer_name (vr_specs s1) = ''Oculus''"
    "set required_extensions \<subseteq> set (ea_extensions a)"
    using i(1) by (auto simp: init_instance_def and_then_Inr vr_check_def s0_def extension_support split: if_splits)
  have s2: "vr_app s2 = vr_app s1" "vr_specs s2 = vr_specs s1"
    using i(2) by (auto simp: init_graphics_def init_egl_def and_then_Inr Let_def split: if_splits)
  have s3: "vr_app s3 = vr_app s2" "system_name (vr_specs s3) = system_name (vr_specs s2)"
    "manufacturer_name (vr_specs s3) = manufacturer_name (vr_specs s2)" "eye_resolution (vr_specs s3) = ea_left_size a"
    "ea_left_size a = ea_right_size a"
    using i(3) by (auto simp: init_views_def and_then_Inr vr_check_def split: if_splits)
  have s4: "vr_app s4 = vr_app s3" "vr_specs s4 = vr_specs s3" "vr_framebuffers s4 = map (\<lambda>(t, f, c). (f, t)) (ea_images a)"
    using i(4) init_framebuffers_images by (auto simp: init_swapchain_def and_then_Inr)
  from i(5) obtain r where r: "setup_refresh_rate (ea_rates a) 90 = Inr r"
    and s5: "s5 = s4\<lparr>vr_specs := (vr_specs s4)\<lparr>refresh_rate := \<lparr>rr_numerator = word_of_int r, rr_denominator = 1\<rparr>\<rparr>\<rparr>"
    by (auto simp: init_rate_def and_then_Inr DESIRED_REFRESH_RATE_def)
  have s': "vr_app s' = vr_app s4" "vr_framebuffers s' = vr_framebuffers s4"
    "vr_specs s' = (vr_specs s4)\<lparr>refresh_rate := \<lparr>rr_numerator = word_of_int r, rr_denominator = 1\<rparr>, ipd := ea_ipd a\<rparr>"
    by (simp_all add: i(6) s5 init_gles_def vr_call_def)
  show ?thesis
    using guards s1 s2 s3 s4 s' setup_refresh_rate_nearest [OF r] by auto
qed

definition sample_egl :: egl_config where
  "sample_egl = \<lparr>config_handle = 1, config_attrib = (\<lambda>x. if x = EGL_RENDERABLE_TYPE then 5
     else if x \<in> {EGL_RED_SIZE, EGL_GREEN_SIZE, EGL_BLUE_SIZE, EGL_ALPHA_SIZE} then 8 else 0)\<rparr>"

definition sample_engine :: engine_answers where
  "sample_engine = \<lparr>ea_result = (\<lambda>_. XR_SUCCESS), ea_extensions = required_extensions, ea_instance = Some 1,
     ea_system_name = ''Quest'', ea_gles_min = 0, ea_gles_max = - 1, ea_gles_version = (3, 2), ea_display = 2,
     ea_configs = [sample_egl], ea_context = 3, ea_multiview = True, ea_session = Some 4, ea_view_count = 2,
     ea_left_size = \<lparr>ext_width = 4, ext_height = 4\<rparr>, ea_right_size = \<lparr>ext_width = 4, ext_height = 4\<rparr>,
     ea_spaces = [SPACE_LOCAL, SPACE_STAGE], ea_bounds = \<lparr>extf_width = 0, extf_height = 0\<rparr>, ea_swapchain = Some 5,
     ea_images = [(6, 7, True)], ea_rates = [60, 72, 90, 120], ea_programs = (8, 9, 10), ea_ipd = 1, ea_clock = hmd_clock\<rparr>"

theorem initialised_system_witness:
  "\<exists>s' :: unit vr_data. vr_init hmd_runtime sample_engine (Some True) (new_vr_system hmd_specs default_RTPClock hmd_bucket) = Inr s'
     \<and> refresh_rate (vr_specs s') = \<lparr>rr_numerator = 90, rr_denominator = 1\<rparr>"
proof -
  have fits: "choose_egl_config [sample_egl] \<noteq> None"
    by (simp add: choose_egl_config_def config_fits_def config_attribs_def EGL_WINDOW_BIT_def EGL_PBUFFER_BIT_def sample_egl_def)
  obtain s' :: "unit vr_data" where s': "vr_init hmd_runtime sample_engine (Some True)
      (new_vr_system hmd_specs default_RTPClock hmd_bucket) = Inr s'"
    using fits by (simp add: vr_init_def init_engine_def init_instance_def sample_engine_def xr_check_def vr_check_def extension_support
        init_graphics_def init_egl_def init_views_def choose_reference_space_type_def init_swapchain_def init_rate_def
        setup_refresh_rate_def init_gles_def Let_def new_vr_system_def vr_to_xr_time_def hmd_runtime_def)
  from initialised_system [OF s'] obtain r where "r \<in> {60, 72, 90, 120}"
    "refresh_rate (vr_specs s') = \<lparr>rr_numerator = word_of_int r, rr_denominator = 1\<rparr>" "\<bar>r - 90\<bar> \<le> \<bar>90 - 90 :: int\<bar>"
    by (auto simp: sample_engine_def)
  then show ?thesis using s' by auto
qed

section \<open>What goes wrong\<close>

text \<open>
  The bits of the surface type are looked for in the attribute of the renderable type, so a configuration
  that cannot be used for a window is taken.
\<close>

lemma config_without_window:
  "choose_egl_config [sample_egl] = Some sample_egl \<and> and (config_attrib sample_egl EGL_SURFACE_TYPE) EGL_WINDOW_BIT = 0"
  by (simp add: choose_egl_config_def config_fits_def config_attribs_def EGL_WINDOW_BIT_def EGL_PBUFFER_BIT_def sample_egl_def)

text \<open>The code goes on after a failed creation of the instance: no result but a missing runtime stops it.\<close>

lemma failed_creation_ignored:
  assumes "init_instance a s = Inr s1" "ea_result a ''xrCreateInstance'' = XR_OTHER c" "ea_instance a = None" "vr_instance s = 0"
  shows "vr_instance s1 = 0"
  using assms by (auto simp: init_instance_def and_then_Inr written_to_def)

end
