(* ===== verification/DxConverters.thy ===== *)
theory DxConverters
  imports VrStructs "HOL-Library.Multiset"
begin

text \<open>
  \<open>common/src/utils/rgba_to_nv12.cpp\<close>, \<open>rgba_to_bgra.cpp\<close> and \<open>dx11_common_utils.h\<close>: the two classes that
  convert a texture with a compute shader. Both have the same members and steps, up to the views of the
  destination and the file of the shader. Objects of Direct3D are numbers that the device answers;
  creations, releases and the calls on the context are recorded.
\<close>

section \<open>Thread groups\<close>

definition DEFAULT_THREAD_GROUP_SIZE :: u32 where "DEFAULT_THREAD_GROUP_SIZE = 16"

definition NB_THREADS_2 :: "u32 \<Rightarrow> u32 \<Rightarrow> u32" where
  "NB_THREADS_2 dimension group_size = (dimension + group_size - 1) div group_size"

definition NB_THREADS :: "u32 \<Rightarrow> u32" where
  "NB_THREADS dimension = NB_THREADS_2 dimension DEFAULT_THREAD_GROUP_SIZE"

text \<open>The groups cover the dimension, and one less would not, unless the sum wraps around.\<close>

lemma threads_cover:
  assumes "unat d + 15 < 2 ^ 32" "d \<noteq> 0"
  shows "unat d \<le> 16 * unat (NB_THREADS d) \<and> 16 * (unat (NB_THREADS d) - 1) < unat d"
proof -
  have "unat (d + 16 - 1) = unat d + 15"
    using assms(1) by (simp add: unat_word_ariths)
  then have "unat (NB_THREADS d) = (unat d + 15) div 16"
    by (simp add: NB_THREADS_def NB_THREADS_2_def DEFAULT_THREAD_GROUP_SIZE_def unat_div)
  moreover have "unat d \<noteq> 0" using assms(2) by (simp add: unat_eq_0)
  ultimately show ?thesis by linarith
qed

section \<open>The converters\<close>

datatype uav_format = UAV_R8_UNORM | UAV_R8G8_UNORM | UAV_R8G8B8A8_UNORM

datatype dx_call =
    Create_object nat
  | Release_object nat
  | Write_cbuffer nat u32 u32
  | Set_shader "nat option"
  | Set_constant_buffer "nat option"
  | Set_resource "nat option"
  | Set_uavs "nat option list"
  | Dispatch u32 u32

text \<open>The device's answers (None for a failure) and the files that can be read.\<close>

record dx_env =
  dx_uav :: "nat \<Rightarrow> uav_format \<Rightarrow> nat option"
  dx_cbuffer :: "nat option"
  dx_shader :: "bytes \<Rightarrow> nat option"
  dx_file :: "string \<Rightarrow> bytes option"

record converter =
  cv_uavs :: "nat option list"
  cv_cbuffer :: "nat option"
  cv_shader :: "nat option"
  cv_calls :: "dx_call list"

definition cv_call :: "dx_call list \<Rightarrow> converter \<Rightarrow> converter" where
  "cv_call cs c = c\<lparr>cv_calls := cv_calls c @ cs\<rparr>"

definition new_nv12_converter :: converter where
  "new_nv12_converter = \<lparr>cv_uavs = [None, None], cv_cbuffer = None, cv_shader = None, cv_calls = []\<rparr>"

definition new_bgra_converter :: converter where
  "new_bgra_converter = \<lparr>cv_uavs = [None], cv_cbuffer = None, cv_shader = None, cv_calls = []\<rparr>"

definition release_ref :: "nat option \<Rightarrow> dx_call list" where
  "release_ref r = (case r of None \<Rightarrow> [] | Some obj \<Rightarrow> [Release_object obj])"

definition converter_release :: "converter \<Rightarrow> converter" where
  "converter_release c =
     (cv_call (release_ref (cv_shader c) @ release_ref (cv_cbuffer c) @ concat (map release_ref (cv_uavs c))) c)
       \<lparr>cv_shader := None, cv_cbuffer := None, cv_uavs := map (\<lambda>_. None) (cv_uavs c)\<rparr>"

text \<open>Each view of the destination, with the message of its exception; \<open>k\<close> is the index of the next one.\<close>

fun create_views ::
    "dx_env \<Rightarrow> nat \<Rightarrow> (uav_format \<times> string) list \<Rightarrow> nat \<Rightarrow> converter \<Rightarrow> fault option \<times> converter" where
  "create_views env dst [] k c = (None, c)"
| "create_views env dst ((format, msg) # vs) k c =
     (case dx_uav env dst format of
        None \<Rightarrow> (Some (RuntimeError msg), converter_release c)
      | Some v \<Rightarrow> create_views env dst vs (k + 1) (cv_call [Create_object v] (c\<lparr>cv_uavs := (cv_uavs c)[k := Some v]\<rparr>)))"

text \<open>A file that is not in the directory is looked up in its parent, after the members have been released.\<close>

definition load_shader :: "dx_env \<Rightarrow> string \<Rightarrow> string \<Rightarrow> converter \<Rightarrow> bytes option \<times> converter" where
  "load_shader env dir name c =
     (case dx_file env (dir @ name) of
        Some binary \<Rightarrow> (Some binary, c)
      | None \<Rightarrow> (dx_file env (''../'' @ dir @ name), converter_release c))"

definition create_shader :: "dx_env \<Rightarrow> string \<Rightarrow> string \<Rightarrow> converter \<Rightarrow> fault option \<times> converter" where
  "create_shader env dir name c =
     (case load_shader env dir name c of
        (None, c1) \<Rightarrow> (Some (RuntimeError ''Failed to open shader binary''), c1)
      | (Some binary, c1) \<Rightarrow>
          (case dx_shader env binary of
             None \<Rightarrow> (Some (RuntimeError ''Failed to create compute shader''), converter_release c1)
           | Some s \<Rightarrow> (None, cv_call [Create_object s] (c1\<lparr>cv_shader := Some s\<rparr>))))"

definition create_cbuffer :: "dx_env \<Rightarrow> converter \<Rightarrow> fault option \<times> converter" where
  "create_cbuffer env c =
     (case dx_cbuffer env of
        None \<Rightarrow> (Some (RuntimeError ''Failed to create cbuffer''), converter_release c)
      | Some b \<Rightarrow> (None, cv_call [Create_object b] (c\<lparr>cv_cbuffer := Some b\<rparr>)))"

definition converter_init ::
    "(uav_format \<times> string) list \<Rightarrow> string \<Rightarrow> dx_env \<Rightarrow> Extent2D \<Rightarrow> string \<Rightarrow> nat \<Rightarrow> converter
     \<Rightarrow> fault option \<times> converter" where
  "converter_init views name env src_max_size dir dst c =
     (if ext_width src_max_size mod 2 \<noteq> 0 \<or> ext_height src_max_size mod 2 \<noteq> 0
      then (Some (RuntimeError ''Width and height must be a multiple of 2''), c)
      else case create_views env dst views 0 c of
        (Some e, c1) \<Rightarrow> (Some e, c1)
      | (None, c1) \<Rightarrow> (case create_cbuffer env c1 of
            (Some e, c2) \<Rightarrow> (Some e, c2)
          | (None, c2) \<Rightarrow> create_shader env dir name c2))"

definition nv12_init :: "dx_env \<Rightarrow> Extent2D \<Rightarrow> string \<Rightarrow> nat \<Rightarrow> converter \<Rightarrow> fault option \<times> converter" where
  "nv12_init = converter_init [(UAV_R8_UNORM, ''Failed to create NV12 GPU UAV for Y plane''),
     (UAV_R8G8_UNORM, ''Failed to create NV12 GPU UAV for UV plane'')] ''rgba_to_nv12.comp.cso''"

definition bgra_init :: "dx_env \<Rightarrow> Extent2D \<Rightarrow> string \<Rightarrow> nat \<Rightarrow> converter \<Rightarrow> fault option \<times> converter" where
  "bgra_init = converter_init [(UAV_R8G8B8A8_UNORM, ''Failed to create BGRA GPU UAV'')] ''rgba_to_bgra.comp.cso''"

text \<open>\<open>mapped\<close> is whether the device maps the buffer.\<close>

definition converter_update_size :: "bool \<Rightarrow> u32 \<Rightarrow> u32 \<Rightarrow> converter \<Rightarrow> bool \<times> converter" where
  "converter_update_size mapped width height c =
     (case cv_cbuffer c of None \<Rightarrow> (False, c)
      | Some b \<Rightarrow> if \<not> mapped then (False, c) else (True, cv_call [Write_cbuffer b width height] c))"

definition converter_convert :: "nat \<Rightarrow> Extent2D \<Rightarrow> converter \<Rightarrow> converter" where
  "converter_convert srv src_size c = cv_call
     [Set_shader (cv_shader c), Set_constant_buffer (cv_cbuffer c), Set_resource (Some srv), Set_uavs (cv_uavs c),
      Dispatch (NB_THREADS (ext_width src_size)) (NB_THREADS (ext_height src_size)),
      Set_resource None, Set_uavs (map (\<lambda>_. None) (cv_uavs c)), Set_shader None] c"

section \<open>Objects are released once\<close>

fun created :: "dx_call list \<Rightarrow> nat multiset" where
  "created [] = {#}"
| "created (Create_object x # cs) = add_mset x (created cs)"
| "created (_ # cs) = created cs"

fun released :: "dx_call list \<Rightarrow> nat multiset" where
  "released [] = {#}"
| "released (Release_object x # cs) = add_mset x (released cs)"
| "released (_ # cs) = released cs"

definition refs :: "nat option \<Rightarrow> nat multiset" where
  "refs r = (case r of None \<Rightarrow> {#} | Some x \<Rightarrow> {#x#})"

definition held :: "converter \<Rightarrow> nat multiset" where
  "held c = refs (cv_shader c) + refs (cv_cbuffer c) + sum_list (map refs (cv_uavs c))"

text \<open>What was created has been released or is held by one member.\<close>

definition balanced :: "converter \<Rightarrow> bool" where
  "balanced c \<longleftrightarrow> created (cv_calls c) = released (cv_calls c) + held c"

lemma created_append [simp]: "created (xs @ ys) = created xs + created ys"
  by (induction xs rule: created.induct) auto

lemma released_append [simp]: "released (xs @ ys) = released xs + released ys"
  by (induction xs rule: released.induct) auto

lemma release_ref [simp]: "created (release_ref r) = {#}" "released (release_ref r) = refs r"
  by (cases r; simp add: release_ref_def refs_def)+

lemma release_refs [simp]:
  "created (concat (map release_ref rs)) = {#}" "released (concat (map release_ref rs)) = sum_list (map refs rs)"
  by (induction rs) auto

lemma refs_None [simp]: "refs None = {#}" "refs (Some x) = {#x#}"
  by (simp_all add: refs_def)

lemma refs_Nones [simp]: "sum_list (map (\<lambda>_. {#}) rs) = {#}"
  by (induction rs) auto

lemma release_balanced: "balanced c \<Longrightarrow> balanced (converter_release c)"
  by (simp add: balanced_def converter_release_def cv_call_def held_def comp_def ac_simps)

lemma release_all: "balanced c \<Longrightarrow> created (cv_calls (converter_release c)) = released (cv_calls (converter_release c))"
  using release_balanced [of c] by (simp add: balanced_def held_def converter_release_def cv_call_def comp_def)

lemma refs_update:
  "k < length rs \<Longrightarrow> rs ! k = None \<Longrightarrow> sum_list (map refs (rs[k := Some v])) = add_mset v (sum_list (map refs rs))"
proof (induction rs arbitrary: k)
  case (Cons r rs)
  then show ?case by (cases k) auto
qed simp

lemma views_balanced:
  assumes "balanced c" "k + length vs \<le> length (cv_uavs c)" "\<forall>j\<ge>k. j < length (cv_uavs c) \<longrightarrow> cv_uavs c ! j = None"
    and "create_views env dst vs k c = (e, c')"
  shows "balanced c' \<and> cv_shader c' = (if e = None then cv_shader c else None)
    \<and> cv_cbuffer c' = (if e = None then cv_cbuffer c else None) \<and> (e \<noteq> None \<longrightarrow> held c' = {#})"
  using assms
proof (induction env dst vs k c rule: create_views.induct)
  case (2 env dst format msg vs k c)
  show ?case
  proof (cases "dx_uav env dst format")
    case None
    then show ?thesis
      using 2(2,5) release_balanced [of c] by (auto simp: converter_release_def cv_call_def held_def comp_def)
  next
    case (Some v)
    define d where "d = cv_call [Create_object v] (c\<lparr>cv_uavs := (cv_uavs c)[k := Some v]\<rparr>)"
    have "balanced d" "length (cv_uavs d) = length (cv_uavs c)" "\<forall>j\<ge>k+1. j < length (cv_uavs d) \<longrightarrow> cv_uavs d ! j = None"
      "cv_shader d = cv_shader c" "cv_cbuffer d = cv_cbuffer c"
      using 2(2-4) by (auto simp: d_def balanced_def held_def cv_call_def refs_update)
    then show ?thesis using 2(1) [OF Some] 2(3,5) Some by (auto simp: d_def [symmetric])
  qed
qed auto

text \<open>Nothing leaks and nothing is released twice: what \<open>init\<close> creates for a fresh converter is held by it
  afterwards or has been released, and nothing is held after an exception. The destructor releases the rest.\<close>

lemma init_balanced:
  assumes "balanced c" "held c = {#}" "list_all (\<lambda>r. r = None) (cv_uavs c)" "cv_shader c = None" "cv_cbuffer c = None"
    and "length views = length (cv_uavs c)" "converter_init views name env ext dir dst c = (e, c')"
  shows "balanced c' \<and> (e \<noteq> None \<longrightarrow> held c' = {#}) \<and> released (cv_calls (converter_release c')) = created (cv_calls c')"
proof -
  have none: "\<forall>j\<ge>0. j < length (cv_uavs c) \<longrightarrow> cv_uavs c ! j = None"
    using assms(3) by (simp add: list_all_length)
  have rest: ?thesis if "balanced c' \<and> (e \<noteq> None \<longrightarrow> held c' = {#})"
    using that release_all [of c'] by (auto simp: converter_release_def cv_call_def)
  obtain e1 c1 where v: "create_views env dst views 0 c = (e1, c1)" by fastforce
  note b1 = views_balanced [OF assms(1) _ none v]
  show ?thesis
  proof (cases "ext_width ext mod 2 \<noteq> 0 \<or> ext_height ext mod 2 \<noteq> 0 \<or> e1 \<noteq> None \<or> dx_cbuffer env = None")
    case True
    then show ?thesis using assms(1,2,7) v b1 assms(6) release_balanced [of c1]
      by (intro rest) (auto simp: converter_init_def create_cbuffer_def held_def converter_release_def cv_call_def comp_def
          split: if_splits option.splits)
  next
    case False
    then obtain b where b: "dx_cbuffer env = Some b" by auto
    define c2 where "c2 = cv_call [Create_object b] (c1\<lparr>cv_cbuffer := Some b\<rparr>)"
    have c2: "balanced c2" "cv_shader c2 = None" using b1 False assms(4-6)
      by (auto simp: c2_def balanced_def held_def cv_call_def)
    have "converter_init views name env ext dir dst c = create_shader env dir name c2"
      using False v b by (auto simp: converter_init_def create_cbuffer_def c2_def)
    then have "create_shader env dir name c2 = (e, c')" using assms(7) by simp
    then show ?thesis using c2 release_balanced [of c2] release_balanced [of "converter_release c2"]
      by (intro rest) (auto simp: create_shader_def load_shader_def balanced_def held_def converter_release_def cv_call_def comp_def
          split: option.splits prod.splits)
  qed
qed

lemma nv12_init_balanced:
  assumes "nv12_init env ext dir dst new_nv12_converter = (e, c')"
  shows "balanced c' \<and> (e \<noteq> None \<longrightarrow> held c' = {#}) \<and> released (cv_calls (converter_release c')) = created (cv_calls c')"
  by (rule init_balanced [OF _ _ _ _ _ _ assms [unfolded nv12_init_def]])
    (simp_all add: balanced_def held_def new_nv12_converter_def)

lemma bgra_init_balanced:
  assumes "bgra_init env ext dir dst new_bgra_converter = (e, c')"
  shows "balanced c' \<and> (e \<noteq> None \<longrightarrow> held c' = {#}) \<and> released (cv_calls (converter_release c')) = created (cv_calls c')"
  by (rule init_balanced [OF _ _ _ _ _ _ assms [unfolded bgra_init_def]])
    (simp_all add: balanced_def held_def new_bgra_converter_def)

section \<open>A shader in the parent directory\<close>

text \<open>When the shader is found only in the parent directory, \<open>init\<close> reports success, but the views and the
  buffer have been released: the size is refused and the shader runs without a destination.\<close>

lemma fallback_converts_nothing:
  assumes "dx_file env (dir @ name) = None" "converter_init views name env ext dir dst c = (None, c')"
  shows "cv_cbuffer c' = None \<and> list_all (\<lambda>r. r = None) (cv_uavs c')
    \<and> converter_update_size mapped w h c' = (False, c')"
  using assms
  by (auto simp: converter_init_def create_cbuffer_def create_shader_def load_shader_def converter_update_size_def
      converter_release_def cv_call_def list_all_iff split: if_splits option.splits prod.splits)

end
