(* ===== verification/FFmpegEncoder.thy ===== *)
theory FFmpegEncoder
  imports VideoPipeline CsvExport DxConverters
begin

text \<open>
  \<open>common/src/formats/ffmpeg/ffmpeg_gpu_encoder.cpp\<close>, \<open>ffmpeg_cpu_encoder.cpp\<close>, \<open>ffmpeg.h\<close> and
  \<open>formats/encoders.cpp\<close>: the two encoders of the server, over textures and over images in memory. FFmpeg
  and Direct3D are parameters: what their calls answer while an encoder is set up, and a codec with its
  own state \<open>'c\<close> that takes frames and gives packets.
\<close>

section \<open>Options\<close>

datatype ff_profile = FF_PROFILE_0 | FF_PROFILE_H264_HIGH | FF_PROFILE_HEVC_MAIN | FF_PROFILE_AV1_MAIN | FF_PROFILE_VP9_0

record FFMpegSpecificEncoderOptions =
  fo_codec_name :: string
  fo_profile :: ff_profile
  fo_gop_size :: int
  fo_max_b_frames :: int
  fo_delay :: int
  fo_thread_count :: int
  fo_supports_precise_format :: bool
  fo_options :: "(string \<times> string) list"

definition default_options :: FFMpegSpecificEncoderOptions where
  "default_options = \<lparr>fo_codec_name = '''', fo_profile = FF_PROFILE_0, fo_gop_size = 0, fo_max_b_frames = 0, fo_delay = 0,
     fo_thread_count = 1, fo_supports_precise_format = True, fo_options = []\<rparr>"

section \<open>FFmpeg and Direct3D\<close>

datatype pix_fmt = PIX_FMT_NONE | PIX_FMT_NV12 | PIX_FMT_YUV420P | PIX_FMT_D3D11

text \<open>The fields of the codec's context that \<open>init\<close> fills in, with the options set on its private data.\<close>

record AVCodecContext =
  ctx_codec_name :: string
  ctx_profile :: ff_profile
  ctx_options :: "(string \<times> string) list"
  ctx_width :: int
  ctx_height :: int
  ctx_pix_fmt :: pix_fmt
  ctx_time_base :: "int \<times> int"
  ctx_framerate :: "int \<times> int"
  ctx_gop_size :: int
  ctx_max_b_frames :: int
  ctx_thread_count :: int
  ctx_delay :: int
  ctx_bit_rate :: int
  ctx_slices :: int

text \<open>A frame shows an image in memory (two planes with their pitch) or a texture.\<close>

record AVFrame =
  av_format :: pix_fmt
  av_width :: int
  av_height :: int
  av_pts :: u64
  av_planes :: "(int \<times> bytes) list"
  av_texture :: "nat option"
  av_key_frame :: bool
  av_pict_type_I :: bool
  av_flag_key :: bool

datatype packet_answer = Av_packet bytes | Av_again | Av_eof | Av_error int

text \<open>\<open>avcodec_send_frame\<close>, \<open>avcodec_receive_packet\<close>, and the extra data of the context.\<close>

record 'c avcodec =
  av_send :: "AVFrame \<Rightarrow> 'c \<Rightarrow> int \<times> 'c"
  av_receive :: "'c \<Rightarrow> packet_answer \<times> 'c"
  av_extradata :: "'c \<Rightarrow> bytes"

text \<open>The answers during set-up; a negative number is an error. Last, the texture and whether the shader's
  buffer can be mapped.\<close>

record 'c ff_env =
  ff_hwdevice_alloc :: bool
  ff_hwdevice_init :: int
  ff_hwframe_alloc :: bool
  ff_hwframe_init :: int
  ff_find_encoder :: "string \<Rightarrow> bool"
  ff_alloc_context :: bool
  ff_opt_set :: "string \<Rightarrow> string \<Rightarrow> int"
  ff_open :: "AVCodecContext \<Rightarrow> int \<times> 'c"
  ff_packet_alloc :: bool
  ff_frame_alloc :: bool
  ff_get_buffer :: "int \<times> nat"
  ff_create_texture :: "nat option"
  ff_dx :: dx_env
  ff_map_cbuffer :: bool

section \<open>The members\<close>

datatype 'c codec_ptr = No_codec | Closed_codec | Open_codec 'c

text \<open>
  The members that both classes have; \<open>en_texture\<close> is the texture that the converter writes
  (\<open>m_intermediate_texture\<close>, \<open>m_dst_texture\<close>). The GPU encoder adds its two hardware contexts.
\<close>

record 'c ffmpeg_encoder =
  en_create_info :: EncoderCreateInfo
  en_shader_dir :: string
  en_options :: FFMpegSpecificEncoderOptions
  en_current_frame_id :: u64
  en_last_finished_frame_id :: u64
  en_converter :: converter
  en_codec :: "'c codec_ptr"
  en_frame :: "AVFrame option"
  en_packet :: bool
  en_texture :: "nat option"
  en_srv_cache :: "(nat \<times> nat) list"
  en_extra_buffer :: "bytes option"
  en_frame_delay :: u32

record 'c gpu_encoder = "'c ffmpeg_encoder" +
  en_hw_device_ctx :: bool
  en_hw_frames_ctx :: bool

definition create_ffmpeg_cpu_video_encoder ::
    "EncoderCreateInfo \<Rightarrow> string \<Rightarrow> FFMpegSpecificEncoderOptions \<Rightarrow> 'c ffmpeg_encoder" where
  "create_ffmpeg_cpu_video_encoder info dir options =
     \<lparr>en_create_info = info, en_shader_dir = dir, en_options = options, en_current_frame_id = 0,
      en_last_finished_frame_id = 0, en_converter = new_nv12_converter, en_codec = No_codec, en_frame = None,
      en_packet = False, en_texture = None, en_srv_cache = [], en_extra_buffer = None, en_frame_delay = 0\<rparr>"

definition create_ffmpeg_gpu_video_encoder ::
    "EncoderCreateInfo \<Rightarrow> string \<Rightarrow> FFMpegSpecificEncoderOptions \<Rightarrow> 'c gpu_encoder" where
  "create_ffmpeg_gpu_video_encoder info dir options =
     ffmpeg_encoder.extend (create_ffmpeg_cpu_video_encoder info dir options) \<lparr>en_hw_device_ctx = False, en_hw_frames_ctx = False\<rparr>"

definition cpu_type :: u8 where "cpu_type = ENC_PREPROCESS OR ENC_SOFTWARE"

definition gpu_type :: u8 where "gpu_type = ENC_D3D11TEXTURE2D"

definition cpu_staging_texture_format :: ImageFormat where "cpu_staging_texture_format = NV12"

definition cpu_name :: "'c ffmpeg_encoder \<Rightarrow> string" where
  "cpu_name e = ''FFMpegCPUVideoEncoder['' @ fo_codec_name (en_options e) @ '']''"

definition gpu_name :: "'c gpu_encoder \<Rightarrow> string" where
  "gpu_name e = ''FFMpegGPUVideoEncoder['' @ fo_codec_name (en_options e) @ '']''"

section \<open>The codecs of the server\<close>

definition create_h264_encoder :: "EncoderCreateInfo \<Rightarrow> string \<Rightarrow> 'c gpu_encoder" where
  "create_h264_encoder info dir = create_ffmpeg_gpu_video_encoder info dir
     (default_options\<lparr>fo_codec_name := ''h264_nvenc'', fo_profile := FF_PROFILE_H264_HIGH, fo_gop_size := 0,
        fo_max_b_frames := 0, fo_thread_count := 1,
        fo_options := [(''preset'', ''p1''), (''rc-lookahead'', ''0''), (''tune'', ''ull''), (''zerolatency'', ''1''),
          (''delay'', string_of_int (sint (ec_delay info)))]\<rparr>)"

definition create_hevc_encoder :: "EncoderCreateInfo \<Rightarrow> string \<Rightarrow> 'c gpu_encoder" where
  "create_hevc_encoder info dir =
     (let options = [(''preset'', ''p4''), (''rc-lookahead'', ''0''), (''zerolatency'', ''1'')]
          @ (if sint (ec_delay info) \<ge> 0 then [(''delay'', string_of_int (sint (ec_delay info)))] else [])
      in create_ffmpeg_gpu_video_encoder info dir
        (default_options\<lparr>fo_codec_name := ''hevc_nvenc'', fo_profile := FF_PROFILE_HEVC_MAIN, fo_gop_size := 0,
           fo_max_b_frames := 0, fo_options := options\<rparr>))"

definition create_av1_encoder :: "EncoderCreateInfo \<Rightarrow> string \<Rightarrow> 'c ffmpeg_encoder" where
  "create_av1_encoder info dir = create_ffmpeg_cpu_video_encoder info dir
     (default_options\<lparr>fo_codec_name := ''libaom-av1'', fo_profile := FF_PROFILE_AV1_MAIN,
        fo_supports_precise_format := False, fo_options := []\<rparr>)"

definition create_vp9_encoder :: "EncoderCreateInfo \<Rightarrow> string \<Rightarrow> 'c ffmpeg_encoder" where
  "create_vp9_encoder info dir = create_ffmpeg_cpu_video_encoder info dir
     (default_options\<lparr>fo_codec_name := ''libvpx-vp9'', fo_profile := FF_PROFILE_VP9_0, fo_gop_size := 30,
        fo_max_b_frames := 0, fo_supports_precise_format := False,
        fo_options := [(''cpu-used'', ''8''), (''deadline'', ''realtime'')]\<rparr>)"

section \<open>Initialisation\<close>

definition H264_LINE_PER_SLICE :: u32 where "H264_LINE_PER_SLICE = 128"
definition H264_MAX_SLICES :: int where "H264_MAX_SLICES = 256"

definition gpu_slices :: "bool \<Rightarrow> EncoderCreateInfo \<Rightarrow> int" where
  "gpu_slices use_udp info =
     (if use_udp then min (sint (snd (ec_src_size info) div H264_LINE_PER_SLICE)) H264_MAX_SLICES else 1)"

definition cpu_pix_fmt :: "FFMpegSpecificEncoderOptions \<Rightarrow> pix_fmt" where
  "cpu_pix_fmt fo = (if fo_supports_precise_format fo then PIX_FMT_NV12 else PIX_FMT_YUV420P)"

text \<open>The context of the CPU encoder keeps FFmpeg's number of slices, \<open>0\<close> for automatic.\<close>

definition codec_context :: "pix_fmt \<Rightarrow> int \<Rightarrow> ('c, 'm) ffmpeg_encoder_scheme \<Rightarrow> AVCodecContext" where
  "codec_context pix slices e =
     (let info = en_create_info e; fo = en_options e; rate = ec_refresh_rate info in
      \<lparr>ctx_codec_name = fo_codec_name fo, ctx_profile = fo_profile fo, ctx_options = fo_options fo,
       ctx_width = sint (fst (ec_src_size info)), ctx_height = sint (snd (ec_src_size info)), ctx_pix_fmt = pix,
       ctx_time_base = (sint (rr_denominator rate), sint (rr_numerator rate)),
       ctx_framerate = (sint (rr_numerator rate), sint (rr_denominator rate)),
       ctx_gop_size = fo_gop_size fo, ctx_max_b_frames = fo_max_b_frames fo, ctx_thread_count = fo_thread_count fo,
       ctx_delay = fo_delay fo, ctx_bit_rate = uint (ec_bitrate info), ctx_slices = slices\<rparr>)"

definition AV_NOPTS_VALUE :: u64 where "AV_NOPTS_VALUE = 0x8000000000000000"

definition new_av_frame :: "pix_fmt \<Rightarrow> u64 \<Rightarrow> ('c, 'm) ffmpeg_encoder_scheme \<Rightarrow> AVFrame" where
  "new_av_frame format pts e =
     \<lparr>av_format = format, av_width = sint (fst (ec_src_size (en_create_info e))),
      av_height = sint (snd (ec_src_size (en_create_info e))), av_pts = pts, av_planes = [], av_texture = None,
      av_key_frame = False, av_pict_type_I = False, av_flag_key = False\<rparr>"

text \<open>From the search for the codec to the frame; false as soon as one call fails.\<close>

definition open_codec ::
    "'c ff_env \<Rightarrow> pix_fmt \<Rightarrow> int \<Rightarrow> AVFrame \<Rightarrow> ('c, 'm) ffmpeg_encoder_scheme \<Rightarrow> bool \<times> ('c, 'm) ffmpeg_encoder_scheme" where
  "open_codec env pix slices frame e =
     (if \<not> ff_find_encoder env (fo_codec_name (en_options e)) \<or> \<not> ff_alloc_context env then (False, e)
      else let e1 = e\<lparr>en_codec := Closed_codec\<rparr> in
        if list_ex (\<lambda>(key, value). ff_opt_set env key value < 0) (fo_options (en_options e)) then (False, e1)
        else case ff_open env (codec_context pix slices e) of (res, c) \<Rightarrow>
          if res < 0 then (False, e1)
          else let e2 = e1\<lparr>en_codec := Open_codec c\<rparr> in
            if \<not> ff_packet_alloc env then (False, e2)
            else if \<not> ff_frame_alloc env then (False, e2\<lparr>en_packet := True\<rparr>)
            else (True, e2\<lparr>en_packet := True, en_frame := Some frame\<rparr>))"

definition src_extent :: "EncoderCreateInfo \<Rightarrow> Extent2D" where
  "src_extent info = \<lparr>ext_width = fst (ec_src_size info), ext_height = snd (ec_src_size info)\<rparr>"

text \<open>The converter throws where it fails; the answer of \<open>update_size\<close> is not looked at.\<close>

definition init_converter ::
    "'c ff_env \<Rightarrow> nat \<Rightarrow> ('c, 'm) ffmpeg_encoder_scheme \<Rightarrow> bool result \<times> ('c, 'm) ffmpeg_encoder_scheme" where
  "init_converter env texture e =
     (let size = src_extent (en_create_info e) in
      case nv12_init (ff_dx env) size (en_shader_dir e) texture (en_converter e) of
        (Some f, c) \<Rightarrow> (Inl f, e\<lparr>en_converter := c\<rparr>)
      | (None, c) \<Rightarrow> (Inr True, e\<lparr>en_converter :=
          snd (converter_update_size (ff_map_cbuffer env) (ext_width size) (ext_height size) c)\<rparr>))"

definition cpu_init :: "'c ff_env \<Rightarrow> 'c ffmpeg_encoder \<Rightarrow> bool result \<times> 'c ffmpeg_encoder" where
  "cpu_init env e =
     (case open_codec env (cpu_pix_fmt (en_options e)) 0 (new_av_frame PIX_FMT_NV12 0 e) e of
        (False, e1) \<Rightarrow> (Inr False, e1)
      | (True, e1) \<Rightarrow> (case ff_create_texture env of
            None \<Rightarrow> (Inr False, e1)
          | Some tex \<Rightarrow> init_converter env tex (e1\<lparr>en_texture := Some tex\<rparr>)))"

definition gpu_init :: "bool \<Rightarrow> 'c ff_env \<Rightarrow> 'c gpu_encoder \<Rightarrow> bool result \<times> 'c gpu_encoder" where
  "gpu_init use_udp env e =
     (if \<not> ff_hwdevice_alloc env then (Inr False, e)
      else let e1 = e\<lparr>en_hw_device_ctx := True\<rparr> in
        if ff_hwdevice_init env < 0 \<or> \<not> ff_hwframe_alloc env then (Inr False, e1)
        else let e2 = e1\<lparr>en_hw_frames_ctx := True\<rparr> in
          if ff_hwframe_init env < 0 then (Inr False, e2)
          else case open_codec env PIX_FMT_D3D11 (gpu_slices use_udp (en_create_info e))
              (new_av_frame PIX_FMT_D3D11 AV_NOPTS_VALUE e) e2 of
            (False, e3) \<Rightarrow> (Inr False, e3)
          | (True, e3) \<Rightarrow>
              (case ff_get_buffer env of (res, tex) \<Rightarrow>
                 if res < 0 then (Inr False, e3)
                 else init_converter env tex (e3\<lparr>en_texture := Some tex,
                        en_frame := map_option (\<lambda>f. f\<lparr>av_texture := Some tex\<rparr>) (en_frame e3)\<rparr>)))"

section \<open>Frames in\<close>

text \<open>The view of a source texture, found in the cache or created (\<open>answer\<close>, None for a failure).\<close>

definition get_src_frame_srv ::
    "nat option \<Rightarrow> nat \<Rightarrow> ('c, 'm) ffmpeg_encoder_scheme \<Rightarrow> nat option \<times> ('c, 'm) ffmpeg_encoder_scheme" where
  "get_src_frame_srv answer texture e =
     (case map_of (en_srv_cache e) texture of
        Some srv \<Rightarrow> (Some srv, e)
      | None \<Rightarrow> (case answer of None \<Rightarrow> (None, e)
          | Some srv \<Rightarrow> (Some srv, e\<lparr>en_srv_cache := en_srv_cache e @ [(texture, srv)]\<rparr>)))"

definition preprocess_frame_gpu_with_texture ::
    "nat option \<Rightarrow> nat \<Rightarrow> 'c ffmpeg_encoder \<Rightarrow> nat option \<times> 'c ffmpeg_encoder" where
  "preprocess_frame_gpu_with_texture answer src_texture e =
     (case get_src_frame_srv answer src_texture e of
        (None, e1) \<Rightarrow> (None, e1)
      | (Some srv, e1) \<Rightarrow> (en_texture e1,
          e1\<lparr>en_converter := converter_convert srv (src_extent (en_create_info e1)) (en_converter e1)\<rparr>))"

text \<open>The flags of the last frame are set and never reset.\<close>

definition mark_last :: "bool \<Rightarrow> AVFrame \<Rightarrow> AVFrame" where
  "mark_last last_of_stream f =
     (if last_of_stream then f\<lparr>av_key_frame := True, av_pict_type_I := True, av_flag_key := True\<rparr> else f)"

text \<open>\<open>avcodec_send_frame\<close> on the members; its result is only logged.\<close>

definition send_to_codec ::
    "'c avcodec \<Rightarrow> (AVFrame \<Rightarrow> AVFrame) \<Rightarrow> ('c, 'm) ffmpeg_encoder_scheme \<Rightarrow> ('c, 'm) ffmpeg_encoder_scheme result" where
  "send_to_codec av upd e =
     (case (en_frame e, en_codec e) of
        (Some f, Open_codec c) \<Rightarrow>
          Inr (e\<lparr>en_frame := Some (upd f), en_codec := Open_codec (snd (av_send av (upd f) c))\<rparr>)
      | _ \<Rightarrow> Inl (UndefinedBehaviour ''encoder is not initialised''))"

definition raw_plane :: "raw_frame \<Rightarrow> nat \<Rightarrow> int \<times> bytes" where
  "raw_plane frame k = (if k < length (rf_planes frame)
     then (sint (fst (rf_planes frame ! k)), snd (rf_planes frame ! k)) else (0, []))"

definition new_frame_cpu ::
    "'c avcodec \<Rightarrow> u64 \<Rightarrow> bool \<Rightarrow> raw_frame \<Rightarrow> 'c ffmpeg_encoder \<Rightarrow> 'c ffmpeg_encoder result" where
  "new_frame_cpu av fid last_of_stream frame e =
     (let e1 = e\<lparr>en_current_frame_id := fid\<rparr> in
      if fid \<le> en_last_finished_frame_id e then Inr e1
      else send_to_codec av (\<lambda>f. mark_last last_of_stream
        (f\<lparr>av_planes := [raw_plane frame 0, raw_plane frame 1], av_pts := fid\<rparr>)) e1)"

text \<open>\<open>extent\<close> is the size of the source texture.\<close>

definition new_frame_gpu_with_texture ::
    "'c avcodec \<Rightarrow> nat option \<Rightarrow> Extent2D \<Rightarrow> u64 \<Rightarrow> bool \<Rightarrow> nat \<Rightarrow> 'c gpu_encoder \<Rightarrow> 'c gpu_encoder result" where
  "new_frame_gpu_with_texture av answer extent fid last_of_stream texture e =
     (let e1 = e\<lparr>en_current_frame_id := fid\<rparr> in
      if fid \<le> en_last_finished_frame_id e then Inr e1
      else case get_src_frame_srv answer texture e1 of
        (None, e2) \<Rightarrow> Inr e2
      | (Some srv, e2) \<Rightarrow>
          if extent \<noteq> src_extent (en_create_info e2) then Inr e2
          else send_to_codec av (\<lambda>f. mark_last last_of_stream (f\<lparr>av_pts := fid\<rparr>))
            (e2\<lparr>en_converter := converter_convert srv (src_extent (en_create_info e2)) (en_converter e2)\<rparr>))"

section \<open>Packets out\<close>

text \<open>The packet with the extra data in front, written into a buffer that only grows.\<close>

definition extra_packet :: "bytes option \<Rightarrow> bytes \<Rightarrow> bytes" where
  "extra_packet buffer bs =
     (case buffer of None \<Rightarrow> bs | Some b \<Rightarrow> if length b < length bs then bs else bs @ drop (length bs) b)"

text \<open>
  \<open>get_next_packet\<close>, the same in both classes: what the caller's variables held, the packet that they hold
  afterwards (None for a null pointer), and the returned flag, which is always false.
\<close>

definition get_next_packet ::
    "'c avcodec \<Rightarrow> bytes option \<Rightarrow> ('c, 'm) ffmpeg_encoder_scheme
     \<Rightarrow> ((bool \<times> bytes option) \<times> ('c, 'm) ffmpeg_encoder_scheme) result" where
  "get_next_packet av out e =
     (if en_current_frame_id e \<le> en_last_finished_frame_id e then Inr ((False, out), e)
      else case en_codec e of
        Open_codec c \<Rightarrow>
          (case av_receive av c of (answer, c') \<Rightarrow>
             let e1 = e\<lparr>en_codec := Open_codec c'\<rparr>; nothing = (\<lambda>e2. Inr ((False, None), e2));
                 waiting = nothing (if en_last_finished_frame_id e = 0
                   then e1\<lparr>en_frame_delay := en_frame_delay e + 1\<rparr> else e1)
             in case answer of
                  Av_again \<Rightarrow> waiting
                | Av_eof \<Rightarrow> waiting
                | Av_error _ \<Rightarrow> nothing e1
                | Av_packet packet \<Rightarrow>
                    let e2 = e1\<lparr>en_last_finished_frame_id := en_current_frame_id e\<rparr> in
                    if en_current_frame_id e < 5
                    then let bs = av_extradata av c' @ packet; buffer = extra_packet (en_extra_buffer e) bs
                         in Inr ((False, Some (take (length bs) buffer)), e2\<lparr>en_extra_buffer := Some buffer\<rparr>)
                    else Inr ((False, Some packet), e2\<lparr>en_extra_buffer := None\<rparr>))
      | _ \<Rightarrow> Inl (UndefinedBehaviour ''encoder is not initialised''))"

definition gpu_get_next_packet ::
    "'c avcodec \<Rightarrow> bytes option \<Rightarrow> 'c gpu_encoder \<Rightarrow> ((bool \<times> bytes option) \<times> 'c gpu_encoder) result" where
  "gpu_get_next_packet = get_next_packet"

section \<open>Destruction\<close>

text \<open>The Direct3D objects that are released, the converter's last; whether the codec's context is freed.\<close>

definition cpu_destroy :: "'c ffmpeg_encoder \<Rightarrow> dx_call list \<times> bool" where
  "cpu_destroy e =
     (release_ref (en_texture e) @ map (\<lambda>(_, srv). Release_object srv) (en_srv_cache e)
        @ drop (length (cv_calls (en_converter e))) (cv_calls (converter_release (en_converter e))),
      en_codec e \<noteq> No_codec)"

definition gpu_destroy :: "'c gpu_encoder \<Rightarrow> dx_call list \<times> bool" where
  "gpu_destroy e =
     (map (\<lambda>(_, srv). Release_object srv) (en_srv_cache e)
        @ drop (length (cv_calls (en_converter e))) (cv_calls (converter_release (en_converter e))),
      en_codec e \<noteq> No_codec)"

lemma extra_packet_front [simp]: "take (length bs) (extra_packet buffer bs) = bs"
  by (simp add: extra_packet_def split: option.split)

section \<open>Observations\<close>

lemma never_more_packets: "get_next_packet av out e = Inr ((again, out'), e') \<Longrightarrow> \<not> again"
  by (auto simp: get_next_packet_def Let_def split: if_splits codec_ptr.splits prod.splits packet_answer.splits)

text \<open>A packet finishes the current frame: until a frame with a higher number is pushed, there is no other one.\<close>

lemma packet_finishes_frame:
  assumes "get_next_packet av None e = Inr ((again, Some d), e')"
  shows "en_last_finished_frame_id e' = en_current_frame_id e'
    \<and> get_next_packet av' None e' = Inr ((False, None), e')
    \<and> (n \<le> en_current_frame_id e' \<longrightarrow> send = new_frame_cpu av' n l fr (ffmpeg_encoder.truncate e')
        \<longrightarrow> send = Inr ((ffmpeg_encoder.truncate e')\<lparr>en_current_frame_id := n\<rparr>))"
proof -
  have "en_last_finished_frame_id e' = en_current_frame_id e'"
    using assms by (auto simp: get_next_packet_def Let_def split: if_splits codec_ptr.splits prod.splits packet_answer.splits)
  then show ?thesis by (simp add: get_next_packet_def new_frame_cpu_def ffmpeg_encoder.truncate_def)
qed

text \<open>Once the last frame of a stream was sent, all later frames are key frames.\<close>

lemma key_frame_sticks: "av_key_frame (mark_last l (mark_last True f)) \<and> av_flag_key (mark_last l (mark_last True f))"
  by (simp add: mark_last_def)

text \<open>The AV1 and VP9 encoders are opened for YUV420P, but their frames are declared and filled as NV12.\<close>

lemma av1_formats_differ:
  assumes "e = create_av1_encoder info dir \<or> e = create_vp9_encoder info dir" "cpu_init env e = (Inr True, e')"
  shows "\<exists>f. en_frame e' = Some f \<and> av_format f = PIX_FMT_NV12 \<and> cpu_pix_fmt (en_options e') = PIX_FMT_YUV420P"
  using assms
  by (auto simp: cpu_init_def open_codec_def init_converter_def Let_def new_av_frame_def cpu_pix_fmt_def create_av1_encoder_def
      create_vp9_encoder_def create_ffmpeg_cpu_video_encoder_def split: if_splits prod.splits option.splits bool.splits)

text \<open>With the shader in the parent directory, the encoder counts as initialised, but its converter has no view
  of the texture: all frames show what the texture held before.\<close>

lemma encoder_without_views:
  assumes "dx_file (ff_dx env) (en_shader_dir e @ ''rgba_to_nv12.comp.cso'') = None" "cpu_init env e = (Inr True, e')"
  shows "list_all (\<lambda>r. r = None) (cv_uavs (en_converter e'))"
proof -
  obtain tex c where c: "nv12_init (ff_dx env) (src_extent (en_create_info e)) (en_shader_dir e) tex (en_converter e) = (None, c)"
    and e': "en_converter e' = snd (converter_update_size (ff_map_cbuffer env) (fst (ec_src_size (en_create_info e)))
      (snd (ec_src_size (en_create_info e))) c)"
    using assms(2) by (auto simp: cpu_init_def open_codec_def init_converter_def Let_def src_extent_def
        split: if_splits prod.splits option.splits bool.splits)
  from fallback_converts_nothing [OF assms(1) c [unfolded nv12_init_def]] show ?thesis by (simp add: e')
qed

end
