(* ===== verification/EncoderRuns.thy ===== *)
theory EncoderRuns
  imports FFmpegEncoder PipelineRuns
begin

text \<open>
  The video pipeline together with the encoders of \<open>FFmpegEncoder\<close>: the packet that goes out with a frame's
  number is the encoding of that frame, whatever the delay of the codec, as long as the codec keeps the
  order and every frame reaches it; and what happens when one does not.
\<close>

section \<open>What goes in and out\<close>

definition encode_calls :: "pipeline_call list \<Rightarrow> pipeline_call list" where
  "encode_calls cs = filter (\<lambda>c. case c of Encode_shared_handle _ _ _ _ \<Rightarrow> True | Encode_texture _ _ _ _ \<Rightarrow> True
     | Encode_cpu _ _ _ _ \<Rightarrow> True | _ \<Rightarrow> False) cs"

definition sent_packets :: "pipeline_call list \<Rightarrow> (bytes \<times> u32) list" where
  "sent_packets cs = concat (map (\<lambda>c. case c of Send_packet bs f _ _ _ _ \<Rightarrow> [(bs, f)] | _ \<Rightarrow> []) cs)"

lemmas traffic_defs = encode_calls_def sent_packets_def

fun id_of :: "pipeline_call \<Rightarrow> u64" where
  "id_of (Encode_shared_handle f _ _ _) = f"
| "id_of (Encode_texture f _ _ _) = f"
| "id_of (Encode_cpu f _ _ _) = f"
| "id_of _ = 0"

text \<open>The calls that the pipeline makes on an encoder of each of the two classes.\<close>

fun takes :: "u8 \<Rightarrow> pipeline_call \<Rightarrow> bool" where
  "takes type (Encode_texture _ _ _ _) \<longleftrightarrow> type = gpu_type"
| "takes type (Encode_cpu _ _ _ _) \<longleftrightarrow> type = cpu_type"
| "takes type _ \<longleftrightarrow> False"

lemma gpu_types: "gpu_type \<noteq> ENC_SHARED_HANDLE" "has_type gpu_type ENC_D3D11TEXTURE2D" "\<not> has_type gpu_type ENC_SOFTWARE"
  "\<not> has_type gpu_type ENC_PREPROCESS"
  by (simp_all add: gpu_type_def has_type_def encoder_types)

lemma cpu_types: "cpu_type \<noteq> ENC_SHARED_HANDLE" "\<not> has_type cpu_type ENC_D3D11TEXTURE2D" "has_type cpu_type ENC_SOFTWARE"
  "has_type cpu_type ENC_PREPROCESS" "cpu_type \<noteq> gpu_type"
  by (simp_all add: cpu_type_def gpu_type_def has_type_def encoder_types)

lemma single_types: "single_encoder gpu_type" "single_encoder cpu_type"
  by (simp_all add: single_encoder_def gpu_type_def cpu_type_def)

lemma open_traffic:
  "open_shared_texture f h p = (r, q) \<Longrightarrow>
     vp_calls q = vp_calls p \<and> vp_encoder_type q = vp_encoder_type p \<and> vp_frame_info_queue q = vp_frame_info_queue p"
  by (auto simp: open_shared_texture_def split: if_splits option.splits)

text \<open>A frame that is pushed makes one call on the encoder; the other calls of the push phase are no traffic.\<close>

lemma push_texture_traffic:
  assumes "vp_encoder_type p \<in> {gpu_type, cpu_type}" "push_texture i lf save tex t p = (r, q)"
  shows "sent_packets (vp_calls q) = sent_packets (vp_calls p) \<and> vp_frame_info_queue q = vp_frame_info_queue p
    \<and> vp_encoder_type q = vp_encoder_type p
    \<and> (if r = None then encode_calls (vp_calls q) = encode_calls (vp_calls p)
       else \<exists>c. encode_calls (vp_calls q) = encode_calls (vp_calls p) @ [c] \<and> takes (vp_encoder_type p) c
         \<and> id_of c = frame_id (fi_present i))"
  using assms
  by (auto simp: push_texture_def push_cpu_def drop_frame_def vp_call_def Let_def gpu_types cpu_types traffic_defs
      split: option.splits if_splits prod.splits)

lemma push_traffic:
  assumes "vp_encoder_type p \<in> {gpu_type, cpu_type}" "push_phase i lf save t p = (r, q)"
  shows "sent_packets (vp_calls q) = sent_packets (vp_calls p) \<and> vp_frame_info_queue q = vp_frame_info_queue p
    \<and> vp_encoder_type q = vp_encoder_type p
    \<and> (if r = None then encode_calls (vp_calls q) = encode_calls (vp_calls p)
       else \<exists>c. encode_calls (vp_calls q) = encode_calls (vp_calls p) @ [c] \<and> takes (vp_encoder_type p) c
         \<and> id_of c = frame_id (fi_present i))"
proof -
  obtain x p1 where o: "open_shared_texture (fi_open i) (backbuffer_texture_handle (fi_present i)) (p\<lparr>vp_raw_size := 0\<rparr>) = (x, p1)"
    by fastforce
  note ot = open_traffic [OF o]
  have ne: "vp_encoder_type p \<noteq> ENC_SHARED_HANDLE" using assms(1) gpu_types cpu_types by auto
  show ?thesis
  proof (cases "x = None \<or> \<not> fi_query_mutex i \<or> \<not> fi_acquire i")
    case True
    then show ?thesis using assms(2) ne o ot
      by (auto simp: push_phase_def Let_def drop_frame_def split: option.splits)
  next
    case False
    then obtain tex where x: "x = Some tex" by auto
    define p2 where "p2 = vp_call (Acquire_sync tex) (p1\<lparr>vp_texture := Some tex, vp_mutex := fi_query_mutex i\<rparr>)"
    have "\<exists>t'. push_texture i lf save tex t' p2 = (r, q)"
      using assms(2) ne o x False by (auto simp: push_phase_def Let_def p2_def)
    then obtain t' where "push_texture i lf save tex t' p2 = (r, q)" by blast
    from push_texture_traffic [OF _ this] show ?thesis
      using assms(1) ot by (auto simp: p2_def vp_call_def traffic_defs)
  qed
qed

lemma save_traffic:
  "save_if_needed i save p = (e, q) \<Longrightarrow> encode_calls (vp_calls q) = encode_calls (vp_calls p)
     \<and> sent_packets (vp_calls q) = sent_packets (vp_calls p) \<and> vp_frame_info_queue q = vp_frame_info_queue p"
  by (auto simp: save_if_needed_def save_texture_def Let_def vp_call_def traffic_defs
      split: if_splits option.splits sum.splits prod.splits)

definition queued_ids :: "pipeline \<Rightarrow> u32 list" where
  "queued_ids p = map fr_frame_id (vp_frame_info_queue p)"

lemma send_traffic:
  assumes "send_phase i lf save packet f t p = (e, q)"
  shows "encode_calls (vp_calls q) = encode_calls (vp_calls p)
    \<and> sent_packets (vp_calls q) = sent_packets (vp_calls p) @ [(packet, fr_frame_id f)]
    \<and> queued_ids q = tl (queued_ids p)"
proof -
  obtain e0 p0 where sf: "send_frame i lf save packet f p = (e0, p0)" by fastforce
  have p0: "encode_calls (vp_calls p0) = encode_calls (vp_calls p)"
    "sent_packets (vp_calls p0) = sent_packets (vp_calls p) @ [(packet, fr_frame_id f)]" "queued_ids p0 = tl (queued_ids p)"
    using sf by (auto simp: send_frame_def Let_def vp_call_def traffic_defs queued_ids_def map_tl split: option.splits if_splits)
  obtain e1 p1 where s: "save_if_needed i save p0 = (e1, p1)" by fastforce
  have "e0 \<noteq> None \<and> q = p0 \<or> vp_calls q = vp_calls p1 \<and> vp_frame_info_queue q = vp_frame_info_queue p1"
    using assms sf s by (cases e0; cases e1) (auto simp: send_phase_def Let_def)
  then show ?thesis using save_traffic [OF s] p0 by (auto simp: queued_ids_def)
qed

text \<open>The ids that the queue holds after a push, and what the encoder's answer does with them.\<close>

lemma pull_traffic:
  assumes "pull_phase i lf save t p = (e, q)"
  shows "encode_calls (vp_calls q) = encode_calls (vp_calls p)
    \<and> (case fi_packet i of
         None \<Rightarrow> sent_packets (vp_calls q) = sent_packets (vp_calls p)
           \<and> queued_ids q = queued_ids p @ [ucast (frame_id (fi_present i))]
       | Some packet \<Rightarrow> \<exists>x xs. queued_ids p @ [ucast (frame_id (fi_present i))] = x # xs \<and> queued_ids q = xs
           \<and> sent_packets (vp_calls q) = sent_packets (vp_calls p) @ [(packet, x)])"
proof -
  define p1 where "p1 = p\<lparr>vp_frame_info_queue := vp_frame_info_queue p @ [pushed_info i t p]\<rparr>"
  obtain g gs where g: "vp_frame_info_queue p1 = g # gs"
    by (cases "vp_frame_info_queue p1") (simp_all add: p1_def)
  have p1: "queued_ids p1 = queued_ids p @ [ucast (frame_id (fi_present i))]" "vp_calls p1 = vp_calls p"
    by (simp_all add: p1_def queued_ids_def pushed_info_def)
  have ids: "queued_ids p1 = fr_frame_id g # map fr_frame_id gs" by (simp add: queued_ids_def g)
  show ?thesis
  proof (cases "fi_packet i")
    case None
    then have "q = drop_frame i (pulled_times i (hd (vp_frame_info_queue p1)) p1) p1"
      using assms by (simp add: pull_phase_def Let_def p1_def)
    then show ?thesis using None p1 by (simp add: drop_frame_def queued_ids_def)
  next
    case (Some packet)
    then have "send_phase i lf save packet (hd (vp_frame_info_queue p1)) (pulled_times i (hd (vp_frame_info_queue p1)) p1) p1 = (e, q)"
      using assms by (simp add: pull_phase_def Let_def p1_def)
    from send_traffic [OF this] show ?thesis using Some p1(2) p1(1) [symmetric] ids by (simp add: g)
  qed
qed

text \<open>Any frame: it leaves the encoder and the queue alone, or it is pushed and pulled.\<close>

lemma frame_traffic:
  assumes "vp_encoder_type p \<in> {gpu_type, cpu_type}" "handle_frame i lf p = (e, q)"
  obtains (idle) "encode_calls (vp_calls q) = encode_calls (vp_calls p)" "sent_packets (vp_calls q) = sent_packets (vp_calls p)"
      "queued_ids q = queued_ids p"
  | (pushed) c where "encode_calls (vp_calls q) = encode_calls (vp_calls p) @ [c]" "takes (vp_encoder_type p) c"
      "id_of c = frame_id (fi_present i)"
      "case fi_packet i of
         None \<Rightarrow> sent_packets (vp_calls q) = sent_packets (vp_calls p) \<and> queued_ids q = queued_ids p @ [ucast (id_of c)]
       | Some packet \<Rightarrow> \<exists>x xs. queued_ids p @ [ucast (id_of c)] = x # xs \<and> queued_ids q = xs
           \<and> sent_packets (vp_calls q) = sent_packets (vp_calls p) @ [(packet, x)]"
proof -
  define p1 where "p1 = signal_frame_finished p"
  have p1: "vp_calls p1 = vp_calls p" "vp_encoder_type p1 = vp_encoder_type p" "queued_ids p1 = queued_ids p"
    by (simp_all add: p1_def signal_frame_finished_def queued_ids_def)
  show thesis
  proof (cases "\<exists>t t2 p2 save. push_phase i lf save t p1 = (Some t2, p2) \<and> pull_phase i lf save t2 p2 = (e, q)")
    case True
    then obtain t t2 p2 save where r: "push_phase i lf save t p1 = (Some t2, p2)" "pull_phase i lf save t2 p2 = (e, q)" by blast
    have "vp_encoder_type p1 \<in> {gpu_type, cpu_type}" using assms(1) p1 by simp
    from push_traffic [OF this r(1)] obtain c where c: "encode_calls (vp_calls p2) = encode_calls (vp_calls p) @ [c]"
      "takes (vp_encoder_type p) c" "id_of c = frame_id (fi_present i)" "sent_packets (vp_calls p2) = sent_packets (vp_calls p)"
      "queued_ids p2 = queued_ids p"
      using p1 by (auto simp: queued_ids_def)
    show thesis using pull_traffic [OF r(2)] c by (cases "fi_packet i") (auto intro: pushed [of c])
  next
    case False
    have drop: "vp_calls (drop_frame i t p1) = vp_calls p" "queued_ids (drop_frame i t p1) = queued_ids p" for t
      using p1 by (simp_all add: drop_frame_def queued_ids_def)
    have push: "vp_calls q = vp_calls q' \<longrightarrow> queued_ids q = queued_ids q' \<longrightarrow> thesis"
      if "push_phase i lf save t p1 = (None, q')" for save t q'
      using push_traffic [OF _ that] assms(1) p1 by (auto simp: queued_ids_def intro: idle)
    show thesis using assms(2) False drop push p1(1,3) idle
      by (auto simp: handle_frame_def Let_def p1_def [symmetric] split: if_splits sum.splits bool.splits option.splits prod.splits)
  qed
qed

section \<open>The pipeline served by an encoder\<close>

text \<open>
  The answers that an encoder gives to the run of a worker thread: in every iteration it gets the calls
  that the iteration makes, and when there is one, the packet of the iteration is what it then gives out.
\<close>

definition new_encodes :: "pipeline \<Rightarrow> pipeline \<Rightarrow> pipeline_call list" where
  "new_encodes p q = drop (length (encode_calls (vp_calls p))) (encode_calls (vp_calls q))"

fun push_all :: "(pipeline_call \<Rightarrow> 'e \<Rightarrow> 'e result) \<Rightarrow> pipeline_call list \<Rightarrow> 'e \<Rightarrow> 'e result" where
  "push_all push [] e = Inr e"
| "push_all push (c # cs) e = and_then (push c e) (push_all push cs)"

fun encoder_answers ::
    "(pipeline_call \<Rightarrow> 'e \<Rightarrow> 'e result) \<Rightarrow> ('e \<Rightarrow> (bytes option \<times> 'e) result) \<Rightarrow> frame_input list \<Rightarrow> pipeline \<Rightarrow> 'e \<Rightarrow> bool"
where
  "encoder_answers push pull [] p e \<longleftrightarrow> True"
| "encoder_answers push pull (i # is') p e \<longleftrightarrow>
     (if worker_done (take_signals i p) then True
      else case worker_iteration i (take_signals i p) of
        None \<Rightarrow> True
      | Some (err, q) \<Rightarrow>
          (let cs = new_encodes (take_signals i p) q in
           if cs = [] then err = None \<longrightarrow> encoder_answers push pull is' q e
           else case and_then (push_all push cs e) pull of
               Inl _ \<Rightarrow> False
             | Inr (out, e') \<Rightarrow> fi_packet i = out \<and> (err = None \<longrightarrow> encoder_answers push pull is' q e')))"

text \<open>
  An encoder as the pipeline relies on it: every frame with a new number is taken, and the packets come in
  the order of the frames. \<open>pending\<close> are the frames taken and not yet given out, \<open>frame_of\<close> tells which frame
  a packet encodes, and \<open>newest\<close> is the number up to which frames count as old.
\<close>

locale packet_source =
  fixes type :: u8
    and push :: "pipeline_call \<Rightarrow> 'e \<Rightarrow> 'e result"
    and pull :: "'e \<Rightarrow> (bytes option \<times> 'e) result"
    and ready :: "'e \<Rightarrow> bool"
    and pending :: "'e \<Rightarrow> u64 list"
    and frame_of :: "'e \<Rightarrow> bytes \<Rightarrow> u64"
    and newest :: "'e \<Rightarrow> u64"
  assumes known: "type \<in> {gpu_type, cpu_type}"
    and push_pull: "ready e \<Longrightarrow> takes type c \<Longrightarrow> newest e < id_of c \<Longrightarrow>
      \<exists>e1 out e2. push c e = Inr e1 \<and> pull e1 = Inr (out, e2) \<and> ready e2 \<and> newest e2 = id_of c \<and> frame_of e2 = frame_of e
        \<and> (case out of None \<Rightarrow> pending e2 = pending e @ [id_of c]
           | Some d \<Rightarrow> pending e @ [id_of c] = frame_of e d # pending e2)"
begin

definition synced :: "pipeline \<Rightarrow> 'e \<Rightarrow> bool" where
  "synced p e \<longleftrightarrow> vp_encoder_type p = type \<and> ready e \<and> queued_ids p = map ucast (pending e)
     \<and> (\<forall>(d, n) \<in> set (sent_packets (vp_calls p)). n = ucast (frame_of e d))"

lemma frame_synced:
  assumes "synced p e" "newest e < frame_id (fi_present i)" "handle_frame i lf p = (err, q)"
  shows "new_encodes p q = [] \<and> synced q e
    \<or> (\<exists>c out e1 e2. new_encodes p q = [c] \<and> push c e = Inr e1 \<and> pull e1 = Inr (out, e2)
        \<and> newest e2 = frame_id (fi_present i) \<and> frame_of e2 = frame_of e \<and> (fi_packet i = out \<longrightarrow> synced q e2))"
proof -
  have ty: "vp_encoder_type p \<in> {gpu_type, cpu_type}" using assms(1) known by (simp add: synced_def)
  have "single_encoder (vp_encoder_type p)" using ty single_types by auto
  then have kept: "vp_encoder_type q = vp_encoder_type p"
    using assms(3) by (cases rule: frame_cases)
      (auto simp: signal_frame_finished_def rest_kept_def push_outcome_def dest: pull_effect)
  from ty assms(3) show ?thesis
  proof (cases rule: frame_traffic)
    case idle
    then show ?thesis using assms(1) kept by (simp add: synced_def new_encodes_def)
  next
    case (pushed c)
    have "takes type c" "newest e < id_of c" using pushed assms(1,2) by (simp_all add: synced_def)
    then obtain e1 out e2 where o: "push c e = Inr e1" "pull e1 = Inr (out, e2)" "ready e2" "newest e2 = id_of c"
      "frame_of e2 = frame_of e" "case out of None \<Rightarrow> pending e2 = pending e @ [id_of c]
           | Some d \<Rightarrow> pending e @ [id_of c] = frame_of e d # pending e2"
      using push_pull [of e c] assms(1) unfolding synced_def by blast
    have q: "queued_ids p @ [ucast (id_of c)] = map ucast (pending e @ [id_of c])"
      using assms(1) by (simp add: synced_def)
    have "synced q e2" if out: "fi_packet i = out"
    proof (cases out)
      case None
      then show ?thesis using pushed(4) o(3,5,6) q assms(1) kept out by (simp add: synced_def)
    next
      case (Some d)
      obtain xs x where x: "queued_ids p @ [ucast (id_of c)] = x # xs" "queued_ids q = xs"
        "sent_packets (vp_calls q) = sent_packets (vp_calls p) @ [(d, x)]"
        using pushed(4) out Some by auto
      have "pending e @ [id_of c] = frame_of e d # pending e2" using o(6) Some by simp
      with trans [OF x(1) [symmetric] q] have "x # xs = map ucast (frame_of e d # pending e2)" by (simp only:)
      then show ?thesis using x(2,3) o(3,5) assms(1) kept by (auto simp: synced_def)
    qed
    moreover have "new_encodes p q = [c]" using pushed(1) by (simp add: new_encodes_def)
    ultimately show ?thesis using o pushed(3) by auto
  qed
qed

lemma run_synced:
  assumes "synced p e" "sorted_wrt (<) (newest e # map (\<lambda>i. frame_id (fi_present i)) is')"
    and "encoder_answers push pull is' p e" "worker_loop is' p = Some (err, q)"
  shows "\<exists>e'. synced q e' \<and> frame_of e' = frame_of e"
  using assms
proof (induction is' arbitrary: p e)
  case Nil
  then show ?case by (auto split: if_splits)
next
  case (Cons i is')
  define p0 where "p0 = take_signals i p"
  have s0: "synced p0 e" using Cons.prems(1) by (simp add: p0_def synced_def take_signals_def queued_ids_def)
  show ?case
  proof (cases "worker_done p0")
    case True
    then show ?thesis using Cons.prems(4) s0 by (auto simp: p0_def)
  next
    case False
    then obtain e1 q1 where w: "worker_iteration i p0 = Some (e1, q1)"
      using Cons.prems(4) by (auto simp: p0_def split: option.splits)
    show ?thesis
    proof (cases "\<exists>v. await_present (fi_waits i) (ev_new_present_info (vp_driver_events p0)) = Some (True, v)")
      case True
      then have q1: "e1 = None" "vp_calls q1 = vp_calls p0" "queued_ids q1 = queued_ids p0" "vp_encoder_type q1 = vp_encoder_type p0"
        "worker_done q1"
        using w by (auto simp: worker_iteration_def worker_done_def queued_ids_def)
      then have "synced q1 e" using s0 by (simp add: synced_def)
      moreover have "q = take_signals (hd is') q1 \<or> q = q1"
        using Cons.prems(4) False w q1 by (cases is') (auto simp: p0_def worker_done_def take_signals_def)
      ultimately show ?thesis by (auto simp: synced_def take_signals_def queued_ids_def)
    next
      case wait: False
      then obtain p1 where h: "handle_frame i (vp_should_stop p0) p1 = (e1, q1)" and p1: "vp_calls p1 = vp_calls p0"
        "queued_ids p1 = queued_ids p0" "vp_encoder_type p1 = vp_encoder_type p0"
        using w by (auto simp: worker_iteration_def queued_ids_def split: option.splits prod.splits if_splits)
      have s1: "synced p1 e" using s0 p1 by (simp add: synced_def)
      have new: "new_encodes p0 q1 = new_encodes p1 q1" using p1 by (simp add: new_encodes_def)
      have "newest e < frame_id (fi_present i)" using Cons.prems(2) by simp
      from frame_synced [OF s1 this h] show ?thesis
      proof (elim disjE exE conjE)
        assume idle: "new_encodes p1 q1 = []" "synced q1 e"
        show ?thesis
        proof (cases e1)
          case None
          have "sorted_wrt (<) (newest e # map (\<lambda>i. frame_id (fi_present i)) is')" using Cons.prems(2) by simp
          then show ?thesis using Cons.IH [OF idle(2)] Cons.prems(3,4) False w new idle None by (auto simp: p0_def)
        next
          case (Some f)
          then show ?thesis using Cons.prems(4) False w idle by (auto simp: p0_def)
        qed
      next
        fix c out e2 e3
        assume o: "new_encodes p1 q1 = [c]" "push c e = Inr e2" "pull e2 = Inr (out, e3)"
          "newest e3 = frame_id (fi_present i)" and same: "frame_of e3 = frame_of e"
          and synced: "fi_packet i = out \<longrightarrow> synced q1 e3"
        have fi: "fi_packet i = out" "e1 = None \<longrightarrow> encoder_answers push pull is' q1 e3"
          using Cons.prems(3) False w new o by (auto simp: p0_def Let_def)
        show ?thesis
        proof (cases e1)
          case None
          then show ?thesis using Cons.IH [of q1 e3] Cons.prems(2,4) False w o synced fi same by (auto simp: p0_def)
        next
          case (Some f)
          then show ?thesis using Cons.prems(4) False w o synced fi same by (auto simp: p0_def)
        qed
      qed
    qed
  qed
qed

end

section \<open>The two encoders\<close>

text \<open>
  The codec that an encoder talks to, Direct3D's answers for the source textures, and two functions that
  describe the codec: the frames it has taken and not yet given out, and the frame that a packet encodes.
\<close>

record 'c codec_world =
  cw_av :: "'c avcodec"
  cw_srv :: "nat \<Rightarrow> nat option"
  cw_extent :: "nat \<Rightarrow> Extent2D"
  cw_pending :: "'c \<Rightarrow> u64 list"
  cw_frame_of :: "bytes \<Rightarrow> u64"

text \<open>A codec that takes every frame and gives one packet for each, in their order; the extra data in front
  of a packet does not change which frame it encodes.\<close>

definition fifo_codec :: "'c codec_world \<Rightarrow> bool" where
  "fifo_codec w \<longleftrightarrow>
     (\<forall>f c. cw_pending w (snd (av_send (cw_av w) f c)) = cw_pending w c @ [av_pts f])
   \<and> (\<forall>c. case av_receive (cw_av w) c of
        (Av_packet d, c') \<Rightarrow> cw_pending w c = cw_frame_of w d # cw_pending w c'
          \<and> cw_frame_of w (av_extradata (cw_av w) c' @ d) = cw_frame_of w d
      | (_, c') \<Rightarrow> cw_pending w c' = cw_pending w c)"

definition codec_pending :: "'c codec_world \<times> ('c, 'm) ffmpeg_encoder_scheme \<Rightarrow> u64 list" where
  "codec_pending s = (case en_codec (snd s) of Open_codec c \<Rightarrow> cw_pending (fst s) c | _ \<Rightarrow> [])"

definition encoder_ready :: "'c codec_world \<times> ('c, 'm) ffmpeg_encoder_scheme \<Rightarrow> bool" where
  "encoder_ready s \<longleftrightarrow> fifo_codec (fst s) \<and> en_frame (snd s) \<noteq> None \<and> (\<exists>c. en_codec (snd s) = Open_codec c)
     \<and> en_last_finished_frame_id (snd s) \<le> en_current_frame_id (snd s)
     \<and> (\<forall>tex. cw_srv (fst s) tex \<noteq> None \<and> cw_extent (fst s) tex = src_extent (en_create_info (snd s)))"

text \<open>The functions of the interface that a class does not override do nothing.\<close>

definition gpu_push :: "pipeline_call \<Rightarrow> 'c codec_world \<times> 'c gpu_encoder \<Rightarrow> ('c codec_world \<times> 'c gpu_encoder) result" where
  "gpu_push c s = (case c of
     Encode_texture fid _ last_frame tex \<Rightarrow> map_sum id (Pair (fst s)) (new_frame_gpu_with_texture (cw_av (fst s))
       (cw_srv (fst s) tex) (cw_extent (fst s) tex) fid last_frame tex (snd s))
   | _ \<Rightarrow> Inr s)"

definition cpu_push :: "pipeline_call \<Rightarrow> 'c codec_world \<times> 'c ffmpeg_encoder \<Rightarrow> ('c codec_world \<times> 'c ffmpeg_encoder) result" where
  "cpu_push c s = (case c of
     Encode_cpu fid _ last_frame frame \<Rightarrow> map_sum id (Pair (fst s)) (new_frame_cpu (cw_av (fst s)) fid last_frame frame (snd s))
   | _ \<Rightarrow> Inr s)"

text \<open>The pipeline's variables are null before the call.\<close>

definition encoder_pull ::
    "'c codec_world \<times> ('c, 'm) ffmpeg_encoder_scheme \<Rightarrow> (bytes option \<times> 'c codec_world \<times> ('c, 'm) ffmpeg_encoder_scheme) result" where
  "encoder_pull s = map_sum id (\<lambda>((again, out), e). (out, (fst s, e))) (get_next_packet (cw_av (fst s)) None (snd s))"

abbreviation current_id :: "'c codec_world \<times> ('c, 'm) ffmpeg_encoder_scheme \<Rightarrow> u64" where
  "current_id s \<equiv> en_current_frame_id (snd s)"

abbreviation frame_of_packet :: "'c codec_world \<times> ('c, 'm) ffmpeg_encoder_scheme \<Rightarrow> bytes \<Rightarrow> u64" where
  "frame_of_packet s \<equiv> cw_frame_of (fst s)"

lemma fifo_send: "fifo_codec w \<Longrightarrow> cw_pending w (snd (av_send (cw_av w) f c)) = cw_pending w c @ [av_pts f]"
  by (simp add: fifo_codec_def)

lemma fifo_packet: "fifo_codec w \<Longrightarrow> av_receive (cw_av w) c = (Av_packet d, c') \<Longrightarrow>
    cw_pending w c = cw_frame_of w d # cw_pending w c' \<and> cw_frame_of w (av_extradata (cw_av w) c' @ d) = cw_frame_of w d"
  by (auto simp: fifo_codec_def dest: spec [of _ c])

lemma fifo_none: "fifo_codec w \<Longrightarrow> av_receive (cw_av w) c = (a, c') \<Longrightarrow> (\<And>d. a \<noteq> Av_packet d) \<Longrightarrow> cw_pending w c' = cw_pending w c"
  by (cases a) (auto simp: fifo_codec_def dest: spec [of _ c])

text \<open>What comes out when the current frame is newer than the last finished one.\<close>

lemma pull_outcome:
  assumes "encoder_ready s" "en_last_finished_frame_id (snd s) < current_id s"
  shows "\<exists>out s'. encoder_pull s = Inr (out, s') \<and> encoder_ready s' \<and> fst s' = fst s \<and> current_id s' = current_id s
    \<and> (case out of None \<Rightarrow> codec_pending s' = codec_pending s
       | Some d \<Rightarrow> codec_pending s = frame_of_packet s d # codec_pending s')"
proof -
  obtain w e where s: "s = (w, e)" by (cases s)
  obtain c where c: "en_codec e = Open_codec c" and w: "fifo_codec w" using assms(1) by (auto simp: encoder_ready_def s)
  obtain a c' where a: "av_receive (cw_av w) c = (a, c')" by fastforce
  have new: "\<not> en_current_frame_id e \<le> en_last_finished_frame_id e" using assms(2) by (simp add: s)
  show ?thesis
  proof (cases "\<exists>d. a = Av_packet d")
    case True
    then obtain d where d: "a = Av_packet d" by blast
    show ?thesis using fifo_packet [OF w a [unfolded d]] new assms(1)
      by (auto simp: s d encoder_pull_def get_next_packet_def c a Let_def encoder_ready_def codec_pending_def
          linorder_not_le intro: less_imp_le)
  next
    case False
    then have "cw_pending w c' = cw_pending w c" using fifo_none [OF w a] by blast
    then show ?thesis using False new assms(1)
      by (cases a) (auto simp: s encoder_pull_def get_next_packet_def c a Let_def encoder_ready_def codec_pending_def)
  qed
qed

lemma push_then_pull:
  assumes "encoder_ready s1" "current_id s1 = n" "en_last_finished_frame_id (snd s1) < n"
    and "codec_pending s1 = codec_pending s @ [n]" "fst s1 = fst s"
  shows "\<exists>out s2. encoder_pull s1 = Inr (out, s2) \<and> encoder_ready s2 \<and> current_id s2 = n \<and> frame_of_packet s2 = frame_of_packet s
    \<and> (case out of None \<Rightarrow> codec_pending s2 = codec_pending s @ [n]
       | Some d \<Rightarrow> codec_pending s @ [n] = frame_of_packet s d # codec_pending s2)"
proof -
  have "en_last_finished_frame_id (snd s1) < current_id s1" using assms(2,3) by simp
  from pull_outcome [OF assms(1) this] obtain out s2 where o: "encoder_pull s1 = Inr (out, s2)" "encoder_ready s2"
    "fst s2 = fst s1" "current_id s2 = n" "case out of None \<Rightarrow> codec_pending s2 = codec_pending s1
       | Some d \<Rightarrow> codec_pending s1 = frame_of_packet s1 d # codec_pending s2"
    using assms(2) by auto
  then show ?thesis using assms(4,5) by (intro exI [of _ out] exI [of _ s2]) (cases out; simp)
qed

text \<open>Both classes send a frame with a new number to the codec.\<close>

lemma sent_ready:
  assumes "encoder_ready s" "current_id s < n" "\<And>f. av_pts (upd f) = n" "en_frame e = en_frame (snd s)" "en_codec e = en_codec (snd s)"
    "en_last_finished_frame_id e = en_last_finished_frame_id (snd s)" "en_create_info e = en_create_info (snd s)"
    "en_current_frame_id e = n"
  shows "\<exists>e1. send_to_codec (cw_av (fst s)) upd e = Inr e1 \<and> encoder_ready (fst s, e1) \<and> current_id (fst s, e1) = n
    \<and> en_last_finished_frame_id e1 < n \<and> codec_pending (fst s, e1) = codec_pending s @ [n]"
proof -
  obtain c f where "en_codec (snd s) = Open_codec c" "en_frame (snd s) = Some f" and w: "fifo_codec (fst s)"
    using assms(1) by (auto simp: encoder_ready_def)
  then show ?thesis using assms fifo_send [OF w, of "upd f" c]
    by (auto simp: send_to_codec_def encoder_ready_def codec_pending_def)
qed

lemma mark_last_pts [simp]: "av_pts (mark_last l f) = av_pts f"
  by (simp add: mark_last_def)

lemma srv_keeps:
  assumes "get_src_frame_srv answer tex e = (r, e')"
  shows "en_frame e' = en_frame e \<and> en_codec e' = en_codec e \<and> en_last_finished_frame_id e' = en_last_finished_frame_id e
    \<and> en_create_info e' = en_create_info e \<and> en_current_frame_id e' = en_current_frame_id e \<and> (answer \<noteq> None \<longrightarrow> r \<noteq> None)"
proof (cases "map_of (en_srv_cache e) tex")
  case None
  then show ?thesis using assms by (cases answer) (auto simp: get_src_frame_srv_def)
next
  case (Some srv)
  then have "r = Some srv \<and> e' = e" using assms by (simp add: get_src_frame_srv_def)
  then show ?thesis by simp
qed

lemma cpu_push_ready:
  assumes "encoder_ready s" "takes cpu_type c" "current_id s < id_of c"
  shows "\<exists>s1. cpu_push c s = Inr s1 \<and> encoder_ready s1 \<and> current_id s1 = id_of c
    \<and> en_last_finished_frame_id (snd s1) < id_of c \<and> codec_pending s1 = codec_pending s @ [id_of c] \<and> fst s1 = fst s"
proof -
  obtain t l fr where c: "c = Encode_cpu (id_of c) t l fr"
    using assms(2) cpu_types(5) by (cases c) auto
  have "\<not> id_of c \<le> en_last_finished_frame_id (snd s)" using assms(1,3) by (auto simp: encoder_ready_def)
  then have "cpu_push c s = map_sum id (Pair (fst s)) (send_to_codec (cw_av (fst s)) (\<lambda>f. mark_last l
        (f\<lparr>av_planes := [raw_plane fr 0, raw_plane fr 1], av_pts := id_of c\<rparr>)) ((snd s)\<lparr>en_current_frame_id := id_of c\<rparr>))"
    by (subst c) (simp add: cpu_push_def new_frame_cpu_def Let_def)
  moreover have "\<exists>e1. send_to_codec (cw_av (fst s)) (\<lambda>f. mark_last l
        (f\<lparr>av_planes := [raw_plane fr 0, raw_plane fr 1], av_pts := id_of c\<rparr>)) ((snd s)\<lparr>en_current_frame_id := id_of c\<rparr>) = Inr e1
    \<and> encoder_ready (fst s, e1) \<and> current_id (fst s, e1) = id_of c
    \<and> en_last_finished_frame_id e1 < id_of c \<and> codec_pending (fst s, e1) = codec_pending s @ [id_of c]"
    by (rule sent_ready [OF assms(1,3)]) simp_all
  ultimately show ?thesis by auto
qed



interpretation cpu: packet_source cpu_type cpu_push encoder_pull encoder_ready codec_pending frame_of_packet current_id
proof
  fix s :: "'a codec_world \<times> 'a ffmpeg_encoder" and c
  assume "encoder_ready s" "takes cpu_type c" "current_id s < id_of c"
  from cpu_push_ready [OF this] obtain s1 where "cpu_push c s = Inr s1" "encoder_ready s1" "current_id s1 = id_of c"
    "en_last_finished_frame_id (snd s1) < id_of c" "codec_pending s1 = codec_pending s @ [id_of c]" "fst s1 = fst s" by blast
  with push_then_pull [of s1 "id_of c" s] show "\<exists>e1 out e2. cpu_push c s = Inr e1 \<and> encoder_pull e1 = Inr (out, e2) \<and> encoder_ready e2
      \<and> current_id e2 = id_of c \<and> frame_of_packet e2 = frame_of_packet s
      \<and> (case out of None \<Rightarrow> codec_pending e2 = codec_pending s @ [id_of c]
         | Some d \<Rightarrow> codec_pending s @ [id_of c] = frame_of_packet s d # codec_pending e2)" by blast
qed simp

section \<open>Every packet encodes the frame it is sent for\<close>





lemma cpu_packets_encode_their_frames:
  fixes s :: "'c codec_world \<times> 'c ffmpeg_encoder"
  assumes "vp_encoder_type p = cpu_type" "vp_calls p = []" "vp_frame_info_queue p = []"
    and "encoder_ready s" "codec_pending s = []"
    and "sorted_wrt (<) (current_id s # map (\<lambda>i. frame_id (fi_present i)) is')"
    and "encoder_answers cpu_push encoder_pull is' (vp_start_worker_thread p) s"
    and "worker_loop is' (vp_start_worker_thread p) = Some (err, q)"
  shows "\<forall>(d, n) \<in> set (sent_packets (vp_calls q)). n = ucast (frame_of_packet s d)"
proof -
  have "cpu.synced (vp_start_worker_thread p) s"
    using assms(1-5) by (simp add: cpu.synced_def vp_start_worker_thread_def queued_ids_def sent_packets_def)
  from cpu.run_synced [OF this assms(6-8)] show ?thesis by (auto simp: cpu.synced_def)
qed







definition gpu_input :: "u64 \<Rightarrow> bytes option \<Rightarrow> bool \<Rightarrow> frame_input" where
  "gpu_input n packet stop = (vp_sample_input n packet stop)\<lparr>fi_open := (\<lambda>_. Some 7)\<rparr>"


lemma gpu_input_fields [simp]: "fi_stop (gpu_input n packet stop) = stop" "\<not> fi_kill (gpu_input n packet stop)"
  "fi_locked (gpu_input n packet stop)" "fi_packet (gpu_input n packet stop) = packet"
  "frame_id (fi_present (gpu_input n packet stop)) = n"
  by (simp_all add: gpu_input_def vp_sample_input_def Let_def)












section \<open>Observations\<close>

text \<open>A texture of another size is not sent to the codec, and nobody is told.\<close>

lemma other_size_not_encoded:
  assumes "cw_extent (fst s) tex \<noteq> src_extent (en_create_info (snd s))"
  shows "\<exists>s1. gpu_push (Encode_texture n t l tex) s = Inr s1 \<and> codec_pending s1 = codec_pending s"
proof -
  obtain r e2 where g: "get_src_frame_srv (cw_srv (fst s) tex) tex ((snd s)\<lparr>en_current_frame_id := n\<rparr>) = (r, e2)" by fastforce
  have "en_codec e2 = en_codec (snd s)" "en_create_info e2 = en_create_info (snd s)" using srv_keeps [OF g] by simp_all
  then show ?thesis using assms
    by (cases r) (auto simp: gpu_push_def new_frame_gpu_with_texture_def Let_def g codec_pending_def
      split: codec_ptr.split)
qed

text \<open>The pipeline queues the frame all the same. Its number then stays in front of the numbers of the frames
  that the codec holds, so every later packet goes out under the number of an earlier frame.\<close>

lemma refused_frame_stays_queued:
  assumes "vp_encoder_type p \<in> {gpu_type, cpu_type}" "queued_ids p = map ucast (codec_pending s)"
    and "handle_frame i lf p = (err, q)" "encode_calls (vp_calls q) \<noteq> encode_calls (vp_calls p)"
    and "encoder_ready s1" "en_last_finished_frame_id (snd s1) < current_id s1" "codec_pending s1 = codec_pending s"
    and "encoder_pull s1 = Inr (fi_packet i, s2)"
  shows "queued_ids q = map ucast (codec_pending s2) @ [ucast (frame_id (fi_present i))]"
  using assms(1,3)
proof (cases rule: frame_traffic)
  case idle
  then show ?thesis using assms(4) by simp
next
  case (pushed c)
  from pull_outcome [OF assms(5,6)] assms(7,8) have out: "case fi_packet i of None \<Rightarrow> codec_pending s2 = codec_pending s
       | Some d \<Rightarrow> codec_pending s = frame_of_packet s1 d # codec_pending s2" by (cases "fi_packet i") auto
  show ?thesis
  proof (cases "fi_packet i")
    case None
    then show ?thesis using pushed(3,4) out assms(2) by simp
  next
    case (Some d)
    then show ?thesis using pushed(3,4) out assms(2) by auto
  qed
qed

text \<open>A leftover number takes the packet of the next frame.\<close>

lemma leftover_takes_packet:
  assumes "vp_encoder_type p \<in> {gpu_type, cpu_type}" "queued_ids p = m # ms" "handle_frame i lf p = (err, q)"
    and "encode_calls (vp_calls q) \<noteq> encode_calls (vp_calls p)" "fi_packet i = Some d"
  shows "sent_packets (vp_calls q) = sent_packets (vp_calls p) @ [(d, m)]"
  using assms(1,3)
proof (cases rule: frame_traffic)
  case idle
  then show ?thesis using assms(4) by simp
next
  case (pushed c)
  then show ?thesis using assms(2,5) by auto
qed

end
