(* ===== verification/IpcWindows.thy ===== *)
theory IpcWindows
  imports Ipc
begin

text \<open>
  \<open>common/src/ipc_windows.cpp\<close>: shared memory and events over the objects of Windows. A mutex there belongs
  to a thread, which may take it several times, and is abandoned when its thread ends; an event is a flag.
  Threads are numbers. What the creating calls answer is an argument; a wait that would never end is None.
\<close>

section \<open>The mutex and the event of Windows\<close>

record win_mutex =
  wm_owner :: "nat option"
  wm_count :: nat
  wm_abandoned :: bool

datatype wait_result = WAIT_OBJECT_0 | WAIT_ABANDONED | WAIT_TIMEOUT | WAIT_FAILED

text \<open>\<open>WaitForSingleObject\<close> on a mutex by thread \<open>t\<close>, while no other thread acts; \<open>INFINITE\<close> is \<open>NO_TIMEOUT\<close>.\<close>

definition wait_mutex :: "nat \<Rightarrow> u32 \<Rightarrow> win_mutex \<Rightarrow> (wait_result \<times> win_mutex) option" where
  "wait_mutex t timeout_ms m =
     (case wm_owner m of
        None \<Rightarrow> Some (if wm_abandoned m then WAIT_ABANDONED else WAIT_OBJECT_0,
          \<lparr>wm_owner = Some t, wm_count = 1, wm_abandoned = False\<rparr>)
      | Some t' \<Rightarrow>
          if t' = t then Some (WAIT_OBJECT_0, m\<lparr>wm_count := wm_count m + 1\<rparr>)
          else if timeout_ms = NO_TIMEOUT then None else Some (WAIT_TIMEOUT, m))"

text \<open>\<open>ReleaseMutex\<close> fails for a thread that is not the owner.\<close>

definition release_mutex :: "nat \<Rightarrow> win_mutex \<Rightarrow> win_mutex" where
  "release_mutex t m =
     (if wm_owner m \<noteq> Some t then m
      else if wm_count m \<le> 1 then m\<lparr>wm_owner := None, wm_count := 0\<rparr> else m\<lparr>wm_count := wm_count m - 1\<rparr>)"

definition thread_ends :: "nat \<Rightarrow> win_mutex \<Rightarrow> win_mutex" where
  "thread_ends t m = (if wm_owner m \<noteq> Some t then m else \<lparr>wm_owner = None, wm_count = 0, wm_abandoned = True\<rparr>)"

section \<open>Shared memory\<close>

text \<open>The members behind the pointer of \<open>SharedMemoryImpl\<close>: which handles are open, the size and whether the
  memory is mapped.\<close>

record win_shm =
  ws_mutex :: bool
  ws_file_mapping :: bool
  ws_size :: nat
  ws_data :: bool

record win_shm_env =
  we_create_mutex :: bool
  we_create_mapping :: bool
  we_already_exists :: bool
  we_map_view :: bool

text \<open>The destructor closes what is open; the view is not unmapped. Number of handles closed, and the pointer.\<close>

definition win_shm_destroy :: "win_shm option \<Rightarrow> nat \<times> win_shm option" where
  "win_shm_destroy d =
     (case d of None \<Rightarrow> (0, None)
      | Some s \<Rightarrow> ((if ws_file_mapping s then 1 else 0) + (if ws_mutex s then 1 else 0), None))"

text \<open>The constructor also gives the memory's contents, which it clears when it has created the memory.\<close>

definition new_win_shm :: "win_shm_env \<Rightarrow> nat \<Rightarrow> bytes \<Rightarrow> (win_shm option \<times> bytes) result" where
  "new_win_shm env n mem =
     (let d = \<lparr>ws_mutex = we_create_mutex env, ws_file_mapping = we_create_mapping env, ws_size = 0, ws_data = False\<rparr> in
      if \<not> we_create_mapping env then Inr (snd (win_shm_destroy (Some d)), mem)
      else let d1 = d\<lparr>ws_size := n, ws_data := we_map_view env\<rparr> in
        if we_already_exists env then Inr (Some d1, mem)
        else if \<not> we_map_view env then Inl (UndefinedBehaviour ''memset of a null pointer'')
        else Inr (Some d1, replicate n 0 @ drop n mem))"

text \<open>Whether the caller gets the data, and the mutex; None when it waits for ever.\<close>

definition win_unsafe_lock :: "win_shm option \<Rightarrow> nat \<Rightarrow> u32 \<Rightarrow> win_mutex \<Rightarrow> (bool \<times> win_mutex) option" where
  "win_unsafe_lock d t timeout_ms m =
     (case d of None \<Rightarrow> Some (False, m)
      | Some s \<Rightarrow>
          (case (if ws_mutex s then wait_mutex t timeout_ms m else Some (WAIT_FAILED, m)) of
             None \<Rightarrow> None
           | Some (res, m') \<Rightarrow> Some (res = WAIT_OBJECT_0 \<and> ws_data s, m')))"

definition win_unsafe_release :: "nat \<Rightarrow> win_mutex \<Rightarrow> win_mutex" where
  "win_unsafe_release t m = release_mutex t m"

section \<open>Events\<close>

text \<open>The flag of an event that resets by hand; \<open>posted\<close> is whether it is set during the wait.\<close>

definition win_event_open :: "bool \<Rightarrow> bool \<Rightarrow> bool option" where
  "win_event_open created is_sender = (if created then Some is_sender else None)"

definition wait_event :: "bool \<Rightarrow> u32 \<Rightarrow> bool \<Rightarrow> wait_result option \<times> bool" where
  "wait_event posted timeout_ms f =
     (if f \<or> posted then (Some WAIT_OBJECT_0, True)
      else (if timeout_ms = NO_TIMEOUT then None else Some WAIT_TIMEOUT, f))"

definition win_event_signal :: "bool \<Rightarrow> bool" where
  "win_event_signal f = True"

text \<open>Every receiver resets the event, not only the sender as the comment says.\<close>

definition win_event_wait :: "bool \<Rightarrow> u32 \<Rightarrow> bool \<Rightarrow> (bool \<times> bool) option" where
  "win_event_wait posted timeout_ms f =
     (case wait_event posted timeout_ms f of (None, f') \<Rightarrow> None
      | (Some res, f') \<Rightarrow> if res = WAIT_OBJECT_0 then Some (True, False) else Some (False, f'))"

definition win_is_signaled :: "bool \<Rightarrow> bool" where
  "win_is_signaled f \<longleftrightarrow> fst (wait_event False 0 f) = Some WAIT_OBJECT_0"

definition win_event_reset :: "bool \<Rightarrow> bool" where
  "win_event_reset f = False"

lemma win_is_signaled [simp]: "win_is_signaled f = f"
  by (simp add: win_is_signaled_def wait_event_def NO_TIMEOUT_def)

section \<open>Threads on one memory\<close>

text \<open>The destructor of a smart pointer, valid or null, in the thread \<open>t\<close>.\<close>

definition win_ptr_destroy :: "bool \<Rightarrow> nat \<Rightarrow> win_mutex \<Rightarrow> win_mutex" where
  "win_ptr_destroy valid t m = (if valid then win_unsafe_release t m else m)"

text \<open>
  The holders are the valid smart pointers, by thread; null ones, from failed locks and from moves, may be
  destroyed at any time. A thread may end at any time, also without
  releasing what it holds (its process was killed), and then does nothing any more.
\<close>

record 'a win_state =
  wn_mutex :: win_mutex
  wn_holders :: "nat multiset"
  wn_data :: 'a
  wn_ended :: "nat set"

inductive win_step :: "win_shm option \<Rightarrow> nat \<Rightarrow> 'a win_state \<Rightarrow> 'a win_state \<Rightarrow> bool" for d where
  win_lock: "win_unsafe_lock d t timeout (wn_mutex s) = Some (got, m) \<Longrightarrow> t \<notin> wn_ended s \<Longrightarrow>
    win_step d t s (s\<lparr>wn_mutex := m, wn_holders := (if got then add_mset t (wn_holders s) else wn_holders s)\<rparr>)"
| win_write: "t \<in># wn_holders s \<Longrightarrow> win_step d t s (s\<lparr>wn_data := x\<rparr>)"
| win_release: "t \<in># wn_holders s \<Longrightarrow>
    win_step d t s (s\<lparr>wn_mutex := win_ptr_destroy True t (wn_mutex s), wn_holders := wn_holders s - {#t#}\<rparr>)"
| win_null: "t \<notin> wn_ended s \<Longrightarrow> win_step d t s (s\<lparr>wn_mutex := win_ptr_destroy False t (wn_mutex s)\<rparr>)"
| win_end: "win_step d t s (s\<lparr>wn_mutex := thread_ends t (wn_mutex s), wn_holders := filter_mset (\<lambda>u. u \<noteq> t) (wn_holders s),
    wn_ended := insert t (wn_ended s)\<rparr>)"

inductive_cases win_stepE: "win_step d t s s'"

inductive win_run :: "win_shm option \<Rightarrow> 'a win_state \<Rightarrow> 'a win_state \<Rightarrow> bool" for d where
  win_stay: "win_run d s s"
| win_move: "win_run d s s' \<Longrightarrow> win_step d t s' s'' \<Longrightarrow> win_run d s s''"

text \<open>Every holder is the owner of the mutex, which counts at least its holders.\<close>

definition owned :: "'a win_state \<Rightarrow> bool" where
  "owned s \<longleftrightarrow> (\<forall>t \<in># wn_holders s. wm_owner (wn_mutex s) = Some t)
     \<and> size (wn_holders s) \<le> wm_count (wn_mutex s)"

lemma step_keeps_owned:
  assumes "win_step d t s s'" "owned s"
  shows "owned s'"
  using assms(1)
proof cases
  case (win_lock timeout got m)
  then show ?thesis using assms(2)
    by (auto simp: owned_def win_unsafe_lock_def wait_mutex_def split: option.splits if_splits)
next
  case win_write
  then show ?thesis using assms(2) by (simp add: owned_def)
next
  case win_release
  then obtain hs where "wn_holders s = add_mset t hs" by (metis insert_DiffM)
  then show ?thesis using win_release assms(2)
    by (cases "hs = {#}") (auto simp: owned_def win_ptr_destroy_def win_unsafe_release_def release_mutex_def size_eq_0_iff_empty [symmetric]
      simp del: size_eq_0_iff_empty)
next
  case win_null
  then show ?thesis using assms(2) by (simp add: owned_def win_ptr_destroy_def)
next
  case win_end
  have "filter_mset (\<lambda>u. u \<noteq> t) (wn_holders s) = {#} \<or> wm_owner (wn_mutex s) \<noteq> Some t"
    using assms(2) by (auto simp: owned_def multiset_eq_iff not_in_iff [symmetric])
  then show ?thesis using win_end assms(2)
    by (auto simp: owned_def thread_ends_def intro: order.trans [OF size_filter_mset_lesseq])
qed

lemma run_keeps_owned: "win_run d s s' \<Longrightarrow> owned s \<Longrightarrow> owned s'"
  by (induction rule: win_run.induct) (auto intro: step_keeps_owned)

text \<open>C9: on Windows the mutual exclusion needs no condition. However attaching, locks, time-outs, writes,
  releases and killed processes interleave, all valid pointers to the shared data belong to one thread,
  and while a thread holds one no other thread changes the data.\<close>

theorem windows_memory_exclusive:
  assumes "win_run d s s'" "wn_holders s = {#}"
  shows "\<forall>t \<in># wn_holders s'. \<forall>u s''. (u \<in># wn_holders s' \<longrightarrow> u = t)
    \<and> (win_step d u s' s'' \<longrightarrow> wn_data s'' \<noteq> wn_data s' \<longrightarrow> u = t)"
proof (intro ballI allI conjI impI)
  have o: "owned s'" using run_keeps_owned [OF assms(1)] assms(2) by (simp add: owned_def)
  fix t u s''
  assume t: "t \<in># wn_holders s'"
  have same: "u = t" if "u \<in># wn_holders s'" for u
  proof -
    have "wm_owner (wn_mutex s') = Some u" "wm_owner (wn_mutex s') = Some t" using o t that unfolding owned_def by blast+
    then show ?thesis by simp
  qed
  then show "u = t" if "u \<in># wn_holders s'" using that by blast
  show "u = t" if "win_step d u s' s''" "wn_data s'' \<noteq> wn_data s'"
    using that same by (auto elim!: win_stepE)
qed

definition mapped_shm :: win_shm where
  "mapped_shm = \<lparr>ws_mutex = True, ws_file_mapping = True, ws_size = 8, ws_data = True\<rparr>"

definition win_free :: "'a \<Rightarrow> 'a win_state" where
  "win_free x = \<lparr>wn_mutex = \<lparr>wm_owner = None, wm_count = 0, wm_abandoned = False\<rparr>, wn_holders = {#}, wn_data = x, wn_ended = {}\<rparr>"

definition win_held :: "nat \<Rightarrow> 'a \<Rightarrow> 'a win_state" where
  "win_held t x = \<lparr>wn_mutex = \<lparr>wm_owner = Some t, wm_count = 1, wm_abandoned = False\<rparr>, wn_holders = {#t#}, wn_data = x, wn_ended = {}\<rparr>"

lemma win_takes_free: "win_step (Some mapped_shm) t (win_free x) (win_held t x)"
  using win_step.win_lock [of "Some mapped_shm" t 0 "win_free x" True "\<lparr>wm_owner = Some t, wm_count = 1, wm_abandoned = False\<rparr>"]
  by (simp add: win_unsafe_lock_def wait_mutex_def win_free_def win_held_def mapped_shm_def)

theorem windows_memory_exclusive_witness:
  "win_run (Some mapped_shm) (win_free (0 :: nat)) (win_held 3 0) \<and> (\<nexists>s. win_step (Some mapped_shm) 4 (win_held 3 (0 :: nat)) s \<and> wn_data s \<noteq> 0)"
proof -
  have run: "win_run (Some mapped_shm) (win_free (0 :: nat)) (win_held 3 0)"
    by (rule win_run.win_move [OF win_run.win_stay win_takes_free])
  have "\<not> (win_step (Some mapped_shm) 4 (win_held 3 0) s \<and> wn_data s \<noteq> 0)" for s :: "nat win_state"
    using bspec [OF windows_memory_exclusive [OF run], of 3, THEN spec, of 4, THEN spec, of s]
    by (auto simp: win_free_def win_held_def)
  with run show ?thesis by blast
qed

section \<open>Observations\<close>

text \<open>
  After a thread ended while it held the mutex, the next one to lock gets \<open>WAIT_ABANDONED\<close>: it owns the mutex
  then, but \<open>unsafe_lock\<close> returns null and the smart pointer does not release it. As long as that thread
  lives and whatever it does, nobody else gets the data.
\<close>

definition lost_to :: "nat \<Rightarrow> 'a win_state \<Rightarrow> bool" where
  "lost_to t s \<longleftrightarrow> wm_owner (wn_mutex s) = Some t \<and> size (wn_holders s) < wm_count (wn_mutex s)
     \<and> (\<forall>u \<in># wn_holders s. u = t)"

lemma abandoned_is_lost:
  assumes "wm_owner (wn_mutex s) = None" "wm_abandoned (wn_mutex s)" "wn_holders s = {#}" "ws_mutex shm"
  shows "\<exists>m. win_unsafe_lock (Some shm) t timeout (wn_mutex s) = Some (False, m) \<and> lost_to t (s\<lparr>wn_mutex := m\<rparr>)"
  using assms by (simp add: win_unsafe_lock_def wait_mutex_def lost_to_def)

lemma lost_step:
  assumes "win_step d u s s'" "lost_to t s" "t \<notin> wn_ended s'"
  shows "lost_to t s'"
  using assms(1)
proof cases
  case (win_lock timeout got m)
  then show ?thesis using assms(2)
    by (auto simp: lost_to_def win_unsafe_lock_def wait_mutex_def split: option.splits if_splits)
next
  case (win_write x)
  show ?thesis using assms(2) by (simp add: lost_to_def win_write(1))
next
  case win_release
  then have "u = t" using assms(2) by (simp add: lost_to_def)
  moreover obtain hs where "wn_holders s = add_mset u hs" using win_release by (metis insert_DiffM)
  ultimately show ?thesis using win_release assms(2)
    by (auto simp: lost_to_def win_ptr_destroy_def win_unsafe_release_def release_mutex_def)
next
  case win_null
  then show ?thesis using assms(2) by (simp add: lost_to_def win_ptr_destroy_def)
next
  case win_end
  then show ?thesis using assms(2,3)
    by (auto simp: lost_to_def thread_ends_def intro: le_less_trans [OF size_filter_mset_lesseq])
qed

lemma ended_grows: "win_step d u s s' \<Longrightarrow> wn_ended s \<subseteq> wn_ended s'"
  by (auto elim!: win_stepE)

lemma lost_for_ever:
  assumes "win_run d s s'" "lost_to t s" "t \<notin> wn_ended s'" "u \<noteq> t"
  shows "u \<notin># wn_holders s' \<and> (\<forall>timeout. win_unsafe_lock d u timeout (wn_mutex s') \<in> {None, Some (False, wn_mutex s')})"
proof -
  have "lost_to t s'" using assms(1-3)
    by (induction rule: win_run.induct) (auto intro: lost_step dest: ended_grows)
  then show ?thesis using assms(4)
    by (auto simp: lost_to_def win_unsafe_lock_def wait_mutex_def split: option.splits)
qed

text \<open>A mapping whose view cannot be made has the same effect: the lock takes the mutex and returns null.\<close>

lemma unmapped_is_lost:
  assumes "wm_owner m = None" "\<not> ws_data shm" "ws_mutex shm"
  shows "\<exists>m'. win_unsafe_lock (Some shm) t timeout m = Some (False, m') \<and> wm_owner m' = Some t"
  using assms by (simp add: win_unsafe_lock_def wait_mutex_def)

text \<open>Two signals before a wait wake up one receiver on Windows, and two with the semaphores of POSIX.\<close>

lemma signals_merge:
  "win_event_wait False 100 (win_event_signal (win_event_signal f)) = Some (True, False)
   \<and> event_wait clock False [] 100 (event_signal (event_signal 0)) = Some (True, 1)"
  by (simp add: win_event_wait_def wait_event_def win_event_signal_def event_wait_def event_signal_def sem_post_def
      SEM_VALUE_MAX_def sem_timed_wait_def NO_TIMEOUT_def)

text \<open>As long as an event is only signalled when it is not signalled yet, the two behave the same.\<close>

lemma events_agree:
  assumes "v \<le> 1" "f = (v > 0)"
  shows "win_is_signaled f = is_signaled v"
    "win_event_reset f = (event_reset v > 0)"
    "v = 0 \<Longrightarrow> win_event_signal f = (event_signal v > 0) \<and> event_signal v \<le> 1"
    "win_event_wait False timeout f = map_option (\<lambda>(r, v'). (r, v' > 0)) (event_wait clock False [] timeout v)"
  using assms
  by (auto simp: is_signaled_def win_event_reset_def event_reset_def win_event_signal_def event_signal_def sem_post_def
      SEM_VALUE_MAX_def win_event_wait_def wait_event_def event_wait_def sem_timed_wait_def sem_wait_def)

end
