(* ===== verification/EventsWindows.thy ===== *)
theory EventsWindows
  imports SharedState IpcWindows
begin

text \<open>
  The events of \<open>common/src/server_shared_state.cpp\<close> where the server and the driver run, on Windows: an
  event is a flag there, so signals of one kind merge until the receiver has polled it. The two polls
  are interpreted as event sources, as those over semaphores are in theory \<open>SharedState\<close>.
\<close>

section \<open>Polling\<close>

record WinDriverEvents =
  wev_driver_state_changed :: bool
  wev_new_present_info :: bool
  wev_new_measurements :: bool

record WinServerEvents =
  wev_server_state_changed :: bool
  wev_new_system_specs :: bool
  wev_frame_finished :: bool
  wev_new_tracking_data :: bool
  wev_new_benchmark_data :: bool

definition win_driver_poll :: "WinDriverEvents \<Rightarrow> bool \<times> DriverEvent \<times> WinDriverEvents" where
  "win_driver_poll e =
     (if win_is_signaled (wev_driver_state_changed e)
      then (True, DRIVER_STATE_CHANGED, e\<lparr>wev_driver_state_changed := win_event_reset (wev_driver_state_changed e)\<rparr>)
      else if win_is_signaled (wev_new_measurements e)
      then (True, NEW_MEASUREMENTS, e\<lparr>wev_new_measurements := win_event_reset (wev_new_measurements e)\<rparr>)
      else (False, DE_NO_EVENT, e))"

definition win_server_poll :: "WinServerEvents \<Rightarrow> bool \<times> ServerEvent \<times> WinServerEvents" where
  "win_server_poll e =
     (if win_is_signaled (wev_new_tracking_data e)
      then (True, NEW_TRACKING_DATA, e\<lparr>wev_new_tracking_data := win_event_reset (wev_new_tracking_data e)\<rparr>)
      else if win_is_signaled (wev_server_state_changed e)
      then (True, SERVER_STATE_CHANGED, e\<lparr>wev_server_state_changed := win_event_reset (wev_server_state_changed e)\<rparr>)
      else if win_is_signaled (wev_new_system_specs e)
      then (True, NEW_SYSTEM_SPECS, e\<lparr>wev_new_system_specs := win_event_reset (wev_new_system_specs e)\<rparr>)
      else if win_is_signaled (wev_frame_finished e)
      then (True, FRAME_FINISHED, e\<lparr>wev_frame_finished := win_event_reset (wev_frame_finished e)\<rparr>)
      else if win_is_signaled (wev_new_benchmark_data e)
      then (True, NEW_BENCHMARK_DATA, e\<lparr>wev_new_benchmark_data := win_event_reset (wev_new_benchmark_data e)\<rparr>)
      else (False, SE_NO_EVENT, e))"

text \<open>The server's signals: \<open>signal\<close> on the member for the kind of the event.\<close>

fun win_server_signal :: "ServerEvent \<Rightarrow> WinServerEvents \<Rightarrow> WinServerEvents" where
  "win_server_signal SE_NO_EVENT e = e"
| "win_server_signal SERVER_STATE_CHANGED e = e\<lparr>wev_server_state_changed := win_event_signal (wev_server_state_changed e)\<rparr>"
| "win_server_signal NEW_SYSTEM_SPECS e = e\<lparr>wev_new_system_specs := win_event_signal (wev_new_system_specs e)\<rparr>"
| "win_server_signal FRAME_FINISHED e = e\<lparr>wev_frame_finished := win_event_signal (wev_frame_finished e)\<rparr>"
| "win_server_signal NEW_TRACKING_DATA e = e\<lparr>wev_new_tracking_data := win_event_signal (wev_new_tracking_data e)\<rparr>"
| "win_server_signal NEW_BENCHMARK_DATA e = e\<lparr>wev_new_benchmark_data := win_event_signal (wev_new_benchmark_data e)\<rparr>"

section \<open>Pending events\<close>

fun is_pending :: "WinServerEvents \<Rightarrow> ServerEvent \<Rightarrow> bool" where
  "is_pending e SE_NO_EVENT = False"
| "is_pending e SERVER_STATE_CHANGED = wev_server_state_changed e"
| "is_pending e NEW_SYSTEM_SPECS = wev_new_system_specs e"
| "is_pending e FRAME_FINISHED = wev_frame_finished e"
| "is_pending e NEW_TRACKING_DATA = wev_new_tracking_data e"
| "is_pending e NEW_BENCHMARK_DATA = wev_new_benchmark_data e"

definition poll_order :: "ServerEvent list" where
  "poll_order = [NEW_TRACKING_DATA, SERVER_STATE_CHANGED, NEW_SYSTEM_SPECS, FRAME_FINISHED, NEW_BENCHMARK_DATA]"

definition win_server_pending :: "WinServerEvents \<Rightarrow> ServerEvent list" where
  "win_server_pending e = filter (is_pending e) poll_order"

definition win_driver_pending :: "WinDriverEvents \<Rightarrow> DriverEvent list" where
  "win_driver_pending e = (if wev_driver_state_changed e then [DRIVER_STATE_CHANGED] else [])
     @ (if wev_new_measurements e then [NEW_MEASUREMENTS] else [])"

interpretation wdrv: event_source win_driver_poll win_driver_pending
  by unfold_locales
    (auto simp: win_driver_poll_def win_driver_pending_def win_event_reset_def split: if_splits)

interpretation wsrv: event_source win_server_poll win_server_pending
  by unfold_locales
    (auto simp: win_server_poll_def win_server_pending_def poll_order_def win_event_reset_def split: if_splits)

lemma is_pending_signal: "is_pending (win_server_signal k e) j \<longleftrightarrow> is_pending e j \<or> (j = k \<and> k \<noteq> SE_NO_EVENT)"
  by (cases k; cases j) (simp_all add: win_event_signal_def)

lemma is_pending_signals:
  "is_pending (fold win_server_signal ks e) j \<longleftrightarrow> is_pending e j \<or> (j \<in> set ks \<and> j \<noteq> SE_NO_EVENT)"
  by (induction ks arbitrary: e) (auto simp: is_pending_signal)

lemma pending_length: "length (win_server_pending e) \<le> 5"
  using length_filter_le [of "is_pending e" poll_order] by (simp add: win_server_pending_def poll_order_def)

section \<open>Properties\<close>

text \<open>C31: whatever the server signals and however often, on Windows a driver that then polls until nothing
  is returned, at most five times, gets each kind of event that was signalled, or was still pending,
  exactly once, in the order of the code, and then nothing.\<close>

theorem signalled_kinds_returned:
  assumes "5 \<le> n"
  shows "fst (poll_events win_server_poll n (fold win_server_signal ks e))
      = filter (\<lambda>k. k \<in> set ks \<or> is_pending e k) poll_order
    \<and> fst (win_server_poll (snd (poll_events win_server_poll
          (length (filter (\<lambda>k. k \<in> set ks \<or> is_pending e k) poll_order)) (fold win_server_signal ks e)))) = False"
proof -
  let ?e = "fold win_server_signal ks e"
  have pend: "win_server_pending ?e = filter (\<lambda>k. k \<in> set ks \<or> is_pending e k) poll_order"
    unfolding win_server_pending_def
    by (rule filter_cong) (auto simp: is_pending_signals poll_order_def)
  have "length (win_server_pending ?e) \<le> n"
    using pending_length [of ?e] assms by linarith
  then show ?thesis
    using wsrv.all_delivered [of ?e n] wsrv.none wsrv.poll_leaves [of "length (win_server_pending ?e)" ?e]
    unfolding pend by simp
qed

theorem signalled_kinds_returned_witness:
  "fst (poll_events win_server_poll 6 (fold win_server_signal
      [FRAME_FINISHED, NEW_TRACKING_DATA, FRAME_FINISHED, NEW_TRACKING_DATA]
      \<lparr>wev_server_state_changed = True, wev_new_system_specs = False, wev_frame_finished = False,
       wev_new_tracking_data = False, wev_new_benchmark_data = False\<rparr>))
     = [NEW_TRACKING_DATA, SERVER_STATE_CHANGED, FRAME_FINISHED]"
  using signalled_kinds_returned [of 6 "[FRAME_FINISHED, NEW_TRACKING_DATA, FRAME_FINISHED, NEW_TRACKING_DATA]"
      "\<lparr>wev_server_state_changed = True, wev_new_system_specs = False, wev_frame_finished = False,
       wev_new_tracking_data = False, wev_new_benchmark_data = False\<rparr>"]
  by (simp add: poll_order_def)

text \<open>Two signals of one kind before a poll give one event here and two over semaphores.\<close>

lemma kinds_merge:
  "fst (poll_events win_server_poll n (fold win_server_signal [k, k] e))
     = fst (poll_events win_server_poll n (win_server_signal k e))"
  by (cases k) (simp_all add: win_event_signal_def)

end
