(* ===== verification/SocketsWindows.thy ===== *)
theory SocketsWindows
  imports Sockets
begin

text \<open>
  \<open>common/src/socket_windows.cpp\<close>: the sockets of the server, over WinSock, with the members of theory
  \<open>Sockets\<close>. As there, results of the calls are arguments; errors carry the number of \<open>WSAGetLastError\<close>.
\<close>

section \<open>WinSock\<close>

definition WSAEWOULDBLOCK :: errno where "WSAEWOULDBLOCK = 10035"
definition WSAEALREADY :: errno where "WSAEALREADY = 10037"
definition WSAEADDRINUSE :: errno where "WSAEADDRINUSE = 10048"
definition WSAECONNRESET :: errno where "WSAECONNRESET = 10054"
definition WSAEISCONN :: errno where "WSAEISCONN = 10056"
definition WSAETIMEDOUT :: errno where "WSAETIMEDOUT = 10060"

lemmas wsa_defs = WSAEWOULDBLOCK_def WSAEALREADY_def WSAEADDRINUSE_def WSAECONNRESET_def WSAEISCONN_def WSAETIMEDOUT_def

definition wsa_real_error :: "errno \<Rightarrow> bool" where
  "wsa_real_error e \<longleftrightarrow> e \<noteq> WSAEWOULDBLOCK \<and> e \<noteq> WSAEALREADY \<and> e \<noteq> WSAETIMEDOUT"

text \<open>The library is started with the first socket; \<open>initialized\<close> is the member of the global object.\<close>

definition socket_initializer_init :: "unit sys \<Rightarrow> bool \<Rightarrow> bool result" where
  "socket_initializer_init startup initialized =
     (if initialized then Inr True
      else if is_error startup then Inl (RuntimeError ''Failed to initialize WinSock'') else Inr True)"

record win_socket_calls =
  wcall_startup :: "unit sys"
  wcall_socket :: "nat sys"
  wcall_setsockopt_reuse :: "unit sys"
  wcall_setsockopt_broadcast :: "unit sys"
  wcall_ioctlsocket :: "unit sys"
  wcall_bind :: "unit sys"
  wcall_getsockname :: "SocketAddr sys"

text \<open>From non-blocking mode to the local address, the same for both kinds of sockets.\<close>

definition win_bind :: "win_socket_calls \<Rightarrow> SocketAddr result" where
  "win_bind sys =
     (if is_error (wcall_ioctlsocket sys) then Inl (RuntimeError ''Failed to set socket to non-blocking mode'')
      else case wcall_bind sys of
        Error e \<Rightarrow> if e = WSAEADDRINUSE then Inl (RuntimeError ''Port already in use'')
                   else Inl (RuntimeError ''Failed to bind socket'')
      | Done _ \<Rightarrow> (case wcall_getsockname sys of
            Error _ \<Rightarrow> Inl (RuntimeError ''Failed to get local address'')
          | Done local \<Rightarrow> Inr local))"

definition win_create ::
    "win_socket_calls \<Rightarrow> bool \<Rightarrow> bool \<Rightarrow> bool \<Rightarrow> (nat \<times> SocketAddr) result" where
  "win_create sys initialized force_port allow_broadcast =
     and_then (socket_initializer_init (wcall_startup sys) initialized) (\<lambda>_.
       case wcall_socket sys of Error _ \<Rightarrow> Inl (RuntimeError ''Failed to create socket'')
       | Done fd \<Rightarrow>
         if force_port \<and> is_error (wcall_setsockopt_reuse sys)
         then Inl (RuntimeError ''Failed to set socket option'')
         else if allow_broadcast \<and> is_error (wcall_setsockopt_broadcast sys)
         then Inl (RuntimeError ''Failed to set socket option'')
         else and_then (win_bind sys) (\<lambda>local. Inr (fd, local)))"

definition win_new_TCPSocket ::
    "win_socket_calls \<Rightarrow> bool \<Rightarrow> bool \<Rightarrow> SocketId \<Rightarrow> bucket \<Rightarrow> (TCPSocket \<times> bucket) result" where
  "win_new_TCPSocket sys initialized force_port socket_id b =
     and_then (win_create sys initialized force_port False) (\<lambda>(fd, local).
       case register_if b socket_id SOCKET_TYPE_TCP of (sid, b') \<Rightarrow>
         Inr (\<lparr>tcp_socket = Some fd, tcp_state = NOT_STARTED, tcp_local_addr = local,
               tcp_peer_addr = any_addr, tcp_measurement_storage_id = sid\<rparr>, b'))"

section \<open>Connections\<close>

definition win_enable_server :: "unit sys \<Rightarrow> TCPSocket \<Rightarrow> TCPSocket result" where
  "win_enable_server listen_call s =
     (if tcp_state s = NOT_STARTED
      then if is_error listen_call then Inl (RuntimeError ''Failed to start listening'')
           else Inr (s\<lparr>tcp_state := LISTENING\<rparr>)
      else Inr s)"

record win_accept_calls =
  wcall_listen :: "unit sys"
  wcall_accept :: "(nat \<times> SocketAddr) sys"
  wcall_accept_ioctl :: "unit sys"
  wcall_accept_getsockname :: "SocketAddr sys"

definition win_tcp_listen :: "win_accept_calls \<Rightarrow> TCPSocket \<Rightarrow> bool result \<times> TCPSocket" where
  "win_tcp_listen sys s =
     (case win_enable_server (wcall_listen sys) s of Inl f \<Rightarrow> (Inl f, s)
      | Inr s1 \<Rightarrow>
        if tcp_state s1 \<noteq> LISTENING then (Inl (RuntimeError ''Socket is not listening''), s1)
        else case wcall_accept sys of
          Error e \<Rightarrow>
            if wsa_real_error e then (Inl (RuntimeError ''Failed to accept connection''), s1) else (Inr False, s1)
        | Done (client, peer) \<Rightarrow>
            let s2 = s1\<lparr>tcp_socket := Some client\<rparr> in
            if is_error (wcall_accept_ioctl sys)
            then (Inl (RuntimeError ''Failed to set socket to non-blocking mode''), s2)
            else let s3 = s2\<lparr>tcp_peer_addr := peer\<rparr> in
              (case wcall_accept_getsockname sys of
                 Error _ \<Rightarrow> (Inl (RuntimeError ''Failed to get local address''), s3)
               | Done local \<Rightarrow> (Inr True, s3\<lparr>tcp_local_addr := local, tcp_state := CONNECTED\<rparr>)))"

definition win_tcp_connect :: "unit sys \<Rightarrow> SocketAddr \<Rightarrow> TCPSocket \<Rightarrow> bool result \<times> TCPSocket" where
  "win_tcp_connect connect_call a s =
     (let s1 = (if tcp_state s = NOT_STARTED then s\<lparr>tcp_state := CONNECTING\<rparr> else s) in
      if tcp_state s1 \<noteq> CONNECTING then (Inl (RuntimeError ''Socket is not connecting''), s1)
      else
        let connected = (Inr True, s1\<lparr>tcp_state := CONNECTED, tcp_peer_addr := a\<rparr>) in
        case connect_call of
          Done _ \<Rightarrow> connected
        | Error e \<Rightarrow>
            if e = WSAEISCONN then connected
            else if wsa_real_error e
            then (Inl (RuntimeError (''Failed to connect ('' @ string_of_nat e @ '')'')), s1)
            else (Inr False, s1))"

definition win_tcp_close :: "TCPSocket \<Rightarrow> TCPSocket" where
  "win_tcp_close s = (case tcp_socket s of None \<Rightarrow> s | Some _ \<Rightarrow> s\<lparr>tcp_socket := None, tcp_state := CLOSED\<rparr>)"

definition win_refresh_state :: "nat sys \<Rightarrow> TCPSocket \<Rightarrow> TCPSocketState \<times> TCPSocket" where
  "win_refresh_state peek s =
     (let s1 = (if tcp_state s = CONNECTED
                then case peek of
                    Done n \<Rightarrow> if n = 0 then win_tcp_close s else s
                  | Error e \<Rightarrow> if wsa_real_error e then win_tcp_close s else s
                else s)
      in (tcp_state s1, s1))"

section \<open>Sending\<close>

text \<open>
  The outcomes of the loop with the number of bytes sent: everything sent (and the size of the last part),
  given up after the timeout, closed because \<open>send\<close> took nothing or the peer has reset the connection,
  an exception, or still sending. As on Linux, a call with the pointer \<open>data + sent\<close> that returns \<open>n\<close> has
  taken the \<open>n\<close> bytes there, and the loop gives what the calls have taken, one after the other.
\<close>

datatype win_send_outcome =
    WSent nat nat | WTimedOut nat | WClosed nat | WFailed fault nat | WSending nat

fun win_send_loop :: "u32 \<Rightarrow> bytes \<Rightarrow> nat \<Rightarrow> (nat \<times> nat sys) list \<Rightarrow> bytes \<times> win_send_outcome" where
  "win_send_loop timeout data sent [] = ([], WSending sent)"
| "win_send_loop timeout data sent ((elapsed, res) # tries) =
     (if timeout \<noteq> 0 \<and> unat timeout \<le> elapsed then ([], WTimedOut sent)
      else case res of
          Done n \<Rightarrow>
            if n = 0 then ([], WClosed sent)
            else if sent + n = length data then (take n (drop sent data), WSent (sent + n) n)
            else map_prod (append (take n (drop sent data))) id (win_send_loop timeout data (sent + n) tries)
        | Error e \<Rightarrow>
            if e = WSAECONNRESET then ([], WClosed sent)
            else if e \<noteq> WSAEWOULDBLOCK then ([], WFailed (RuntimeError ''Failed to send message'') sent)
            else win_send_loop timeout data sent tries)"

text \<open>What is on the wire, the fault or the bucket, and the socket. Only the last part is counted.\<close>

definition win_tcp_send ::
    "clock_now \<Rightarrow> bytes \<Rightarrow> u32 \<Rightarrow> (nat \<times> nat sys) list \<Rightarrow> TCPSocket \<Rightarrow> bucket
     \<Rightarrow> (bytes \<times> bucket result \<times> TCPSocket) option" where
  "win_tcp_send clk data timeout tries s b =
     (if tcp_state s \<noteq> CONNECTED then Some ([], Inl (RuntimeError ''Socket is not connected''), s)
      else case win_send_loop timeout data 0 tries of
          (w, WSending _) \<Rightarrow> None
        | (w, WSent n k) \<Rightarrow> Some (w, count_sent clk (tcp_measurement_storage_id s) k b, s)
        | (w, WTimedOut n) \<Rightarrow> Some (w, Inr b, s)
        | (w, WClosed n) \<Rightarrow> Some (w, Inr b, win_tcp_close s)
        | (w, WFailed f n) \<Rightarrow> Some (w, Inl f, s))"

section \<open>Receiving\<close>

definition win_tcp_receive ::
    "clock_now \<Rightarrow> bytes sys \<Rightarrow> TCPSocket \<Rightarrow> bucket \<Rightarrow> (bytes option \<times> bucket) result \<times> TCPSocket" where
  "win_tcp_receive clk recv s b =
     (if tcp_state s \<noteq> CONNECTED then (Inl (RuntimeError ''Socket is not connected''), s)
      else case recv of
          Done bs \<Rightarrow>
            if bs = [] then (Inr (None, b), win_tcp_close s)
            else (case count_received clk (tcp_measurement_storage_id s) (length bs) b of
               Inl f \<Rightarrow> (Inl f, s) | Inr b' \<Rightarrow> (Inr (Some bs, b'), s))
        | Error e \<Rightarrow>
            if wsa_real_error e then (Inl (RuntimeError ''Failed to receive_from message''), s)
            else (Inr (None, b), s))"

section \<open>UDP sockets\<close>

definition win_new_UDPSocket ::
    "win_socket_calls \<Rightarrow> bool \<Rightarrow> bool \<Rightarrow> bool \<Rightarrow> SocketId \<Rightarrow> bucket \<Rightarrow> (UDPSocket \<times> bucket) result" where
  "win_new_UDPSocket sys initialized force_port allow_broadcast socket_id b =
     and_then (win_create sys initialized force_port allow_broadcast) (\<lambda>(fd, local).
       case register_if b socket_id SOCKET_TYPE_UDP of (sid, b') \<Rightarrow>
         Inr (\<lparr>udp_socket = Some fd, udp_local_addr = local, udp_measurement_storage_id = sid\<rparr>, b'))"

definition win_udp_close :: "UDPSocket \<Rightarrow> UDPSocket" where
  "win_udp_close s = (case udp_socket s of None \<Rightarrow> s | Some _ \<Rightarrow> s\<lparr>udp_socket := None\<rparr>)"

definition win_udp_send_to :: "clock_now \<Rightarrow> nat sys \<Rightarrow> UDPSocket \<Rightarrow> bucket \<Rightarrow> (bool \<times> bucket) result" where
  "win_udp_send_to clk sendto s b =
     (case udp_socket s of None \<Rightarrow> Inr (False, b)
      | Some _ \<Rightarrow>
        (case sendto of Error _ \<Rightarrow> Inr (False, b)
         | Done n \<Rightarrow>
           if n = 0 then Inr (True, b)
           else map_sum id (\<lambda>b'. (True, b')) (count_sent clk (udp_measurement_storage_id s) n b)))"

definition win_udp_receive_from ::
    "clock_now \<Rightarrow> (bytes \<times> SocketAddr) sys \<Rightarrow> UDPSocket \<Rightarrow> bucket
     \<Rightarrow> ((bytes \<times> SocketAddr) option \<times> bucket) result" where
  "win_udp_receive_from clk recvfrom s b =
     (case udp_socket s of None \<Rightarrow> Inr (None, b)
      | Some _ \<Rightarrow>
        (case recvfrom of
           Error e \<Rightarrow>
             if wsa_real_error e then Inl (RuntimeError ''Failed to receive_from message'') else Inr (None, b)
         | Done (bs, sender) \<Rightarrow>
             map_sum id (\<lambda>b'. (Some (bs, sender), b'))
               (count_received clk (udp_measurement_storage_id s) (length bs) b)))"

definition win_udp_is_open :: "UDPSocket \<Rightarrow> bool" where
  "win_udp_is_open s \<longleftrightarrow> udp_socket s \<noteq> None"

section \<open>Broadcast addresses\<close>

text \<open>A row of the table of interfaces, in network order.\<close>

record ip_addr_row =
  row_addr :: u32
  row_bcast_addr :: u32
  row_mask :: u32

definition broadcast_of :: "ip_addr_row \<Rightarrow> InetAddr list" where
  "broadcast_of r =
     (if row_addr r \<noteq> 0 \<and> row_bcast_addr r \<noteq> 0 \<and> row_mask r \<noteq> 0
      then if ntohl (row_addr r) = INET_ADDR_LOOPBACK then [ntohl (row_addr r)]
           else [or (ntohl (row_addr r)) (not (ntohl (row_mask r)))]
      else [])"

definition get_broadcast_addresses :: "ip_addr_row list sys \<Rightarrow> InetAddr list result" where
  "get_broadcast_addresses table =
     (case table of Error _ \<Rightarrow> Inl (RuntimeError ''Failed to get IP address table'')
      | Done rows \<Rightarrow> Inr (concat (map broadcast_of rows)))"

section \<open>The two implementations\<close>

text \<open>An answer of WinSock's \<open>send\<close> as the one of Linux: only \<open>WSAEWOULDBLOCK\<close> means to try again.\<close>

fun posix_answer :: "nat sys \<Rightarrow> nat sys" where
  "posix_answer (Done n) = Done n"
| "posix_answer (Error e) = Error (if e = WSAEWOULDBLOCK then EWOULDBLOCK else ECONNRESET)"

text \<open>
  The loops take the same bytes and stop at the same place, and say that everything was sent for the same
  answers. The size that Windows counts then is the one of the last part.
\<close>

fun same_outcome :: "win_send_outcome \<Rightarrow> send_outcome \<Rightarrow> bool" where
  "same_outcome (WSent n k) r = (r = Sent n)"
| "same_outcome (WTimedOut n) r = (r = TimedOut n)"
| "same_outcome (WClosed n) r = (r = SendFailed (RuntimeError ''Failed to send message'') n)"
| "same_outcome (WFailed f n) r = (r = SendFailed f n)"
| "same_outcome (WSending n) r = (r = Sending n)"

lemma send_loops_agree:
  assumes "\<forall>(t, r) \<in> set tries. r \<noteq> Done 0"
  shows "fst (win_send_loop timeout data sent tries) = fst (send_loop timeout data sent (map (map_prod id posix_answer) tries))
    \<and> same_outcome (snd (win_send_loop timeout data sent tries))
        (snd (send_loop timeout data sent (map (map_prod id posix_answer) tries)))"
  using assms
proof (induction timeout data sent tries rule: win_send_loop.induct)
  case (2 timeout data sent elapsed res tries)
  then show ?case
    by (cases res) (auto simp: wsa_defs errno_defs)
qed simp

lemma win_last_part: "snd (win_send_loop timeout data sent tries) = WSent n k \<Longrightarrow> 0 < k \<and> sent + k \<le> n"
  by (induction timeout data sent tries rule: win_send_loop.induct)
    (fastforce split: if_splits sys.splits)+

lemma honest_posix: "honest_send n tries \<Longrightarrow> honest_send n (map (map_prod id posix_answer) tries)"
proof (induction n tries rule: honest_send.induct)
  case (2 n t r tries)
  have "accepted (posix_answer r) = accepted r" by (cases r) simp_all
  with 2 show ?case by simp
qed simp

text \<open>C28: both implementations put the same bytes on the wire. When \<open>send\<close> gives the same answers, never takes
  more than it is given and never takes nothing, the server's call on Windows and the one on Linux return
  for the same answers and have handed the same bytes, a prefix of the message, to the system. They differ
  in what they report: after the whole message Linux counts its length and Windows the size \<open>k\<close> of the
  last part, a reset connection is an exception on Linux and closes the socket on Windows.\<close>

theorem same_bytes_on_the_wire:
  assumes "\<forall>(t, r) \<in> set tries. r \<noteq> Done 0" "honest_send (length data) tries" "tcp_state s = CONNECTED"
  shows "map_option fst (win_tcp_send clk data timeout tries s b)
      = map_option fst (tcp_send clk data timeout (map (map_prod id posix_answer) tries) s b)
    \<and> (\<forall>w r t r'. win_tcp_send clk data timeout tries s b = Some (w, r, t) \<longrightarrow>
        tcp_send clk data timeout (map (map_prod id posix_answer) tries) s b = Some (w, r') \<longrightarrow>
        w = take (length w) data
        \<and> (case snd (win_send_loop timeout data 0 tries) of
             WSent n k \<Rightarrow> w = data \<and> t = s \<and> k \<le> length data
               \<and> r = count_sent clk (tcp_measurement_storage_id s) k b
               \<and> r' = count_sent clk (tcp_measurement_storage_id s) (length data) b
           | WTimedOut n \<Rightarrow> r = Inr b \<and> r' = Inr b \<and> t = s
           | WClosed n \<Rightarrow> r = Inr b \<and> r' = Inl (RuntimeError ''Failed to send message'') \<and> t = win_tcp_close s
           | _ \<Rightarrow> r = Inl (RuntimeError ''Failed to send message'') \<and> r' = r \<and> t = s))"
proof -
  let ?tries = "map (map_prod id posix_answer) tries"
  obtain w o1 where win: "win_send_loop timeout data 0 tries = (w, o1)" by fastforce
  obtain o2 where posix: "send_loop timeout data 0 ?tries = (w, o2)" and same: "same_outcome o1 o2"
    using send_loops_agree [OF assms(1), of timeout data 0] win by (metis fst_conv prod.collapse snd_conv)
  have prefix: "w = take (length w) data"
    using send_loop_wire [of 0 data ?tries timeout] honest_posix [OF assms(2)] posix by auto
  show ?thesis
  proof (cases o1)
    case (WSent n k)
    then have "n = length data" "w = data"
      using send_loop_Sent [of timeout data 0 ?tries n] same posix by auto
    moreover have "k \<le> n"
      using win_last_part [of timeout data 0 tries n k] WSent win by simp
    ultimately show ?thesis
      using WSent same assms(3) by (simp add: win_tcp_send_def tcp_send_def win posix)
  next
    case (WFailed f n)
    then have "f = RuntimeError ''Failed to send message''"
      using send_loop_failure [of timeout data 0 ?tries f n] same posix by simp
    then show ?thesis
      using WFailed same assms(3) prefix by (simp add: win_tcp_send_def tcp_send_def win posix)
  qed (use same assms(3) prefix in \<open>simp_all add: win_tcp_send_def tcp_send_def win posix\<close>)
qed

theorem same_bytes_on_the_wire_witness:
  "win_tcp_send (\<lambda>_. 0) [1, 2, 3] 100 [(0, Done 2), (50, Error WSAECONNRESET)] example_socket None
     = Some ([1, 2], Inr None, win_tcp_close example_socket)
   \<and> map_option fst (tcp_send (\<lambda>_. 0) [1, 2, 3] 100 [(0, Done 2), (50, Error ECONNRESET)] example_socket None) = Some [1, 2]"
proof -
  have win: "win_tcp_send (\<lambda>_. 0) [1, 2, 3] 100 [(0, Done 2), (50, Error WSAECONNRESET)] example_socket None
     = Some ([1, 2], Inr None, win_tcp_close example_socket)"
    by (simp add: win_tcp_send_def example_socket_def wsa_defs)
  have "map_option fst (win_tcp_send (\<lambda>_. 0) [1, 2, 3] 100 [(0, Done 2), (50, Error WSAECONNRESET)] example_socket None)
      = map_option fst (tcp_send (\<lambda>_. 0) [1, 2, 3] 100 (map (map_prod id posix_answer) [(0, Done 2), (50, Error WSAECONNRESET)])
          example_socket None)"
    by (rule conjunct1 [OF same_bytes_on_the_wire]) (simp_all add: example_socket_def)
  with win show ?thesis by (simp add: wsa_defs)
qed

text \<open>Unlike on Linux, an orderly shutdown of the peer closes the socket at the next \<open>receive\<close>; a reset
  connection throws there, and on Linux it closes the socket.\<close>

lemma shutdown_closes: "tcp_state s = CONNECTED \<Longrightarrow> win_tcp_receive clk (Done []) s b = (Inr (None, b), win_tcp_close s)"
  by (simp add: win_tcp_receive_def)

lemma reset_throws:
  assumes "tcp_state s = CONNECTED"
  shows "win_tcp_receive clk (Error WSAECONNRESET) s b = (Inl (RuntimeError ''Failed to receive_from message''), s)"
    "tcp_receive clk (Error ECONNRESET) s b = (Inr (None, b), tcp_close s)"
  using assms by (simp_all add: win_tcp_receive_def tcp_receive_def wsa_real_error_def wsa_defs)

text \<open>Only the last part of a message counts as sent: for a message that goes out in two parts, the bytes of the
  first one are missing from the measurements.\<close>

lemma first_part_not_counted:
  assumes "tcp_state s = CONNECTED" "0 < k" "k < length data"
  shows "win_tcp_send clk data 0 [(0, Done k), (0, Done (length data - k))] s b
      = Some (data, count_sent clk (tcp_measurement_storage_id s) (length data - k) b, s)"
    "tcp_send clk data 0 [(0, Done k), (0, Done (length data - k))] s b
      = Some (data, count_sent clk (tcp_measurement_storage_id s) (length data) b)"
  using assms by (simp_all add: win_tcp_send_def tcp_send_def)

text \<open>An empty message closes the connection.\<close>

lemma empty_message_closes:
  "tcp_state s = CONNECTED \<Longrightarrow> win_tcp_send clk [] 0 [(0, Done 0)] s b = Some ([], Inr b, win_tcp_close s)"
  by (simp add: win_tcp_send_def)

text \<open>A datagram refused by its receiver (a port nobody listens on) ends the next reception in an exception.\<close>

lemma refused_datagram_throws:
  "udp_socket s = Some fd \<Longrightarrow>
     win_udp_receive_from clk (Error WSAECONNRESET) s b = Inl (RuntimeError ''Failed to receive_from message'')"
  by (simp add: win_udp_receive_from_def wsa_real_error_def wsa_defs)

text \<open>The state machine of the connection is the one of theory \<open>Sockets\<close>.\<close>

lemma windows_state_machine:
  "fst (win_tcp_listen sys s) = Inr True \<Longrightarrow>
     tcp_state s \<in> {NOT_STARTED, LISTENING} \<and> tcp_state (snd (win_tcp_listen sys s)) = CONNECTED"
  "fst (win_tcp_connect c a s) = Inr True \<Longrightarrow>
     tcp_state s \<in> {NOT_STARTED, CONNECTING} \<and> tcp_state (snd (win_tcp_connect c a s)) = CONNECTED"
  "tcp_state s = CLOSED \<Longrightarrow> tcp_state (snd (win_refresh_state peek s)) = CLOSED
     \<and> tcp_state (snd (win_tcp_receive clk recv s b)) = CLOSED
     \<and> win_tcp_send clk data t tries s b = Some ([], Inl (RuntimeError ''Socket is not connected''), s)"
  subgoal by (cases "tcp_state s")
      (auto simp: win_tcp_listen_def win_enable_server_def Let_def split: if_splits sys.splits prod.splits)
  subgoal by (cases "tcp_state s") (auto simp: win_tcp_connect_def Let_def split: if_splits sys.splits)
  subgoal by (simp add: win_refresh_state_def win_tcp_receive_def win_tcp_send_def Let_def)
  done

text \<open>A broadcast address has the network's bits of its interface and ones behind them.\<close>

lemma broadcast_bits:
  assumes "ntohl (row_addr r) \<noteq> INET_ADDR_LOOPBACK" "broadcast_of r = [a]"
  shows "and a (ntohl (row_mask r)) = and (ntohl (row_addr r)) (ntohl (row_mask r))" "or a (ntohl (row_mask r)) = - 1"
proof -
  have a: "a = or (ntohl (row_addr r)) (not (ntohl (row_mask r)))"
    using assms by (auto simp: broadcast_of_def split: if_splits)
  show "and a (ntohl (row_mask r)) = and (ntohl (row_addr r)) (ntohl (row_mask r))"
    by (rule bit_eqI) (auto simp: a bit_simps)
  show "or a (ntohl (row_mask r)) = - 1"
    by (rule bit_eqI) (auto simp: a bit_simps)
qed

end
