(* ===== verification/Subprocess.thy ===== *)
theory Subprocess
  imports Prelude
begin

text \<open>
  \<open>common/src/subprocess_windows.cpp\<close> and \<open>subprocess.h\<close>: a process that the server starts and stops. What
  Windows answers is an argument, its calls are recorded. A handle is a number.
\<close>

section \<open>The calls and the members\<close>

datatype process_call =
    Create_process string string
  | Post_close nat
  | Wait_process nat u32
  | Terminate_process nat
  | Close_handle "nat option"

text \<open>A process has a handle, the handle of its thread, and the numbers of both.\<close>

record process_info =
  pi_process :: nat
  pi_thread :: nat
  pi_process_id :: u32
  pi_thread_id :: u32

record Subprocess =
  sp_path :: string
  sp_working_directory :: string
  sp_process_handle :: "nat option"
  sp_thread_handle :: "nat option"
  sp_process_id :: u32
  sp_thread_id :: u32
  sp_calls :: "process_call list"

definition new_Subprocess :: "string \<Rightarrow> string \<Rightarrow> Subprocess" where
  "new_Subprocess path dir = \<lparr>sp_path = path, sp_working_directory = dir, sp_process_handle = None,
     sp_thread_handle = None, sp_process_id = 0, sp_thread_id = 0, sp_calls = []\<rparr>"

definition sp_call :: "process_call list \<Rightarrow> Subprocess \<Rightarrow> Subprocess" where
  "sp_call cs p = p\<lparr>sp_calls := sp_calls p @ cs\<rparr>"

definition close_handles :: "Subprocess \<Rightarrow> Subprocess" where
  "close_handles p = (sp_call [Close_handle (sp_process_handle p), Close_handle (sp_thread_handle p)] p)
     \<lparr>sp_process_handle := None, sp_thread_handle := None, sp_process_id := 0, sp_thread_id := 0\<rparr>"

text \<open>\<open>terminated\<close> is whether Windows ends the process.\<close>

definition sp_kill :: "bool \<Rightarrow> Subprocess \<Rightarrow> Subprocess" where
  "sp_kill terminated p =
     (case sp_process_handle p of None \<Rightarrow> p
      | Some h \<Rightarrow> let p1 = sp_call [Terminate_process h] p in if \<not> terminated then p1 else close_handles p1)"

text \<open>The windows from the top one on, with the process of each.\<close>

fun find_window :: "u32 \<Rightarrow> (nat \<times> u32) list \<Rightarrow> nat option" where
  "find_window pid [] = None"
| "find_window pid ((hwnd, owner) # ws) = (if owner = pid then Some hwnd else find_window pid ws)"

record stop_env =
  st_windows :: "(nat \<times> u32) list"
  st_timed_out :: bool
  st_terminated :: bool

definition WVB_SUBPROCESS_TIMEOUT_MS :: u32 where "WVB_SUBPROCESS_TIMEOUT_MS = 1000"

definition sp_stop :: "stop_env \<Rightarrow> u32 \<Rightarrow> bool \<Rightarrow> Subprocess \<Rightarrow> Subprocess" where
  "sp_stop env timeout_ms send_signal p =
     (case sp_process_handle p of None \<Rightarrow> p
      | Some h \<Rightarrow>
          let p1 = (if send_signal then (case find_window (sp_process_id p) (st_windows env) of
                None \<Rightarrow> p | Some hwnd \<Rightarrow> sp_call [Post_close hwnd] p) else p);
              p2 = sp_call [Wait_process h timeout_ms] p1;
              p3 = (if st_timed_out env then sp_kill (st_terminated env) p2 else p2)
          in close_handles p3)"

definition sp_start :: "stop_env \<Rightarrow> process_info option \<Rightarrow> Subprocess \<Rightarrow> bool \<times> Subprocess" where
  "sp_start env created p =
     (let p1 = (if sp_process_handle p \<noteq> None then sp_stop env WVB_SUBPROCESS_TIMEOUT_MS False p else p);
          p2 = sp_call [Create_process (sp_path p) (sp_working_directory p)] p1
      in case created of None \<Rightarrow> (False, p2)
         | Some i \<Rightarrow> (True, p2\<lparr>sp_process_handle := Some (pi_process i), sp_thread_handle := Some (pi_thread i),
             sp_process_id := pi_process_id i, sp_thread_id := pi_thread_id i\<rparr>))"

definition STILL_ACTIVE :: u32 where "STILL_ACTIVE = 259"

text \<open>\<open>exit_code\<close> is what \<open>GetExitCodeProcess\<close> gives; it is the same for a process that returned 259.\<close>

definition sp_is_running :: "u32 option \<Rightarrow> Subprocess option \<Rightarrow> bool" where
  "sp_is_running exit_code p \<longleftrightarrow>
     (case p of None \<Rightarrow> False
      | Some s \<Rightarrow> sp_process_handle s \<noteq> None \<and> exit_code = Some STILL_ACTIVE)"

definition sp_destroy :: "stop_env \<Rightarrow> Subprocess option \<Rightarrow> process_call list" where
  "sp_destroy env p = (case p of None \<Rightarrow> [] | Some s \<Rightarrow>
     drop (length (sp_calls s)) (sp_calls (sp_stop env WVB_SUBPROCESS_TIMEOUT_MS False s)))"

section \<open>Handles\<close>

text \<open>Both handles are open or none is, and an open process has been neither closed nor closed twice.\<close>

fun closed_handles :: "process_call list \<Rightarrow> nat list" where
  "closed_handles [] = []"
| "closed_handles (Close_handle (Some h) # cs) = h # closed_handles cs"
| "closed_handles (_ # cs) = closed_handles cs"

lemma closed_append [simp]: "closed_handles (xs @ ys) = closed_handles xs @ closed_handles ys"
  by (induction xs rule: closed_handles.induct) auto

definition handles_ok :: "Subprocess \<Rightarrow> bool" where
  "handles_ok p \<longleftrightarrow> (sp_process_handle p = None \<longleftrightarrow> sp_thread_handle p = None)"

lemma stop_closes:
  assumes "handles_ok p" "sp_process_handle p = Some h" "sp_thread_handle p = Some t"
  shows "sp_process_handle (sp_stop env timeout sig p) = None \<and> sp_thread_handle (sp_stop env timeout sig p) = None
    \<and> closed_handles (sp_calls (sp_stop env timeout sig p)) = closed_handles (sp_calls p) @ [h, t]"
  using assms by (auto simp: sp_stop_def sp_kill_def close_handles_def sp_call_def Let_def split: option.split)

lemma start_again_closes:
  assumes "handles_ok p" "sp_start env (Some i) p = (r, q)"
  shows "r \<and> handles_ok q \<and> sp_process_handle q = Some (pi_process i)
    \<and> closed_handles (sp_calls q) = closed_handles (sp_calls p)
       @ (case (sp_process_handle p, sp_thread_handle p) of (Some h, Some t) \<Rightarrow> [h, t] | _ \<Rightarrow> [])"
proof (cases "sp_process_handle p")
  case None
  then show ?thesis using assms by (auto simp: sp_start_def sp_call_def handles_ok_def)
next
  case (Some h)
  then obtain t where "sp_thread_handle p = Some t" using assms(1) by (auto simp: handles_ok_def)
  note c = stop_closes [OF assms(1) Some this, of env WVB_SUBPROCESS_TIMEOUT_MS False]
  from Some \<open>sp_thread_handle p = Some t\<close> show ?thesis using assms c
    by (auto simp: sp_start_def sp_call_def handles_ok_def Let_def)
qed

text \<open>After a time-out, \<open>kill\<close> closes the handles and \<open>stop\<close> closes null handles once more.\<close>

lemma stop_closes_null:
  assumes "sp_process_handle p = Some h" "st_timed_out env" "st_terminated env"
  shows "\<exists>cs. sp_calls (sp_stop env timeout False p) = cs @ [Close_handle None, Close_handle None]"
  using assms by (simp add: sp_stop_def sp_kill_def close_handles_def sp_call_def Let_def)

text \<open>When the process cannot be terminated, \<open>stop\<close> forgets it although it may still run.\<close>

lemma stop_forgets_process:
  assumes "sp_process_handle p = Some h" "st_timed_out env" "\<not> st_terminated env"
  shows "\<not> sp_is_running code (Some (sp_stop env timeout sig p))"
  by (cases "sp_process_handle p") (simp_all add: sp_is_running_def sp_stop_def close_handles_def Let_def)

end
